(* ===== verification/Cbth_Prelude.thy ===== *)
theory Cbth_Prelude
  imports Main "HOL-Library.Char_ord" "HOL-Library.List_Lexorder" "HOL-Library.Product_Lexorder"
    "HOL-Library.Option_ord"
begin

text \<open>
  Shared vocabulary of the development: the result type of a fallible operation and its
  sequencing, \<open>i64\<close> arithmetic with its overflow behaviour, and the SQL operations the store
  performs on a table, seen as the list of its rows in insertion order.
\<close>

named_theorems store_defs "definitions of the SQL-level operations of the store"
named_theorems frame "which table an operation leaves alone"

section \<open>Results\<close>

text \<open>
  \<open>chain r k\<close> is Rust's \<open>let x = r?; k x\<close>: an error returns early. \<open>require c e\<close> is
  \<open>if c { Ok(()) } else { bail!(e) }\<close>. \<open>for_each\<close> is a \<open>for\<close> loop whose body may return early.
\<close>

definition chain :: "'e + 'a \<Rightarrow> ('a \<Rightarrow> 'e + 'b) \<Rightarrow> 'e + 'b" where
  "chain r k = (case r of Inl e \<Rightarrow> Inl e | Inr x \<Rightarrow> k x)"

definition require :: "bool \<Rightarrow> 'e \<Rightarrow> 'e + unit" where
  "require c e = (if c then Inr () else Inl e)"

definition ok_or :: "'e \<Rightarrow> 'a option \<Rightarrow> 'e + 'a" where
  "ok_or e v = (case v of None \<Rightarrow> Inl e | Some x \<Rightarrow> Inr x)"

fun for_each :: "('a \<Rightarrow> 's \<Rightarrow> 'e + 's) \<Rightarrow> 'a list \<Rightarrow> 's \<Rightarrow> 'e + 's" where
  "for_each f [] s = Inr s"
| "for_each f (x # xs) s = chain (f x s) (for_each f xs)"

text \<open>\<open>map_ok f xs\<close> is \<open>xs.map(f).collect::<Result<Vec<_>>>()\<close>: the first error, or all results.\<close>

fun map_ok :: "('a \<Rightarrow> 'e + 'b) \<Rightarrow> 'a list \<Rightarrow> 'e + 'b list" where
  "map_ok f [] = Inr []"
| "map_ok f (x # xs) = chain (f x) (\<lambda>y. chain (map_ok f xs) (\<lambda>ys. Inr (y # ys)))"

text \<open>\<open>str::strip_prefix\<close>, \<open>str::split_once\<close> with its first part.\<close>

definition strip_prefix :: "string \<Rightarrow> string \<Rightarrow> string option" where
  "strip_prefix p s = (if take (length p) s = p then Some (drop (length p) s) else None)"

definition split_once_fst :: "char \<Rightarrow> string \<Rightarrow> string option" where
  "split_once_fst c s = (if c \<in> set s then Some (takeWhile (\<lambda>x. x \<noteq> c) s) else None)"

text \<open>The pieces between the occurrences of a character, and \<open>Path::is_absolute\<close>.\<close>

fun split_on :: "char \<Rightarrow> string \<Rightarrow> string list" where
  "split_on c [] = [[]]"
| "split_on c (x # xs) =
     (if x = c then [] # split_on c xs
      else case split_on c xs of [] \<Rightarrow> [[x]] | piece # pieces \<Rightarrow> (x # piece) # pieces)"

definition is_absolute :: "string \<Rightarrow> bool" where
  "is_absolute s \<longleftrightarrow> take 1 s = ''/''"

text \<open>\<open>i64::clamp\<close>.\<close>

definition clamp_int :: "int \<Rightarrow> int \<Rightarrow> int \<Rightarrow> int" where
  "clamp_int lo hi x = max lo (min hi x)"

definition is_ok :: "'e + 'a \<Rightarrow> bool" where
  "is_ok r = (case r of Inl _ \<Rightarrow> False | Inr _ \<Rightarrow> True)"

lemma chain_Inl [simp]: "chain (Inl e) k = Inl e"
  and chain_Inr [simp]: "chain (Inr x) k = k x"
  by (simp_all add: chain_def)

lemma chain_ok_iff [simp]: "chain r k = Inr y \<longleftrightarrow> (\<exists>x. r = Inr x \<and> k x = Inr y)"
  by (cases r) simp_all

lemma case_sum_ok_iff:
    "(case x of Inl a \<Rightarrow> f a | Inr b \<Rightarrow> g b) = Inr y \<longleftrightarrow>
      (\<exists>a. x = Inl a \<and> f a = Inr y) \<or> (\<exists>b. x = Inr b \<and> g b = Inr y)"
  and case_option_ok_iff:
    "(case z of None \<Rightarrow> r | Some c \<Rightarrow> h c) = Inr y \<longleftrightarrow>
      z = None \<and> r = Inr y \<or> (\<exists>c. z = Some c \<and> h c = Inr y)"
  by (cases x; simp) (cases z; simp)

lemma require_ok_iff [simp]: "require c e = Inr u \<longleftrightarrow> c"
  by (simp add: require_def)

lemma require_True [simp]: "require True e = Inr ()"
  and require_False [simp]: "require False e = Inl e"
  by (simp_all add: require_def)

lemma ok_or_ok_iff [simp]: "ok_or e v = Inr x \<longleftrightarrow> v = Some x"
  by (simp add: ok_or_def split: option.splits)

lemma is_ok_simps [simp]: "is_ok (Inr x)" "\<not> is_ok (Inl e)"
  by (simp_all add: is_ok_def)

lemma is_ok_iff: "is_ok r \<longleftrightarrow> (\<exists>x. r = Inr x)"
  by (cases r) simp_all

lemma not_ok_Inl: "(\<And>x. r \<noteq> Inr x) \<Longrightarrow> \<exists>e. r = Inl e"
  by (cases r) auto

text \<open>An invariant of the loop body is an invariant of the loop.\<close>

lemma for_each_invariant:
  assumes "for_each f xs s = Inr t" and "P s"
    and "\<And>x s t. x \<in> set xs \<Longrightarrow> P s \<Longrightarrow> f x s = Inr t \<Longrightarrow> P t"
  shows "P t"
  using assms
proof (induction xs arbitrary: s)
  case Nil
  then show ?case by simp
next
  case (Cons x xs)
  then obtain u where u: "f x s = Inr u" "for_each f xs u = Inr t" by auto
  have "P u" using Cons.prems(3) [OF _ Cons.prems(2) u(1)] by simp
  with u(2) show ?case using Cons.IH [of u] Cons.prems(3) by auto
qed

text \<open>A reflexive and transitive relation that the body respects relates start and end.\<close>

lemma for_each_related:
  assumes "for_each f xs s = Inr t"
    and "\<And>s. R s s" and "\<And>s t u. R s t \<Longrightarrow> R t u \<Longrightarrow> R s u"
    and "\<And>x s t. x \<in> set xs \<Longrightarrow> f x s = Inr t \<Longrightarrow> R s t"
  shows "R s t"
  using assms(1)
  by (rule for_each_invariant [where P = "R s"]) (use assms in blast)+

section \<open>Machine integers\<close>

text \<open>
  Columns and parameters of type \<open>i64\<close> are \<open>int\<close>s; the places where the code meets the ends of
  the range use the operations below (\<open>i64::checked_add\<close>, \<open>i64::saturating_sub\<close>).
\<close>

definition i64_max :: int where "i64_max = 9223372036854775807"
definition i64_min :: int where "i64_min = - 9223372036854775808"

definition in_i64 :: "int \<Rightarrow> bool" where
  "in_i64 x \<longleftrightarrow> i64_min \<le> x \<and> x \<le> i64_max"

definition checked_add :: "int \<Rightarrow> int \<Rightarrow> int option" where
  "checked_add a b = (if in_i64 (a + b) then Some (a + b) else None)"

definition saturating_add :: "int \<Rightarrow> int \<Rightarrow> int" where
  "saturating_add a b = max i64_min (min i64_max (a + b))"

definition saturating_sub :: "int \<Rightarrow> int \<Rightarrow> int" where
  "saturating_sub a b = max i64_min (min i64_max (a - b))"

lemma checked_add_Some_iff: "checked_add a b = Some c \<longleftrightarrow> c = a + b \<and> in_i64 (a + b)"
  by (auto simp: checked_add_def)

lemma saturating_sub_range: "in_i64 (saturating_sub a b)"
  by (simp add: saturating_sub_def in_i64_def i64_min_def i64_max_def)

lemma saturating_sub_exact: "in_i64 (a - b) \<Longrightarrow> saturating_sub a b = a - b"
  by (simp add: saturating_sub_def in_i64_def)

section \<open>SQL on tables\<close>

text \<open>
  \<open>UPDATE .. SET f WHERE p\<close>, \<open>DELETE .. WHERE p\<close>, the number of rows an \<open>UPDATE\<close> changed,
  \<open>SELECT MAX\<close> (NULL on no row), \<open>ORDER BY\<close> on a key that ends in the primary key,
  \<open>ORDER BY .. LIMIT 1\<close>, and comparisons with a column that may be NULL (never true on NULL).
\<close>

definition update_where :: "('r \<Rightarrow> bool) \<Rightarrow> ('r \<Rightarrow> 'r) \<Rightarrow> 'r list \<Rightarrow> 'r list" where
  "update_where p f rs = map (\<lambda>r. if p r then f r else r) rs"

definition delete_where :: "('r \<Rightarrow> bool) \<Rightarrow> 'r list \<Rightarrow> 'r list" where
  "delete_where p rs = filter (\<lambda>r. \<not> p r) rs"

definition count_where :: "('r \<Rightarrow> bool) \<Rightarrow> 'r list \<Rightarrow> int" where
  "count_where p rs = int (length (filter p rs))"

fun max_agg :: "int list \<Rightarrow> int option" where
  "max_agg [] = None"
| "max_agg (x # xs) = (case max_agg xs of None \<Rightarrow> Some x | Some m \<Rightarrow> Some (max x m))"

definition order_by :: "('r \<Rightarrow> 'k::linorder) \<Rightarrow> 'r list \<Rightarrow> 'r list" where
  "order_by k rs = sort_key k rs"

definition order_by_desc :: "('r \<Rightarrow> 'k::linorder) \<Rightarrow> 'r list \<Rightarrow> 'r list" where
  "order_by_desc k rs = rev (sort_key k rs)"

definition first_row :: "'r list \<Rightarrow> 'r option" where
  "first_row rs = (case rs of [] \<Rightarrow> None | r # _ \<Rightarrow> Some r)"

definition sql_limit :: "int \<Rightarrow> 'r list \<Rightarrow> 'r list" where
  "sql_limit n rs = take (nat n) rs"

definition null_le :: "int option \<Rightarrow> int \<Rightarrow> bool" where
  "null_le c x = (case c of None \<Rightarrow> False | Some v \<Rightarrow> v \<le> x)"

definition null_gt :: "int option \<Rightarrow> int \<Rightarrow> bool" where
  "null_gt c x = (case c of None \<Rightarrow> False | Some v \<Rightarrow> x < v)"

definition coalesce :: "'a option \<Rightarrow> 'a \<Rightarrow> 'a" where
  "coalesce c x = (case c of None \<Rightarrow> x | Some v \<Rightarrow> v)"

lemma coalesce_simps [simp]: "coalesce None x = x" "coalesce (Some v) x = v"
  by (simp_all add: coalesce_def)

lemma update_where_Nil [simp]: "update_where p f [] = []"
  and update_where_Cons [simp]:
    "update_where p f (r # rs) = (if p r then f r else r) # update_where p f rs"
  and update_where_append [simp]:
    "update_where p f (rs @ ss) = update_where p f rs @ update_where p f ss"
  and length_update_where [simp]: "length (update_where p f rs) = length rs"
  by (simp_all add: update_where_def)

lemma set_update_where: "set (update_where p f rs) = (\<lambda>r. if p r then f r else r) ` set rs"
  by (simp add: update_where_def)

lemma update_where_mem:
  assumes "q \<in> set (update_where p f rs)"
  obtains r where "r \<in> set rs" "q = (if p r then f r else r)"
  using assms unfolding set_update_where by (elim imageE)

lemma update_where_none: "\<forall>r\<in>set rs. \<not> p r \<Longrightarrow> update_where p f rs = rs"
  by (induction rs) auto

lemma map_update_where:
  "(\<And>r. p r \<Longrightarrow> g (f r) = g r) \<Longrightarrow> map g (update_where p f rs) = map g rs"
  by (simp add: update_where_def)

lemma distinct_key_eq:
  "distinct (map k rs) \<Longrightarrow> q \<in> set rs \<Longrightarrow> r \<in> set rs \<Longrightarrow> k q = k r \<Longrightarrow> q = r"
  by (simp add: distinct_map inj_on_def)

lemma set_delete_where [simp]: "set (delete_where p rs) = {r \<in> set rs. \<not> p r}"
  by (simp add: delete_where_def)

lemma distinct_map_delete_where: "distinct (map g rs) \<Longrightarrow> distinct (map g (delete_where p rs))"
  by (simp add: delete_where_def distinct_map_filter)

lemma count_where_pos_iff: "0 < count_where p rs \<longleftrightarrow> (\<exists>r\<in>set rs. p r)"
  by (induction rs) (auto simp: count_where_def)

lemma count_where_zero_iff: "count_where p rs = 0 \<longleftrightarrow> (\<forall>r\<in>set rs. \<not> p r)"
  by (simp add: count_where_def filter_empty_conv)

lemma count_where_nonneg [simp]: "0 \<le> count_where p rs"
  by (simp add: count_where_def)

lemma max_agg_None_iff [simp]: "max_agg xs = None \<longleftrightarrow> xs = []"
  by (cases xs) (auto split: option.splits)

lemma max_agg_Some_iff: "max_agg xs = Some m \<longleftrightarrow> m \<in> set xs \<and> (\<forall>x\<in>set xs. x \<le> m)"
proof (induction xs arbitrary: m)
  case Nil
  then show ?case by simp
next
  case (Cons x xs)
  show ?case
  proof (cases "max_agg xs")
    case None
    then show ?thesis by auto
  next
    case (Some k)
    then have "k \<in> set xs" "\<forall>y\<in>set xs. y \<le> k" using Cons.IH by blast+
    with Some show ?thesis by (auto simp: max_def split: if_splits intro: order.antisym)
  qed
qed

lemma set_order_by [simp]: "set (order_by k rs) = set rs"
  by (simp add: order_by_def)

lemma set_order_by_desc [simp]: "set (order_by_desc k rs) = set rs"
  by (simp add: order_by_desc_def)

lemma set_sql_limit: "set (sql_limit n rs) \<subseteq> set rs"
  by (simp add: sql_limit_def set_take_subset)

lemma length_sql_limit: "0 \<le> n \<Longrightarrow> int (length (sql_limit n rs)) \<le> n"
  by (simp add: sql_limit_def)

lemma first_row_None_iff [simp]: "first_row rs = None \<longleftrightarrow> rs = []"
  by (cases rs) (simp_all add: first_row_def)

lemma first_row_mem: "first_row rs = Some r \<Longrightarrow> r \<in> set rs"
  by (cases rs) (simp_all add: first_row_def)

lemma first_row_order_by:
  assumes "first_row (order_by k rs) = Some r"
  shows "r \<in> set rs" and "\<And>s. s \<in> set rs \<Longrightarrow> k r \<le> k s"
proof -
  have "\<exists>ss. sort_key k rs = r # ss"
    using assms unfolding first_row_def order_by_def by (simp split: list.splits)
  then obtain ss where ss: "sort_key k rs = r # ss" ..
  have rs: "set rs = insert r (set ss)" using ss set_sort [of k rs] by simp
  then show "r \<in> set rs" by simp
  have "sorted (map k (sort_key k rs))" by (rule sorted_sort_key)
  then have least: "\<forall>q\<in>set ss. k r \<le> k q" unfolding ss by simp
  fix s assume "s \<in> set rs"
  then have "s = r \<or> s \<in> set ss" using rs by simp
  with least show "k r \<le> k s" by (elim disjE) simp_all
qed

text \<open>The head of a queue: a row is the first one exactly when its key is the least.\<close>

lemma first_row_order_by_iff:
  assumes "inj_on k (set rs)"
  shows "first_row (order_by k rs) = Some r \<longleftrightarrow> r \<in> set rs \<and> (\<forall>s\<in>set rs. k r \<le> k s)"
proof
  assume r: "first_row (order_by k rs) = Some r"
  show "r \<in> set rs \<and> (\<forall>s\<in>set rs. k r \<le> k s)"
    using first_row_order_by(1) [OF r] first_row_order_by(2) [OF r] by simp
next
  assume r: "r \<in> set rs \<and> (\<forall>s\<in>set rs. k r \<le> k s)"
  then have "order_by k rs \<noteq> []" by (metis empty_iff set_empty set_order_by)
  then obtain q where q: "first_row (order_by k rs) = Some q"
    by (meson first_row_None_iff not_None_eq)
  have "q \<in> set rs" "k q \<le> k r"
    using first_row_order_by(1) [OF q] first_row_order_by(2) [OF q] r by simp_all
  with r have "k q = k r" by (meson order.antisym)
  with assms r \<open>q \<in> set rs\<close> have "q = r" by (auto dest: inj_onD)
  with q show "first_row (order_by k rs) = Some r" by simp
qed

section \<open>Rows over time\<close>

text \<open>
  \<open>rows_evolve R rs rs'\<close>: every row of \<open>rs\<close> is still there, at its place, in a version that \<open>R\<close>
  relates to the old one, and rows may have been added at the end. For a reflexive and transitive
  \<open>R\<close> it is a preorder, which \<open>UPDATE\<close> and \<open>INSERT\<close> respect.
\<close>

definition rows_evolve :: "('r \<Rightarrow> 'r \<Rightarrow> bool) \<Rightarrow> 'r list \<Rightarrow> 'r list \<Rightarrow> bool" where
  "rows_evolve R rs rs' \<longleftrightarrow> (\<exists>olds news. rs' = olds @ news \<and> list_all2 R rs olds)"

lemma rows_evolve_refl: "(\<And>r. R r r) \<Longrightarrow> rows_evolve R rs rs"
  unfolding rows_evolve_def by (rule exI [of _ rs]) (simp add: list_all2_refl)

lemma rows_evolve_trans:
  assumes "rows_evolve R rs ss" "rows_evolve R ss ts"
    and trans: "\<And>a b c. R a b \<Longrightarrow> R b c \<Longrightarrow> R a c"
  shows "rows_evolve R rs ts"
proof -
  obtain o1 n1 where 1: "ss = o1 @ n1" "list_all2 R rs o1"
    using assms(1) by (auto simp: rows_evolve_def)
  obtain o2 n2 where 2: "ts = o2 @ n2" "list_all2 R (o1 @ n1) o2"
    using assms(2) 1(1) by (auto simp: rows_evolve_def)
  obtain p q where pq: "o2 = p @ q" "list_all2 R o1 p"
    using 2(2) by (auto simp: list_all2_append1)
  have "list_all2 R rs p" by (rule list_all2_trans [OF _ 1(2) pq(2)]) (rule trans)
  with 2(1) pq(1) show ?thesis unfolding rows_evolve_def by auto
qed

lemma rows_evolve_update:
  "(\<And>r. R r r) \<Longrightarrow> (\<And>r. r \<in> set rs \<Longrightarrow> p r \<Longrightarrow> R r (f r)) \<Longrightarrow> rows_evolve R rs (update_where p f rs)"
  unfolding rows_evolve_def
  by (rule exI [of _ "update_where p f rs"])
    (auto simp: list_all2_conv_all_nth update_where_def)

lemma rows_evolve_insert: "(\<And>r. R r r) \<Longrightarrow> rows_evolve R rs (rs @ ss)"
  unfolding rows_evolve_def by (rule exI [of _ rs]) (simp add: list_all2_refl)

lemma rows_evolve_mem:
  "rows_evolve R rs rs' \<Longrightarrow> r \<in> set rs \<Longrightarrow> \<exists>r'\<in>set rs'. R r r'"
  unfolding rows_evolve_def by (force simp: in_set_conv_nth list_all2_conv_all_nth)

end
