(* ===== verification/Cbth_Model.thy ===== *)
theory Cbth_Model
  imports Cbth_Prelude
begin

text \<open>
  The data of the store (\<open>src/models.rs\<close> and the schema of \<open>migrate\<close> in \<open>src/store.rs\<close>): a column
  with \<open>CHECK (c IN (..))\<close> is the datatype of those values, with its text; a table is the list of
  its rows in insertion order; an \<open>INSERT\<close> checks the table's PRIMARY KEY, UNIQUE and FOREIGN KEY
  constraints. A row's fields carry a prefix naming their table (\<open>j_\<close> jobs, \<open>t_\<close> tasks, \<open>ar_\<close>
  artifacts, \<open>ai_\<close> artifact ingests, \<open>b_\<close> batches, \<open>bj_\<close> batch jobs, \<open>p_\<close> plugin delivery requests,
  \<open>s_\<close> CLI managed sessions, \<open>a_\<close> delivery attempts, \<open>au_\<close> audit decisions, \<open>di_\<close> the desktop
  installation, \<open>dk_\<close> desktop bindings, \<open>rc_\<close> relay consumptions, \<open>sc_\<close> relay scanner bindings, \<open>mk_\<close>
  relay markers).
\<close>

section \<open>Constants\<close>

definition DEFAULT_REDELIVERY_WINDOW_SECONDS :: int where
  "DEFAULT_REDELIVERY_WINDOW_SECONDS = 24 * 60 * 60"
definition POST_CLOSE_ARTIFACT_TTL_SECONDS :: int where
  "POST_CLOSE_ARTIFACT_TTL_SECONDS = 72 * 60 * 60"
definition ORPHAN_ARTIFACT_GRACE_SECONDS :: int where
  "ORPHAN_ARTIFACT_GRACE_SECONDS = 60 * 60"
definition MAX_STALE_ARTIFACT_INGESTS_PER_SWEEP :: int where
  "MAX_STALE_ARTIFACT_INGESTS_PER_SWEEP = 100"
definition MAX_EXPIRED_BATCHES_PER_SWEEP :: int where
  "MAX_EXPIRED_BATCHES_PER_SWEEP = 100"
definition MAX_DELETABLE_ARTIFACTS_PER_SWEEP :: int where
  "MAX_DELETABLE_ARTIFACTS_PER_SWEEP = 100"
definition MAX_DELETABLE_TASK_LOG_DIRS_PER_SWEEP :: int where
  "MAX_DELETABLE_TASK_LOG_DIRS_PER_SWEEP = 100"
definition MAX_MANIFEST_SYNCS_PER_SWEEP :: int where
  "MAX_MANIFEST_SYNCS_PER_SWEEP = 100"
definition CLI_ACCEPT_PENDING_TIMEOUT_SECONDS :: int where
  "CLI_ACCEPT_PENDING_TIMEOUT_SECONDS = 5 * 60"
definition CODEX_APP_SERVER_ACCEPT_PENDING_TIMEOUT_SECONDS :: int where
  "CODEX_APP_SERVER_ACCEPT_PENDING_TIMEOUT_SECONDS = 2 * 60"

definition DEFAULT_MAX_DELIVERY_ATTEMPTS :: int where
  "DEFAULT_MAX_DELIVERY_ATTEMPTS = 3"
definition DESKTOP_BRIDGE_ARM_LEASE_TTL_SECONDS :: int where
  "DESKTOP_BRIDGE_ARM_LEASE_TTL_SECONDS = 5 * 60"
definition DESKTOP_ARM_PENDING_TIMEOUT_SECONDS :: int where
  "DESKTOP_ARM_PENDING_TIMEOUT_SECONDS = 5 * 60"
definition DESKTOP_PAUSE_NOT_BEFORE_SECONDS :: int where
  "DESKTOP_PAUSE_NOT_BEFORE_SECONDS = 90"
definition DESKTOP_PAUSE_DEADLINE_GRACE_SECONDS :: int where
  "DESKTOP_PAUSE_DEADLINE_GRACE_SECONDS = 90"
definition DESKTOP_TRANSCRIPT_RELAY_MARKER_TTL_SECONDS :: int where
  "DESKTOP_TRANSCRIPT_RELAY_MARKER_TTL_SECONDS = 6 * 60 * 60"
definition DESKTOP_TRANSCRIPT_RELAY_RETENTION_SECONDS :: int where
  "DESKTOP_TRANSCRIPT_RELAY_RETENTION_SECONDS = 7 * 24 * 60 * 60"
definition DESKTOP_READY_SNAPSHOT_MAX_ENTRIES :: nat where
  "DESKTOP_READY_SNAPSHOT_MAX_ENTRIES = 64"

section \<open>Enumerated columns and their text\<close>

datatype job_status = JobPending | JobCompleted | JobFailed

fun job_status_text :: "job_status \<Rightarrow> string" where
  "job_status_text JobPending = ''pending''"
| "job_status_text JobCompleted = ''completed''"
| "job_status_text JobFailed = ''failed''"

datatype task_status = Queued | Running | Succeeded | Failed | Cancelled | TimedOut | Lost

fun task_status_text :: "task_status \<Rightarrow> string" where
  "task_status_text Queued = ''queued''"
| "task_status_text Running = ''running''"
| "task_status_text Succeeded = ''succeeded''"
| "task_status_text Failed = ''failed''"
| "task_status_text Cancelled = ''cancelled''"
| "task_status_text TimedOut = ''timed_out''"
| "task_status_text Lost = ''lost''"

definition task_status_of_text :: "string \<Rightarrow> task_status option" where
  "task_status_of_text s =
     find (\<lambda>v. task_status_text v = s) [Queued, Running, Succeeded, Failed, Cancelled, TimedOut, Lost]"

datatype batch_state = BatchOpen | BatchClosed

fun batch_state_text :: "batch_state \<Rightarrow> string" where
  "batch_state_text BatchOpen = ''open''"
| "batch_state_text BatchClosed = ''closed''"

datatype replay_policy = Automatic | ManualResolutionOnly

datatype session_state = Live | Detached | Parked | Stale | Retired

fun session_state_text :: "session_state \<Rightarrow> string" where
  "session_state_text Live = ''live''"
| "session_state_text Detached = ''detached''"
| "session_state_text Parked = ''parked''"
| "session_state_text Stale = ''stale''"
| "session_state_text Retired = ''retired''"

datatype activity_state = ActivityUnknown | ActivityActive | ActivityIdle

fun activity_state_text :: "activity_state \<Rightarrow> string" where
  "activity_state_text ActivityUnknown = ''unknown''"
| "activity_state_text ActivityActive = ''active''"
| "activity_state_text ActivityIdle = ''idle''"

datatype adapter_kind = Cli | Desktop | CodexAppServer

datatype authorization_mode = StrictSafe | TrustedAll

fun authorization_mode_text :: "authorization_mode \<Rightarrow> string" where
  "authorization_mode_text StrictSafe = ''strict_safe''"
| "authorization_mode_text TrustedAll = ''trusted_all''"

datatype attempt_state =
  Prepared | AcceptPending | ArmPending | Cooldown | Abandoned | Superseded | AttemptClosed

datatype rpc_kind = TurnStart | TurnSteer

fun rpc_kind_text :: "rpc_kind \<Rightarrow> string" where
  "rpc_kind_text TurnStart = ''turn_start''"
| "rpc_kind_text TurnSteer = ''turn_steer''"

datatype rpc_state = PendingAcceptance | Accepted | RejectedBeforeAccept | RpcUnknown

datatype observation_state = Tracking | ObservationCompleted | ObservationExpired | ObservationAbandoned

datatype turn_event = TurnStarted | TurnCompleted | TurnFailed | TurnInterrupted | TurnReplaced

fun turn_event_text :: "turn_event \<Rightarrow> string" where
  "turn_event_text TurnStarted = ''turn_started''"
| "turn_event_text TurnCompleted = ''turn_completed''"
| "turn_event_text TurnFailed = ''turn_failed''"
| "turn_event_text TurnInterrupted = ''turn_interrupted''"
| "turn_event_text TurnReplaced = ''turn_replaced''"

lemma task_status_of_text_text [simp]: "task_status_of_text (task_status_text v) = Some v"
  by (cases v) (simp_all add: task_status_of_text_def)

lemma task_status_of_text_Some: "task_status_of_text s = Some v \<Longrightarrow> task_status_text v = s"
  by (auto simp: task_status_of_text_def split: if_splits)

section \<open>Rows\<close>

record delivery_policy =
  delivery_read_only :: bool
  delivery_requires_approval :: bool
  delivery_requires_network :: bool
  delivery_requires_write_access :: bool

record job_row =
  j_job_id :: string
  j_source_thread_id :: string
  j_status :: job_status
  j_summary :: string
  j_metadata_json :: string
  j_created_at :: int
  j_updated_at :: int
  j_completed_at :: "int option"
  j_failed_at :: "int option"
  j_result_artifact_id :: "string option"
  j_failure_reason :: "string option"
  j_delivery_policy :: delivery_policy
  j_supervisor_daemon_generation :: "string option"

record task_row =
  t_task_id :: string
  t_job_id :: string
  t_source_thread_id :: string
  t_status :: task_status
  t_summary :: string
  t_command_json :: string
  t_cwd :: string
  t_timeout_seconds :: "int option"
  t_max_delivery_attempts :: int
  t_redelivery_window_seconds :: int
  t_pid :: "int option"
  t_pid_identity :: "string option"
  t_supervisor_daemon_generation :: "string option"
  t_created_at :: int
  t_started_at :: "int option"
  t_completed_at :: "int option"
  t_exit_code :: "int option"
  t_signal :: "int option"
  t_failure_reason :: "string option"
  t_stdout_log_path :: "string option"
  t_stderr_log_path :: "string option"
  t_stdout_bytes :: int
  t_stderr_bytes :: int
  t_stdout_truncated :: bool
  t_stderr_truncated :: bool
  t_cancel_requested_at :: "int option"
  t_task_log_gc_attempted_at :: int

record artifact_row =
  ar_artifact_id :: string
  ar_job_id :: string
  ar_relative_path :: string
  ar_original_filename :: "string option"
  ar_size_bytes :: int
  ar_sha256 :: string
  ar_created_at :: int
  ar_retention_until :: int
  ar_manifest_synced_retention_until :: int
  ar_manifest_sync_attempted_at :: int
  ar_gc_attempted_at :: int

record artifact_ingest_row =
  ai_artifact_id :: string
  ai_job_id :: string
  ai_relative_path :: string
  ai_created_at :: int
  ai_updated_at :: int

record batch_row =
  b_batch_id :: string
  b_source_thread_id :: string
  b_state :: batch_state
  b_replay_policy :: replay_policy
  b_close_reason :: "string option"
  b_close_note :: "string option"
  b_summary :: string
  b_created_at :: int
  b_updated_at :: int
  b_closed_at :: "int option"
  b_redelivery_window_ends_at :: int
  b_max_delivery_attempts :: int
  b_delivery_attempt_count :: int
  b_delivery_policy :: delivery_policy
  b_inline_payload_bytes :: int
  b_requires_artifact_read :: bool

record batch_job_row =
  bj_batch_id :: string
  bj_job_id :: string
  bj_position :: int

record plugin_request_row =
  p_plugin_name :: string
  p_idempotency_key :: string
  p_plugin_instance_id :: string
  p_request_fingerprint :: string
  p_job_id :: string
  p_batch_id :: string
  p_created_at :: int
  p_updated_at :: int

record session_row =
  s_managed_session_id :: string
  s_bound_thread_id :: string
  s_session_epoch :: int
  s_session_state :: session_state
  s_activity_state :: activity_state
  s_activity_revision :: int
  s_capability_revision :: int
  s_capability_thread_resume :: bool
  s_capability_turn_start :: bool
  s_capability_current_state_sync :: bool
  s_capability_turn_completed_event :: bool
  s_capability_negative_terminal_events :: bool
  s_capability_thread_start :: bool
  s_capability_turn_steer :: bool
  s_session_allows_approval :: bool
  s_session_allows_network :: bool
  s_session_allows_write_access :: bool
  s_startup_session_allows_approval :: "bool option"
  s_startup_session_allows_network :: "bool option"
  s_startup_session_allows_write_access :: "bool option"
  s_startup_permission_snapshot_json :: "string option"
  s_last_permission_snapshot_json :: "string option"
  s_permission_snapshot_revision :: int
  s_created_at :: int
  s_updated_at :: int
  s_retired_at :: "int option"

record attempt_row =
  a_attempt_id :: string
  a_batch_id :: string
  a_source_thread_id :: string
  a_adapter_kind :: adapter_kind
  a_authorization_mode :: authorization_mode
  a_state :: attempt_state
  a_generation :: int
  a_delivery_rpc_request_id :: "string option"
  a_delivery_rpc_kind :: "rpc_kind option"
  a_delivery_rpc_state :: "rpc_state option"
  a_delivery_rpc_correlation_marker :: "string option"
  a_delivery_rpc_started_at :: "int option"
  a_managed_session_id :: "string option"
  a_session_epoch :: "int option"
  a_session_activity_revision :: int
  a_session_capability_revision :: int
  a_delivery_turn_id :: "string option"
  a_delivery_accepted_at :: "int option"
  a_delivery_observation_state :: "observation_state option"
  a_delivery_observation_deadline :: "int option"
  a_last_observed_turn_event :: "turn_event option"
  a_last_observed_turn_event_at :: "int option"
  a_bridge_request_id :: "string option"
  a_bridge_arm_lease_id :: "string option"
  a_bridge_arm_lease_deadline :: "int option"
  a_arm_pending_since :: "int option"
  a_arm_pending_deadline :: "int option"
  a_desktop_armed_at :: "int option"
  a_created_at :: int
  a_updated_at :: int
  a_abandoned_at :: "int option"
  a_closed_at :: "int option"

record audit_row =
  au_audit_id :: string
  au_recorded_at :: int
  au_source_thread_id :: "string option"
  au_batch_id :: "string option"
  au_attempt_id :: "string option"
  au_managed_session_id :: "string option"
  au_session_epoch :: "int option"
  au_policy_kind :: string
  au_decision :: string
  au_reason :: string
  au_adapter_kind :: string
  au_details_json :: string

section \<open>Rows of the desktop bridge\<close>

datatype read_transport = DirectFileRead

datatype desktop_capability = CapabilityUnknown | CapabilityValidated

datatype binding_state = Bound | Degraded | Unbound

datatype scanner_state = ScannerActive | ScannerDegraded

datatype marker_kind = MarkArmPendingRequested | MarkArmAccepted

datatype marker_state = Issued | Consumed | MarkerExpired | Rejected

datatype envelope_kind = ArmPendingRequested | ArmRequested

record desktop_installation_row =
  di_read_transport :: read_transport
  di_read_transport_generation :: int
  di_read_transport_capability :: desktop_capability
  di_artifact_read_capability :: desktop_capability
  di_writeback_capability :: desktop_capability
  di_validation_fingerprint :: string
  di_validated_at :: "int option"
  di_created_at :: int
  di_updated_at :: int

record desktop_binding_row =
  dk_source_thread_id :: string
  dk_caller_automation_id :: string
  dk_binding_state :: binding_state
  dk_armed_generation :: "int option"
  dk_armed_generation_quiesced_at :: "int option"
  dk_pause_not_before :: "int option"
  dk_pause_deadline :: "int option"
  dk_read_transport :: read_transport
  dk_read_transport_generation :: int
  dk_validation_fingerprint :: string
  dk_created_at :: int
  dk_updated_at :: int
  dk_degraded_at :: "int option"

text \<open>
  What a relayed request led to. The code stores it as JSON text, which it writes and reads back with
  the same library; here it is the value itself. A failure to arm that is recorded (\<open>cas_failed\<close>)
  carries what its message names, and a rejected marker carries why it was.
\<close>

datatype arm_failure = ArmLeaseExpired string int | ArmWindowClosed string int

record desktop_arm_pending_record =
  dp_outcome :: string
  dp_attempt :: attempt_row
  dp_binding :: desktop_binding_row
  dp_bridge_arm_lease_id :: "string option"
  dp_bridge_arm_lease_deadline :: "int option"
  dp_arm_pending_deadline :: "int option"

record desktop_arm_record =
  dr_outcome :: string
  dr_attempt :: attempt_row
  dr_binding :: desktop_binding_row
  dr_delivery_attempt_count :: int
  dr_pause_not_before :: "int option"
  dr_pause_deadline :: "int option"

datatype relay_outcome =
  ArmPendingOutcome desktop_arm_pending_record | ArmOutcome desktop_arm_record | CasFailed arm_failure

text \<open>The error of a request that failed now, or of the replay of one that failed before.\<close>

datatype relay_failure = FreshArmFailure arm_failure | ReplayedArmFailure string arm_failure

datatype relay_rejection =
  RejectedAsExpired | RejectedFor string | RejectedByCas relay_failure | RejectedOnReconcile arm_failure

record relay_consumption_row =
  rc_marker :: string
  rc_envelope_hash :: string
  rc_envelope_kind :: envelope_kind
  rc_envelope_json :: string
  rc_source_thread_id :: string
  rc_attempt_id :: string
  rc_consumed_at :: int
  rc_outcome :: relay_outcome

record relay_scanner_row =
  sc_bridge_thread_id :: string
  sc_rollout_path :: string
  sc_rollout_identity :: string
  sc_cursor_byte_offset :: int
  sc_cursor_line_number :: int
  sc_binding_revision :: int
  sc_binding_state :: scanner_state
  sc_last_scan_at :: "int option"
  sc_last_consumed_at :: "int option"
  sc_last_error :: "string option"
  sc_created_at :: int
  sc_updated_at :: int
  sc_degraded_at :: "int option"

record relay_marker_row =
  mk_marker :: string
  mk_bridge_thread_id :: string
  mk_envelope_kind :: marker_kind
  mk_source_thread_id :: string
  mk_caller_automation_id :: string
  mk_read_transport_generation :: int
  mk_validation_fingerprint :: string
  mk_attempt_id :: string
  mk_generation :: int
  mk_bridge_request_id :: string
  mk_marker_state :: marker_state
  mk_issued_at :: int
  mk_expires_at :: int
  mk_retention_until :: int
  mk_consumed_at :: "int option"
  mk_rejected_at :: "int option"
  mk_rejection_reason :: "relay_rejection option"
  mk_envelope_hash :: "string option"

section \<open>The store\<close>

record db =
  jobs :: "job_row list"
  tasks :: "task_row list"
  artifacts :: "artifact_row list"
  artifact_ingests :: "artifact_ingest_row list"
  batches :: "batch_row list"
  batch_jobs :: "batch_job_row list"
  plugin_delivery_requests :: "plugin_request_row list"
  cli_managed_sessions :: "session_row list"
  delivery_attempts :: "attempt_row list"
  audit_decisions :: "audit_row list"
  desktop_installation :: "desktop_installation_row option"
  desktop_bindings :: "desktop_binding_row list"
  desktop_transcript_relay_consumptions :: "relay_consumption_row list"
  desktop_relay_scanner_bindings :: "relay_scanner_row list"
  desktop_transcript_relay_markers :: "relay_marker_row list"

definition empty_db :: db where
  "empty_db = \<lparr>jobs = [], tasks = [], artifacts = [], artifact_ingests = [], batches = [],
     batch_jobs = [], plugin_delivery_requests = [], cli_managed_sessions = [],
     delivery_attempts = [], audit_decisions = [], desktop_installation = None,
     desktop_bindings = [], desktop_transcript_relay_consumptions = [],
     desktop_relay_scanner_bindings = [], desktop_transcript_relay_markers = []\<rparr>"

end
