(* ===== verification/Cbth_Tables.thy ===== *)
theory Cbth_Tables
  imports Cbth_Model
begin

text \<open>
  The store's tables as one interface: the errors of the store, the checked \<open>INSERT\<close>s and the
  \<open>query_*\<close> lookups of \<open>src/store.rs\<close>, and the locale \<open>table\<close>, whose laws (what a lookup returns
  after an update, which keys stay) are proved once and interpreted for every table of the store.
\<close>

section \<open>Errors\<close>

text \<open>
  One constructor per kind of \<open>bail!\<close> of the store, with the values its message names;
  \<open>SqlConstraint\<close> is SQLite refusing a row that violates the named constraint.
\<close>

datatype entity =
    EJob | ETask | EBatch | EAttempt | ESession | EAudit | EPluginDelivery
  | EDesktopBinding | ERelayScanner | ERelayMarker

datatype value_error =
    EmptyValue string
  | NotPositive string
  | NegativeValue string
  | InvalidPathComponent string
  | InvalidArtifactReference string
  | TimestampOverflow string
  | UnsupportedValue string string
  | LimitTooLarge
  | SelectorNotUnique

datatype job_error =
    TaskJobMismatch
  | TaskThreadMismatch
  | TaskAttachedElsewhere string string
  | TaskNotUnstarted string
  | JobNoLongerPending string
  | InvalidPid int

datatype batch_error =
    ReplayPolicyIs string replay_policy
  | NotThreadHead string
  | ReservedForPlugin string
  | NotEligibleForDetachedDelivery string
  | NoOpenBatch string
  | BatchNotOpen string
  | AttemptsExhausted string
  | NoRemainingAttempts string
  | RedeliveryWindowClosed string
  | ThreadHasActiveAttempt string string
  | GenerationOverflow string
  | IdempotencyKeyReused string string

datatype attempt_error =
    AttemptNotCurrent string
  | AttemptNotPendingAcceptance string adapter_kind
  | AttemptNotTracking string adapter_kind
  | AttemptBoundToOtherTurn string
  | AttemptNotCli string
  | AttemptMissing string string
  | AttemptWithoutProof string
  | AttemptCapabilityAhead string
  | ObservationDeadlineNotElapsed string
  | DelayedCompletionLost string
  | TurnSteerUnsupported
  | RpcRequestConflict string string
  | AttemptBatchMismatch

datatype session_error =
    SessionProfileMismatch string
  | SessionIsLive string
  | SessionAlreadyRetired string
  | SessionNotAttachable string session_state
  | SessionHasActiveAttempt string string
  | SessionBlockedByManualHead string string
  | SessionEpochMismatch string int int
  | SessionBoundElsewhere string string
  | SessionNotLiveOrDetached string
  | SessionSnapshotNotFresh string
  | SessionNotEligible string
  | SessionNotIdle string
  | SessionCapabilitiesMissing string
  | SessionRevisionNotNext string int
  | SessionStartupPinned string
  | SessionStartupMissing string
  | PermissionRevisionOverflow

datatype desktop_error =
    CallerAlreadyBound string
  | ThreadAlreadyBound string string
  | ThreadHasOpenBatch string string
  | BindingIs string binding_state
  | BindingNotQuiesced string int
  | NotEligibleForDesktopDelivery string
  | NotDesktopAttempt string
  | AttemptOfOtherThread string string string
  | AttemptOfOtherGeneration string int int
  | ArmPendingForOtherRequest string
  | NotEligibleForArmPending string
  | NotArmPending string
  | BridgeRequestMismatch string
  | ArmLeaseMismatch string
  | ArmColumnMissing string
  | ArmDeadlineBeforeIssue string int
  | UnsupportedEnvelopeKind string
  | UnsupportedMarkerKind string
  | MarkerNotIssued string marker_state
  | MarkerNotConsumable string marker_state
  | MarkerNotRejectable string marker_state
  | MarkerHasExpired string
  | MarkerKindMismatch string
  | MarkerTokensMismatch string
  | MarkerHasOtherHash string
  | MarkerConsumedWithOtherHash string
  | MarkerTimesNotOrdered string
  | MarkerExpiresTooEarly string
  | MarkerCapExpired
  | ScannerBindingChanged string
  | BindingChangedSinceIssue string string
  | HelperFingerprintChanged string

datatype store_error =
    SqlConstraint string
  | NotFound entity string
  | AlreadyInState entity string string
  | ValueError value_error
  | JobError job_error
  | BatchError batch_error
  | AttemptError attempt_error
  | SessionError session_error
  | DesktopError desktop_error
  | ManifestSyncCasFailed string
  | FileSystemError string

section \<open>The interface of a table\<close>

locale table =
  fixes key :: "'r \<Rightarrow> 'k" and rows :: "'d \<Rightarrow> 'r list" and modify :: "('r list \<Rightarrow> 'r list) \<Rightarrow> 'd \<Rightarrow> 'd"
  assumes rows_modify: "rows (modify f d) = f (rows d)"
begin

lemma lookup_update:
  assumes "\<And>r. key (f r) = key r"
  shows "find (\<lambda>r. key r = k) (rows (modify (update_where p f) d)) =
    map_option (\<lambda>r. if p r then f r else r) (find (\<lambda>r. key r = k) (rows d))"
proof -
  have "find (\<lambda>r. key r = k) (update_where p f rs) =
    map_option (\<lambda>r. if p r then f r else r) (find (\<lambda>r. key r = k) rs)" for rs
    by (induction rs) (auto simp: assms)
  then show ?thesis by (simp add: rows_modify)
qed

lemma keys_update:
  "(\<And>r. key (f r) = key r) \<Longrightarrow> map key (rows (modify (update_where p f) d)) = map key (rows d)"
  by (simp add: rows_modify update_where_def)

lemma lookup_insert:
  "key r \<notin> key ` set (rows d) \<Longrightarrow>
    find (\<lambda>q. key q = k) (rows (modify (\<lambda>rs. rs @ [r]) d)) =
      (if k = key r then Some r else find (\<lambda>q. key q = k) (rows d))"
proof -
  assume new: "key r \<notin> key ` set (rows d)"
  have "key r \<notin> key ` set rs \<Longrightarrow> find (\<lambda>q. key q = k) (rs @ [r]) =
      (if k = key r then Some r else find (\<lambda>q. key q = k) rs)" for rs
    by (induction rs) auto
  with new show ?thesis by (simp add: rows_modify)
qed

lemma lookup_mem:
  assumes "distinct (map key (rows d))" and "r \<in> set (rows d)"
  shows "find (\<lambda>q. key q = key r) (rows d) = Some r"
proof -
  have "distinct (map key rs) \<Longrightarrow> r \<in> set rs \<Longrightarrow> find (\<lambda>q. key q = key r) rs = Some r" for rs
  proof (induction rs)
    case Nil
    then show ?case by simp
  next
    case (Cons q rs)
    show ?case
    proof (cases "q = r")
      case True
      then show ?thesis by simp
    next
      case False
      with Cons.prems have r: "r \<in> set rs" and d: "distinct (map key rs)" by auto
      from Cons.prems(1) r have "key q \<noteq> key r" by auto
      with Cons.IH [OF d r] show ?thesis by simp
    qed
  qed
  with assms show ?thesis by blast
qed

lemma lookup_found: "find (\<lambda>q. key q = k) (rows d) = Some r \<Longrightarrow> r \<in> set (rows d) \<and> key r = k"
  by (auto simp: find_Some_iff)

lemma key_unique:
  "distinct (map key (rows d)) \<Longrightarrow> q \<in> set (rows d) \<Longrightarrow> r \<in> set (rows d) \<Longrightarrow> key q = key r \<Longrightarrow> q = r"
  by (metis lookup_mem option.inject)

end

interpretation jobs_table: table j_job_id jobs jobs_update by unfold_locales simp
interpretation tasks_table: table t_task_id tasks tasks_update by unfold_locales simp
interpretation artifacts_table: table ar_artifact_id artifacts artifacts_update by unfold_locales simp
interpretation ingests_table: table ai_artifact_id artifact_ingests artifact_ingests_update
  by unfold_locales simp
interpretation batches_table: table b_batch_id batches batches_update by unfold_locales simp
interpretation sessions_table: table s_managed_session_id cli_managed_sessions cli_managed_sessions_update
  by unfold_locales simp
interpretation attempts_table: table a_attempt_id delivery_attempts delivery_attempts_update
  by unfold_locales simp
interpretation audit_table: table au_audit_id audit_decisions audit_decisions_update
  by unfold_locales simp
interpretation bindings_table: table dk_source_thread_id desktop_bindings desktop_bindings_update
  by unfold_locales simp
interpretation consumptions_table:
  table rc_marker desktop_transcript_relay_consumptions desktop_transcript_relay_consumptions_update
  by unfold_locales simp
interpretation scanners_table:
  table sc_bridge_thread_id desktop_relay_scanner_bindings desktop_relay_scanner_bindings_update
  by unfold_locales simp
interpretation markers_table:
  table mk_marker desktop_transcript_relay_markers desktop_transcript_relay_markers_update
  by unfold_locales simp
interpretation requests_table:
  table "\<lambda>p. (p_plugin_name p, p_idempotency_key p)" plugin_delivery_requests plugin_delivery_requests_update
  by unfold_locales simp

section \<open>INSERT with its constraints\<close>

definition insert_job :: "job_row \<Rightarrow> db \<Rightarrow> store_error + db" where
  "insert_job r d =
     chain (require (j_job_id r \<notin> j_job_id ` set (jobs d)) (SqlConstraint ''jobs.job_id'')) (\<lambda>_.
     Inr (d\<lparr>jobs := jobs d @ [r]\<rparr>))"

definition insert_task :: "task_row \<Rightarrow> db \<Rightarrow> store_error + db" where
  "insert_task r d =
     chain (require (t_task_id r \<notin> t_task_id ` set (tasks d)) (SqlConstraint ''tasks.task_id'')) (\<lambda>_.
     chain (require (t_job_id r \<notin> t_job_id ` set (tasks d)) (SqlConstraint ''tasks.job_id'')) (\<lambda>_.
     chain (require (t_job_id r \<in> j_job_id ` set (jobs d)) (SqlConstraint ''FOREIGN KEY'')) (\<lambda>_.
     Inr (d\<lparr>tasks := tasks d @ [r]\<rparr>))))"

definition insert_artifact :: "artifact_row \<Rightarrow> db \<Rightarrow> store_error + db" where
  "insert_artifact r d =
     chain (require (ar_artifact_id r \<notin> ar_artifact_id ` set (artifacts d))
       (SqlConstraint ''artifacts.artifact_id'')) (\<lambda>_.
     chain (require (ar_job_id r \<notin> ar_job_id ` set (artifacts d))
       (SqlConstraint ''artifacts.job_id'')) (\<lambda>_.
     chain (require (ar_job_id r \<in> j_job_id ` set (jobs d)) (SqlConstraint ''FOREIGN KEY'')) (\<lambda>_.
     Inr (d\<lparr>artifacts := artifacts d @ [r]\<rparr>))))"

definition insert_artifact_ingest :: "artifact_ingest_row \<Rightarrow> db \<Rightarrow> store_error + db" where
  "insert_artifact_ingest r d =
     chain (require (ai_artifact_id r \<notin> ai_artifact_id ` set (artifact_ingests d))
       (SqlConstraint ''artifact_ingests.artifact_id'')) (\<lambda>_.
     chain (require (ai_job_id r \<in> j_job_id ` set (jobs d)) (SqlConstraint ''FOREIGN KEY'')) (\<lambda>_.
     Inr (d\<lparr>artifact_ingests := artifact_ingests d @ [r]\<rparr>)))"

definition insert_batch_row :: "batch_row \<Rightarrow> db \<Rightarrow> store_error + db" where
  "insert_batch_row r d =
     chain (require (b_batch_id r \<notin> b_batch_id ` set (batches d))
       (SqlConstraint ''batches.batch_id'')) (\<lambda>_.
     Inr (d\<lparr>batches := batches d @ [r]\<rparr>))"

definition insert_batch_job :: "batch_job_row \<Rightarrow> db \<Rightarrow> store_error + db" where
  "insert_batch_job r d =
     chain (require (\<forall>q\<in>set (batch_jobs d). \<not> (bj_batch_id q = bj_batch_id r \<and> bj_job_id q = bj_job_id r))
       (SqlConstraint ''batch_jobs.batch_id, batch_jobs.job_id'')) (\<lambda>_.
     chain (require (bj_batch_id r \<in> b_batch_id ` set (batches d) \<and>
         bj_job_id r \<in> j_job_id ` set (jobs d)) (SqlConstraint ''FOREIGN KEY'')) (\<lambda>_.
     Inr (d\<lparr>batch_jobs := batch_jobs d @ [r]\<rparr>)))"

definition insert_plugin_request :: "plugin_request_row \<Rightarrow> db \<Rightarrow> store_error + db" where
  "insert_plugin_request r d =
     chain (require (\<forall>q\<in>set (plugin_delivery_requests d).
         \<not> (p_plugin_name q = p_plugin_name r \<and> p_idempotency_key q = p_idempotency_key r))
       (SqlConstraint ''plugin_delivery_requests.plugin_name, plugin_delivery_requests.idempotency_key'')) (\<lambda>_.
     chain (require (p_job_id r \<in> j_job_id ` set (jobs d) \<and> p_batch_id r \<in> b_batch_id ` set (batches d))
       (SqlConstraint ''FOREIGN KEY'')) (\<lambda>_.
     Inr (d\<lparr>plugin_delivery_requests := plugin_delivery_requests d @ [r]\<rparr>)))"

definition insert_session :: "session_row \<Rightarrow> db \<Rightarrow> store_error + db" where
  "insert_session r d =
     chain (require (s_managed_session_id r \<notin> s_managed_session_id ` set (cli_managed_sessions d))
       (SqlConstraint ''cli_managed_sessions.managed_session_id'')) (\<lambda>_.
     chain (require (s_session_state r = Retired \<or> (\<forall>q\<in>set (cli_managed_sessions d).
         s_session_state q \<noteq> Retired \<longrightarrow> s_bound_thread_id q \<noteq> s_bound_thread_id r))
       (SqlConstraint ''cli_managed_sessions.bound_thread_id'')) (\<lambda>_.
     Inr (d\<lparr>cli_managed_sessions := cli_managed_sessions d @ [r]\<rparr>)))"

definition insert_attempt :: "attempt_row \<Rightarrow> db \<Rightarrow> store_error + db" where
  "insert_attempt r d =
     chain (require (a_attempt_id r \<notin> a_attempt_id ` set (delivery_attempts d))
       (SqlConstraint ''delivery_attempts.attempt_id'')) (\<lambda>_.
     chain (require (a_delivery_rpc_request_id r = None \<or>
         a_delivery_rpc_request_id r \<notin> a_delivery_rpc_request_id ` set (delivery_attempts d))
       (SqlConstraint ''delivery_attempts.delivery_rpc_request_id'')) (\<lambda>_.
     chain (require (\<forall>q\<in>set (delivery_attempts d).
         \<not> (a_batch_id q = a_batch_id r \<and> a_generation q = a_generation r))
       (SqlConstraint ''delivery_attempts.batch_id, delivery_attempts.generation'')) (\<lambda>_.
     chain (require (a_batch_id r \<in> b_batch_id ` set (batches d)) (SqlConstraint ''FOREIGN KEY'')) (\<lambda>_.
     Inr (d\<lparr>delivery_attempts := delivery_attempts d @ [r]\<rparr>)))))"

definition insert_audit :: "audit_row \<Rightarrow> db \<Rightarrow> store_error + db" where
  "insert_audit r d =
     chain (require (au_audit_id r \<notin> au_audit_id ` set (audit_decisions d))
       (SqlConstraint ''audit_decisions.audit_id'')) (\<lambda>_.
     Inr (d\<lparr>audit_decisions := audit_decisions d @ [r]\<rparr>))"

lemmas insert_defs = insert_job_def insert_task_def insert_artifact_def insert_artifact_ingest_def
  insert_batch_row_def insert_batch_job_def insert_plugin_request_def insert_session_def
  insert_attempt_def insert_audit_def

section \<open>Lookups by primary key\<close>

definition query_job_tx :: "db \<Rightarrow> string \<Rightarrow> store_error + job_row" where
  "query_job_tx d job_id = ok_or (NotFound EJob job_id) (find (\<lambda>j. j_job_id j = job_id) (jobs d))"

definition query_task_tx :: "db \<Rightarrow> string \<Rightarrow> store_error + task_row" where
  "query_task_tx d task_id = ok_or (NotFound ETask task_id) (find (\<lambda>t. t_task_id t = task_id) (tasks d))"

definition query_batch_tx :: "db \<Rightarrow> string \<Rightarrow> store_error + batch_row" where
  "query_batch_tx d batch_id =
     ok_or (NotFound EBatch batch_id) (find (\<lambda>b. b_batch_id b = batch_id) (batches d))"

definition query_cli_managed_session_tx :: "db \<Rightarrow> string \<Rightarrow> store_error + session_row" where
  "query_cli_managed_session_tx d managed_session_id =
     ok_or (NotFound ESession managed_session_id)
       (find (\<lambda>s. s_managed_session_id s = managed_session_id) (cli_managed_sessions d))"

definition query_delivery_attempt_tx :: "db \<Rightarrow> string \<Rightarrow> store_error + attempt_row" where
  "query_delivery_attempt_tx d attempt_id =
     ok_or (NotFound EAttempt attempt_id) (find (\<lambda>a. a_attempt_id a = attempt_id) (delivery_attempts d))"

definition query_audit_decision_tx :: "db \<Rightarrow> string \<Rightarrow> store_error + audit_row" where
  "query_audit_decision_tx d audit_id =
     ok_or (NotFound EAudit audit_id) (find (\<lambda>a. au_audit_id a = audit_id) (audit_decisions d))"

definition query_artifact_for_job_tx :: "db \<Rightarrow> string \<Rightarrow> artifact_row option" where
  "query_artifact_for_job_tx d job_id = find (\<lambda>ar. ar_job_id ar = job_id) (artifacts d)"

definition query_artifact_by_id_tx :: "db \<Rightarrow> string \<Rightarrow> artifact_row option" where
  "query_artifact_by_id_tx d artifact_id = find (\<lambda>ar. ar_artifact_id ar = artifact_id) (artifacts d)"

definition query_delivery_attempt_by_rpc_request_id_tx :: "db \<Rightarrow> string \<Rightarrow> attempt_row option" where
  "query_delivery_attempt_by_rpc_request_id_tx d rpc_id =
     find (\<lambda>a. a_delivery_rpc_request_id a = Some rpc_id) (delivery_attempts d)"

lemma query_job_ok: "query_job_tx d i = Inr j \<Longrightarrow> j \<in> set (jobs d) \<and> j_job_id j = i"
  unfolding query_job_tx_def ok_or_ok_iff by (rule jobs_table.lookup_found)

lemma query_task_ok: "query_task_tx d i = Inr t \<Longrightarrow> t \<in> set (tasks d) \<and> t_task_id t = i"
  unfolding query_task_tx_def ok_or_ok_iff by (rule tasks_table.lookup_found)

lemma query_batch_ok: "query_batch_tx d i = Inr b \<Longrightarrow> b \<in> set (batches d) \<and> b_batch_id b = i"
  unfolding query_batch_tx_def ok_or_ok_iff by (rule batches_table.lookup_found)

lemma query_session_ok:
  "query_cli_managed_session_tx d i = Inr s \<Longrightarrow>
    s \<in> set (cli_managed_sessions d) \<and> s_managed_session_id s = i"
  unfolding query_cli_managed_session_tx_def ok_or_ok_iff by (rule sessions_table.lookup_found)

lemma query_attempt_ok:
  "query_delivery_attempt_tx d i = Inr a \<Longrightarrow> a \<in> set (delivery_attempts d) \<and> a_attempt_id a = i"
  unfolding query_delivery_attempt_tx_def ok_or_ok_iff by (rule attempts_table.lookup_found)

section \<open>Value checks shared by the operations\<close>

definition ensure_positive_value :: "string \<Rightarrow> int \<Rightarrow> store_error + unit" where
  "ensure_positive_value name v = require (0 < v) (ValueError (NotPositive name))"

definition ensure_nonempty_value :: "string \<Rightarrow> string \<Rightarrow> store_error + unit" where
  "ensure_nonempty_value name v = require (v \<noteq> []) (ValueError (EmptyValue name))"

definition checked_timestamp_add :: "int \<Rightarrow> int \<Rightarrow> string \<Rightarrow> store_error + int" where
  "checked_timestamp_add now delta field_name =
     ok_or (ValueError (TimestampOverflow field_name)) (checked_add now delta)"

definition clamp_redelivery_window_seconds_for_timestamp :: "int \<Rightarrow> int \<Rightarrow> int" where
  "clamp_redelivery_window_seconds_for_timestamp now redelivery_window_seconds =
     min redelivery_window_seconds (saturating_sub i64_max now)"

definition id_path_byte :: "char \<Rightarrow> bool" where
  "id_path_byte c \<longleftrightarrow> (CHR ''0'' \<le> c \<and> c \<le> CHR ''9'') \<or> (CHR ''A'' \<le> c \<and> c \<le> CHR ''Z'') \<or>
     (CHR ''a'' \<le> c \<and> c \<le> CHR ''z'') \<or> c = CHR ''-'' \<or> c = CHR ''_''"

definition validate_id_path_component :: "string \<Rightarrow> string \<Rightarrow> store_error + unit" where
  "validate_id_path_component v name =
     require (v \<noteq> [] \<and> list_all id_path_byte v) (ValueError (InvalidPathComponent name))"

definition relative_artifact_payload_path :: "string \<Rightarrow> string" where
  "relative_artifact_payload_path artifact_id = ''artifacts/'' @ artifact_id @ ''/payload''"

lemma ensure_positive_ok [simp]: "ensure_positive_value name v = Inr u \<longleftrightarrow> 0 < v"
  by (simp add: ensure_positive_value_def)

lemma ensure_nonempty_ok [simp]: "ensure_nonempty_value name v = Inr u \<longleftrightarrow> v \<noteq> []"
  by (simp add: ensure_nonempty_value_def)

lemma checked_timestamp_add_ok:
  "checked_timestamp_add now delta name = Inr t \<longleftrightarrow> t = now + delta \<and> in_i64 (now + delta)"
  by (simp add: checked_timestamp_add_def checked_add_Some_iff)

lemma validate_id_ok [simp]:
  "validate_id_path_component v name = Inr u \<longleftrightarrow> v \<noteq> [] \<and> list_all id_path_byte v"
  by (simp add: validate_id_path_component_def)

text \<open>A clamped window never overflows, for any non-negative time and any window that is not below
  the range.\<close>

lemma clamped_window_in_range:
  assumes "0 \<le> now" "now \<le> i64_max" "i64_min \<le> w"
  shows "in_i64 (now + clamp_redelivery_window_seconds_for_timestamp now w)"
  using assms
  by (auto simp: clamp_redelivery_window_seconds_for_timestamp_def saturating_sub_def in_i64_def
      i64_max_def i64_min_def min_def max_def)

end
