(* ===== verification/Cbth_Queue.thy ===== *)
theory Cbth_Queue
  imports Cbth_Tables
begin

text \<open>
  The delivery queue of a thread: its open batches in \<open>(created_at, batch_id)\<close> order, whose head is
  the only batch that may be delivered. Creating a batch, inspecting it, closing it (with the fence
  that invalidates the proof of the CLI sessions bound to its active attempts), switching it to
  manual resolution, keeping its artifacts for a while after it closed, and rewriting the artifact
  manifests (the file write itself is the parameter \<open>rewrite\<close>: whether it succeeds for a row).
\<close>

record new_batch =
  nb_batch_id :: string
  nb_source_thread_id :: string
  nb_summary :: string
  nb_created_at :: int
  nb_redelivery_window_ends_at :: int
  nb_max_delivery_attempts :: int
  nb_policy :: delivery_policy
  nb_inline_payload_bytes :: int
  nb_requires_artifact_read :: bool

record batch_inspect =
  bi_batch :: batch_row
  bi_jobs :: "(job_row \<times> artifact_row option) list"

section \<open>Creating and reading batches\<close>

definition insert_batch_tx :: "new_batch \<Rightarrow> string list \<Rightarrow> db \<Rightarrow> store_error + db" where
  "insert_batch_tx batch job_ids d =
     chain (insert_batch_row
       \<lparr>b_batch_id = nb_batch_id batch, b_source_thread_id = nb_source_thread_id batch,
        b_state = BatchOpen, b_replay_policy = Automatic, b_close_reason = None, b_close_note = None,
        b_summary = nb_summary batch, b_created_at = nb_created_at batch,
        b_updated_at = nb_created_at batch, b_closed_at = None,
        b_redelivery_window_ends_at = nb_redelivery_window_ends_at batch,
        b_max_delivery_attempts = nb_max_delivery_attempts batch, b_delivery_attempt_count = 0,
        b_delivery_policy = nb_policy batch, b_inline_payload_bytes = nb_inline_payload_bytes batch,
        b_requires_artifact_read = nb_requires_artifact_read batch\<rparr> d)
     (for_each (\<lambda>(position, job_id).
        insert_batch_job \<lparr>bj_batch_id = nb_batch_id batch, bj_job_id = job_id, bj_position = int position\<rparr>)
      (enumerate 0 job_ids))"

definition query_batch_jobs_tx :: "db \<Rightarrow> string \<Rightarrow> (job_row \<times> artifact_row option) list" where
  "query_batch_jobs_tx d batch_id =
     map (\<lambda>j. (j, query_artifact_for_job_tx d (j_job_id j)))
       (List.map_filter (\<lambda>bj. find (\<lambda>j. j_job_id j = bj_job_id bj) (jobs d))
         (order_by bj_position (filter (\<lambda>bj. bj_batch_id bj = batch_id) (batch_jobs d))))"

definition query_batch_inspect_tx :: "db \<Rightarrow> string \<Rightarrow> store_error + batch_inspect" where
  "query_batch_inspect_tx d batch_id =
     chain (query_batch_tx d batch_id) (\<lambda>b.
     Inr \<lparr>bi_batch = b, bi_jobs = query_batch_jobs_tx d batch_id\<rparr>)"

definition query_artifacts_for_batch_tx :: "db \<Rightarrow> string \<Rightarrow> artifact_row list" where
  "query_artifacts_for_batch_tx d batch_id =
     List.map_filter (\<lambda>bj. query_artifact_for_job_tx d (bj_job_id bj))
       (order_by bj_position (filter (\<lambda>bj. bj_batch_id bj = batch_id) (batch_jobs d)))"

section \<open>The head of a thread's queue\<close>

definition queue_key :: "batch_row \<Rightarrow> int \<times> string" where
  "queue_key b = (b_created_at b, b_batch_id b)"

definition open_in_thread :: "string \<Rightarrow> batch_row \<Rightarrow> bool" where
  "open_in_thread thread b \<longleftrightarrow> b_source_thread_id b = thread \<and> b_state b = BatchOpen"

definition thread_head :: "db \<Rightarrow> string \<Rightarrow> string option" where
  "thread_head d source_thread_id =
     map_option b_batch_id
       (first_row (order_by queue_key (filter (open_in_thread source_thread_id) (batches d))))"

definition batch_is_thread_head_tx :: "db \<Rightarrow> batch_row \<Rightarrow> bool" where
  "batch_is_thread_head_tx d batch \<longleftrightarrow>
     thread_head d (b_source_thread_id batch) = Some (b_batch_id batch)"

definition batch_is_thread_head :: "db \<Rightarrow> string \<Rightarrow> store_error + bool" where
  "batch_is_thread_head d batch_id =
     chain (query_batch_tx d batch_id) (\<lambda>batch. Inr (batch_is_thread_head_tx d batch))"

definition inspect_head :: "db \<Rightarrow> string \<Rightarrow> store_error + batch_inspect option" where
  "inspect_head d source_thread_id =
     (case thread_head d source_thread_id of
        None \<Rightarrow> Inr None
      | Some batch_id \<Rightarrow> chain (query_batch_inspect_tx d batch_id) (\<lambda>i. Inr (Some i)))"

definition query_open_manual_head_batch_for_thread_tx :: "db \<Rightarrow> string \<Rightarrow> string option" where
  "query_open_manual_head_batch_for_thread_tx d source_thread_id =
     map_option b_batch_id (find (\<lambda>b. open_in_thread source_thread_id b \<and>
         b_replay_policy b = ManualResolutionOnly \<and>
         Some (b_batch_id b) = thread_head d source_thread_id) (batches d))"

definition ensure_batch_open :: "batch_row \<Rightarrow> store_error + unit" where
  "ensure_batch_open batch =
     require (b_state batch = BatchOpen)
       (AlreadyInState EBatch (b_batch_id batch) (batch_state_text (b_state batch)))"

definition ensure_batch_is_thread_head_tx :: "db \<Rightarrow> batch_row \<Rightarrow> store_error + unit" where
  "ensure_batch_is_thread_head_tx d batch =
     require (batch_is_thread_head_tx d batch) (BatchError (NotThreadHead (b_batch_id batch)))"

definition ensure_batch_allows_automatic_delivery :: "batch_row \<Rightarrow> store_error + unit" where
  "ensure_batch_allows_automatic_delivery batch =
     require (b_replay_policy batch = Automatic)
       (BatchError (ReplayPolicyIs (b_batch_id batch) (b_replay_policy batch)))"

definition ensure_attempt_budget_remaining :: "batch_row \<Rightarrow> store_error + unit" where
  "ensure_attempt_budget_remaining batch =
     require (b_delivery_attempt_count batch < b_max_delivery_attempts batch)
       (BatchError (AttemptsExhausted (b_batch_id batch)))"

definition ensure_batch_redelivery_window_open :: "batch_row \<Rightarrow> int \<Rightarrow> store_error + unit" where
  "ensure_batch_redelivery_window_open batch now =
     require (now < b_redelivery_window_ends_at batch)
       (BatchError (RedeliveryWindowClosed (b_batch_id batch)))"

section \<open>Active attempts\<close>

text \<open>The states of \<open>state IN ('prepared', 'accept_pending', 'arm_pending', 'cooldown')\<close>.\<close>

fun active_state :: "attempt_state \<Rightarrow> bool" where
  "active_state Prepared = True"
| "active_state AcceptPending = True"
| "active_state ArmPending = True"
| "active_state Cooldown = True"
| "active_state Abandoned = False"
| "active_state Superseded = False"
| "active_state AttemptClosed = False"

definition active :: "attempt_row \<Rightarrow> bool" where
  "active a \<longleftrightarrow> active_state (a_state a)"

definition batch_state_is :: "db \<Rightarrow> batch_state \<Rightarrow> attempt_row \<Rightarrow> bool" where
  "batch_state_is d st a \<longleftrightarrow> (\<exists>b\<in>set (batches d). b_batch_id b = a_batch_id a \<and> b_state b = st)"

definition ensure_no_active_attempt_for_thread_tx :: "db \<Rightarrow> string \<Rightarrow> store_error + unit" where
  "ensure_no_active_attempt_for_thread_tx d source_thread_id =
     (case first_row (order_by_desc (\<lambda>a. (a_generation a, a_attempt_id a))
         (filter (\<lambda>a. a_source_thread_id a = source_thread_id \<and> active a \<and> batch_state_is d BatchOpen a)
           (delivery_attempts d))) of
        None \<Rightarrow> Inr ()
      | Some a \<Rightarrow> Inl (BatchError (ThreadHasActiveAttempt source_thread_id (a_attempt_id a))))"

definition max_generation :: "db \<Rightarrow> string \<Rightarrow> int option" where
  "max_generation d batch_id =
     max_agg (map a_generation (filter (\<lambda>a. a_batch_id a = batch_id) (delivery_attempts d)))"

definition next_attempt_generation_tx :: "db \<Rightarrow> string \<Rightarrow> store_error + int" where
  "next_attempt_generation_tx d batch_id =
     ok_or (BatchError (GenerationOverflow batch_id)) (checked_add (coalesce (max_generation d batch_id) 0) 1)"

definition ensure_attempt_is_current_generation_tx :: "db \<Rightarrow> attempt_row \<Rightarrow> store_error + unit" where
  "ensure_attempt_is_current_generation_tx d attempt =
     require (max_generation d (a_batch_id attempt) = Some (a_generation attempt))
       (AttemptError (AttemptNotCurrent (a_attempt_id attempt)))"

section \<open>Session proofs\<close>

text \<open>
  What every loss of a session's proof clears: activity, capabilities and the current permission
  snapshot; parking, retiring and reattaching also clear the startup snapshot.
\<close>

definition clear_current_proof :: "session_row \<Rightarrow> session_row" where
  "clear_current_proof s = s\<lparr>
     s_activity_state := ActivityUnknown, s_activity_revision := 0, s_capability_revision := 0,
     s_capability_thread_resume := False, s_capability_turn_start := False,
     s_capability_current_state_sync := False, s_capability_turn_completed_event := False,
     s_capability_negative_terminal_events := False, s_capability_thread_start := False,
     s_capability_turn_steer := False, s_last_permission_snapshot_json := None,
     s_permission_snapshot_revision := 0\<rparr>"

definition clear_startup_proof :: "session_row \<Rightarrow> session_row" where
  "clear_startup_proof s = s\<lparr>
     s_startup_session_allows_approval := None, s_startup_session_allows_network := None,
     s_startup_session_allows_write_access := None, s_startup_permission_snapshot_json := None\<rparr>"

definition invalidate_cli_managed_session_activity_tx ::
    "string option \<Rightarrow> int option \<Rightarrow> int \<Rightarrow> db \<Rightarrow> db" where
  "invalidate_cli_managed_session_activity_tx managed_session_id session_epoch now d =
     (case (managed_session_id, session_epoch) of
        (Some sid, Some epoch) \<Rightarrow>
          d\<lparr>cli_managed_sessions := update_where
              (\<lambda>s. s_managed_session_id s = sid \<and> s_session_epoch s = epoch \<and>
                   s_session_state s \<in> {Live, Detached})
              (\<lambda>s. (clear_current_proof s)\<lparr>s_session_epoch := s_session_epoch s + 1, s_updated_at := now\<rparr>)
              (cli_managed_sessions d)\<rparr>
      | _ \<Rightarrow> d)"

section \<open>Closing a batch\<close>

definition query_active_cli_attempt_session_fences_for_batch_tx ::
    "db \<Rightarrow> string \<Rightarrow> (string option \<times> int option) list" where
  "query_active_cli_attempt_session_fences_for_batch_tx d batch_id =
     map (\<lambda>a. (a_managed_session_id a, a_session_epoch a))
       (filter (\<lambda>a. a_batch_id a = batch_id \<and> a_adapter_kind a = Cli \<and> active a) (delivery_attempts d))"

definition close_batch_tx ::
    "string \<Rightarrow> string \<Rightarrow> string option \<Rightarrow> int \<Rightarrow> db \<Rightarrow> store_error + db" where
  "close_batch_tx batch_id reason note now d =
     (let fences = query_active_cli_attempt_session_fences_for_batch_tx d batch_id;
          to_close = (\<lambda>b. b_batch_id b = batch_id \<and> b_state b = BatchOpen);
          changed = count_where to_close (batches d)
      in chain (require (changed \<noteq> 0) (BatchError (BatchNotOpen batch_id))) (\<lambda>_.
         let d1 = d\<lparr>batches := update_where to_close
                  (\<lambda>b. b\<lparr>b_state := BatchClosed, b_close_reason := Some reason, b_close_note := note,
                        b_updated_at := now, b_closed_at := Some now\<rparr>) (batches d)\<rparr>;
             d2 = d1\<lparr>delivery_attempts := update_where (\<lambda>a. a_batch_id a = batch_id \<and> active a)
                  (\<lambda>a. a\<lparr>a_state := AttemptClosed, a_updated_at := now, a_closed_at := Some now\<rparr>)
                  (delivery_attempts d1)\<rparr>
         in Inr (fold (\<lambda>(sid, epoch). invalidate_cli_managed_session_activity_tx sid epoch now) fences d2)))"

definition extend_closed_batch_artifact_retention_tx ::
    "string \<Rightarrow> int \<Rightarrow> db \<Rightarrow> store_error + artifact_row list \<times> db" where
  "extend_closed_batch_artifact_retention_tx batch_id now d =
     chain (checked_timestamp_add now POST_CLOSE_ARTIFACT_TTL_SECONDS ''post_close_artifact_ttl'') (\<lambda>retention_until.
     let d = d\<lparr>artifacts := update_where
           (\<lambda>ar. ar_job_id ar \<in> bj_job_id ` set (filter (\<lambda>bj. bj_batch_id bj = batch_id) (batch_jobs d)))
           (\<lambda>ar. ar\<lparr>ar_retention_until := max (ar_retention_until ar) retention_until\<rparr>) (artifacts d)\<rparr>
     in Inr (query_artifacts_for_batch_tx d batch_id, d))"

text \<open>
  \<open>UPDATE batches SET replay_policy = 'manual_resolution_only', redelivery_window_ends_at = max(..),
  updated_at = ? WHERE batch_id = ? AND state = 'open'\<close>, which every loss of an attempt performs.
\<close>

definition set_batch_manual :: "string \<Rightarrow> int \<Rightarrow> int \<Rightarrow> db \<Rightarrow> db" where
  "set_batch_manual batch_id window_ends_at now d =
     d\<lparr>batches := update_where (\<lambda>b. b_batch_id b = batch_id \<and> b_state b = BatchOpen)
        (\<lambda>b. b\<lparr>b_replay_policy := ManualResolutionOnly,
              b_redelivery_window_ends_at := max (b_redelivery_window_ends_at b) window_ends_at,
              b_updated_at := now\<rparr>) (batches d)\<rparr>"

text \<open>
  \<open>UPDATE batches SET delivery_attempt_count = delivery_attempt_count + 1 .. WHERE batch_id = ? AND
  state = 'open' AND delivery_attempt_count < max_delivery_attempts\<close>, and the \<open>changed != 1\<close> check.
\<close>

definition spend_delivery_attempt :: "string \<Rightarrow> int \<Rightarrow> db \<Rightarrow> store_error + db" where
  "spend_delivery_attempt batch_id now d =
     (let p = (\<lambda>b. b_batch_id b = batch_id \<and> b_state b = BatchOpen \<and>
                   b_delivery_attempt_count b < b_max_delivery_attempts b)
      in chain (require (count_where p (batches d) = 1) (BatchError (NoRemainingAttempts batch_id))) (\<lambda>_.
         Inr (d\<lparr>batches := update_where p
           (\<lambda>b. b\<lparr>b_delivery_attempt_count := b_delivery_attempt_count b + 1, b_updated_at := now\<rparr>)
           (batches d)\<rparr>)))"

section \<open>Artifact manifests\<close>

definition sync_artifact_manifest ::
    "(artifact_row \<Rightarrow> bool) \<Rightarrow> string \<Rightarrow> int \<Rightarrow> db \<Rightarrow> store_error + bool \<times> db" where
  "sync_artifact_manifest rewrite artifact_id now d =
     (case query_artifact_by_id_tx d artifact_id of
        None \<Rightarrow> Inr (False, d)
      | Some artifact \<Rightarrow>
          if ar_retention_until artifact \<le> ar_manifest_synced_retention_until artifact then Inr (False, d)
          else chain (require (rewrite artifact) (FileSystemError artifact_id)) (\<lambda>_.
            let p = (\<lambda>ar. ar_artifact_id ar = artifact_id \<and>
                          ar_retention_until ar = ar_retention_until artifact \<and>
                          ar_manifest_synced_retention_until ar < ar_retention_until ar)
            in chain (require (count_where p (artifacts d) = 1) (ManifestSyncCasFailed artifact_id)) (\<lambda>_.
               Inr (True, d\<lparr>artifacts := update_where p
                 (\<lambda>ar. ar\<lparr>ar_manifest_synced_retention_until := ar_retention_until ar,
                          ar_manifest_sync_attempted_at := now\<rparr>) (artifacts d)\<rparr>))))"

definition mark_artifact_manifest_sync_attempted :: "string \<Rightarrow> int \<Rightarrow> db \<Rightarrow> db" where
  "mark_artifact_manifest_sync_attempted artifact_id now d =
     d\<lparr>artifacts := update_where (\<lambda>ar. ar_artifact_id ar = artifact_id)
        (\<lambda>ar. ar\<lparr>ar_manifest_sync_attempted_at := now\<rparr>) (artifacts d)\<rparr>"

record manifest_sync_report =
  synced :: nat
  sync_failed :: nat

fun sync_artifact_manifests_loop ::
    "(artifact_row \<Rightarrow> bool) \<Rightarrow> int \<Rightarrow> artifact_row list \<Rightarrow> manifest_sync_report \<times> db \<Rightarrow>
      manifest_sync_report \<times> db" where
  "sync_artifact_manifests_loop rewrite now [] (report, d) = (report, d)"
| "sync_artifact_manifests_loop rewrite now (artifact # rest) (report, d) =
     sync_artifact_manifests_loop rewrite now rest
       (case sync_artifact_manifest rewrite (ar_artifact_id artifact) now d of
          Inr (True, d') \<Rightarrow> (report\<lparr>synced := Suc (synced report)\<rparr>, d')
        | Inr (False, d') \<Rightarrow> (report, d')
        | Inl _ \<Rightarrow> (report\<lparr>sync_failed := Suc (sync_failed report)\<rparr>,
                   mark_artifact_manifest_sync_attempted (ar_artifact_id artifact) now d))"

definition sync_artifact_manifests ::
    "(artifact_row \<Rightarrow> bool) \<Rightarrow> artifact_row list \<Rightarrow> int \<Rightarrow> db \<Rightarrow> manifest_sync_report \<times> db" where
  "sync_artifact_manifests rewrite arts now d =
     sync_artifact_manifests_loop rewrite now arts (\<lparr>synced = 0, sync_failed = 0\<rparr>, d)"

section \<open>Closing the head of a queue\<close>

definition close_head ::
    "(artifact_row \<Rightarrow> bool) \<Rightarrow> string \<Rightarrow> string \<Rightarrow> string option \<Rightarrow> int \<Rightarrow> db \<Rightarrow>
      store_error + batch_inspect \<times> db" where
  "close_head rewrite source_thread_id reason note now d =
     chain (ok_or (BatchError (NoOpenBatch source_thread_id)) (thread_head d source_thread_id)) (\<lambda>batch_id.
     chain (close_batch_tx batch_id reason note now d) (\<lambda>d.
     chain (extend_closed_batch_artifact_retention_tx batch_id now d) (\<lambda>(artifacts_to_sync, d).
     chain (query_batch_inspect_tx d batch_id) (\<lambda>inspect.
     Inr (inspect, snd (sync_artifact_manifests rewrite artifacts_to_sync now d))))))"

end
