(* ===== verification/Cbth_Sessions.thy ===== *)
theory Cbth_Sessions
  imports Cbth_Queue
begin

text \<open>
  CLI managed sessions (\<open>src/store.rs\<close>): binding a thread to a session, the activity, capability and
  permission proofs a session reports for its current epoch, the loss of those proofs, parking and
  retiring. A session's epoch advances whenever its proof is invalidated, so that an attempt that
  was begun under an older epoch can no longer be accepted.
\<close>

record session_permissions =
  session_allows_approval :: bool
  session_allows_network :: bool
  session_allows_write_access :: bool

record profile_requirement =
  required_approval :: "bool option"
  required_network :: "bool option"
  required_write_access :: "bool option"

record session_capabilities =
  capability_thread_resume :: bool
  capability_turn_start :: bool
  capability_current_state_sync :: bool
  capability_turn_completed_event :: bool
  capability_negative_terminal_events :: bool
  capability_thread_start :: bool
  capability_turn_steer :: bool

record permission_snapshot =
  snap_startup :: "session_permissions option"
  snap_effective :: session_permissions
  snap_json :: string

datatype attach_outcome = Attached | Replaced | Created

section \<open>Queries and checks\<close>

definition query_non_retired_cli_managed_session_by_thread_tx :: "db \<Rightarrow> string \<Rightarrow> session_row option" where
  "query_non_retired_cli_managed_session_by_thread_tx d bound_thread_id =
     first_row (order_by_desc (\<lambda>s. (s_created_at s, s_managed_session_id s))
       (filter (\<lambda>s. s_bound_thread_id s = bound_thread_id \<and> s_session_state s \<noteq> Retired)
         (cli_managed_sessions d)))"

definition query_active_delivery_attempt_for_cli_session_tx ::
    "db \<Rightarrow> string \<Rightarrow> (string \<times> attempt_state) option" where
  "query_active_delivery_attempt_for_cli_session_tx d managed_session_id =
     map_option (\<lambda>a. (a_attempt_id a, a_state a))
       (first_row (order_by_desc (\<lambda>a. (a_updated_at a, a_attempt_id a))
         (filter (\<lambda>a. a_adapter_kind a = Cli \<and> a_managed_session_id a = Some managed_session_id \<and> active a)
           (delivery_attempts d))))"

definition none_or_eq :: "bool option \<Rightarrow> bool \<Rightarrow> bool" where
  "none_or_eq r v = (case r of None \<Rightarrow> True | Some required \<Rightarrow> v = required)"

definition ensure_cli_session_profile_matches_requirement ::
    "session_row \<Rightarrow> profile_requirement \<Rightarrow> store_error + unit" where
  "ensure_cli_session_profile_matches_requirement session requirement =
     require (none_or_eq (required_approval requirement) (s_session_allows_approval session) \<and>
              none_or_eq (required_network requirement) (s_session_allows_network session) \<and>
              none_or_eq (required_write_access requirement) (s_session_allows_write_access session))
       (SessionError (SessionProfileMismatch (s_managed_session_id session)))"

definition cli_session_startup_permissions_are_pinned :: "session_row \<Rightarrow> bool" where
  "cli_session_startup_permissions_are_pinned s \<longleftrightarrow>
     s_startup_session_allows_approval s \<noteq> None \<and> s_startup_session_allows_network s \<noteq> None \<and>
     s_startup_session_allows_write_access s \<noteq> None \<and> s_startup_permission_snapshot_json s \<noteq> None"

definition cli_session_current_permission_snapshot_is_fresh :: "session_row \<Rightarrow> bool" where
  "cli_session_current_permission_snapshot_is_fresh s \<longleftrightarrow>
     s_last_permission_snapshot_json s \<noteq> None \<and> 0 < s_permission_snapshot_revision s"

definition ensure_cli_session_startup_permissions_can_pin ::
    "session_row \<Rightarrow> session_permissions \<Rightarrow> string \<Rightarrow> store_error + unit" where
  "ensure_cli_session_startup_permissions_can_pin s startup snapshot_json =
     (if \<not> cli_session_startup_permissions_are_pinned s then Inr ()
      else require (s_startup_session_allows_approval s = Some (session_allows_approval startup) \<and>
                    s_startup_session_allows_network s = Some (session_allows_network startup) \<and>
                    s_startup_session_allows_write_access s = Some (session_allows_write_access startup) \<and>
                    s_startup_permission_snapshot_json s = Some snapshot_json)
             (SessionError (SessionStartupPinned (s_managed_session_id s))))"

definition ensure_cli_session_has_no_recovery_blockers_tx :: "db \<Rightarrow> session_row \<Rightarrow> store_error + unit" where
  "ensure_cli_session_has_no_recovery_blockers_tx d s =
     (case query_active_delivery_attempt_for_cli_session_tx d (s_managed_session_id s) of
        Some (attempt_id, state) \<Rightarrow>
          Inl (SessionError (SessionHasActiveAttempt (s_managed_session_id s) attempt_id))
      | None \<Rightarrow>
          (case query_open_manual_head_batch_for_thread_tx d (s_bound_thread_id s) of
             Some batch_id \<Rightarrow> Inl (SessionError (SessionBlockedByManualHead (s_managed_session_id s) batch_id))
           | None \<Rightarrow> Inr ()))"

definition ensure_cli_session_retire_eligible_tx :: "db \<Rightarrow> session_row \<Rightarrow> store_error + unit" where
  "ensure_cli_session_retire_eligible_tx d s =
     (case s_session_state s of
        Live \<Rightarrow> Inl (SessionError (SessionIsLive (s_managed_session_id s)))
      | Retired \<Rightarrow> Inl (SessionError (SessionAlreadyRetired (s_managed_session_id s)))
      | _ \<Rightarrow> ensure_cli_session_has_no_recovery_blockers_tx d s)"

definition ensure_cli_session_attachable :: "session_row \<Rightarrow> store_error + unit" where
  "ensure_cli_session_attachable s =
     require (s_session_state s \<in> {Live, Detached})
       (SessionError (SessionNotAttachable (s_managed_session_id s) (s_session_state s)))"

definition ensure_cli_session_epoch_matches :: "session_row \<Rightarrow> int \<Rightarrow> store_error + unit" where
  "ensure_cli_session_epoch_matches s session_epoch =
     require (s_session_epoch s = session_epoch)
       (SessionError (SessionEpochMismatch (s_managed_session_id s) (s_session_epoch s) session_epoch))"

definition ensure_cli_session_activity_value :: "string \<Rightarrow> store_error + activity_state" where
  "ensure_cli_session_activity_value s =
     (if s = ''active'' then Inr ActivityActive
      else if s = ''idle'' then Inr ActivityIdle
      else Inl (ValueError (UnsupportedValue ''activity_state'' s)))"

definition session_state_of_text :: "string \<Rightarrow> session_state option" where
  "session_state_of_text s =
     find (\<lambda>v. session_state_text v = s) [Live, Detached, Parked, Stale, Retired]"

definition cli_session_proof_is_clear :: "session_row \<Rightarrow> bool" where
  "cli_session_proof_is_clear s \<longleftrightarrow>
     s_activity_state s = ActivityUnknown \<and> s_activity_revision s = 0 \<and> s_capability_revision s = 0 \<and>
     \<not> s_capability_thread_resume s \<and> \<not> s_capability_turn_start s \<and>
     \<not> s_capability_current_state_sync s \<and> \<not> s_capability_turn_completed_event s \<and>
     \<not> s_capability_negative_terminal_events s \<and> \<not> s_capability_thread_start s \<and>
     \<not> s_capability_turn_steer s \<and> s_last_permission_snapshot_json s = None \<and>
     s_permission_snapshot_revision s = 0"

definition ensure_cli_session_activity_revision_can_advance ::
    "session_row \<Rightarrow> activity_state \<Rightarrow> int \<Rightarrow> store_error + unit" where
  "ensure_cli_session_activity_revision_can_advance s state revision =
     require ((revision = s_activity_revision s \<and> state = s_activity_state s) \<or>
              checked_add (s_activity_revision s) 1 = Some revision)
       (SessionError (SessionRevisionNotNext (s_managed_session_id s) revision))"

definition cli_session_capabilities_match :: "session_row \<Rightarrow> session_capabilities \<Rightarrow> bool" where
  "cli_session_capabilities_match s c \<longleftrightarrow>
     s_capability_thread_resume s = capability_thread_resume c \<and>
     s_capability_turn_start s = capability_turn_start c \<and>
     s_capability_current_state_sync s = capability_current_state_sync c \<and>
     s_capability_turn_completed_event s = capability_turn_completed_event c \<and>
     s_capability_negative_terminal_events s = capability_negative_terminal_events c \<and>
     s_capability_thread_start s = capability_thread_start c \<and>
     s_capability_turn_steer s = capability_turn_steer c"

definition ensure_cli_session_capability_revision_can_advance ::
    "session_row \<Rightarrow> session_capabilities \<Rightarrow> int \<Rightarrow> store_error + unit" where
  "ensure_cli_session_capability_revision_can_advance s c revision =
     require ((revision = s_capability_revision s \<and> cli_session_capabilities_match s c) \<or>
              checked_add (s_capability_revision s) 1 = Some revision)
       (SessionError (SessionRevisionNotNext (s_managed_session_id s) revision))"

definition ensure_cli_session_has_minimum_turn_start_capabilities ::
    "session_row \<Rightarrow> store_error + unit" where
  "ensure_cli_session_has_minimum_turn_start_capabilities s =
     require ((s_capability_thread_resume s \<or> s_capability_thread_start s) \<and>
              s_capability_turn_start s \<and> s_capability_current_state_sync s \<and>
              s_capability_turn_completed_event s \<and> s_capability_negative_terminal_events s)
       (SessionError (SessionCapabilitiesMissing (s_managed_session_id s)))"

section \<open>Transitions of one session\<close>

definition update_session :: "string \<Rightarrow> (session_row \<Rightarrow> session_row) \<Rightarrow> db \<Rightarrow> db" where
  "update_session sid f d =
     d\<lparr>cli_managed_sessions := update_where (\<lambda>s. s_managed_session_id s = sid) f (cli_managed_sessions d)\<rparr>"

definition create_cli_managed_session_tx ::
    "string \<Rightarrow> string \<Rightarrow> session_permissions \<Rightarrow> int \<Rightarrow> db \<Rightarrow> store_error + session_row \<times> db" where
  "create_cli_managed_session_tx new_id bound_thread_id profile now d =
     chain (insert_session
       \<lparr>s_managed_session_id = new_id, s_bound_thread_id = bound_thread_id, s_session_epoch = 1,
        s_session_state = Live, s_activity_state = ActivityUnknown, s_activity_revision = 0,
        s_capability_revision = 0, s_capability_thread_resume = False,
        s_capability_turn_start = False, s_capability_current_state_sync = False,
        s_capability_turn_completed_event = False, s_capability_negative_terminal_events = False,
        s_capability_thread_start = False, s_capability_turn_steer = False,
        s_session_allows_approval = session_allows_approval profile,
        s_session_allows_network = session_allows_network profile,
        s_session_allows_write_access = session_allows_write_access profile,
        s_startup_session_allows_approval = None, s_startup_session_allows_network = None,
        s_startup_session_allows_write_access = None, s_startup_permission_snapshot_json = None,
        s_last_permission_snapshot_json = None, s_permission_snapshot_revision = 0,
        s_created_at = now, s_updated_at = now, s_retired_at = None\<rparr> d) (\<lambda>d.
     chain (query_cli_managed_session_tx d new_id) (\<lambda>s. Inr (s, d)))"

definition retire_cli_managed_session_tx ::
    "string \<Rightarrow> session_row \<Rightarrow> string \<Rightarrow> string \<Rightarrow> int \<Rightarrow> db \<Rightarrow> store_error + session_row \<times> db" where
  "retire_cli_managed_session_tx new_audit_id session decision reason now d =
     (let d = d\<lparr>cli_managed_sessions := update_where
            (\<lambda>s. s_managed_session_id s = s_managed_session_id session \<and> s_session_state s \<noteq> Retired)
            (\<lambda>s. (clear_startup_proof (clear_current_proof s))\<lparr>s_session_state := Retired,
                   s_updated_at := now, s_retired_at := Some now\<rparr>) (cli_managed_sessions d)\<rparr>
      in chain (insert_audit
           \<lparr>au_audit_id = new_audit_id, au_recorded_at = now,
            au_source_thread_id = Some (s_bound_thread_id session), au_batch_id = None,
            au_attempt_id = None, au_managed_session_id = Some (s_managed_session_id session),
            au_session_epoch = Some (s_session_epoch session),
            au_policy_kind = ''cli_session_recovery'', au_decision = decision, au_reason = reason,
            au_adapter_kind = ''cli'',
            au_details_json = ''{\"previous_session_state\":\"'' @ session_state_text (s_session_state session) @
              ''\",\"retired_by\":\"'' @ decision @ ''\"}''\<rparr> d) (\<lambda>d.
         chain (query_cli_managed_session_tx d (s_managed_session_id session)) (\<lambda>s. Inr (s, d))))"

definition detach_cli_managed_session_tx :: "string \<Rightarrow> int \<Rightarrow> db \<Rightarrow> db" where
  "detach_cli_managed_session_tx managed_session_id now d =
     d\<lparr>cli_managed_sessions := update_where
        (\<lambda>s. s_managed_session_id s = managed_session_id \<and> s_session_state s \<in> {Live, Detached})
        (\<lambda>s. s\<lparr>s_session_state := Detached, s_updated_at := now\<rparr>) (cli_managed_sessions d)\<rparr>"

definition park_cli_managed_session_tx :: "string option \<Rightarrow> int \<Rightarrow> db \<Rightarrow> db" where
  "park_cli_managed_session_tx managed_session_id now d =
     (case managed_session_id of
        None \<Rightarrow> d
      | Some sid \<Rightarrow> d\<lparr>cli_managed_sessions := update_where
          (\<lambda>s. s_managed_session_id s = sid \<and> s_session_state s \<in> {Live, Detached, Stale})
          (\<lambda>s. (clear_startup_proof (clear_current_proof s))\<lparr>s_session_state := Parked, s_updated_at := now\<rparr>)
          (cli_managed_sessions d)\<rparr>)"

text \<open>
  Losing a session's epoch abandons the CLI observations of its open batches: those still tracked
  and those that had expired (which a late completion could otherwise still close); their batches
  need manual resolution from then on and the session is parked.
\<close>

definition epoch_bound_observation :: "attempt_row \<Rightarrow> bool" where
  "epoch_bound_observation a \<longleftrightarrow>
     (a_state a = Cooldown \<and> a_delivery_observation_state a = Some Tracking) \<or>
     (a_state a = Abandoned \<and> a_delivery_observation_state a = Some ObservationExpired)"

definition abandon_one_epoch_bound_observation :: "int \<Rightarrow> int \<Rightarrow> string \<times> string \<Rightarrow> db \<Rightarrow> db" where
  "abandon_one_epoch_bound_observation window_ends_at now = (\<lambda>(attempt_id, batch_id) d.
     set_batch_manual batch_id window_ends_at now
       (d\<lparr>delivery_attempts := update_where
          (\<lambda>a. a_attempt_id a = attempt_id \<and> epoch_bound_observation a)
          (\<lambda>a. a\<lparr>a_state := Abandoned, a_delivery_observation_state := Some ObservationAbandoned,
                a_updated_at := now, a_abandoned_at := Some now\<rparr>) (delivery_attempts d)\<rparr>))"

definition abandon_cli_observations_for_session_epoch_loss_tx ::
    "string \<Rightarrow> int \<Rightarrow> db \<Rightarrow> store_error + db" where
  "abandon_cli_observations_for_session_epoch_loss_tx managed_session_id now d =
     chain (checked_timestamp_add now DEFAULT_REDELIVERY_WINDOW_SECONDS ''manual_resolution_window_seconds'')
       (\<lambda>window_ends_at.
     let attempts = map (\<lambda>a. (a_attempt_id a, a_batch_id a))
           (filter (\<lambda>a. a_adapter_kind a = Cli \<and> a_managed_session_id a = Some managed_session_id \<and>
                        batch_state_is d BatchOpen a \<and> epoch_bound_observation a) (delivery_attempts d));
         d = fold (abandon_one_epoch_bound_observation window_ends_at now) attempts d
     in Inr (if attempts \<noteq> [] then park_cli_managed_session_tx (Some managed_session_id) now d else d))"

section \<open>The operations\<close>

definition attach_or_create_cli_managed_session ::
    "string \<Rightarrow> string \<Rightarrow> string \<Rightarrow> session_permissions \<Rightarrow> profile_requirement \<Rightarrow> int \<Rightarrow> db \<Rightarrow>
      store_error + (attach_outcome \<times> session_row) \<times> db" where
  "attach_or_create_cli_managed_session new_session_id new_audit_id bound_thread_id profile
      profile_requirement now d =
     (case query_non_retired_cli_managed_session_by_thread_tx d bound_thread_id of
        Some existing \<Rightarrow>
          if is_ok (ensure_cli_session_profile_matches_requirement existing profile_requirement) \<and>
             is_ok (ensure_cli_session_attachable existing)
          then chain (ensure_cli_session_has_no_recovery_blockers_tx d existing) (\<lambda>_.
               chain (abandon_cli_observations_for_session_epoch_loss_tx (s_managed_session_id existing) now d) (\<lambda>d.
               let d = update_session (s_managed_session_id existing) (\<lambda>s.
                     (clear_startup_proof (clear_current_proof s))\<lparr>s_session_state := Live,
                       s_session_epoch := s_session_epoch s + 1, s_updated_at := now\<rparr>) d
               in chain (query_cli_managed_session_tx d (s_managed_session_id existing)) (\<lambda>session.
                  Inr ((Attached, session), d))))
          else chain (ensure_cli_session_retire_eligible_tx d existing) (\<lambda>_.
               chain (retire_cli_managed_session_tx new_audit_id existing ''auto_replace''
                 ''auto-replaced by cli session bind'' now d) (\<lambda>(_, d).
               chain (create_cli_managed_session_tx new_session_id bound_thread_id profile now d) (\<lambda>(session, d).
               Inr ((Replaced, session), d))))
      | None \<Rightarrow>
          chain (create_cli_managed_session_tx new_session_id bound_thread_id profile now d) (\<lambda>(session, d).
          Inr ((Created, session), d)))"

definition list_cli_managed_sessions ::
    "db \<Rightarrow> string option \<Rightarrow> string option \<Rightarrow> int \<Rightarrow> store_error + session_row list" where
  "list_cli_managed_sessions d bound_thread_id state limit =
     chain (ensure_positive_value ''limit'' limit) (\<lambda>_.
     chain (require (limit \<le> 1000) (ValueError LimitTooLarge)) (\<lambda>_.
     chain (case state of
              None \<Rightarrow> Inr ()
            | Some st \<Rightarrow> require (session_state_of_text st \<noteq> None)
                (ValueError (UnsupportedValue ''session_state'' st))) (\<lambda>_.
     Inr (sql_limit limit
       (order_by_desc (\<lambda>s. (s_updated_at s, s_created_at s, s_managed_session_id s))
         (filter (\<lambda>s. (bound_thread_id = None \<or> bound_thread_id = Some (s_bound_thread_id s)) \<and>
                      (state = None \<or> state = Some (session_state_text (s_session_state s))))
           (cli_managed_sessions d)))))))"

definition retire_cli_managed_session ::
    "string \<Rightarrow> string \<Rightarrow> string \<Rightarrow> int \<Rightarrow> db \<Rightarrow> store_error + session_row \<times> db" where
  "retire_cli_managed_session new_audit_id managed_session_id reason now d =
     chain (ensure_nonempty_value ''reason'' reason) (\<lambda>_.
     chain (query_cli_managed_session_tx d managed_session_id) (\<lambda>session.
     chain (ensure_cli_session_retire_eligible_tx d session) (\<lambda>_.
     retire_cli_managed_session_tx new_audit_id session ''operator_retire'' reason now d)))"

definition note_cli_managed_session_activity ::
    "string \<Rightarrow> int \<Rightarrow> string \<Rightarrow> int \<Rightarrow> int \<Rightarrow> db \<Rightarrow> store_error + session_row \<times> db" where
  "note_cli_managed_session_activity managed_session_id session_epoch activity activity_revision now d =
     chain (ensure_cli_session_activity_value activity) (\<lambda>state.
     chain (ensure_positive_value ''activity_revision'' activity_revision) (\<lambda>_.
     chain (query_cli_managed_session_tx d managed_session_id) (\<lambda>session.
     chain (ensure_cli_session_epoch_matches session session_epoch) (\<lambda>_.
     chain (ensure_cli_session_attachable session) (\<lambda>_.
     chain (ensure_cli_session_activity_revision_can_advance session state activity_revision) (\<lambda>_.
     if s_activity_revision session = activity_revision then Inr (session, d)
     else let d = update_session managed_session_id (\<lambda>s. s\<lparr>s_activity_state := state,
                s_activity_revision := activity_revision, s_updated_at := now\<rparr>) d
          in chain (query_cli_managed_session_tx d managed_session_id) (\<lambda>session. Inr (session, d))))))))"

definition note_cli_managed_session_capabilities ::
    "string \<Rightarrow> int \<Rightarrow> int \<Rightarrow> session_capabilities \<Rightarrow> int \<Rightarrow> db \<Rightarrow> store_error + session_row \<times> db" where
  "note_cli_managed_session_capabilities managed_session_id session_epoch capability_revision c now d =
     chain (ensure_positive_value ''capability_revision'' capability_revision) (\<lambda>_.
     chain (query_cli_managed_session_tx d managed_session_id) (\<lambda>session.
     chain (ensure_cli_session_epoch_matches session session_epoch) (\<lambda>_.
     chain (ensure_cli_session_attachable session) (\<lambda>_.
     chain (ensure_cli_session_capability_revision_can_advance session c capability_revision) (\<lambda>_.
     if s_capability_revision session = capability_revision then Inr (session, d)
     else let d = update_session managed_session_id (\<lambda>s. s\<lparr>
                s_capability_revision := capability_revision,
                s_capability_thread_resume := capability_thread_resume c,
                s_capability_turn_start := capability_turn_start c,
                s_capability_current_state_sync := capability_current_state_sync c,
                s_capability_turn_completed_event := capability_turn_completed_event c,
                s_capability_negative_terminal_events := capability_negative_terminal_events c,
                s_capability_thread_start := capability_thread_start c,
                s_capability_turn_steer := capability_turn_steer c, s_updated_at := now\<rparr>) d
          in chain (query_cli_managed_session_tx d managed_session_id) (\<lambda>session. Inr (session, d)))))))"

definition note_cli_managed_session_permissions ::
    "string \<Rightarrow> int \<Rightarrow> permission_snapshot \<Rightarrow> int \<Rightarrow> db \<Rightarrow> store_error + session_row \<times> db" where
  "note_cli_managed_session_permissions managed_session_id session_epoch snapshot now d =
     chain (ensure_nonempty_value ''permission_snapshot_json'' (snap_json snapshot)) (\<lambda>_.
     chain (query_cli_managed_session_tx d managed_session_id) (\<lambda>session.
     chain (ensure_cli_session_epoch_matches session session_epoch) (\<lambda>_.
     chain (ensure_cli_session_attachable session) (\<lambda>_.
     chain (case snap_startup snapshot of
              Some startup \<Rightarrow>
                ensure_cli_session_startup_permissions_can_pin session startup (snap_json snapshot)
            | None \<Rightarrow> require (cli_session_startup_permissions_are_pinned session)
                (SessionError (SessionStartupMissing managed_session_id))) (\<lambda>_.
     let pin = (case snap_startup snapshot of
                  Some startup \<Rightarrow>
                    if \<not> cli_session_startup_permissions_are_pinned session
                    then (\<lambda>s. s\<lparr>
                      s_startup_session_allows_approval := Some (session_allows_approval startup),
                      s_startup_session_allows_network := Some (session_allows_network startup),
                      s_startup_session_allows_write_access := Some (session_allows_write_access startup),
                      s_startup_permission_snapshot_json := Some (snap_json snapshot)\<rparr>)
                    else id
                | None \<Rightarrow> id)
     in chain (ok_or (SessionError PermissionRevisionOverflow)
           (checked_add (s_permission_snapshot_revision session) 1)) (\<lambda>next_revision.
        let d = update_session managed_session_id (\<lambda>s. (pin s)\<lparr>
              s_session_allows_approval := session_allows_approval (snap_effective snapshot),
              s_session_allows_network := session_allows_network (snap_effective snapshot),
              s_session_allows_write_access := session_allows_write_access (snap_effective snapshot),
              s_last_permission_snapshot_json := Some (snap_json snapshot),
              s_permission_snapshot_revision := next_revision, s_updated_at := now\<rparr>) d
        in chain (query_cli_managed_session_tx d managed_session_id) (\<lambda>session. Inr (session, d))))))))"

definition invalidate_cli_managed_session_proof ::
    "string \<Rightarrow> int \<Rightarrow> int \<Rightarrow> db \<Rightarrow> store_error + session_row \<times> db" where
  "invalidate_cli_managed_session_proof managed_session_id session_epoch now d =
     chain (ensure_positive_value ''session_epoch'' session_epoch) (\<lambda>_.
     chain (query_cli_managed_session_tx d managed_session_id) (\<lambda>session.
     if s_session_state session \<notin> {Live, Detached} then Inr (session, d)
     else if s_session_epoch session \<noteq> session_epoch \<and> s_session_epoch session > session_epoch \<and>
             cli_session_proof_is_clear session then Inr (session, d)
     else chain (ensure_cli_session_epoch_matches session session_epoch) (\<lambda>_.
          chain (abandon_cli_observations_for_session_epoch_loss_tx managed_session_id now d) (\<lambda>d.
          let d = invalidate_cli_managed_session_activity_tx (Some managed_session_id) (Some session_epoch) now d
          in chain (query_cli_managed_session_tx d managed_session_id) (\<lambda>session. Inr (session, d))))))"

definition invalidate_cli_managed_session_current_proof ::
    "string \<Rightarrow> string \<Rightarrow> int \<Rightarrow> db \<Rightarrow> store_error + session_row \<times> db" where
  "invalidate_cli_managed_session_current_proof managed_session_id bound_thread_id now d =
     chain (query_cli_managed_session_tx d managed_session_id) (\<lambda>session.
     chain (require (s_bound_thread_id session = bound_thread_id)
       (SessionError (SessionBoundElsewhere managed_session_id (s_bound_thread_id session)))) (\<lambda>_.
     if s_session_state session \<notin> {Live, Detached} then Inr (session, d)
     else chain (abandon_cli_observations_for_session_epoch_loss_tx managed_session_id now d) (\<lambda>d.
          let d = invalidate_cli_managed_session_activity_tx (Some managed_session_id)
                    (Some (s_session_epoch session)) now d;
              d = detach_cli_managed_session_tx managed_session_id now d
          in chain (query_cli_managed_session_tx d managed_session_id) (\<lambda>session. Inr (session, d)))))"

end
