(* ===== verification/Cbth_Delivery.thy ===== *)
theory Cbth_Delivery
  imports Cbth_Sessions
begin

text \<open>
  What the delivery adapters share (\<open>src/store.rs\<close>): the checks on an attempt, the acceptance of a
  pending attempt (which spends one of the batch's delivery attempts), its rejection and the
  observation of the delivered turn. \<open>Cbth_Cli\<close> and \<open>Cbth_AppServer\<close> build the two adapters on them.
\<close>

section \<open>Checks\<close>

definition batch_has_plugin_delivery_request_tx :: "db \<Rightarrow> string \<Rightarrow> bool" where
  "batch_has_plugin_delivery_request_tx d batch_id \<longleftrightarrow>
     (\<exists>p\<in>set (plugin_delivery_requests d). p_batch_id p = batch_id)"

definition ensure_batch_is_not_plugin_delivery_tx :: "db \<Rightarrow> batch_row \<Rightarrow> store_error + unit" where
  "ensure_batch_is_not_plugin_delivery_tx d batch =
     require (\<not> batch_has_plugin_delivery_request_tx d (b_batch_id batch))
       (BatchError (ReservedForPlugin (b_batch_id batch)))"

definition detached_delivery_safe :: "batch_row \<Rightarrow> bool" where
  "detached_delivery_safe b \<longleftrightarrow>
     delivery_read_only (b_delivery_policy b) \<and> \<not> delivery_requires_approval (b_delivery_policy b) \<and>
     \<not> delivery_requires_network (b_delivery_policy b) \<and>
     \<not> delivery_requires_write_access (b_delivery_policy b) \<and> \<not> b_requires_artifact_read b"

definition ensure_batch_allows_detached_cli_delivery :: "batch_row \<Rightarrow> store_error + unit" where
  "ensure_batch_allows_detached_cli_delivery batch =
     require (detached_delivery_safe batch) (BatchError (NotEligibleForDetachedDelivery (b_batch_id batch)))"

definition authorization_mode_of_text :: "string \<Rightarrow> authorization_mode option" where
  "authorization_mode_of_text s =
     (if s = ''strict_safe'' then Some StrictSafe else if s = ''trusted_all'' then Some TrustedAll else None)"

definition ensure_cli_attempt_authorization_mode_value :: "string \<Rightarrow> store_error + authorization_mode" where
  "ensure_cli_attempt_authorization_mode_value s =
     ok_or (ValueError (UnsupportedValue ''authorization_mode'' s)) (authorization_mode_of_text s)"

definition ensure_batch_allows_cli_delivery_for_authorization ::
    "batch_row \<Rightarrow> authorization_mode \<Rightarrow> store_error + unit" where
  "ensure_batch_allows_cli_delivery_for_authorization batch mode =
     (case mode of StrictSafe \<Rightarrow> ensure_batch_allows_detached_cli_delivery batch | TrustedAll \<Rightarrow> Inr ())"

definition ensure_cli_session_identity_allows_delivery ::
    "session_row \<Rightarrow> string \<Rightarrow> int \<Rightarrow> authorization_mode \<Rightarrow> store_error + unit" where
  "ensure_cli_session_identity_allows_delivery s source_thread_id session_epoch mode =
     chain (require (s_bound_thread_id s = source_thread_id)
       (SessionError (SessionBoundElsewhere (s_managed_session_id s) (s_bound_thread_id s)))) (\<lambda>_.
     chain (ensure_cli_session_epoch_matches s session_epoch) (\<lambda>_.
     chain (require (s_session_state s \<in> {Live, Detached})
       (SessionError (SessionNotLiveOrDetached (s_managed_session_id s)))) (\<lambda>_.
     case mode of
       TrustedAll \<Rightarrow> Inr ()
     | StrictSafe \<Rightarrow>
         chain (require (\<not> (cli_session_startup_permissions_are_pinned s \<and>
                           \<not> cli_session_current_permission_snapshot_is_fresh s))
           (SessionError (SessionSnapshotNotFresh (s_managed_session_id s)))) (\<lambda>_.
         require (\<not> s_session_allows_approval s \<and> \<not> s_session_allows_network s \<and>
                  \<not> s_session_allows_write_access s)
           (SessionError (SessionNotEligible (s_managed_session_id s)))))))"

definition ensure_cli_session_allows_delivery ::
    "session_row \<Rightarrow> string \<Rightarrow> int \<Rightarrow> string \<Rightarrow> authorization_mode \<Rightarrow> store_error + rpc_kind" where
  "ensure_cli_session_allows_delivery s source_thread_id session_epoch delivery_rpc_kind mode =
     chain (ensure_cli_session_identity_allows_delivery s source_thread_id session_epoch mode) (\<lambda>_.
     if delivery_rpc_kind = ''turn_start'' then
       chain (ensure_cli_session_has_minimum_turn_start_capabilities s) (\<lambda>_.
       chain (require (s_activity_state s = ActivityIdle)
         (SessionError (SessionNotIdle (s_managed_session_id s)))) (\<lambda>_.
       Inr TurnStart))
     else if delivery_rpc_kind = ''turn_steer'' then Inl (AttemptError TurnSteerUnsupported)
     else Inl (ValueError (UnsupportedValue ''delivery_rpc_kind'' delivery_rpc_kind)))"

definition ensure_cli_attempt_has_recorded_detached_delivery_proof_snapshot ::
    "attempt_row \<Rightarrow> store_error + rpc_kind" where
  "ensure_cli_attempt_has_recorded_detached_delivery_proof_snapshot a =
     chain (ok_or (AttemptError (AttemptMissing (a_attempt_id a) ''delivery_rpc_kind''))
       (a_delivery_rpc_kind a)) (\<lambda>kind.
     case kind of
       TurnStart \<Rightarrow>
         chain (require (0 < a_session_activity_revision a \<and> 0 < a_session_capability_revision a)
           (AttemptError (AttemptWithoutProof (a_attempt_id a)))) (\<lambda>_. Inr kind)
     | TurnSteer \<Rightarrow> Inl (AttemptError TurnSteerUnsupported))"

definition ensure_cli_attempt_has_recorded_detached_delivery_proof ::
    "attempt_row \<Rightarrow> session_row \<Rightarrow> store_error + unit" where
  "ensure_cli_attempt_has_recorded_detached_delivery_proof a s =
     chain (ensure_cli_attempt_has_recorded_detached_delivery_proof_snapshot a) (\<lambda>_.
     chain (require (a_session_capability_revision a \<le> s_capability_revision s)
       (AttemptError (AttemptCapabilityAhead (a_attempt_id a)))) (\<lambda>_.
     ensure_cli_session_has_minimum_turn_start_capabilities s))"

definition ensure_cli_attempt_has_current_managed_session_for_batch_tx ::
    "db \<Rightarrow> attempt_row \<Rightarrow> batch_row \<Rightarrow> store_error + unit" where
  "ensure_cli_attempt_has_current_managed_session_for_batch_tx d a batch =
     chain (ok_or (AttemptError (AttemptMissing (a_attempt_id a) ''managed_session_id''))
       (a_managed_session_id a)) (\<lambda>managed_session_id.
     chain (ok_or (AttemptError (AttemptMissing (a_attempt_id a) ''session_epoch''))
       (a_session_epoch a)) (\<lambda>session_epoch.
     chain (query_cli_managed_session_tx d managed_session_id) (\<lambda>session.
     chain (ensure_cli_session_identity_allows_delivery session (b_source_thread_id batch)
       session_epoch (a_authorization_mode a)) (\<lambda>_.
     ensure_cli_attempt_has_recorded_detached_delivery_proof a session))))"

definition ensure_cli_attempt_has_current_managed_session_tx :: "db \<Rightarrow> attempt_row \<Rightarrow> store_error + unit" where
  "ensure_cli_attempt_has_current_managed_session_tx d a =
     chain (query_batch_tx d (a_batch_id a)) (\<lambda>batch.
     ensure_cli_attempt_has_current_managed_session_for_batch_tx d a batch)"

section \<open>Accepting a pending attempt\<close>

definition pending_acceptance :: "attempt_row \<Rightarrow> bool" where
  "pending_acceptance a \<longleftrightarrow> a_state a = AcceptPending \<and> a_delivery_rpc_state a = Some PendingAcceptance"

definition ensure_attempt_accept_pending_for_adapter :: "attempt_row \<Rightarrow> adapter_kind \<Rightarrow> store_error + unit" where
  "ensure_attempt_accept_pending_for_adapter a kind =
     require (a_adapter_kind a = kind \<and> a_state a = AcceptPending \<and>
              a_delivery_rpc_state a = Some PendingAcceptance)
       (AttemptError (AttemptNotPendingAcceptance (a_attempt_id a) kind))"

definition already_accepted :: "attempt_row \<Rightarrow> string \<Rightarrow> bool" where
  "already_accepted a delivery_turn_id \<longleftrightarrow>
     a_state a = Cooldown \<and> a_delivery_rpc_state a = Some Accepted \<and>
     a_delivery_turn_id a = Some delivery_turn_id"

definition update_attempts :: "(attempt_row \<Rightarrow> bool) \<Rightarrow> (attempt_row \<Rightarrow> attempt_row) \<Rightarrow> db \<Rightarrow> db" where
  "update_attempts p f d = d\<lparr>delivery_attempts := update_where p f (delivery_attempts d)\<rparr>"

definition store_acceptance :: "string \<Rightarrow> string \<Rightarrow> int \<Rightarrow> int \<Rightarrow> db \<Rightarrow> db" where
  "store_acceptance attempt_id delivery_turn_id accepted_at observation_deadline =
     update_attempts (\<lambda>a. a_attempt_id a = attempt_id \<and> pending_acceptance a)
       (\<lambda>a. a\<lparr>a_state := Cooldown, a_delivery_rpc_state := Some Accepted,
             a_delivery_turn_id := Some delivery_turn_id, a_delivery_accepted_at := Some accepted_at,
             a_delivery_observation_state := Some Tracking,
             a_delivery_observation_deadline := Some observation_deadline, a_updated_at := accepted_at\<rparr>)"

text \<open>
  The four \<open>UPDATE\<close>s that end a pending attempt without acceptance set the same columns: the attempt
  is abandoned, its RPC is known to be rejected or has an unknown outcome.
\<close>

definition store_pre_accept_end :: "rpc_state \<Rightarrow> string \<Rightarrow> int \<Rightarrow> db \<Rightarrow> db" where
  "store_pre_accept_end outcome attempt_id now =
     update_attempts (\<lambda>a. a_attempt_id a = attempt_id \<and> pending_acceptance a)
       (\<lambda>a. a\<lparr>a_state := Abandoned, a_delivery_rpc_state := Some outcome,
             a_delivery_observation_state := Some ObservationAbandoned, a_updated_at := now,
             a_abandoned_at := Some now\<rparr>)"

section \<open>Observing the delivered turn\<close>

definition turn_event_of_text :: "string \<Rightarrow> turn_event option" where
  "turn_event_of_text s =
     find (\<lambda>v. turn_event_text v = s) [TurnStarted, TurnCompleted, TurnFailed, TurnInterrupted, TurnReplaced]"

definition ensure_cli_turn_event_value :: "string \<Rightarrow> store_error + turn_event" where
  "ensure_cli_turn_event_value s =
     ok_or (ValueError (UnsupportedValue ''turn_event'' s)) (turn_event_of_text s)"

definition ensure_cli_turn_observation_matches_attempt :: "attempt_row \<Rightarrow> string \<Rightarrow> store_error + unit" where
  "ensure_cli_turn_observation_matches_attempt a delivery_turn_id =
     require (a_delivery_turn_id a = Some delivery_turn_id)
       (AttemptError (AttemptBoundToOtherTurn (a_attempt_id a)))"

definition tracking :: "attempt_row \<Rightarrow> bool" where
  "tracking a \<longleftrightarrow> a_state a = Cooldown \<and> a_delivery_observation_state a = Some Tracking"

definition ensure_attempt_tracking_turn_observation_for_adapter ::
    "attempt_row \<Rightarrow> adapter_kind \<Rightarrow> store_error + unit" where
  "ensure_attempt_tracking_turn_observation_for_adapter a kind =
     require (a_adapter_kind a = kind \<and> a_state a = Cooldown \<and> a_delivery_rpc_state a = Some Accepted \<and>
              a_delivery_observation_state a = Some Tracking \<and> a_delivery_turn_id a \<noteq> None)
       (AttemptError (AttemptNotTracking (a_attempt_id a) kind))"

definition is_idempotent_terminal_cli_turn_observation :: "attempt_row \<Rightarrow> turn_event \<Rightarrow> bool" where
  "is_idempotent_terminal_cli_turn_observation a ev \<longleftrightarrow>
     a_state a \<in> {AttemptClosed, Abandoned} \<and> a_last_observed_turn_event a = Some ev"

definition can_record_late_cli_turn_evidence :: "attempt_row \<Rightarrow> turn_event \<Rightarrow> bool" where
  "can_record_late_cli_turn_evidence a ev \<longleftrightarrow>
     a_state a = Abandoned \<and>
     a_delivery_observation_state a \<in> {Some ObservationExpired, Some ObservationAbandoned} \<and>
     a_last_observed_turn_event a \<in> {None, Some TurnStarted} \<and>
     ev \<in> {TurnCompleted, TurnFailed, TurnInterrupted, TurnReplaced}"

definition cli_turn_observation_is_after_deadline :: "attempt_row \<Rightarrow> int \<Rightarrow> store_error + bool" where
  "cli_turn_observation_is_after_deadline a observed_at =
     chain (ok_or (AttemptError (AttemptMissing (a_attempt_id a) ''delivery_observation_deadline''))
       (a_delivery_observation_deadline a)) (\<lambda>deadline.
     Inr (deadline \<le> observed_at))"

definition can_complete_delayed_cli_turn_after_expiry :: "attempt_row \<Rightarrow> turn_event \<Rightarrow> int \<Rightarrow> store_error + bool" where
  "can_complete_delayed_cli_turn_after_expiry a ev observed_at =
     (if ev \<noteq> TurnCompleted \<or> a_state a \<noteq> Abandoned \<or> a_delivery_rpc_state a \<noteq> Some Accepted \<or>
         a_delivery_observation_state a \<noteq> Some ObservationExpired \<or>
         a_last_observed_turn_event a \<notin> {None, Some TurnStarted}
      then Inr False
      else chain (cli_turn_observation_is_after_deadline a observed_at) (\<lambda>late. Inr (\<not> late)))"

definition store_turn_started :: "string \<Rightarrow> int \<Rightarrow> db \<Rightarrow> db" where
  "store_turn_started attempt_id observed_at =
     update_attempts (\<lambda>a. a_attempt_id a = attempt_id \<and> tracking a)
       (\<lambda>a. a\<lparr>a_last_observed_turn_event := Some TurnStarted,
             a_last_observed_turn_event_at := Some observed_at, a_updated_at := observed_at\<rparr>)"

definition store_turn_completed :: "string \<Rightarrow> int \<Rightarrow> db \<Rightarrow> db" where
  "store_turn_completed attempt_id observed_at =
     update_attempts (\<lambda>a. a_attempt_id a = attempt_id \<and> tracking a)
       (\<lambda>a. a\<lparr>a_delivery_observation_state := Some ObservationCompleted,
             a_last_observed_turn_event := Some TurnCompleted,
             a_last_observed_turn_event_at := Some observed_at, a_updated_at := observed_at\<rparr>)"

definition store_observation_end :: "observation_state \<Rightarrow> string \<Rightarrow> int \<Rightarrow> db \<Rightarrow> db" where
  "store_observation_end outcome attempt_id now =
     update_attempts (\<lambda>a. a_attempt_id a = attempt_id \<and> tracking a)
       (\<lambda>a. a\<lparr>a_state := Abandoned, a_delivery_observation_state := Some outcome, a_updated_at := now,
             a_abandoned_at := Some now\<rparr>)"

definition abandon_cli_turn_observation_tx ::
    "attempt_row \<Rightarrow> turn_event \<Rightarrow> observation_state \<Rightarrow> int \<Rightarrow> db \<Rightarrow> db" where
  "abandon_cli_turn_observation_tx attempt ev outcome now =
     update_attempts (\<lambda>a. a_attempt_id a = a_attempt_id attempt \<and> tracking a)
       (\<lambda>a. a\<lparr>a_state := Abandoned, a_delivery_observation_state := Some outcome,
             a_last_observed_turn_event := Some ev, a_last_observed_turn_event_at := Some now,
             a_updated_at := now, a_abandoned_at := Some now\<rparr>)"

definition record_late_cli_turn_evidence_tx :: "attempt_row \<Rightarrow> turn_event \<Rightarrow> int \<Rightarrow> db \<Rightarrow> db" where
  "record_late_cli_turn_evidence_tx attempt ev observed_at =
     update_attempts (\<lambda>a. a_attempt_id a = a_attempt_id attempt \<and> a_state a = Abandoned \<and>
          a_last_observed_turn_event a \<in> {None, Some TurnStarted})
       (\<lambda>a. a\<lparr>a_last_observed_turn_event := Some ev, a_last_observed_turn_event_at := Some observed_at,
             a_updated_at := observed_at\<rparr>)"

definition close_delivered_batch ::
    "string \<Rightarrow> string \<Rightarrow> int \<Rightarrow> db \<Rightarrow> store_error + artifact_row list \<times> db" where
  "close_delivered_batch batch_id note observed_at d =
     chain (close_batch_tx batch_id ''delivered'' (Some note) observed_at d)
       (extend_closed_batch_artifact_retention_tx batch_id observed_at)"

section \<open>Attempts by batch\<close>

definition query_delivery_attempts_for_batch :: "db \<Rightarrow> string \<Rightarrow> attempt_row list" where
  "query_delivery_attempts_for_batch d batch_id =
     order_by (\<lambda>a. (a_generation a, a_attempt_id a))
       (filter (\<lambda>a. a_batch_id a = batch_id) (delivery_attempts d))"

end
