(* ===== verification/Cbth_Protocol.thy ===== *)
theory Cbth_Protocol
  imports Cbth_Delivery
begin

text \<open>
  The delivery protocol the store implements, as a small step relation on its three delivery tables
  (batches, attempts, sessions), with the invariant every step keeps and the order in which rows may
  change over time. \<open>Cbth_Refinement\<close> shows that every operation of the store is a sequence of these
  steps, so that the invariant is proved once, per step of the protocol.
\<close>

section \<open>The order of versions of a row\<close>

definition batch_le :: "batch_row \<Rightarrow> batch_row \<Rightarrow> bool" where
  "batch_le b b' \<longleftrightarrow>
     b_batch_id b' = b_batch_id b \<and> b_source_thread_id b' = b_source_thread_id b \<and>
     b_summary b' = b_summary b \<and> b_created_at b' = b_created_at b \<and>
     b_max_delivery_attempts b' = b_max_delivery_attempts b \<and>
     b_delivery_policy b' = b_delivery_policy b \<and>
     b_inline_payload_bytes b' = b_inline_payload_bytes b \<and>
     b_requires_artifact_read b' = b_requires_artifact_read b \<and>
     b_delivery_attempt_count b \<le> b_delivery_attempt_count b' \<and>
     b_redelivery_window_ends_at b \<le> b_redelivery_window_ends_at b' \<and>
     (b_replay_policy b = ManualResolutionOnly \<longrightarrow> b_replay_policy b' = ManualResolutionOnly) \<and>
     (b_state b = BatchClosed \<longrightarrow> b' = b)"

definition attempt_identity :: "attempt_row \<Rightarrow> attempt_row \<Rightarrow> bool" where
  "attempt_identity a a' \<longleftrightarrow>
     a_attempt_id a' = a_attempt_id a \<and> a_batch_id a' = a_batch_id a \<and>
     a_source_thread_id a' = a_source_thread_id a \<and> a_adapter_kind a' = a_adapter_kind a \<and>
     a_authorization_mode a' = a_authorization_mode a \<and> a_generation a' = a_generation a \<and>
     a_delivery_rpc_request_id a' = a_delivery_rpc_request_id a \<and>
     a_delivery_rpc_kind a' = a_delivery_rpc_kind a \<and>
     a_delivery_rpc_started_at a' = a_delivery_rpc_started_at a \<and>
     a_managed_session_id a' = a_managed_session_id a \<and> a_session_epoch a' = a_session_epoch a \<and>
     a_session_activity_revision a' = a_session_activity_revision a \<and>
     a_session_capability_revision a' = a_session_capability_revision a \<and>
     a_created_at a' = a_created_at a"

text \<open>
  An attempt counts against its batch's budget once its turn was accepted, once a codex app server
  refused it, or once the desktop was armed for it.
\<close>

definition spent :: "attempt_row \<Rightarrow> bool" where
  "spent a \<longleftrightarrow> a_delivery_rpc_state a = Some Accepted \<or>
     a_adapter_kind a = CodexAppServer \<and> a_delivery_rpc_state a = Some RejectedBeforeAccept \<or>
     a_adapter_kind a = Desktop \<and> a_desktop_armed_at a \<noteq> None"

definition attempt_le :: "attempt_row \<Rightarrow> attempt_row \<Rightarrow> bool" where
  "attempt_le a a' \<longleftrightarrow>
     attempt_identity a a' \<and> (active a' \<longrightarrow> active a) \<and> (spent a \<longrightarrow> spent a') \<and>
     (a_state a = AttemptClosed \<longrightarrow> a' = a)"

definition session_le :: "session_row \<Rightarrow> session_row \<Rightarrow> bool" where
  "session_le s s' \<longleftrightarrow>
     s_managed_session_id s' = s_managed_session_id s \<and> s_bound_thread_id s' = s_bound_thread_id s \<and>
     s_created_at s' = s_created_at s \<and> s_session_epoch s \<le> s_session_epoch s' \<and>
     (s_session_state s = Retired \<longrightarrow> s' = s)"

lemma batch_le_refl [simp]: "batch_le b b"
  by (simp add: batch_le_def)

lemma batch_le_trans: "batch_le a b \<Longrightarrow> batch_le b c \<Longrightarrow> batch_le a c"
  unfolding batch_le_def by (cases "b_state a") auto

lemma attempt_le_refl [simp]: "attempt_le a a"
  by (simp add: attempt_le_def attempt_identity_def)

lemma attempt_le_trans: "attempt_le a b \<Longrightarrow> attempt_le b c \<Longrightarrow> attempt_le a c"
  unfolding attempt_le_def attempt_identity_def by auto

lemma session_le_refl [simp]: "session_le s s"
  by (simp add: session_le_def)

lemma session_le_trans: "session_le a b \<Longrightarrow> session_le b c \<Longrightarrow> session_le a c"
  unfolding session_le_def by auto

section \<open>Well-formed rows\<close>

text \<open>The phases of a desktop attempt, and of the attempts of the other adapters.\<close>

definition desktop_attempt_ok :: "attempt_row \<Rightarrow> bool" where
  "desktop_attempt_ok a \<longleftrightarrow> a_delivery_rpc_state a = None \<and>
     (case a_state a of
        Prepared \<Rightarrow> a_desktop_armed_at a = None
      | ArmPending \<Rightarrow> a_desktop_armed_at a = None \<and> a_bridge_request_id a \<noteq> None \<and>
          a_bridge_arm_lease_id a \<noteq> None \<and> a_bridge_arm_lease_deadline a \<noteq> None \<and>
          a_arm_pending_deadline a \<noteq> None
      | Cooldown \<Rightarrow> a_desktop_armed_at a \<noteq> None \<and> a_bridge_request_id a \<noteq> None \<and>
          a_bridge_arm_lease_id a \<noteq> None
      | Abandoned \<Rightarrow> True
      | AttemptClosed \<Rightarrow> True
      | _ \<Rightarrow> False)"

definition attempt_ok :: "attempt_row \<Rightarrow> bool" where
  "attempt_ok a \<longleftrightarrow> (if a_adapter_kind a = Desktop then desktop_attempt_ok a else
     (case a_state a of
        AcceptPending \<Rightarrow> a_delivery_rpc_state a = Some PendingAcceptance \<and>
          a_delivery_observation_state a = None \<and> a_delivery_turn_id a = None
      | Cooldown \<Rightarrow> a_delivery_rpc_state a = Some Accepted \<and> a_delivery_observation_state a = Some Tracking \<and>
          a_delivery_turn_id a \<noteq> None \<and> a_delivery_observation_deadline a \<noteq> None
      | Abandoned \<Rightarrow>
          (if a_delivery_rpc_state a = Some Accepted
           then a_delivery_turn_id a \<noteq> None \<and> a_delivery_observation_deadline a \<noteq> None \<and>
             a_delivery_observation_state a \<in> {Some ObservationExpired, Some ObservationAbandoned}
           else a_delivery_rpc_state a \<in> {Some RejectedBeforeAccept, Some RpcUnknown} \<and>
             a_delivery_turn_id a = None \<and>
             a_delivery_observation_state a \<in> {None, Some ObservationAbandoned})
      | AttemptClosed \<Rightarrow> a_delivery_rpc_state a \<in> {Some PendingAcceptance, Some Accepted}
      | _ \<Rightarrow> False))"

text \<open>An attempt that begins: one that waits for its acceptance, or a prepared desktop attempt.\<close>

definition begins :: "attempt_row \<Rightarrow> bool" where
  "begins a \<longleftrightarrow> attempt_ok a \<and> (pending_acceptance a \<or> a_adapter_kind a = Desktop \<and> a_state a = Prepared)"

lemma begins_active: "begins a \<Longrightarrow> active a"
  by (auto simp: begins_def active_def pending_acceptance_def)

lemma begins_unspent: "begins a \<Longrightarrow> \<not> spent a"
  by (auto simp: begins_def spent_def pending_acceptance_def attempt_ok_def desktop_attempt_ok_def)

definition batch_ok :: "batch_row \<Rightarrow> bool" where
  "batch_ok b \<longleftrightarrow>
     (case b_state b of
        BatchOpen \<Rightarrow> b_closed_at b = None \<and> b_close_reason b = None
      | BatchClosed \<Rightarrow> b_closed_at b \<noteq> None \<and> b_close_reason b \<noteq> None)"

definition session_ok :: "session_row \<Rightarrow> bool" where
  "session_ok s \<longleftrightarrow> 1 \<le> s_session_epoch s \<and>
     (s_session_state s = Retired \<longleftrightarrow> s_retired_at s \<noteq> None) \<and>
     (s_session_state s \<notin> {Live, Detached} \<longrightarrow> cli_session_proof_is_clear s) \<and>
     (s_activity_state s = ActivityUnknown \<longleftrightarrow> s_activity_revision s = 0) \<and>
     0 \<le> s_activity_revision s \<and> 0 \<le> s_capability_revision s \<and>
     (s_capability_turn_start s \<longrightarrow> 0 < s_capability_revision s)"

section \<open>The steps\<close>

type_synonym dstate = "batch_row list \<times> attempt_row list \<times> session_row list"

definition dview :: "db \<Rightarrow> dstate" where
  "dview d = (batches d, delivery_attempts d, cli_managed_sessions d)"

definition close_batch_row :: "string \<Rightarrow> string option \<Rightarrow> int \<Rightarrow> batch_row \<Rightarrow> batch_row" where
  "close_batch_row reason note now b = b\<lparr>b_state := BatchClosed, b_close_reason := Some reason,
     b_close_note := note, b_updated_at := now, b_closed_at := Some now\<rparr>"

definition close_attempt_row :: "int \<Rightarrow> attempt_row \<Rightarrow> attempt_row" where
  "close_attempt_row now a = a\<lparr>a_state := AttemptClosed, a_updated_at := now, a_closed_at := Some now\<rparr>"

definition manual_batch_row :: "int \<Rightarrow> int \<Rightarrow> batch_row \<Rightarrow> batch_row" where
  "manual_batch_row window_ends_at now b = b\<lparr>b_replay_policy := ManualResolutionOnly,
     b_redelivery_window_ends_at := max (b_redelivery_window_ends_at b) window_ends_at,
     b_updated_at := now\<rparr>"

definition spend_batch_row :: "int \<Rightarrow> batch_row \<Rightarrow> batch_row" where
  "spend_batch_row now b = b\<lparr>b_delivery_attempt_count := b_delivery_attempt_count b + 1, b_updated_at := now\<rparr>"

text \<open>
  \<open>settles\<close>: an update of an attempt that neither revives nor charges it; \<open>charges\<close>: a pending
  attempt is accepted, or refused at the batch's expense; \<open>delivers\<close>: the update of a tracked (or
  expired) attempt whose completion closes its batch in the same transaction.
\<close>

definition settles :: "attempt_row \<Rightarrow> attempt_row \<Rightarrow> bool" where
  "settles a a' \<longleftrightarrow> attempt_le a a' \<and> (spent a' \<longleftrightarrow> spent a) \<and> (attempt_ok a \<longrightarrow> attempt_ok a')"

definition charges :: "attempt_row \<Rightarrow> attempt_row \<Rightarrow> bool" where
  "charges a a' \<longleftrightarrow> attempt_identity a a' \<and> \<not> spent a \<and> spent a' \<and> (active a' \<longrightarrow> active a) \<and>
     a_state a \<noteq> AttemptClosed \<and> attempt_ok a'"

definition delivers :: "attempt_row \<Rightarrow> attempt_row \<Rightarrow> bool" where
  "delivers a a' \<longleftrightarrow> attempt_identity a a' \<and> spent a \<and> a_delivery_rpc_state a' = a_delivery_rpc_state a \<and>
     a_delivery_rpc_state a = Some Accepted \<and> active a' \<and> a_state a \<noteq> AttemptClosed"

inductive dstep :: "dstate \<Rightarrow> dstate \<Rightarrow> bool" where
  new_batch: "\<lbrakk>b_batch_id b \<notin> b_batch_id ` set B; b_state b = BatchOpen; batch_ok b;
      b_delivery_attempt_count b = 0\<rbrakk>
    \<Longrightarrow> dstep (B, A, S) (B @ [b], A, S)"
| manual: "dstep (B, A, S)
      (update_where (\<lambda>b. b_batch_id b = x \<and> b_state b = BatchOpen) (manual_batch_row w now) B, A, S)"
| begin_attempt: "\<lbrakk>a_attempt_id a \<notin> a_attempt_id ` set A; b \<in> set B; b_batch_id b = a_batch_id a;
      b_source_thread_id b = a_source_thread_id a; b_state b = BatchOpen; b_replay_policy b = Automatic;
      b_delivery_attempt_count b < b_max_delivery_attempts b;
      \<forall>q\<in>set B. open_in_thread (a_source_thread_id a) q \<longrightarrow> queue_key b \<le> queue_key q;
      \<forall>q\<in>set A. a_source_thread_id q = a_source_thread_id a \<longrightarrow>
        \<not> (active q \<and> (\<exists>c\<in>set B. b_batch_id c = a_batch_id q \<and> b_state c = BatchOpen));
      \<forall>q\<in>set A. a_batch_id q = a_batch_id a \<longrightarrow> a_generation q < a_generation a;
      a_authorization_mode a = StrictSafe \<longrightarrow> detached_delivery_safe b;
      begins a\<rbrakk>
    \<Longrightarrow> dstep (B, A, S) (B, A @ [a], S)"
| settle: "(\<forall>a\<in>set A. p a \<longrightarrow> settles a (f a)) \<Longrightarrow> dstep (B, A, S) (B, update_where p f A, S)"
| charge: "\<lbrakk>a \<in> set A; p a; \<forall>q\<in>set A. p q \<longrightarrow> a_attempt_id q = a_attempt_id a \<and> charges q (f q);
      b \<in> set B; b_batch_id b = a_batch_id a; b_state b = BatchOpen;
      b_delivery_attempt_count b < b_max_delivery_attempts b\<rbrakk>
    \<Longrightarrow> dstep (B, A, S) (update_where (\<lambda>b. b_batch_id b = a_batch_id a \<and> b_state b = BatchOpen \<and>
          b_delivery_attempt_count b < b_max_delivery_attempts b) (spend_batch_row now) B,
        update_where p f A, S)"
| close: "\<forall>a\<in>set A. p a \<longrightarrow> a_batch_id a = x \<and> delivers a (f a) \<Longrightarrow>
    dstep (B, A, S) (update_where (\<lambda>b. b_batch_id b = x \<and> b_state b = BatchOpen) (close_batch_row reason note now) B,
      update_where (\<lambda>a. a_batch_id a = x \<and> active a) (close_attempt_row now) (update_where p f A), S)"
| session: "\<forall>s\<in>set S. p s \<longrightarrow> session_le s (f s) \<and> (session_ok s \<longrightarrow> session_ok (f s)) \<Longrightarrow>
    dstep (B, A, S) (B, A, update_where p f S)"
| new_session: "\<lbrakk>s_managed_session_id s \<notin> s_managed_session_id ` set S; session_ok s;
      \<forall>q\<in>set S. s_session_state q \<noteq> Retired \<longrightarrow> s_bound_thread_id q \<noteq> s_bound_thread_id s\<rbrakk>
    \<Longrightarrow> dstep (B, A, S) (B, A, S @ [s])"

inductive_cases dstep_cases: "dstep s t"

definition dsteps :: "dstate \<Rightarrow> dstate \<Rightarrow> bool" where
  "dsteps = dstep\<^sup>*\<^sup>*"

lemma dsteps_refl [simp, intro]: "dsteps s s"
  by (simp add: dsteps_def)

lemma dsteps_one: "dstep s t \<Longrightarrow> dsteps s t"
  by (simp add: dsteps_def)

lemma dsteps_trans: "dsteps s t \<Longrightarrow> dsteps t u \<Longrightarrow> dsteps s u"
  unfolding dsteps_def by (rule rtranclp_trans)

section \<open>The invariant\<close>

definition attempts_linked :: "batch_row list \<Rightarrow> attempt_row list \<Rightarrow> bool" where
  "attempts_linked B A \<longleftrightarrow> (\<forall>a\<in>set A. \<exists>b\<in>set B. b_batch_id b = a_batch_id a \<and>
     b_source_thread_id b = a_source_thread_id a \<and> (active a \<longrightarrow> b_state b = BatchOpen) \<and>
     (a_authorization_mode a = StrictSafe \<longrightarrow> detached_delivery_safe b))"

definition single_active :: "attempt_row list \<Rightarrow> bool" where
  "single_active A \<longleftrightarrow> (\<forall>a\<in>set A. \<forall>a'\<in>set A.
     active a \<and> active a' \<and> a_source_thread_id a = a_source_thread_id a' \<longrightarrow>
     a_attempt_id a = a_attempt_id a')"

definition active_is_current :: "attempt_row list \<Rightarrow> bool" where
  "active_is_current A \<longleftrightarrow> (\<forall>a\<in>set A. active a \<longrightarrow>
     (\<forall>a'\<in>set A. a_batch_id a' = a_batch_id a \<longrightarrow> a_generation a' \<le> a_generation a))"

definition spent_count :: "attempt_row list \<Rightarrow> string \<Rightarrow> int" where
  "spent_count A x = count_where (\<lambda>a. a_batch_id a = x \<and> spent a) A"

definition budget_ok :: "batch_row list \<Rightarrow> attempt_row list \<Rightarrow> bool" where
  "budget_ok B A \<longleftrightarrow> (\<forall>b\<in>set B. b_delivery_attempt_count b = spent_count A (b_batch_id b) \<and>
     b_delivery_attempt_count b \<le> max 0 (b_max_delivery_attempts b))"

definition attempt_keys_ok :: "attempt_row list \<Rightarrow> bool" where
  "attempt_keys_ok A \<longleftrightarrow> distinct (map a_attempt_id A) \<and>
     distinct (map (\<lambda>a. (a_batch_id a, a_generation a)) A)"

definition sessions_ok :: "session_row list \<Rightarrow> bool" where
  "sessions_ok S \<longleftrightarrow> distinct (map s_managed_session_id S) \<and> (\<forall>s\<in>set S. session_ok s) \<and>
     distinct (map s_bound_thread_id (filter (\<lambda>s. s_session_state s \<noteq> Retired) S))"

fun dinv :: "dstate \<Rightarrow> bool" where
  "dinv (B, A, S) \<longleftrightarrow> distinct (map b_batch_id B) \<and> (\<forall>b\<in>set B. batch_ok b) \<and> attempt_keys_ok A \<and>
     (\<forall>a\<in>set A. attempt_ok a) \<and> attempts_linked B A \<and> single_active A \<and> active_is_current A \<and>
     budget_ok B A \<and> sessions_ok S"

lemma dinv_empty: "dinv (dview empty_db)"
  by (simp add: dview_def empty_db_def attempt_keys_ok_def attempts_linked_def single_active_def
      active_is_current_def budget_ok_def sessions_ok_def)


section \<open>Every step keeps the invariant\<close>

lemma attempt_le_identity: "attempt_le a a' \<Longrightarrow> attempt_identity a a'"
  by (simp add: attempt_le_def)

lemma identity_keys:
  assumes "attempt_identity a a'"
  shows "a_attempt_id a' = a_attempt_id a" "a_batch_id a' = a_batch_id a"
    "a_source_thread_id a' = a_source_thread_id a" "a_generation a' = a_generation a"
    "a_authorization_mode a' = a_authorization_mode a" "a_adapter_kind a' = a_adapter_kind a"
  using assms by (simp_all add: attempt_identity_def)

text \<open>
  An update of attempts that keeps identities and revives none keeps the invariants that only depend
  on identities and activity.
\<close>

definition tame :: "(attempt_row \<Rightarrow> bool) \<Rightarrow> (attempt_row \<Rightarrow> attempt_row) \<Rightarrow> attempt_row list \<Rightarrow> bool" where
  "tame p f A \<longleftrightarrow> (\<forall>a\<in>set A. p a \<longrightarrow> attempt_identity a (f a) \<and> (active (f a) \<longrightarrow> active a))"

lemma tame_elem:
  assumes "tame p f A" "a' \<in> set (update_where p f A)"
  obtains a where "a \<in> set A" "attempt_identity a a'" "active a' \<longrightarrow> active a"
  using assms unfolding tame_def set_update_where
  by (auto simp: attempt_identity_def split: if_splits)

lemma tame_map:
  "tame p f A \<Longrightarrow> (\<And>a a'. attempt_identity a a' \<Longrightarrow> g a' = g a) \<Longrightarrow> map g (update_where p f A) = map g A"
  unfolding tame_def update_where_def by (induction A) auto

lemma tame_keys: "tame p f A \<Longrightarrow> attempt_keys_ok (update_where p f A) \<longleftrightarrow> attempt_keys_ok A"
  unfolding attempt_keys_ok_def
  using tame_map [of p f A a_attempt_id] tame_map [of p f A "\<lambda>a. (a_batch_id a, a_generation a)"]
  by (simp add: identity_keys)

lemma tame_linked: "tame p f A \<Longrightarrow> attempts_linked B A \<Longrightarrow> attempts_linked B (update_where p f A)"
  unfolding attempts_linked_def by (metis identity_keys tame_elem)

lemma tame_single: "tame p f A \<Longrightarrow> single_active A \<Longrightarrow> single_active (update_where p f A)"
  unfolding single_active_def by (metis identity_keys(1,3) tame_elem)

lemma tame_current: "tame p f A \<Longrightarrow> active_is_current A \<Longrightarrow> active_is_current (update_where p f A)"
  unfolding active_is_current_def by (metis identity_keys(2,4) tame_elem)

lemma count_where_update:
  "(\<And>r. r \<in> set rs \<Longrightarrow> p r \<Longrightarrow> P (f r) = P r) \<Longrightarrow> count_where P (update_where p f rs) = count_where P rs"
  unfolding count_where_def by (induction rs) auto

lemma count_where_update_one:
  assumes "distinct (map k rs)" "r \<in> set rs" "p r" "\<And>q. q \<in> set rs \<Longrightarrow> p q \<Longrightarrow> k q = k r"
    and "\<not> P r" "P (f r)"
  shows "count_where P (update_where p f rs) = count_where P rs + 1"
proof -
  obtain us vs where rs: "rs = us @ r # vs" using assms(2) by (meson split_list)
  have out: "\<not> p s" if s: "s \<in> set us \<union> set vs" for s
  proof
    assume "p s"
    then have "k s = k r" using assms(4) s rs by simp
    moreover have "k s \<in> k ` (set us \<union> set vs)" using s by (rule imageI)
    moreover have "k r \<notin> k ` (set us \<union> set vs)" using assms(1) rs by auto
    ultimately show False by simp
  qed
  have "update_where p f us = us" "update_where p f vs = vs"
    by (rule update_where_none, use out in blast)+
  then show ?thesis using assms(3,5,6) by (simp add: rs count_where_def)
qed

lemma spent_count_settle:
  "\<forall>a\<in>set A. p a \<longrightarrow> attempt_identity a (f a) \<and> (spent (f a) \<longleftrightarrow> spent a) \<Longrightarrow>
    spent_count (update_where p f A) x = spent_count A x"
  unfolding spent_count_def by (rule count_where_update) (auto simp: identity_keys)

lemma settles_tame: "\<forall>a\<in>set A. p a \<longrightarrow> settles a (f a) \<Longrightarrow> tame p f A"
  by (simp add: tame_def settles_def attempt_le_def)

lemma dinv_settle:
  assumes "dinv (B, A, S)" "\<forall>a\<in>set A. p a \<longrightarrow> settles a (f a)"
  shows "dinv (B, update_where p f A, S)"
proof -
  note t = settles_tame [OF assms(2)]
  have "spent_count (update_where p f A) x = spent_count A x" for x
    by (rule spent_count_settle) (use assms(2) in \<open>auto simp: settles_def attempt_le_def\<close>)
  then have "budget_ok B (update_where p f A) = budget_ok B A" by (simp only: budget_ok_def)
  moreover have "\<forall>a\<in>set (update_where p f A). attempt_ok a"
    using assms by (auto simp: set_update_where settles_def)
  ultimately show ?thesis
    using assms(1) tame_keys [OF t] tame_linked [OF t] tame_single [OF t] tame_current [OF t] by simp
qed

text \<open>Updates of batches that keep the identity of every row and the state of the open ones.\<close>

lemma distinct_batch_ids_update:
  "(\<And>b. b_batch_id (f b) = b_batch_id b) \<Longrightarrow> distinct (map b_batch_id (update_where p f B)) = distinct (map b_batch_id B)"
  by (simp add: map_update_where)

lemma linked_batch_update:
  assumes "attempts_linked B A"
    and "\<And>b. b \<in> set B \<Longrightarrow> p b \<Longrightarrow> b_batch_id (f b) = b_batch_id b \<and> b_source_thread_id (f b) = b_source_thread_id b \<and>
      detached_delivery_safe (f b) = detached_delivery_safe b"
    and "\<And>a b. a \<in> set A \<Longrightarrow> b \<in> set B \<Longrightarrow> p b \<Longrightarrow> active a \<Longrightarrow> b_batch_id b = a_batch_id a \<Longrightarrow>
      b_state b = BatchOpen \<Longrightarrow> b_state (f b) = BatchOpen"
  shows "attempts_linked (update_where p f B) A"
  unfolding attempts_linked_def
proof
  fix a assume a: "a \<in> set A"
  then obtain b where b: "b \<in> set B" "b_batch_id b = a_batch_id a"
    "b_source_thread_id b = a_source_thread_id a" "active a \<longrightarrow> b_state b = BatchOpen"
    "a_authorization_mode a = StrictSafe \<longrightarrow> detached_delivery_safe b"
    using assms(1) unfolding attempts_linked_def by blast
  let ?b = "if p b then f b else b"
  have "?b \<in> set (update_where p f B)" using b(1) by (simp add: set_update_where)
  moreover have "b_batch_id ?b = a_batch_id a \<and> b_source_thread_id ?b = a_source_thread_id a \<and>
     (active a \<longrightarrow> b_state ?b = BatchOpen) \<and>
     (a_authorization_mode a = StrictSafe \<longrightarrow> detached_delivery_safe ?b)"
    using b assms(2) [OF b(1)] assms(3) [OF a b(1)] by simp
  ultimately show "\<exists>b\<in>set (update_where p f B). b_batch_id b = a_batch_id a \<and>
     b_source_thread_id b = a_source_thread_id a \<and> (active a \<longrightarrow> b_state b = BatchOpen) \<and>
     (a_authorization_mode a = StrictSafe \<longrightarrow> detached_delivery_safe b)" by blast
qed

lemma dinv_manual:
  assumes "dinv (B, A, S)"
  shows "dinv (update_where (\<lambda>b. b_batch_id b = x \<and> b_state b = BatchOpen) (manual_batch_row w now) B, A, S)"
    (is "dinv (update_where ?p ?f B, A, S)")
proof -
  have "attempts_linked (update_where ?p ?f B) A"
    by (rule linked_batch_update) (use assms in \<open>auto simp: manual_batch_row_def detached_delivery_safe_def\<close>)
  moreover have "distinct (map b_batch_id (update_where ?p ?f B))"
    using assms by (subst distinct_batch_ids_update) (simp_all add: manual_batch_row_def)
  moreover have "\<forall>b\<in>set (update_where ?p ?f B). batch_ok b"
    using assms by (auto simp: set_update_where manual_batch_row_def batch_ok_def split: batch_state.splits)
  moreover have "budget_ok (update_where ?p ?f B) A"
    using assms by (auto simp: set_update_where manual_batch_row_def budget_ok_def)
  ultimately show ?thesis using assms by simp
qed

lemma dinv_new_batch:
  assumes "dinv (B, A, S)" "b_batch_id b \<notin> b_batch_id ` set B" "batch_ok b" "b_delivery_attempt_count b = 0"
  shows "dinv (B @ [b], A, S)"
proof -
  have none: "a_batch_id a \<noteq> b_batch_id b" if a: "a \<in> set A" for a
  proof -
    obtain q where "q \<in> set B" "b_batch_id q = a_batch_id a"
      using assms(1) a unfolding dinv.simps attempts_linked_def by blast
    with assms(2) show ?thesis by (metis imageI)
  qed
  have "spent_count A (b_batch_id b) = 0"
    using none by (auto simp: spent_count_def count_where_zero_iff)
  then have "budget_ok (B @ [b]) A" using assms(1,4) by (auto simp: budget_ok_def)
  moreover have "attempts_linked (B @ [b]) A" using assms(1) unfolding dinv.simps attempts_linked_def by auto
  ultimately show ?thesis using assms by auto
qed

lemma dinv_begin:
  assumes inv: "dinv (B, A, S)" and new: "a_attempt_id a \<notin> a_attempt_id ` set A"
    and b: "b \<in> set B" "b_batch_id b = a_batch_id a" "b_source_thread_id b = a_source_thread_id a"
      "b_state b = BatchOpen"
    and idle: "\<forall>q\<in>set A. a_source_thread_id q = a_source_thread_id a \<longrightarrow>
      \<not> (active q \<and> (\<exists>c\<in>set B. b_batch_id c = a_batch_id q \<and> b_state c = BatchOpen))"
    and gen: "\<forall>q\<in>set A. a_batch_id q = a_batch_id a \<longrightarrow> a_generation q < a_generation a"
    and safe: "a_authorization_mode a = StrictSafe \<longrightarrow> detached_delivery_safe b"
    and ok: "begins a"
  shows "dinv (B, A @ [a], S)"
proof -
  have linked: "attempts_linked B A" and ids: "distinct (map b_batch_id B)" and single: "single_active A"
    and current: "active_is_current A" using inv by simp_all
  have inactive: "\<not> active q" if "q \<in> set A" "a_source_thread_id q = a_source_thread_id a" for q
    using linked idle that unfolding attempts_linked_def by blast
  have thread: "a_source_thread_id q = a_source_thread_id a" if q: "q \<in> set A" "a_batch_id q = a_batch_id a" for q
  proof -
    obtain c where "c \<in> set B" "b_batch_id c = a_batch_id q" "b_source_thread_id c = a_source_thread_id q"
      using linked q(1) unfolding attempts_linked_def by blast
    moreover from this have "c = b"
      using distinct_key_eq [OF ids] b(1,2) q(2) by metis
    ultimately show ?thesis using b(3) by simp
  qed
  have notspent: "\<not> spent a" by (rule begins_unspent [OF ok])
  have "attempt_keys_ok (A @ [a])"
    using inv new gen by (auto simp: attempt_keys_ok_def)
  moreover have "attempts_linked B (A @ [a])"
    using linked b safe unfolding attempts_linked_def by auto
  moreover have "single_active (A @ [a])"
    unfolding single_active_def
  proof (intro ballI impI)
    fix q r assume qr: "q \<in> set (A @ [a])" "r \<in> set (A @ [a])"
      and act: "active q \<and> active r \<and> a_source_thread_id q = a_source_thread_id r"
    then consider "q \<in> set A" "r \<in> set A" | "q = a" "r = a" | "q \<in> set A" "r = a" | "q = a" "r \<in> set A"
      by auto
    then show "a_attempt_id q = a_attempt_id r"
      using single act inactive unfolding single_active_def by cases metis+
  qed
  moreover have "active_is_current (A @ [a])"
    using current inactive thread gen unfolding active_is_current_def set_append
    by (simp add: less_imp_le) metis
  moreover have "spent_count (A @ [a]) x = spent_count A x" for x
    using notspent by (simp add: spent_count_def count_where_def)
  then have "budget_ok B (A @ [a]) = budget_ok B A" by (simp only: budget_ok_def)
  ultimately show ?thesis using inv ok by (auto simp: begins_def)
qed

lemma dinv_charge:
  assumes inv: "dinv (B, A, S)" and a: "a \<in> set A" "p a"
    and upd: "\<forall>q\<in>set A. p q \<longrightarrow> a_attempt_id q = a_attempt_id a \<and> charges q (f q)"
    and b: "b \<in> set B" "b_batch_id b = a_batch_id a" "b_state b = BatchOpen"
      "b_delivery_attempt_count b < b_max_delivery_attempts b"
  shows "dinv (update_where (\<lambda>b. b_batch_id b = a_batch_id a \<and> b_state b = BatchOpen \<and>
      b_delivery_attempt_count b < b_max_delivery_attempts b) (spend_batch_row now) B, update_where p f A, S)"
    (is "dinv (update_where ?q ?g B, ?A, S)")
proof -
  have ids: "distinct (map b_batch_id B)" and aids: "distinct (map a_attempt_id A)"
    using inv by (simp_all add: attempt_keys_ok_def)
  have same_id: "a_attempt_id q = a_attempt_id a" and ch: "charges q (f q)" if "q \<in> set A" "p q" for q
    using upd that by blast+
  have t: "tame p f A" unfolding tame_def using ch by (simp add: charges_def)
  have only: "q = a" if "q \<in> set A" "p q" for q
    by (rule distinct_key_eq [OF aids that(1) a(1) same_id [OF that]])
  have at: "attempt_identity a (f a)" "\<not> spent a" "spent (f a)" using ch [OF a] by (auto simp: charges_def)
  have count: "spent_count ?A x = spent_count A x + (if x = a_batch_id a then 1 else 0)" for x
  proof (cases "x = a_batch_id a")
    case True
    have "count_where (\<lambda>a. a_batch_id a = x \<and> spent a) ?A = count_where (\<lambda>a. a_batch_id a = x \<and> spent a) A + 1"
    proof (rule count_where_update_one [where k = a_attempt_id and p = p, OF aids a])
      show "a_attempt_id q = a_attempt_id a" if "q \<in> set A" "p q" for q by (rule same_id [OF that])
    qed (use at True in \<open>simp_all add: identity_keys [OF at(1)]\<close>)
    with True show ?thesis by (simp add: spent_count_def)
  next
    case False
    have "count_where (\<lambda>a. a_batch_id a = x \<and> spent a) ?A = count_where (\<lambda>a. a_batch_id a = x \<and> spent a) A"
    proof (rule count_where_update)
      fix q assume "q \<in> set A" "p q"
      then have "q = a" by (rule only)
      with False show "(a_batch_id (f q) = x \<and> spent (f q)) = (a_batch_id q = x \<and> spent q)"
        by (simp add: identity_keys [OF at(1)])
    qed
    with False show ?thesis by (simp add: spent_count_def)
  qed
  have uniq: "c = b" if "c \<in> set B" "b_batch_id c = a_batch_id a" for c
    using distinct_key_eq [OF ids that(1) b(1)] b(2) that(2) by simp
  have "budget_ok (update_where ?q ?g B) ?A"
    unfolding budget_ok_def
  proof
    fix c' assume "c' \<in> set (update_where ?q ?g B)"
    then obtain c where c: "c \<in> set B" "c' = (if ?q c then ?g c else c)" by (auto simp: set_update_where)
    have old: "b_delivery_attempt_count c = spent_count A (b_batch_id c)"
      "b_delivery_attempt_count c \<le> max 0 (b_max_delivery_attempts c)"
      using inv c(1) by (auto simp: budget_ok_def)
    show "b_delivery_attempt_count c' = spent_count ?A (b_batch_id c') \<and>
        b_delivery_attempt_count c' \<le> max 0 (b_max_delivery_attempts c')"
    proof (cases "b_batch_id c = a_batch_id a")
      case True
      then have "?q c" using uniq [OF c(1)] b by simp
      with True c(2) old b(4) show ?thesis by (auto simp: count spend_batch_row_def)
    next
      case False
      with c(2) old show ?thesis by (simp add: count)
    qed
  qed
  moreover have "attempts_linked (update_where ?q ?g B) ?A"
    by (rule linked_batch_update [OF tame_linked [OF t]])
      (use inv in \<open>auto simp: spend_batch_row_def detached_delivery_safe_def\<close>)
  moreover have "distinct (map b_batch_id (update_where ?q ?g B))"
    using inv by (subst distinct_batch_ids_update) (simp_all add: spend_batch_row_def)
  moreover have "\<forall>b\<in>set (update_where ?q ?g B). batch_ok b"
    using inv by (auto simp: set_update_where spend_batch_row_def batch_ok_def split: batch_state.splits)
  moreover have "\<forall>a\<in>set ?A. attempt_ok a"
    using inv ch by (auto simp: set_update_where charges_def)
  ultimately show ?thesis
    using inv tame_keys [OF t] tame_single [OF t] tame_current [OF t] by simp
qed

text \<open>Closing after a delivery is one update: the attempts of the batch that end up closed.\<close>

lemma close_fuse:
  assumes "\<forall>a\<in>set A. p a \<longrightarrow> a_batch_id a = x \<and> delivers a (f a)"
  shows "update_where (\<lambda>a. a_batch_id a = x \<and> active a) (close_attempt_row now) (update_where p f A) =
    update_where (\<lambda>a. p a \<or> a_batch_id a = x \<and> active a)
      (\<lambda>a. close_attempt_row now (if p a then f a else a)) A"
  unfolding update_where_def
  by (simp, intro ballI, use assms in \<open>auto simp: delivers_def attempt_identity_def\<close>)

lemma close_attempt_row_simps [simp]:
  "attempt_identity a (close_attempt_row now b) \<longleftrightarrow> attempt_identity a b"
  "\<not> active (close_attempt_row now b)"
  "a_state (close_attempt_row now b) = AttemptClosed"
  "a_delivery_rpc_state (close_attempt_row now b) = a_delivery_rpc_state b"
  "a_adapter_kind (close_attempt_row now b) = a_adapter_kind b"
  "a_desktop_armed_at (close_attempt_row now b) = a_desktop_armed_at b"
  "a_batch_id (close_attempt_row now b) = a_batch_id b"
  "spent (close_attempt_row now b) = spent b"
  by (simp_all add: close_attempt_row_def attempt_identity_def active_def spent_def)

lemma attempt_identity_refl [simp]: "attempt_identity a a"
  by (simp add: attempt_identity_def)

lemma dinv_close:
  assumes inv: "dinv (B, A, S)"
    and upd: "\<forall>a\<in>set A. p a \<longrightarrow> a_batch_id a = x \<and> delivers a (f a)"
  shows "dinv (update_where (\<lambda>b. b_batch_id b = x \<and> b_state b = BatchOpen) (close_batch_row reason note now) B,
    update_where (\<lambda>a. a_batch_id a = x \<and> active a) (close_attempt_row now) (update_where p f A), S)"
    (is "dinv (update_where ?q ?g B, _, S)")
proof -
  let ?r = "\<lambda>a. p a \<or> a_batch_id a = x \<and> active a"
  let ?h = "\<lambda>a. close_attempt_row now (if p a then f a else a)"
  let ?A = "update_where ?r ?h A"
  have del: "delivers a (f a)" and inx: "a_batch_id a = x" if "a \<in> set A" "p a" for a
    using upd that by blast+
  have t: "tame ?r ?h A" unfolding tame_def using del by (simp add: delivers_def)
  have "spent_count ?A y = spent_count A y" for y
    by (rule spent_count_settle) (use del in \<open>auto simp: delivers_def spent_def\<close>)
  then have "budget_ok B ?A = budget_ok B A" by (simp only: budget_ok_def)
  then have "budget_ok B ?A" using inv by simp
  then have "budget_ok (update_where ?q ?g B) ?A"
    by (auto simp: budget_ok_def set_update_where close_batch_row_def)
  moreover have closed: "\<not> active a" if "a \<in> set ?A" "a_batch_id a = x" for a
    using that by (auto simp: set_update_where split: if_splits)
  have "attempts_linked (update_where ?q ?g B) ?A"
    by (rule linked_batch_update [OF tame_linked [OF t]])
      (use inv closed in \<open>auto simp: close_batch_row_def detached_delivery_safe_def\<close>)
  moreover have "distinct (map b_batch_id (update_where ?q ?g B))"
    using inv by (subst distinct_batch_ids_update) (simp_all add: close_batch_row_def)
  moreover have "\<forall>b\<in>set (update_where ?q ?g B). batch_ok b"
    using inv by (auto simp: set_update_where close_batch_row_def batch_ok_def split: batch_state.splits)
  moreover have "\<forall>a\<in>set ?A. attempt_ok a"
  proof
    fix a' assume "a' \<in> set ?A"
    then obtain a where a: "a \<in> set A" "a' = (if ?r a then ?h a else a)" by (auto simp: set_update_where)
    have "attempt_ok a" using inv a(1) by simp
    then show "attempt_ok a'"
      using a del [OF a(1)]
      by (auto simp: attempt_ok_def desktop_attempt_ok_def delivers_def attempt_identity_def active_def
          split: attempt_state.splits if_splits)
  qed
  ultimately show ?thesis
    using inv tame_keys [OF t] tame_single [OF t] tame_current [OF t] unfolding close_fuse [OF upd] by simp
qed

lemma sessions_ok_update:
  assumes "sessions_ok S" "\<forall>s\<in>set S. p s \<longrightarrow> session_le s (f s) \<and> (session_ok s \<longrightarrow> session_ok (f s))"
  shows "sessions_ok (update_where p f S)"
proof -
  have same: "map s_managed_session_id (update_where p f S) = map s_managed_session_id S"
    using assms(2) by (induction S) (auto simp: session_le_def)
  have "distinct (map s_bound_thread_id (filter (\<lambda>s. s_session_state s \<noteq> Retired) (update_where p f S)))"
    using assms(1,2) unfolding sessions_ok_def
  proof (induction S)
    case (Cons s S)
    have sub: "s_bound_thread_id ` {r \<in> set (update_where p f S). s_session_state r \<noteq> Retired} \<subseteq>
        s_bound_thread_id ` {r \<in> set S. s_session_state r \<noteq> Retired}"
      using Cons.prems(2) by (force simp: set_update_where session_le_def split: if_splits)
    have le: "p s \<Longrightarrow> session_le s (f s)" using Cons.prems(2) by simp
    have IH: "distinct (map s_bound_thread_id (filter (\<lambda>s. s_session_state s \<noteq> Retired) (update_where p f S)))"
      using Cons by (auto split: if_splits)
    have hd: "s_session_state s \<noteq> Retired \<Longrightarrow>
        s_bound_thread_id s \<notin> s_bound_thread_id ` {r \<in> set S. s_session_state r \<noteq> Retired}"
      using Cons.prems(1) by auto
    have hd': "s_session_state s \<noteq> Retired \<Longrightarrow>
        s_bound_thread_id s \<notin> s_bound_thread_id ` {r \<in> set (update_where p f S). s_session_state r \<noteq> Retired}"
      using hd sub by blast
    have "s_bound_thread_id (f s) = s_bound_thread_id s" "s_session_state s = Retired \<longrightarrow> f s = s" if "p s"
      using le [OF that] by (simp_all add: session_le_def)
    then show ?case
      using IH hd' by (cases "p s"; cases "s_session_state s = Retired") simp_all
  qed simp
  moreover have "\<forall>s\<in>set (update_where p f S). session_ok s"
    using assms by (auto simp: set_update_where sessions_ok_def)
  ultimately show ?thesis using assms(1) same by (simp add: sessions_ok_def)
qed

theorem dstep_inv: "dstep s t \<Longrightarrow> dinv s \<Longrightarrow> dinv t"
proof (induction rule: dstep.induct)
  case (new_batch b B A S)
  then show ?case by (intro dinv_new_batch)
next
  case (manual B A S x w now)
  then show ?case by (rule dinv_manual)
next
  case (begin_attempt a A b B S)
  then show ?case by (intro dinv_begin [where b = b])
next
  case (settle A p f B S)
  then show ?case by (intro dinv_settle)
next
  case (charge a A p f b B S now)
  then show ?case by (intro dinv_charge)
next
  case (close A p x f B S reason nt now)
  then show ?case by (intro dinv_close)
next
  case (session S p f B A)
  then show ?case by (simp add: sessions_ok_update)
next
  case (new_session s S B A)
  then show ?case by (auto simp: sessions_ok_def)
qed

lemma dsteps_inv: "dsteps s t \<Longrightarrow> dinv s \<Longrightarrow> dinv t"
  unfolding dsteps_def by (induction rule: rtranclp_induct) (auto intro: dstep_inv)

section \<open>Every step moves rows forward\<close>

fun devolves :: "dstate \<Rightarrow> dstate \<Rightarrow> bool" where
  "devolves (B, A, S) (B', A', S') \<longleftrightarrow>
     rows_evolve batch_le B B' \<and> rows_evolve attempt_le A A' \<and> rows_evolve session_le S S'"

lemma devolves_refl [simp]: "devolves s s"
  by (cases s) (simp add: rows_evolve_refl)

lemma devolves_trans: "devolves s t \<Longrightarrow> devolves t u \<Longrightarrow> devolves s u"
  by (cases s; cases t; cases u)
    (auto intro: rows_evolve_trans batch_le_trans attempt_le_trans session_le_trans)

lemma dstep_evolves: "dstep s t \<Longrightarrow> devolves s t"
proof (induction rule: dstep.induct)
  case (settle A p f B S)
  then show ?case by (auto intro!: rows_evolve_update simp: rows_evolve_refl settles_def)
next
  case (charge a A p f b B S now)
  have ch: "charges q (f q)" if "q \<in> set A" "p q" for q using charge(3) that by blast
  have "attempt_le q (f q)" if "q \<in> set A" "p q" for q
    using ch [OF that] by (simp add: attempt_le_def charges_def)
  then show ?case by (auto intro!: rows_evolve_update simp: rows_evolve_refl batch_le_def spend_batch_row_def)
next
  case (close A p x f B S reason nt now)
  have del: "delivers q (f q)" if "q \<in> set A" "p q" for q using close that by blast
  have "attempt_le q (close_attempt_row now (if p q then f q else q))"
    if "q \<in> set A" "p q \<or> a_batch_id q = x \<and> active q" for q
    using that del [OF that(1)]
    by (auto simp: attempt_le_def delivers_def spent_def active_def)
  then show ?case
    unfolding close_fuse [OF close]
    by (auto intro!: rows_evolve_update simp: batch_le_def close_batch_row_def rows_evolve_refl)
qed (auto intro!: rows_evolve_update rows_evolve_insert
      simp: rows_evolve_refl batch_le_def manual_batch_row_def)

lemma dsteps_evolve: "dsteps s t \<Longrightarrow> devolves s t"
  unfolding dsteps_def
  by (induction rule: rtranclp_induct) (auto intro: dstep_evolves devolves_trans)

section \<open>Steps after which no further attempt waits to be armed\<close>

text \<open>
  Most operations let no attempt start to wait for the desktop; those that do are confined to a set of
  threads. \<open>wsteps W\<close> is a run of the protocol in which attempts start to wait only in threads of \<open>W\<close>.
\<close>

fun waits_in :: "string set \<Rightarrow> dstate \<Rightarrow> dstate \<Rightarrow> bool" where
  "waits_in W (_, A, _) (_, A', _) \<longleftrightarrow> (\<forall>a'\<in>set A'. a_state a' = ArmPending \<longrightarrow>
     a_source_thread_id a' \<in> W \<or> (\<exists>a\<in>set A. a_attempt_id a = a_attempt_id a' \<and>
       a_source_thread_id a = a_source_thread_id a' \<and> a_state a = ArmPending))"

definition wstep :: "string set \<Rightarrow> dstate \<Rightarrow> dstate \<Rightarrow> bool" where
  "wstep W s t \<longleftrightarrow> dstep s t \<and> waits_in W s t"

definition wsteps :: "string set \<Rightarrow> dstate \<Rightarrow> dstate \<Rightarrow> bool" where
  "wsteps W = (wstep W)\<^sup>*\<^sup>*"

definition calm :: "attempt_row \<Rightarrow> attempt_row \<Rightarrow> bool" where
  "calm a a' \<longleftrightarrow> settles a a' \<and> (a_state a' = ArmPending \<longrightarrow> a_state a = ArmPending)"

lemma wsteps_refl [simp, intro]: "wsteps W s s"
  by (simp add: wsteps_def)

lemma wsteps_one: "wstep W s t \<Longrightarrow> wsteps W s t"
  by (simp add: wsteps_def)

lemma wsteps_trans: "wsteps W s t \<Longrightarrow> wsteps W t u \<Longrightarrow> wsteps W s u"
  unfolding wsteps_def by (rule rtranclp_trans)

lemma waits_in_refl [simp]: "waits_in W s s"
  by (cases s) auto

lemma waits_in_trans: "waits_in W s t \<Longrightarrow> waits_in W t u \<Longrightarrow> waits_in W s u"
  by (cases s; cases t; cases u) fastforce

lemma wsteps_dsteps: "wsteps W s t \<Longrightarrow> dsteps s t"
  unfolding wsteps_def dsteps_def by (induction rule: rtranclp_induct) (auto simp: wstep_def)

lemma wsteps_inv: "wsteps W s t \<Longrightarrow> dinv s \<Longrightarrow> dinv t"
  by (rule dsteps_inv [OF wsteps_dsteps])

lemma wsteps_waits_in: "wsteps W s t \<Longrightarrow> waits_in W s t"
  unfolding wsteps_def
  by (induction rule: rtranclp_induct) (auto simp: wstep_def intro: waits_in_trans)

lemma settles_keys:
  "settles a a' \<Longrightarrow> a_attempt_id a' = a_attempt_id a \<and> a_source_thread_id a' = a_source_thread_id a"
  by (simp add: settles_def attempt_le_def attempt_identity_def)

lemma begins_not_waiting: "begins a \<Longrightarrow> a_state a \<noteq> ArmPending"
  by (auto simp: begins_def pending_acceptance_def)

lemma charges_not_waiting: "charges a a' \<Longrightarrow> a_state a' \<noteq> ArmPending"
  by (auto simp: charges_def spent_def attempt_ok_def desktop_attempt_ok_def split: if_splits)

lemma wstep_new_batch: "\<lbrakk>b_batch_id b \<notin> b_batch_id ` set B; b_state b = BatchOpen; batch_ok b;
    b_delivery_attempt_count b = 0\<rbrakk> \<Longrightarrow> wstep W (B, A, S) (B @ [b], A, S)"
  by (auto simp: wstep_def intro: dstep.new_batch)

lemma wstep_manual: "wstep W (B, A, S)
    (update_where (\<lambda>b. b_batch_id b = x \<and> b_state b = BatchOpen) (manual_batch_row w now) B, A, S)"
  by (auto simp: wstep_def intro: dstep.manual)

lemma wstep_begin: "dstep (B, A, S) (B, A @ [a], S) \<Longrightarrow> begins a \<Longrightarrow> wstep W (B, A, S) (B, A @ [a], S)"
  using begins_not_waiting by (auto simp: wstep_def)

lemma wstep_settle: "(\<forall>a\<in>set A. p a \<longrightarrow> calm a (f a)) \<Longrightarrow> wstep W (B, A, S) (B, update_where p f A, S)"
  using settles_keys
  by (auto simp: wstep_def calm_def set_update_where intro!: dstep.settle split: if_splits)

lemma wstep_wait:
  "(\<forall>a\<in>set A. p a \<longrightarrow> settles a (f a) \<and> a_source_thread_id a \<in> W) \<Longrightarrow> wstep W (B, A, S) (B, update_where p f A, S)"
  using settles_keys
  by (auto simp: wstep_def set_update_where intro!: dstep.settle split: if_splits)

lemma wstep_charge: "dstep (B, A, S) (B', update_where p f A, S) \<Longrightarrow>
    \<forall>q\<in>set A. p q \<longrightarrow> charges q (f q) \<Longrightarrow> wstep W (B, A, S) (B', update_where p f A, S)"
  using charges_not_waiting by (auto simp: wstep_def set_update_where split: if_splits)

lemma wstep_close: "\<forall>a\<in>set A. p a \<longrightarrow> a_batch_id a = x \<and> delivers a (f a) \<Longrightarrow>
    wstep W (B, A, S) (update_where (\<lambda>b. b_batch_id b = x \<and> b_state b = BatchOpen) (close_batch_row reason note now) B,
      update_where (\<lambda>a. a_batch_id a = x \<and> active a) (close_attempt_row now) (update_where p f A), S)"
  unfolding wstep_def
  by (intro conjI dstep.close, assumption) (simp only: close_fuse, auto simp: set_update_where split: if_splits)

lemma wstep_session: "\<forall>s\<in>set S. p s \<longrightarrow> session_le s (f s) \<and> (session_ok s \<longrightarrow> session_ok (f s)) \<Longrightarrow>
    wstep W (B, A, S) (B, A, update_where p f S)"
  by (auto simp: wstep_def intro: dstep.session)

lemma wstep_new_session: "\<lbrakk>s_managed_session_id s \<notin> s_managed_session_id ` set S; session_ok s;
    \<forall>q\<in>set S. s_session_state q \<noteq> Retired \<longrightarrow> s_bound_thread_id q \<noteq> s_bound_thread_id s\<rbrakk>
    \<Longrightarrow> wstep W (B, A, S) (B, A, S @ [s])"
  by (auto simp: wstep_def intro: dstep.new_session)

section \<open>No attempt begins for a batch taken out of automatic delivery\<close>

definition retired_batch :: "batch_row \<Rightarrow> bool" where
  "retired_batch b \<longleftrightarrow> b_state b = BatchClosed \<or> b_replay_policy b = ManualResolutionOnly"

lemma retired_batch_le: "batch_le b b' \<Longrightarrow> retired_batch b \<Longrightarrow> retired_batch b'"
  by (auto simp: retired_batch_def batch_le_def)

lemma rows_evolve_old:
  "rows_evolve R rs rs' \<Longrightarrow> length rs' = length rs \<Longrightarrow> r' \<in> set rs' \<Longrightarrow> \<exists>r\<in>set rs. R r r'"
  unfolding rows_evolve_def using list_all2_lengthD
  by (fastforce simp: in_set_conv_nth list_all2_conv_all_nth)

lemma dstep_attempts:
  "dstep (B, A, S) (B', A', S') \<Longrightarrow> length A' = length A \<or>
    (\<exists>q. A' = A @ [q] \<and> (\<exists>c\<in>set B. b_batch_id c = a_batch_id q \<and> \<not> retired_batch c))"
  by (erule dstep_cases) (auto simp: retired_batch_def)

lemma dstep_old_attempts:
  assumes step: "dstep (B, A, S) (B', A', S')" and inv: "dinv (B, A, S)" and b: "b \<in> set B" "retired_batch b"
    and a': "a' \<in> set A'" "a_batch_id a' = b_batch_id b"
  shows "\<exists>a\<in>set A. attempt_le a a'"
  using dstep_attempts [OF step]
proof
  assume "length A' = length A"
  moreover have "rows_evolve attempt_le A A'" using dstep_evolves [OF step] by simp
  ultimately show ?thesis using rows_evolve_old a'(1) by metis
next
  assume "\<exists>q. A' = A @ [q] \<and> (\<exists>c\<in>set B. b_batch_id c = a_batch_id q \<and> \<not> retired_batch c)"
  then obtain q c where q: "A' = A @ [q]" and c: "c \<in> set B" "b_batch_id c = a_batch_id q" "\<not> retired_batch c" by blast
  have "b_batch_id c \<noteq> b_batch_id b"
    using distinct_key_eq [of b_batch_id B c b] inv c(1,3) b by auto
  with q c(2) a' have "a' \<in> set A" by auto
  then show ?thesis by (intro bexI [of _ a']) simp_all
qed

lemma dsteps_old_attempts:
  assumes "dsteps (B, A, S) (B', A', S')" and inv: "dinv (B, A, S)" and b: "b \<in> set B" "retired_batch b"
    and "a' \<in> set A'" "a_batch_id a' = b_batch_id b"
  shows "\<exists>a\<in>set A. attempt_le a a'"
  using assms(1,5,6) unfolding dsteps_def
proof (induction "(B', A', S')" arbitrary: B' A' S' a' rule: rtranclp_induct)
  case base
  then show ?case by (intro bexI [of _ a']) simp_all
next
  case (step s)
  obtain B1 A1 S1 where s: "s = (B1, A1, S1)" by (cases s)
  have steps: "dsteps (B, A, S) (B1, A1, S1)" using step.hyps(1) by (simp add: s dsteps_def)
  have "rows_evolve batch_le B B1" using dsteps_evolve [OF steps] by simp
  then obtain b1 where b1: "b1 \<in> set B1" "batch_le b b1" using rows_evolve_mem b(1) by metis
  have same: "b_batch_id b1 = b_batch_id b" using b1(2) by (simp add: batch_le_def)
  obtain a1 where a1: "a1 \<in> set A1" "attempt_le a1 a'"
    using dstep_old_attempts [OF step.hyps(2) [unfolded s] dsteps_inv [OF steps inv] b1(1)
        retired_batch_le [OF b1(2) b(2)] step.prems(1)] step.prems(2) same by metis
  then have "a_batch_id a1 = b_batch_id b"
    using step.prems(2) by (simp add: attempt_le_def attempt_identity_def)
  from step.hyps(3) [OF s a1(1) this] a1(2) show ?case by (blast intro: attempt_le_trans)
qed

end
