(* ===== verification/Cbth_Jobs.thy ===== *)
theory Cbth_Jobs
  imports Cbth_Queue
begin

text \<open>
  Jobs, the tasks that run them and their artifacts (\<open>src/store.rs\<close>): submission, the life of a
  supervised task, the three ways a job ends (each opens exactly one delivery batch), artifact
  ingests, and the recovery of the tasks whose supervisor was lost in a daemon restart. A batch id
  the code draws with \<open>new_id()\<close> is an argument.
\<close>

record new_job =
  nj_job_id :: string
  nj_source_thread_id :: string
  nj_summary :: string
  nj_metadata_json :: string
  nj_policy :: delivery_policy
  nj_created_at :: int

record new_task =
  nt_task_id :: string
  nt_job_id :: string
  nt_source_thread_id :: string
  nt_summary :: string
  nt_command_json :: string
  nt_cwd :: string
  nt_timeout_seconds :: "int option"
  nt_max_delivery_attempts :: int
  nt_redelivery_window_seconds :: int
  nt_created_at :: int

record new_artifact =
  na_artifact_id :: string
  na_job_id :: string
  na_relative_path :: string
  na_original_filename :: "string option"
  na_size_bytes :: int
  na_sha256 :: string
  na_created_at :: int
  na_retention_until :: int

record TaskFinishUpdate =
  f_task_id :: string
  f_status :: string
  f_completed_at :: int
  f_exit_code :: "int option"
  f_signal :: "int option"
  f_failure_reason :: "string option"
  f_stdout_log_path :: "string option"
  f_stderr_log_path :: "string option"
  f_stdout_bytes :: int
  f_stderr_bytes :: int
  f_stdout_truncated :: bool
  f_stderr_truncated :: bool

section \<open>Submission\<close>

definition insert_pending_job :: "new_job \<Rightarrow> string option \<Rightarrow> db \<Rightarrow> store_error + db" where
  "insert_pending_job job generation =
     insert_job \<lparr>j_job_id = nj_job_id job, j_source_thread_id = nj_source_thread_id job,
       j_status = JobPending, j_summary = nj_summary job, j_metadata_json = nj_metadata_json job,
       j_created_at = nj_created_at job, j_updated_at = nj_created_at job, j_completed_at = None,
       j_failed_at = None, j_result_artifact_id = None, j_failure_reason = None,
       j_delivery_policy = nj_policy job, j_supervisor_daemon_generation = generation\<rparr>"

definition submit_job_for_supervisor_generation ::
    "new_job \<Rightarrow> string option \<Rightarrow> db \<Rightarrow> store_error + job_row \<times> db" where
  "submit_job_for_supervisor_generation job supervisor_daemon_generation d =
     chain (insert_pending_job job supervisor_daemon_generation d) (\<lambda>d.
     chain (query_job_tx d (nj_job_id job)) (\<lambda>record.
     Inr (record, d)))"

definition submit_job :: "new_job \<Rightarrow> db \<Rightarrow> store_error + job_row \<times> db" where
  "submit_job job = submit_job_for_supervisor_generation job None"

definition create_task_with_job_for_supervisor_generation ::
    "new_job \<Rightarrow> new_task \<Rightarrow> string option \<Rightarrow> db \<Rightarrow> store_error + (job_row \<times> task_row) \<times> db" where
  "create_task_with_job_for_supervisor_generation job task supervisor_daemon_generation d =
     chain (require (nj_job_id job = nt_job_id task) (JobError TaskJobMismatch)) (\<lambda>_.
     chain (require (nj_source_thread_id job = nt_source_thread_id task) (JobError TaskThreadMismatch)) (\<lambda>_.
     chain (insert_pending_job job supervisor_daemon_generation d) (\<lambda>d.
     chain (insert_task
       \<lparr>t_task_id = nt_task_id task, t_job_id = nt_job_id task,
        t_source_thread_id = nt_source_thread_id task, t_status = Queued,
        t_summary = nt_summary task, t_command_json = nt_command_json task, t_cwd = nt_cwd task,
        t_timeout_seconds = nt_timeout_seconds task,
        t_max_delivery_attempts = nt_max_delivery_attempts task,
        t_redelivery_window_seconds = nt_redelivery_window_seconds task, t_pid = None,
        t_pid_identity = None, t_supervisor_daemon_generation = supervisor_daemon_generation,
        t_created_at = nt_created_at task, t_started_at = None, t_completed_at = None,
        t_exit_code = None, t_signal = None, t_failure_reason = None, t_stdout_log_path = None,
        t_stderr_log_path = None, t_stdout_bytes = 0, t_stderr_bytes = 0,
        t_stdout_truncated = False, t_stderr_truncated = False, t_cancel_requested_at = None,
        t_task_log_gc_attempted_at = 0\<rparr> d) (\<lambda>d.
     chain (query_job_tx d (nt_job_id task)) (\<lambda>job_record.
     chain (query_task_tx d (nt_task_id task)) (\<lambda>task_record.
     Inr ((job_record, task_record), d)))))))"

text \<open>\<open>DELETE FROM jobs\<close> with the \<open>ON DELETE CASCADE\<close> of every table that references a job.\<close>

definition delete_job_cascade :: "string \<Rightarrow> db \<Rightarrow> db" where
  "delete_job_cascade job_id d = d\<lparr>
     jobs := delete_where (\<lambda>j. j_job_id j = job_id) (jobs d),
     tasks := delete_where (\<lambda>t. t_job_id t = job_id) (tasks d),
     artifacts := delete_where (\<lambda>ar. ar_job_id ar = job_id) (artifacts d),
     artifact_ingests := delete_where (\<lambda>ai. ai_job_id ai = job_id) (artifact_ingests d),
     batch_jobs := delete_where (\<lambda>bj. bj_job_id bj = job_id) (batch_jobs d),
     plugin_delivery_requests := delete_where (\<lambda>p. p_job_id p = job_id) (plugin_delivery_requests d)\<rparr>"

definition delete_unstarted_task_with_job ::
    "string \<Rightarrow> string \<Rightarrow> db \<Rightarrow> store_error + unit \<times> db" where
  "delete_unstarted_task_with_job task_id job_id d =
     chain (query_task_tx d task_id) (\<lambda>task.
     chain (require (t_job_id task = job_id)
       (JobError (TaskAttachedElsewhere task_id (t_job_id task)))) (\<lambda>_.
     chain (require (t_status task = Queued \<and> t_started_at task = None \<and> t_completed_at task = None)
       (JobError (TaskNotUnstarted task_id))) (\<lambda>_.
     chain (query_job_tx d job_id) (\<lambda>job.
     chain (require (j_status job = JobPending \<and> j_completed_at job = None \<and> j_failed_at job = None)
       (JobError (JobNoLongerPending job_id))) (\<lambda>_.
     Inr ((), delete_job_cascade job_id
       (d\<lparr>tasks := delete_where (\<lambda>t. t_task_id t = task_id) (tasks d)\<rparr>)))))))"

section \<open>The life of a task\<close>

definition ensure_job_pending :: "job_row \<Rightarrow> store_error + unit" where
  "ensure_job_pending job = require (j_status job = JobPending)
     (AlreadyInState EJob (j_job_id job) (job_status_text (j_status job)))"

definition ensure_task_not_terminal :: "task_row \<Rightarrow> store_error + unit" where
  "ensure_task_not_terminal task = require (t_completed_at task = None)
     (AlreadyInState ETask (t_task_id task) (task_status_text (t_status task)))"

definition update_task :: "string \<Rightarrow> (task_row \<Rightarrow> task_row) \<Rightarrow> db \<Rightarrow> db" where
  "update_task task_id f d = d\<lparr>tasks := update_where (\<lambda>t. t_task_id t = task_id) f (tasks d)\<rparr>"

definition mark_task_started ::
    "string \<Rightarrow> int \<Rightarrow> string option \<Rightarrow> int \<Rightarrow> db \<Rightarrow> store_error + task_row \<times> db" where
  "mark_task_started task_id pid pid_identity now d =
     chain (query_task_tx d task_id) (\<lambda>task.
     chain (ensure_task_not_terminal task) (\<lambda>_.
     let d = update_task task_id (\<lambda>t. t\<lparr>t_status := Running, t_pid := Some pid,
           t_pid_identity := pid_identity,
           t_started_at := Some (coalesce (t_started_at t) now)\<rparr>) d
     in chain (query_task_tx d task_id) (\<lambda>task. Inr (task, d))))"

definition request_task_cancel :: "string \<Rightarrow> int \<Rightarrow> db \<Rightarrow> store_error + task_row \<times> db" where
  "request_task_cancel task_id now d =
     chain (query_task_tx d task_id) (\<lambda>task.
     let d = (if t_completed_at task = None
              then update_task task_id (\<lambda>t. t\<lparr>t_cancel_requested_at :=
                     Some (coalesce (t_cancel_requested_at t) now)\<rparr>) d
              else d)
     in chain (query_task_tx d task_id) (\<lambda>task. Inr (task, d)))"

text \<open>The \<open>UPDATE tasks\<close> that ends a task; a status outside the \<open>CHECK\<close> list is refused.\<close>

definition store_task_end :: "TaskFinishUpdate \<Rightarrow> db \<Rightarrow> store_error + db" where
  "store_task_end u d =
     chain (ok_or (SqlConstraint ''tasks.status'') (task_status_of_text (f_status u))) (\<lambda>status.
     Inr (update_task (f_task_id u) (\<lambda>t. t\<lparr>t_status := status,
       t_completed_at := Some (f_completed_at u), t_exit_code := f_exit_code u,
       t_signal := f_signal u, t_failure_reason := f_failure_reason u,
       t_stdout_log_path := f_stdout_log_path u, t_stderr_log_path := f_stderr_log_path u,
       t_stdout_bytes := f_stdout_bytes u, t_stderr_bytes := f_stderr_bytes u,
       t_stdout_truncated := f_stdout_truncated u, t_stderr_truncated := f_stderr_truncated u\<rparr>) d))"

definition finish_task :: "TaskFinishUpdate \<Rightarrow> db \<Rightarrow> store_error + task_row \<times> db" where
  "finish_task update d =
     chain (query_task_tx d (f_task_id update)) (\<lambda>task.
     chain (ensure_task_not_terminal task) (\<lambda>_.
     chain (store_task_end update d) (\<lambda>d.
     chain (query_task_tx d (f_task_id update)) (\<lambda>task. Inr (task, d)))))"

definition task_status_from_failure_reason :: "string \<Rightarrow> string option" where
  "task_status_from_failure_reason reason =
     (if reason = ''task cancelled'' then Some ''cancelled''
      else if reason = ''task timed out'' then Some ''timed_out''
      else if reason = ''task supervisor lost after daemon restart'' then Some ''lost''
      else case Option.bind (strip_prefix ''Background task '' reason) (split_once_fst (CHR ''.'')) of
          None \<Rightarrow> None
        | Some status \<Rightarrow>
            if status \<in> {''succeeded'', ''failed'', ''cancelled'', ''timed_out'', ''lost''}
            then Some status else None)"

definition task_status_for_supervised_job_terminal :: "job_row \<Rightarrow> string \<Rightarrow> string" where
  "task_status_for_supervised_job_terminal job fallback =
     (case j_status job of
        JobCompleted \<Rightarrow> ''succeeded''
      | JobFailed \<Rightarrow> coalesce (Option.bind (j_failure_reason job) task_status_from_failure_reason) fallback
      | JobPending \<Rightarrow> fallback)"

section \<open>The end of a job\<close>

definition update_job :: "string \<Rightarrow> (job_row \<Rightarrow> job_row) \<Rightarrow> db \<Rightarrow> db" where
  "update_job job_id f d = d\<lparr>jobs := update_where (\<lambda>j. j_job_id j = job_id) f (jobs d)\<rparr>"

definition insert_new_artifact :: "new_artifact \<Rightarrow> db \<Rightarrow> store_error + db" where
  "insert_new_artifact artifact =
     insert_artifact \<lparr>ar_artifact_id = na_artifact_id artifact, ar_job_id = na_job_id artifact,
       ar_relative_path = na_relative_path artifact,
       ar_original_filename = na_original_filename artifact,
       ar_size_bytes = na_size_bytes artifact, ar_sha256 = na_sha256 artifact,
       ar_created_at = na_created_at artifact, ar_retention_until = na_retention_until artifact,
       ar_manifest_synced_retention_until = na_retention_until artifact,
       ar_manifest_sync_attempted_at = 0, ar_gc_attempted_at = 0\<rparr>"

definition abandon_artifact_ingest :: "string \<Rightarrow> db \<Rightarrow> db" where
  "abandon_artifact_ingest artifact_id d =
     d\<lparr>artifact_ingests := delete_where (\<lambda>ai. ai_artifact_id ai = artifact_id) (artifact_ingests d)\<rparr>"

definition complete_job ::
    "string \<Rightarrow> new_artifact \<Rightarrow> string option \<Rightarrow> int \<Rightarrow> int \<Rightarrow> int \<Rightarrow> db \<Rightarrow>
      store_error + batch_inspect \<times> db" where
  "complete_job new_id artifact summary now max_delivery_attempts redelivery_window_seconds d =
     chain (query_job_tx d (na_job_id artifact)) (\<lambda>job.
     chain (ensure_job_pending job) (\<lambda>_.
     chain (insert_new_artifact artifact d) (\<lambda>d.
     let d = update_job (na_job_id artifact) (\<lambda>j. j\<lparr>j_status := JobCompleted, j_updated_at := now,
           j_completed_at := Some now, j_result_artifact_id := Some (na_artifact_id artifact)\<rparr>) d
     in chain (query_job_tx d (na_job_id artifact)) (\<lambda>completed_job.
        chain (checked_timestamp_add now redelivery_window_seconds ''redelivery_window_seconds'')
          (\<lambda>redelivery_window_ends_at.
        chain (insert_batch_tx
          \<lparr>nb_batch_id = new_id, nb_source_thread_id = j_source_thread_id completed_job,
           nb_summary = coalesce summary (j_summary completed_job), nb_created_at = now,
           nb_redelivery_window_ends_at = redelivery_window_ends_at,
           nb_max_delivery_attempts = max_delivery_attempts,
           nb_policy = j_delivery_policy completed_job, nb_inline_payload_bytes = 0,
           nb_requires_artifact_read = True\<rparr> [j_job_id completed_job] d) (\<lambda>d.
        let d = abandon_artifact_ingest (na_artifact_id artifact) d
        in chain (query_batch_inspect_tx d new_id) (\<lambda>inspect. Inr (inspect, d))))))))"

definition fail_job_with_artifact ::
    "string \<Rightarrow> new_artifact \<Rightarrow> string \<Rightarrow> int \<Rightarrow> int \<Rightarrow> int \<Rightarrow> db \<Rightarrow>
      store_error + batch_inspect \<times> db" where
  "fail_job_with_artifact new_id artifact reason now max_delivery_attempts redelivery_window_seconds d =
     chain (query_job_tx d (na_job_id artifact)) (\<lambda>job.
     chain (ensure_job_pending job) (\<lambda>_.
     chain (insert_new_artifact artifact d) (\<lambda>d.
     let d = update_job (na_job_id artifact) (\<lambda>j. j\<lparr>j_status := JobFailed, j_updated_at := now,
           j_failed_at := Some now, j_failure_reason := Some reason,
           j_result_artifact_id := Some (na_artifact_id artifact)\<rparr>) d
     in chain (query_job_tx d (na_job_id artifact)) (\<lambda>failed_job.
        chain (checked_timestamp_add now redelivery_window_seconds ''redelivery_window_seconds'')
          (\<lambda>redelivery_window_ends_at.
        chain (insert_batch_tx
          \<lparr>nb_batch_id = new_id, nb_source_thread_id = j_source_thread_id failed_job,
           nb_summary = ''Background task failed: '' @ reason, nb_created_at = now,
           nb_redelivery_window_ends_at = redelivery_window_ends_at,
           nb_max_delivery_attempts = max_delivery_attempts,
           nb_policy = j_delivery_policy failed_job, nb_inline_payload_bytes = 0,
           nb_requires_artifact_read = True\<rparr> [j_job_id failed_job] d) (\<lambda>d.
        let d = abandon_artifact_ingest (na_artifact_id artifact) d
        in chain (query_batch_inspect_tx d new_id) (\<lambda>inspect. Inr (inspect, d))))))))"

definition fail_job ::
    "string \<Rightarrow> string \<Rightarrow> string \<Rightarrow> int \<Rightarrow> int \<Rightarrow> int \<Rightarrow> db \<Rightarrow> store_error + batch_inspect \<times> db" where
  "fail_job new_id job_id reason now max_delivery_attempts redelivery_window_seconds d =
     chain (query_job_tx d job_id) (\<lambda>job.
     chain (ensure_job_pending job) (\<lambda>_.
     let d = update_job job_id (\<lambda>j. j\<lparr>j_status := JobFailed, j_updated_at := now,
           j_failed_at := Some now, j_failure_reason := Some reason\<rparr>) d
     in chain (query_job_tx d job_id) (\<lambda>failed_job.
        chain (checked_timestamp_add now redelivery_window_seconds ''redelivery_window_seconds'')
          (\<lambda>redelivery_window_ends_at.
        chain (insert_batch_tx
          \<lparr>nb_batch_id = new_id, nb_source_thread_id = j_source_thread_id failed_job,
           nb_summary = ''Background job failed: '' @ reason, nb_created_at = now,
           nb_redelivery_window_ends_at = redelivery_window_ends_at,
           nb_max_delivery_attempts = max_delivery_attempts,
           nb_policy = j_delivery_policy failed_job, nb_inline_payload_bytes = 0,
           nb_requires_artifact_read = False\<rparr> [j_job_id failed_job] d) (\<lambda>d.
        chain (query_batch_inspect_tx d new_id) (\<lambda>inspect. Inr (inspect, d)))))))"

definition fail_pending_supervised_job ::
    "string \<Rightarrow> string \<Rightarrow> string \<Rightarrow> int \<Rightarrow> int \<Rightarrow> int \<Rightarrow> db \<Rightarrow> store_error + job_row \<times> db" where
  "fail_pending_supervised_job new_id job_id reason completed_at max_delivery_attempts
      redelivery_window_seconds d =
     (let d = update_job job_id (\<lambda>j. j\<lparr>j_status := JobFailed, j_updated_at := completed_at,
            j_failed_at := Some completed_at, j_failure_reason := Some reason\<rparr>) d
      in chain (query_job_tx d job_id) (\<lambda>job.
         chain (checked_timestamp_add completed_at
             (clamp_redelivery_window_seconds_for_timestamp completed_at redelivery_window_seconds)
             ''redelivery_window_seconds'') (\<lambda>redelivery_window_ends_at.
         chain (insert_batch_tx
           \<lparr>nb_batch_id = new_id, nb_source_thread_id = j_source_thread_id job,
            nb_summary = ''Background job failed: '' @ reason, nb_created_at = completed_at,
            nb_redelivery_window_ends_at = redelivery_window_ends_at,
            nb_max_delivery_attempts = max_delivery_attempts,
            nb_policy = j_delivery_policy job, nb_inline_payload_bytes = 0,
            nb_requires_artifact_read = False\<rparr> [j_job_id job] d) (\<lambda>d.
         Inr (job, d)))))"

definition supervised_task_end :: "job_row \<Rightarrow> TaskFinishUpdate \<Rightarrow> TaskFinishUpdate" where
  "supervised_task_end job update =
     (let task_status = task_status_for_supervised_job_terminal job (f_status update)
      in update\<lparr>
        f_status := task_status,
        f_completed_at := (case j_status job of
            JobCompleted \<Rightarrow> coalesce (j_completed_at job) (f_completed_at update)
          | JobFailed \<Rightarrow> coalesce (j_failed_at job) (f_completed_at update)
          | JobPending \<Rightarrow> f_completed_at update),
        f_failure_reason := (if task_status = ''succeeded'' then None
          else if j_status job = JobFailed
          then (case j_failure_reason job of Some r \<Rightarrow> Some r | None \<Rightarrow> f_failure_reason update)
          else f_failure_reason update),
        f_exit_code := (if task_status = ''succeeded'' \<and> f_exit_code update = None then Some 0
          else f_exit_code update)\<rparr>)"

definition fail_supervised_task_with_job ::
    "string \<Rightarrow> string \<Rightarrow> string \<Rightarrow> TaskFinishUpdate \<Rightarrow> int \<Rightarrow> int \<Rightarrow> db \<Rightarrow> store_error + unit \<times> db" where
  "fail_supervised_task_with_job new_id job_id reason update max_delivery_attempts
      redelivery_window_seconds d =
     chain (query_job_tx d job_id) (\<lambda>job.
     chain (if j_status job = JobPending
            then fail_pending_supervised_job new_id job_id reason (f_completed_at update)
                   max_delivery_attempts redelivery_window_seconds d
            else Inr (job, d)) (\<lambda>(job, d).
     chain (query_task_tx d (f_task_id update)) (\<lambda>task.
     chain (if t_completed_at task = None then store_task_end (supervised_task_end job update) d
            else Inr d) (\<lambda>d.
     Inr ((), d)))))"

section \<open>Artifact ingests\<close>

definition begin_artifact_ingest ::
    "string \<Rightarrow> string \<Rightarrow> int \<Rightarrow> db \<Rightarrow> store_error + unit \<times> db" where
  "begin_artifact_ingest job_id artifact_id now d =
     chain (validate_id_path_component artifact_id ''artifact_id'') (\<lambda>_.
     chain (query_job_tx d job_id) (\<lambda>job.
     chain (ensure_job_pending job) (\<lambda>_.
     chain (insert_artifact_ingest
       \<lparr>ai_artifact_id = artifact_id, ai_job_id = job_id,
        ai_relative_path = relative_artifact_payload_path artifact_id,
        ai_created_at = now, ai_updated_at = now\<rparr> d) (\<lambda>d.
     Inr ((), d)))))"

section \<open>Listings\<close>

definition matches_filter :: "'a option \<Rightarrow> 'a \<Rightarrow> bool" where
  "matches_filter f x = (case f of None \<Rightarrow> True | Some v \<Rightarrow> x = v)"

definition list_tasks :: "db \<Rightarrow> string option \<Rightarrow> string option \<Rightarrow> int \<Rightarrow> task_row list" where
  "list_tasks d source_thread_id status limit =
     sql_limit (clamp_int 1 500 limit)
       (order_by_desc (\<lambda>t. (t_created_at t, t_task_id t))
         (filter (\<lambda>t. matches_filter source_thread_id (t_source_thread_id t) \<and>
                      matches_filter status (task_status_text (t_status t))) (tasks d)))"

definition list_jobs :: "db \<Rightarrow> string option \<Rightarrow> string option \<Rightarrow> int \<Rightarrow> job_row list" where
  "list_jobs d source_thread_id status limit =
     sql_limit (clamp_int 1 500 limit)
       (order_by_desc (\<lambda>j. (j_created_at j, j_job_id j))
         (filter (\<lambda>j. matches_filter source_thread_id (j_source_thread_id j) \<and>
                      matches_filter status (job_status_text (j_status j))) (jobs d)))"

definition nonterminal_task_supervisor_generations :: "db \<Rightarrow> string list" where
  "nonterminal_task_supervisor_generations d =
     order_by (\<lambda>g. g) (remdups (List.map_filter t_supervisor_daemon_generation
       (filter (\<lambda>t. t_status t \<in> {Queued, Running}) (tasks d))))"

section \<open>Tasks whose supervisor is gone\<close>

definition supervisor_generation_matches_recovery_owners ::
    "string option \<Rightarrow> bool \<Rightarrow> string set \<Rightarrow> bool" where
  "supervisor_generation_matches_recovery_owners generation include_unowned generations =
     (case generation of Some g \<Rightarrow> g \<in> generations | None \<Rightarrow> include_unowned)"

definition join_job :: "db \<Rightarrow> task_row \<Rightarrow> (task_row \<times> job_row) option" where
  "join_job d t = map_option (\<lambda>j. (t, j)) (find (\<lambda>j. j_job_id j = t_job_id t) (jobs d))"

definition lost_pending_task_processes_matching ::
    "(string option \<Rightarrow> bool) \<Rightarrow> db \<Rightarrow> store_error + (string \<times> int \<times> string option) list" where
  "lost_pending_task_processes_matching matches_supervisor_generation d =
     map_ok (\<lambda>(task_id, pid, pid_identity, generation).
         chain (require (0 \<le> pid \<and> pid < 4294967296) (JobError (InvalidPid pid))) (\<lambda>_.
         Inr (task_id, pid, pid_identity)))
       (filter (\<lambda>(_, _, _, generation). matches_supervisor_generation generation)
         (List.map_filter (\<lambda>(t, _). map_option (\<lambda>pid.
              (t_task_id t, pid, t_pid_identity t, t_supervisor_daemon_generation t)) (t_pid t))
           (order_by (\<lambda>(t, _). (t_started_at t, t_task_id t))
             (List.map_filter (join_job d)
               (filter (\<lambda>t. t_status t \<in> {Queued, Running} \<and> t_pid t \<noteq> None) (tasks d))))))"

definition lost_pending_task_processes_for_recovery_owners ::
    "bool \<Rightarrow> string set \<Rightarrow> db \<Rightarrow> store_error + (string \<times> int \<times> string option) list" where
  "lost_pending_task_processes_for_recovery_owners include_unowned generations =
     lost_pending_task_processes_matching (\<lambda>generation.
       supervisor_generation_matches_recovery_owners generation include_unowned generations)"

definition lost_task_candidates :: "db \<Rightarrow> (task_row \<times> job_row) list" where
  "lost_task_candidates d =
     order_by (\<lambda>(t, _). (t_created_at t, t_task_id t))
       (List.map_filter (join_job d) (filter (\<lambda>t. t_status t \<in> {Queued, Running}) (tasks d)))"

definition lost_task_end :: "string \<Rightarrow> string \<Rightarrow> int \<Rightarrow> int option \<Rightarrow> string option \<Rightarrow> TaskFinishUpdate" where
  "lost_task_end task_id status completed_at exit_code reason =
     \<lparr>f_task_id = task_id, f_status = status, f_completed_at = completed_at, f_exit_code = exit_code,
      f_signal = None, f_failure_reason = reason,
      f_stdout_log_path = Some (''tasks/'' @ task_id @ ''/stdout.log''),
      f_stderr_log_path = Some (''tasks/'' @ task_id @ ''/stderr.log''),
      f_stdout_bytes = 0, f_stderr_bytes = 0, f_stdout_truncated = False, f_stderr_truncated = False\<rparr>"

text \<open>
  What the recovery of one task does, by the status its job had when the candidates were read. The
  two transactions of a pending job commit one after the other: when the second fails the first
  stays, so the result carries the state in both cases.
\<close>

definition recover_lost_task ::
    "(string \<Rightarrow> string) \<Rightarrow> int \<Rightarrow> task_row \<times> job_row \<Rightarrow> db \<Rightarrow> (store_error + unit) \<times> db" where
  "recover_lost_task new_id_for now = (\<lambda>(task, job) d.
     let finish = (\<lambda>update d. case finish_task update d of
           Inl e \<Rightarrow> (Inl e, d) | Inr (_, d') \<Rightarrow> (Inr (), d'))
     in case j_status job of
       JobPending \<Rightarrow>
         (let (status, reason) = (if t_cancel_requested_at task \<noteq> None
                then (''cancelled'', ''task cancelled'')
                else (''lost'', ''task supervisor lost after daemon restart''))
          in case fail_job (new_id_for (t_task_id task)) (t_job_id task) reason now
                    (t_max_delivery_attempts task)
                    (clamp_redelivery_window_seconds_for_timestamp now (t_redelivery_window_seconds task)) d of
               Inl e \<Rightarrow> (Inl e, d)
             | Inr (_, d') \<Rightarrow> finish (lost_task_end (t_task_id task) status now None (Some reason)) d')
     | JobCompleted \<Rightarrow>
         finish (lost_task_end (t_task_id task) ''succeeded'' (coalesce (j_completed_at job) now) (Some 0) None) d
     | JobFailed \<Rightarrow>
         (let reason = coalesce (j_failure_reason job) ''task job failed before daemon restart'';
              status = coalesce (task_status_from_failure_reason reason) ''failed''
          in finish (lost_task_end (t_task_id task) status
               (case j_failed_at job of Some x \<Rightarrow> x | None \<Rightarrow> coalesce (j_completed_at job) now)
               None (Some reason)) d))"

fun recover_lost_tasks ::
    "(string \<Rightarrow> string) \<Rightarrow> int \<Rightarrow> (string option \<Rightarrow> bool) \<Rightarrow> (string \<Rightarrow> store_error + bool) \<Rightarrow>
      (task_row \<times> job_row) list \<Rightarrow> nat \<Rightarrow> db \<Rightarrow> (store_error + nat) \<times> db" where
  "recover_lost_tasks new_id_for now matches is_active [] recovered d = (Inr recovered, d)"
| "recover_lost_tasks new_id_for now matches is_active (tj # rest) recovered d =
     (if \<not> matches (t_supervisor_daemon_generation (fst tj))
      then recover_lost_tasks new_id_for now matches is_active rest recovered d
      else case is_active (t_task_id (fst tj)) of
          Inl e \<Rightarrow> (Inl e, d)
        | Inr True \<Rightarrow> recover_lost_tasks new_id_for now matches is_active rest recovered d
        | Inr False \<Rightarrow>
            (case recover_lost_task new_id_for now tj d of
               (Inl e, d') \<Rightarrow> (Inl e, d')
             | (Inr _, d') \<Rightarrow> recover_lost_tasks new_id_for now matches is_active rest (Suc recovered) d'))"

definition fail_lost_tasks_matching_excluding_with ::
    "(string \<Rightarrow> string) \<Rightarrow> int \<Rightarrow> (string option \<Rightarrow> bool) \<Rightarrow> (string \<Rightarrow> store_error + bool) \<Rightarrow>
      db \<Rightarrow> (store_error + nat) \<times> db" where
  "fail_lost_tasks_matching_excluding_with new_id_for now matches is_active d =
     recover_lost_tasks new_id_for now matches is_active (lost_task_candidates d) 0 d"

definition fail_lost_tasks_for_recovery_owners_excluding_with ::
    "(string \<Rightarrow> string) \<Rightarrow> int \<Rightarrow> bool \<Rightarrow> string set \<Rightarrow> (string \<Rightarrow> store_error + bool) \<Rightarrow>
      db \<Rightarrow> (store_error + nat) \<times> db" where
  "fail_lost_tasks_for_recovery_owners_excluding_with new_id_for now include_unowned generations is_active =
     fail_lost_tasks_matching_excluding_with new_id_for now
       (\<lambda>generation. supervisor_generation_matches_recovery_owners generation include_unowned generations)
       is_active"

end
