(* ===== verification/Cbth_Cli.thy ===== *)
theory Cbth_Cli
  imports Cbth_Delivery
begin

text \<open>
  Delivery through a CLI managed session (\<open>src/store.rs\<close>): an attempt begins only while the session
  proves, for its current epoch, that it is idle and able to start a turn; every uncertain outcome
  (rejection, expiry, lost proof) fences the session and, where the turn may have run, hands the
  batch to manual resolution and parks the session.
\<close>

record new_cli_attempt =
  nc_attempt_id :: string
  nc_batch_id :: string
  nc_managed_session_id :: string
  nc_session_epoch :: int
  nc_authorization_mode :: string
  nc_delivery_rpc_request_id :: string
  nc_delivery_rpc_kind :: string
  nc_delivery_rpc_correlation_marker :: string
  nc_delivery_rpc_started_at :: int

section \<open>Begin\<close>

definition rpc_conflict :: "string \<Rightarrow> string \<Rightarrow> store_error" where
  "rpc_conflict rpc_id what = AttemptError (RpcRequestConflict rpc_id what)"

definition ensure_existing_cli_accept_matches_request ::
    "attempt_row \<Rightarrow> new_cli_attempt \<Rightarrow> store_error + unit" where
  "ensure_existing_cli_accept_matches_request existing attempt =
     (let conflict = rpc_conflict (nc_delivery_rpc_request_id attempt) in
     chain (require (a_adapter_kind existing = Cli) (conflict ''adapter kind'')) (\<lambda>_.
     chain (require (a_batch_id existing = nc_batch_id attempt) (conflict ''batch'')) (\<lambda>_.
     chain (require (a_managed_session_id existing = Some (nc_managed_session_id attempt))
       (conflict ''managed session'')) (\<lambda>_.
     chain (require (a_session_epoch existing = Some (nc_session_epoch attempt))
       (conflict ''session epoch'')) (\<lambda>_.
     chain (require (map_option rpc_kind_text (a_delivery_rpc_kind existing) =
         Some (nc_delivery_rpc_kind attempt)) (conflict ''RPC kind'')) (\<lambda>_.
     require (authorization_mode_text (a_authorization_mode existing) = nc_authorization_mode attempt)
       (conflict ''authorization mode'')))))))"

definition pending_cli_attempt_row ::
    "new_cli_attempt \<Rightarrow> batch_row \<Rightarrow> authorization_mode \<Rightarrow> rpc_kind \<Rightarrow> session_row \<Rightarrow> int \<Rightarrow> attempt_row" where
  "pending_cli_attempt_row attempt batch mode kind session generation =
     \<lparr>a_attempt_id = nc_attempt_id attempt, a_batch_id = nc_batch_id attempt,
      a_source_thread_id = b_source_thread_id batch, a_adapter_kind = Cli,
      a_authorization_mode = mode, a_state = AcceptPending, a_generation = generation,
      a_delivery_rpc_request_id = Some (nc_delivery_rpc_request_id attempt),
      a_delivery_rpc_kind = Some kind, a_delivery_rpc_state = Some PendingAcceptance,
      a_delivery_rpc_correlation_marker = Some (nc_delivery_rpc_correlation_marker attempt),
      a_delivery_rpc_started_at = Some (nc_delivery_rpc_started_at attempt),
      a_managed_session_id = Some (nc_managed_session_id attempt),
      a_session_epoch = Some (nc_session_epoch attempt),
      a_session_activity_revision = s_activity_revision session,
      a_session_capability_revision = s_capability_revision session,
      a_delivery_turn_id = None, a_delivery_accepted_at = None,
      a_delivery_observation_state = None, a_delivery_observation_deadline = None,
      a_last_observed_turn_event = None, a_last_observed_turn_event_at = None,
      a_bridge_request_id = None, a_bridge_arm_lease_id = None, a_bridge_arm_lease_deadline = None,
      a_arm_pending_since = None, a_arm_pending_deadline = None, a_desktop_armed_at = None,
      a_created_at = nc_delivery_rpc_started_at attempt,
      a_updated_at = nc_delivery_rpc_started_at attempt,
      a_abandoned_at = None, a_closed_at = None\<rparr>"

definition begin_cli_accept_pending_attempt :: "new_cli_attempt \<Rightarrow> db \<Rightarrow> store_error + attempt_row \<times> db" where
  "begin_cli_accept_pending_attempt attempt d =
     chain (ensure_cli_attempt_authorization_mode_value (nc_authorization_mode attempt)) (\<lambda>mode.
     case query_delivery_attempt_by_rpc_request_id_tx d (nc_delivery_rpc_request_id attempt) of
       Some existing \<Rightarrow>
         chain (ensure_existing_cli_accept_matches_request existing attempt) (\<lambda>_.
         chain (ensure_cli_attempt_has_current_managed_session_tx d existing) (\<lambda>_.
         Inr (existing, d)))
     | None \<Rightarrow>
         chain (query_batch_tx d (nc_batch_id attempt)) (\<lambda>batch.
         chain (ensure_batch_open batch) (\<lambda>_.
         chain (ensure_batch_is_thread_head_tx d batch) (\<lambda>_.
         chain (ensure_batch_allows_automatic_delivery batch) (\<lambda>_.
         chain (ensure_batch_is_not_plugin_delivery_tx d batch) (\<lambda>_.
         chain (ensure_batch_allows_cli_delivery_for_authorization batch mode) (\<lambda>_.
         chain (query_cli_managed_session_tx d (nc_managed_session_id attempt)) (\<lambda>session.
         chain (ensure_cli_session_allows_delivery session (b_source_thread_id batch)
           (nc_session_epoch attempt) (nc_delivery_rpc_kind attempt) mode) (\<lambda>kind.
         chain (ensure_attempt_budget_remaining batch) (\<lambda>_.
         chain (ensure_no_active_attempt_for_thread_tx d (b_source_thread_id batch)) (\<lambda>_.
         chain (next_attempt_generation_tx d (nc_batch_id attempt)) (\<lambda>generation.
         chain (insert_attempt
           (pending_cli_attempt_row attempt batch mode kind session generation) d) (\<lambda>d.
         chain (query_delivery_attempt_tx d (nc_attempt_id attempt)) (\<lambda>record. Inr (record, d)))))))))))))))"

section \<open>Accept and reject\<close>

definition accept_cli_attempt :: "string \<Rightarrow> string \<Rightarrow> int \<Rightarrow> int \<Rightarrow> db \<Rightarrow> store_error + attempt_row \<times> db" where
  "accept_cli_attempt attempt_id delivery_turn_id accepted_at observation_deadline d =
     chain (ensure_nonempty_value ''delivery_turn_id'' delivery_turn_id) (\<lambda>_.
     chain (query_delivery_attempt_tx d attempt_id) (\<lambda>attempt.
     if already_accepted attempt delivery_turn_id
     then chain (ensure_cli_attempt_has_current_managed_session_tx d attempt) (\<lambda>_. Inr (attempt, d))
     else
       chain (ensure_attempt_accept_pending_for_adapter attempt Cli) (\<lambda>_.
       chain (query_batch_tx d (a_batch_id attempt)) (\<lambda>batch.
       chain (ensure_batch_open batch) (\<lambda>_.
       chain (ensure_batch_is_thread_head_tx d batch) (\<lambda>_.
       chain (ensure_batch_allows_automatic_delivery batch) (\<lambda>_.
       chain (ensure_batch_allows_cli_delivery_for_authorization batch (a_authorization_mode attempt)) (\<lambda>_.
       chain (ensure_cli_attempt_has_current_managed_session_for_batch_tx d attempt batch) (\<lambda>_.
       chain (ensure_attempt_budget_remaining batch) (\<lambda>_.
       chain (ensure_attempt_is_current_generation_tx d attempt) (\<lambda>_.
       let d = store_acceptance attempt_id delivery_turn_id accepted_at observation_deadline d
       in chain (spend_delivery_attempt (a_batch_id attempt) accepted_at d) (\<lambda>d.
          chain (query_delivery_attempt_tx d attempt_id) (\<lambda>record. Inr (record, d))))))))))))))"

definition manual_window_ends_at :: "int \<Rightarrow> store_error + int" where
  "manual_window_ends_at now =
     checked_timestamp_add now DEFAULT_REDELIVERY_WINDOW_SECONDS ''manual_resolution_window_seconds''"

definition manualize_cli_batch_after_observation_loss_tx :: "attempt_row \<Rightarrow> int \<Rightarrow> db \<Rightarrow> store_error + db" where
  "manualize_cli_batch_after_observation_loss_tx attempt now d =
     chain (manual_window_ends_at now) (\<lambda>window_ends_at.
     let d = set_batch_manual (a_batch_id attempt) window_ends_at now d;
         d = invalidate_cli_managed_session_activity_tx (a_managed_session_id attempt) (a_session_epoch attempt) now d
     in Inr (park_cli_managed_session_tx (a_managed_session_id attempt) now d))"

definition manualize_cli_batch_after_pre_accept_rejection_tx :: "attempt_row \<Rightarrow> int \<Rightarrow> db \<Rightarrow> store_error + db" where
  "manualize_cli_batch_after_pre_accept_rejection_tx attempt now d =
     chain (manual_window_ends_at now) (\<lambda>window_ends_at.
     Inr (park_cli_managed_session_tx (a_managed_session_id attempt) now
       (set_batch_manual (a_batch_id attempt) window_ends_at now d)))"

definition reject_cli_attempt_before_accept ::
    "string \<Rightarrow> int \<Rightarrow> bool \<Rightarrow> db \<Rightarrow> store_error + attempt_row \<times> db" where
  "reject_cli_attempt_before_accept attempt_id rejected_at manual_resolution_only d =
     chain (query_delivery_attempt_tx d attempt_id) (\<lambda>attempt.
     if a_state attempt = Abandoned \<and> a_delivery_rpc_state attempt = Some RejectedBeforeAccept
     then if manual_resolution_only
       then chain (manualize_cli_batch_after_pre_accept_rejection_tx attempt rejected_at d) (\<lambda>d.
            let d = invalidate_cli_managed_session_activity_tx (a_managed_session_id attempt)
                      (a_session_epoch attempt) rejected_at d
            in chain (query_delivery_attempt_tx d attempt_id) (\<lambda>record. Inr (record, d)))
       else Inr (attempt, d)
     else
       chain (ensure_attempt_accept_pending_for_adapter attempt Cli) (\<lambda>_.
       chain (query_batch_tx d (a_batch_id attempt)) (\<lambda>batch.
       chain (ensure_batch_open batch) (\<lambda>_.
       chain (ensure_batch_is_thread_head_tx d batch) (\<lambda>_.
       chain (ensure_attempt_is_current_generation_tx d attempt) (\<lambda>_.
       chain (ensure_cli_attempt_has_current_managed_session_for_batch_tx d attempt batch) (\<lambda>_.
       let d = store_pre_accept_end RejectedBeforeAccept attempt_id rejected_at d
       in chain (if manual_resolution_only
                 then manualize_cli_batch_after_pre_accept_rejection_tx attempt rejected_at d
                 else Inr d) (\<lambda>d.
          let d = invalidate_cli_managed_session_activity_tx (a_managed_session_id attempt)
                    (a_session_epoch attempt) rejected_at d
          in chain (query_delivery_attempt_tx d attempt_id) (\<lambda>record. Inr (record, d))))))))))"

section \<open>Observe\<close>

definition expire_cli_observation :: "string \<Rightarrow> int \<Rightarrow> db \<Rightarrow> store_error + attempt_row \<times> db" where
  "expire_cli_observation attempt_id expired_at d =
     chain (query_delivery_attempt_tx d attempt_id) (\<lambda>attempt.
     if a_state attempt = Abandoned \<and>
        a_delivery_observation_state attempt \<in> {Some ObservationExpired, Some ObservationAbandoned}
     then Inr (attempt, d)
     else
       chain (ensure_attempt_tracking_turn_observation_for_adapter attempt Cli) (\<lambda>_.
       chain (cli_turn_observation_is_after_deadline attempt expired_at) (\<lambda>late.
       chain (require late (AttemptError (ObservationDeadlineNotElapsed attempt_id))) (\<lambda>_.
       chain (query_batch_tx d (a_batch_id attempt)) (\<lambda>batch.
       chain (ensure_batch_open batch) (\<lambda>_.
       chain (ensure_batch_is_thread_head_tx d batch) (\<lambda>_.
       chain (ensure_attempt_is_current_generation_tx d attempt) (\<lambda>_.
       let expired_state =
             (if is_ok (ensure_cli_attempt_has_current_managed_session_for_batch_tx d attempt batch)
              then ObservationExpired else ObservationAbandoned);
           d = store_observation_end expired_state attempt_id expired_at d
       in chain (manualize_cli_batch_after_observation_loss_tx attempt expired_at d) (\<lambda>d.
          chain (query_delivery_attempt_tx d attempt_id) (\<lambda>record. Inr (record, d)))))))))))"

definition complete_delayed_cli_turn_after_expiry_tx ::
    "attempt_row \<Rightarrow> int \<Rightarrow> db \<Rightarrow> store_error + artifact_row list \<times> db" where
  "complete_delayed_cli_turn_after_expiry_tx attempt observed_at d =
     chain (query_batch_tx d (a_batch_id attempt)) (\<lambda>batch.
     chain (ensure_batch_open batch) (\<lambda>_.
     chain (ensure_batch_is_thread_head_tx d batch) (\<lambda>_.
     chain (ensure_attempt_is_current_generation_tx d attempt) (\<lambda>_.
     let p = (\<lambda>a. a_attempt_id a = a_attempt_id attempt \<and> a_state a = Abandoned \<and>
           a_delivery_observation_state a \<in> {Some ObservationExpired, Some ObservationAbandoned})
     in chain (require (count_where p (delivery_attempts d) = 1)
          (AttemptError (DelayedCompletionLost (a_attempt_id attempt)))) (\<lambda>_.
        let d = update_attempts p (\<lambda>a. a\<lparr>a_state := Cooldown,
              a_delivery_observation_state := Some ObservationCompleted,
              a_last_observed_turn_event := Some TurnCompleted,
              a_last_observed_turn_event_at := Some observed_at, a_updated_at := observed_at,
              a_abandoned_at := None\<rparr>) d
        in close_delivered_batch (a_batch_id attempt) ''observed CLI turn completion'' observed_at d)))))"

definition lose_cli_observation ::
    "attempt_row \<Rightarrow> turn_event \<Rightarrow> observation_state \<Rightarrow> int \<Rightarrow> db \<Rightarrow> store_error + db" where
  "lose_cli_observation attempt ev outcome observed_at d =
     manualize_cli_batch_after_observation_loss_tx attempt observed_at
       (abandon_cli_turn_observation_tx attempt ev outcome observed_at d)"

definition observe_tracked_cli_turn ::
    "attempt_row \<Rightarrow> turn_event \<Rightarrow> int \<Rightarrow> db \<Rightarrow> store_error + artifact_row list \<times> db" where
  "observe_tracked_cli_turn attempt ev observed_at d =
     chain (ensure_attempt_tracking_turn_observation_for_adapter attempt Cli) (\<lambda>_.
     chain (query_batch_tx d (a_batch_id attempt)) (\<lambda>batch.
     chain (ensure_batch_open batch) (\<lambda>_.
     chain (ensure_batch_is_thread_head_tx d batch) (\<lambda>_.
     chain (ensure_attempt_is_current_generation_tx d attempt) (\<lambda>_.
     if \<not> is_ok (ensure_cli_attempt_has_current_managed_session_for_batch_tx d attempt batch)
     then chain (lose_cli_observation attempt ev ObservationAbandoned observed_at d) (\<lambda>d. Inr ([], d))
     else chain (cli_turn_observation_is_after_deadline attempt observed_at) (\<lambda>late.
       if late
       then chain (lose_cli_observation attempt ev ObservationExpired observed_at d) (\<lambda>d. Inr ([], d))
       else case ev of
           TurnStarted \<Rightarrow> Inr ([], store_turn_started (a_attempt_id attempt) observed_at d)
         | TurnCompleted \<Rightarrow>
             chain (ensure_batch_allows_automatic_delivery batch) (\<lambda>_.
             close_delivered_batch (a_batch_id attempt) ''observed CLI turn completion'' observed_at
               (store_turn_completed (a_attempt_id attempt) observed_at d))
         | _ \<Rightarrow> chain (lose_cli_observation attempt ev ObservationAbandoned observed_at d) (\<lambda>d. Inr ([], d))))))))"

definition observe_cli_turn_event ::
    "(artifact_row \<Rightarrow> bool) \<Rightarrow> string \<Rightarrow> string \<Rightarrow> string \<Rightarrow> int \<Rightarrow> db \<Rightarrow> store_error + attempt_row \<times> db" where
  "observe_cli_turn_event rewrite attempt_id delivery_turn_id turn_event observed_at d =
     chain (ensure_nonempty_value ''delivery_turn_id'' delivery_turn_id) (\<lambda>_.
     chain (ensure_cli_turn_event_value turn_event) (\<lambda>ev.
     chain (query_delivery_attempt_tx d attempt_id) (\<lambda>attempt.
     chain (require (a_adapter_kind attempt = Cli) (AttemptError (AttemptNotCli attempt_id))) (\<lambda>_.
     chain (ensure_cli_turn_observation_matches_attempt attempt delivery_turn_id) (\<lambda>_.
     if is_idempotent_terminal_cli_turn_observation attempt ev then Inr (attempt, d)
     else chain (can_complete_delayed_cli_turn_after_expiry attempt ev observed_at) (\<lambda>delayed.
       chain (if delayed
          then if \<not> is_ok (ensure_cli_attempt_has_recorded_detached_delivery_proof_snapshot attempt)
               then Inr ([], record_late_cli_turn_evidence_tx attempt ev observed_at d)
               else complete_delayed_cli_turn_after_expiry_tx attempt observed_at d
          else if can_record_late_cli_turn_evidence attempt ev
          then Inr ([], record_late_cli_turn_evidence_tx attempt ev observed_at d)
          else observe_tracked_cli_turn attempt ev observed_at d) (\<lambda>(artifacts_to_sync, d).
       chain (query_delivery_attempt_tx d attempt_id) (\<lambda>record.
       Inr (record, snd (sync_artifact_manifests rewrite artifacts_to_sync observed_at d))))))))))"

end
