(* ===== verification/Cbth_AppServer.thy ===== *)
theory Cbth_AppServer
  imports Cbth_Cli
begin

text \<open>
  Delivery through a codex app server (\<open>src/store.rs\<close>): no managed session guards these attempts, so a
  rejection spends one of the batch's delivery attempts and an unknown outcome or a lost observation
  hands the batch to manual resolution.
\<close>

record new_codex_attempt =
  nx_attempt_id :: string
  nx_batch_id :: string
  nx_managed_session_id :: string
  nx_session_epoch :: int
  nx_delivery_rpc_request_id :: string
  nx_delivery_rpc_correlation_marker :: string
  nx_delivery_rpc_started_at :: int

definition validate_codex_app_server_accept_pending_attempt :: "new_codex_attempt \<Rightarrow> store_error + unit" where
  "validate_codex_app_server_accept_pending_attempt attempt =
     chain (validate_id_path_component (nx_attempt_id attempt) ''attempt_id'') (\<lambda>_.
     chain (ensure_nonempty_value ''managed_session_id'' (nx_managed_session_id attempt)) (\<lambda>_.
     chain (ensure_positive_value ''session_epoch'' (nx_session_epoch attempt)) (\<lambda>_.
     chain (ensure_nonempty_value ''delivery_rpc_request_id'' (nx_delivery_rpc_request_id attempt)) (\<lambda>_.
     ensure_nonempty_value ''delivery_rpc_correlation_marker''
       (nx_delivery_rpc_correlation_marker attempt)))))"

definition ensure_existing_codex_app_server_accept_matches_request ::
    "attempt_row \<Rightarrow> new_codex_attempt \<Rightarrow> store_error + unit" where
  "ensure_existing_codex_app_server_accept_matches_request existing attempt =
     (let conflict = rpc_conflict (nx_delivery_rpc_request_id attempt) in
     chain (require (a_adapter_kind existing = CodexAppServer) (conflict ''adapter kind'')) (\<lambda>_.
     chain (require (a_batch_id existing = nx_batch_id attempt) (conflict ''batch'')) (\<lambda>_.
     chain (require (a_managed_session_id existing = Some (nx_managed_session_id attempt))
       (conflict ''managed session'')) (\<lambda>_.
     chain (require (a_session_epoch existing = Some (nx_session_epoch attempt))
       (conflict ''session epoch'')) (\<lambda>_.
     require (a_delivery_rpc_kind existing = Some TurnStart) (conflict ''RPC kind''))))))"

definition pending_codex_attempt_row :: "new_codex_attempt \<Rightarrow> batch_row \<Rightarrow> int \<Rightarrow> attempt_row" where
  "pending_codex_attempt_row attempt batch generation =
     \<lparr>a_attempt_id = nx_attempt_id attempt, a_batch_id = nx_batch_id attempt,
      a_source_thread_id = b_source_thread_id batch, a_adapter_kind = CodexAppServer,
      a_authorization_mode = TrustedAll, a_state = AcceptPending, a_generation = generation,
      a_delivery_rpc_request_id = Some (nx_delivery_rpc_request_id attempt),
      a_delivery_rpc_kind = Some TurnStart, a_delivery_rpc_state = Some PendingAcceptance,
      a_delivery_rpc_correlation_marker = Some (nx_delivery_rpc_correlation_marker attempt),
      a_delivery_rpc_started_at = Some (nx_delivery_rpc_started_at attempt),
      a_managed_session_id = Some (nx_managed_session_id attempt),
      a_session_epoch = Some (nx_session_epoch attempt),
      a_session_activity_revision = 0, a_session_capability_revision = 0,
      a_delivery_turn_id = None, a_delivery_accepted_at = None,
      a_delivery_observation_state = None, a_delivery_observation_deadline = None,
      a_last_observed_turn_event = None, a_last_observed_turn_event_at = None,
      a_bridge_request_id = None, a_bridge_arm_lease_id = None, a_bridge_arm_lease_deadline = None,
      a_arm_pending_since = None, a_arm_pending_deadline = None, a_desktop_armed_at = None,
      a_created_at = nx_delivery_rpc_started_at attempt,
      a_updated_at = nx_delivery_rpc_started_at attempt,
      a_abandoned_at = None, a_closed_at = None\<rparr>"

definition begin_codex_app_server_accept_pending_attempt_tx ::
    "new_codex_attempt \<Rightarrow> db \<Rightarrow> store_error + (attempt_row \<times> bool) \<times> db" where
  "begin_codex_app_server_accept_pending_attempt_tx attempt d =
     (case query_delivery_attempt_by_rpc_request_id_tx d (nx_delivery_rpc_request_id attempt) of
       Some existing \<Rightarrow>
         chain (ensure_existing_codex_app_server_accept_matches_request existing attempt) (\<lambda>_.
         Inr ((existing, False), d))
     | None \<Rightarrow>
         chain (query_batch_tx d (nx_batch_id attempt)) (\<lambda>batch.
         chain (ensure_batch_open batch) (\<lambda>_.
         chain (ensure_batch_is_thread_head_tx d batch) (\<lambda>_.
         chain (ensure_batch_allows_automatic_delivery batch) (\<lambda>_.
         chain (ensure_batch_redelivery_window_open batch (nx_delivery_rpc_started_at attempt)) (\<lambda>_.
         chain (ensure_attempt_budget_remaining batch) (\<lambda>_.
         chain (ensure_no_active_attempt_for_thread_tx d (b_source_thread_id batch)) (\<lambda>_.
         chain (next_attempt_generation_tx d (nx_batch_id attempt)) (\<lambda>generation.
         chain (insert_attempt
           (pending_codex_attempt_row attempt batch generation) d) (\<lambda>d.
         chain (query_delivery_attempt_tx d (nx_attempt_id attempt)) (\<lambda>record. Inr ((record, True), d))))))))))))"

definition begin_codex_app_server_accept_pending_attempt_with_created ::
    "new_codex_attempt \<Rightarrow> db \<Rightarrow> store_error + (attempt_row \<times> bool) \<times> db" where
  "begin_codex_app_server_accept_pending_attempt_with_created attempt d =
     chain (validate_codex_app_server_accept_pending_attempt attempt) (\<lambda>_.
     begin_codex_app_server_accept_pending_attempt_tx attempt d)"

definition accept_codex_app_server_attempt ::
    "string \<Rightarrow> string \<Rightarrow> int \<Rightarrow> int \<Rightarrow> db \<Rightarrow> store_error + attempt_row \<times> db" where
  "accept_codex_app_server_attempt attempt_id delivery_turn_id accepted_at observation_deadline d =
     chain (ensure_nonempty_value ''delivery_turn_id'' delivery_turn_id) (\<lambda>_.
     chain (query_delivery_attempt_tx d attempt_id) (\<lambda>attempt.
     if already_accepted attempt delivery_turn_id then Inr (attempt, d)
     else
       chain (ensure_attempt_accept_pending_for_adapter attempt CodexAppServer) (\<lambda>_.
       chain (query_batch_tx d (a_batch_id attempt)) (\<lambda>batch.
       chain (ensure_batch_open batch) (\<lambda>_.
       chain (ensure_batch_is_thread_head_tx d batch) (\<lambda>_.
       chain (ensure_batch_allows_automatic_delivery batch) (\<lambda>_.
       chain (ensure_attempt_budget_remaining batch) (\<lambda>_.
       chain (ensure_attempt_is_current_generation_tx d attempt) (\<lambda>_.
       let d = store_acceptance attempt_id delivery_turn_id accepted_at observation_deadline d
       in chain (spend_delivery_attempt (a_batch_id attempt) accepted_at d) (\<lambda>d.
          chain (query_delivery_attempt_tx d attempt_id) (\<lambda>record. Inr (record, d))))))))))))"

definition manualize_codex_app_server_batch_tx :: "attempt_row \<Rightarrow> int \<Rightarrow> db \<Rightarrow> store_error + db" where
  "manualize_codex_app_server_batch_tx attempt now d =
     chain (manual_window_ends_at now) (\<lambda>window_ends_at.
     Inr (set_batch_manual (a_batch_id attempt) window_ends_at now d))"

definition reject_codex_app_server_attempt_before_accept ::
    "string \<Rightarrow> int \<Rightarrow> bool \<Rightarrow> db \<Rightarrow> store_error + attempt_row \<times> db" where
  "reject_codex_app_server_attempt_before_accept attempt_id rejected_at manual_resolution_only d =
     chain (query_delivery_attempt_tx d attempt_id) (\<lambda>attempt.
     if a_state attempt = Abandoned \<and> a_delivery_rpc_state attempt = Some RejectedBeforeAccept
     then if manual_resolution_only
       then chain (manualize_codex_app_server_batch_tx attempt rejected_at d) (\<lambda>d.
            chain (query_delivery_attempt_tx d attempt_id) (\<lambda>record. Inr (record, d)))
       else Inr (attempt, d)
     else
       chain (ensure_attempt_accept_pending_for_adapter attempt CodexAppServer) (\<lambda>_.
       chain (query_batch_tx d (a_batch_id attempt)) (\<lambda>batch.
       chain (ensure_batch_open batch) (\<lambda>_.
       chain (ensure_batch_is_thread_head_tx d batch) (\<lambda>_.
       chain (ensure_attempt_is_current_generation_tx d attempt) (\<lambda>_.
       chain (require (count_where (\<lambda>a. a_attempt_id a = attempt_id \<and> pending_acceptance a)
            (delivery_attempts d) = 1)
         (AttemptError (AttemptNotPendingAcceptance attempt_id CodexAppServer))) (\<lambda>_.
       let d = store_pre_accept_end RejectedBeforeAccept attempt_id rejected_at d
       in chain (spend_delivery_attempt (a_batch_id attempt) rejected_at d) (\<lambda>d.
          let attempts_exhausted =
                b_max_delivery_attempts batch \<le> saturating_add (b_delivery_attempt_count batch) 1
          in chain (if manual_resolution_only \<or> attempts_exhausted
                    then manualize_codex_app_server_batch_tx attempt rejected_at d
                    else Inr d) (\<lambda>d.
             chain (query_delivery_attempt_tx d attempt_id) (\<lambda>record. Inr (record, d)))))))))))"

definition abandon_codex_app_server_attempt_as_unknown ::
    "string \<Rightarrow> int \<Rightarrow> bool \<Rightarrow> db \<Rightarrow> store_error + attempt_row \<times> db" where
  "abandon_codex_app_server_attempt_as_unknown attempt_id observed_at manual_resolution_only d =
     chain (query_delivery_attempt_tx d attempt_id) (\<lambda>attempt.
     if a_state attempt = Abandoned \<and> a_delivery_rpc_state attempt = Some RpcUnknown
     then if manual_resolution_only
       then chain (manualize_codex_app_server_batch_tx attempt observed_at d) (\<lambda>d.
            chain (query_delivery_attempt_tx d attempt_id) (\<lambda>record. Inr (record, d)))
       else Inr (attempt, d)
     else
       chain (ensure_attempt_accept_pending_for_adapter attempt CodexAppServer) (\<lambda>_.
       chain (query_batch_tx d (a_batch_id attempt)) (\<lambda>batch.
       chain (ensure_batch_open batch) (\<lambda>_.
       chain (ensure_attempt_is_current_generation_tx d attempt) (\<lambda>_.
       let d = store_pre_accept_end RpcUnknown attempt_id observed_at d
       in chain (if manual_resolution_only
                 then manualize_codex_app_server_batch_tx attempt observed_at d else Inr d) (\<lambda>d.
          chain (query_delivery_attempt_tx d attempt_id) (\<lambda>record. Inr (record, d))))))))"

definition lose_codex_observation ::
    "attempt_row \<Rightarrow> turn_event \<Rightarrow> observation_state \<Rightarrow> int \<Rightarrow> db \<Rightarrow> store_error + db" where
  "lose_codex_observation attempt ev outcome observed_at d =
     manualize_codex_app_server_batch_tx attempt observed_at
       (abandon_cli_turn_observation_tx attempt ev outcome observed_at d)"

definition observe_tracked_codex_turn ::
    "attempt_row \<Rightarrow> turn_event \<Rightarrow> int \<Rightarrow> db \<Rightarrow> store_error + artifact_row list \<times> db" where
  "observe_tracked_codex_turn attempt ev observed_at d =
     chain (ensure_attempt_tracking_turn_observation_for_adapter attempt CodexAppServer) (\<lambda>_.
     chain (query_batch_tx d (a_batch_id attempt)) (\<lambda>batch.
     chain (ensure_batch_open batch) (\<lambda>_.
     chain (ensure_batch_is_thread_head_tx d batch) (\<lambda>_.
     chain (ensure_attempt_is_current_generation_tx d attempt) (\<lambda>_.
     chain (cli_turn_observation_is_after_deadline attempt observed_at) (\<lambda>late.
       if late
       then chain (lose_codex_observation attempt ev ObservationExpired observed_at d) (\<lambda>d. Inr ([], d))
       else case ev of
           TurnStarted \<Rightarrow> Inr ([], store_turn_started (a_attempt_id attempt) observed_at d)
         | TurnCompleted \<Rightarrow>
             chain (ensure_batch_allows_automatic_delivery batch) (\<lambda>_.
             close_delivered_batch (a_batch_id attempt) ''observed codex_app_server turn completion''
               observed_at (store_turn_completed (a_attempt_id attempt) observed_at d))
         | _ \<Rightarrow> chain (lose_codex_observation attempt ev ObservationAbandoned observed_at d) (\<lambda>d. Inr ([], d))))))))"

definition observe_codex_app_server_turn_event ::
    "(artifact_row \<Rightarrow> bool) \<Rightarrow> string \<Rightarrow> string \<Rightarrow> string \<Rightarrow> int \<Rightarrow> db \<Rightarrow> store_error + attempt_row \<times> db" where
  "observe_codex_app_server_turn_event rewrite attempt_id delivery_turn_id turn_event observed_at d =
     chain (ensure_nonempty_value ''delivery_turn_id'' delivery_turn_id) (\<lambda>_.
     chain (ensure_cli_turn_event_value turn_event) (\<lambda>ev.
     chain (query_delivery_attempt_tx d attempt_id) (\<lambda>attempt.
     chain (ensure_cli_turn_observation_matches_attempt attempt delivery_turn_id) (\<lambda>_.
     if is_idempotent_terminal_cli_turn_observation attempt ev then Inr (attempt, d)
     else
       chain (if can_record_late_cli_turn_evidence attempt ev
          then Inr ([], record_late_cli_turn_evidence_tx attempt ev observed_at d)
          else observe_tracked_codex_turn attempt ev observed_at d) (\<lambda>(artifacts_to_sync, d).
       chain (query_delivery_attempt_tx d attempt_id) (\<lambda>record.
       Inr (record, snd (sync_artifact_manifests rewrite artifacts_to_sync observed_at d))))))))"

definition has_active_codex_app_server_delivery_for_target :: "db \<Rightarrow> string \<Rightarrow> int \<Rightarrow> bool" where
  "has_active_codex_app_server_delivery_for_target d managed_session_id session_epoch \<longleftrightarrow>
     0 < count_where (\<lambda>a. a_adapter_kind a = CodexAppServer \<and>
       a_managed_session_id a = Some managed_session_id \<and> a_session_epoch a = Some session_epoch \<and>
       a_state a \<in> {AcceptPending, Cooldown} \<and> batch_state_is d BatchOpen a) (delivery_attempts d)"

end
