(* ===== verification/Cbth_Plugin.thy ===== *)
theory Cbth_Plugin
  imports Cbth_Jobs Cbth_AppServer
begin

text \<open>
  Plugin deliveries (\<open>src/store.rs\<close>): an enqueue that is idempotent in \<open>(plugin_name,
  idempotency_key)\<close> and puts its batch at the tail of the thread's queue, the replay and inspection of
  an earlier request, and the switch of a delivery to manual resolution.
\<close>

record plugin_artifact =
  pa_artifact_id :: string
  pa_relative_path :: string
  pa_original_filename :: "string option"
  pa_size_bytes :: int
  pa_sha256 :: string
  pa_retention_until :: int

record new_plugin_delivery =
  np_plugin_name :: string
  np_plugin_instance_id :: string
  np_idempotency_key :: string
  np_request_fingerprint :: string
  np_job_id :: string
  np_batch_id :: string
  np_source_thread_id :: string
  np_summary :: string
  np_metadata_json :: string
  np_policy :: delivery_policy
  np_inline_payload_bytes :: int
  np_artifact :: "plugin_artifact option"
  np_max_delivery_attempts :: int
  np_redelivery_window_seconds :: int
  np_created_at :: int

record plugin_enqueue_record =
  pe_created :: bool
  pe_idempotency_key :: string
  pe_job :: job_row
  pe_batch :: batch_inspect

record plugin_inspect_record =
  pi_job :: job_row
  pi_batch :: batch_inspect
  pi_attempts :: "attempt_row list"

section \<open>Validation\<close>

definition validate_plugin_delivery_artifact_reference ::
    "string \<Rightarrow> string \<Rightarrow> int \<Rightarrow> int \<Rightarrow> int \<Rightarrow> store_error + unit" where
  "validate_plugin_delivery_artifact_reference artifact_id relative_path size_bytes retention_until now =
     chain (ensure_nonempty_value ''artifact.relative_path'' relative_path) (\<lambda>_.
     chain (ensure_positive_value ''artifact.size_bytes'' size_bytes) (\<lambda>_.
     chain (require (now < retention_until)
       (ValueError (InvalidArtifactReference ''artifact.retention_until must be in the future''))) (\<lambda>_.
     chain (require (\<not> is_absolute relative_path)
       (ValueError (InvalidArtifactReference ''artifact.relative_path must be relative''))) (\<lambda>_.
     chain (require (relative_path = relative_artifact_payload_path artifact_id)
       (ValueError (InvalidArtifactReference
         ''artifact.relative_path must be the canonical artifact payload path''))) (\<lambda>_.
     require (\<not> is_absolute relative_path \<and> ''..'' \<notin> set (split_on (CHR ''/'') relative_path))
       (ValueError (InvalidArtifactReference ''artifact.relative_path must not escape cbth home'')))))))"

definition validate_new_plugin_delivery :: "new_plugin_delivery \<Rightarrow> store_error + unit" where
  "validate_new_plugin_delivery delivery =
     chain (ensure_nonempty_value ''plugin_name'' (np_plugin_name delivery)) (\<lambda>_.
     chain (ensure_nonempty_value ''plugin_instance_id'' (np_plugin_instance_id delivery)) (\<lambda>_.
     chain (ensure_nonempty_value ''idempotency_key'' (np_idempotency_key delivery)) (\<lambda>_.
     chain (ensure_nonempty_value ''request_fingerprint'' (np_request_fingerprint delivery)) (\<lambda>_.
     chain (ensure_nonempty_value ''source_thread_id'' (np_source_thread_id delivery)) (\<lambda>_.
     chain (ensure_nonempty_value ''summary'' (np_summary delivery)) (\<lambda>_.
     chain (validate_id_path_component (np_job_id delivery) ''job_id'') (\<lambda>_.
     chain (validate_id_path_component (np_batch_id delivery) ''batch_id'') (\<lambda>_.
     chain (ensure_positive_value ''max_delivery_attempts'' (np_max_delivery_attempts delivery)) (\<lambda>_.
     chain (ensure_positive_value ''redelivery_window_seconds''
       (np_redelivery_window_seconds delivery)) (\<lambda>_.
     chain (require (0 \<le> np_inline_payload_bytes delivery)
       (ValueError (NegativeValue ''inline_payload_bytes''))) (\<lambda>_.
     case np_artifact delivery of
       None \<Rightarrow> Inr ()
     | Some artifact \<Rightarrow>
         chain (validate_id_path_component (pa_artifact_id artifact) ''artifact_id'') (\<lambda>_.
         validate_plugin_delivery_artifact_reference (pa_artifact_id artifact)
           (pa_relative_path artifact) (pa_size_bytes artifact) (pa_retention_until artifact)
           (np_created_at delivery)))))))))))))"

section \<open>Enqueue\<close>

definition query_plugin_delivery_request :: "db \<Rightarrow> string \<Rightarrow> string \<Rightarrow> plugin_request_row option" where
  "query_plugin_delivery_request d plugin_name idempotency_key =
     find (\<lambda>p. (p_plugin_name p, p_idempotency_key p) = (plugin_name, idempotency_key))
       (plugin_delivery_requests d)"

definition max_open_created_at :: "db \<Rightarrow> string \<Rightarrow> int option" where
  "max_open_created_at d source_thread_id =
     max_agg (map b_created_at (filter (open_in_thread source_thread_id) (batches d)))"

definition plugin_delivery_batch_created_at_tx :: "db \<Rightarrow> string \<Rightarrow> int \<Rightarrow> store_error + int" where
  "plugin_delivery_batch_created_at_tx d source_thread_id requested_created_at =
     (case max_open_created_at d source_thread_id of
        Some m \<Rightarrow> if requested_created_at \<le> m
          then checked_timestamp_add m 1 ''plugin_delivery_batch_created_at''
          else Inr requested_created_at
      | None \<Rightarrow> Inr requested_created_at)"

definition fingerprint_conflict :: "string \<Rightarrow> string \<Rightarrow> store_error" where
  "fingerprint_conflict idempotency_key plugin_name =
     BatchError (IdempotencyKeyReused idempotency_key plugin_name)"

definition existing_enqueue_record :: "db \<Rightarrow> plugin_request_row \<Rightarrow> store_error + plugin_enqueue_record" where
  "existing_enqueue_record d existing =
     chain (query_job_tx d (p_job_id existing)) (\<lambda>job.
     chain (query_batch_inspect_tx d (p_batch_id existing)) (\<lambda>batch.
     Inr \<lparr>pe_created = False, pe_idempotency_key = p_idempotency_key existing, pe_job = job,
          pe_batch = batch\<rparr>))"

definition insert_plugin_artifact :: "new_plugin_delivery \<Rightarrow> db \<Rightarrow> store_error + db" where
  "insert_plugin_artifact delivery d =
     (case np_artifact delivery of
        None \<Rightarrow> Inr d
      | Some artifact \<Rightarrow> insert_artifact
          \<lparr>ar_artifact_id = pa_artifact_id artifact, ar_job_id = np_job_id delivery,
           ar_relative_path = pa_relative_path artifact,
           ar_original_filename = pa_original_filename artifact,
           ar_size_bytes = pa_size_bytes artifact, ar_sha256 = pa_sha256 artifact,
           ar_created_at = np_created_at delivery, ar_retention_until = pa_retention_until artifact,
           ar_manifest_synced_retention_until = 0, ar_manifest_sync_attempted_at = 0,
           ar_gc_attempted_at = 0\<rparr> d)"

definition enqueue_plugin_delivery_tx ::
    "new_plugin_delivery \<Rightarrow> db \<Rightarrow> store_error + plugin_enqueue_record \<times> db" where
  "enqueue_plugin_delivery_tx delivery d =
     (case query_plugin_delivery_request d (np_plugin_name delivery) (np_idempotency_key delivery) of
       Some existing \<Rightarrow>
         chain (require (p_request_fingerprint existing = np_request_fingerprint delivery)
           (fingerprint_conflict (np_idempotency_key delivery) (np_plugin_name delivery))) (\<lambda>_.
         chain (existing_enqueue_record d existing) (\<lambda>record. Inr (record, d)))
     | None \<Rightarrow>
         chain (insert_job
           \<lparr>j_job_id = np_job_id delivery, j_source_thread_id = np_source_thread_id delivery,
            j_status = JobCompleted, j_summary = np_summary delivery,
            j_metadata_json = np_metadata_json delivery, j_created_at = np_created_at delivery,
            j_updated_at = np_created_at delivery, j_completed_at = Some (np_created_at delivery),
            j_failed_at = None,
            j_result_artifact_id = map_option pa_artifact_id (np_artifact delivery),
            j_failure_reason = None, j_delivery_policy = np_policy delivery,
            j_supervisor_daemon_generation = None\<rparr> d) (\<lambda>d.
         chain (insert_plugin_artifact delivery d) (\<lambda>d.
         chain (plugin_delivery_batch_created_at_tx d (np_source_thread_id delivery)
           (np_created_at delivery)) (\<lambda>batch_created_at.
         chain (checked_timestamp_add batch_created_at (np_redelivery_window_seconds delivery)
           ''redelivery_window_seconds'') (\<lambda>redelivery_window_ends_at.
         chain (insert_batch_tx
           \<lparr>nb_batch_id = np_batch_id delivery, nb_source_thread_id = np_source_thread_id delivery,
            nb_summary = np_summary delivery, nb_created_at = batch_created_at,
            nb_redelivery_window_ends_at = redelivery_window_ends_at,
            nb_max_delivery_attempts = np_max_delivery_attempts delivery,
            nb_policy = np_policy delivery, nb_inline_payload_bytes = np_inline_payload_bytes delivery,
            nb_requires_artifact_read = (np_artifact delivery \<noteq> None)\<rparr> [np_job_id delivery] d) (\<lambda>d.
         chain (insert_plugin_request
           \<lparr>p_plugin_name = np_plugin_name delivery, p_idempotency_key = np_idempotency_key delivery,
            p_plugin_instance_id = np_plugin_instance_id delivery,
            p_request_fingerprint = np_request_fingerprint delivery, p_job_id = np_job_id delivery,
            p_batch_id = np_batch_id delivery, p_created_at = np_created_at delivery,
            p_updated_at = np_created_at delivery\<rparr> d) (\<lambda>d.
         chain (query_job_tx d (np_job_id delivery)) (\<lambda>job.
         chain (query_batch_inspect_tx d (np_batch_id delivery)) (\<lambda>batch.
         Inr (\<lparr>pe_created = True, pe_idempotency_key = np_idempotency_key delivery, pe_job = job,
               pe_batch = batch\<rparr>, d))))))))))"

definition enqueue_plugin_delivery_with_codex_app_server_attempt_if_head ::
    "new_plugin_delivery \<Rightarrow> new_codex_attempt \<Rightarrow> db \<Rightarrow>
      store_error + (plugin_enqueue_record \<times> attempt_row option) \<times> db" where
  "enqueue_plugin_delivery_with_codex_app_server_attempt_if_head delivery attempt d =
     chain (validate_new_plugin_delivery delivery) (\<lambda>_.
     chain (validate_codex_app_server_accept_pending_attempt attempt) (\<lambda>_.
     chain (require (nx_batch_id attempt = np_batch_id delivery) (AttemptError AttemptBatchMismatch)) (\<lambda>_.
     chain (enqueue_plugin_delivery_tx delivery d) (\<lambda>(enqueue, d).
     chain (query_batch_tx d (np_batch_id delivery)) (\<lambda>batch.
     if pe_created enqueue \<and> batch_is_thread_head_tx d batch
     then chain (begin_codex_app_server_accept_pending_attempt_tx attempt d) (\<lambda>((record, _), d).
          Inr ((enqueue, Some record), d))
     else Inr ((enqueue, None), d))))))"

section \<open>Replay, inspect, manualize\<close>

definition replay_plugin_delivery_enqueue ::
    "db \<Rightarrow> string \<Rightarrow> string \<Rightarrow> string \<Rightarrow> store_error + plugin_enqueue_record option" where
  "replay_plugin_delivery_enqueue d plugin_name idempotency_key request_fingerprint =
     chain (ensure_nonempty_value ''plugin_name'' plugin_name) (\<lambda>_.
     chain (ensure_nonempty_value ''idempotency_key'' idempotency_key) (\<lambda>_.
     chain (ensure_nonempty_value ''request_fingerprint'' request_fingerprint) (\<lambda>_.
     case query_plugin_delivery_request d plugin_name idempotency_key of
       None \<Rightarrow> Inr None
     | Some existing \<Rightarrow>
         chain (require (p_request_fingerprint existing = request_fingerprint)
           (fingerprint_conflict idempotency_key plugin_name)) (\<lambda>_.
         chain (existing_enqueue_record d existing) (\<lambda>record. Inr (Some record))))))"

definition inspect_plugin_delivery ::
    "db \<Rightarrow> string \<Rightarrow> string option \<Rightarrow> string option \<Rightarrow> string option \<Rightarrow>
      store_error + plugin_inspect_record" where
  "inspect_plugin_delivery d plugin_name idempotency_key job_id batch_id =
     chain (case (idempotency_key, job_id, batch_id) of
         (Some key, None, None) \<Rightarrow>
           chain (ensure_nonempty_value ''plugin_name'' plugin_name) (\<lambda>_.
           chain (ensure_nonempty_value ''idempotency_key'' key) (\<lambda>_.
           ok_or (NotFound EPluginDelivery key) (query_plugin_delivery_request d plugin_name key)))
       | (None, Some job, None) \<Rightarrow>
           chain (ensure_nonempty_value ''plugin_name'' plugin_name) (\<lambda>_.
           ok_or (NotFound EPluginDelivery job) (find (\<lambda>p. p_plugin_name p = plugin_name \<and> p_job_id p = job)
             (plugin_delivery_requests d)))
       | (None, None, Some batch) \<Rightarrow>
           chain (ensure_nonempty_value ''plugin_name'' plugin_name) (\<lambda>_.
           ok_or (NotFound EPluginDelivery batch) (find (\<lambda>p. p_plugin_name p = plugin_name \<and> p_batch_id p = batch)
             (plugin_delivery_requests d)))
       | _ \<Rightarrow> Inl (ValueError SelectorNotUnique)) (\<lambda>existing.
     chain (query_job_tx d (p_job_id existing)) (\<lambda>job.
     chain (query_batch_inspect_tx d (p_batch_id existing)) (\<lambda>batch.
     Inr \<lparr>pi_job = job, pi_batch = batch,
          pi_attempts = query_delivery_attempts_for_batch d (b_batch_id (bi_batch batch))\<rparr>)))"

definition manualize_attempt :: "int \<Rightarrow> attempt_row \<Rightarrow> attempt_row" where
  "manualize_attempt now a = a\<lparr>a_state := Abandoned,
     a_delivery_rpc_state := (if a_delivery_rpc_state a = Some PendingAcceptance
       then (if a_adapter_kind a = CodexAppServer then Some RpcUnknown else Some RejectedBeforeAccept)
       else a_delivery_rpc_state a),
     a_delivery_observation_state := (if a_delivery_observation_state a = Some Tracking
       then Some ObservationAbandoned else a_delivery_observation_state a),
     a_updated_at := now, a_abandoned_at := Some now\<rparr>"

definition manualize_plugin_delivery :: "string \<Rightarrow> string \<Rightarrow> int \<Rightarrow> db \<Rightarrow> store_error + batch_inspect \<times> db" where
  "manualize_plugin_delivery batch_id reason now d =
     chain (ensure_nonempty_value ''batch_id'' batch_id) (\<lambda>_.
     chain (ensure_nonempty_value ''reason'' reason) (\<lambda>_.
     chain (query_batch_tx d batch_id) (\<lambda>batch.
     chain (ensure_batch_open batch) (\<lambda>_.
     chain (manual_window_ends_at now) (\<lambda>window_ends_at.
     let d = update_attempts (\<lambda>a. a_batch_id a = batch_id \<and> active a) (manualize_attempt now)
               (set_batch_manual batch_id window_ends_at now d)
     in chain (query_batch_inspect_tx d batch_id) (\<lambda>inspect. Inr (inspect, d)))))))"

end
