(* ===== verification/Cbth_Sweep.thy ===== *)
theory Cbth_Sweep
  imports Cbth_Plugin
begin

text \<open>
  The maintenance sweep of \<open>src/store.rs\<close>: attempts whose acceptance or observation is overdue are
  abandoned and their batches handed to manual resolution, batches past their redelivery window are
  closed, artifacts, orphaned ingests and task logs nobody needs any more are collected, and the
  counts that tell the daemon whether maintenance is due. The file system enters as parameters: which
  manifests can be rewritten, which directories can be removed, which ingest directories are busy.
\<close>

section \<open>Overdue attempts\<close>

definition open_attempts :: "db \<Rightarrow> (attempt_row \<Rightarrow> bool) \<Rightarrow> attempt_row list" where
  "open_attempts d p = filter (\<lambda>a. p a \<and> batch_state_is d BatchOpen a) (delivery_attempts d)"

definition pending_of :: "adapter_kind \<Rightarrow> attempt_row \<Rightarrow> bool" where
  "pending_of kind a \<longleftrightarrow> a_adapter_kind a = kind \<and> pending_acceptance a"

definition tracking_of :: "adapter_kind \<Rightarrow> attempt_row \<Rightarrow> bool" where
  "tracking_of kind a \<longleftrightarrow> a_adapter_kind a = kind \<and> tracking a"

definition stale_acceptances :: "adapter_kind \<Rightarrow> int \<Rightarrow> db \<Rightarrow> attempt_row list" where
  "stale_acceptances kind stale_started_at d =
     sql_limit MAX_EXPIRED_BATCHES_PER_SWEEP
       (order_by (\<lambda>a. (a_delivery_rpc_started_at a, a_attempt_id a))
         (open_attempts d (\<lambda>a. pending_of kind a \<and> null_le (a_delivery_rpc_started_at a) stale_started_at)))"

definition due_observations :: "adapter_kind \<Rightarrow> int \<Rightarrow> db \<Rightarrow> attempt_row list" where
  "due_observations kind now d =
     sql_limit MAX_EXPIRED_BATCHES_PER_SWEEP
       (order_by (\<lambda>a. (a_delivery_observation_deadline a, a_attempt_id a))
         (open_attempts d (\<lambda>a. tracking_of kind a \<and> null_le (a_delivery_observation_deadline a) now)))"

definition fence_and_park :: "attempt_row \<Rightarrow> int \<Rightarrow> db \<Rightarrow> db" where
  "fence_and_park a now d =
     park_cli_managed_session_tx (a_managed_session_id a) now
       (invalidate_cli_managed_session_activity_tx (a_managed_session_id a) (a_session_epoch a) now d)"

definition expire_stale_cli_acceptances_tx :: "int \<Rightarrow> db \<Rightarrow> store_error + nat \<times> db" where
  "expire_stale_cli_acceptances_tx now d =
     (let stale_started_at = saturating_sub now CLI_ACCEPT_PENDING_TIMEOUT_SECONDS in
     chain (manual_window_ends_at now) (\<lambda>window_ends_at.
     let attempts = stale_acceptances Cli stale_started_at d in
     Inr (length attempts, fold (\<lambda>a d.
       fence_and_park a now (set_batch_manual (a_batch_id a) window_ends_at now
         (store_pre_accept_end RpcUnknown (a_attempt_id a) now d))) attempts d)))"

definition expire_one_cli_observation :: "int \<Rightarrow> int \<Rightarrow> attempt_row \<Rightarrow> db \<Rightarrow> store_error + db" where
  "expire_one_cli_observation window_ends_at now a d =
     chain (query_delivery_attempt_tx d (a_attempt_id a)) (\<lambda>attempt.
     chain (query_batch_tx d (a_batch_id a)) (\<lambda>batch.
     let expired_state =
           (if is_ok (ensure_cli_attempt_has_current_managed_session_for_batch_tx d attempt batch)
            then ObservationExpired else ObservationAbandoned)
     in Inr (fence_and_park a now (set_batch_manual (a_batch_id a) window_ends_at now
          (store_observation_end expired_state (a_attempt_id a) now d)))))"

definition expire_due_cli_observations_tx :: "int \<Rightarrow> db \<Rightarrow> store_error + nat \<times> db" where
  "expire_due_cli_observations_tx now d =
     chain (manual_window_ends_at now) (\<lambda>window_ends_at.
     let attempts = due_observations Cli now d in
     chain (for_each (expire_one_cli_observation window_ends_at now) attempts d) (\<lambda>d.
     Inr (length attempts, d)))"

definition expire_one_codex_acceptance :: "int \<Rightarrow> attempt_row \<Rightarrow> db \<Rightarrow> store_error + db" where
  "expire_one_codex_acceptance now a d =
     chain (query_delivery_attempt_tx d (a_attempt_id a)) (\<lambda>attempt.
     manualize_codex_app_server_batch_tx attempt now
       (store_pre_accept_end RpcUnknown (a_attempt_id a) now d))"

definition expire_stale_codex_app_server_acceptances_tx :: "int \<Rightarrow> db \<Rightarrow> store_error + nat \<times> db" where
  "expire_stale_codex_app_server_acceptances_tx now d =
     (let stale_started_at = saturating_sub now CODEX_APP_SERVER_ACCEPT_PENDING_TIMEOUT_SECONDS;
          attempts = stale_acceptances CodexAppServer stale_started_at d
      in chain (for_each (expire_one_codex_acceptance now) attempts d) (\<lambda>d. Inr (length attempts, d)))"

definition expire_one_codex_observation :: "int \<Rightarrow> attempt_row \<Rightarrow> db \<Rightarrow> store_error + db" where
  "expire_one_codex_observation now a d =
     chain (query_delivery_attempt_tx d (a_attempt_id a)) (\<lambda>attempt.
     manualize_codex_app_server_batch_tx attempt now
       (store_observation_end ObservationExpired (a_attempt_id a) now d))"

definition expire_due_codex_app_server_observations_tx :: "int \<Rightarrow> db \<Rightarrow> store_error + nat \<times> db" where
  "expire_due_codex_app_server_observations_tx now d =
     (let attempts = due_observations CodexAppServer now d
      in chain (for_each (expire_one_codex_observation now) attempts d) (\<lambda>d. Inr (length attempts, d)))"

definition batch_is :: "db \<Rightarrow> (batch_row \<Rightarrow> bool) \<Rightarrow> attempt_row \<Rightarrow> bool" where
  "batch_is d p a \<longleftrightarrow> (\<exists>b\<in>set (batches d). b_batch_id b = a_batch_id a \<and> p b)"

definition expired_desktop_prepared :: "int \<Rightarrow> db \<Rightarrow> attempt_row \<Rightarrow> bool" where
  "expired_desktop_prepared now d a \<longleftrightarrow>
     a_adapter_kind a = Desktop \<and> a_state a = Prepared \<and>
     batch_is d (\<lambda>b. b_state b = BatchOpen \<and> b_replay_policy b = Automatic \<and>
       b_redelivery_window_ends_at b \<le> now) a"

definition expired_desktop_arm_pending :: "int \<Rightarrow> db \<Rightarrow> attempt_row \<Rightarrow> bool" where
  "expired_desktop_arm_pending now d a \<longleftrightarrow>
     a_adapter_kind a = Desktop \<and> a_state a = ArmPending \<and>
     batch_is d (\<lambda>b. b_state b = BatchOpen \<and> b_replay_policy b = Automatic) a \<and>
     (coalesce (a_bridge_arm_lease_deadline a) 0 \<le> now \<or> coalesce (a_arm_pending_deadline a) 0 \<le> now \<or>
      batch_is d (\<lambda>b. b_state b = BatchOpen \<and> b_replay_policy b = Automatic \<and>
        b_redelivery_window_ends_at b \<le> now) a)"

definition abandon_desktop_attempt :: "int \<Rightarrow> attempt_row \<Rightarrow> attempt_row" where
  "abandon_desktop_attempt now a = a\<lparr>a_state := Abandoned,
     a_delivery_observation_state := Some ObservationAbandoned, a_updated_at := now,
     a_abandoned_at := Some now\<rparr>"

definition expire_expired_desktop_prepared_attempts_tx :: "int \<Rightarrow> db \<Rightarrow> int \<times> db" where
  "expire_expired_desktop_prepared_attempts_tx now d =
     (count_where (expired_desktop_prepared now d) (delivery_attempts d),
      update_attempts (expired_desktop_prepared now d) (abandon_desktop_attempt now) d)"

definition expire_expired_desktop_arm_pending_attempts_tx :: "int \<Rightarrow> db \<Rightarrow> int \<times> db" where
  "expire_expired_desktop_arm_pending_attempts_tx now d =
     (count_where (expired_desktop_arm_pending now d) (delivery_attempts d),
      update_attempts (expired_desktop_arm_pending now d) (abandon_desktop_attempt now) d)"

section \<open>Batches past their window\<close>

definition batch_has_active_attempt :: "db \<Rightarrow> string \<Rightarrow> bool" where
  "batch_has_active_attempt d batch_id \<longleftrightarrow> (\<exists>a\<in>set (delivery_attempts d). a_batch_id a = batch_id \<and> active a)"

definition expired_batch_ids :: "replay_policy \<Rightarrow> int \<Rightarrow> db \<Rightarrow> string list" where
  "expired_batch_ids policy now d =
     map b_batch_id (sql_limit MAX_EXPIRED_BATCHES_PER_SWEEP
       (order_by (\<lambda>b. (b_redelivery_window_ends_at b, b_batch_id b))
         (filter (\<lambda>b. b_state b = BatchOpen \<and> b_replay_policy b = policy \<and>
             b_redelivery_window_ends_at b \<le> now \<and> \<not> batch_has_active_attempt d (b_batch_id b))
           (batches d))))"

fun close_expired_batches :: "string \<Rightarrow> int \<Rightarrow> string list \<Rightarrow> artifact_row list \<times> db \<Rightarrow>
    store_error + artifact_row list \<times> db" where
  "close_expired_batches reason now [] (arts, d) = Inr (arts, d)"
| "close_expired_batches reason now (batch_id # rest) (arts, d) =
     chain (close_batch_tx batch_id reason (Some ''closed by maintenance sweep'') now d) (\<lambda>d.
     chain (extend_closed_batch_artifact_retention_tx batch_id now d) (\<lambda>(more, d).
     close_expired_batches reason now rest (arts @ more, d)))"

definition close_expired_manual_batches_tx :: "int \<Rightarrow> db \<Rightarrow> store_error + (nat \<times> artifact_row list) \<times> db" where
  "close_expired_manual_batches_tx now d =
     (let batch_ids = expired_batch_ids ManualResolutionOnly now d
      in chain (close_expired_batches ''manual_resolution_expired'' now batch_ids ([], d)) (\<lambda>(arts, d).
         Inr ((length batch_ids, arts), d)))"

definition close_expired_automatic_batches_tx :: "int \<Rightarrow> db \<Rightarrow> store_error + (nat \<times> artifact_row list) \<times> db" where
  "close_expired_automatic_batches_tx now d =
     (let batch_ids = expired_batch_ids Automatic now d
      in chain (close_expired_batches ''redelivery_window_exhausted'' now batch_ids ([], d)) (\<lambda>(arts, d).
         Inr ((length batch_ids, arts), d)))"

section \<open>Garbage collection\<close>

definition job_batches :: "db \<Rightarrow> string \<Rightarrow> batch_row list" where
  "job_batches d job_id = filter (\<lambda>b. \<exists>bj\<in>set (batch_jobs d). bj_batch_id bj = b_batch_id b \<and> bj_job_id bj = job_id)
     (batches d)"

definition job_in_open_batch :: "db \<Rightarrow> string \<Rightarrow> bool" where
  "job_in_open_batch d job_id \<longleftrightarrow> (\<exists>b\<in>set (job_batches d job_id). b_state b = BatchOpen)"

definition query_deletable_artifacts_tx :: "int \<Rightarrow> db \<Rightarrow> artifact_row list" where
  "query_deletable_artifacts_tx now d =
     sql_limit MAX_DELETABLE_ARTIFACTS_PER_SWEEP
       (order_by (\<lambda>ar. (ar_gc_attempted_at ar, ar_retention_until ar, ar_artifact_id ar))
         (filter (\<lambda>ar. ar_retention_until ar \<le> now \<and> \<not> job_in_open_batch d (ar_job_id ar)) (artifacts d)))"

definition last_closed_at :: "db \<Rightarrow> string \<Rightarrow> int option" where
  "last_closed_at d job_id = max_agg (List.map_filter b_closed_at (job_batches d job_id))"

definition query_deletable_task_log_dirs_tx :: "int \<Rightarrow> db \<Rightarrow> string list" where
  "query_deletable_task_log_dirs_tx now d =
     (let retention_cutoff = saturating_sub now POST_CLOSE_ARTIFACT_TTL_SECONDS;
          released_at = (\<lambda>t. case last_closed_at d (t_job_id t) of Some c \<Rightarrow> Some c | None \<Rightarrow> t_completed_at t)
      in map t_task_id (sql_limit MAX_DELETABLE_TASK_LOG_DIRS_PER_SWEEP
        (order_by (\<lambda>t. (t_task_log_gc_attempted_at t, released_at t, t_task_id t))
          (filter (\<lambda>t. null_le (t_completed_at t) retention_cutoff \<and>
              (t_stdout_log_path t \<noteq> None \<or> t_stderr_log_path t \<noteq> None) \<and>
              \<not> job_in_open_batch d (t_job_id t) \<and> null_le (released_at t) retention_cutoff) (tasks d)))))"

definition query_artifacts_for_manifest_sync_tx :: "db \<Rightarrow> artifact_row list" where
  "query_artifacts_for_manifest_sync_tx d =
     sql_limit MAX_MANIFEST_SYNCS_PER_SWEEP
       (order_by (\<lambda>ar. (ar_manifest_sync_attempted_at ar, ar_retention_until ar, ar_artifact_id ar))
         (filter (\<lambda>ar. ar_manifest_synced_retention_until ar < ar_retention_until ar) (artifacts d)))"

fun dedupe_by_id :: "string set \<Rightarrow> artifact_row list \<Rightarrow> artifact_row list" where
  "dedupe_by_id seen [] = []"
| "dedupe_by_id seen (ar # rest) =
     (if ar_artifact_id ar \<in> seen then dedupe_by_id seen rest
      else ar # dedupe_by_id (insert (ar_artifact_id ar) seen) rest)"

definition dedupe_artifacts_by_id :: "artifact_row list \<Rightarrow> artifact_row list" where
  "dedupe_artifacts_by_id = dedupe_by_id {}"

definition validate_artifact_record :: "artifact_row \<Rightarrow> store_error + unit" where
  "validate_artifact_record ar =
     chain (validate_id_path_component (ar_artifact_id ar) ''artifact_id'') (\<lambda>_.
     require (ar_relative_path ar = relative_artifact_payload_path (ar_artifact_id ar))
       (ValueError (InvalidPathComponent ''relative_path'')))"

definition mark_artifact_gc_attempted :: "string \<Rightarrow> int \<Rightarrow> db \<Rightarrow> db" where
  "mark_artifact_gc_attempted artifact_id now d =
     d\<lparr>artifacts := update_where (\<lambda>ar. ar_artifact_id ar = artifact_id)
        (\<lambda>ar. ar\<lparr>ar_gc_attempted_at := now\<rparr>) (artifacts d)\<rparr>"

definition mark_task_log_gc_attempted :: "string \<Rightarrow> int \<Rightarrow> db \<Rightarrow> db" where
  "mark_task_log_gc_attempted task_id now d =
     update_task task_id (\<lambda>t. t\<lparr>t_task_log_gc_attempted_at := now\<rparr>) d"

record file_system =
  rewrite_manifest :: "artifact_row \<Rightarrow> bool"
  remove_artifact_dir :: "string \<Rightarrow> bool"
  remove_task_dir :: "string \<Rightarrow> bool"
  ingest_is_active_or_too_recent :: "string \<Rightarrow> store_error + bool"
  wall_clock :: int

text \<open>
  The removal of artifact directories: the ids whose directory is gone (\<open>remove_dir_all_durable\<close>
  answers \<open>true\<close> for a missing directory as well) and the number of failures, each marked in its row.
\<close>

fun delete_artifact_dirs ::
    "file_system \<Rightarrow> int \<Rightarrow> artifact_row list \<Rightarrow> (string list \<times> nat) \<times> db \<Rightarrow> (string list \<times> nat) \<times> db" where
  "delete_artifact_dirs fs now [] acc = acc"
| "delete_artifact_dirs fs now (ar # rest) ((deleted, failures), d) =
     delete_artifact_dirs fs now rest
       (if is_ok (validate_artifact_record ar) \<and> remove_artifact_dir fs (ar_artifact_id ar)
        then ((deleted @ [ar_artifact_id ar], failures), d)
        else ((deleted, Suc failures), mark_artifact_gc_attempted (ar_artifact_id ar) now d))"

definition refresh_artifact_ingest :: "string \<Rightarrow> int \<Rightarrow> db \<Rightarrow> db" where
  "refresh_artifact_ingest artifact_id now d =
     d\<lparr>artifact_ingests := update_where (\<lambda>ai. ai_artifact_id ai = artifact_id)
        (\<lambda>ai. ai\<lparr>ai_updated_at := now\<rparr>) (artifact_ingests d)\<rparr>"

definition artifact_exists :: "db \<Rightarrow> string \<Rightarrow> bool" where
  "artifact_exists d artifact_id \<longleftrightarrow> (\<exists>ar\<in>set (artifacts d). ar_artifact_id ar = artifact_id)"

definition query_stale_artifact_ingests :: "int \<Rightarrow> db \<Rightarrow> artifact_ingest_row list" where
  "query_stale_artifact_ingests stale_before d =
     sql_limit MAX_STALE_ARTIFACT_INGESTS_PER_SWEEP
       (order_by (\<lambda>ai. (ai_updated_at ai, ai_artifact_id ai))
         (filter (\<lambda>ai. ai_updated_at ai \<le> stale_before) (artifact_ingests d)))"

record cleanup_report =
  cleanup_deleted :: nat
  cleanup_failed :: nat

definition cleanup_stale_ingest ::
    "file_system \<Rightarrow> artifact_ingest_row \<Rightarrow> cleanup_report \<times> db \<Rightarrow> cleanup_report \<times> db" where
  "cleanup_stale_ingest fs ai = (\<lambda>(report, d).
     let artifact_id = ai_artifact_id ai;
         failed = report\<lparr>cleanup_failed := Suc (cleanup_failed report)\<rparr>;
         refreshed = refresh_artifact_ingest artifact_id (wall_clock fs) d
     in if \<not> is_ok (validate_id_path_component artifact_id ''artifact_id'')
        then (failed, abandon_artifact_ingest artifact_id d)
        else if ai_relative_path ai \<noteq> relative_artifact_payload_path artifact_id then (failed, refreshed)
        else if artifact_exists d artifact_id then (report, abandon_artifact_ingest artifact_id d)
        else case ingest_is_active_or_too_recent fs artifact_id of
            Inr True \<Rightarrow> (report, refreshed)
          | Inl _ \<Rightarrow> (failed, refreshed)
          | Inr False \<Rightarrow>
              if remove_artifact_dir fs artifact_id
              then (report\<lparr>cleanup_deleted := Suc (cleanup_deleted report)\<rparr>, abandon_artifact_ingest artifact_id d)
              else (failed, refreshed))"

definition cleanup_stale_artifact_ingests :: "file_system \<Rightarrow> db \<Rightarrow> cleanup_report \<times> db" where
  "cleanup_stale_artifact_ingests fs d =
     fold (cleanup_stale_ingest fs)
       (query_stale_artifact_ingests (saturating_sub (wall_clock fs) ORPHAN_ARTIFACT_GRACE_SECONDS) d)
       (\<lparr>cleanup_deleted = 0, cleanup_failed = 0\<rparr>, d)"

fun remove_task_log_dirs ::
    "file_system \<Rightarrow> int \<Rightarrow> string list \<Rightarrow> (cleanup_report \<times> string list) \<times> db \<Rightarrow>
      (cleanup_report \<times> string list) \<times> db" where
  "remove_task_log_dirs fs now [] acc = acc"
| "remove_task_log_dirs fs now (task_id # rest) ((report, deleted), d) =
     remove_task_log_dirs fs now rest
       (if is_ok (validate_id_path_component task_id ''task_id'') \<and> remove_task_dir fs task_id
        then ((report\<lparr>cleanup_deleted := Suc (cleanup_deleted report)\<rparr>, deleted @ [task_id]), d)
        else ((report\<lparr>cleanup_failed := Suc (cleanup_failed report)\<rparr>, deleted),
              mark_task_log_gc_attempted task_id now d))"

definition cleanup_expired_task_log_dirs ::
    "file_system \<Rightarrow> string list \<Rightarrow> int \<Rightarrow> db \<Rightarrow> cleanup_report \<times> db" where
  "cleanup_expired_task_log_dirs fs task_ids now d =
     (case remove_task_log_dirs fs now task_ids ((\<lparr>cleanup_deleted = 0, cleanup_failed = 0\<rparr>, []), d) of
        ((report, deleted), d) \<Rightarrow>
          (report, fold (\<lambda>task_id. update_task task_id
             (\<lambda>t. t\<lparr>t_stdout_log_path := None, t_stderr_log_path := None\<rparr>)) deleted d))"

section \<open>The sweep\<close>

record sweep_report =
  stale_cli_acceptances_abandoned :: nat
  expired_cli_observations_abandoned :: nat
  stale_codex_app_server_acceptances_abandoned :: nat
  expired_codex_app_server_observations_abandoned :: nat
  expired_manual_batches_closed :: nat
  expired_automatic_batches_closed :: nat
  artifacts_deleted :: nat
  artifact_delete_failures :: nat
  orphan_artifacts_deleted :: nat
  orphan_artifact_delete_failures :: nat
  artifact_manifests_synced :: nat
  artifact_manifest_sync_failures :: nat
  task_log_dirs_deleted :: nat
  task_log_delete_failures :: nat

record sweep_plan =
  plan_report :: sweep_report
  plan_manifests :: "artifact_row list"
  plan_artifacts :: "artifact_row list"
  plan_task_logs :: "string list"

text \<open>The sweep's first transaction: delivery attempts and batches, and what is to be collected.\<close>

definition sweep_tx :: "int \<Rightarrow> db \<Rightarrow> store_error + sweep_plan \<times> db" where
  "sweep_tx now d =
     chain (expire_stale_cli_acceptances_tx now d) (\<lambda>(stale_cli, d).
     chain (expire_due_cli_observations_tx now d) (\<lambda>(due_cli, d).
     chain (expire_stale_codex_app_server_acceptances_tx now d) (\<lambda>(stale_codex, d).
     chain (expire_due_codex_app_server_observations_tx now d) (\<lambda>(due_codex, d).
     let d = snd (expire_expired_desktop_prepared_attempts_tx now d);
         d = snd (expire_expired_desktop_arm_pending_attempts_tx now d)
     in chain (close_expired_manual_batches_tx now d) (\<lambda>((manual_closed, manual_arts), d).
        chain (close_expired_automatic_batches_tx now d) (\<lambda>((auto_closed, auto_arts), d).
        Inr (\<lparr>plan_report =
          \<lparr>stale_cli_acceptances_abandoned = stale_cli, expired_cli_observations_abandoned = due_cli,
           stale_codex_app_server_acceptances_abandoned = stale_codex,
           expired_codex_app_server_observations_abandoned = due_codex,
           expired_manual_batches_closed = manual_closed,
           expired_automatic_batches_closed = auto_closed,
           artifacts_deleted = 0, artifact_delete_failures = 0, orphan_artifacts_deleted = 0,
           orphan_artifact_delete_failures = 0, artifact_manifests_synced = 0,
           artifact_manifest_sync_failures = 0, task_log_dirs_deleted = 0,
           task_log_delete_failures = 0\<rparr>,
          plan_manifests = manual_arts @ auto_arts @ query_artifacts_for_manifest_sync_tx d,
          plan_artifacts = query_deletable_artifacts_tx now d,
          plan_task_logs = query_deletable_task_log_dirs_tx now d\<rparr>, d)))))))"

definition delete_artifacts :: "string list \<Rightarrow> db \<Rightarrow> db" where
  "delete_artifacts ids d =
     fold (\<lambda>i d. d\<lparr>artifacts := delete_where (\<lambda>ar. ar_artifact_id ar = i) (artifacts d)\<rparr>) ids d"

definition sweep :: "file_system \<Rightarrow> int \<Rightarrow> db \<Rightarrow> store_error + sweep_report \<times> db" where
  "sweep fs now d =
     chain (sweep_tx now d) (\<lambda>(plan, d).
     let (manifests, d) = sync_artifact_manifests (rewrite_manifest fs)
           (dedupe_artifacts_by_id (plan_manifests plan)) now d;
         ((deleted, failures), d) = delete_artifact_dirs fs now (plan_artifacts plan) (([], 0), d);
         (orphans, d) = cleanup_stale_artifact_ingests fs d;
         (task_logs, d) = cleanup_expired_task_log_dirs fs (plan_task_logs plan) now d;
         d = delete_artifacts deleted d
     in Inr ((plan_report plan)\<lparr>artifacts_deleted := length deleted, artifact_delete_failures := failures,
          orphan_artifacts_deleted := cleanup_deleted orphans,
          orphan_artifact_delete_failures := cleanup_failed orphans,
          artifact_manifests_synced := synced manifests,
          artifact_manifest_sync_failures := sync_failed manifests,
          task_log_dirs_deleted := cleanup_deleted task_logs,
          task_log_delete_failures := cleanup_failed task_logs\<rparr>, d))"

definition sweep_codex_app_server_delivery_cleanup :: "int \<Rightarrow> db \<Rightarrow> store_error + (nat \<times> nat) \<times> db" where
  "sweep_codex_app_server_delivery_cleanup now d =
     chain (expire_stale_codex_app_server_acceptances_tx now d) (\<lambda>(stale, d).
     chain (expire_due_codex_app_server_observations_tx now d) (\<lambda>(due, d).
     Inr ((stale, due), d)))"

end
