(* ===== verification/Cbth_Desktop.thy ===== *)
theory Cbth_Desktop
  imports Cbth_Delivery
begin

text \<open>
  The desktop bridge of \<open>src/store.rs\<close>: the validated installation, the binding of a thread to the
  automation that wakes it, and the arming of a prepared attempt (\<open>note_desktop_arm_pending\<close>, then
  \<open>note_desktop_arm\<close> under the lease handed out by the first). An arming request that comes too late is
  a durable failure: the transaction that abandons the attempt commits and the caller gets the error.
  It is the value \<open>Inr (Inl failure, d')\<close>, beside \<open>Inr (Inr record, d')\<close> for a success and \<open>Inl\<close> for an
  error that rolls back. Fresh identifiers (\<open>new_id()\<close>) are parameters.
\<close>

section \<open>The installation\<close>

record desktop_installation_repair =
  ir_read_transport :: read_transport
  ir_read_transport_capability :: desktop_capability
  ir_artifact_read_capability :: desktop_capability
  ir_writeback_capability :: desktop_capability
  ir_validation_fingerprint :: string
  ir_now :: int

record desktop_installation_repair_record =
  irr_state :: desktop_installation_row
  irr_changed :: bool
  irr_degraded_bindings :: int

definition default_desktop_installation_state :: "string \<Rightarrow> desktop_installation_row" where
  "default_desktop_installation_state validation_fingerprint =
     \<lparr>di_read_transport = DirectFileRead, di_read_transport_generation = 0,
      di_read_transport_capability = CapabilityUnknown, di_artifact_read_capability = CapabilityUnknown,
      di_writeback_capability = CapabilityUnknown, di_validation_fingerprint = validation_fingerprint,
      di_validated_at = None, di_created_at = 0, di_updated_at = 0\<rparr>"

definition desktop_installation_state :: "db \<Rightarrow> string \<Rightarrow> desktop_installation_row" where
  "desktop_installation_state d default_validation_fingerprint =
     coalesce (desktop_installation d) (default_desktop_installation_state default_validation_fingerprint)"

definition desktop_validated_at :: "desktop_installation_repair \<Rightarrow> int option" where
  "desktop_validated_at repair =
     (if CapabilityValidated \<in> {ir_read_transport_capability repair, ir_artifact_read_capability repair,
         ir_writeback_capability repair}
      then Some (ir_now repair) else None)"

definition installation_changed :: "desktop_installation_row option \<Rightarrow> desktop_installation_repair \<Rightarrow> bool" where
  "installation_changed previous repair =
     (case previous of
        None \<Rightarrow> True
      | Some s \<Rightarrow> di_read_transport s \<noteq> ir_read_transport repair \<or>
          di_read_transport_capability s \<noteq> ir_read_transport_capability repair \<or>
          di_artifact_read_capability s \<noteq> ir_artifact_read_capability repair \<or>
          di_writeback_capability s \<noteq> ir_writeback_capability repair \<or>
          di_validation_fingerprint s \<noteq> ir_validation_fingerprint repair)"

definition repaired_installation ::
    "desktop_installation_row option \<Rightarrow> desktop_installation_repair \<Rightarrow> desktop_installation_row" where
  "repaired_installation previous repair =
     \<lparr>di_read_transport = ir_read_transport repair,
      di_read_transport_generation = (case previous of None \<Rightarrow> 1 | Some s \<Rightarrow> di_read_transport_generation s + 1),
      di_read_transport_capability = ir_read_transport_capability repair,
      di_artifact_read_capability = ir_artifact_read_capability repair,
      di_writeback_capability = ir_writeback_capability repair,
      di_validation_fingerprint = ir_validation_fingerprint repair,
      di_validated_at = desktop_validated_at repair,
      di_created_at = (case previous of None \<Rightarrow> ir_now repair | Some s \<Rightarrow> di_created_at s),
      di_updated_at = ir_now repair\<rparr>"

definition outdated_binding :: "desktop_installation_row \<Rightarrow> desktop_binding_row \<Rightarrow> bool" where
  "outdated_binding s k \<longleftrightarrow> dk_binding_state k = Bound \<and>
     (dk_read_transport k \<noteq> di_read_transport s \<or>
      dk_read_transport_generation k \<noteq> di_read_transport_generation s \<or>
      dk_validation_fingerprint k \<noteq> di_validation_fingerprint s)"

definition repair_desktop_installation_state ::
    "desktop_installation_repair \<Rightarrow> db \<Rightarrow> desktop_installation_repair_record \<times> db" where
  "repair_desktop_installation_state repair d =
     (let previous = desktop_installation d in
      case (installation_changed previous repair, previous) of
        (False, Some s) \<Rightarrow> (\<lparr>irr_state = s, irr_changed = False, irr_degraded_bindings = 0\<rparr>, d)
      | _ \<Rightarrow>
        let s = repaired_installation previous repair;
            degraded = count_where (outdated_binding s) (desktop_bindings d)
        in (\<lparr>irr_state = s, irr_changed = True, irr_degraded_bindings = degraded\<rparr>,
            d\<lparr>desktop_installation := Some s,
              desktop_bindings := update_where (outdated_binding s)
                (\<lambda>k. k\<lparr>dk_binding_state := Degraded, dk_updated_at := ir_now repair,
                   dk_degraded_at := Some (coalesce (dk_degraded_at k) (ir_now repair))\<rparr>)
                (desktop_bindings d)\<rparr>))"

section \<open>Bindings\<close>

definition query_desktop_binding_tx :: "db \<Rightarrow> string \<Rightarrow> store_error + desktop_binding_row" where
  "query_desktop_binding_tx d source_thread_id =
     ok_or (NotFound EDesktopBinding source_thread_id)
       (find (\<lambda>k. dk_source_thread_id k = source_thread_id) (desktop_bindings d))"

lemma query_binding_ok:
  "query_desktop_binding_tx d i = Inr k \<Longrightarrow> k \<in> set (desktop_bindings d) \<and> dk_source_thread_id k = i"
  unfolding query_desktop_binding_tx_def ok_or_ok_iff by (rule bindings_table.lookup_found)

definition owns_caller :: "string \<Rightarrow> string \<Rightarrow> desktop_binding_row \<Rightarrow> bool" where
  "owns_caller caller_automation_id source_thread_id k \<longleftrightarrow>
     dk_caller_automation_id k = caller_automation_id \<and> dk_source_thread_id k \<noteq> source_thread_id \<and>
     dk_binding_state k \<in> {Bound, Degraded}"

definition ensure_caller_automation_unbound :: "string \<Rightarrow> string \<Rightarrow> db \<Rightarrow> store_error + unit" where
  "ensure_caller_automation_unbound caller_automation_id source_thread_id d =
     (case find (owns_caller caller_automation_id source_thread_id) (desktop_bindings d) of
        Some owner \<Rightarrow> Inl (DesktopError (CallerAlreadyBound (dk_source_thread_id owner)))
      | None \<Rightarrow> Inr ())"

text \<open>
  \<open>INSERT INTO desktop_bindings .. ON CONFLICT(source_thread_id) DO UPDATE\<close>, with the unique index on
  the automations of bound and degraded bindings.
\<close>

definition upsert_desktop_binding ::
    "string \<Rightarrow> string \<Rightarrow> desktop_installation_row \<Rightarrow> int \<Rightarrow> int \<Rightarrow> db \<Rightarrow> store_error + db" where
  "upsert_desktop_binding source_thread_id caller_automation_id installation created_at now d =
     chain (require (\<forall>k\<in>set (desktop_bindings d). \<not> owns_caller caller_automation_id source_thread_id k)
       (SqlConstraint ''desktop_bindings.caller_automation_id'')) (\<lambda>_.
     Inr (d\<lparr>desktop_bindings :=
       (if source_thread_id \<in> dk_source_thread_id ` set (desktop_bindings d)
        then update_where (\<lambda>k. dk_source_thread_id k = source_thread_id)
          (\<lambda>k. k\<lparr>dk_caller_automation_id := caller_automation_id, dk_binding_state := Bound,
             dk_read_transport := di_read_transport installation,
             dk_read_transport_generation := di_read_transport_generation installation,
             dk_validation_fingerprint := di_validation_fingerprint installation,
             dk_updated_at := now, dk_degraded_at := None\<rparr>) (desktop_bindings d)
        else desktop_bindings d @
          [\<lparr>dk_source_thread_id = source_thread_id, dk_caller_automation_id = caller_automation_id,
            dk_binding_state = Bound, dk_armed_generation = None, dk_armed_generation_quiesced_at = None,
            dk_pause_not_before = None, dk_pause_deadline = None,
            dk_read_transport = di_read_transport installation,
            dk_read_transport_generation = di_read_transport_generation installation,
            dk_validation_fingerprint = di_validation_fingerprint installation,
            dk_created_at = created_at, dk_updated_at = now, dk_degraded_at = None\<rparr>])\<rparr>))"

definition repair_desktop_binding ::
    "string \<Rightarrow> string \<Rightarrow> string \<Rightarrow> int \<Rightarrow> db \<Rightarrow>
      store_error + (desktop_binding_row \<times> desktop_installation_row) \<times> db" where
  "repair_desktop_binding source_thread_id caller_automation_id default_validation_fingerprint now d =
     (let installation = desktop_installation_state d default_validation_fingerprint;
          created_at = (case find (\<lambda>k. dk_source_thread_id k = source_thread_id) (desktop_bindings d) of
            Some k \<Rightarrow> dk_created_at k | None \<Rightarrow> now)
      in chain (ensure_caller_automation_unbound caller_automation_id source_thread_id d) (\<lambda>_.
         chain (upsert_desktop_binding source_thread_id caller_automation_id installation created_at now d) (\<lambda>d.
         chain (query_desktop_binding_tx d source_thread_id) (\<lambda>binding.
         Inr ((binding, installation), d)))))"

definition ensure_desktop_binding_bound_for_arm :: "desktop_binding_row \<Rightarrow> store_error + unit" where
  "ensure_desktop_binding_bound_for_arm binding =
     require (dk_binding_state binding = Bound)
       (DesktopError (BindingIs (dk_source_thread_id binding) (dk_binding_state binding)))"

definition desktop_binding_matches_installation :: "desktop_binding_row \<Rightarrow> desktop_installation_row \<Rightarrow> bool" where
  "desktop_binding_matches_installation binding s \<longleftrightarrow>
     dk_binding_state binding = Bound \<and> dk_read_transport binding = di_read_transport s \<and>
     dk_read_transport_generation binding = di_read_transport_generation s \<and>
     dk_validation_fingerprint binding = di_validation_fingerprint s"

definition ensure_desktop_binding_quiesced_for_fresh_arm :: "desktop_binding_row \<Rightarrow> store_error + unit" where
  "ensure_desktop_binding_quiesced_for_fresh_arm binding =
     (case dk_armed_generation binding of
        Some armed_generation \<Rightarrow> require (dk_armed_generation_quiesced_at binding \<noteq> None)
          (DesktopError (BindingNotQuiesced (dk_source_thread_id binding) armed_generation))
      | None \<Rightarrow> Inr ())"

definition list_desktop_pause_due_bindings :: "int \<Rightarrow> db \<Rightarrow> desktop_binding_row list" where
  "list_desktop_pause_due_bindings now d =
     order_by (\<lambda>k. (dk_pause_deadline k, dk_updated_at k, dk_source_thread_id k))
       (filter (\<lambda>k. dk_binding_state k = Bound \<and> dk_armed_generation k \<noteq> None \<and>
          dk_armed_generation_quiesced_at k = None \<and> null_le (dk_pause_deadline k) now)
        (desktop_bindings d))"

section \<open>Desktop attempts\<close>

definition ensure_batch_allows_desktop_delivery :: "batch_row \<Rightarrow> store_error + unit" where
  "ensure_batch_allows_desktop_delivery batch =
     require (detached_delivery_safe batch) (DesktopError (NotEligibleForDesktopDelivery (b_batch_id batch)))"

definition ensure_desktop_attempt_tokens :: "attempt_row \<Rightarrow> string \<Rightarrow> int \<Rightarrow> store_error + unit" where
  "ensure_desktop_attempt_tokens attempt source_thread_id generation =
     chain (require (a_adapter_kind attempt = Desktop)
       (DesktopError (NotDesktopAttempt (a_attempt_id attempt)))) (\<lambda>_.
     chain (require (a_source_thread_id attempt = source_thread_id)
       (DesktopError (AttemptOfOtherThread (a_attempt_id attempt) (a_source_thread_id attempt) source_thread_id))) (\<lambda>_.
     require (a_generation attempt = generation)
       (DesktopError (AttemptOfOtherGeneration (a_attempt_id attempt) (a_generation attempt) generation))))"

definition ensure_desktop_attempt_head_and_batch_eligible ::
    "db \<Rightarrow> attempt_row \<Rightarrow> batch_row \<Rightarrow> store_error + unit" where
  "ensure_desktop_attempt_head_and_batch_eligible d attempt batch =
     chain (ensure_batch_open batch) (\<lambda>_.
     chain (ensure_batch_is_thread_head_tx d batch) (\<lambda>_.
     chain (ensure_batch_allows_automatic_delivery batch) (\<lambda>_.
     chain (ensure_batch_is_not_plugin_delivery_tx d batch) (\<lambda>_.
     chain (ensure_batch_allows_desktop_delivery batch) (\<lambda>_.
     ensure_attempt_is_current_generation_tx d attempt)))))"

definition query_active_delivery_attempts_for_thread_tx :: "db \<Rightarrow> string \<Rightarrow> attempt_row list" where
  "query_active_delivery_attempts_for_thread_tx d source_thread_id =
     order_by_desc (\<lambda>a. (a_generation a, a_attempt_id a))
       (filter (\<lambda>a. a_source_thread_id a = source_thread_id \<and> active a) (delivery_attempts d))"

definition ensure_no_other_active_attempt_for_thread_tx :: "db \<Rightarrow> string \<Rightarrow> string \<Rightarrow> store_error + unit" where
  "ensure_no_other_active_attempt_for_thread_tx d source_thread_id attempt_id =
     (case first_row (order_by_desc (\<lambda>a. (a_generation a, a_attempt_id a))
         (filter (\<lambda>a. a_source_thread_id a = source_thread_id \<and> a_attempt_id a \<noteq> attempt_id \<and> active a \<and>
            batch_state_is d BatchOpen a) (delivery_attempts d))) of
        None \<Rightarrow> Inr ()
      | Some a \<Rightarrow> Inl (BatchError (ThreadHasActiveAttempt source_thread_id (a_attempt_id a))))"

text \<open>The row of \<open>INSERT INTO delivery_attempts (..) VALUES (.., 'desktop', 'strict_safe', 'prepared', ..)\<close>.\<close>

definition prepared_desktop_attempt_row :: "string \<Rightarrow> string \<Rightarrow> string \<Rightarrow> int \<Rightarrow> int \<Rightarrow> attempt_row" where
  "prepared_desktop_attempt_row attempt_id batch_id source_thread_id generation now =
     \<lparr>a_attempt_id = attempt_id, a_batch_id = batch_id, a_source_thread_id = source_thread_id,
      a_adapter_kind = Desktop, a_authorization_mode = StrictSafe, a_state = Prepared,
      a_generation = generation, a_delivery_rpc_request_id = None, a_delivery_rpc_kind = None,
      a_delivery_rpc_state = None, a_delivery_rpc_correlation_marker = None,
      a_delivery_rpc_started_at = None, a_managed_session_id = None, a_session_epoch = None,
      a_session_activity_revision = 0, a_session_capability_revision = 0, a_delivery_turn_id = None,
      a_delivery_accepted_at = None, a_delivery_observation_state = None,
      a_delivery_observation_deadline = None, a_last_observed_turn_event = None,
      a_last_observed_turn_event_at = None, a_bridge_request_id = None, a_bridge_arm_lease_id = None,
      a_bridge_arm_lease_deadline = None, a_arm_pending_since = None, a_arm_pending_deadline = None,
      a_desktop_armed_at = None, a_created_at = now, a_updated_at = now, a_abandoned_at = None,
      a_closed_at = None\<rparr>"

definition create_desktop_prepared_attempt_tx ::
    "string \<Rightarrow> batch_row \<Rightarrow> int \<Rightarrow> db \<Rightarrow> store_error + attempt_row \<times> db" where
  "create_desktop_prepared_attempt_tx attempt_id batch now d =
     (let generation = coalesce (max_generation d (b_batch_id batch)) 0 + 1
      in chain (insert_attempt (prepared_desktop_attempt_row attempt_id (b_batch_id batch)
           (b_source_thread_id batch) generation now) d) (\<lambda>d.
         chain (query_delivery_attempt_tx d attempt_id) (\<lambda>attempt. Inr (attempt, d))))"

section \<open>The validation fixture\<close>

record desktop_writeback_fixture =
  nf_source_thread_id :: string
  nf_caller_automation_id :: string
  nf_bridge_request_id :: string
  nf_default_validation_fingerprint :: string
  nf_now :: int

record desktop_writeback_fixture_record =
  fr_job :: job_row
  fr_batch :: batch_row
  fr_attempt :: attempt_row
  fr_binding :: desktop_binding_row

definition harmless_policy :: delivery_policy where
  "harmless_policy = \<lparr>delivery_read_only = True, delivery_requires_approval = False,
     delivery_requires_network = False, delivery_requires_write_access = False\<rparr>"

definition fixture_job :: "string \<Rightarrow> string \<Rightarrow> int \<Rightarrow> job_row" where
  "fixture_job job_id source_thread_id now =
     \<lparr>j_job_id = job_id, j_source_thread_id = source_thread_id, j_status = JobFailed,
      j_summary = ''Desktop writeback live validation fixture'',
      j_metadata_json = ''{\"validation_fixture\":\"desktop_writeback_live\"}'',
      j_created_at = now, j_updated_at = now, j_completed_at = None, j_failed_at = Some now,
      j_result_artifact_id = None, j_failure_reason = Some ''validation fixture'',
      j_delivery_policy = harmless_policy, j_supervisor_daemon_generation = None\<rparr>"

definition ensure_thread_bindable :: "string \<Rightarrow> desktop_binding_row option \<Rightarrow> store_error + unit" where
  "ensure_thread_bindable caller_automation_id existing =
     (case existing of
        None \<Rightarrow> Inr ()
      | Some binding \<Rightarrow>
          chain (require (\<not> (dk_binding_state binding \<in> {Bound, Degraded} \<and>
              dk_caller_automation_id binding \<noteq> caller_automation_id))
            (DesktopError (ThreadAlreadyBound (dk_source_thread_id binding) (dk_caller_automation_id binding)))) (\<lambda>_.
          ensure_desktop_binding_quiesced_for_fresh_arm binding))"

definition prepare_desktop_writeback_fixture ::
    "string \<times> string \<times> string \<Rightarrow> desktop_writeback_fixture \<Rightarrow> db \<Rightarrow>
      store_error + desktop_writeback_fixture_record \<times> db" where
  "prepare_desktop_writeback_fixture ids fixture d =
     (let (job_id, batch_id, attempt_id) = ids;
          thread = nf_source_thread_id fixture;
          caller = nf_caller_automation_id fixture;
          now = nf_now fixture;
          installation = desktop_installation_state d (nf_default_validation_fingerprint fixture);
          existing = find (\<lambda>k. dk_source_thread_id k = thread) (desktop_bindings d)
      in
     chain (ensure_nonempty_value ''source_thread_id'' thread) (\<lambda>_.
     chain (ensure_nonempty_value ''caller_automation_id'' caller) (\<lambda>_.
     chain (ensure_nonempty_value ''bridge_request_id'' (nf_bridge_request_id fixture)) (\<lambda>_.
     chain (ensure_nonempty_value ''default_validation_fingerprint'' (nf_default_validation_fingerprint fixture)) (\<lambda>_.
     chain (ensure_caller_automation_unbound caller thread d) (\<lambda>_.
     chain (ensure_thread_bindable caller existing) (\<lambda>_.
     chain (case thread_head d thread of
         None \<Rightarrow> Inr () | Some b \<Rightarrow> Inl (DesktopError (ThreadHasOpenBatch thread b))) (\<lambda>_.
     chain (ensure_no_active_attempt_for_thread_tx d thread) (\<lambda>_.
     chain (upsert_desktop_binding thread caller installation
       (case existing of None \<Rightarrow> now | Some k \<Rightarrow> dk_created_at k) now d) (\<lambda>d.
     chain (insert_job (fixture_job job_id thread now) d) (\<lambda>d.
     chain (checked_timestamp_add now DEFAULT_REDELIVERY_WINDOW_SECONDS ''redelivery_window_seconds'') (\<lambda>ends_at.
     chain (insert_batch_tx
       \<lparr>nb_batch_id = batch_id, nb_source_thread_id = thread,
        nb_summary = ''Desktop writeback live validation fixture'', nb_created_at = now,
        nb_redelivery_window_ends_at = ends_at, nb_max_delivery_attempts = DEFAULT_MAX_DELIVERY_ATTEMPTS,
        nb_policy = harmless_policy, nb_inline_payload_bytes = 0, nb_requires_artifact_read = False\<rparr>
       [job_id] d) (\<lambda>d.
     chain (insert_attempt (prepared_desktop_attempt_row attempt_id batch_id thread 1 now) d) (\<lambda>d.
     chain (query_job_tx d job_id) (\<lambda>job.
     chain (query_batch_tx d batch_id) (\<lambda>batch.
     chain (query_delivery_attempt_tx d attempt_id) (\<lambda>attempt.
     chain (query_desktop_binding_tx d thread) (\<lambda>binding.
     Inr (\<lparr>fr_job = job, fr_batch = batch, fr_attempt = attempt, fr_binding = binding\<rparr>, d)))))))))))))))))))"

section \<open>Arming\<close>

type_synonym 'a arming = "store_error + (arm_failure + 'a) \<times> db"

definition abandon_desktop_arm_pending_tx :: "string \<Rightarrow> int \<Rightarrow> db \<Rightarrow> db" where
  "abandon_desktop_arm_pending_tx attempt_id now =
     update_attempts (\<lambda>a. a_attempt_id a = attempt_id \<and> a_adapter_kind a = Desktop \<and> a_state a = ArmPending)
       (\<lambda>a. a\<lparr>a_state := Abandoned, a_updated_at := now, a_abandoned_at := Some now\<rparr>)"

definition arm_pending_record :: "string \<Rightarrow> attempt_row \<Rightarrow> desktop_binding_row \<Rightarrow> desktop_arm_pending_record" where
  "arm_pending_record outcome attempt binding =
     \<lparr>dp_outcome = outcome, dp_attempt = attempt, dp_binding = binding,
      dp_bridge_arm_lease_id = a_bridge_arm_lease_id attempt,
      dp_bridge_arm_lease_deadline = a_bridge_arm_lease_deadline attempt,
      dp_arm_pending_deadline = a_arm_pending_deadline attempt\<rparr>"

text \<open>The three parts of \<open>note_desktop_arm_pending_tx\<close>: a repeated request, and a fresh one.\<close>

definition repeat_desktop_arm_pending ::
    "attempt_row \<Rightarrow> desktop_binding_row \<Rightarrow> string \<Rightarrow> int \<Rightarrow> db \<Rightarrow> desktop_arm_pending_record arming" where
  "repeat_desktop_arm_pending attempt binding bridge_request_id now d =
     chain (require (a_bridge_request_id attempt = Some bridge_request_id)
       (DesktopError (ArmPendingForOtherRequest (a_attempt_id attempt)))) (\<lambda>_.
     chain (ensure_desktop_binding_bound_for_arm binding) (\<lambda>_.
     chain (ok_or (DesktopError (ArmColumnMissing ''bridge_arm_lease_deadline''))
       (a_bridge_arm_lease_deadline attempt)) (\<lambda>lease_deadline.
     if lease_deadline \<le> now
     then Inr (Inl (ArmLeaseExpired (a_attempt_id attempt) lease_deadline),
            abandon_desktop_arm_pending_tx (a_attempt_id attempt) now d)
     else chain (query_batch_tx d (a_batch_id attempt)) (\<lambda>batch.
       if b_redelivery_window_ends_at batch \<le> now
       then Inr (Inl (ArmWindowClosed (b_batch_id batch) (b_redelivery_window_ends_at batch)),
              abandon_desktop_arm_pending_tx (a_attempt_id attempt) now d)
       else chain (ok_or (DesktopError (ArmColumnMissing ''bridge_arm_lease_id''))
           (a_bridge_arm_lease_id attempt)) (\<lambda>_.
         Inr (Inr (arm_pending_record ''already_pending'' attempt binding), d))))))"

definition begin_desktop_arm_pending ::
    "string \<Rightarrow> attempt_row \<Rightarrow> desktop_binding_row \<Rightarrow> string \<Rightarrow> int \<Rightarrow> db \<Rightarrow>
      desktop_arm_pending_record arming" where
  "begin_desktop_arm_pending lease_id attempt binding bridge_request_id now d =
     chain (query_batch_tx d (a_batch_id attempt)) (\<lambda>batch.
     chain (ensure_desktop_attempt_head_and_batch_eligible d attempt batch) (\<lambda>_.
     chain (require (a_state attempt = Prepared)
       (DesktopError (NotEligibleForArmPending (a_attempt_id attempt)))) (\<lambda>_.
     chain (ensure_desktop_binding_quiesced_for_fresh_arm binding) (\<lambda>_.
     chain (ensure_no_other_active_attempt_for_thread_tx d (a_source_thread_id attempt) (a_attempt_id attempt)) (\<lambda>_.
     chain (ensure_attempt_budget_remaining batch) (\<lambda>_.
     chain (ensure_batch_redelivery_window_open batch now) (\<lambda>_.
     chain (checked_timestamp_add now DESKTOP_BRIDGE_ARM_LEASE_TTL_SECONDS ''bridge_arm_lease_deadline'') (\<lambda>lease_deadline.
     chain (checked_timestamp_add now DESKTOP_ARM_PENDING_TIMEOUT_SECONDS ''arm_pending_deadline'') (\<lambda>pending_deadline.
     chain (require (Some lease_id \<notin> a_bridge_arm_lease_id ` set (delivery_attempts d))
       (SqlConstraint ''delivery_attempts.bridge_arm_lease_id'')) (\<lambda>_.
     let d = update_attempts (\<lambda>a. a_attempt_id a = a_attempt_id attempt \<and> a_state a = Prepared \<and>
               a_generation a = a_generation attempt)
           (\<lambda>a. a\<lparr>a_state := ArmPending, a_bridge_request_id := Some bridge_request_id,
             a_bridge_arm_lease_id := Some lease_id, a_bridge_arm_lease_deadline := Some lease_deadline,
             a_arm_pending_since := Some now, a_arm_pending_deadline := Some pending_deadline,
             a_updated_at := now\<rparr>) d
     in chain (query_delivery_attempt_tx d (a_attempt_id attempt)) (\<lambda>attempt.
        chain (query_desktop_binding_tx d (a_source_thread_id attempt)) (\<lambda>binding.
        Inr (Inr (arm_pending_record ''arm_pending'' attempt binding), d)))))))))))))"

definition already_armed :: "attempt_row \<Rightarrow> desktop_binding_row \<Rightarrow> string \<Rightarrow> int \<Rightarrow> bool" where
  "already_armed attempt binding bridge_request_id generation \<longleftrightarrow>
     a_state attempt \<in> {Cooldown, AttemptClosed} \<and> a_bridge_request_id attempt = Some bridge_request_id \<and>
     dk_armed_generation binding = Some generation"

definition note_desktop_arm_pending_tx ::
    "string \<Rightarrow> string \<Rightarrow> string \<Rightarrow> int \<Rightarrow> string \<Rightarrow> int \<Rightarrow> db \<Rightarrow> desktop_arm_pending_record arming" where
  "note_desktop_arm_pending_tx lease_id source_thread_id attempt_id generation bridge_request_id now d =
     chain (query_desktop_binding_tx d source_thread_id) (\<lambda>binding.
     chain (query_delivery_attempt_tx d attempt_id) (\<lambda>attempt.
     chain (ensure_desktop_attempt_tokens attempt source_thread_id generation) (\<lambda>_.
     if a_state attempt = ArmPending
     then repeat_desktop_arm_pending attempt binding bridge_request_id now d
     else if already_armed attempt binding bridge_request_id generation
     then chain (ensure_desktop_binding_bound_for_arm binding) (\<lambda>_.
       Inr (Inr (arm_pending_record ''already_armed'' attempt binding), d))
     else chain (ensure_desktop_binding_bound_for_arm binding) (\<lambda>_.
       begin_desktop_arm_pending lease_id attempt binding bridge_request_id now d))))"

definition note_desktop_arm_pending ::
    "string \<Rightarrow> string \<Rightarrow> string \<Rightarrow> int \<Rightarrow> string \<Rightarrow> int \<Rightarrow> db \<Rightarrow> desktop_arm_pending_record arming" where
  "note_desktop_arm_pending lease_id source_thread_id attempt_id generation bridge_request_id now d =
     chain (ensure_nonempty_value ''source_thread_id'' source_thread_id) (\<lambda>_.
     chain (ensure_nonempty_value ''attempt_id'' attempt_id) (\<lambda>_.
     chain (ensure_positive_value ''generation'' generation) (\<lambda>_.
     chain (ensure_nonempty_value ''bridge_request_id'' bridge_request_id) (\<lambda>_.
     note_desktop_arm_pending_tx lease_id source_thread_id attempt_id generation bridge_request_id now d))))"

definition arm_record :: "string \<Rightarrow> attempt_row \<Rightarrow> desktop_binding_row \<Rightarrow> batch_row \<Rightarrow> desktop_arm_record" where
  "arm_record outcome attempt binding batch =
     \<lparr>dr_outcome = outcome, dr_attempt = attempt, dr_binding = binding,
      dr_delivery_attempt_count = b_delivery_attempt_count batch,
      dr_pause_not_before = dk_pause_not_before binding, dr_pause_deadline = dk_pause_deadline binding\<rparr>"

definition store_desktop_arm :: "attempt_row \<Rightarrow> string \<Rightarrow> string \<Rightarrow> int \<Rightarrow> db \<Rightarrow> db" where
  "store_desktop_arm attempt bridge_request_id bridge_arm_lease_id now =
     update_attempts (\<lambda>a. a_attempt_id a = a_attempt_id attempt \<and> a_state a = ArmPending \<and>
         a_bridge_request_id a = Some bridge_request_id \<and> a_bridge_arm_lease_id a = Some bridge_arm_lease_id)
       (\<lambda>a. a\<lparr>a_state := Cooldown, a_desktop_armed_at := Some now, a_updated_at := now\<rparr>)"

definition store_armed_generation :: "string \<Rightarrow> int \<Rightarrow> int \<Rightarrow> int \<Rightarrow> int \<Rightarrow> db \<Rightarrow> db" where
  "store_armed_generation source_thread_id generation pause_not_before pause_deadline now d =
     d\<lparr>desktop_bindings := update_where
       (\<lambda>k. dk_source_thread_id k = source_thread_id \<and> dk_binding_state k = Bound)
       (\<lambda>k. k\<lparr>dk_armed_generation := Some generation, dk_armed_generation_quiesced_at := None,
          dk_pause_not_before := Some pause_not_before, dk_pause_deadline := Some pause_deadline,
          dk_updated_at := now\<rparr>) (desktop_bindings d)\<rparr>"

definition arm_desktop_attempt ::
    "attempt_row \<Rightarrow> batch_row \<Rightarrow> string \<Rightarrow> string \<Rightarrow> int \<Rightarrow> db \<Rightarrow> desktop_arm_record arming" where
  "arm_desktop_attempt attempt batch bridge_request_id bridge_arm_lease_id now d =
     chain (require (a_state attempt = ArmPending) (DesktopError (NotArmPending (a_attempt_id attempt)))) (\<lambda>_.
     chain (require (a_bridge_request_id attempt = Some bridge_request_id)
       (DesktopError (BridgeRequestMismatch (a_attempt_id attempt)))) (\<lambda>_.
     chain (require (a_bridge_arm_lease_id attempt = Some bridge_arm_lease_id)
       (DesktopError (ArmLeaseMismatch (a_attempt_id attempt)))) (\<lambda>_.
     chain (ok_or (DesktopError (ArmColumnMissing ''bridge_arm_lease_deadline''))
       (a_bridge_arm_lease_deadline attempt)) (\<lambda>lease_deadline.
     if lease_deadline \<le> now
     then Inr (Inl (ArmLeaseExpired (a_attempt_id attempt) lease_deadline),
            abandon_desktop_arm_pending_tx (a_attempt_id attempt) now d)
     else chain (ensure_attempt_budget_remaining batch) (\<lambda>_.
     if b_redelivery_window_ends_at batch \<le> now
     then Inr (Inl (ArmWindowClosed (b_batch_id batch) (b_redelivery_window_ends_at batch)),
            abandon_desktop_arm_pending_tx (a_attempt_id attempt) now d)
     else
     chain (checked_timestamp_add now DESKTOP_PAUSE_NOT_BEFORE_SECONDS ''pause_not_before'') (\<lambda>pause_not_before.
     chain (checked_timestamp_add pause_not_before DESKTOP_PAUSE_DEADLINE_GRACE_SECONDS ''pause_deadline'') (\<lambda>pause_deadline.
     chain (spend_delivery_attempt (a_batch_id attempt) now
       (store_desktop_arm attempt bridge_request_id bridge_arm_lease_id now d)) (\<lambda>d.
     let d = store_armed_generation (a_source_thread_id attempt) (a_generation attempt)
               pause_not_before pause_deadline now d
     in chain (query_delivery_attempt_tx d (a_attempt_id attempt)) (\<lambda>attempt.
        chain (query_desktop_binding_tx d (a_source_thread_id attempt)) (\<lambda>binding.
        chain (query_batch_tx d (a_batch_id attempt)) (\<lambda>batch.
        Inr (Inr (arm_record ''armed'' attempt binding batch), d))))))))))))"

definition note_desktop_arm_tx ::
    "string \<Rightarrow> string \<Rightarrow> int \<Rightarrow> string \<Rightarrow> string \<Rightarrow> int \<Rightarrow> db \<Rightarrow> desktop_arm_record arming" where
  "note_desktop_arm_tx source_thread_id attempt_id generation bridge_request_id bridge_arm_lease_id now d =
     chain (query_desktop_binding_tx d source_thread_id) (\<lambda>binding.
     chain (query_delivery_attempt_tx d attempt_id) (\<lambda>attempt.
     chain (ensure_desktop_attempt_tokens attempt source_thread_id generation) (\<lambda>_.
     chain (query_batch_tx d (a_batch_id attempt)) (\<lambda>batch.
     if already_armed attempt binding bridge_request_id generation \<and>
        a_bridge_arm_lease_id attempt = Some bridge_arm_lease_id
     then chain (ensure_desktop_binding_bound_for_arm binding) (\<lambda>_.
       Inr (Inr (arm_record ''already_armed'' attempt binding batch), d))
     else chain (ensure_desktop_binding_bound_for_arm binding) (\<lambda>_.
       chain (ensure_desktop_attempt_head_and_batch_eligible d attempt batch) (\<lambda>_.
       arm_desktop_attempt attempt batch bridge_request_id bridge_arm_lease_id now d))))))"

definition note_desktop_arm ::
    "string \<Rightarrow> string \<Rightarrow> int \<Rightarrow> string \<Rightarrow> string \<Rightarrow> int \<Rightarrow> db \<Rightarrow> desktop_arm_record arming" where
  "note_desktop_arm source_thread_id attempt_id generation bridge_request_id bridge_arm_lease_id now d =
     chain (ensure_nonempty_value ''source_thread_id'' source_thread_id) (\<lambda>_.
     chain (ensure_nonempty_value ''attempt_id'' attempt_id) (\<lambda>_.
     chain (ensure_positive_value ''generation'' generation) (\<lambda>_.
     chain (ensure_nonempty_value ''bridge_request_id'' bridge_request_id) (\<lambda>_.
     chain (ensure_nonempty_value ''bridge_arm_lease_id'' bridge_arm_lease_id) (\<lambda>_.
     note_desktop_arm_tx source_thread_id attempt_id generation bridge_request_id bridge_arm_lease_id now d)))))"

definition desktop_arm_lease_for_pending_attempt ::
    "string \<Rightarrow> string \<Rightarrow> int \<Rightarrow> string \<Rightarrow> db \<Rightarrow> store_error + string" where
  "desktop_arm_lease_for_pending_attempt source_thread_id attempt_id generation bridge_request_id d =
     chain (ensure_nonempty_value ''source_thread_id'' source_thread_id) (\<lambda>_.
     chain (ensure_nonempty_value ''attempt_id'' attempt_id) (\<lambda>_.
     chain (ensure_positive_value ''generation'' generation) (\<lambda>_.
     chain (ensure_nonempty_value ''bridge_request_id'' bridge_request_id) (\<lambda>_.
     chain (query_delivery_attempt_tx d attempt_id) (\<lambda>attempt.
     chain (ensure_desktop_attempt_tokens attempt source_thread_id generation) (\<lambda>_.
     chain (require (a_state attempt = ArmPending) (DesktopError (NotArmPending attempt_id))) (\<lambda>_.
     chain (require (a_bridge_request_id attempt = Some bridge_request_id)
       (DesktopError (BridgeRequestMismatch attempt_id))) (\<lambda>_.
     chain (ok_or (DesktopError (ArmColumnMissing ''bridge_arm_lease_deadline''))
       (a_bridge_arm_lease_deadline attempt)) (\<lambda>_.
     ok_or (DesktopError (ArmColumnMissing ''bridge_arm_lease_id''))
       (a_bridge_arm_lease_id attempt))))))))))"

end
