(* ===== verification/Cbth_Relay.thy ===== *)
theory Cbth_Relay
  imports Cbth_Desktop
begin

text \<open>
  The transcript relay of the desktop bridge (\<open>src/store.rs\<close>): one-time markers that a scanner finds
  in a thread's transcript, the requests they carry to the store, and the cursor of the scanner. The
  store remembers each consumed request with its outcome, so that a request seen again is replayed and
  not performed a second time. As for arming, a failure the store remembers is \<open>Inr (Inl failure, d')\<close>.
\<close>

section \<open>Markers\<close>

definition query_desktop_transcript_relay_marker_tx :: "db \<Rightarrow> string \<Rightarrow> store_error + relay_marker_row" where
  "query_desktop_transcript_relay_marker_tx d marker =
     ok_or (NotFound ERelayMarker marker)
       (find (\<lambda>m. mk_marker m = marker) (desktop_transcript_relay_markers d))"

definition query_desktop_relay_scanner_binding_tx :: "db \<Rightarrow> string \<Rightarrow> store_error + relay_scanner_row" where
  "query_desktop_relay_scanner_binding_tx d bridge_thread_id =
     ok_or (NotFound ERelayScanner bridge_thread_id)
       (find (\<lambda>s. sc_bridge_thread_id s = bridge_thread_id) (desktop_relay_scanner_bindings d))"

definition query_relay_consumption :: "db \<Rightarrow> string \<Rightarrow> relay_consumption_row option" where
  "query_relay_consumption d marker =
     find (\<lambda>c. rc_marker c = marker) (desktop_transcript_relay_consumptions d)"

lemma query_marker_ok:
  "query_desktop_transcript_relay_marker_tx d i = Inr m \<Longrightarrow>
    m \<in> set (desktop_transcript_relay_markers d) \<and> mk_marker m = i"
  unfolding query_desktop_transcript_relay_marker_tx_def ok_or_ok_iff by (rule markers_table.lookup_found)

lemma query_scanner_ok:
  "query_desktop_relay_scanner_binding_tx d i = Inr s \<Longrightarrow>
    s \<in> set (desktop_relay_scanner_bindings d) \<and> sc_bridge_thread_id s = i"
  unfolding query_desktop_relay_scanner_binding_tx_def ok_or_ok_iff by (rule scanners_table.lookup_found)

definition update_markers ::
    "(relay_marker_row \<Rightarrow> bool) \<Rightarrow> (relay_marker_row \<Rightarrow> relay_marker_row) \<Rightarrow> db \<Rightarrow> db" where
  "update_markers p f d =
     d\<lparr>desktop_transcript_relay_markers := update_where p f (desktop_transcript_relay_markers d)\<rparr>"

record new_relay_marker =
  nm_marker :: string
  nm_bridge_thread_id :: string
  nm_envelope_kind :: string
  nm_source_thread_id :: string
  nm_attempt_id :: string
  nm_generation :: int
  nm_bridge_request_id :: string
  nm_issued_at :: int
  nm_expires_at :: int
  nm_retention_until :: int

definition marker_kind_of_text :: "string \<Rightarrow> marker_kind option" where
  "marker_kind_of_text s =
     (if s = ''arm_pending_requested'' then Some MarkArmPendingRequested
      else if s = ''arm_accepted'' then Some MarkArmAccepted else None)"

text \<open>
  The checks for an \<open>arm_accepted\<close> marker: its attempt is waiting to be armed, and the marker expires
  no later than the lease, the arming deadline and the redelivery window.
\<close>

definition arm_accepted_expiry :: "new_relay_marker \<Rightarrow> db \<Rightarrow> store_error + int" where
  "arm_accepted_expiry marker d =
     chain (query_delivery_attempt_tx d (nm_attempt_id marker)) (\<lambda>attempt.
     chain (ensure_desktop_attempt_tokens attempt (nm_source_thread_id marker) (nm_generation marker)) (\<lambda>_.
     chain (require (a_state attempt = ArmPending) (DesktopError (NotArmPending (a_attempt_id attempt)))) (\<lambda>_.
     chain (require (a_bridge_request_id attempt = Some (nm_bridge_request_id marker))
       (DesktopError (BridgeRequestMismatch (a_attempt_id attempt)))) (\<lambda>_.
     chain (ok_or (DesktopError (ArmColumnMissing ''bridge_arm_lease_deadline''))
       (a_bridge_arm_lease_deadline attempt)) (\<lambda>lease_deadline.
     chain (ok_or (DesktopError (ArmColumnMissing ''arm_pending_deadline''))
       (a_arm_pending_deadline attempt)) (\<lambda>arm_pending_deadline.
     chain (query_batch_tx d (a_batch_id attempt)) (\<lambda>batch.
     chain (require (nm_issued_at marker < lease_deadline)
       (DesktopError (ArmDeadlineBeforeIssue (a_attempt_id attempt) lease_deadline))) (\<lambda>_.
     chain (require (nm_issued_at marker < arm_pending_deadline)
       (DesktopError (ArmDeadlineBeforeIssue (a_attempt_id attempt) arm_pending_deadline))) (\<lambda>_.
     chain (require (nm_issued_at marker < b_redelivery_window_ends_at batch)
       (DesktopError (ArmDeadlineBeforeIssue (a_attempt_id attempt) (b_redelivery_window_ends_at batch)))) (\<lambda>_.
     let expires_at = min (min (min (nm_expires_at marker) lease_deadline) arm_pending_deadline)
                        (b_redelivery_window_ends_at batch)
     in chain (require (nm_issued_at marker < expires_at)
          (DesktopError (MarkerExpiresTooEarly (nm_marker marker)))) (\<lambda>_.
        chain (ok_or (DesktopError (ArmColumnMissing ''bridge_arm_lease_id''))
          (a_bridge_arm_lease_id attempt)) (\<lambda>_. Inr expires_at))))))))))))"

definition issued_marker_row :: "new_relay_marker \<Rightarrow> marker_kind \<Rightarrow> desktop_binding_row \<Rightarrow> int \<Rightarrow> relay_marker_row" where
  "issued_marker_row marker kind binding expires_at =
     \<lparr>mk_marker = nm_marker marker, mk_bridge_thread_id = nm_bridge_thread_id marker,
      mk_envelope_kind = kind, mk_source_thread_id = nm_source_thread_id marker,
      mk_caller_automation_id = dk_caller_automation_id binding,
      mk_read_transport_generation = dk_read_transport_generation binding,
      mk_validation_fingerprint = dk_validation_fingerprint binding,
      mk_attempt_id = nm_attempt_id marker, mk_generation = nm_generation marker,
      mk_bridge_request_id = nm_bridge_request_id marker, mk_marker_state = Issued,
      mk_issued_at = nm_issued_at marker, mk_expires_at = expires_at,
      mk_retention_until = nm_retention_until marker, mk_consumed_at = None, mk_rejected_at = None,
      mk_rejection_reason = None, mk_envelope_hash = None\<rparr>"

definition insert_marker_row :: "relay_marker_row \<Rightarrow> db \<Rightarrow> store_error + db" where
  "insert_marker_row r d =
     chain (require (mk_marker r \<notin> mk_marker ` set (desktop_transcript_relay_markers d))
       (SqlConstraint ''desktop_transcript_relay_markers.marker'')) (\<lambda>_.
     Inr (d\<lparr>desktop_transcript_relay_markers := desktop_transcript_relay_markers d @ [r]\<rparr>))"

definition insert_desktop_transcript_relay_marker_tx ::
    "new_relay_marker \<Rightarrow> db \<Rightarrow> store_error + relay_marker_row \<times> db" where
  "insert_desktop_transcript_relay_marker_tx marker d =
     chain (ensure_nonempty_value ''marker'' (nm_marker marker)) (\<lambda>_.
     chain (ensure_nonempty_value ''bridge_thread_id'' (nm_bridge_thread_id marker)) (\<lambda>_.
     chain (ensure_nonempty_value ''envelope_kind'' (nm_envelope_kind marker)) (\<lambda>_.
     chain (ensure_nonempty_value ''source_thread_id'' (nm_source_thread_id marker)) (\<lambda>_.
     chain (ensure_nonempty_value ''attempt_id'' (nm_attempt_id marker)) (\<lambda>_.
     chain (ensure_positive_value ''generation'' (nm_generation marker)) (\<lambda>_.
     chain (ensure_nonempty_value ''bridge_request_id'' (nm_bridge_request_id marker)) (\<lambda>_.
     chain (require (nm_issued_at marker < nm_expires_at marker \<and>
         nm_expires_at marker < nm_retention_until marker)
       (DesktopError (MarkerTimesNotOrdered (nm_marker marker)))) (\<lambda>_.
     chain (ok_or (DesktopError (UnsupportedMarkerKind (nm_envelope_kind marker)))
       (marker_kind_of_text (nm_envelope_kind marker))) (\<lambda>kind.
     chain (query_desktop_binding_tx d (nm_source_thread_id marker)) (\<lambda>binding.
     chain (ensure_desktop_binding_bound_for_arm binding) (\<lambda>_.
     chain (case kind of MarkArmAccepted \<Rightarrow> arm_accepted_expiry marker d
         | MarkArmPendingRequested \<Rightarrow> Inr (nm_expires_at marker)) (\<lambda>expires_at.
     chain (insert_marker_row (issued_marker_row marker kind binding expires_at) d) (\<lambda>d.
     chain (query_desktop_transcript_relay_marker_tx d (nm_marker marker)) (\<lambda>record.
     Inr (record, d)))))))))))))))"

definition issue_desktop_transcript_relay_marker ::
    "new_relay_marker \<Rightarrow> db \<Rightarrow> store_error + relay_marker_row \<times> db" where
  "issue_desktop_transcript_relay_marker = insert_desktop_transcript_relay_marker_tx"

definition list_active_desktop_transcript_relay_markers ::
    "string \<Rightarrow> int \<Rightarrow> db \<Rightarrow> store_error + relay_marker_row list" where
  "list_active_desktop_transcript_relay_markers bridge_thread_id now d =
     chain (ensure_nonempty_value ''bridge_thread_id'' bridge_thread_id) (\<lambda>_.
     Inr (order_by (\<lambda>m. (mk_issued_at m, mk_marker m))
       (filter (\<lambda>m. mk_bridge_thread_id m = bridge_thread_id \<and> mk_marker_state m = Issued \<and> now < mk_expires_at m)
         (desktop_transcript_relay_markers d))))"

section \<open>Scanner bindings\<close>

record new_relay_scanner =
  ns_bridge_thread_id :: string
  ns_rollout_path :: string
  ns_rollout_identity :: string
  ns_cursor_byte_offset :: int
  ns_cursor_line_number :: int
  ns_now :: int

definition ensure_cursor_non_negative :: "int \<Rightarrow> int \<Rightarrow> store_error + unit" where
  "ensure_cursor_non_negative byte_offset line_number =
     chain (require (0 \<le> byte_offset) (ValueError (NegativeValue ''cursor_byte_offset''))) (\<lambda>_.
     require (0 \<le> line_number) (ValueError (NegativeValue ''cursor_line_number'')))"

definition bind_desktop_relay_scanner :: "new_relay_scanner \<Rightarrow> db \<Rightarrow> store_error + relay_scanner_row \<times> db" where
  "bind_desktop_relay_scanner binding d =
     chain (ensure_nonempty_value ''bridge_thread_id'' (ns_bridge_thread_id binding)) (\<lambda>_.
     chain (ensure_nonempty_value ''rollout_path'' (ns_rollout_path binding)) (\<lambda>_.
     chain (ensure_nonempty_value ''rollout_identity'' (ns_rollout_identity binding)) (\<lambda>_.
     chain (ensure_cursor_non_negative (ns_cursor_byte_offset binding) (ns_cursor_line_number binding)) (\<lambda>_.
     let i = ns_bridge_thread_id binding;
         d = d\<lparr>desktop_relay_scanner_bindings :=
           (if i \<in> sc_bridge_thread_id ` set (desktop_relay_scanner_bindings d)
            then update_where (\<lambda>s. sc_bridge_thread_id s = i)
              (\<lambda>s. s\<lparr>sc_rollout_path := ns_rollout_path binding,
                 sc_rollout_identity := ns_rollout_identity binding,
                 sc_cursor_byte_offset := ns_cursor_byte_offset binding,
                 sc_cursor_line_number := ns_cursor_line_number binding,
                 sc_binding_revision := sc_binding_revision s + 1, sc_binding_state := ScannerActive,
                 sc_last_scan_at := None, sc_last_consumed_at := None, sc_last_error := None,
                 sc_updated_at := ns_now binding, sc_degraded_at := None\<rparr>)
              (desktop_relay_scanner_bindings d)
            else desktop_relay_scanner_bindings d @
              [\<lparr>sc_bridge_thread_id = i, sc_rollout_path = ns_rollout_path binding,
                sc_rollout_identity = ns_rollout_identity binding,
                sc_cursor_byte_offset = ns_cursor_byte_offset binding,
                sc_cursor_line_number = ns_cursor_line_number binding, sc_binding_revision = 1,
                sc_binding_state = ScannerActive, sc_last_scan_at = None, sc_last_consumed_at = None,
                sc_last_error = None, sc_created_at = ns_now binding, sc_updated_at = ns_now binding,
                sc_degraded_at = None\<rparr>])\<rparr>
     in chain (query_desktop_relay_scanner_binding_tx d i) (\<lambda>record. Inr (record, d))))))"

definition list_desktop_relay_scanner_bindings ::
    "string option \<Rightarrow> db \<Rightarrow> store_error + relay_scanner_row list" where
  "list_desktop_relay_scanner_bindings bridge_thread_id d =
     chain (case bridge_thread_id of Some i \<Rightarrow> ensure_nonempty_value ''bridge_thread_id'' i | None \<Rightarrow> Inr ()) (\<lambda>_.
     Inr (order_by (\<lambda>s. (- sc_updated_at s, sc_bridge_thread_id s))
       (filter (\<lambda>s. bridge_thread_id = None \<or> bridge_thread_id = Some (sc_bridge_thread_id s))
         (desktop_relay_scanner_bindings d))))"

text \<open>
  The compare-and-set of a scanner: its update counts only while the row still has the path, the
  identity, the cursor and the revision that the scanner read, and is active.
\<close>

definition scanner_is_current :: "relay_scanner_row \<Rightarrow> relay_scanner_row \<Rightarrow> bool" where
  "scanner_is_current seen s \<longleftrightarrow>
     sc_bridge_thread_id s = sc_bridge_thread_id seen \<and> sc_rollout_path s = sc_rollout_path seen \<and>
     sc_rollout_identity s = sc_rollout_identity seen \<and> sc_binding_state s = ScannerActive \<and>
     sc_cursor_byte_offset s = sc_cursor_byte_offset seen \<and>
     sc_cursor_line_number s = sc_cursor_line_number seen \<and>
     sc_binding_revision s = sc_binding_revision seen"

definition update_current_scanner ::
    "relay_scanner_row \<Rightarrow> (relay_scanner_row \<Rightarrow> relay_scanner_row) \<Rightarrow> db \<Rightarrow>
      store_error + relay_scanner_row \<times> db" where
  "update_current_scanner seen f d =
     chain (require (count_where (scanner_is_current seen) (desktop_relay_scanner_bindings d) \<noteq> 0)
       (DesktopError (ScannerBindingChanged (sc_bridge_thread_id seen)))) (\<lambda>_.
     let d = d\<lparr>desktop_relay_scanner_bindings :=
               update_where (scanner_is_current seen) f (desktop_relay_scanner_bindings d)\<rparr>
     in chain (query_desktop_relay_scanner_binding_tx d (sc_bridge_thread_id seen)) (\<lambda>record.
        Inr (record, d)))"

definition update_desktop_relay_scanner_cursor ::
    "relay_scanner_row \<Rightarrow> int \<times> int \<Rightarrow> nat \<Rightarrow> int \<Rightarrow> db \<Rightarrow> store_error + relay_scanner_row \<times> db" where
  "update_desktop_relay_scanner_cursor seen cursor consumed_count now d =
     (let (byte_offset, line_number) = cursor in
     chain (ensure_nonempty_value ''bridge_thread_id'' (sc_bridge_thread_id seen)) (\<lambda>_.
     chain (ensure_cursor_non_negative byte_offset line_number) (\<lambda>_.
     update_current_scanner seen
       (\<lambda>s. s\<lparr>sc_cursor_byte_offset := byte_offset, sc_cursor_line_number := line_number,
          sc_binding_revision := sc_binding_revision s + 1, sc_binding_state := ScannerActive,
          sc_last_scan_at := Some now,
          sc_last_consumed_at := (if 0 < consumed_count then Some now else sc_last_consumed_at s),
          sc_last_error := None, sc_updated_at := now, sc_degraded_at := None\<rparr>) d)))"

definition degrade_desktop_relay_scanner_binding_if_current ::
    "relay_scanner_row \<Rightarrow> string \<Rightarrow> int \<Rightarrow> db \<Rightarrow> store_error + relay_scanner_row \<times> db" where
  "degrade_desktop_relay_scanner_binding_if_current seen reason now d =
     chain (ensure_nonempty_value ''bridge_thread_id'' (sc_bridge_thread_id seen)) (\<lambda>_.
     chain (ensure_nonempty_value ''reason'' reason) (\<lambda>_.
     update_current_scanner seen
       (\<lambda>s. s\<lparr>sc_binding_revision := sc_binding_revision s + 1, sc_binding_state := ScannerDegraded,
          sc_last_scan_at := Some now, sc_last_error := Some reason, sc_updated_at := now,
          sc_degraded_at := Some (coalesce (sc_degraded_at s) now)\<rparr>) d))"

definition ensure_desktop_relay_scanner_binding_matches_tx ::
    "db \<Rightarrow> relay_scanner_row \<Rightarrow> relay_marker_row \<Rightarrow> store_error + unit" where
  "ensure_desktop_relay_scanner_binding_matches_tx d seen marker =
     chain (require (sc_bridge_thread_id seen = mk_bridge_thread_id marker)
       (DesktopError (ScannerBindingChanged (mk_bridge_thread_id marker)))) (\<lambda>_.
     chain (query_desktop_relay_scanner_binding_tx d (sc_bridge_thread_id seen)) (\<lambda>s.
     require (scanner_is_current seen s) (DesktopError (ScannerBindingChanged (sc_bridge_thread_id seen)))))"

section \<open>Consuming a marker\<close>

record new_relay_consumption =
  nr_marker :: string
  nr_envelope_hash :: string
  nr_envelope_kind :: string
  nr_envelope_json :: string
  nr_source_thread_id :: string
  nr_attempt_id :: string
  nr_generation :: int
  nr_bridge_request_id :: string
  nr_bridge_arm_lease_id :: "string option"
  nr_now :: int

record relay_record =
  rr_marker :: string
  rr_envelope_hash :: string
  rr_envelope_kind :: envelope_kind
  rr_replay_state :: string
  rr_consumed_at :: int
  rr_outcome :: relay_outcome

type_synonym 'a relaying = "store_error + (relay_failure + 'a) \<times> db"

definition validate_desktop_transcript_relay_consumption ::
    "new_relay_consumption \<Rightarrow> store_error + envelope_kind" where
  "validate_desktop_transcript_relay_consumption c =
     chain (ensure_nonempty_value ''marker'' (nr_marker c)) (\<lambda>_.
     chain (ensure_nonempty_value ''envelope_hash'' (nr_envelope_hash c)) (\<lambda>_.
     chain (ensure_nonempty_value ''envelope_kind'' (nr_envelope_kind c)) (\<lambda>_.
     chain (ensure_nonempty_value ''envelope_json'' (nr_envelope_json c)) (\<lambda>_.
     chain (ensure_nonempty_value ''source_thread_id'' (nr_source_thread_id c)) (\<lambda>_.
     chain (ensure_nonempty_value ''attempt_id'' (nr_attempt_id c)) (\<lambda>_.
     chain (ensure_positive_value ''generation'' (nr_generation c)) (\<lambda>_.
     chain (ensure_nonempty_value ''bridge_request_id'' (nr_bridge_request_id c)) (\<lambda>_.
     if nr_envelope_kind c = ''arm_requested''
     then chain (ensure_nonempty_value ''bridge_arm_lease_id'' (coalesce (nr_bridge_arm_lease_id c) [])) (\<lambda>_.
       Inr ArmRequested)
     else if nr_envelope_kind c = ''arm_pending_requested'' then Inr ArmPendingRequested
     else Inl (DesktopError (UnsupportedEnvelopeKind (nr_envelope_kind c)))))))))))"

fun expected_marker_kind :: "envelope_kind \<Rightarrow> marker_kind" where
  "expected_marker_kind ArmPendingRequested = MarkArmPendingRequested"
| "expected_marker_kind ArmRequested = MarkArmAccepted"

definition ensure_desktop_relay_marker_tokens_match_consumption ::
    "relay_marker_row \<Rightarrow> envelope_kind \<Rightarrow> new_relay_consumption \<Rightarrow> store_error + unit" where
  "ensure_desktop_relay_marker_tokens_match_consumption marker kind c =
     chain (require (mk_envelope_kind marker = expected_marker_kind kind)
       (DesktopError (MarkerKindMismatch (mk_marker marker)))) (\<lambda>_.
     chain (require (mk_source_thread_id marker = nr_source_thread_id c \<and>
         mk_attempt_id marker = nr_attempt_id c \<and> mk_generation marker = nr_generation c \<and>
         mk_bridge_request_id marker = nr_bridge_request_id c)
       (DesktopError (MarkerTokensMismatch (mk_marker marker)))) (\<lambda>_.
     require (mk_envelope_hash marker \<in> {None, Some (nr_envelope_hash c)})
       (DesktopError (MarkerHasOtherHash (mk_marker marker)))))"

definition ensure_desktop_relay_marker_matches_consumption ::
    "relay_marker_row \<Rightarrow> envelope_kind \<Rightarrow> new_relay_consumption \<Rightarrow> store_error + unit" where
  "ensure_desktop_relay_marker_matches_consumption marker kind c =
     chain (require (mk_marker_state marker = Issued)
       (DesktopError (MarkerNotIssued (mk_marker marker) (mk_marker_state marker)))) (\<lambda>_.
     chain (require (nr_now c < mk_expires_at marker)
       (DesktopError (MarkerHasExpired (mk_marker marker)))) (\<lambda>_.
     ensure_desktop_relay_marker_tokens_match_consumption marker kind c))"

definition ensure_desktop_relay_marker_matches_current_desktop_binding_tx ::
    "db \<Rightarrow> relay_marker_row \<Rightarrow> string \<Rightarrow> store_error + unit" where
  "ensure_desktop_relay_marker_matches_current_desktop_binding_tx d marker current_validation_fingerprint =
     chain (query_desktop_binding_tx d (mk_source_thread_id marker)) (\<lambda>binding.
     chain (require (dk_binding_state binding = Bound \<and>
         dk_caller_automation_id binding = mk_caller_automation_id marker \<and>
         dk_read_transport_generation binding = mk_read_transport_generation marker \<and>
         dk_validation_fingerprint binding = mk_validation_fingerprint marker)
       (DesktopError (BindingChangedSinceIssue (mk_source_thread_id marker) (mk_marker marker)))) (\<lambda>_.
     require (mk_validation_fingerprint marker = current_validation_fingerprint)
       (DesktopError (HelperFingerprintChanged (mk_marker marker)))))"

text \<open>What a marker was consumed with before, if it was: the record, or the failure.\<close>

definition replay_desktop_transcript_relay_consumption_tx ::
    "db \<Rightarrow> string \<Rightarrow> string \<Rightarrow> store_error + (relay_failure + relay_record) option" where
  "replay_desktop_transcript_relay_consumption_tx d marker envelope_hash =
     (case query_relay_consumption d marker of
        None \<Rightarrow> Inr None
      | Some c \<Rightarrow>
          chain (require (rc_envelope_hash c = envelope_hash)
            (DesktopError (MarkerConsumedWithOtherHash marker))) (\<lambda>_.
          case rc_outcome c of
            CasFailed f \<Rightarrow> Inr (Some (Inl (ReplayedArmFailure marker f)))
          | outcome \<Rightarrow> Inr (Some (Inr
              \<lparr>rr_marker = marker, rr_envelope_hash = rc_envelope_hash c,
               rr_envelope_kind = rc_envelope_kind c, rr_replay_state = ''replayed'',
               rr_consumed_at = rc_consumed_at c, rr_outcome = outcome\<rparr>))))"

definition replay_desktop_transcript_relay_consumption ::
    "string \<Rightarrow> string \<Rightarrow> db \<Rightarrow> store_error + (relay_failure + relay_record) option" where
  "replay_desktop_transcript_relay_consumption marker envelope_hash d =
     chain (ensure_nonempty_value ''marker'' marker) (\<lambda>_.
     chain (ensure_nonempty_value ''envelope_hash'' envelope_hash) (\<lambda>_.
     replay_desktop_transcript_relay_consumption_tx d marker envelope_hash))"

definition insert_desktop_transcript_relay_consumption_tx ::
    "new_relay_consumption \<Rightarrow> envelope_kind \<Rightarrow> relay_outcome \<Rightarrow> db \<Rightarrow> store_error + db" where
  "insert_desktop_transcript_relay_consumption_tx c kind outcome d =
     chain (require (nr_marker c \<notin> rc_marker ` set (desktop_transcript_relay_consumptions d))
       (SqlConstraint ''desktop_transcript_relay_consumptions.marker'')) (\<lambda>_.
     Inr (d\<lparr>desktop_transcript_relay_consumptions := desktop_transcript_relay_consumptions d @
       [\<lparr>rc_marker = nr_marker c, rc_envelope_hash = nr_envelope_hash c, rc_envelope_kind = kind,
         rc_envelope_json = nr_envelope_json c, rc_source_thread_id = nr_source_thread_id c,
         rc_attempt_id = nr_attempt_id c, rc_consumed_at = nr_now c, rc_outcome = outcome\<rparr>]\<rparr>))"

definition perform_relayed_request ::
    "string \<Rightarrow> envelope_kind \<Rightarrow> new_relay_consumption \<Rightarrow> db \<Rightarrow> relay_outcome arming" where
  "perform_relayed_request lease_id kind c d =
     (case kind of
        ArmPendingRequested \<Rightarrow>
          chain (note_desktop_arm_pending_tx lease_id (nr_source_thread_id c) (nr_attempt_id c)
            (nr_generation c) (nr_bridge_request_id c) (nr_now c) d) (\<lambda>(r, d).
          Inr (map_sum id ArmPendingOutcome r, d))
      | ArmRequested \<Rightarrow>
          chain (ok_or (DesktopError (ArmColumnMissing ''bridge_arm_lease_id'')) (nr_bridge_arm_lease_id c)) (\<lambda>lease.
          chain (note_desktop_arm_tx (nr_source_thread_id c) (nr_attempt_id c) (nr_generation c)
            (nr_bridge_request_id c) lease (nr_now c) d) (\<lambda>(r, d).
          Inr (map_sum id ArmOutcome r, d))))"

definition consume_desktop_transcript_relay_tx ::
    "string \<Rightarrow> envelope_kind \<Rightarrow> new_relay_consumption \<Rightarrow> db \<Rightarrow> relay_record relaying" where
  "consume_desktop_transcript_relay_tx lease_id kind c d =
     chain (replay_desktop_transcript_relay_consumption_tx d (nr_marker c) (nr_envelope_hash c)) (\<lambda>replay.
     case replay of
       Some r \<Rightarrow> Inr (r, d)
     | None \<Rightarrow>
         chain (perform_relayed_request lease_id kind c d) (\<lambda>(result, d).
         case result of
           Inl failure \<Rightarrow>
             chain (insert_desktop_transcript_relay_consumption_tx c kind (CasFailed failure) d) (\<lambda>d.
             Inr (Inl (FreshArmFailure failure), d))
         | Inr outcome \<Rightarrow>
             chain (insert_desktop_transcript_relay_consumption_tx c kind outcome d) (\<lambda>d.
             Inr (Inr \<lparr>rr_marker = nr_marker c, rr_envelope_hash = nr_envelope_hash c,
               rr_envelope_kind = kind, rr_replay_state = ''fresh'', rr_consumed_at = nr_now c,
               rr_outcome = outcome\<rparr>, d))))"

definition consume_desktop_transcript_relay ::
    "string \<Rightarrow> new_relay_consumption \<Rightarrow> string \<Rightarrow> db \<Rightarrow> relay_record relaying" where
  "consume_desktop_transcript_relay lease_id c current_validation_fingerprint d =
     chain (validate_desktop_transcript_relay_consumption c) (\<lambda>kind.
     chain (ensure_nonempty_value ''current_validation_fingerprint'' current_validation_fingerprint) (\<lambda>_.
     chain (query_desktop_transcript_relay_marker_tx d (nr_marker c)) (\<lambda>marker.
     chain (ensure_desktop_relay_marker_tokens_match_consumption marker kind c) (\<lambda>_.
     chain (replay_desktop_transcript_relay_consumption_tx d (nr_marker c) (nr_envelope_hash c)) (\<lambda>replay.
     case replay of
       Some r \<Rightarrow> Inr (r, d)
     | None \<Rightarrow>
         chain (ensure_desktop_relay_marker_matches_consumption marker kind c) (\<lambda>_.
         chain (ensure_desktop_relay_marker_matches_current_desktop_binding_tx d marker
           current_validation_fingerprint) (\<lambda>_.
         consume_desktop_transcript_relay_tx lease_id kind c d)))))))"

definition consumed_marker :: "int \<Rightarrow> string \<Rightarrow> relay_marker_row \<Rightarrow> relay_marker_row" where
  "consumed_marker now envelope_hash m = m\<lparr>mk_marker_state := Consumed,
     mk_consumed_at := Some (coalesce (mk_consumed_at m) now),
     mk_envelope_hash := Some (coalesce (mk_envelope_hash m) envelope_hash)\<rparr>"

definition rejected_marker ::
    "int \<Rightarrow> relay_rejection \<Rightarrow> string option \<Rightarrow> relay_marker_row \<Rightarrow> relay_marker_row" where
  "rejected_marker now reason envelope_hash m = m\<lparr>mk_marker_state := Rejected,
     mk_rejected_at := Some (coalesce (mk_rejected_at m) now),
     mk_rejection_reason := Some (coalesce (mk_rejection_reason m) reason),
     mk_envelope_hash := (case mk_envelope_hash m of Some h \<Rightarrow> Some h | None \<Rightarrow> envelope_hash)\<rparr>"

definition consume_issued_desktop_transcript_relay_marker ::
    "string \<Rightarrow> new_relay_consumption \<Rightarrow> relay_scanner_row \<Rightarrow> string \<Rightarrow> db \<Rightarrow>
      (relay_record \<times> relay_marker_row) relaying" where
  "consume_issued_desktop_transcript_relay_marker lease_id c scanner_binding current_validation_fingerprint d =
     chain (validate_desktop_transcript_relay_consumption c) (\<lambda>kind.
     chain (ensure_nonempty_value ''current_validation_fingerprint'' current_validation_fingerprint) (\<lambda>_.
     chain (query_desktop_transcript_relay_marker_tx d (nr_marker c)) (\<lambda>marker.
     chain (ensure_desktop_relay_marker_matches_consumption marker kind c) (\<lambda>_.
     chain (ensure_desktop_relay_scanner_binding_matches_tx d scanner_binding marker) (\<lambda>_.
     chain (ensure_desktop_relay_marker_matches_current_desktop_binding_tx d marker
       current_validation_fingerprint) (\<lambda>_.
     chain (consume_desktop_transcript_relay_tx lease_id kind c d) (\<lambda>(result, d).
     case result of
       Inr record \<Rightarrow>
         let d = update_markers (\<lambda>m. mk_marker m = nr_marker c)
                   (consumed_marker (nr_now c) (nr_envelope_hash c)) d
         in chain (query_desktop_transcript_relay_marker_tx d (nr_marker c)) (\<lambda>marker.
            Inr (Inr (record, marker), d))
     | Inl failure \<Rightarrow>
         Inr (Inl failure, update_markers (\<lambda>m. mk_marker m = nr_marker c)
           (rejected_marker (nr_now c) (RejectedByCas failure) (Some (nr_envelope_hash c))) d))))))))"

section \<open>Upkeep of markers\<close>

definition mark_desktop_transcript_relay_marker_consumed_for_scanner ::
    "string \<Rightarrow> string \<Rightarrow> relay_scanner_row \<Rightarrow> int \<Rightarrow> db \<Rightarrow> store_error + relay_marker_row \<times> db" where
  "mark_desktop_transcript_relay_marker_consumed_for_scanner marker envelope_hash scanner_binding now d =
     chain (ensure_nonempty_value ''marker'' marker) (\<lambda>_.
     chain (ensure_nonempty_value ''envelope_hash'' envelope_hash) (\<lambda>_.
     chain (query_desktop_transcript_relay_marker_tx d marker) (\<lambda>current.
     chain (require (mk_marker_state current \<in> {Issued, Consumed})
       (DesktopError (MarkerNotConsumable marker (mk_marker_state current)))) (\<lambda>_.
     chain (require (mk_envelope_hash current \<in> {None, Some envelope_hash})
       (DesktopError (MarkerHasOtherHash marker))) (\<lambda>_.
     chain (ensure_desktop_relay_scanner_binding_matches_tx d scanner_binding current) (\<lambda>_.
     let d = update_markers (\<lambda>m. mk_marker m = marker) (consumed_marker now envelope_hash) d
     in chain (query_desktop_transcript_relay_marker_tx d marker) (\<lambda>record. Inr (record, d))))))))"

definition mark_desktop_transcript_relay_marker_rejected_for_scanner ::
    "string \<Rightarrow> string \<Rightarrow> string option \<Rightarrow> relay_scanner_row \<Rightarrow> int \<Rightarrow> db \<Rightarrow>
      store_error + relay_marker_row \<times> db" where
  "mark_desktop_transcript_relay_marker_rejected_for_scanner marker reason envelope_hash scanner_binding now d =
     chain (ensure_nonempty_value ''marker'' marker) (\<lambda>_.
     chain (ensure_nonempty_value ''reason'' reason) (\<lambda>_.
     chain (query_desktop_transcript_relay_marker_tx d marker) (\<lambda>current.
     chain (require (mk_marker_state current \<in> {Issued, Rejected})
       (DesktopError (MarkerNotRejectable marker (mk_marker_state current)))) (\<lambda>_.
     chain (require (mk_envelope_hash current = None \<or> envelope_hash = None \<or>
         mk_envelope_hash current = envelope_hash)
       (DesktopError (MarkerHasOtherHash marker))) (\<lambda>_.
     chain (ensure_desktop_relay_scanner_binding_matches_tx d scanner_binding current) (\<lambda>_.
     let d = update_markers (\<lambda>m. mk_marker m = marker)
               (rejected_marker now (RejectedFor reason) envelope_hash) d
     in chain (query_desktop_transcript_relay_marker_tx d marker) (\<lambda>record. Inr (record, d))))))))"

definition reconcile_marker :: "int \<Rightarrow> relay_consumption_row \<Rightarrow> db \<Rightarrow> db" where
  "reconcile_marker now c =
     update_markers (\<lambda>m. mk_marker m = rc_marker c \<and> mk_marker_state m = Issued)
       (case rc_outcome c of
          CasFailed f \<Rightarrow> rejected_marker now (RejectedOnReconcile f) (Some (rc_envelope_hash c))
        | _ \<Rightarrow> consumed_marker (rc_consumed_at c) (rc_envelope_hash c))"

definition reconcile_desktop_transcript_relay_consumed_markers_tx :: "int \<Rightarrow> db \<Rightarrow> nat \<times> db" where
  "reconcile_desktop_transcript_relay_consumed_markers_tx now d =
     (let rows = List.map_filter (\<lambda>m. query_relay_consumption d (mk_marker m))
            (filter (\<lambda>m. mk_marker_state m = Issued) (desktop_transcript_relay_markers d))
      in (length rows, fold (reconcile_marker now) rows d))"

definition reconcile_desktop_transcript_relay_consumed_markers :: "int \<Rightarrow> db \<Rightarrow> nat \<times> db" where
  "reconcile_desktop_transcript_relay_consumed_markers = reconcile_desktop_transcript_relay_consumed_markers_tx"

definition marker_was_consumed :: "db \<Rightarrow> relay_marker_row \<Rightarrow> bool" where
  "marker_was_consumed d m \<longleftrightarrow>
     (\<exists>c\<in>set (desktop_transcript_relay_consumptions d). rc_marker c = mk_marker m)"

definition marker_is_expired :: "int \<Rightarrow> db \<Rightarrow> relay_marker_row \<Rightarrow> bool" where
  "marker_is_expired now d m \<longleftrightarrow>
     mk_marker_state m = Issued \<and> mk_expires_at m \<le> now \<and> \<not> marker_was_consumed d m"

definition expire_desktop_transcript_relay_markers :: "int \<Rightarrow> db \<Rightarrow> int \<times> db" where
  "expire_desktop_transcript_relay_markers now d =
     (count_where (marker_is_expired now d) (desktop_transcript_relay_markers d),
      update_markers (marker_is_expired now d)
        (\<lambda>m. m\<lparr>mk_marker_state := MarkerExpired,
           mk_rejected_at := Some (coalesce (mk_rejected_at m) now),
           mk_rejection_reason := Some (coalesce (mk_rejection_reason m) RejectedAsExpired)\<rparr>) d)"

definition marker_is_retired :: "int \<Rightarrow> relay_marker_row \<Rightarrow> bool" where
  "marker_is_retired now m \<longleftrightarrow>
     mk_marker_state m \<in> {Consumed, MarkerExpired, Rejected} \<and> mk_retention_until m \<le> now"

definition cleanup_desktop_transcript_relay_retention :: "int \<Rightarrow> db \<Rightarrow> int \<times> db" where
  "cleanup_desktop_transcript_relay_retention now d =
     (let old = (\<lambda>c. rc_consumed_at c \<le> now - DESKTOP_TRANSCRIPT_RELAY_RETENTION_SECONDS)
      in (count_where (marker_is_retired now) (desktop_transcript_relay_markers d) +
            count_where old (desktop_transcript_relay_consumptions d),
          d\<lparr>desktop_transcript_relay_markers :=
              delete_where (marker_is_retired now) (desktop_transcript_relay_markers d),
            desktop_transcript_relay_consumptions :=
              delete_where old (desktop_transcript_relay_consumptions d)\<rparr>))"

definition active_desktop_relay_marker_count :: "int \<Rightarrow> db \<Rightarrow> int" where
  "active_desktop_relay_marker_count now d =
     (let markers = desktop_transcript_relay_markers d in
      count_where (\<lambda>m. mk_marker_state m = Issued \<and> marker_was_consumed d m) markers +
      count_where (marker_is_expired now d) markers +
      count_where (\<lambda>m. mk_marker_state m = Issued \<and> now < mk_expires_at m \<and> \<not> marker_was_consumed d m \<and>
        (\<exists>s\<in>set (desktop_relay_scanner_bindings d).
           sc_bridge_thread_id s = mk_bridge_thread_id m \<and> sc_binding_state s = ScannerActive)) markers +
      count_where (marker_is_retired now) markers +
      count_where (\<lambda>c. rc_consumed_at c \<le> saturating_sub now DESKTOP_TRANSCRIPT_RELAY_RETENTION_SECONDS)
        (desktop_transcript_relay_consumptions d))"

section \<open>Finding or issuing a marker\<close>

record relay_marker_request =
  mr_bridge_thread_id :: string
  mr_envelope_kind :: string
  mr_source_thread_id :: string
  mr_caller_automation_id :: string
  mr_read_transport_generation :: int
  mr_validation_fingerprint :: string
  mr_attempt_id :: string
  mr_generation :: int
  mr_bridge_request_id :: "string option"
  mr_marker_prefix :: string
  mr_expires_at_cap :: "int option"

definition find_issued_desktop_relay_marker_tx ::
    "db \<Rightarrow> relay_marker_request \<Rightarrow> int \<Rightarrow> relay_marker_row option" where
  "find_issued_desktop_relay_marker_tx d request now =
     first_row (order_by (\<lambda>m. (mk_issued_at m, mk_marker m))
       (filter (\<lambda>m. mk_bridge_thread_id m = mr_bridge_thread_id request \<and>
          marker_kind_of_text (mr_envelope_kind request) = Some (mk_envelope_kind m) \<and>
          mk_source_thread_id m = mr_source_thread_id request \<and>
          mk_caller_automation_id m = mr_caller_automation_id request \<and>
          mk_read_transport_generation m = mr_read_transport_generation request \<and>
          mk_validation_fingerprint m = mr_validation_fingerprint request \<and>
          mk_attempt_id m = mr_attempt_id request \<and> mk_generation m = mr_generation request \<and>
          (mr_bridge_request_id request = None \<or> mr_bridge_request_id request = Some (mk_bridge_request_id m)) \<and>
          mk_marker_state m = Issued \<and> now < mk_expires_at m)
        (desktop_transcript_relay_markers d)))"

definition desktop_relay_marker_deadlines :: "int \<Rightarrow> store_error + int \<times> int" where
  "desktop_relay_marker_deadlines now =
     chain (checked_timestamp_add now DESKTOP_TRANSCRIPT_RELAY_MARKER_TTL_SECONDS
       ''desktop_transcript_relay_marker_ttl'') (\<lambda>expires_at.
     chain (checked_timestamp_add expires_at DESKTOP_TRANSCRIPT_RELAY_RETENTION_SECONDS
       ''desktop_transcript_relay_retention'') (\<lambda>retention_until.
     Inr (expires_at, retention_until)))"

definition capped_relay_marker_deadlines :: "int option \<Rightarrow> int \<Rightarrow> store_error + int \<times> int" where
  "capped_relay_marker_deadlines expires_at_cap now =
     chain (desktop_relay_marker_deadlines now) (\<lambda>(expires_at, retention_until).
     case expires_at_cap of
       None \<Rightarrow> Inr (expires_at, retention_until)
     | Some cap \<Rightarrow>
         chain (require (now < cap) (DesktopError MarkerCapExpired)) (\<lambda>_.
         if cap < expires_at
         then chain (checked_timestamp_add cap DESKTOP_TRANSCRIPT_RELAY_RETENTION_SECONDS
                ''desktop_transcript_relay_retention'') (\<lambda>retention_until. Inr (cap, retention_until))
         else Inr (expires_at, retention_until)))"

definition find_or_issue_desktop_relay_marker_tx ::
    "string \<times> string \<Rightarrow> relay_marker_request \<Rightarrow> int \<Rightarrow> db \<Rightarrow> store_error + relay_marker_row \<times> db" where
  "find_or_issue_desktop_relay_marker_tx ids request now d =
     (case find_issued_desktop_relay_marker_tx d request now of
        Some marker \<Rightarrow>
          (case mr_expires_at_cap request of
             Some cap \<Rightarrow>
               if cap < mk_expires_at marker
               then chain (require (now < cap) (DesktopError MarkerCapExpired)) (\<lambda>_.
                 let d = update_markers (\<lambda>m. mk_marker m = mk_marker marker) (\<lambda>m. m\<lparr>mk_expires_at := cap\<rparr>) d
                 in chain (query_desktop_transcript_relay_marker_tx d (mk_marker marker)) (\<lambda>record.
                    Inr (record, d)))
               else Inr (marker, d)
           | None \<Rightarrow> Inr (marker, d))
      | None \<Rightarrow>
          chain (capped_relay_marker_deadlines (mr_expires_at_cap request) now) (\<lambda>(expires_at, retention_until).
          insert_desktop_transcript_relay_marker_tx
            \<lparr>nm_marker = mr_marker_prefix request @ ''_'' @ snd ids,
             nm_bridge_thread_id = mr_bridge_thread_id request,
             nm_envelope_kind = mr_envelope_kind request,
             nm_source_thread_id = mr_source_thread_id request,
             nm_attempt_id = mr_attempt_id request, nm_generation = mr_generation request,
             nm_bridge_request_id = coalesce (mr_bridge_request_id request) (fst ids),
             nm_issued_at = now, nm_expires_at = expires_at, nm_retention_until = retention_until\<rparr> d))"

end
