(* ===== verification/Cbth_Ready.thy ===== *)
theory Cbth_Ready
  imports Cbth_Relay
begin

text \<open>
  The snapshot the store offers to a desktop bridge (\<open>materialize_desktop_ready_and_arm_pending_entries\<close>
  of \<open>src/store.rs\<close>): at most 64 batches that are ready to be armed, each with a prepared attempt and
  an issued marker, of which one call prepares at most one; and the attempts that wait to be armed,
  each with its marker. A \<open>SELECT .. JOIN\<close> is the list of the combinations of rows it ranges over. The
  JSON objects are records of their fields.
\<close>

section \<open>Batches a desktop may deliver\<close>

text \<open>
  The conditions on a batch and its binding shared by the queries: the head of its thread, delivered
  automatically, harmless, not of a plugin, within its window.
\<close>

definition desktop_deliverable :: "int \<Rightarrow> db \<Rightarrow> batch_row \<Rightarrow> bool" where
  "desktop_deliverable now d b \<longleftrightarrow>
     b_state b = BatchOpen \<and> b_replay_policy b = Automatic \<and> detached_delivery_safe b \<and>
     \<not> batch_has_plugin_delivery_request_tx d (b_batch_id b) \<and> now < b_redelivery_window_ends_at b \<and>
     thread_head d (b_source_thread_id b) = Some (b_batch_id b)"

definition binding_is_quiesced :: "desktop_binding_row \<Rightarrow> bool" where
  "binding_is_quiesced k \<longleftrightarrow> dk_armed_generation k = None \<or> dk_armed_generation_quiesced_at k \<noteq> None"

definition thread_has_attempt_under_way :: "db \<Rightarrow> string \<Rightarrow> bool" where
  "thread_has_attempt_under_way d thread \<longleftrightarrow>
     (\<exists>a\<in>set (delivery_attempts d). a_source_thread_id a = thread \<and>
        a_state a \<in> {AcceptPending, ArmPending, Cooldown})"

definition is_latest_attempt :: "db \<Rightarrow> attempt_row \<Rightarrow> bool" where
  "is_latest_attempt d a \<longleftrightarrow> max_generation d (a_batch_id a) = Some (a_generation a)"

definition marker_matches_binding :: "relay_marker_row \<Rightarrow> desktop_binding_row \<Rightarrow> bool" where
  "marker_matches_binding m k \<longleftrightarrow>
     mk_caller_automation_id m = dk_caller_automation_id k \<and>
     mk_read_transport_generation m = dk_read_transport_generation k \<and>
     mk_validation_fingerprint m = dk_validation_fingerprint k"

definition live_ready_marker :: "string \<Rightarrow> int \<Rightarrow> relay_marker_row \<Rightarrow> bool" where
  "live_ready_marker bridge_thread_id now m \<longleftrightarrow>
     mk_bridge_thread_id m = bridge_thread_id \<and> mk_envelope_kind m = MarkArmPendingRequested \<and>
     mk_marker_state m = Issued \<and> now < mk_expires_at m"

section \<open>Entries that exist already\<close>

definition cap_desktop_ready_marker_expiries_tx :: "string \<Rightarrow> db \<Rightarrow> db" where
  "cap_desktop_ready_marker_expiries_tx bridge_thread_id d =
     fold (\<lambda>(marker, expires_at).
         update_markers (\<lambda>m. mk_marker m = marker) (\<lambda>m. m\<lparr>mk_expires_at := expires_at\<rparr>))
       [(mk_marker m, b_redelivery_window_ends_at b).
          m \<leftarrow> desktop_transcript_relay_markers d, a \<leftarrow> delivery_attempts d,
          a_attempt_id a = mk_attempt_id m \<and> a_generation a = mk_generation m,
          b \<leftarrow> batches d, b_batch_id b = a_batch_id a,
          mk_bridge_thread_id m = bridge_thread_id \<and> mk_envelope_kind m = MarkArmPendingRequested \<and>
          mk_marker_state m = Issued \<and> b_redelivery_window_ends_at b < mk_expires_at m]
       d"

record desktop_ready_entry =
  re_source_thread_id :: string
  re_caller_automation_id :: string
  re_batch_id :: string
  re_attempt_id :: string
  re_generation :: int
  re_bridge_request_id :: string
  re_arm_pending_marker :: string
  re_marker_expires_at :: int
  re_snapshot_revision :: string

definition desktop_ready_entry_json ::
    "batch_row \<Rightarrow> desktop_binding_row \<Rightarrow> attempt_row \<Rightarrow> relay_marker_row \<Rightarrow> string \<Rightarrow> desktop_ready_entry" where
  "desktop_ready_entry_json batch binding attempt marker snapshot_revision =
     \<lparr>re_source_thread_id = b_source_thread_id batch,
      re_caller_automation_id = dk_caller_automation_id binding, re_batch_id = b_batch_id batch,
      re_attempt_id = a_attempt_id attempt, re_generation = a_generation attempt,
      re_bridge_request_id = mk_bridge_request_id marker, re_arm_pending_marker = mk_marker marker,
      re_marker_expires_at = mk_expires_at marker, re_snapshot_revision = snapshot_revision\<rparr>"

definition existing_ready :: "string \<Rightarrow> desktop_installation_row \<Rightarrow> int \<Rightarrow> db \<Rightarrow>
    relay_marker_row \<Rightarrow> attempt_row \<Rightarrow> batch_row \<Rightarrow> desktop_binding_row \<Rightarrow> bool" where
  "existing_ready bridge_thread_id installation now d m a b k \<longleftrightarrow>
     live_ready_marker bridge_thread_id now m \<and> marker_matches_binding m k \<and>
     desktop_deliverable now d b \<and> b_delivery_attempt_count b < b_max_delivery_attempts b \<and>
     desktop_binding_matches_installation k installation \<and>
     a_adapter_kind a = Desktop \<and> a_state a = Prepared \<and> is_latest_attempt d a \<and>
     \<not> thread_has_attempt_under_way d (b_source_thread_id b) \<and>
     (\<forall>q\<in>set (delivery_attempts d). a_source_thread_id q = b_source_thread_id b \<and> a_state q = Prepared \<longrightarrow>
        a_attempt_id q = a_attempt_id a) \<and>
     binding_is_quiesced k"

definition list_existing_desktop_ready_entries_tx ::
    "string \<Rightarrow> string \<Rightarrow> desktop_installation_row \<Rightarrow> int \<Rightarrow> db \<Rightarrow> store_error + desktop_ready_entry list" where
  "list_existing_desktop_ready_entries_tx bridge_thread_id snapshot_revision installation now d =
     (let rows = [(b, m). m \<leftarrow> desktop_transcript_relay_markers d, a \<leftarrow> delivery_attempts d,
                    a_attempt_id a = mk_attempt_id m \<and> a_generation a = mk_generation m,
                    b \<leftarrow> batches d, b_batch_id b = a_batch_id a,
                    k \<leftarrow> desktop_bindings d, dk_source_thread_id k = b_source_thread_id b,
                    existing_ready bridge_thread_id installation now d m a b k];
          chosen = take DESKTOP_READY_SNAPSHOT_MAX_ENTRIES
            (order_by (\<lambda>(b, m). (b_created_at b, b_source_thread_id b, b_batch_id b, mk_issued_at m, mk_marker m)) rows)
      in map_ok (\<lambda>(_, row).
           chain (query_desktop_transcript_relay_marker_tx d (mk_marker row)) (\<lambda>marker.
           chain (query_delivery_attempt_tx d (mk_attempt_id marker)) (\<lambda>attempt.
           chain (query_batch_tx d (a_batch_id attempt)) (\<lambda>batch.
           chain (query_desktop_binding_tx d (b_source_thread_id batch)) (\<lambda>binding.
           Inr (desktop_ready_entry_json batch binding attempt marker snapshot_revision)))))) chosen)"

section \<open>One more entry\<close>

text \<open>The candidates: heads that a bound, quiesced thread may deliver and no live marker announces.\<close>

definition ready_candidate :: "string \<Rightarrow> desktop_installation_row \<Rightarrow> int \<Rightarrow> db \<Rightarrow>
    batch_row \<Rightarrow> desktop_binding_row \<Rightarrow> bool" where
  "ready_candidate bridge_thread_id installation now d b k \<longleftrightarrow>
     desktop_deliverable now d b \<and> b_delivery_attempt_count b < b_max_delivery_attempts b \<and>
     desktop_binding_matches_installation k installation \<and>
     \<not> thread_has_attempt_under_way d (b_source_thread_id b) \<and>
     (\<forall>q\<in>set (delivery_attempts d). a_source_thread_id q = b_source_thread_id b \<and> a_state q = Prepared \<longrightarrow>
        a_adapter_kind q = Desktop \<and> a_batch_id q = b_batch_id b \<and> is_latest_attempt d q) \<and>
     count_where (\<lambda>q. a_source_thread_id q = b_source_thread_id b \<and> a_state q = Prepared)
       (delivery_attempts d) \<le> 1 \<and>
     binding_is_quiesced k \<and>
     \<not> (\<exists>a\<in>set (delivery_attempts d). \<exists>m\<in>set (desktop_transcript_relay_markers d).
          mk_attempt_id m = a_attempt_id a \<and> mk_generation m = a_generation a \<and>
          a_batch_id a = b_batch_id b \<and> a_adapter_kind a = Desktop \<and> a_state a = Prepared \<and>
          is_latest_attempt d a \<and> live_ready_marker bridge_thread_id now m \<and> marker_matches_binding m k)"

definition next_ready_candidate :: "string \<Rightarrow> desktop_installation_row \<Rightarrow> int \<Rightarrow> db \<Rightarrow> string option" where
  "next_ready_candidate bridge_thread_id installation now d =
     map_option b_batch_id (first_row (order_by (\<lambda>b. (b_created_at b, b_source_thread_id b, b_batch_id b))
       [b. b \<leftarrow> batches d, k \<leftarrow> desktop_bindings d, dk_source_thread_id k = b_source_thread_id b,
           ready_candidate bridge_thread_id installation now d b k]))"

text \<open>
  The checks that the code repeats on the candidate, and its choice of an attempt: \<open>None\<close> passes the
  candidate over.
\<close>

definition candidate_is_deliverable ::
    "desktop_installation_row \<Rightarrow> int \<Rightarrow> db \<Rightarrow> batch_row \<Rightarrow> desktop_binding_row \<Rightarrow> bool" where
  "candidate_is_deliverable installation now d batch binding \<longleftrightarrow>
     desktop_binding_matches_installation binding installation \<and>
     is_ok (ensure_desktop_binding_quiesced_for_fresh_arm binding) \<and>
     is_ok (ensure_batch_is_not_plugin_delivery_tx d batch) \<and>
     is_ok (ensure_batch_allows_desktop_delivery batch) \<and>
     is_ok (ensure_attempt_budget_remaining batch) \<and>
     is_ok (ensure_batch_redelivery_window_open batch now) \<and>
     \<not> (null_le (dk_pause_deadline binding) now \<and> dk_armed_generation binding \<noteq> None \<and>
        dk_armed_generation_quiesced_at binding = None)"

definition choose_prepared_attempt ::
    "string \<Rightarrow> batch_row \<Rightarrow> int \<Rightarrow> db \<Rightarrow> store_error + attempt_row option \<times> db" where
  "choose_prepared_attempt attempt_id batch now d =
     (case query_active_delivery_attempts_for_thread_tx d (b_source_thread_id batch) of
        [] \<Rightarrow> chain (create_desktop_prepared_attempt_tx attempt_id batch now d) (\<lambda>(attempt, d).
          Inr (Some attempt, d))
      | [attempt] \<Rightarrow> Inr (if a_batch_id attempt = b_batch_id batch \<and> a_adapter_kind attempt = Desktop \<and>
            a_state attempt = Prepared \<and> is_ok (ensure_attempt_is_current_generation_tx d attempt)
          then Some attempt else None, d)
      | _ \<Rightarrow> Inr (None, d))"

definition ready_marker_request ::
    "string \<Rightarrow> batch_row \<Rightarrow> desktop_binding_row \<Rightarrow> attempt_row \<Rightarrow> relay_marker_request" where
  "ready_marker_request bridge_thread_id batch binding attempt =
     \<lparr>mr_bridge_thread_id = bridge_thread_id, mr_envelope_kind = ''arm_pending_requested'',
      mr_source_thread_id = b_source_thread_id batch,
      mr_caller_automation_id = dk_caller_automation_id binding,
      mr_read_transport_generation = dk_read_transport_generation binding,
      mr_validation_fingerprint = dk_validation_fingerprint binding,
      mr_attempt_id = a_attempt_id attempt, mr_generation = a_generation attempt,
      mr_bridge_request_id = None, mr_marker_prefix = ''CBTH_DESKTOP_RELAY_ARM_PENDING'',
      mr_expires_at_cap = Some (b_redelivery_window_ends_at batch)\<rparr>"

definition prepare_ready_entry :: "string \<times> string \<times> string \<Rightarrow> string \<Rightarrow> string \<Rightarrow>
    desktop_installation_row \<Rightarrow> int \<Rightarrow> string \<Rightarrow> db \<Rightarrow> store_error + desktop_ready_entry option \<times> db" where
  "prepare_ready_entry ids bridge_thread_id snapshot_revision installation now batch_id d =
     chain (query_batch_tx d batch_id) (\<lambda>batch.
     chain (query_desktop_binding_tx d (b_source_thread_id batch)) (\<lambda>binding.
     if \<not> candidate_is_deliverable installation now d batch binding then Inr (None, d)
     else chain (choose_prepared_attempt (fst ids) batch now d) (\<lambda>(chosen, d).
       case chosen of
         None \<Rightarrow> Inr (None, d)
       | Some attempt \<Rightarrow>
           chain (find_or_issue_desktop_relay_marker_tx (snd ids)
             (ready_marker_request bridge_thread_id batch binding attempt) now d) (\<lambda>(marker, d).
           Inr (Some (desktop_ready_entry_json batch binding attempt marker snapshot_revision), d)))))"

definition materialize_desktop_ready_entries_tx :: "string \<times> string \<times> string \<Rightarrow> string \<Rightarrow> string \<Rightarrow>
    desktop_installation_row \<Rightarrow> int \<Rightarrow> db \<Rightarrow> store_error + desktop_ready_entry list \<times> db" where
  "materialize_desktop_ready_entries_tx ids bridge_thread_id snapshot_revision installation now d =
     chain (ensure_nonempty_value ''bridge_thread_id'' bridge_thread_id) (\<lambda>_.
     chain (ensure_nonempty_value ''snapshot_revision'' snapshot_revision) (\<lambda>_.
     if di_read_transport_capability installation \<noteq> CapabilityValidated \<or>
        di_writeback_capability installation \<noteq> CapabilityValidated
     then Inr ([], d)
     else let d = cap_desktop_ready_marker_expiries_tx bridge_thread_id d in
     chain (list_existing_desktop_ready_entries_tx bridge_thread_id snapshot_revision installation now d) (\<lambda>entries.
     if DESKTOP_READY_SNAPSHOT_MAX_ENTRIES \<le> length entries then Inr (entries, d)
     else case next_ready_candidate bridge_thread_id installation now d of
       None \<Rightarrow> Inr (entries, d)
     | Some batch_id \<Rightarrow>
         chain (prepare_ready_entry ids bridge_thread_id snapshot_revision installation now batch_id d) (\<lambda>(entry, d).
         Inr (entries @ (case entry of None \<Rightarrow> [] | Some e \<Rightarrow> [e]), d)))))"

section \<open>Attempts that wait to be armed\<close>

record desktop_arm_pending_entry =
  pe_source_thread_id :: string
  pe_caller_automation_id :: string
  pe_batch_id :: string
  pe_attempt_id :: string
  pe_generation :: int
  pe_bridge_request_id :: "string option"
  pe_bridge_arm_lease_deadline :: "int option"
  pe_arm_pending_since :: "int option"
  pe_arm_pending_deadline :: "int option"
  pe_arm_accepted_marker :: string
  pe_marker_expires_at :: int

definition waits_to_be_armed :: "int \<Rightarrow> db \<Rightarrow> attempt_row \<Rightarrow> batch_row \<Rightarrow> desktop_binding_row \<Rightarrow> bool" where
  "waits_to_be_armed now d a b k \<longleftrightarrow>
     a_adapter_kind a = Desktop \<and> a_state a = ArmPending \<and> desktop_deliverable now d b \<and>
     null_gt (a_bridge_arm_lease_deadline a) now \<and> null_gt (a_arm_pending_deadline a) now \<and>
     is_latest_attempt d a \<and> dk_binding_state k = Bound \<and>
     (\<exists>m\<in>set (desktop_transcript_relay_markers d).
        mk_envelope_kind m = MarkArmPendingRequested \<and> mk_marker_state m = Consumed \<and>
        mk_attempt_id m = a_attempt_id a \<and> mk_generation m = a_generation a \<and> marker_matches_binding m k \<and>
        Some (mk_bridge_request_id m) = a_bridge_request_id a)"

definition accepted_marker_request :: "string \<Rightarrow> attempt_row \<Rightarrow> desktop_binding_row \<Rightarrow> string \<Rightarrow> relay_marker_request" where
  "accepted_marker_request bridge_thread_id a binding bridge_request_id =
     \<lparr>mr_bridge_thread_id = bridge_thread_id, mr_envelope_kind = ''arm_accepted'',
      mr_source_thread_id = dk_source_thread_id binding,
      mr_caller_automation_id = dk_caller_automation_id binding,
      mr_read_transport_generation = dk_read_transport_generation binding,
      mr_validation_fingerprint = dk_validation_fingerprint binding,
      mr_attempt_id = a_attempt_id a, mr_generation = a_generation a,
      mr_bridge_request_id = Some bridge_request_id,
      mr_marker_prefix = ''CBTH_DESKTOP_RELAY_ARM_ACCEPTED'', mr_expires_at_cap = None\<rparr>"

definition announce_arm_accepted :: "(nat \<Rightarrow> string) \<Rightarrow> string \<Rightarrow> desktop_installation_row \<Rightarrow> int \<Rightarrow>
    nat \<times> attempt_row \<times> desktop_binding_row \<Rightarrow> desktop_arm_pending_entry list \<times> db \<Rightarrow>
    store_error + desktop_arm_pending_entry list \<times> db" where
  "announce_arm_accepted fresh bridge_thread_id installation now row st =
     (let (i, a, k) = row; (entries, d) = st in
     chain (ok_or (DesktopError (ArmColumnMissing ''bridge_request_id'')) (a_bridge_request_id a)) (\<lambda>bridge_request_id.
     chain (query_desktop_binding_tx d (dk_source_thread_id k)) (\<lambda>binding.
     if \<not> null_gt (a_bridge_arm_lease_deadline a) now \<or> \<not> null_gt (a_arm_pending_deadline a) now \<or>
        di_read_transport_capability installation \<noteq> CapabilityValidated \<or>
        di_writeback_capability installation \<noteq> CapabilityValidated \<or>
        \<not> desktop_binding_matches_installation binding installation
     then Inr (entries, d)
     else chain (find_or_issue_desktop_relay_marker_tx (bridge_request_id, fresh i)
         (accepted_marker_request bridge_thread_id a binding bridge_request_id) now d) (\<lambda>(marker, d).
       Inr (entries @
         [\<lparr>pe_source_thread_id = dk_source_thread_id k, pe_caller_automation_id = dk_caller_automation_id k,
           pe_batch_id = a_batch_id a, pe_attempt_id = a_attempt_id a, pe_generation = a_generation a,
           pe_bridge_request_id = a_bridge_request_id a,
           pe_bridge_arm_lease_deadline = a_bridge_arm_lease_deadline a,
           pe_arm_pending_since = a_arm_pending_since a,
           pe_arm_pending_deadline = a_arm_pending_deadline a,
           pe_arm_accepted_marker = mk_marker marker, pe_marker_expires_at = mk_expires_at marker\<rparr>], d)))))"

definition list_desktop_arm_pending_bindings_tx :: "(nat \<Rightarrow> string) \<Rightarrow> string \<Rightarrow> desktop_installation_row \<Rightarrow>
    int \<Rightarrow> db \<Rightarrow> store_error + desktop_arm_pending_entry list \<times> db" where
  "list_desktop_arm_pending_bindings_tx fresh bridge_thread_id installation now d =
     chain (ensure_nonempty_value ''bridge_thread_id'' bridge_thread_id) (\<lambda>_.
     let rows = order_by (\<lambda>(a, k). (a_arm_pending_deadline a, a_updated_at a, a_attempt_id a))
           [(a, k). a \<leftarrow> delivery_attempts d, b \<leftarrow> batches d, b_batch_id b = a_batch_id a,
              k \<leftarrow> desktop_bindings d, dk_source_thread_id k = a_source_thread_id a,
              waits_to_be_armed now d a b k]
     in for_each (announce_arm_accepted fresh bridge_thread_id installation now) (enumerate 0 rows) ([], d))"

definition materialize_desktop_ready_and_arm_pending_entries ::
    "string \<times> string \<times> string \<Rightarrow> (nat \<Rightarrow> string) \<Rightarrow> string \<Rightarrow> string \<Rightarrow> desktop_installation_row \<Rightarrow>
      int \<Rightarrow> db \<Rightarrow> store_error + (desktop_ready_entry list \<times> desktop_arm_pending_entry list) \<times> db" where
  "materialize_desktop_ready_and_arm_pending_entries ids fresh bridge_thread_id snapshot_revision installation now d =
     (let d = snd (reconcile_desktop_transcript_relay_consumed_markers_tx now d) in
     chain (materialize_desktop_ready_entries_tx ids bridge_thread_id snapshot_revision installation now d) (\<lambda>(ready, d).
     chain (list_desktop_arm_pending_bindings_tx fresh bridge_thread_id installation now d) (\<lambda>(pending, d).
     Inr ((ready, pending), d))))"

end
