(* ===== verification/Cbth_Lifecycle.thy ===== *)
theory Cbth_Lifecycle
  imports Cbth_Sweep Cbth_Ready
begin

text \<open>
  What the daemon reads from the store to decide whether it may exit or has maintenance to do
  (\<open>daemon_lifecycle_status*\<close> and \<open>count_*\<close> of \<open>src/store.rs\<close>, \<open>DaemonLifecycleStatus\<close> of
  \<open>src/models.rs\<close>), and the audit log.
\<close>

section \<open>Counts\<close>

definition count_open_attempts :: "db \<Rightarrow> (attempt_row \<Rightarrow> bool) \<Rightarrow> int" where
  "count_open_attempts d p = count_where (\<lambda>a. p a \<and> batch_state_is d BatchOpen a) (delivery_attempts d)"

definition count_active_cli_acceptances :: "db \<Rightarrow> int \<Rightarrow> int" where
  "count_active_cli_acceptances d now =
     (let stale_started_at = saturating_sub now CLI_ACCEPT_PENDING_TIMEOUT_SECONDS in
      count_open_attempts d (\<lambda>a. pending_of Cli a \<and> null_gt (a_delivery_rpc_started_at a) stale_started_at))"

definition count_stale_cli_acceptances :: "db \<Rightarrow> int \<Rightarrow> int" where
  "count_stale_cli_acceptances d now =
     (let stale_started_at = saturating_sub now CLI_ACCEPT_PENDING_TIMEOUT_SECONDS in
      count_open_attempts d (\<lambda>a. pending_of Cli a \<and> null_le (a_delivery_rpc_started_at a) stale_started_at))"

definition count_active_cli_observations :: "db \<Rightarrow> int \<Rightarrow> int" where
  "count_active_cli_observations d now =
     count_open_attempts d (\<lambda>a. tracking_of Cli a \<and> null_gt (a_delivery_observation_deadline a) now)"

definition count_cli_observations_due_now :: "db \<Rightarrow> int \<Rightarrow> int" where
  "count_cli_observations_due_now d now =
     count_open_attempts d (\<lambda>a. tracking_of Cli a \<and> null_le (a_delivery_observation_deadline a) now)"

definition count_active_codex_app_server_acceptances :: "db \<Rightarrow> int \<Rightarrow> int" where
  "count_active_codex_app_server_acceptances d now =
     (let stale_started_at = saturating_sub now CODEX_APP_SERVER_ACCEPT_PENDING_TIMEOUT_SECONDS in
      count_open_attempts d (\<lambda>a. pending_of CodexAppServer a \<and>
        null_gt (a_delivery_rpc_started_at a) stale_started_at))"

definition count_stale_codex_app_server_acceptances :: "db \<Rightarrow> int \<Rightarrow> int" where
  "count_stale_codex_app_server_acceptances d now =
     (let stale_started_at = saturating_sub now CODEX_APP_SERVER_ACCEPT_PENDING_TIMEOUT_SECONDS in
      count_open_attempts d (\<lambda>a. pending_of CodexAppServer a \<and>
        null_le (a_delivery_rpc_started_at a) stale_started_at))"

definition count_active_codex_app_server_observations :: "db \<Rightarrow> int \<Rightarrow> int" where
  "count_active_codex_app_server_observations d now =
     count_open_attempts d (\<lambda>a. tracking_of CodexAppServer a \<and> null_gt (a_delivery_observation_deadline a) now)"

definition count_codex_app_server_observations_due_now :: "db \<Rightarrow> int \<Rightarrow> int" where
  "count_codex_app_server_observations_due_now d now =
     count_open_attempts d (\<lambda>a. tracking_of CodexAppServer a \<and> null_le (a_delivery_observation_deadline a) now)"

definition count_desktop_attempts_due_at :: "db \<Rightarrow> int \<Rightarrow> int" where
  "count_desktop_attempts_due_at d due_at =
     count_where (\<lambda>a. a_adapter_kind a = Desktop \<and> a_state a \<in> {Prepared, ArmPending} \<and>
       batch_is d (\<lambda>b. b_state b = BatchOpen \<and> b_replay_policy b = Automatic \<and>
         (b_redelivery_window_ends_at b \<le> due_at \<or>
          a_state a = ArmPending \<and> (coalesce (a_bridge_arm_lease_deadline a) 0 \<le> due_at \<or>
            coalesce (a_arm_pending_deadline a) 0 \<le> due_at))) a) (delivery_attempts d)"

definition count_open_batches_due_at :: "db \<Rightarrow> int \<Rightarrow> int" where
  "count_open_batches_due_at d due_at =
     count_where (\<lambda>b. b_state b = BatchOpen \<and> b_redelivery_window_ends_at b \<le> due_at \<and>
       \<not> batch_has_active_attempt d (b_batch_id b)) (batches d)"

section \<open>Status\<close>

record lifecycle_status =
  active_jobs :: int
  nonterminal_tasks :: int
  active_cli_acceptances :: int
  cli_acceptances_stale_now :: int
  active_cli_observations :: int
  cli_observations_due_now :: int
  active_codex_app_server_acceptances :: int
  codex_app_server_acceptances_stale_now :: int
  active_codex_app_server_observations :: int
  codex_app_server_observations_due_now :: int
  active_desktop_relay_markers :: int
  desktop_attempts_due_now :: int
  desktop_attempts_due_within_idle :: int
  open_batches_due_now :: int
  open_batches_due_within_idle :: int

definition lifecycle_status_matching ::
    "(string option \<Rightarrow> bool) \<Rightarrow> db \<Rightarrow> int \<Rightarrow> int \<Rightarrow> lifecycle_status" where
  "lifecycle_status_matching owned d now idle_horizon_at =
     \<lparr>active_jobs = count_where (\<lambda>j. j_status j = JobPending \<and>
        owned (j_supervisor_daemon_generation j)) (jobs d),
      nonterminal_tasks = count_where (\<lambda>t. t_status t \<in> {Queued, Running} \<and>
        owned (t_supervisor_daemon_generation t)) (tasks d),
      active_cli_acceptances = count_active_cli_acceptances d now,
      cli_acceptances_stale_now = count_stale_cli_acceptances d now,
      active_cli_observations = count_active_cli_observations d now,
      cli_observations_due_now = count_cli_observations_due_now d now,
      active_codex_app_server_acceptances = count_active_codex_app_server_acceptances d now,
      codex_app_server_acceptances_stale_now = count_stale_codex_app_server_acceptances d now,
      active_codex_app_server_observations = count_active_codex_app_server_observations d now,
      codex_app_server_observations_due_now = count_codex_app_server_observations_due_now d now,
      active_desktop_relay_markers = active_desktop_relay_marker_count now d,
      desktop_attempts_due_now = count_desktop_attempts_due_at d now,
      desktop_attempts_due_within_idle = count_desktop_attempts_due_at d idle_horizon_at,
      open_batches_due_now = count_open_batches_due_at d now,
      open_batches_due_within_idle = count_open_batches_due_at d idle_horizon_at\<rparr>"

definition daemon_lifecycle_status :: "db \<Rightarrow> int \<Rightarrow> int \<Rightarrow> lifecycle_status" where
  "daemon_lifecycle_status = lifecycle_status_matching (\<lambda>_. True)"

definition daemon_lifecycle_status_without_supervisor_generation ::
    "db \<Rightarrow> int \<Rightarrow> int \<Rightarrow> lifecycle_status" where
  "daemon_lifecycle_status_without_supervisor_generation = lifecycle_status_matching (\<lambda>g. g = None)"

definition daemon_lifecycle_status_for_recovery_owners ::
    "bool \<Rightarrow> string set \<Rightarrow> db \<Rightarrow> int \<Rightarrow> int \<Rightarrow> lifecycle_status" where
  "daemon_lifecycle_status_for_recovery_owners include_unowned generations =
     lifecycle_status_matching
       (\<lambda>g. supervisor_generation_matches_recovery_owners g include_unowned generations)"

definition daemon_lifecycle_status_for_supervisor_generation ::
    "string \<Rightarrow> db \<Rightarrow> int \<Rightarrow> int \<Rightarrow> lifecycle_status" where
  "daemon_lifecycle_status_for_supervisor_generation generation =
     lifecycle_status_matching (\<lambda>g. g = Some generation)"

definition has_due_maintenance :: "lifecycle_status \<Rightarrow> bool" where
  "has_due_maintenance st \<longleftrightarrow>
     0 < cli_acceptances_stale_now st \<or> 0 < cli_observations_due_now st \<or>
     0 < codex_app_server_acceptances_stale_now st \<or> 0 < codex_app_server_observations_due_now st \<or>
     0 < desktop_attempts_due_now st \<or> 0 < open_batches_due_now st"

section \<open>The audit log\<close>

definition record_audit_decision :: "audit_row \<Rightarrow> db \<Rightarrow> store_error + audit_row \<times> db" where
  "record_audit_decision decision d =
     chain (insert_audit decision d) (\<lambda>d.
     chain (query_audit_decision_tx d (au_audit_id decision)) (\<lambda>record. Inr (record, d)))"

definition list_audit_decisions :: "db \<Rightarrow> string option \<Rightarrow> int \<Rightarrow> audit_row list" where
  "list_audit_decisions d source_thread_id limit =
     sql_limit (clamp_int 1 500 limit)
       (order_by_desc (\<lambda>a. (au_recorded_at a, au_audit_id a))
         (filter (\<lambda>a. source_thread_id = None \<or> source_thread_id = au_source_thread_id a)
           (audit_decisions d)))"

end
