(* ===== verification/Cbth_Refinement.thy ===== *)
theory Cbth_Refinement
  imports Cbth_Protocol Cbth_Lifecycle
begin

text \<open>
  Every operation of the store refines the delivery protocol: what it does to the delivery tables is
  a sequence of protocol steps, in which no attempt starts to wait for the desktop (\<open>wsteps W\<close>, for any
  \<open>W\<close>), and operations on other tables leave the delivery tables alone.
\<close>

section \<open>Operations that leave the delivery tables alone\<close>

lemma dview_other [simp]:
  "dview (d\<lparr>jobs := x1\<rparr>) = dview d" "dview (d\<lparr>tasks := x2\<rparr>) = dview d"
  "dview (d\<lparr>artifacts := x3\<rparr>) = dview d" "dview (d\<lparr>artifact_ingests := x4\<rparr>) = dview d"
  "dview (d\<lparr>batch_jobs := x5\<rparr>) = dview d" "dview (d\<lparr>plugin_delivery_requests := x6\<rparr>) = dview d"
  "dview (d\<lparr>audit_decisions := x7\<rparr>) = dview d" "dview (d\<lparr>desktop_installation := x8\<rparr>) = dview d"
  "dview (d\<lparr>desktop_bindings := x9\<rparr>) = dview d"
  "dview (d\<lparr>desktop_transcript_relay_consumptions := x10\<rparr>) = dview d"
  "dview (d\<lparr>desktop_relay_scanner_bindings := x11\<rparr>) = dview d"
  "dview (d\<lparr>desktop_transcript_relay_markers := x12\<rparr>) = dview d"
  by (simp_all add: dview_def)

lemma dview_update [simp]:
  "dview (d\<lparr>batches := B\<rparr>) = (B, delivery_attempts d, cli_managed_sessions d)"
  "dview (d\<lparr>delivery_attempts := A\<rparr>) = (batches d, A, cli_managed_sessions d)"
  "dview (d\<lparr>cli_managed_sessions := S\<rparr>) = (batches d, delivery_attempts d, S)"
  by (simp_all add: dview_def)

lemma dview_job_ops [simp]:
  "dview (update_task i f d) = dview d" "dview (update_job j g d) = dview d"
  "dview (abandon_artifact_ingest k d) = dview d" "dview (delete_job_cascade j d) = dview d"
  "dview (mark_artifact_manifest_sync_attempted k n d) = dview d"
  "dview (mark_artifact_gc_attempted k n d) = dview d" "dview (mark_task_log_gc_attempted i n d) = dview d"
  "dview (refresh_artifact_ingest k n d) = dview d"
  by (simp_all add: update_task_def update_job_def abandon_artifact_ingest_def delete_job_cascade_def
      mark_artifact_manifest_sync_attempted_def mark_artifact_gc_attempted_def
      mark_task_log_gc_attempted_def refresh_artifact_ingest_def)

lemma dview_inserts:
  "insert_job j d = Inr d' \<Longrightarrow> dview d' = dview d"
  "insert_task t d = Inr d' \<Longrightarrow> dview d' = dview d"
  "insert_artifact ar d = Inr d' \<Longrightarrow> dview d' = dview d"
  "insert_artifact_ingest ai d = Inr d' \<Longrightarrow> dview d' = dview d"
  "insert_batch_job bj d = Inr d' \<Longrightarrow> dview d' = dview d"
  "insert_plugin_request p d = Inr d' \<Longrightarrow> dview d' = dview d"
  "insert_audit au d = Inr d' \<Longrightarrow> dview d' = dview d"
  by (auto simp: insert_defs)

lemma dview_sync:
  "dview (snd (sync_artifact_manifests rewrite arts now d)) = dview d"
proof -
  have one: "sync_artifact_manifest rewrite i now d = Inr (b, d') \<Longrightarrow> dview d' = dview d" for i b d d'
    by (auto simp: sync_artifact_manifest_def Let_def split: option.splits if_splits)
  have "dview (snd (sync_artifact_manifests_loop rewrite now arts (r, d))) = dview d" for r
  proof (induction arts arbitrary: r d)
    case (Cons ar arts)
    show ?case
      using Cons one by (auto split: sum.splits bool.splits prod.splits)
  qed simp
  then show ?thesis by (simp add: sync_artifact_manifests_def)
qed

lemma dview_extend:
  "extend_closed_batch_artifact_retention_tx x now d = Inr (arts, d') \<Longrightarrow> dview d' = dview d"
  by (auto simp: extend_closed_batch_artifact_retention_tx_def Let_def)

section \<open>The building blocks\<close>

lemma insert_batch_steps:
  assumes "insert_batch_tx nb ids d = Inr d'"
  shows "wsteps W (dview d) (dview d')"
proof -
  obtain d1 where d1: "insert_batch_row
       \<lparr>b_batch_id = nb_batch_id nb, b_source_thread_id = nb_source_thread_id nb,
        b_state = BatchOpen, b_replay_policy = Automatic, b_close_reason = None, b_close_note = None,
        b_summary = nb_summary nb, b_created_at = nb_created_at nb,
        b_updated_at = nb_created_at nb, b_closed_at = None,
        b_redelivery_window_ends_at = nb_redelivery_window_ends_at nb,
        b_max_delivery_attempts = nb_max_delivery_attempts nb, b_delivery_attempt_count = 0,
        b_delivery_policy = nb_policy nb, b_inline_payload_bytes = nb_inline_payload_bytes nb,
        b_requires_artifact_read = nb_requires_artifact_read nb\<rparr> d = Inr d1"
    and loop: "for_each (\<lambda>(position, job_id).
        insert_batch_job \<lparr>bj_batch_id = nb_batch_id nb, bj_job_id = job_id, bj_position = int position\<rparr>)
      (enumerate 0 ids) d1 = Inr d'"
    using assms by (auto simp: insert_batch_tx_def)
  have "dview d' = dview d1"
    by (rule for_each_invariant [OF loop]) (auto dest: dview_inserts)
  moreover have "wstep W (dview d) (dview d1)"
    using d1 by (auto simp: insert_batch_row_def dview_def batch_ok_def intro!: wstep_new_batch)
  ultimately show ?thesis by (simp add: wsteps_one)
qed

lemma manual_steps [simp, intro]: "wsteps W (dview d) (dview (set_batch_manual x w now d))"
  unfolding set_batch_manual_def dview_update
  by (rule wsteps_one, unfold dview_def, rule wstep_manual [unfolded manual_batch_row_def])

lemma session_steps:
  assumes "\<And>s. s \<in> set (cli_managed_sessions d) \<Longrightarrow> p s \<Longrightarrow> session_le s (f s) \<and> (session_ok s \<longrightarrow> session_ok (f s))"
  shows "wsteps W (dview d) (dview (d\<lparr>cli_managed_sessions := update_where p f (cli_managed_sessions d)\<rparr>))"
  using assms by (auto simp: dview_def intro!: wsteps_one wstep_session)

lemma clear_proofs [simp]:
  "cli_session_proof_is_clear (clear_current_proof s)"
  "session_ok s \<Longrightarrow> s_session_state s \<noteq> Retired \<Longrightarrow> session_ok ((clear_current_proof s)\<lparr>s_session_epoch := s_session_epoch s + 1, s_updated_at := now\<rparr>)"
  by (simp_all add: clear_current_proof_def cli_session_proof_is_clear_def session_ok_def)

lemma invalidate_steps [simp, intro]:
  "wsteps W (dview d) (dview (invalidate_cli_managed_session_activity_tx sid epoch now d))"
  unfolding invalidate_cli_managed_session_activity_tx_def
  by (cases sid; cases epoch; simp only: option.case prod.case wsteps_refl)
    (rule session_steps, auto simp: session_le_def clear_current_proof_def session_ok_def
      cli_session_proof_is_clear_def)

lemma park_steps [simp, intro]: "wsteps W (dview d) (dview (park_cli_managed_session_tx sid now d))"
  unfolding park_cli_managed_session_tx_def
  by (cases sid; simp only: option.case wsteps_refl)
    (rule session_steps, auto simp: session_le_def clear_current_proof_def clear_startup_proof_def
      session_ok_def cli_session_proof_is_clear_def)

lemma detach_steps [simp, intro]: "wsteps W (dview d) (dview (detach_cli_managed_session_tx sid now d))"
  unfolding detach_cli_managed_session_tx_def
  by (rule session_steps) (auto simp: session_le_def session_ok_def cli_session_proof_is_clear_def)

lemma fold_steps:
  assumes "\<And>x d. x \<in> set xs \<Longrightarrow> wsteps W (dview d) (dview (f x d))"
  shows "wsteps W (dview d) (dview (fold f xs d))"
  using assms by (induction xs arbitrary: d) (auto intro: wsteps_trans)

lemma settle_steps:
  assumes "\<And>a. a \<in> set (delivery_attempts d) \<Longrightarrow> p a \<Longrightarrow> calm a (f a)"
  shows "wsteps W (dview d) (dview (update_attempts p f d))"
  using assms by (auto simp: dview_def update_attempts_def intro!: wsteps_one wstep_settle)

text \<open>Closing a batch, possibly right after the update that records its delivery.\<close>

lemma close_steps:
  assumes "close_batch_tx x reason note now (update_attempts p f d) = Inr d'"
    and "\<And>a. a \<in> set (delivery_attempts d) \<Longrightarrow> p a \<Longrightarrow> a_batch_id a = x \<and> delivers a (f a)"
  shows "wsteps W (dview d) (dview d')"
proof -
  let ?d = "d\<lparr>batches := update_where (\<lambda>b. b_batch_id b = x \<and> b_state b = BatchOpen)
        (close_batch_row reason note now) (batches d),
      delivery_attempts := update_where (\<lambda>a. a_batch_id a = x \<and> active a) (close_attempt_row now)
        (update_where p f (delivery_attempts d))\<rparr>"
  obtain fences where d': "d' = fold (\<lambda>(sid, epoch). invalidate_cli_managed_session_activity_tx sid epoch now) fences ?d"
    using assms(1)
    by (auto simp: close_batch_tx_def update_attempts_def close_batch_row_def [abs_def]
        close_attempt_row_def [abs_def] Let_def)
  have "wstep W (dview d) (dview ?d)"
    using assms(2) by (auto simp: dview_def intro!: wstep_close)
  moreover have "wsteps W (dview ?d) (dview d')" unfolding d' by (rule fold_steps) auto
  ultimately show ?thesis by (blast intro: wsteps_one wsteps_trans)
qed

lemma update_attempts_none [simp]: "update_attempts (\<lambda>_. False) f d = d"
  by (simp add: update_attempts_def update_where_none)

lemma close_batch_steps: "close_batch_tx x reason note now d = Inr d' \<Longrightarrow> wsteps W (dview d) (dview d')"
  using close_steps [of x reason "note" now "\<lambda>_. False" id d d'] by simp

lemma close_delivered_steps:
  assumes "close_delivered_batch x note now (update_attempts p f d) = Inr (arts, d')"
    and "\<And>a. a \<in> set (delivery_attempts d) \<Longrightarrow> p a \<Longrightarrow> a_batch_id a = x \<and> delivers a (f a)"
  shows "wsteps W (dview d) (dview d')"
proof -
  obtain d1 where d1: "close_batch_tx x ''delivered'' (Some note) now (update_attempts p f d) = Inr d1"
    and "extend_closed_batch_artifact_retention_tx x now d1 = Inr (arts, d')"
    using assms(1) by (auto simp: close_delivered_batch_def)
  then have "dview d' = dview d1" by (blast dest: dview_extend)
  with close_steps [OF d1 assms(2)] show ?thesis by simp
qed

section \<open>Updates of attempts that settle them\<close>

lemmas settle_defs = calm_def settles_def attempt_le_def attempt_identity_def spent_def active_def attempt_ok_def
  desktop_attempt_ok_def

lemma settle_pre_accept_end:
  "outcome = RpcUnknown \<or> outcome = RejectedBeforeAccept \<and> a_adapter_kind a \<noteq> CodexAppServer \<Longrightarrow>
    pending_acceptance a \<Longrightarrow> calm a (a\<lparr>a_state := Abandoned, a_delivery_rpc_state := Some outcome,
      a_delivery_observation_state := Some ObservationAbandoned, a_updated_at := now, a_abandoned_at := Some now\<rparr>)"
  by (auto simp: settle_defs pending_acceptance_def)

lemma settle_observation_end:
  "outcome \<in> {ObservationExpired, ObservationAbandoned} \<Longrightarrow> tracking a \<Longrightarrow>
    calm a (a\<lparr>a_state := Abandoned, a_delivery_observation_state := Some outcome,
      a_updated_at := now, a_abandoned_at := Some now\<rparr>)"
  by (auto simp: settle_defs tracking_def)

lemma settle_abandon_turn:
  "outcome \<in> {ObservationExpired, ObservationAbandoned} \<Longrightarrow> tracking a \<Longrightarrow>
    calm a (a\<lparr>a_state := Abandoned, a_delivery_observation_state := Some outcome,
      a_last_observed_turn_event := Some ev, a_last_observed_turn_event_at := Some now,
      a_updated_at := now, a_abandoned_at := Some now\<rparr>)"
  by (auto simp: settle_defs tracking_def)

lemma settle_epoch_bound:
  "epoch_bound_observation a \<Longrightarrow> calm a (a\<lparr>a_state := Abandoned,
     a_delivery_observation_state := Some ObservationAbandoned, a_updated_at := now, a_abandoned_at := Some now\<rparr>)"
  by (auto simp: settle_defs epoch_bound_observation_def split: if_splits)

lemma settle_evidence:
  "a_state a \<in> {Abandoned, Cooldown} \<Longrightarrow> calm a (a\<lparr>a_last_observed_turn_event := e,
     a_last_observed_turn_event_at := t, a_updated_at := now\<rparr>)"
  (is "_ \<Longrightarrow> calm a ?a")
proof -
  assume st: "a_state a \<in> {Abandoned, Cooldown}"
  have ok: "attempt_ok ?a = attempt_ok a"
    by (cases "a_state a") (simp_all add: attempt_ok_def desktop_attempt_ok_def)
  have "a_state a \<noteq> AttemptClosed" using st by auto
  then show ?thesis
    unfolding calm_def settles_def attempt_le_def ok by (simp add: attempt_identity_def spent_def active_def)
qed

lemma settle_manualize: "active a \<Longrightarrow> calm a (manualize_attempt now a)"
  by (cases "a_state a") (auto simp: settle_defs manualize_attempt_def)

lemma settle_desktop: "a_adapter_kind a = Desktop \<Longrightarrow> a_state a \<in> {Prepared, ArmPending} \<Longrightarrow>
    calm a (abandon_desktop_attempt now a)"
  by (auto simp: settle_defs abandon_desktop_attempt_def)

lemma pre_accept_end_steps:
  assumes "outcome = RpcUnknown \<or> outcome = RejectedBeforeAccept \<and>
    (\<forall>a\<in>set (delivery_attempts d). a_attempt_id a = i \<longrightarrow> a_adapter_kind a \<noteq> CodexAppServer)"
  shows "wsteps W (dview d) (dview (store_pre_accept_end outcome i now d))"
  unfolding store_pre_accept_end_def
  by (rule settle_steps) (use assms in \<open>auto intro!: settle_pre_accept_end\<close>)

lemma observation_end_steps:
  "outcome \<in> {ObservationExpired, ObservationAbandoned} \<Longrightarrow>
    wsteps W (dview d) (dview (store_observation_end outcome i now d))"
  unfolding store_observation_end_def by (rule settle_steps) (auto intro!: settle_observation_end)

lemma abandon_turn_steps:
  "outcome \<in> {ObservationExpired, ObservationAbandoned} \<Longrightarrow>
    wsteps W (dview d) (dview (abandon_cli_turn_observation_tx a ev outcome now d))"
  unfolding abandon_cli_turn_observation_tx_def by (rule settle_steps) (auto intro!: settle_abandon_turn)

lemma late_evidence_steps [simp, intro]: "wsteps W (dview d) (dview (record_late_cli_turn_evidence_tx a ev now d))"
  unfolding record_late_cli_turn_evidence_tx_def by (rule settle_steps) (auto intro!: settle_evidence)

lemma turn_started_steps [simp, intro]: "wsteps W (dview d) (dview (store_turn_started i now d))"
  unfolding store_turn_started_def
  by (rule settle_steps) (auto intro!: settle_evidence simp: tracking_def)

lemma epoch_loss_steps:
  assumes "abandon_cli_observations_for_session_epoch_loss_tx sid now d = Inr d'"
  shows "wsteps W (dview d) (dview d')"
proof -
  have one: "wsteps W (dview d) (dview (abandon_one_epoch_bound_observation w now x d))" for w x d
  proof -
    obtain i bid where x: "x = (i, bid)" by (cases x)
    have "wsteps W (dview d) (dview (update_attempts
          (\<lambda>a. a_attempt_id a = i \<and> epoch_bound_observation a)
          (\<lambda>a. a\<lparr>a_state := Abandoned, a_delivery_observation_state := Some ObservationAbandoned,
                a_updated_at := now, a_abandoned_at := Some now\<rparr>) d))"
      by (rule settle_steps) (auto intro: settle_epoch_bound)
    then show ?thesis
      unfolding abandon_one_epoch_bound_observation_def x prod.case update_attempts_def [symmetric]
      by (rule wsteps_trans) simp
  qed
  define xs where "xs = map (\<lambda>a. (a_attempt_id a, a_batch_id a))
      (filter (\<lambda>a. a_adapter_kind a = Cli \<and> a_managed_session_id a = Some sid \<and>
        batch_state_is d BatchOpen a \<and> epoch_bound_observation a) (delivery_attempts d))"
  obtain w where "d' = (if xs \<noteq> []
      then park_cli_managed_session_tx (Some sid) now (fold (abandon_one_epoch_bound_observation w now) xs d)
      else fold (abandon_one_epoch_bound_observation w now) xs d)"
    using assms
    unfolding abandon_cli_observations_for_session_epoch_loss_tx_def xs_def [symmetric] Let_def chain_ok_iff
    by blast
  moreover have "wsteps W (dview d) (dview (fold (abandon_one_epoch_bound_observation w now) xs d))"
    by (rule fold_steps) (rule one)
  ultimately show ?thesis by (auto intro: wsteps_trans split: if_splits)
qed

text \<open>The session tables after an epoch loss: nobody was retired, and no session was added.\<close>

lemma set_batch_manual_tables [simp]:
  "cli_managed_sessions (set_batch_manual x w now d) = cli_managed_sessions d"
  "delivery_attempts (set_batch_manual x w now d) = delivery_attempts d"
  by (simp_all add: set_batch_manual_def)

lemma epoch_loss_sessions:
  assumes "abandon_cli_observations_for_session_epoch_loss_tx sid now d = Inr d'"
  shows "cli_managed_sessions d' = cli_managed_sessions d \<or>
    cli_managed_sessions d' = cli_managed_sessions (park_cli_managed_session_tx (Some sid) now d)"
proof -
  have "cli_managed_sessions (fold (abandon_one_epoch_bound_observation w now) xs d) = cli_managed_sessions d" for w xs
    by (induction xs arbitrary: d) (simp_all add: abandon_one_epoch_bound_observation_def split: prod.splits)
  then show ?thesis
    using assms
    by (auto simp: abandon_cli_observations_for_session_epoch_loss_tx_def Let_def
        park_cli_managed_session_tx_def split: if_splits)
qed

section \<open>Charging an attempt to its batch\<close>

lemma charge_steps:
  assumes "spend_delivery_attempt (a_batch_id a) now (update_attempts p f d) = Inr d'"
    and "a \<in> set (delivery_attempts d)" "p a"
    and "\<And>q. q \<in> set (delivery_attempts d) \<Longrightarrow> p q \<Longrightarrow> a_attempt_id q = a_attempt_id a \<and> charges q (f q)"
  shows "wsteps W (dview d) (dview d')"
proof -
  let ?P = "\<lambda>b. b_batch_id b = a_batch_id a \<and> b_state b = BatchOpen \<and>
    b_delivery_attempt_count b < b_max_delivery_attempts b"
  have one: "count_where ?P (batches d) = 1"
    and d': "d' = (update_attempts p f d)\<lparr>batches := update_where ?P (spend_batch_row now) (batches d)\<rparr>"
    using assms(1)
    by (auto simp: spend_delivery_attempt_def update_attempts_def spend_batch_row_def [abs_def] Let_def)
  then obtain b where "b \<in> set (batches d)" "?P b"
    using count_where_pos_iff [of ?P "batches d"] by auto
  then have "dstep (dview d) (dview d')"
    using assms(2-4) unfolding d' dview_def update_attempts_def
    by (auto intro!: dstep.charge)
  then have "wstep W (dview d) (dview d')"
    using assms(4) unfolding d' dview_def update_attempts_def by (auto intro: wstep_charge)
  then show ?thesis by (rule wsteps_one)
qed

text \<open>Under the invariant an attempt id names one row.\<close>

lemma dinv_attempt_unique:
  "dinv (dview d) \<Longrightarrow> a \<in> set (delivery_attempts d) \<Longrightarrow> q \<in> set (delivery_attempts d) \<Longrightarrow>
    a_attempt_id q = a_attempt_id a \<Longrightarrow> q = a"
  by (auto simp: dview_def attempt_keys_ok_def intro: distinct_key_eq)

lemma dinv_batch_unique:
  "dinv (dview d) \<Longrightarrow> b \<in> set (batches d) \<Longrightarrow> c \<in> set (batches d) \<Longrightarrow> b_batch_id c = b_batch_id b \<Longrightarrow> c = b"
  by (auto simp: dview_def intro: distinct_key_eq)

lemma dinv_session_unique:
  "dinv (dview d) \<Longrightarrow> s \<in> set (cli_managed_sessions d) \<Longrightarrow> r \<in> set (cli_managed_sessions d) \<Longrightarrow>
    s_managed_session_id r = s_managed_session_id s \<Longrightarrow> r = s"
  by (auto simp: dview_def sessions_ok_def intro: distinct_key_eq)

lemma accept_steps:
  assumes "spend_delivery_attempt (a_batch_id a) now (store_acceptance (a_attempt_id a) turn now dl d) = Inr d'"
    and inv: "dinv (dview d)" and a: "a \<in> set (delivery_attempts d)" "pending_acceptance a"
  shows "wsteps W (dview d) (dview d')"
proof -
  have "a_adapter_kind q \<noteq> Desktop" if "q \<in> set (delivery_attempts d)" "pending_acceptance q" for q
    using inv that by (auto simp: dview_def attempt_ok_def desktop_attempt_ok_def pending_acceptance_def)
  with assms(1) a show ?thesis
    unfolding store_acceptance_def
    by (auto simp: charges_def spent_def pending_acceptance_def attempt_identity_def active_def attempt_ok_def
        elim!: charge_steps)
qed

lemma reject_spend_steps:
  assumes "spend_delivery_attempt (a_batch_id a) now
      (store_pre_accept_end RejectedBeforeAccept (a_attempt_id a) now d) = Inr d'"
    and "dinv (dview d)" "a \<in> set (delivery_attempts d)" "pending_acceptance a" "a_adapter_kind a = CodexAppServer"
  shows "wsteps W (dview d) (dview d')"
  using assms(1) unfolding store_pre_accept_end_def
proof (rule charge_steps)
  show "a \<in> set (delivery_attempts d)" by fact
  show "a_attempt_id a = a_attempt_id a \<and> pending_acceptance a" using assms(4) by simp
  fix q assume q: "q \<in> set (delivery_attempts d)" "a_attempt_id q = a_attempt_id a \<and> pending_acceptance q"
  then have "q = a" using dinv_attempt_unique [OF assms(2,3)] by simp
  moreover have "attempt_ok a" using assms(2,3) by (simp add: dview_def)
  ultimately show "a_attempt_id q = a_attempt_id a \<and> charges q (q\<lparr>a_state := Abandoned,
      a_delivery_rpc_state := Some RejectedBeforeAccept,
      a_delivery_observation_state := Some ObservationAbandoned, a_updated_at := now, a_abandoned_at := Some now\<rparr>)"
    using assms(4,5) by (simp add: charges_def spent_def pending_acceptance_def attempt_identity_def
      active_def attempt_ok_def)
qed

end
