(* ===== verification/Cbth_Operations.thy ===== *)
theory Cbth_Operations
  imports Cbth_Refinement
begin

text \<open>
  Operation by operation, what the store does to its delivery tables is a sequence of protocol steps:
  jobs and tasks, sessions, the adapters, plugin deliveries and the sweep.
\<close>

section \<open>Jobs and tasks\<close>

lemma submit_view: "submit_job_for_supervisor_generation job g d = Inr (r, d') \<Longrightarrow> dview d' = dview d"
  by (auto simp: submit_job_for_supervisor_generation_def insert_pending_job_def dest: dview_inserts)

lemma create_task_view:
  "create_task_with_job_for_supervisor_generation job task g d = Inr (r, d') \<Longrightarrow> dview d' = dview d"
  by (auto simp: create_task_with_job_for_supervisor_generation_def insert_pending_job_def dest!: dview_inserts)

lemma delete_unstarted_view: "delete_unstarted_task_with_job i j d = Inr (r, d') \<Longrightarrow> dview d' = dview d"
  by (auto simp: delete_unstarted_task_with_job_def)

lemma mark_started_view: "mark_task_started i pid ident now d = Inr (r, d') \<Longrightarrow> dview d' = dview d"
  by (auto simp: mark_task_started_def Let_def)

lemma request_cancel_view: "request_task_cancel i now d = Inr (r, d') \<Longrightarrow> dview d' = dview d"
  by (auto simp: request_task_cancel_def Let_def split: if_splits)

lemma store_task_end_view: "store_task_end u d = Inr d' \<Longrightarrow> dview d' = dview d"
  by (auto simp: store_task_end_def)

lemma finish_task_view: "finish_task u d = Inr (r, d') \<Longrightarrow> dview d' = dview d"
  by (auto simp: finish_task_def dest: store_task_end_view)

lemma begin_ingest_view: "begin_artifact_ingest j k now d = Inr (r, d') \<Longrightarrow> dview d' = dview d"
  by (auto simp: begin_artifact_ingest_def dest: dview_inserts)

lemma audit_view: "record_audit_decision au d = Inr (r, d') \<Longrightarrow> dview d' = dview d"
  by (auto simp: record_audit_decision_def dest: dview_inserts)

lemmas job_views = submit_view create_task_view delete_unstarted_view mark_started_view
  request_cancel_view finish_task_view begin_ingest_view audit_view

lemma complete_job_steps:
  "complete_job bid art s now m w d = Inr (r, d') \<Longrightarrow> wsteps W (dview d) (dview d')"
  by (auto simp: complete_job_def insert_new_artifact_def Let_def dest!: dview_inserts(3) insert_batch_steps)

lemma fail_with_artifact_steps:
  "fail_job_with_artifact bid art s now m w d = Inr (r, d') \<Longrightarrow> wsteps W (dview d) (dview d')"
  by (auto simp: fail_job_with_artifact_def insert_new_artifact_def Let_def dest!: dview_inserts(3) insert_batch_steps)

lemma fail_job_steps: "fail_job bid j s now m w d = Inr (r, d') \<Longrightarrow> wsteps W (dview d) (dview d')"
  by (auto simp: fail_job_def Let_def dest!: insert_batch_steps)

lemma fail_pending_steps:
  "fail_pending_supervised_job bid j s now m w d = Inr (r, d') \<Longrightarrow> wsteps W (dview d) (dview d')"
  by (auto simp: fail_pending_supervised_job_def Let_def dest!: insert_batch_steps)

lemma fail_supervised_steps:
  "fail_supervised_task_with_job bid j s u m w d = Inr (r, d') \<Longrightarrow> wsteps W (dview d) (dview d')"
  by (auto simp: fail_supervised_task_with_job_def split: if_splits
      dest!: store_task_end_view fail_pending_steps)

lemma recover_lost_task_steps: "wsteps W (dview d) (dview (snd (recover_lost_task ids now (t, j) d)))"
  by (auto simp: recover_lost_task_def Let_def split: job_status.split sum.split prod.split if_split
      dest!: finish_task_view fail_job_steps)

lemma recover_lost_tasks_steps: "wsteps W (dview d) (dview (snd (recover_lost_tasks ids now m act tjs n d)))"
proof (induction tjs arbitrary: n d)
  case (Cons tj tjs)
  obtain t j where tj: "tj = (t, j)" by (cases tj)
  note one = recover_lost_task_steps [of W d ids now t j]
  show ?case
    using Cons.IH one
    by (auto simp: tj split: sum.split bool.split prod.split if_split intro: wsteps_trans)
qed simp

lemma fail_lost_steps:
  "wsteps W (dview d) (dview (snd (fail_lost_tasks_matching_excluding_with ids now m act d)))"
  unfolding fail_lost_tasks_matching_excluding_with_def by (rule recover_lost_tasks_steps)

section \<open>Sessions\<close>

lemma update_session_steps:
  assumes inv: "dinv (dview d)" and s: "query_cli_managed_session_tx d sid = Inr s"
    and "session_le s (f s)" "session_ok s \<Longrightarrow> session_ok (f s)"
  shows "wsteps W (dview d) (dview (update_session sid f d))"
  unfolding update_session_def
proof (rule session_steps)
  fix r assume "r \<in> set (cli_managed_sessions d)" "s_managed_session_id r = sid"
  moreover have "s \<in> set (cli_managed_sessions d)" "s_managed_session_id s = sid"
    using query_session_ok [OF s] by simp_all
  ultimately have "r = s" using dinv_session_unique [OF inv] by metis
  then show "session_le r (f r) \<and> (session_ok r \<longrightarrow> session_ok (f r))" using assms(3,4) by simp
qed

lemma create_session_steps:
  "create_cli_managed_session_tx i th prof now d = Inr (r, d') \<Longrightarrow> wsteps W (dview d) (dview d')"
  by (auto simp: create_cli_managed_session_tx_def insert_session_def dview_def session_ok_def
      cli_session_proof_is_clear_def intro!: wsteps_one wstep_new_session)

lemma retire_steps:
  assumes "retire_cli_managed_session_tx aid s dec reason now d = Inr (r, d')"
  shows "wsteps W (dview d) (dview d')"
proof -
  let ?d = "d\<lparr>cli_managed_sessions := update_where
      (\<lambda>q. s_managed_session_id q = s_managed_session_id s \<and> s_session_state q \<noteq> Retired)
      (\<lambda>q. (clear_startup_proof (clear_current_proof q))\<lparr>s_session_state := Retired,
             s_updated_at := now, s_retired_at := Some now\<rparr>) (cli_managed_sessions d)\<rparr>"
  have "dview d' = dview ?d"
    using assms by (auto simp: retire_cli_managed_session_tx_def Let_def dest!: dview_inserts(7))
  moreover have "wsteps W (dview d) (dview ?d)"
    by (rule session_steps)
      (auto simp: session_le_def session_ok_def clear_current_proof_def clear_startup_proof_def
        cli_session_proof_is_clear_def)
  ultimately show ?thesis by simp
qed

lemma retire_op_steps: "retire_cli_managed_session aid sid reason now d = Inr (r, d') \<Longrightarrow> wsteps W (dview d) (dview d')"
  by (auto simp: retire_cli_managed_session_def dest: retire_steps)

lemma activity_steps:
  assumes "note_cli_managed_session_activity sid e act rv now d = Inr (r, d')" "dinv (dview d)"
  shows "wsteps W (dview d) (dview d')"
proof -
  obtain s st where s: "query_cli_managed_session_tx d sid = Inr s" and st: "s_session_state s \<in> {Live, Detached}"
    and act: "ensure_cli_session_activity_value act = Inr st" and rv: "0 < rv"
    and d': "d' = d \<or> d' = update_session sid (\<lambda>s. s\<lparr>s_activity_state := st, s_activity_revision := rv,
        s_updated_at := now\<rparr>) d"
    using assms(1)
    by (auto simp: note_cli_managed_session_activity_def ensure_cli_session_attachable_def Let_def split: if_splits)
  have "st \<noteq> ActivityUnknown" using act by (auto simp: ensure_cli_session_activity_value_def split: if_splits)
  with st rv d' show ?thesis
    by (auto intro!: update_session_steps [OF assms(2) s] simp: session_le_def session_ok_def)
qed

lemma capabilities_steps:
  assumes "note_cli_managed_session_capabilities sid e rv c now d = Inr (r, d')" "dinv (dview d)"
  shows "wsteps W (dview d) (dview d')"
proof -
  obtain s f where s: "query_cli_managed_session_tx d sid = Inr s" and st: "s_session_state s \<in> {Live, Detached}"
    and rv: "0 < rv" and d': "d' = d \<or> d' = update_session sid (\<lambda>s. s\<lparr>
                s_capability_revision := rv,
                s_capability_thread_resume := capability_thread_resume c,
                s_capability_turn_start := capability_turn_start c,
                s_capability_current_state_sync := capability_current_state_sync c,
                s_capability_turn_completed_event := capability_turn_completed_event c,
                s_capability_negative_terminal_events := capability_negative_terminal_events c,
                s_capability_thread_start := capability_thread_start c,
                s_capability_turn_steer := capability_turn_steer c, s_updated_at := now\<rparr>) d"
    using assms(1)
    by (auto simp: note_cli_managed_session_capabilities_def ensure_cli_session_attachable_def Let_def split: if_splits)
  with st rv show ?thesis
    by (auto intro!: update_session_steps [OF assms(2) s] simp: session_le_def session_ok_def)
qed

lemma permissions_steps:
  assumes "note_cli_managed_session_permissions sid e snap now d = Inr (r, d')" "dinv (dview d)"
  shows "wsteps W (dview d) (dview d')"
proof -
  obtain s pin nxt where s: "query_cli_managed_session_tx d sid = Inr s" and st: "s_session_state s \<in> {Live, Detached}"
    and pin: "pin = (case snap_startup snap of
                  Some startup \<Rightarrow>
                    if \<not> cli_session_startup_permissions_are_pinned s
                    then (\<lambda>s. s\<lparr>
                      s_startup_session_allows_approval := Some (session_allows_approval startup),
                      s_startup_session_allows_network := Some (session_allows_network startup),
                      s_startup_session_allows_write_access := Some (session_allows_write_access startup),
                      s_startup_permission_snapshot_json := Some (snap_json snap)\<rparr>)
                    else id
                | None \<Rightarrow> id)"
    and d': "d' = update_session sid (\<lambda>s. (pin s)\<lparr>
              s_session_allows_approval := session_allows_approval (snap_effective snap),
              s_session_allows_network := session_allows_network (snap_effective snap),
              s_session_allows_write_access := session_allows_write_access (snap_effective snap),
              s_last_permission_snapshot_json := Some (snap_json snap),
              s_permission_snapshot_revision := nxt, s_updated_at := now\<rparr>) d"
    using assms(1)
    unfolding note_cli_managed_session_permissions_def Let_def chain_ok_iff
    by (auto simp: ensure_cli_session_attachable_def)
  show ?thesis
    unfolding d' pin
    by (rule update_session_steps [OF assms(2) s])
      (use st in \<open>auto simp: session_le_def session_ok_def split: option.splits\<close>)
qed

lemma invalidate_proof_steps:
  "invalidate_cli_managed_session_proof sid e now d = Inr (r, d') \<Longrightarrow> wsteps W (dview d) (dview d')"
  by (auto simp: invalidate_cli_managed_session_proof_def Let_def split: if_splits
      dest!: epoch_loss_steps intro: wsteps_trans)

lemma invalidate_detach_steps [simp, intro]:
  "wsteps W (dview d) (dview (detach_cli_managed_session_tx sid now
    (invalidate_cli_managed_session_activity_tx i e now d)))"
  by (rule wsteps_trans [OF invalidate_steps detach_steps])

lemma invalidate_current_proof_steps:
  "invalidate_cli_managed_session_current_proof sid th now d = Inr (r, d') \<Longrightarrow> wsteps W (dview d) (dview d')"
  by (auto simp: invalidate_cli_managed_session_current_proof_def Let_def split: if_splits
      dest!: epoch_loss_steps intro: wsteps_trans)

lemma existing_session_ok:
  "query_non_retired_cli_managed_session_by_thread_tx d th = Some s \<Longrightarrow>
    s \<in> set (cli_managed_sessions d) \<and> s_session_state s \<noteq> Retired \<and> s_bound_thread_id s = th"
proof -
  assume "query_non_retired_cli_managed_session_by_thread_tx d th = Some s"
  then have "s \<in> set (order_by_desc (\<lambda>s. (s_created_at s, s_managed_session_id s))
       (filter (\<lambda>s. s_bound_thread_id s = th \<and> s_session_state s \<noteq> Retired) (cli_managed_sessions d)))"
    unfolding query_non_retired_cli_managed_session_by_thread_tx_def by (rule first_row_mem)
  then show ?thesis by simp
qed

lemma reattach_steps:
  assumes inv: "dinv (dview d)" and e: "e \<in> set (cli_managed_sessions d)" "s_session_state e \<noteq> Retired"
    and loss: "abandon_cli_observations_for_session_epoch_loss_tx (s_managed_session_id e) now d = Inr d1"
  shows "wsteps W (dview d) (dview (update_session (s_managed_session_id e) (\<lambda>s.
    (clear_startup_proof (clear_current_proof s))\<lparr>s_session_state := Live,
      s_session_epoch := s_session_epoch s + 1, s_updated_at := now\<rparr>) d1))"
proof -
  have alive: "s_session_state r \<noteq> Retired"
    if r: "r \<in> set (cli_managed_sessions d1)" "s_managed_session_id r = s_managed_session_id e" for r
  proof
    assume ret: "s_session_state r = Retired"
    have "r \<in> set (cli_managed_sessions d)"
      using epoch_loss_sessions [OF loss] r(1) ret
      by (auto simp: park_cli_managed_session_tx_def set_update_where split: if_splits)
    then have "r = e" using dinv_session_unique [OF inv e(1)] r(2) by metis
    with ret e(2) show False by simp
  qed
  have "wsteps W (dview d1) (dview (update_session (s_managed_session_id e) (\<lambda>s.
    (clear_startup_proof (clear_current_proof s))\<lparr>s_session_state := Live,
      s_session_epoch := s_session_epoch s + 1, s_updated_at := now\<rparr>) d1))"
    unfolding update_session_def
    by (rule session_steps)
      (use alive in \<open>auto simp: session_le_def session_ok_def clear_current_proof_def clear_startup_proof_def\<close>)
  with epoch_loss_steps [OF loss] show ?thesis by (rule wsteps_trans)
qed

lemma attach_steps:
  assumes op: "attach_or_create_cli_managed_session sid aid th prof req now d = Inr (r, d')"
    and inv: "dinv (dview d)"
  shows "wsteps W (dview d) (dview d')"
proof (cases "query_non_retired_cli_managed_session_by_thread_tx d th")
  case None
  with op show ?thesis
    by (auto simp: attach_or_create_cli_managed_session_def dest: create_session_steps)
next
  case (Some e)
  note ex = existing_session_ok [OF Some]
  have "(\<exists>d1. abandon_cli_observations_for_session_epoch_loss_tx (s_managed_session_id e) now d = Inr d1 \<and>
      d' = update_session (s_managed_session_id e) (\<lambda>s.
        (clear_startup_proof (clear_current_proof s))\<lparr>s_session_state := Live,
          s_session_epoch := s_session_epoch s + 1, s_updated_at := now\<rparr>) d1) \<or>
    (\<exists>s d1 s'. retire_cli_managed_session_tx aid e ''auto_replace'' ''auto-replaced by cli session bind'' now d = Inr (s, d1) \<and>
      create_cli_managed_session_tx sid th prof now d1 = Inr (s', d'))"
    using op Some
    by (auto simp: attach_or_create_cli_managed_session_def Let_def split: if_splits)
  then show ?thesis
    using reattach_steps [OF inv] ex by (auto dest!: retire_steps create_session_steps intro: wsteps_trans)
qed

section \<open>Beginning an attempt\<close>

lemma head_least:
  assumes inv: "dinv (dview d)" and b: "b \<in> set (batches d)" and head: "batch_is_thread_head_tx d b"
  shows "\<And>q. q \<in> set (batches d) \<Longrightarrow> open_in_thread (b_source_thread_id b) q \<Longrightarrow> queue_key b \<le> queue_key q"
    "open_in_thread (b_source_thread_id b) b"
proof -
  obtain h where h: "first_row (order_by queue_key (filter (open_in_thread (b_source_thread_id b)) (batches d))) = Some h"
    and id: "b_batch_id h = b_batch_id b"
    using head by (auto simp: batch_is_thread_head_tx_def thread_head_def)
  have mem: "h \<in> set (batches d)" "open_in_thread (b_source_thread_id b) h"
    using first_row_order_by(1) [OF h] by simp_all
  have "h = b" by (rule dinv_batch_unique [OF inv b mem(1) id])
  with mem(2) show "open_in_thread (b_source_thread_id b) b" by simp
  fix q assume "q \<in> set (batches d)" "open_in_thread (b_source_thread_id b) q"
  with \<open>h = b\<close> show "queue_key b \<le> queue_key q" using first_row_order_by(2) [OF h] by simp
qed

lemma no_active_ok:
  "ensure_no_active_attempt_for_thread_tx d th = Inr u \<Longrightarrow> q \<in> set (delivery_attempts d) \<Longrightarrow>
    a_source_thread_id q = th \<Longrightarrow> \<not> (active q \<and> batch_state_is d BatchOpen q)"
proof -
  assume "ensure_no_active_attempt_for_thread_tx d th = Inr u"
  then have "set (order_by_desc (\<lambda>a. (a_generation a, a_attempt_id a))
      (filter (\<lambda>a. a_source_thread_id a = th \<and> active a \<and> batch_state_is d BatchOpen a) (delivery_attempts d))) = {}"
    unfolding ensure_no_active_attempt_for_thread_tx_def by (simp del: set_order_by_desc split: option.splits)
  then show "q \<in> set (delivery_attempts d) \<Longrightarrow> a_source_thread_id q = th \<Longrightarrow>
      \<not> (active q \<and> batch_state_is d BatchOpen q)" by auto
qed

lemma next_generation_ok:
  "next_attempt_generation_tx d x = Inr g \<Longrightarrow> q \<in> set (delivery_attempts d) \<Longrightarrow> a_batch_id q = x \<Longrightarrow>
    a_generation q < g"
proof -
  assume g: "next_attempt_generation_tx d x = Inr g" and q: "q \<in> set (delivery_attempts d)" "a_batch_id q = x"
  then obtain m where m: "max_generation d x = Some m"
    by (cases "max_generation d x") (auto simp: max_generation_def filter_empty_conv)
  have "a_generation q \<le> m"
    using m q unfolding max_generation_def max_agg_Some_iff by auto
  moreover have "g = m + 1" using g m by (simp add: next_attempt_generation_tx_def checked_add_Some_iff)
  ultimately show ?thesis by simp
qed

lemma insert_begins_steps:
  assumes b: "b \<in> set (batches d)" "b_batch_id b = a_batch_id a" "b_source_thread_id b = a_source_thread_id a"
      "b_state b = BatchOpen" "b_replay_policy b = Automatic"
      "b_delivery_attempt_count b < b_max_delivery_attempts b"
    and head: "\<And>q. q \<in> set (batches d) \<Longrightarrow> open_in_thread (a_source_thread_id a) q \<Longrightarrow> queue_key b \<le> queue_key q"
    and idle: "\<And>q. q \<in> set (delivery_attempts d) \<Longrightarrow> a_source_thread_id q = a_source_thread_id a \<Longrightarrow>
      \<not> (active q \<and> batch_state_is d BatchOpen q)"
    and gen: "\<And>q. q \<in> set (delivery_attempts d) \<Longrightarrow> a_batch_id q = a_batch_id a \<Longrightarrow> a_generation q < a_generation a"
    and ins: "insert_attempt a d = Inr d'"
    and a: "begins a" "a_authorization_mode a = StrictSafe \<longrightarrow> detached_delivery_safe b"
  shows "wsteps W (dview d) (dview d')"
proof -
  have "dstep (batches d, delivery_attempts d, cli_managed_sessions d)
      (batches d, delivery_attempts d @ [a], cli_managed_sessions d)"
    by (rule dstep.begin_attempt [where b = b])
      (use b head idle gen ins a in \<open>auto simp: insert_attempt_def batch_state_is_def\<close>)
  moreover have "dview d' = (batches d, delivery_attempts d @ [a], cli_managed_sessions d)"
    using ins by (auto simp: insert_attempt_def)
  ultimately show ?thesis using wstep_begin a(1) by (simp add: dview_def wsteps_one)
qed

lemma begin_insert_steps:
  assumes inv: "dinv (dview d)" and b: "query_batch_tx d (a_batch_id a) = Inr b"
    and checks: "ensure_batch_open b = Inr u1" "ensure_batch_is_thread_head_tx d b = Inr u2"
      "ensure_batch_allows_automatic_delivery b = Inr u3" "ensure_attempt_budget_remaining b = Inr u4"
      "ensure_no_active_attempt_for_thread_tx d (b_source_thread_id b) = Inr u5"
      "next_attempt_generation_tx d (a_batch_id a) = Inr (a_generation a)"
    and ins: "insert_attempt a d = Inr d'"
    and a: "a_source_thread_id a = b_source_thread_id b" "begins a"
      "a_authorization_mode a = StrictSafe \<longrightarrow> detached_delivery_safe b"
  shows "wsteps W (dview d) (dview d')"
proof (rule insert_begins_steps [OF _ _ _ _ _ _ _ _ _ ins a(2,3)])
  show mem: "b \<in> set (batches d)" "b_batch_id b = a_batch_id a" using query_batch_ok [OF b] by simp_all
  have "batch_is_thread_head_tx d b" using checks(2) by (simp add: ensure_batch_is_thread_head_tx_def)
  then show "\<And>q. q \<in> set (batches d) \<Longrightarrow> open_in_thread (a_source_thread_id a) q \<Longrightarrow> queue_key b \<le> queue_key q"
    using head_least(1) [OF inv mem(1)] a(1) by simp
  show "\<And>q. q \<in> set (delivery_attempts d) \<Longrightarrow> a_source_thread_id q = a_source_thread_id a \<Longrightarrow>
      \<not> (active q \<and> batch_state_is d BatchOpen q)"
    using no_active_ok [OF checks(5)] a(1) by simp
  show "\<And>q. q \<in> set (delivery_attempts d) \<Longrightarrow> a_batch_id q = a_batch_id a \<Longrightarrow> a_generation q < a_generation a"
    using next_generation_ok [OF checks(6)] .
qed (use checks a in \<open>simp_all add: ensure_batch_open_def ensure_batch_allows_automatic_delivery_def
      ensure_attempt_budget_remaining_def\<close>)

lemma begin_cli_steps:
  assumes "begin_cli_accept_pending_attempt att d = Inr (r, d')" and inv: "dinv (dview d)"
  shows "wsteps W (dview d) (dview d')"
proof (cases "query_delivery_attempt_by_rpc_request_id_tx d (nc_delivery_rpc_request_id att)")
  case (Some e)
  with assms(1) show ?thesis by (auto simp: begin_cli_accept_pending_attempt_def)
next
  case None
  obtain mode b s k g d1 where b: "query_batch_tx d (nc_batch_id att) = Inr b"
    and checks: "ensure_batch_open b = Inr ()" "ensure_batch_is_thread_head_tx d b = Inr ()"
      "ensure_batch_allows_automatic_delivery b = Inr ()" "ensure_attempt_budget_remaining b = Inr ()"
      "ensure_no_active_attempt_for_thread_tx d (b_source_thread_id b) = Inr ()"
      "next_attempt_generation_tx d (nc_batch_id att) = Inr g"
    and safe: "ensure_batch_allows_cli_delivery_for_authorization b mode = Inr ()"
    and ins: "insert_attempt (pending_cli_attempt_row att b mode k s g) d = Inr d'"
    using assms(1) None unfolding begin_cli_accept_pending_attempt_def by auto
  show ?thesis
    by (rule begin_insert_steps [OF inv _ _ _ _ _ _ _ ins])
      (use b checks safe in \<open>auto simp: pending_cli_attempt_row_def begins_def pending_acceptance_def attempt_ok_def
        ensure_batch_allows_cli_delivery_for_authorization_def ensure_batch_allows_detached_cli_delivery_def\<close>)
qed

lemma begin_codex_tx_steps:
  assumes "begin_codex_app_server_accept_pending_attempt_tx att d = Inr (r, d')" and inv: "dinv (dview d)"
  shows "wsteps W (dview d) (dview d')"
proof (cases "query_delivery_attempt_by_rpc_request_id_tx d (nx_delivery_rpc_request_id att)")
  case (Some e)
  with assms(1) show ?thesis by (auto simp: begin_codex_app_server_accept_pending_attempt_tx_def)
next
  case None
  obtain b g d1 where b: "query_batch_tx d (nx_batch_id att) = Inr b"
    and checks: "ensure_batch_open b = Inr ()" "ensure_batch_is_thread_head_tx d b = Inr ()"
      "ensure_batch_allows_automatic_delivery b = Inr ()" "ensure_attempt_budget_remaining b = Inr ()"
      "ensure_no_active_attempt_for_thread_tx d (b_source_thread_id b) = Inr ()"
      "next_attempt_generation_tx d (nx_batch_id att) = Inr g"
    and ins: "insert_attempt (pending_codex_attempt_row att b g) d = Inr d'"
    using assms(1) None unfolding begin_codex_app_server_accept_pending_attempt_tx_def by auto
  show ?thesis
    by (rule begin_insert_steps [OF inv _ _ _ _ _ _ _ ins])
      (use b checks in \<open>auto simp: pending_codex_attempt_row_def begins_def pending_acceptance_def attempt_ok_def\<close>)
qed

lemma begin_codex_steps:
  "begin_codex_app_server_accept_pending_attempt_with_created att d = Inr (r, d') \<Longrightarrow> dinv (dview d) \<Longrightarrow>
    wsteps W (dview d) (dview d')"
  by (auto simp: begin_codex_app_server_accept_pending_attempt_with_created_def dest: begin_codex_tx_steps)

section \<open>Accepting and rejecting\<close>

lemma pending_of_adapter:
  "ensure_attempt_accept_pending_for_adapter a kind = Inr u \<longleftrightarrow> a_adapter_kind a = kind \<and> pending_acceptance a"
  by (auto simp: ensure_attempt_accept_pending_for_adapter_def pending_acceptance_def)

lemma accept_cli_steps:
  assumes "accept_cli_attempt i turn now dl d = Inr (r, d')" and inv: "dinv (dview d)"
  shows "wsteps W (dview d) (dview d')"
proof -
  obtain a where a: "query_delivery_attempt_tx d i = Inr a"
    and d': "d' = d \<or> pending_acceptance a \<and>
      spend_delivery_attempt (a_batch_id a) now (store_acceptance i turn now dl d) = Inr d'"
    using assms(1)
    by (auto simp: accept_cli_attempt_def pending_of_adapter Let_def split: if_splits)
  with query_attempt_ok [OF a] show ?thesis by (auto intro: accept_steps [OF _ inv])
qed

lemma accept_codex_steps:
  assumes "accept_codex_app_server_attempt i turn now dl d = Inr (r, d')" and inv: "dinv (dview d)"
  shows "wsteps W (dview d) (dview d')"
proof -
  obtain a where a: "query_delivery_attempt_tx d i = Inr a"
    and d': "d' = d \<or> pending_acceptance a \<and>
      spend_delivery_attempt (a_batch_id a) now (store_acceptance i turn now dl d) = Inr d'"
    using assms(1)
    by (auto simp: accept_codex_app_server_attempt_def pending_of_adapter Let_def split: if_splits)
  with query_attempt_ok [OF a] show ?thesis by (auto intro: accept_steps [OF _ inv])
qed

lemma manualize_rejection_steps:
  "manualize_cli_batch_after_pre_accept_rejection_tx a now d = Inr d' \<Longrightarrow> wsteps W (dview d) (dview d')"
  by (auto simp: manualize_cli_batch_after_pre_accept_rejection_tx_def intro: wsteps_trans)

lemma manualize_loss_steps:
  "manualize_cli_batch_after_observation_loss_tx a now d = Inr d' \<Longrightarrow> wsteps W (dview d) (dview d')"
  unfolding manualize_cli_batch_after_observation_loss_tx_def Let_def chain_ok_iff
  by (auto intro!: wsteps_trans [OF manual_steps wsteps_trans [OF invalidate_steps park_steps]])

lemma manualize_codex_steps: "manualize_codex_app_server_batch_tx a now d = Inr d' \<Longrightarrow> wsteps W (dview d) (dview d')"
  by (auto simp: manualize_codex_app_server_batch_tx_def)

lemma reject_cli_steps:
  assumes op: "reject_cli_attempt_before_accept i now m d = Inr (r, d')" and inv: "dinv (dview d)"
  shows "wsteps W (dview d) (dview d')"
proof -
  obtain a where a: "query_delivery_attempt_tx d i = Inr a"
    and alt: "d' = d \<or>
      (\<exists>d1. manualize_cli_batch_after_pre_accept_rejection_tx a now d = Inr d1 \<and>
        d' = invalidate_cli_managed_session_activity_tx (a_managed_session_id a) (a_session_epoch a) now d1) \<or>
      a_adapter_kind a = Cli \<and>
      (\<exists>d1. (d1 = store_pre_accept_end RejectedBeforeAccept i now d \<or>
          manualize_cli_batch_after_pre_accept_rejection_tx a now
            (store_pre_accept_end RejectedBeforeAccept i now d) = Inr d1) \<and>
        d' = invalidate_cli_managed_session_activity_tx (a_managed_session_id a) (a_session_epoch a) now d1)"
    using op
    unfolding reject_cli_attempt_before_accept_def Let_def
    by (auto simp: pending_of_adapter split: if_splits)
  have "wsteps W (dview d) (dview (store_pre_accept_end RejectedBeforeAccept i now d))"
    if "a_adapter_kind a = Cli"
  proof (rule pre_accept_end_steps, rule disjI2, intro conjI ballI impI)
    fix q assume q: "q \<in> set (delivery_attempts d)" "a_attempt_id q = i"
    then have "q = a" using dinv_attempt_unique [OF inv] query_attempt_ok [OF a] by metis
    then show "a_adapter_kind q \<noteq> CodexAppServer" using that by simp
  qed simp
  with alt show ?thesis
    by (auto dest!: manualize_rejection_steps intro: wsteps_trans wsteps_trans [OF _ wsteps_trans [OF _ invalidate_steps]])
qed

lemma reject_codex_steps:
  assumes op: "reject_codex_app_server_attempt_before_accept i now m d = Inr (r, d')" and inv: "dinv (dview d)"
  shows "wsteps W (dview d) (dview d')"
proof -
  obtain a where a: "query_delivery_attempt_tx d i = Inr a"
    and alt: "d' = d \<or> manualize_codex_app_server_batch_tx a now d = Inr d' \<or>
      a_adapter_kind a = CodexAppServer \<and> pending_acceptance a \<and>
      (\<exists>d1. spend_delivery_attempt (a_batch_id a) now (store_pre_accept_end RejectedBeforeAccept i now d) = Inr d1 \<and>
        (d' = d1 \<or> manualize_codex_app_server_batch_tx a now d1 = Inr d'))"
    using op
    unfolding reject_codex_app_server_attempt_before_accept_def Let_def
    by (auto simp: pending_of_adapter split: if_splits)
  have mem: "a \<in> set (delivery_attempts d)" "a_attempt_id a = i" using query_attempt_ok [OF a] by simp_all
  from alt show ?thesis
    using reject_spend_steps [OF _ inv mem(1)] mem(2)
    by (auto dest!: manualize_codex_steps intro: wsteps_trans)
qed

lemma unknown_codex_steps:
  assumes op: "abandon_codex_app_server_attempt_as_unknown i now m d = Inr (r, d')"
  shows "wsteps W (dview d) (dview d')"
proof -
  obtain a where "d' = d \<or> manualize_codex_app_server_batch_tx a now d = Inr d' \<or>
      d' = store_pre_accept_end RpcUnknown i now d \<or>
      manualize_codex_app_server_batch_tx a now (store_pre_accept_end RpcUnknown i now d) = Inr d'"
    using op
    unfolding abandon_codex_app_server_attempt_as_unknown_def Let_def
    by (auto split: if_splits)
  moreover have "wsteps W (dview d) (dview (store_pre_accept_end RpcUnknown i now d))"
    by (rule pre_accept_end_steps) simp
  ultimately show ?thesis by (auto dest!: manualize_codex_steps intro: wsteps_trans)
qed

section \<open>Observing\<close>

lemma tracking_of_adapter:
  "ensure_attempt_tracking_turn_observation_for_adapter a kind = Inr u \<longleftrightarrow>
    a_adapter_kind a = kind \<and> tracking a \<and> a_delivery_rpc_state a = Some Accepted \<and> a_delivery_turn_id a \<noteq> None"
  by (auto simp: ensure_attempt_tracking_turn_observation_for_adapter_def tracking_def)

lemma lose_cli_steps:
  assumes "lose_cli_observation a ev outcome now d = Inr d'"
    and out: "outcome \<in> {ObservationExpired, ObservationAbandoned}"
  shows "wsteps W (dview d) (dview d')"
  using manualize_loss_steps [OF assms(1) [unfolded lose_cli_observation_def]] abandon_turn_steps [OF out]
  by (blast intro: wsteps_trans)

lemma lose_codex_steps:
  assumes "lose_codex_observation a ev outcome now d = Inr d'"
    and out: "outcome \<in> {ObservationExpired, ObservationAbandoned}"
  shows "wsteps W (dview d) (dview d')"
  using manualize_codex_steps [OF assms(1) [unfolded lose_codex_observation_def]] abandon_turn_steps [OF out]
  by (blast intro: wsteps_trans)

lemma expire_cli_steps:
  assumes "expire_cli_observation i now d = Inr (r, d')"
  shows "wsteps W (dview d) (dview d')"
proof -
  obtain a out where "d' = d \<or> out \<in> {ObservationExpired, ObservationAbandoned} \<and>
      manualize_cli_batch_after_observation_loss_tx a now (store_observation_end out i now d) = Inr d'"
    using assms unfolding expire_cli_observation_def Let_def by (auto split: if_splits)
  then show ?thesis
    using observation_end_steps [of out W d i now] by (auto dest!: manualize_loss_steps intro: wsteps_trans)
qed

text \<open>The completion of a tracked turn closes the batch of the attempt in the same transaction.\<close>

lemma complete_turn_steps:
  assumes op: "close_delivered_batch (a_batch_id a) nt now (store_turn_completed (a_attempt_id a) now d) = Inr (arts, d')"
    and inv: "dinv (dview d)" and a: "a \<in> set (delivery_attempts d)" "a_delivery_rpc_state a = Some Accepted"
  shows "wsteps W (dview d) (dview d')"
  using op unfolding store_turn_completed_def
proof (rule close_delivered_steps)
  fix q assume q: "q \<in> set (delivery_attempts d)" "a_attempt_id q = a_attempt_id a \<and> tracking q"
  then have "q = a" using dinv_attempt_unique [OF inv a(1)] by simp
  with q a(2) show "a_batch_id q = a_batch_id a \<and> delivers q (q\<lparr>a_delivery_observation_state := Some ObservationCompleted,
      a_last_observed_turn_event := Some TurnCompleted, a_last_observed_turn_event_at := Some now,
      a_updated_at := now\<rparr>)"
    by (simp add: delivers_def attempt_identity_def spent_def active_def tracking_def)
qed

lemma complete_delayed_steps:
  assumes op: "complete_delayed_cli_turn_after_expiry_tx a now d = Inr (arts, d')"
    and inv: "dinv (dview d)" and a: "a \<in> set (delivery_attempts d)" "a_delivery_rpc_state a = Some Accepted"
  shows "wsteps W (dview d) (dview d')"
proof -
  let ?p = "\<lambda>q. a_attempt_id q = a_attempt_id a \<and> a_state q = Abandoned \<and>
           a_delivery_observation_state q \<in> {Some ObservationExpired, Some ObservationAbandoned}"
  have "close_delivered_batch (a_batch_id a) ''observed CLI turn completion'' now
      (update_attempts ?p (\<lambda>a. a\<lparr>a_state := Cooldown,
              a_delivery_observation_state := Some ObservationCompleted,
              a_last_observed_turn_event := Some TurnCompleted,
              a_last_observed_turn_event_at := Some now, a_updated_at := now, a_abandoned_at := None\<rparr>) d) = Inr (arts, d')"
    using op unfolding complete_delayed_cli_turn_after_expiry_tx_def Let_def by auto
  then show ?thesis
  proof (rule close_delivered_steps)
    fix q assume q: "q \<in> set (delivery_attempts d)" "?p q"
    then have "q = a" using dinv_attempt_unique [OF inv a(1)] by simp
    with q a(2) show "a_batch_id q = a_batch_id a \<and> delivers q (q\<lparr>a_state := Cooldown,
              a_delivery_observation_state := Some ObservationCompleted,
              a_last_observed_turn_event := Some TurnCompleted,
              a_last_observed_turn_event_at := Some now, a_updated_at := now, a_abandoned_at := None\<rparr>)"
      by (simp add: delivers_def attempt_identity_def spent_def active_def)
  qed
qed

lemma observe_tracked_cli_steps:
  assumes op: "observe_tracked_cli_turn a ev now d = Inr (arts, d')"
    and inv: "dinv (dview d)" and a: "a \<in> set (delivery_attempts d)"
  shows "wsteps W (dview d) (dview d')"
proof -
  have acc: "a_delivery_rpc_state a = Some Accepted"
    using op by (auto simp: observe_tracked_cli_turn_def tracking_of_adapter)
  have "(\<exists>out\<in>{ObservationExpired, ObservationAbandoned}. lose_cli_observation a ev out now d = Inr d') \<or>
      d' = store_turn_started (a_attempt_id a) now d \<or>
      close_delivered_batch (a_batch_id a) ''observed CLI turn completion'' now
        (store_turn_completed (a_attempt_id a) now d) = Inr (arts, d')"
    using op unfolding observe_tracked_cli_turn_def by (auto split: if_splits turn_event.splits)
  then show ?thesis
    using complete_turn_steps [OF _ inv a acc] by (auto dest: lose_cli_steps)
qed

lemma observe_tracked_codex_steps:
  assumes op: "observe_tracked_codex_turn a ev now d = Inr (arts, d')"
    and inv: "dinv (dview d)" and a: "a \<in> set (delivery_attempts d)"
  shows "wsteps W (dview d) (dview d')"
proof -
  have acc: "a_delivery_rpc_state a = Some Accepted"
    using op by (auto simp: observe_tracked_codex_turn_def tracking_of_adapter)
  have "(\<exists>out\<in>{ObservationExpired, ObservationAbandoned}. lose_codex_observation a ev out now d = Inr d') \<or>
      d' = store_turn_started (a_attempt_id a) now d \<or>
      close_delivered_batch (a_batch_id a) ''observed codex_app_server turn completion'' now
        (store_turn_completed (a_attempt_id a) now d) = Inr (arts, d')"
    using op unfolding observe_tracked_codex_turn_def by (auto split: if_splits turn_event.splits)
  then show ?thesis
    using complete_turn_steps [OF _ inv a acc] by (auto dest: lose_codex_steps)
qed

lemma observe_cli_steps:
  assumes op: "observe_cli_turn_event rewrite i turn ev now d = Inr (r, d')" and inv: "dinv (dview d)"
  shows "wsteps W (dview d) (dview d')"
proof -
  obtain e a where a: "query_delivery_attempt_tx d i = Inr a"
    and alt: "d' = d \<or> (\<exists>arts d1. (d1 = record_late_cli_turn_evidence_tx a e now d \<or>
        complete_delayed_cli_turn_after_expiry_tx a now d = Inr (arts, d1) \<and>
          a_delivery_rpc_state a = Some Accepted \<or>
        observe_tracked_cli_turn a e now d = Inr (arts, d1)) \<and>
      d' = snd (sync_artifact_manifests rewrite arts now d1))"
    using op unfolding observe_cli_turn_event_def can_complete_delayed_cli_turn_after_expiry_def
    by (auto split: if_splits)
  have mem: "a \<in> set (delivery_attempts d)" using query_attempt_ok [OF a] by simp
  from alt show ?thesis
    using complete_delayed_steps [OF _ inv mem] observe_tracked_cli_steps [OF _ inv mem]
    by (auto simp: dview_sync)
qed

lemma observe_codex_steps:
  assumes op: "observe_codex_app_server_turn_event rewrite i turn ev now d = Inr (r, d')" and inv: "dinv (dview d)"
  shows "wsteps W (dview d) (dview d')"
proof -
  obtain e a where a: "query_delivery_attempt_tx d i = Inr a"
    and alt: "d' = d \<or> (\<exists>arts d1. (d1 = record_late_cli_turn_evidence_tx a e now d \<or>
        observe_tracked_codex_turn a e now d = Inr (arts, d1)) \<and>
      d' = snd (sync_artifact_manifests rewrite arts now d1))"
    using op unfolding observe_codex_app_server_turn_event_def
    by (auto split: if_splits)
  have mem: "a \<in> set (delivery_attempts d)" using query_attempt_ok [OF a] by simp
  from alt show ?thesis
    using observe_tracked_codex_steps [OF _ inv mem] by (auto simp: dview_sync)
qed

section \<open>Queues, plugins and the sweep\<close>

lemma close_head_steps: "close_head rewrite th reason nt now d = Inr (r, d') \<Longrightarrow> wsteps W (dview d) (dview d')"
  by (auto simp: close_head_def dview_sync dest!: close_batch_steps dview_extend)

lemma enqueue_tx_steps: "enqueue_plugin_delivery_tx dl d = Inr (r, d') \<Longrightarrow> wsteps W (dview d) (dview d')"
  unfolding enqueue_plugin_delivery_tx_def insert_plugin_artifact_def
  by (auto split: option.splits dest!: insert_batch_steps dview_inserts(1,3,6))

lemma enqueue_if_head_steps:
  assumes op: "enqueue_plugin_delivery_with_codex_app_server_attempt_if_head dl att d = Inr (r, d')"
    and inv: "dinv (dview d)"
  shows "wsteps W (dview d) (dview d')"
proof -
  obtain e d1 where e: "enqueue_plugin_delivery_tx dl d = Inr (e, d1)"
    and alt: "d' = d1 \<or> (\<exists>x. begin_codex_app_server_accept_pending_attempt_tx att d1 = Inr (x, d'))"
    using op unfolding enqueue_plugin_delivery_with_codex_app_server_attempt_if_head_def
    by (auto split: if_splits)
  note s1 = enqueue_tx_steps [OF e]
  have "dinv (dview d1)" by (rule wsteps_inv [OF s1 inv])
  with alt s1 show ?thesis by (auto dest: begin_codex_tx_steps intro: wsteps_trans)
qed

lemma manualize_plugin_steps:
  assumes "manualize_plugin_delivery x reason now d = Inr (r, d')"
  shows "wsteps W (dview d) (dview d')"
proof -
  obtain w where d': "d' = update_attempts (\<lambda>a. a_batch_id a = x \<and> active a) (manualize_attempt now)
               (set_batch_manual x w now d)"
    using assms by (auto simp: manualize_plugin_delivery_def Let_def)
  have "wsteps W (dview (set_batch_manual x w now d)) (dview d')"
    unfolding d' by (rule settle_steps) (simp add: settle_manualize)
  then show ?thesis by (rule wsteps_trans [OF manual_steps])
qed

lemma fence_and_park_steps: "wsteps W (dview d) (dview (fence_and_park a now d))"
  unfolding fence_and_park_def by (rule wsteps_trans [OF invalidate_steps park_steps])

lemma stale_cli_steps:
  assumes "expire_stale_cli_acceptances_tx now d = Inr (n, d')"
  shows "wsteps W (dview d) (dview d')"
proof -
  have one: "wsteps W (dview d) (dview (fence_and_park a now (set_batch_manual (a_batch_id a) w now
         (store_pre_accept_end RpcUnknown (a_attempt_id a) now d))))" for a w d
    by (rule wsteps_trans [OF pre_accept_end_steps wsteps_trans [OF manual_steps fence_and_park_steps]]) simp
  show ?thesis
    using assms unfolding expire_stale_cli_acceptances_tx_def Let_def
    by (auto intro!: fold_steps one)
qed

lemma for_each_steps:
  assumes "for_each f xs d = Inr d'" and "\<And>x d d'. x \<in> set xs \<Longrightarrow> f x d = Inr d' \<Longrightarrow> wsteps W (dview d) (dview d')"
  shows "wsteps W (dview d) (dview d')"
  by (rule for_each_related [where R = "\<lambda>d d'. wsteps W (dview d) (dview d')", OF assms(1)])
    (auto intro: wsteps_trans assms(2))

lemma due_cli_steps:
  assumes "expire_due_cli_observations_tx now d = Inr (n, d')"
  shows "wsteps W (dview d) (dview d')"
proof -
  have one: "wsteps W (dview d) (dview (fence_and_park a now (set_batch_manual (a_batch_id a) w now
         (store_observation_end out (a_attempt_id a) now d))))"
    if "out \<in> {ObservationExpired, ObservationAbandoned}" for a w d out
    by (rule wsteps_trans [OF observation_end_steps [OF that] wsteps_trans [OF manual_steps fence_and_park_steps]])
  have "wsteps W (dview d) (dview d')" if "expire_one_cli_observation w now a d = Inr d'" for w a d d'
    using that one unfolding expire_one_cli_observation_def Let_def by (auto split: if_splits)
  then show ?thesis
    using assms unfolding expire_due_cli_observations_tx_def Let_def
    by (auto elim!: for_each_steps)
qed

lemma stale_codex_steps:
  "expire_stale_codex_app_server_acceptances_tx now d = Inr (n, d') \<Longrightarrow> wsteps W (dview d) (dview d')"
proof -
  have "wsteps W (dview d) (dview d')" if "expire_one_codex_acceptance now a d = Inr d'" for a d d'
    using that pre_accept_end_steps [of RpcUnknown d "a_attempt_id a" W now]
    by (auto simp: expire_one_codex_acceptance_def dest!: manualize_codex_steps intro: wsteps_trans)
  then show "expire_stale_codex_app_server_acceptances_tx now d = Inr (n, d') \<Longrightarrow> wsteps W (dview d) (dview d')"
    by (auto simp: expire_stale_codex_app_server_acceptances_tx_def Let_def elim!: for_each_steps)
qed

lemma due_codex_steps:
  "expire_due_codex_app_server_observations_tx now d = Inr (n, d') \<Longrightarrow> wsteps W (dview d) (dview d')"
proof -
  have "wsteps W (dview d) (dview d')" if "expire_one_codex_observation now a d = Inr d'" for a d d'
    using that observation_end_steps [of ObservationExpired W d "a_attempt_id a" now]
    by (auto simp: expire_one_codex_observation_def dest!: manualize_codex_steps intro: wsteps_trans)
  then show "expire_due_codex_app_server_observations_tx now d = Inr (n, d') \<Longrightarrow> wsteps W (dview d) (dview d')"
    by (auto simp: expire_due_codex_app_server_observations_tx_def Let_def elim!: for_each_steps)
qed

lemma desktop_prepared_steps [simp, intro]:
  "wsteps W (dview d) (dview (snd (expire_expired_desktop_prepared_attempts_tx now d)))"
  unfolding expire_expired_desktop_prepared_attempts_tx_def snd_conv
  by (rule settle_steps) (auto simp: expired_desktop_prepared_def intro: settle_desktop)

lemma desktop_arm_steps [simp, intro]:
  "wsteps W (dview d) (dview (snd (expire_expired_desktop_arm_pending_attempts_tx now d)))"
  unfolding expire_expired_desktop_arm_pending_attempts_tx_def snd_conv
  by (rule settle_steps) (auto simp: expired_desktop_arm_pending_def intro: settle_desktop)

lemma close_expired_steps:
  "close_expired_batches reason now ids (arts, d) = Inr (arts', d') \<Longrightarrow> wsteps W (dview d) (dview d')"
proof (induction ids arbitrary: arts d)
  case (Cons x ids)
  then obtain d1 more d2 where 1: "close_batch_tx x reason (Some ''closed by maintenance sweep'') now d = Inr d1"
    and 2: "extend_closed_batch_artifact_retention_tx x now d1 = Inr (more, d2)"
    and 3: "close_expired_batches reason now ids (arts @ more, d2) = Inr (arts', d')" by auto
  have "wsteps W (dview d) (dview d2)" using close_batch_steps [OF 1] dview_extend [OF 2] by simp
  with Cons.IH [OF 3] show ?case by (blast intro: wsteps_trans)
qed simp

lemma sweep_tx_steps:
  assumes "sweep_tx now d = Inr (plan, d')"
  shows "wsteps W (dview d) (dview d')"
proof -
  obtain n1 d1 n2 d2 n3 d3 n4 d4 i1 a1 d5 i2 a2 where
      s: "expire_stale_cli_acceptances_tx now d = Inr (n1, d1)"
        "expire_due_cli_observations_tx now d1 = Inr (n2, d2)"
        "expire_stale_codex_app_server_acceptances_tx now d2 = Inr (n3, d3)"
        "expire_due_codex_app_server_observations_tx now d3 = Inr (n4, d4)"
      and m: "close_expired_batches ''manual_resolution_expired'' now i1 ([],
        snd (expire_expired_desktop_arm_pending_attempts_tx now
          (snd (expire_expired_desktop_prepared_attempts_tx now d4)))) = Inr (a1, d5)"
      and a: "close_expired_batches ''redelivery_window_exhausted'' now i2 ([], d5) = Inr (a2, d')"
    using assms
    by (auto simp: sweep_tx_def Let_def close_expired_manual_batches_tx_def close_expired_automatic_batches_tx_def)
  have "wsteps W (dview d) (dview d4)"
    using stale_cli_steps [OF s(1)] due_cli_steps [OF s(2)] stale_codex_steps [OF s(3)] due_codex_steps [OF s(4)]
    by (blast intro: wsteps_trans)
  moreover have "wsteps W (dview d4) (dview (snd (expire_expired_desktop_arm_pending_attempts_tx now
          (snd (expire_expired_desktop_prepared_attempts_tx now d4)))))"
    by (rule wsteps_trans [OF desktop_prepared_steps desktop_arm_steps])
  moreover note close_expired_steps [OF m] close_expired_steps [OF a]
  ultimately show ?thesis by (blast intro: wsteps_trans)
qed

lemma delete_artifact_dirs_view: "dview (snd (delete_artifact_dirs fs now arts (acc, d))) = dview d"
proof (induction arts arbitrary: acc d)
  case (Cons ar arts)
  obtain x y where "acc = (x, y)" by (cases acc)
  then show ?case using Cons by simp
qed simp

lemma cleanup_ingests_view: "dview (snd (cleanup_stale_artifact_ingests fs d)) = dview d"
proof -
  have one: "dview (snd (cleanup_stale_ingest fs ai (r, d))) = dview d" for ai r d
    by (auto simp: cleanup_stale_ingest_def Let_def split: sum.split bool.split)
  have "dview (snd (fold (cleanup_stale_ingest fs) ais (r, d))) = dview d" for ais r
  proof (induction ais arbitrary: r d)
    case (Cons ai ais)
    obtain r' d1 where "cleanup_stale_ingest fs ai (r, d) = (r', d1)" by (cases "cleanup_stale_ingest fs ai (r, d)")
    with one [of ai r d] Cons [of r' d1] show ?case by simp
  qed simp
  then show ?thesis by (simp add: cleanup_stale_artifact_ingests_def)
qed

lemma fold_view:
  "(\<And>x d. dview (f x d) = dview d) \<Longrightarrow> dview (fold f xs d) = dview d"
  by (induction xs arbitrary: d) simp_all

lemma cleanup_task_logs_view: "dview (snd (cleanup_expired_task_log_dirs fs ids now d)) = dview d"
proof -
  have "dview (snd (remove_task_log_dirs fs now ids (acc, d))) = dview d" for acc
  proof (induction ids arbitrary: acc d)
    case (Cons i ids)
    obtain x y where "acc = (x, y)" by (cases acc)
    then show ?case using Cons by simp
  qed simp
  then show ?thesis
    by (simp add: cleanup_expired_task_log_dirs_def fold_view split: prod.split) (metis snd_conv)
qed

lemma delete_artifacts_view [simp]: "dview (delete_artifacts ids d) = dview d"
  unfolding delete_artifacts_def by (rule fold_view) simp

lemma sweep_steps: 
  assumes "sweep fs now d = Inr (r, d')"
  shows "wsteps W (dview d) (dview d')"
proof -
  obtain plan d1 where tx: "sweep_tx now d = Inr (plan, d1)"
    and view: "dview d' = dview d1"
  proof -
    obtain plan d1 where tx: "sweep_tx now d = Inr (plan, d1)" using assms by (auto simp: sweep_def)
    obtain m d2 where 2: "sync_artifact_manifests (rewrite_manifest fs)
           (dedupe_artifacts_by_id (plan_manifests plan)) now d1 = (m, d2)" by (rule prod.exhaust)
    obtain del f d3 where 3: "delete_artifact_dirs fs now (plan_artifacts plan) (([], 0), d2) = ((del, f), d3)"
      by (metis prod.exhaust)
    obtain o1 d4 where 4: "cleanup_stale_artifact_ingests fs d3 = (o1, d4)" by (rule prod.exhaust)
    obtain t d5 where 5: "cleanup_expired_task_log_dirs fs (plan_task_logs plan) now d4 = (t, d5)" by (rule prod.exhaust)
    have "d' = delete_artifacts del d5" using assms tx 2 3 4 5 by (simp add: sweep_def)
    moreover have "dview d2 = dview d1" using dview_sync 2 by (metis snd_conv)
    moreover have "dview d3 = dview d2" using delete_artifact_dirs_view 3 by (metis snd_conv)
    moreover have "dview d4 = dview d3" using cleanup_ingests_view 4 by (metis snd_conv)
    moreover have "dview d5 = dview d4" using cleanup_task_logs_view 5 by (metis snd_conv)
    ultimately show ?thesis using that tx by simp
  qed
  with sweep_tx_steps [OF tx] show ?thesis by simp
qed

lemma sweep_codex_steps:
  "sweep_codex_app_server_delivery_cleanup now d = Inr (r, d') \<Longrightarrow> wsteps W (dview d) (dview d')"
  by (auto simp: sweep_codex_app_server_delivery_cleanup_def dest!: stale_codex_steps due_codex_steps
      intro: wsteps_trans)

end
