(* ===== verification/Cbth_DesktopSteps.thy ===== *)
theory Cbth_DesktopSteps
  imports Cbth_Operations
begin

text \<open>
  The operations of the desktop bridge refine the delivery protocol: preparing an attempt begins it,
  arming it charges it, and relaying, announcing and upkeep of markers touch no other delivery row.
\<close>

section \<open>Installation, bindings, scanners and markers\<close>

lemma upsert_binding_view: "upsert_desktop_binding th c s t now d = Inr d' \<Longrightarrow> dview d' = dview d"
  by (auto simp: upsert_desktop_binding_def)

lemma repair_installation_view [simp]: "dview (snd (repair_desktop_installation_state repair d)) = dview d"
  by (simp add: repair_desktop_installation_state_def Let_def split: option.split bool.split)

lemma repair_binding_view: "repair_desktop_binding th c fp now d = Inr (r, d') \<Longrightarrow> dview d' = dview d"
  by (auto simp: repair_desktop_binding_def Let_def dest: upsert_binding_view)

lemma update_markers_view [simp]: "dview (update_markers p f d) = dview d"
  by (simp add: update_markers_def)

lemma store_armed_view [simp]: "dview (store_armed_generation th g nb dl now d) = dview d"
  by (simp add: store_armed_generation_def)

lemma insert_marker_view: "insert_desktop_transcript_relay_marker_tx m d = Inr (r, d') \<Longrightarrow> dview d' = dview d"
  by (auto simp: insert_desktop_transcript_relay_marker_tx_def insert_marker_row_def)

lemma bind_scanner_view: "bind_desktop_relay_scanner s d = Inr (r, d') \<Longrightarrow> dview d' = dview d"
  by (auto simp: bind_desktop_relay_scanner_def Let_def)

lemma update_scanner_view: "update_current_scanner seen f d = Inr (r, d') \<Longrightarrow> dview d' = dview d"
  by (auto simp: update_current_scanner_def Let_def)

lemma scanner_views:
  "update_desktop_relay_scanner_cursor seen cursor n now d = Inr (r, d') \<Longrightarrow> dview d' = dview d"
  "degrade_desktop_relay_scanner_binding_if_current seen reason now d = Inr (r, d') \<Longrightarrow> dview d' = dview d"
  by (auto simp: update_desktop_relay_scanner_cursor_def degrade_desktop_relay_scanner_binding_if_current_def
      split: prod.splits dest: update_scanner_view)

lemma mark_views:
  "mark_desktop_transcript_relay_marker_consumed_for_scanner m h sc now d = Inr (r, d') \<Longrightarrow> dview d' = dview d"
  "mark_desktop_transcript_relay_marker_rejected_for_scanner m why ho sc now d = Inr (r, d') \<Longrightarrow> dview d' = dview d"
  by (auto simp: mark_desktop_transcript_relay_marker_consumed_for_scanner_def
      mark_desktop_transcript_relay_marker_rejected_for_scanner_def Let_def)

lemma reconcile_view [simp]: "dview (snd (reconcile_desktop_transcript_relay_consumed_markers_tx now d)) = dview d"
  by (simp add: reconcile_desktop_transcript_relay_consumed_markers_tx_def Let_def fold_view reconcile_marker_def)

lemma upkeep_views [simp]:
  "dview (snd (reconcile_desktop_transcript_relay_consumed_markers now d)) = dview d"
  "dview (snd (expire_desktop_transcript_relay_markers now d)) = dview d"
  "dview (snd (cleanup_desktop_transcript_relay_retention now d)) = dview d"
  by (simp_all add: reconcile_desktop_transcript_relay_consumed_markers_def
      expire_desktop_transcript_relay_markers_def cleanup_desktop_transcript_relay_retention_def Let_def)

lemma find_or_issue_view: "find_or_issue_desktop_relay_marker_tx ids rq now d = Inr (r, d') \<Longrightarrow> dview d' = dview d"
  by (auto simp: find_or_issue_desktop_relay_marker_tx_def Let_def split: option.splits if_splits
      dest: insert_marker_view)

section \<open>Preparing an attempt\<close>

lemma prepared_begins:
  "begins (prepared_desktop_attempt_row i x th g now)"
  "a_batch_id (prepared_desktop_attempt_row i x th g now) = x"
  "a_source_thread_id (prepared_desktop_attempt_row i x th g now) = th"
  "a_generation (prepared_desktop_attempt_row i x th g now) = g"
  by (simp_all add: prepared_desktop_attempt_row_def begins_def attempt_ok_def desktop_attempt_ok_def)

lemma max_generation_below:
  "q \<in> set (delivery_attempts d) \<Longrightarrow> a_batch_id q = x \<Longrightarrow> a_generation q < coalesce (max_generation d x) 0 + 1"
proof -
  assume q: "q \<in> set (delivery_attempts d)" "a_batch_id q = x"
  then obtain m where m: "max_generation d x = Some m"
    by (cases "max_generation d x") (auto simp: max_generation_def filter_empty_conv)
  then have "a_generation q \<le> m"
    using q unfolding max_generation_def max_agg_Some_iff by auto
  with m show ?thesis by simp
qed

lemma create_prepared_steps:
  assumes inv: "dinv (dview d)" and b: "b \<in> set (batches d)" "b_replay_policy b = Automatic"
      "b_delivery_attempt_count b < b_max_delivery_attempts b" "detached_delivery_safe b"
    and head: "batch_is_thread_head_tx d b"
    and idle: "query_active_delivery_attempts_for_thread_tx d (b_source_thread_id b) = []"
    and op: "create_desktop_prepared_attempt_tx i b now d = Inr (r, d')"
  shows "wsteps W (dview d) (dview d')"
proof -
  let ?a = "prepared_desktop_attempt_row i (b_batch_id b) (b_source_thread_id b)
    (coalesce (max_generation d (b_batch_id b)) 0 + 1) now"
  note least = head_least [OF inv b(1) head]
  have ins: "insert_attempt ?a d = Inr d'"
    using op by (auto simp: create_desktop_prepared_attempt_tx_def Let_def)
  have "set (query_active_delivery_attempts_for_thread_tx d (b_source_thread_id b)) = {}"
    using idle by simp
  then have "\<not> active q" if "q \<in> set (delivery_attempts d)" "a_source_thread_id q = b_source_thread_id b" for q
    using that unfolding query_active_delivery_attempts_for_thread_tx_def by auto
  then show ?thesis
    by (intro insert_begins_steps [OF b(1) _ _ _ b(2,3) _ _ _ ins])
      (use least b(4) max_generation_below in \<open>auto simp: prepared_begins open_in_thread_def\<close>)
qed

lemma prepare_fixture_steps:
  assumes op: "prepare_desktop_writeback_fixture ids fixture d = Inr (r, d')" and inv: "dinv (dview d)"
  shows "wsteps W (dview d) (dview d')"
proof -
  obtain j x i where ids: "ids = (j, x, i)" by (cases ids)
  let ?th = "nf_source_thread_id fixture" and ?now = "nf_now fixture"
  define nb where "nb = (\<lambda>w. \<lparr>nb_batch_id = x, nb_source_thread_id = ?th,
        nb_summary = ''Desktop writeback live validation fixture'', nb_created_at = ?now,
        nb_redelivery_window_ends_at = w, nb_max_delivery_attempts = DEFAULT_MAX_DELIVERY_ATTEMPTS,
        nb_policy = harmless_policy, nb_inline_payload_bytes = 0, nb_requires_artifact_read = False\<rparr>)"
  obtain k c t w d1 d2 d3 where none: "thread_head d ?th = None"
    and d1: "upsert_desktop_binding ?th k c t ?now d = Inr d1"
    and d2: "insert_job (fixture_job j ?th ?now) d1 = Inr d2"
    and d3: "insert_batch_tx (nb w) [j] d2 = Inr d3"
    and ins: "insert_attempt (prepared_desktop_attempt_row i x ?th 1 ?now) d3 = Inr d'"
    using op unfolding prepare_desktop_writeback_fixture_def Let_def ids nb_def
    by (auto split: option.splits)
  have view: "dview d2 = dview d" using upsert_binding_view [OF d1] dview_inserts(1) [OF d2] by simp
  have "set (order_by queue_key (filter (open_in_thread ?th) (batches d))) = {}"
    using none by (simp del: set_order_by add: thread_head_def)
  then have closed: "\<not> open_in_thread ?th q" if "q \<in> set (batches d)" for q
    using that by auto
  have to_d3: "wsteps W (dview d) (dview d3)" using insert_batch_steps [OF d3] by (simp add: view)
  define b where "b = \<lparr>b_batch_id = x, b_source_thread_id = ?th,
        b_state = BatchOpen, b_replay_policy = Automatic, b_close_reason = None, b_close_note = None,
        b_summary = ''Desktop writeback live validation fixture'', b_created_at = ?now,
        b_updated_at = ?now, b_closed_at = None, b_redelivery_window_ends_at = w,
        b_max_delivery_attempts = DEFAULT_MAX_DELIVERY_ATTEMPTS, b_delivery_attempt_count = 0,
        b_delivery_policy = harmless_policy, b_inline_payload_bytes = 0, b_requires_artifact_read = False\<rparr>"
  have rows: "batches d3 = batches d @ [b]" "delivery_attempts d3 = delivery_attempts d" and new: "x \<notin> b_batch_id ` set (batches d)"
    using d3 view
    by (auto simp: insert_batch_tx_def nb_def insert_batch_row_def insert_batch_job_def b_def dview_def)
  have old: "\<exists>p\<in>set (batches d). b_batch_id p = a_batch_id q \<and> b_source_thread_id p = a_source_thread_id q \<and>
      (active q \<longrightarrow> b_state p = BatchOpen)" if "q \<in> set (delivery_attempts d)" for q
    using inv that unfolding dview_def dinv.simps attempts_linked_def by blast
  have "wsteps W (dview d3) (dview d')"
  proof (rule insert_begins_steps [OF _ _ _ _ _ _ _ _ _ ins, where b = b])
    show "\<not> (active q \<and> batch_state_is d3 BatchOpen q)"
      if "q \<in> set (delivery_attempts d3)" "a_source_thread_id q = a_source_thread_id (prepared_desktop_attempt_row i x ?th 1 ?now)" for q
      using that old [of q] closed by (auto simp: rows prepared_begins open_in_thread_def)
    show "a_generation q < a_generation (prepared_desktop_attempt_row i x ?th 1 ?now)"
      if "q \<in> set (delivery_attempts d3)" "a_batch_id q = a_batch_id (prepared_desktop_attempt_row i x ?th 1 ?now)" for q
      using that old [of q] new by (force simp: rows prepared_begins)
    show "queue_key b \<le> queue_key q"
      if "q \<in> set (batches d3)" "open_in_thread (a_source_thread_id (prepared_desktop_attempt_row i x ?th 1 ?now)) q" for q
      using that closed by (auto simp: rows prepared_begins)
  qed (simp_all add: rows prepared_begins b_def DEFAULT_MAX_DELIVERY_ATTEMPTS_def detached_delivery_safe_def harmless_policy_def)
  with to_d3 show ?thesis by (rule wsteps_trans)
qed

section \<open>Arming\<close>

lemma abandon_arm_steps [simp, intro]: "wsteps W (dview d) (dview (abandon_desktop_arm_pending_tx i now d))"
  unfolding abandon_desktop_arm_pending_tx_def
  by (rule settle_steps) (auto simp: settle_defs)

text \<open>The threads whose binding may be armed afresh; in no other thread does an attempt start to wait.\<close>

definition quiet_threads :: "db \<Rightarrow> string set" where
  "quiet_threads d = {th. \<exists>k. query_desktop_binding_tx d th = Inr k \<and>
     is_ok (ensure_desktop_binding_quiesced_for_fresh_arm k)}"

lemma begin_arm_pending_steps:
  assumes op: "begin_desktop_arm_pending lease a k bridge now d = Inr (r, d')"
    and a: "query_delivery_attempt_tx d i = Inr a" and k: "query_desktop_binding_tx d (a_source_thread_id a) = Inr k"
    and inv: "dinv (dview d)"
  shows "wsteps (quiet_threads d) (dview d) (dview d')"
proof -
  let ?p = "\<lambda>q. a_attempt_id q = a_attempt_id a \<and> a_state q = Prepared \<and> a_generation q = a_generation a"
  obtain dl pd where d': "d' = update_attempts ?p (\<lambda>a. a\<lparr>a_state := ArmPending, a_bridge_request_id := Some bridge,
        a_bridge_arm_lease_id := Some lease, a_bridge_arm_lease_deadline := Some dl,
        a_arm_pending_since := Some now, a_arm_pending_deadline := Some pd, a_updated_at := now\<rparr>) d"
    and quiet: "a_source_thread_id a \<in> quiet_threads d"
    using op k by (auto simp: begin_desktop_arm_pending_def quiet_threads_def is_ok_iff Let_def)
  have same: "q = a" if "q \<in> set (delivery_attempts d)" "a_attempt_id q = a_attempt_id a" for q
    by (rule distinct_key_eq [OF _ that(1) _ that(2)])
      (use inv query_attempt_ok [OF a] in \<open>auto simp: dview_def attempt_keys_ok_def\<close>)
  have "wstep (quiet_threads d) (dview d) (dview d')"
    unfolding d' dview_def update_attempts_def
    by (auto intro!: wstep_wait simp: settle_defs dest: same intro: quiet)
  then show ?thesis by (rule wsteps_one)
qed

lemma arm_pending_tx_steps:
  assumes op: "note_desktop_arm_pending_tx lease th i g bridge now d = Inr (r, d')" and inv: "dinv (dview d)"
  shows "wsteps (quiet_threads d) (dview d) (dview d')"
proof -
  obtain a k where a: "query_delivery_attempt_tx d i = Inr a" "a_source_thread_id a = th"
    and k: "query_desktop_binding_tx d th = Inr k"
    and alt: "repeat_desktop_arm_pending a k bridge now d = Inr (r, d') \<or> d' = d \<or>
      begin_desktop_arm_pending lease a k bridge now d = Inr (r, d')"
    using op by (auto simp: note_desktop_arm_pending_tx_def ensure_desktop_attempt_tokens_def split: if_splits)
  then show ?thesis
    using begin_arm_pending_steps [OF _ a(1) _ inv]
    by (auto simp: repeat_desktop_arm_pending_def split: if_splits)
qed

lemma store_arm_steps:
  assumes inv: "dinv (dview d)" and a: "a \<in> set (delivery_attempts d)" "a_state a = ArmPending"
      "a_bridge_request_id a = Some bridge" "a_bridge_arm_lease_id a = Some lease"
    and "spend_delivery_attempt (a_batch_id a) now (store_desktop_arm a bridge lease now d) = Inr d'"
  shows "wsteps W (dview d) (dview d')"
  using assms(6) unfolding store_desktop_arm_def
proof (rule charge_steps)
  show "a \<in> set (delivery_attempts d)" by fact
  show "a_attempt_id a = a_attempt_id a \<and> a_state a = ArmPending \<and> a_bridge_request_id a = Some bridge \<and>
      a_bridge_arm_lease_id a = Some lease" using a by simp
  fix q assume q: "q \<in> set (delivery_attempts d)"
    "a_attempt_id q = a_attempt_id a \<and> a_state q = ArmPending \<and> a_bridge_request_id q = Some bridge \<and>
      a_bridge_arm_lease_id q = Some lease"
  have "attempt_ok q" using inv q(1) by (simp add: dview_def)
  with q(2) show "a_attempt_id q = a_attempt_id a \<and>
      charges q (q\<lparr>a_state := Cooldown, a_desktop_armed_at := Some now, a_updated_at := now\<rparr>)"
    by (auto simp: charges_def spent_def attempt_identity_def active_def attempt_ok_def desktop_attempt_ok_def
        split: if_splits)
qed

lemma arm_tx_steps:
  assumes op: "note_desktop_arm_tx th i g bridge lease now d = Inr (r, d')" and inv: "dinv (dview d)"
  shows "wsteps W (dview d) (dview d')"
proof -
  obtain a b where a: "query_delivery_attempt_tx d i = Inr a"
    and alt: "d' = d \<or> arm_desktop_attempt a b bridge lease now d = Inr (r, d')"
    using op by (auto simp: note_desktop_arm_tx_def split: if_splits)
  have mem: "a \<in> set (delivery_attempts d)" using query_attempt_ok [OF a] by simp
  have "wsteps W (dview d) (dview d')" if "arm_desktop_attempt a b bridge lease now d = Inr (r, d')"
    using that
    by (auto simp: arm_desktop_attempt_def Let_def split: if_splits intro: store_arm_steps [OF inv mem])
  with alt show ?thesis by auto
qed

lemma arm_steps:
  "note_desktop_arm_pending lease th i g bridge now d = Inr (r, d') \<Longrightarrow> dinv (dview d) \<Longrightarrow>
    wsteps (quiet_threads d) (dview d) (dview d')"
  "note_desktop_arm th i g bridge lease now d = Inr (r', d') \<Longrightarrow> dinv (dview d) \<Longrightarrow> wsteps W (dview d) (dview d')"
  by (auto simp: note_desktop_arm_pending_def note_desktop_arm_def dest: arm_pending_tx_steps arm_tx_steps)

section \<open>Relaying\<close>

lemma insert_consumption_view:
  "insert_desktop_transcript_relay_consumption_tx c kind out d = Inr d' \<Longrightarrow> dview d' = dview d"
  by (auto simp: insert_desktop_transcript_relay_consumption_tx_def)

lemma perform_steps:
  "perform_relayed_request lease kind c d = Inr (r, d') \<Longrightarrow> dinv (dview d) \<Longrightarrow> wsteps (quiet_threads d) (dview d) (dview d')"
  by (auto simp: perform_relayed_request_def split: envelope_kind.splits
      dest: arm_pending_tx_steps arm_tx_steps)

lemma consume_tx_steps:
  assumes "consume_desktop_transcript_relay_tx lease kind c d = Inr (r, d')" "dinv (dview d)"
  shows "wsteps (quiet_threads d) (dview d) (dview d')"
proof -
  have "d' = d \<or> (\<exists>x d1 out. perform_relayed_request lease kind c d = Inr (x, d1) \<and>
      insert_desktop_transcript_relay_consumption_tx c kind out d1 = Inr d')"
    using assms(1) by (auto simp: consume_desktop_transcript_relay_tx_def case_option_ok_iff case_sum_ok_iff)
  with assms(2) show ?thesis by (auto dest!: insert_consumption_view dest: perform_steps)
qed

lemma consume_steps:
  "consume_desktop_transcript_relay lease c fp d = Inr (r, d') \<Longrightarrow> dinv (dview d) \<Longrightarrow> wsteps (quiet_threads d) (dview d) (dview d')"
  by (auto simp: consume_desktop_transcript_relay_def split: option.splits dest: consume_tx_steps)

lemma consume_issued_steps:
  "consume_issued_desktop_transcript_relay_marker lease c sc fp d = Inr (r, d') \<Longrightarrow> dinv (dview d) \<Longrightarrow>
    wsteps (quiet_threads d) (dview d) (dview d')"
  by (auto simp: consume_issued_desktop_transcript_relay_marker_def Let_def case_sum_ok_iff
      dest: consume_tx_steps)

section \<open>Announcing\<close>

lemma cap_view [simp]: "dview (cap_desktop_ready_marker_expiries_tx bridge d) = dview d"
  unfolding cap_desktop_ready_marker_expiries_tx_def
  by (rule fold_view) (simp split: prod.split)

lemma next_ready_candidate_ok:
  assumes "next_ready_candidate bridge inst now d = Some x"
  obtains b k where "b \<in> set (batches d)" "b_batch_id b = x" "ready_candidate bridge inst now d b k"
proof -
  obtain b where id: "b_batch_id b = x" and first: "first_row (order_by (\<lambda>b. (b_created_at b, b_source_thread_id b, b_batch_id b))
       [b. b \<leftarrow> batches d, k \<leftarrow> desktop_bindings d, dk_source_thread_id k = b_source_thread_id b,
           ready_candidate bridge inst now d b k]) = Some b"
    using assms unfolding next_ready_candidate_def by auto
  have "\<exists>k. b \<in> set (batches d) \<and> ready_candidate bridge inst now d b k"
    using first_row_mem [OF first] by (auto split: if_splits)
  with id that show ?thesis by blast
qed

lemma choose_prepared_steps:
  assumes op: "choose_prepared_attempt i b now d = Inr (r, d')" and inv: "dinv (dview d)"
    and b: "b \<in> set (batches d)" and cand: "ready_candidate bridge inst now d b k"
  shows "wsteps W (dview d) (dview d')"
proof -
  have "d' = d \<or> query_active_delivery_attempts_for_thread_tx d (b_source_thread_id b) = [] \<and>
      (\<exists>a. create_desktop_prepared_attempt_tx i b now d = Inr (a, d'))"
    using op by (auto simp: choose_prepared_attempt_def split: list.splits)
  then show ?thesis
    using create_prepared_steps [OF inv b] cand
    by (auto simp: ready_candidate_def desktop_deliverable_def batch_is_thread_head_tx_def)
qed

lemma prepare_ready_steps:
  assumes op: "prepare_ready_entry ids bridge rv inst now x d = Inr (r, d')" and inv: "dinv (dview d)"
    and x: "next_ready_candidate bridge inst now d = Some x"
  shows "wsteps W (dview d) (dview d')"
proof -
  obtain c k where c: "c \<in> set (batches d)" "b_batch_id c = x" "ready_candidate bridge inst now d c k"
    by (rule next_ready_candidate_ok [OF x])
  obtain b where b: "query_batch_tx d x = Inr b"
    and alt: "d' = d \<or> (\<exists>y d1. choose_prepared_attempt (fst ids) b now d = Inr (y, d1) \<and> dview d' = dview d1)"
    using op
    by (fastforce simp: prepare_ready_entry_def case_option_ok_iff split: if_splits
        dest: find_or_issue_view)
  have "b = c" using dinv_batch_unique [OF inv c(1)] query_batch_ok [OF b] c(2) by simp
  with alt choose_prepared_steps [OF _ inv c(1,3)] show ?thesis by auto
qed

lemma materialize_ready_steps:
  assumes op: "materialize_desktop_ready_entries_tx ids bridge rv inst now d = Inr (r, d')" and inv: "dinv (dview d)"
  shows "wsteps W (dview d) (dview d')"
proof -
  let ?d = "cap_desktop_ready_marker_expiries_tx bridge d"
  have "d' = d \<or> d' = ?d \<or> (\<exists>x e. next_ready_candidate bridge inst now ?d = Some x \<and>
      prepare_ready_entry ids bridge rv inst now x ?d = Inr (e, d'))"
    using op by (auto simp: materialize_desktop_ready_entries_tx_def Let_def split: if_splits option.splits)
  with inv show ?thesis
    using prepare_ready_steps [of ids bridge rv inst now _ ?d _ _ W] by (auto simp: cap_view)
qed

lemma announce_view: "announce_arm_accepted fresh bridge inst now row (es, d) = Inr (es', d') \<Longrightarrow> dview d' = dview d"
  by (auto simp: announce_arm_accepted_def split: if_splits prod.splits dest: find_or_issue_view)

lemma list_pending_view:
  assumes "list_desktop_arm_pending_bindings_tx fresh bridge inst now d = Inr (r, d')"
  shows "dview d' = dview d"
proof -
  obtain rows where loop: "for_each (announce_arm_accepted fresh bridge inst now) rows ([], d) = Inr (r, d')"
    using assms by (auto simp: list_desktop_arm_pending_bindings_tx_def Let_def)
  have "dview (snd (r, d')) = dview d"
    by (rule for_each_invariant [OF loop, where P = "\<lambda>st. dview (snd st) = dview d"])
      (auto dest: announce_view)
  then show ?thesis by simp
qed

lemma materialize_steps:
  assumes op: "materialize_desktop_ready_and_arm_pending_entries ids fresh bridge rv inst now d = Inr (r, d')"
    and inv: "dinv (dview d)"
  shows "wsteps W (dview d) (dview d')"
proof -
  let ?d = "snd (reconcile_desktop_transcript_relay_consumed_markers_tx now d)"
  obtain x y d1 where 1: "materialize_desktop_ready_entries_tx ids bridge rv inst now ?d = Inr (x, d1)"
    and 2: "list_desktop_arm_pending_bindings_tx fresh bridge inst now d1 = Inr (y, d')"
    using op by (auto simp: materialize_desktop_ready_and_arm_pending_entries_def Let_def)
  from materialize_ready_steps [OF 1] inv list_pending_view [OF 2] show ?thesis by simp
qed

end
