(* ===== verification/Cbth_Store.thy ===== *)
theory Cbth_Store
  imports Cbth_DesktopSteps
begin

text \<open>
  The store as one step relation, one rule per public operation that changes it, and the proof that
  each of these steps is a sequence of protocol steps; the protocol's invariant and its order of row
  versions then hold in, and between, all reachable states of the store.
\<close>

section \<open>The store as a step relation\<close>

text \<open>
  One rule per public operation of the store that changes it, for any arguments; an operation that
  fails rolls its transaction back and is no step. The recovery of lost tasks commits task by task,
  so that what it leaves behind is a step whether or not it fails in the end.
\<close>

inductive store_step :: "db \<Rightarrow> db \<Rightarrow> bool" where
  submit: "submit_job_for_supervisor_generation job g d = Inr (r, d') \<Longrightarrow> store_step d d'"
| create_task: "create_task_with_job_for_supervisor_generation job task g d = Inr (r, d') \<Longrightarrow> store_step d d'"
| delete_unstarted: "delete_unstarted_task_with_job i j d = Inr (r, d') \<Longrightarrow> store_step d d'"
| mark_started: "mark_task_started i pid ident now d = Inr (r, d') \<Longrightarrow> store_step d d'"
| request_cancel: "request_task_cancel i now d = Inr (r, d') \<Longrightarrow> store_step d d'"
| finish_task: "finish_task u d = Inr (r, d') \<Longrightarrow> store_step d d'"
| fail_supervised: "fail_supervised_task_with_job bid j reason u m w d = Inr (r, d') \<Longrightarrow> store_step d d'"
| complete_job: "complete_job bid art summary now m w d = Inr (r, d') \<Longrightarrow> store_step d d'"
| fail_with_artifact: "fail_job_with_artifact bid art reason now m w d = Inr (r, d') \<Longrightarrow> store_step d d'"
| fail_job: "fail_job bid j reason now m w d = Inr (r, d') \<Longrightarrow> store_step d d'"
| begin_ingest: "begin_artifact_ingest j k now d = Inr (r, d') \<Longrightarrow> store_step d d'"
| attach: "attach_or_create_cli_managed_session sid aid th prof req now d = Inr (r, d') \<Longrightarrow> store_step d d'"
| retire: "retire_cli_managed_session aid sid reason now d = Inr (r, d') \<Longrightarrow> store_step d d'"
| activity: "note_cli_managed_session_activity sid e act rv now d = Inr (r, d') \<Longrightarrow> store_step d d'"
| capabilities: "note_cli_managed_session_capabilities sid e rv c now d = Inr (r, d') \<Longrightarrow> store_step d d'"
| permissions: "note_cli_managed_session_permissions sid e snap now d = Inr (r, d') \<Longrightarrow> store_step d d'"
| invalidate_proof: "invalidate_cli_managed_session_proof sid e now d = Inr (r, d') \<Longrightarrow> store_step d d'"
| invalidate_current_proof: "invalidate_cli_managed_session_current_proof sid th now d = Inr (r, d') \<Longrightarrow> store_step d d'"
| begin_cli: "begin_cli_accept_pending_attempt catt d = Inr (r, d') \<Longrightarrow> store_step d d'"
| accept_cli: "accept_cli_attempt i turn now dl d = Inr (r, d') \<Longrightarrow> store_step d d'"
| reject_cli: "reject_cli_attempt_before_accept i now man d = Inr (r, d') \<Longrightarrow> store_step d d'"
| expire_cli: "expire_cli_observation i now d = Inr (r, d') \<Longrightarrow> store_step d d'"
| observe_cli: "observe_cli_turn_event rewrite i turn ev now d = Inr (r, d') \<Longrightarrow> store_step d d'"
| begin_codex: "begin_codex_app_server_accept_pending_attempt_with_created xatt d = Inr (r, d') \<Longrightarrow> store_step d d'"
| accept_codex: "accept_codex_app_server_attempt i turn now dl d = Inr (r, d') \<Longrightarrow> store_step d d'"
| reject_codex: "reject_codex_app_server_attempt_before_accept i now man d = Inr (r, d') \<Longrightarrow> store_step d d'"
| unknown_codex: "abandon_codex_app_server_attempt_as_unknown i now man d = Inr (r, d') \<Longrightarrow> store_step d d'"
| observe_codex: "observe_codex_app_server_turn_event rewrite i turn ev now d = Inr (r, d') \<Longrightarrow> store_step d d'"
| enqueue_plugin: "enqueue_plugin_delivery_with_codex_app_server_attempt_if_head dl2 xatt d = Inr (r, d') \<Longrightarrow> store_step d d'"
| manualize_plugin: "manualize_plugin_delivery x reason now d = Inr (r, d') \<Longrightarrow> store_step d d'"
| close_head: "close_head rewrite th reason nt now d = Inr (r, d') \<Longrightarrow> store_step d d'"
| sweep: "sweep fs now d = Inr (r, d') \<Longrightarrow> store_step d d'"
| sweep_codex: "sweep_codex_app_server_delivery_cleanup now d = Inr (r, d') \<Longrightarrow> store_step d d'"
| audit: "record_audit_decision au d = Inr (r, d') \<Longrightarrow> store_step d d'"
| abandon_ingest: "store_step d (abandon_artifact_ingest k d)"
| repair_installation: "store_step d (snd (repair_desktop_installation_state repair d))"
| repair_binding: "repair_desktop_binding th caller fp now d = Inr (r, d') \<Longrightarrow> store_step d d'"
| prepare_fixture: "prepare_desktop_writeback_fixture ids3 fixture d = Inr (r, d') \<Longrightarrow> store_step d d'"
| arm_pending: "note_desktop_arm_pending lease th i g bridge now d = Inr (r, d') \<Longrightarrow> store_step d d'"
| arm: "note_desktop_arm th i g bridge lease now d = Inr (r, d') \<Longrightarrow> store_step d d'"
| consume_relay: "consume_desktop_transcript_relay lease c fp d = Inr (r, d') \<Longrightarrow> store_step d d'"
| consume_issued: "consume_issued_desktop_transcript_relay_marker lease c seen fp d = Inr (r, d') \<Longrightarrow> store_step d d'"
| bind_scanner: "bind_desktop_relay_scanner sc d = Inr (r, d') \<Longrightarrow> store_step d d'"
| issue_marker: "issue_desktop_transcript_relay_marker mk d = Inr (r, d') \<Longrightarrow> store_step d d'"
| materialize: "materialize_desktop_ready_and_arm_pending_entries ids3 fresh bridge rv inst now d = Inr (r, d')
    \<Longrightarrow> store_step d d'"
| mark_consumed: "mark_desktop_transcript_relay_marker_consumed_for_scanner m h seen now d = Inr (r, d')
    \<Longrightarrow> store_step d d'"
| mark_rejected: "mark_desktop_transcript_relay_marker_rejected_for_scanner m why ho seen now d = Inr (r, d')
    \<Longrightarrow> store_step d d'"
| reconcile_markers: "store_step d (snd (reconcile_desktop_transcript_relay_consumed_markers now d))"
| expire_markers: "store_step d (snd (expire_desktop_transcript_relay_markers now d))"
| cleanup_relay: "store_step d (snd (cleanup_desktop_transcript_relay_retention now d))"
| scanner_cursor: "update_desktop_relay_scanner_cursor seen cursor n now d = Inr (r, d') \<Longrightarrow> store_step d d'"
| degrade_scanner: "degrade_desktop_relay_scanner_binding_if_current seen reason now d = Inr (r, d')
    \<Longrightarrow> store_step d d'"
| recover_lost: "store_step d (snd (fail_lost_tasks_matching_excluding_with ids now matches is_active d))"

inductive_cases store_stepE: "store_step d d'"

inductive reachable :: "db \<Rightarrow> bool" where
  initial: "reachable empty_db"
| step: "reachable d \<Longrightarrow> store_step d d' \<Longrightarrow> reachable d'"

lemmas desktop_views = repair_binding_view bind_scanner_view scanner_views mark_views
  insert_marker_view [folded issue_desktop_transcript_relay_marker_def]

lemmas steps_simple = complete_job_steps fail_with_artifact_steps fail_job_steps fail_supervised_steps
  retire_op_steps invalidate_proof_steps invalidate_current_proof_steps
  expire_cli_steps unknown_codex_steps
  manualize_plugin_steps close_head_steps sweep_steps sweep_codex_steps

lemmas steps_inv = accept_cli_steps accept_codex_steps attach_steps activity_steps capabilities_steps permissions_steps begin_cli_steps
  reject_cli_steps observe_cli_steps begin_codex_steps reject_codex_steps observe_codex_steps
  enqueue_if_head_steps prepare_fixture_steps arm_steps consume_steps consume_issued_steps materialize_steps

text \<open>In each step an attempt starts to wait for the desktop only in a thread that may be armed afresh.\<close>

theorem store_step_waits: "store_step d d' \<Longrightarrow> dinv (dview d) \<Longrightarrow> wsteps (quiet_threads d) (dview d) (dview d')"
  by (erule store_step.cases;
      (simp only: job_views wsteps_refl dview_job_ops repair_installation_view upkeep_views fail_lost_steps; fail)?;
      (drule job_views, simp; fail)?; (drule desktop_views, simp; fail)?; (drule steps_simple, simp; fail)?; (drule steps_inv, simp, simp; fail)?)

theorem store_step_refines: "store_step d d' \<Longrightarrow> dinv (dview d) \<Longrightarrow> dsteps (dview d) (dview d')"
  by (rule wsteps_dsteps [OF store_step_waits])

theorem reachable_inv: "reachable d \<Longrightarrow> dinv (dview d)"
  by (induction rule: reachable.induct) (auto simp: dinv_empty intro: dsteps_inv store_step_refines)

lemma reachable_evolves:
  "store_step\<^sup>*\<^sup>* d d' \<Longrightarrow> reachable d \<Longrightarrow> reachable d' \<and> devolves (dview d) (dview d')"
proof (induction rule: rtranclp_induct)
  case (step y z)
  then have y: "reachable y" "devolves (dview d) (dview y)" by simp_all
  have "devolves (dview y) (dview z)"
    by (rule dsteps_evolve [OF store_step_refines [OF step.hyps(2) reachable_inv [OF y(1)]]])
  with y step.hyps(2) show ?case by (blast intro: devolves_trans reachable.step)
qed simp

lemma run_refines: "store_step\<^sup>*\<^sup>* d d' \<Longrightarrow> reachable d \<Longrightarrow> dsteps (dview d) (dview d')"
proof (induction rule: rtranclp_induct)
  case (step y z)
  have "reachable y" using reachable_evolves [OF step.hyps(1) step.prems] by simp
  from store_step_refines [OF step.hyps(2) reachable_inv [OF this]] step.IH [OF step.prems]
  show ?case by (blast intro: dsteps_trans)
qed simp

end
