(* ===== verification/Cbth_Scenario.thy ===== *)
theory Cbth_Scenario
  imports Cbth_Store
begin

text \<open>
  Concrete runs of the store, from the empty database, that the witnesses of the properties share:
  a failed job delivered through a CLI session, and plugin deliveries through a codex app server.
\<close>

definition committed :: "store_error + 'r \<times> db \<Rightarrow> db" where
  "committed r = (case r of Inl _ \<Rightarrow> empty_db | Inr (_, d) \<Rightarrow> d)"

lemma committed_step: "is_ok r \<Longrightarrow> \<exists>x. r = Inr (x, committed r)"
  by (cases r) (auto simp: committed_def)

definition safe_policy :: delivery_policy where
  "safe_policy = \<lparr>delivery_read_only = True, delivery_requires_approval = False,
     delivery_requires_network = False, delivery_requires_write_access = False\<rparr>"

section \<open>A job that fails and is delivered to a CLI session\<close>

definition demo_job :: new_job where
  "demo_job = \<lparr>nj_job_id = ''j1'', nj_source_thread_id = ''t1'', nj_summary = ''s'',
     nj_metadata_json = ''{}'', nj_policy = safe_policy, nj_created_at = 10\<rparr>"

definition no_permissions :: session_permissions where
  "no_permissions = \<lparr>session_allows_approval = False, session_allows_network = False,
     session_allows_write_access = False\<rparr>"

definition any_profile :: profile_requirement where
  "any_profile = \<lparr>required_approval = None, required_network = None, required_write_access = None\<rparr>"

definition all_capabilities :: session_capabilities where
  "all_capabilities = \<lparr>capability_thread_resume = True, capability_turn_start = True,
     capability_current_state_sync = True, capability_turn_completed_event = True,
     capability_negative_terminal_events = True, capability_thread_start = True,
     capability_turn_steer = False\<rparr>"

definition demo_cli_attempt :: new_cli_attempt where
  "demo_cli_attempt = \<lparr>nc_attempt_id = ''a1'', nc_batch_id = ''b1'', nc_managed_session_id = ''s1'',
     nc_session_epoch = 1, nc_authorization_mode = ''strict_safe'', nc_delivery_rpc_request_id = ''r1'',
     nc_delivery_rpc_kind = ''turn_start'', nc_delivery_rpc_correlation_marker = ''m1'',
     nc_delivery_rpc_started_at = 30\<rparr>"

definition cli0 :: db where "cli0 = committed (submit_job demo_job empty_db)"
definition cli1 :: db where "cli1 = committed (fail_job ''b1'' ''j1'' ''boom'' 20 3 86400 cli0)"
definition cli2 :: db where
  "cli2 = committed (attach_or_create_cli_managed_session ''s1'' ''x1'' ''t1'' no_permissions any_profile 21 cli1)"
definition cli3 :: db where
  "cli3 = committed (note_cli_managed_session_capabilities ''s1'' 1 1 all_capabilities 22 cli2)"
definition cli4 :: db where
  "cli4 = committed (note_cli_managed_session_activity ''s1'' 1 ''idle'' 1 23 cli3)"
definition cli5 :: db where "cli5 = committed (begin_cli_accept_pending_attempt demo_cli_attempt cli4)"
definition cli6 :: db where "cli6 = committed (accept_cli_attempt ''a1'' ''u1'' 40 100 cli5)"

lemma run_step:
  assumes "is_ok r" "\<And>x. r = Inr (x, committed r) \<Longrightarrow> store_step d (committed r)"
  shows "store_step d (committed r)"
  using committed_step [OF assms(1)] assms(2) by blast

lemma cli0_step: "store_step empty_db cli0"
  unfolding cli0_def submit_job_def by (rule run_step [OF _ store_step.submit]) code_simp

lemma cli0_reachable: "reachable cli0"
  by (rule reachable.step [OF reachable.initial cli0_step])

lemma cli1_step: "store_step cli0 cli1"
  unfolding cli1_def by (rule run_step [OF _ store_step.fail_job]) code_simp

lemma cli1_reachable: "reachable cli1"
  by (rule reachable.step [OF cli0_reachable cli1_step])

lemma cli2_step: "store_step cli1 cli2"
  unfolding cli2_def by (rule run_step [OF _ store_step.attach]) code_simp

lemma cli2_reachable: "reachable cli2"
  by (rule reachable.step [OF cli1_reachable cli2_step])

lemma cli3_step: "store_step cli2 cli3"
  unfolding cli3_def by (rule run_step [OF _ store_step.capabilities]) code_simp

lemma cli3_reachable: "reachable cli3"
  by (rule reachable.step [OF cli2_reachable cli3_step])

lemma cli4_step: "store_step cli3 cli4"
  unfolding cli4_def by (rule run_step [OF _ store_step.activity]) code_simp

lemma cli4_reachable: "reachable cli4"
  by (rule reachable.step [OF cli3_reachable cli4_step])

lemma cli5_step: "store_step cli4 cli5"
  unfolding cli5_def by (rule run_step [OF _ store_step.begin_cli]) code_simp

lemma cli5_reachable: "reachable cli5"
  by (rule reachable.step [OF cli4_reachable cli5_step])

lemma cli6_step: "store_step cli5 cli6"
  unfolding cli6_def by (rule run_step [OF _ store_step.accept_cli]) code_simp

lemma cli6_reachable: "reachable cli6"
  by (rule reachable.step [OF cli5_reachable cli6_step])

text \<open>The same attempt when the session's proof is lost before its turn is accepted.\<close>

definition fenced6 :: db where "fenced6 = committed (invalidate_cli_managed_session_proof ''s1'' 1 35 cli5)"

lemma fenced6_step: "store_step cli5 fenced6"
  unfolding fenced6_def by (rule run_step [OF _ store_step.invalidate_proof]) code_simp

lemma fenced6_reachable: "reachable fenced6"
  by (rule reachable.step [OF cli5_reachable fenced6_step])

section \<open>A plugin delivery through a codex app server\<close>

definition demo_delivery :: "string \<Rightarrow> string \<Rightarrow> string \<Rightarrow> int \<Rightarrow> new_plugin_delivery" where
  "demo_delivery key job batch created_at = \<lparr>np_plugin_name = ''plug'', np_plugin_instance_id = ''i1'',
     np_idempotency_key = key, np_request_fingerprint = ''f1'', np_job_id = job, np_batch_id = batch,
     np_source_thread_id = ''t1'', np_summary = ''s'', np_metadata_json = ''{}'', np_policy = safe_policy,
     np_inline_payload_bytes = 4, np_artifact = None, np_max_delivery_attempts = 2,
     np_redelivery_window_seconds = 86400, np_created_at = created_at\<rparr>"

definition demo_codex_attempt :: "string \<Rightarrow> string \<Rightarrow> string \<Rightarrow> int \<Rightarrow> new_codex_attempt" where
  "demo_codex_attempt attempt batch rpc started_at = \<lparr>nx_attempt_id = attempt, nx_batch_id = batch,
     nx_managed_session_id = ''cs'', nx_session_epoch = 1, nx_delivery_rpc_request_id = rpc,
     nx_delivery_rpc_correlation_marker = ''m'', nx_delivery_rpc_started_at = started_at\<rparr>"

definition codex1 :: db where
  "codex1 = committed (enqueue_plugin_delivery_with_codex_app_server_attempt_if_head
     (demo_delivery ''k1'' ''pj1'' ''plugin-b1'' 20) (demo_codex_attempt ''xa1'' ''plugin-b1'' ''xr1'' 20) cli0)"
definition codex2 :: db where
  "codex2 = committed (accept_codex_app_server_attempt ''xa1'' ''u1'' 30 100 codex1)"
definition codex3 :: db where
  "codex3 = committed (fail_job ''018f-b2'' ''j1'' ''boom'' 20 3 86400 codex2)"

lemma codex1_step: "store_step cli0 codex1"
  unfolding codex1_def by (rule run_step [OF _ store_step.enqueue_plugin]) code_simp

lemma codex1_reachable: "reachable codex1"
  by (rule reachable.step [OF cli0_reachable codex1_step])

lemma codex2_step: "store_step codex1 codex2"
  unfolding codex2_def by (rule run_step [OF _ store_step.accept_codex]) code_simp

lemma codex2_reachable: "reachable codex2"
  by (rule reachable.step [OF codex1_reachable codex2_step])

lemma codex3_step: "store_step codex2 codex3"
  unfolding codex3_def by (rule run_step [OF _ store_step.fail_job]) code_simp

lemma codex3_reachable: "reachable codex3"
  by (rule reachable.step [OF codex2_reachable codex3_step])

end
