(* ===== verification/Cbth_Safety.thy ===== *)
theory Cbth_Safety
  imports Cbth_Scenario
begin

text \<open>
  What holds in every state the store can reach from the empty database, and of every run of it:
  delivery is exclusive per thread, paid for within the batch's budget, restricted to harmless
  batches in strict-safe mode, fenced by the session's epoch, and closed rows never change again.
\<close>

section \<open>Rows of reachable states\<close>

lemma reachable_attempt:
  assumes "reachable d" "a \<in> set (delivery_attempts d)"
  obtains b where "b \<in> set (batches d)" "b_batch_id b = a_batch_id a"
    "b_source_thread_id b = a_source_thread_id a" "active a \<longrightarrow> b_state b = BatchOpen"
    "a_authorization_mode a = StrictSafe \<longrightarrow> detached_delivery_safe b" "attempt_ok a"
  using reachable_inv [OF assms(1)] assms(2) unfolding dview_def dinv.simps attempts_linked_def by blast

lemmas reachable_unique = dinv_attempt_unique [OF reachable_inv] dinv_batch_unique [OF reachable_inv]
  dinv_session_unique [OF reachable_inv]

lemma active_is_latest:
  assumes "reachable d" "a \<in> set (delivery_attempts d)" "active a"
  shows "ensure_attempt_is_current_generation_tx d a = Inr ()"
proof -
  have "max_generation d (a_batch_id a) = Some (a_generation a)"
    using reachable_inv [OF assms(1)] assms(2,3) unfolding max_generation_def max_agg_Some_iff
    by (auto simp: dview_def active_is_current_def)
  then show ?thesis by (simp add: ensure_attempt_is_current_generation_tx_def)
qed

text \<open>
  C1: In every reachable state a thread has at most one active delivery attempt, that attempt belongs
  to an open batch of the same thread, and it is the latest attempt of its batch.
\<close>

theorem active_attempt_exclusive:
  assumes "reachable d" and a: "a \<in> set (delivery_attempts d)" "active a"
  shows "(\<forall>a'\<in>set (delivery_attempts d). active a' \<and> a_source_thread_id a' = a_source_thread_id a \<longrightarrow> a' = a) \<and>
    (\<exists>b\<in>set (batches d). b_batch_id b = a_batch_id a \<and> b_source_thread_id b = a_source_thread_id a \<and>
      b_state b = BatchOpen) \<and>
    ensure_attempt_is_current_generation_tx d a = Inr ()"
proof (intro conjI ballI impI)
  note inv = reachable_inv [OF assms(1)]
  fix a' assume a': "a' \<in> set (delivery_attempts d)"
    "active a' \<and> a_source_thread_id a' = a_source_thread_id a"
  then have "a_attempt_id a' = a_attempt_id a"
    using inv a unfolding dview_def dinv.simps single_active_def by blast
  then show "a' = a" using reachable_unique(1) [OF assms(1) a(1) a'(1)] by simp
next
  show "\<exists>b\<in>set (batches d). b_batch_id b = a_batch_id a \<and> b_source_thread_id b = a_source_thread_id a \<and>
      b_state b = BatchOpen"
    using reachable_attempt [OF assms(1) a(1)] a(2) by metis
next
  show "ensure_attempt_is_current_generation_tx d a = Inr ()" by (rule active_is_latest [OF assms])
qed

theorem active_attempt_exclusive_witness:
  "\<exists>a\<in>set (delivery_attempts cli6). active a \<and> ensure_attempt_is_current_generation_tx cli6 a = Inr ()"
proof -
  have a: "hd (delivery_attempts cli6) \<in> set (delivery_attempts cli6)" "active (hd (delivery_attempts cli6))"
    by code_simp+
  with active_attempt_exclusive [OF cli6_reachable a] show ?thesis by blast
qed

text \<open>
  C3: In every reachable state a batch's attempt counter is the number of its attempts that were
  accepted, refused by a codex app server, or armed on the desktop; it never exceeds the batch's
  maximum (and is zero when that maximum is not positive).
\<close>

theorem attempt_budget_exact:
  assumes "reachable d" and "b \<in> set (batches d)"
  shows "b_delivery_attempt_count b =
      count_where (\<lambda>a. a_batch_id a = b_batch_id b \<and> (a_delivery_rpc_state a = Some Accepted \<or>
        a_adapter_kind a = CodexAppServer \<and> a_delivery_rpc_state a = Some RejectedBeforeAccept \<or>
        a_adapter_kind a = Desktop \<and> a_desktop_armed_at a \<noteq> None)) (delivery_attempts d) \<and>
    b_delivery_attempt_count b \<le> max 0 (b_max_delivery_attempts b)"
proof -
  have "budget_ok (batches d) (delivery_attempts d)"
    using reachable_inv [OF assms(1)] by (simp add: dview_def)
  with assms(2) show ?thesis unfolding budget_ok_def spent_count_def spent_def by blast
qed

theorem attempt_budget_exact_witness:
  "b_delivery_attempt_count (hd (batches cli6)) = 1 \<and> (1::int) \<le> max 0 (b_max_delivery_attempts (hd (batches cli6)))"
proof -
  have b: "hd (batches cli6) \<in> set (batches cli6)" "b_delivery_attempt_count (hd (batches cli6)) = 1"
    by code_simp+
  with attempt_budget_exact [OF cli6_reachable b(1)] show ?thesis by simp
qed

text \<open>
  C4: In every reachable state an attempt authorised as strict-safe belongs to a batch that is
  read-only, needs no approval, no network, no write access and no artifact to be read.
\<close>

theorem strict_safe_attempts_are_harmless:
  assumes "reachable d" and "a \<in> set (delivery_attempts d)" "a_authorization_mode a = StrictSafe"
    and "b \<in> set (batches d)" "b_batch_id b = a_batch_id a"
  shows "delivery_read_only (b_delivery_policy b) \<and> \<not> delivery_requires_approval (b_delivery_policy b) \<and>
    \<not> delivery_requires_network (b_delivery_policy b) \<and>
    \<not> delivery_requires_write_access (b_delivery_policy b) \<and> \<not> b_requires_artifact_read b"
proof -
  obtain c where c: "c \<in> set (batches d)" "b_batch_id c = a_batch_id a" "detached_delivery_safe c"
    using reachable_attempt [OF assms(1,2)] assms(3) by metis
  have "b = c" by (rule reachable_unique(2) [OF assms(1) c(1) assms(4)]) (simp add: c(2) assms(5))
  with c(3) show ?thesis by (simp add: detached_delivery_safe_def)
qed

theorem strict_safe_attempts_are_harmless_witness:
  "delivery_read_only (b_delivery_policy (hd (batches cli6)))"
proof -
  have "hd (delivery_attempts cli6) \<in> set (delivery_attempts cli6)"
    "a_authorization_mode (hd (delivery_attempts cli6)) = StrictSafe"
    "hd (batches cli6) \<in> set (batches cli6)"
    "b_batch_id (hd (batches cli6)) = a_batch_id (hd (delivery_attempts cli6))" by code_simp+
  from strict_safe_attempts_are_harmless [OF cli6_reachable this] show ?thesis by simp
qed

text \<open>
  C5: Along any run of the store, every batch, attempt and session row stays at its place in a later
  version: a closed batch, a closed attempt and a retired session never change, an attempt that is
  no longer active never becomes active again, a batch handed to manual resolution is never
  redelivered automatically, and counters, windows and epochs never decrease.
\<close>

theorem rows_only_move_forward:
  assumes "reachable d" and "store_step\<^sup>*\<^sup>* d d'"
  shows "rows_evolve batch_le (batches d) (batches d') \<and>
    rows_evolve attempt_le (delivery_attempts d) (delivery_attempts d') \<and>
    rows_evolve session_le (cli_managed_sessions d) (cli_managed_sessions d')"
  using reachable_evolves [OF assms(2,1)] by (simp add: dview_def)

lemma cli_run: "store_step\<^sup>*\<^sup>* cli4 cli6"
  by (meson cli5_step cli6_step converse_rtranclp_into_rtranclp rtranclp.rtrancl_refl)

theorem rows_only_move_forward_witness:
  "rows_evolve attempt_le (delivery_attempts cli4) (delivery_attempts cli6)"
  using rows_only_move_forward [OF cli4_reachable cli_run] by simp


text \<open>
  C6: Every operation of the store, in every reachable state, changes batches, attempts and sessions
  only by steps of the delivery protocol.
\<close>

theorem store_refines_protocol:
  assumes "reachable d" and "store_step d d'"
  shows "dsteps (dview d) (dview d')"
  by (rule store_step_refines [OF assms(2) reachable_inv [OF assms(1)]])

theorem store_refines_protocol_witness: "dsteps (dview cli5) (dview cli6)"
  by (rule store_refines_protocol [OF cli5_reachable cli6_step])

section \<open>Attempts\<close>

text \<open>
  C7: In every reachable state the columns of an attempt fit its state. A CLI or codex app-server
  attempt: a pending one has no turn and no observation, an accepted one tracks a known turn with a
  deadline, an abandoned one either was accepted and lost its observation or was never accepted and
  has no turn, and a closed one was pending or accepted. A desktop attempt never has a turn request; a
  prepared one is not armed, one that waits to be armed has its request and its lease with both
  deadlines, and one in cooldown was armed under its lease.
\<close>

theorem attempt_phases:
  assumes "reachable d" and "a \<in> set (delivery_attempts d)"
  shows "(a_adapter_kind a \<noteq> Desktop \<longrightarrow>
      a_state a \<in> {AcceptPending, Cooldown, Abandoned, AttemptClosed} \<and>
      (a_state a = AcceptPending \<longrightarrow> a_delivery_rpc_state a = Some PendingAcceptance \<and>
        a_delivery_observation_state a = None \<and> a_delivery_turn_id a = None) \<and>
      (a_state a = Cooldown \<longrightarrow> a_delivery_rpc_state a = Some Accepted \<and>
        a_delivery_observation_state a = Some Tracking \<and>
        a_delivery_turn_id a \<noteq> None \<and> a_delivery_observation_deadline a \<noteq> None) \<and>
      (a_state a = Abandoned \<longrightarrow> a_delivery_rpc_state a \<in> {Some Accepted, Some RejectedBeforeAccept, Some RpcUnknown} \<and>
        (a_delivery_rpc_state a = Some Accepted \<longleftrightarrow> a_delivery_turn_id a \<noteq> None)) \<and>
      (a_state a = AttemptClosed \<longrightarrow> a_delivery_rpc_state a \<in> {Some PendingAcceptance, Some Accepted})) \<and>
    (a_adapter_kind a = Desktop \<longrightarrow>
      a_delivery_rpc_state a = None \<and> a_state a \<in> {Prepared, ArmPending, Cooldown, Abandoned, AttemptClosed} \<and>
      (a_state a = Prepared \<longrightarrow> a_desktop_armed_at a = None) \<and>
      (a_state a = ArmPending \<longrightarrow> a_desktop_armed_at a = None \<and> a_bridge_request_id a \<noteq> None \<and>
        a_bridge_arm_lease_id a \<noteq> None \<and> a_bridge_arm_lease_deadline a \<noteq> None \<and>
        a_arm_pending_deadline a \<noteq> None) \<and>
      (a_state a = Cooldown \<longrightarrow> a_desktop_armed_at a \<noteq> None \<and> a_bridge_arm_lease_id a \<noteq> None))"
proof -
  have "attempt_ok a" by (rule reachable_attempt [OF assms])
  then show ?thesis
    by (cases "a_state a") (auto simp: attempt_ok_def desktop_attempt_ok_def split: if_splits)
qed

theorem attempt_phases_witness: "a_delivery_turn_id (hd (delivery_attempts cli6)) \<noteq> None"
proof -
  have a: "hd (delivery_attempts cli6) \<in> set (delivery_attempts cli6)"
    "a_adapter_kind (hd (delivery_attempts cli6)) \<noteq> Desktop"
    "a_state (hd (delivery_attempts cli6)) = Cooldown" by code_simp+
  from attempt_phases [OF cli6_reachable a(1)] a(2,3) show ?thesis by simp
qed

section \<open>Sessions\<close>

lemma reachable_sessions: "reachable d \<Longrightarrow> sessions_ok (cli_managed_sessions d)"
  using reachable_inv [of d] by (simp add: dview_def)

text \<open>
  C8: In every reachable state a thread is bound to at most one session that is not retired; a parked,
  stale or retired session carries no activity, capability or permission proof; and an activity that
  is known was reported with a positive revision.
\<close>

theorem one_session_per_thread:
  assumes "reachable d" and s: "s \<in> set (cli_managed_sessions d)" and r: "r \<in> set (cli_managed_sessions d)"
  shows "(s_session_state s \<noteq> Retired \<and> s_session_state r \<noteq> Retired \<and>
      s_bound_thread_id r = s_bound_thread_id s \<longrightarrow> r = s) \<and>
    (s_session_state s \<in> {Parked, Stale, Retired} \<longrightarrow> cli_session_proof_is_clear s) \<and>
    (s_activity_state s \<noteq> ActivityUnknown \<longrightarrow> 0 < s_activity_revision s)"
proof -
  have ok: "session_ok s" using reachable_sessions [OF assms(1)] s by (simp add: sessions_ok_def)
  have "r = s" if "s_session_state s \<noteq> Retired" "s_session_state r \<noteq> Retired"
      "s_bound_thread_id r = s_bound_thread_id s"
    by (rule distinct_key_eq [where k = s_bound_thread_id and rs =
          "filter (\<lambda>q. s_session_state q \<noteq> Retired) (cli_managed_sessions d)"])
      (use reachable_sessions [OF assms(1)] s r that in \<open>simp_all add: sessions_ok_def\<close>)
  with ok show ?thesis by (auto simp: session_ok_def)
qed

theorem one_session_per_thread_witness: "0 < s_activity_revision (hd (cli_managed_sessions cli4))"
proof -
  have s: "hd (cli_managed_sessions cli4) \<in> set (cli_managed_sessions cli4)"
    "s_activity_state (hd (cli_managed_sessions cli4)) \<noteq> ActivityUnknown" by code_simp+
  from one_session_per_thread [OF cli4_reachable s(1) s(1)] s(2) show ?thesis by simp
qed

section \<open>The epoch fence\<close>

lemma current_session_epoch:
  assumes "reachable d" and "s \<in> set (cli_managed_sessions d)"
    and a: "a_managed_session_id a = Some (s_managed_session_id s)" "a_session_epoch a = Some e"
      "e \<noteq> s_session_epoch s"
  shows "\<not> is_ok (ensure_cli_attempt_has_current_managed_session_for_batch_tx d a b)"
proof
  assume "is_ok (ensure_cli_attempt_has_current_managed_session_for_batch_tx d a b)"
  then obtain q where q: "query_cli_managed_session_tx d (s_managed_session_id s) = Inr q" "s_session_epoch q = e"
    using a(1,2) unfolding is_ok_iff ensure_cli_attempt_has_current_managed_session_for_batch_tx_def
    by (auto simp: ensure_cli_session_identity_allows_delivery_def ensure_cli_session_epoch_matches_def)
  then have "q = s" using query_session_ok [OF q(1)] reachable_unique(3) [OF assms(1,2)] by metis
  with q(2) a(3) show False by simp
qed

lemma accept_needs_session:
  assumes "accept_cli_attempt i turn now dl d = Inr (r, d')"
  obtains a b where "query_delivery_attempt_tx d i = Inr a"
    "is_ok (ensure_cli_attempt_has_current_managed_session_for_batch_tx d a b)"
  using assms
  by (auto simp: accept_cli_attempt_def ensure_cli_attempt_has_current_managed_session_tx_def is_ok_iff
      split: if_splits)

text \<open>
  C9: Once the session of a CLI attempt has moved to a later epoch, no later state of the store
  accepts that attempt: a turn begun before the session's proof was invalidated cannot be charged.
\<close>

theorem stale_epoch_never_accepted:
  assumes "reachable d" and "a \<in> set (delivery_attempts d)" and "s \<in> set (cli_managed_sessions d)"
    and "a_managed_session_id a = Some (s_managed_session_id s)" "a_session_epoch a = Some e"
      "e < s_session_epoch s"
    and run: "store_step\<^sup>*\<^sup>* d d'"
  shows "\<not> is_ok (accept_cli_attempt (a_attempt_id a) turn now dl d')"
proof
  have reach: "reachable d'" and
    ev: "rows_evolve attempt_le (delivery_attempts d) (delivery_attempts d')"
      "rows_evolve session_le (cli_managed_sessions d) (cli_managed_sessions d')"
    using reachable_evolves [OF run assms(1)] by (simp_all add: dview_def)
  obtain a' where a': "a' \<in> set (delivery_attempts d')" "attempt_le a a'"
    using rows_evolve_mem [OF ev(1) assms(2)] by blast
  obtain s' where s': "s' \<in> set (cli_managed_sessions d')" "session_le s s'"
    using rows_evolve_mem [OF ev(2) assms(3)] by blast
  assume "is_ok (accept_cli_attempt (a_attempt_id a) turn now dl d')"
  then obtain q b where q: "query_delivery_attempt_tx d' (a_attempt_id a) = Inr q"
      "is_ok (ensure_cli_attempt_has_current_managed_session_for_batch_tx d' q b)"
    by (auto simp: is_ok_iff elim: accept_needs_session)
  have "q = a'"
    using reachable_unique(1) [OF reach a'(1)] query_attempt_ok [OF q(1)] a'(2)
    by (simp add: attempt_le_def attempt_identity_def)
  with a'(2) s'(2) assms(4-6) have "a_managed_session_id q = Some (s_managed_session_id s')"
      "a_session_epoch q = Some e" "e \<noteq> s_session_epoch s'"
    by (auto simp: attempt_le_def attempt_identity_def session_le_def)
  from current_session_epoch [OF reach s'(1) this] q(2) show False by blast
qed

theorem stale_epoch_never_accepted_witness:
  "\<not> is_ok (accept_cli_attempt (a_attempt_id (hd (delivery_attempts fenced6))) ''u1'' 40 100 fenced6)"
proof (rule stale_epoch_never_accepted [OF fenced6_reachable _ _ _ _ _ rtranclp.rtrancl_refl])
  show "hd (delivery_attempts fenced6) \<in> set (delivery_attempts fenced6)"
    and "hd (cli_managed_sessions fenced6) \<in> set (cli_managed_sessions fenced6)"
    and "a_managed_session_id (hd (delivery_attempts fenced6)) =
      Some (s_managed_session_id (hd (cli_managed_sessions fenced6)))"
    and "a_session_epoch (hd (delivery_attempts fenced6)) = Some 1"
    and "1 < s_session_epoch (hd (cli_managed_sessions fenced6))" by code_simp+
qed

end
