(* ===== verification/Cbth_Begin.thy ===== *)
theory Cbth_Begin
  imports Cbth_Safety
begin

text \<open>
  When a delivery may begin. Lookups and queue checks of the store, in reachable states, mean what
  their SQL says (a row is found exactly when it is in the table, the head is the oldest open batch),
  so that the admission of an attempt by either adapter can be stated without the code's queries.
\<close>

section \<open>Queries in reachable states\<close>

lemma query_batch_iff:
  assumes "reachable d"
  shows "query_batch_tx d x = Inr b \<longleftrightarrow> b \<in> set (batches d) \<and> b_batch_id b = x"
proof -
  have "distinct (map b_batch_id (batches d))" using reachable_inv [OF assms] by (simp add: dview_def)
  then show ?thesis
    using batches_table.lookup_mem query_batch_ok [of d x b] by (auto simp: query_batch_tx_def)
qed

lemma query_session_iff:
  assumes "reachable d"
  shows "query_cli_managed_session_tx d x = Inr s \<longleftrightarrow>
    s \<in> set (cli_managed_sessions d) \<and> s_managed_session_id s = x"
proof -
  have "distinct (map s_managed_session_id (cli_managed_sessions d))"
    using reachable_sessions [OF assms] by (simp add: sessions_ok_def)
  then show ?thesis
    using sessions_table.lookup_mem query_session_ok [of d x s]
    by (auto simp: query_cli_managed_session_tx_def)
qed

lemma query_attempt_iff:
  assumes "reachable d"
  shows "query_delivery_attempt_tx d x = Inr a \<longleftrightarrow> a \<in> set (delivery_attempts d) \<and> a_attempt_id a = x"
proof -
  have "distinct (map a_attempt_id (delivery_attempts d))"
    using reachable_inv [OF assms] by (simp add: dview_def attempt_keys_ok_def)
  then show ?thesis
    using attempts_table.lookup_mem query_attempt_ok [of d x a] by (auto simp: query_delivery_attempt_tx_def)
qed

lemma queue_key_inj:
  assumes "reachable d"
  shows "inj_on queue_key {b \<in> set (batches d). open_in_thread th b}"
  by (rule inj_onI) (auto simp: queue_key_def intro: reachable_unique(2) [OF assms])

text \<open>The oldest open batch of a thread, by creation time and then by id.\<close>

definition oldest_open :: "db \<Rightarrow> batch_row \<Rightarrow> bool" where
  "oldest_open d b \<longleftrightarrow> b \<in> set (batches d) \<and> b_state b = BatchOpen \<and>
     (\<forall>q\<in>set (batches d). b_source_thread_id q = b_source_thread_id b \<and> b_state q = BatchOpen \<longrightarrow>
        b_created_at b < b_created_at q \<or> b_created_at b = b_created_at q \<and> b_batch_id b \<le> b_batch_id q)"

lemma thread_head_iff:
  assumes "reachable d" and "b \<in> set (batches d)"
  shows "batch_is_thread_head_tx d b \<longleftrightarrow> oldest_open d b"
proof
  assume head: "batch_is_thread_head_tx d b"
  note least = head_least [OF reachable_inv [OF assms(1)] assms(2) head]
  show "oldest_open d b"
    using assms(2) least by (fastforce simp: oldest_open_def open_in_thread_def queue_key_def)
next
  let ?rs = "filter (open_in_thread (b_source_thread_id b)) (batches d)"
  assume b: "oldest_open d b"
  then have "b \<in> set ?rs \<and> (\<forall>q\<in>set ?rs. queue_key b \<le> queue_key q)"
    by (auto simp: oldest_open_def open_in_thread_def queue_key_def)
  then have "first_row (order_by queue_key ?rs) = Some b"
    by (subst first_row_order_by_iff) (use queue_key_inj [OF assms(1)] in \<open>simp_all\<close>)
  then show "batch_is_thread_head_tx d b"
    by (simp add: batch_is_thread_head_tx_def thread_head_def)
qed

lemma no_active_iff:
  "ensure_no_active_attempt_for_thread_tx d th = Inr () \<longleftrightarrow>
    (\<forall>a\<in>set (delivery_attempts d). \<not> (a_source_thread_id a = th \<and> active a \<and> batch_state_is d BatchOpen a))"
proof -
  let ?rs = "filter (\<lambda>a. a_source_thread_id a = th \<and> active a \<and> batch_state_is d BatchOpen a) (delivery_attempts d)"
  have "ensure_no_active_attempt_for_thread_tx d th = Inr () \<longleftrightarrow>
      first_row (order_by_desc (\<lambda>a. (a_generation a, a_attempt_id a)) ?rs) = None"
    unfolding ensure_no_active_attempt_for_thread_tx_def by (simp del: first_row_None_iff split: option.splits)
  also have "\<dots> \<longleftrightarrow> set ?rs = {}"
    unfolding first_row_None_iff set_empty [symmetric] set_order_by_desc ..
  finally show ?thesis by auto
qed

lemma active_in_open_batch:
  "reachable d \<Longrightarrow> a \<in> set (delivery_attempts d) \<Longrightarrow> active a \<Longrightarrow> batch_state_is d BatchOpen a"
  by (erule (1) reachable_attempt) (auto simp: batch_state_is_def)

section \<open>What both adapters ask of a batch\<close>

definition thread_may_deliver :: "db \<Rightarrow> batch_row \<Rightarrow> bool" where
  "thread_may_deliver d b \<longleftrightarrow> oldest_open d b \<and> b_replay_policy b = Automatic \<and>
     b_delivery_attempt_count b < b_max_delivery_attempts b \<and>
     (\<forall>a\<in>set (delivery_attempts d). a_source_thread_id a = b_source_thread_id b \<longrightarrow> \<not> active a)"

lemma batch_checks_iff:
  assumes "reachable d" and "b \<in> set (batches d)"
  shows "ensure_batch_open b = Inr () \<and> ensure_batch_is_thread_head_tx d b = Inr () \<and>
      ensure_batch_allows_automatic_delivery b = Inr () \<and> ensure_attempt_budget_remaining b = Inr () \<and>
      ensure_no_active_attempt_for_thread_tx d (b_source_thread_id b) = Inr () \<longleftrightarrow> thread_may_deliver d b"
  using active_in_open_batch [OF assms(1)] thread_head_iff [OF assms]
  by (auto simp: thread_may_deliver_def no_active_iff ensure_batch_open_def ensure_batch_is_thread_head_tx_def
      ensure_batch_allows_automatic_delivery_def ensure_attempt_budget_remaining_def oldest_open_def)

text \<open>The next generation of a batch exists unless some attempt already has the last one.\<close>

lemma next_generation_iff:
  "(\<exists>g. next_attempt_generation_tx d x = Inr g) \<longleftrightarrow>
    in_i64 (coalesce (max_generation d x) 0 + 1)"
  by (auto simp: next_attempt_generation_tx_def checked_add_Some_iff)

lemma insert_attempt_iff:
  assumes "a_delivery_rpc_request_id a = Some rpc" "query_delivery_attempt_by_rpc_request_id_tx d rpc = None"
    "next_attempt_generation_tx d (a_batch_id a) = Inr (a_generation a)"
    "a_batch_id a \<in> b_batch_id ` set (batches d)"
  shows "insert_attempt a d = Inr d' \<longleftrightarrow>
    a_attempt_id a \<notin> a_attempt_id ` set (delivery_attempts d) \<and>
    d' = d\<lparr>delivery_attempts := delivery_attempts d @ [a]\<rparr>"
proof -
  have "\<forall>q\<in>set (delivery_attempts d). a_batch_id q = a_batch_id a \<longrightarrow> a_generation q < a_generation a"
    using next_generation_ok [OF assms(3)] by simp
  then have "\<forall>q\<in>set (delivery_attempts d). \<not> (a_batch_id q = a_batch_id a \<and> a_generation q = a_generation a)"
    by auto
  moreover have "a_delivery_rpc_request_id a \<notin> a_delivery_rpc_request_id ` set (delivery_attempts d)"
    using assms(1,2) by (auto simp: query_delivery_attempt_by_rpc_request_id_tx_def find_None_iff)
  ultimately show ?thesis using assms(4) by (auto simp: insert_attempt_def)
qed

lemma query_inserted_attempt:
  "a_attempt_id a \<notin> a_attempt_id ` set (delivery_attempts d) \<Longrightarrow>
    query_delivery_attempt_tx (d\<lparr>delivery_attempts := delivery_attempts d @ [a]\<rparr>) (a_attempt_id a) = Inr a"
  using attempts_table.lookup_insert [of a d "a_attempt_id a"]
  by (simp add: query_delivery_attempt_tx_def)


section \<open>A CLI attempt begins\<close>

definition session_ready :: "session_row \<Rightarrow> string \<Rightarrow> int \<Rightarrow> authorization_mode \<Rightarrow> bool" where
  "session_ready s thread epoch mode \<longleftrightarrow>
     s_bound_thread_id s = thread \<and> s_session_epoch s = epoch \<and> s_session_state s \<in> {Live, Detached} \<and>
     s_activity_state s = ActivityIdle \<and>
     (s_capability_thread_resume s \<or> s_capability_thread_start s) \<and> s_capability_turn_start s \<and>
     s_capability_current_state_sync s \<and> s_capability_turn_completed_event s \<and>
     s_capability_negative_terminal_events s \<and>
     (mode = StrictSafe \<longrightarrow>
        \<not> s_session_allows_approval s \<and> \<not> s_session_allows_network s \<and> \<not> s_session_allows_write_access s \<and>
        (cli_session_startup_permissions_are_pinned s \<longrightarrow> cli_session_current_permission_snapshot_is_fresh s))"

lemma session_allows_iff:
  "ensure_cli_session_allows_delivery s thread epoch rpc mode = Inr k \<longleftrightarrow>
    session_ready s thread epoch mode \<and> rpc = ''turn_start'' \<and> k = TurnStart"
  by (cases mode)
    (auto simp: ensure_cli_session_allows_delivery_def ensure_cli_session_identity_allows_delivery_def
      ensure_cli_session_epoch_matches_def ensure_cli_session_has_minimum_turn_start_capabilities_def
      session_ready_def)

lemma authorization_value_iff:
  "ensure_cli_attempt_authorization_mode_value s = Inr mode \<longleftrightarrow> s = authorization_mode_text mode"
  by (cases mode) (auto simp: ensure_cli_attempt_authorization_mode_value_def authorization_mode_of_text_def)

lemma authorization_allows_iff:
  "ensure_batch_allows_cli_delivery_for_authorization b mode = Inr () \<longleftrightarrow>
    (mode = StrictSafe \<longrightarrow> detached_delivery_safe b)"
  by (cases mode) (simp_all add: ensure_batch_allows_cli_delivery_for_authorization_def
      ensure_batch_allows_detached_cli_delivery_def)

definition cli_admitted ::
    "db \<Rightarrow> new_cli_attempt \<Rightarrow> batch_row \<Rightarrow> session_row \<Rightarrow> authorization_mode \<Rightarrow> bool" where
  "cli_admitted d att b s mode \<longleftrightarrow>
     b_batch_id b = nc_batch_id att \<and> thread_may_deliver d b \<and>
     \<not> batch_has_plugin_delivery_request_tx d (b_batch_id b) \<and>
     nc_authorization_mode att = authorization_mode_text mode \<and>
     (mode = StrictSafe \<longrightarrow> detached_delivery_safe b) \<and>
     s \<in> set (cli_managed_sessions d) \<and> s_managed_session_id s = nc_managed_session_id att \<and>
     nc_delivery_rpc_kind att = ''turn_start'' \<and>
     session_ready s (b_source_thread_id b) (nc_session_epoch att) mode"

lemma thread_may_deliver_mem: "thread_may_deliver d b \<Longrightarrow> b \<in> set (batches d)"
  by (simp add: thread_may_deliver_def oldest_open_def)

lemma begin_cli_admitted:
  assumes "reachable d"
    and new: "query_delivery_attempt_by_rpc_request_id_tx d (nc_delivery_rpc_request_id att) = None"
    and op: "begin_cli_accept_pending_attempt att d = Inr (r, d')"
  shows "\<exists>b s mode g. cli_admitted d att b s mode \<and> next_attempt_generation_tx d (nc_batch_id att) = Inr g \<and>
      r = pending_cli_attempt_row att b mode TurnStart s g \<and>
      nc_attempt_id att \<notin> a_attempt_id ` set (delivery_attempts d) \<and>
      d' = d\<lparr>delivery_attempts := delivery_attempts d @ [r]\<rparr>"
proof -
  obtain mode b s k g where
    b: "query_batch_tx d (nc_batch_id att) = Inr b"
    and s: "query_cli_managed_session_tx d (nc_managed_session_id att) = Inr s"
    and checks: "ensure_batch_open b = Inr () \<and> ensure_batch_is_thread_head_tx d b = Inr () \<and>
      ensure_batch_allows_automatic_delivery b = Inr () \<and> ensure_attempt_budget_remaining b = Inr () \<and>
      ensure_no_active_attempt_for_thread_tx d (b_source_thread_id b) = Inr ()"
    and g: "next_attempt_generation_tx d (nc_batch_id att) = Inr g"
    and auth: "ensure_cli_attempt_authorization_mode_value (nc_authorization_mode att) = Inr mode"
      "ensure_batch_allows_cli_delivery_for_authorization b mode = Inr ()"
    and plugin: "ensure_batch_is_not_plugin_delivery_tx d b = Inr ()"
    and sess: "ensure_cli_session_allows_delivery s (b_source_thread_id b) (nc_session_epoch att)
      (nc_delivery_rpc_kind att) mode = Inr k"
    and ins: "insert_attempt (pending_cli_attempt_row att b mode k s g) d = Inr d'"
    and rec: "query_delivery_attempt_tx d' (nc_attempt_id att) = Inr r"
    using op new unfolding begin_cli_accept_pending_attempt_def by auto
  let ?row = "pending_cli_attempt_row att b mode k s g"
  have bm: "b \<in> set (batches d)" "b_batch_id b = nc_batch_id att" using b query_batch_ok by blast+
  have row: "nc_attempt_id att \<notin> a_attempt_id ` set (delivery_attempts d) \<and>
      d' = d\<lparr>delivery_attempts := delivery_attempts d @ [?row]\<rparr>"
    using insert_attempt_iff [of ?row _ d d'] ins g new bm by (force simp: pending_cli_attempt_row_def)
  with rec query_inserted_attempt [of ?row d] have "r = ?row" by (simp add: pending_cli_attempt_row_def)
  moreover have "cli_admitted d att b s mode" "k = TurnStart"
    using batch_checks_iff [OF assms(1) bm(1)] checks auth plugin sess s bm(2) query_session_ok [OF s]
    by (simp_all add: cli_admitted_def session_allows_iff authorization_value_iff authorization_allows_iff
        ensure_batch_is_not_plugin_delivery_tx_def)
  ultimately show ?thesis using row g by blast
qed

lemma begin_cli_begins:
  assumes "reachable d"
    and new: "query_delivery_attempt_by_rpc_request_id_tx d (nc_delivery_rpc_request_id att) = None"
    and spec: "\<exists>b s mode g. cli_admitted d att b s mode \<and> next_attempt_generation_tx d (nc_batch_id att) = Inr g \<and>
      r = pending_cli_attempt_row att b mode TurnStart s g \<and>
      nc_attempt_id att \<notin> a_attempt_id ` set (delivery_attempts d) \<and>
      d' = d\<lparr>delivery_attempts := delivery_attempts d @ [r]\<rparr>"
  shows "begin_cli_accept_pending_attempt att d = Inr (r, d')"
proof -
  obtain b s mode g where adm: "cli_admitted d att b s mode"
    and g: "next_attempt_generation_tx d (nc_batch_id att) = Inr g"
    and r: "r = pending_cli_attempt_row att b mode TurnStart s g"
    and fresh: "nc_attempt_id att \<notin> a_attempt_id ` set (delivery_attempts d)"
    and d': "d' = d\<lparr>delivery_attempts := delivery_attempts d @ [r]\<rparr>" using spec by blast
  have bm: "b \<in> set (batches d)" "b_batch_id b = nc_batch_id att"
    using adm thread_may_deliver_mem by (auto simp: cli_admitted_def)
  have checks: "ensure_batch_open b = Inr ()" "ensure_batch_is_thread_head_tx d b = Inr ()"
      "ensure_batch_allows_automatic_delivery b = Inr ()" "ensure_attempt_budget_remaining b = Inr ()"
      "ensure_no_active_attempt_for_thread_tx d (b_source_thread_id b) = Inr ()"
    using batch_checks_iff [OF assms(1) bm(1)] adm by (simp_all add: cli_admitted_def)
  have ids: "a_attempt_id r = nc_attempt_id att" "a_batch_id r = nc_batch_id att" "a_generation r = g"
      "a_delivery_rpc_request_id r = Some (nc_delivery_rpc_request_id att)"
    by (simp_all add: r pending_cli_attempt_row_def)
  have ins: "insert_attempt r d = Inr d'"
    by (subst insert_attempt_iff [OF ids(4) new]) (use ids g bm fresh d' in \<open>auto intro: rev_image_eqI\<close>)
  have "query_delivery_attempt_tx d' (nc_attempt_id att) = Inr r"
    using query_inserted_attempt [of r d] fresh d' ids by simp
  moreover have "query_batch_tx d (nc_batch_id att) = Inr b"
      "query_cli_managed_session_tx d (nc_managed_session_id att) = Inr s"
    using adm bm by (simp_all add: query_batch_iff [OF assms(1)] query_session_iff [OF assms(1)] cli_admitted_def)
  ultimately show ?thesis
    using checks g new adm ins r
    unfolding begin_cli_accept_pending_attempt_def
    by (auto simp: cli_admitted_def session_allows_iff authorization_value_iff authorization_allows_iff
        ensure_batch_is_not_plugin_delivery_tx_def)
qed

text \<open>
  C10: In a reachable state, for a new request id and attempt id and a batch whose generations are not
  exhausted, a CLI attempt begins exactly when its batch is the oldest open one of its thread, still
  automatic, with budget left, no active attempt in the thread and no plugin behind it; the mode is
  known and, if strict-safe, the batch is harmless; and the session, at the named epoch, is live or
  detached, bound to that thread, idle, able to run a turn and, if strict-safe, without permissions.
\<close>

theorem begin_cli_admission:
  assumes "reachable d"
    and "\<forall>a\<in>set (delivery_attempts d). a_delivery_rpc_request_id a \<noteq> Some (nc_delivery_rpc_request_id att)"
    and "\<forall>a\<in>set (delivery_attempts d). a_attempt_id a \<noteq> nc_attempt_id att"
    and "in_i64 (coalesce (max_generation d (nc_batch_id att)) 0 + 1)"
  shows "is_ok (begin_cli_accept_pending_attempt att d) \<longleftrightarrow> (\<exists>b s mode. cli_admitted d att b s mode)"
proof -
  have new: "query_delivery_attempt_by_rpc_request_id_tx d (nc_delivery_rpc_request_id att) = None"
    using assms(2) by (simp add: query_delivery_attempt_by_rpc_request_id_tx_def find_None_iff)
  obtain g where "next_attempt_generation_tx d (nc_batch_id att) = Inr g"
    using assms(4) next_generation_iff by blast
  moreover have "nc_attempt_id att \<notin> a_attempt_id ` set (delivery_attempts d)" using assms(3) by auto
  ultimately show ?thesis
    using begin_cli_admitted [OF assms(1) new] begin_cli_begins [OF assms(1) new] unfolding is_ok_iff by fast
qed

theorem begin_cli_admission_witness: "\<exists>b s mode. cli_admitted cli4 demo_cli_attempt b s mode"
proof -
  have "is_ok (begin_cli_accept_pending_attempt demo_cli_attempt cli4)" by code_simp
  moreover have "\<forall>a\<in>set (delivery_attempts cli4). a_delivery_rpc_request_id a \<noteq> Some (nc_delivery_rpc_request_id demo_cli_attempt)"
    "\<forall>a\<in>set (delivery_attempts cli4). a_attempt_id a \<noteq> nc_attempt_id demo_cli_attempt"
    "in_i64 (coalesce (max_generation cli4 (nc_batch_id demo_cli_attempt)) 0 + 1)" by code_simp+
  ultimately show ?thesis using begin_cli_admission [OF cli4_reachable] by blast
qed

text \<open>
  A CLI attempt that begins adds one row to the attempts and changes nothing else: a pending
  attempt for the named batch, session and epoch, with the session's revisions as its proof, in a
  generation after every earlier attempt of the batch.
\<close>

theorem begin_cli_records_attempt:
  assumes "reachable d"
    and "query_delivery_attempt_by_rpc_request_id_tx d (nc_delivery_rpc_request_id att) = None"
    and "begin_cli_accept_pending_attempt att d = Inr (r, d')"
  shows "d' = d\<lparr>delivery_attempts := delivery_attempts d @ [r]\<rparr> \<and>
    a_state r = AcceptPending \<and> a_delivery_rpc_state r = Some PendingAcceptance \<and>
    a_attempt_id r = nc_attempt_id att \<and> a_batch_id r = nc_batch_id att \<and>
    a_managed_session_id r = Some (nc_managed_session_id att) \<and> a_session_epoch r = Some (nc_session_epoch att) \<and>
    (\<exists>s\<in>set (cli_managed_sessions d). s_managed_session_id s = nc_managed_session_id att \<and>
      a_session_activity_revision r = s_activity_revision s \<and> 0 < s_activity_revision s \<and>
      a_session_capability_revision r = s_capability_revision s \<and> 0 < s_capability_revision s) \<and>
    (\<forall>a\<in>set (delivery_attempts d). a_batch_id a = nc_batch_id att \<longrightarrow> a_generation a < a_generation r)"
proof -
  obtain b s mode g where adm: "cli_admitted d att b s mode"
    and g: "next_attempt_generation_tx d (nc_batch_id att) = Inr g"
    and r: "r = pending_cli_attempt_row att b mode TurnStart s g"
    and d': "d' = d\<lparr>delivery_attempts := delivery_attempts d @ [r]\<rparr>"
    using begin_cli_admitted [OF assms] by blast
  have s: "s \<in> set (cli_managed_sessions d)" "s_managed_session_id s = nc_managed_session_id att"
    using adm by (simp_all add: cli_admitted_def)
  then have "session_ok s" using reachable_sessions [OF assms(1)] by (simp add: sessions_ok_def)
  then have "0 < s_activity_revision s" "0 < s_capability_revision s"
    using adm by (auto simp: session_ok_def cli_admitted_def session_ready_def)
  moreover have "\<forall>a\<in>set (delivery_attempts d). a_batch_id a = nc_batch_id att \<longrightarrow> a_generation a < g"
    using next_generation_ok [OF g] by blast
  ultimately show ?thesis using s d' by (auto simp: r pending_cli_attempt_row_def)
qed

theorem begin_cli_records_attempt_witness:
  "\<exists>r. cli5 = cli4\<lparr>delivery_attempts := delivery_attempts cli4 @ [r]\<rparr> \<and> a_state r = AcceptPending"
proof -
  have "is_ok (begin_cli_accept_pending_attempt demo_cli_attempt cli4)" by code_simp
  then obtain r where r: "begin_cli_accept_pending_attempt demo_cli_attempt cli4 = Inr (r, cli5)"
    unfolding cli5_def using committed_step by blast
  have "query_delivery_attempt_by_rpc_request_id_tx cli4 (nc_delivery_rpc_request_id demo_cli_attempt) = None"
    by code_simp
  from begin_cli_records_attempt [OF cli4_reachable this r] show ?thesis by blast
qed

end
