(* ===== verification/Cbth_Retry.thy ===== *)
theory Cbth_Retry
  imports Cbth_Begin
begin

text \<open>
  Requests are retried: a client that loses the reply of an operation sends it again, possibly with
  a later clock. The locale \<open>retryable\<close> is the contract the client relies on (a repetition of a
  committed request succeeds, answers about the same thing and changes nothing); the operations of
  both delivery adapters and the plugin enqueue are its interpretations.
\<close>

locale retryable =
  fixes op :: "'i \<Rightarrow> 's \<Rightarrow> 'e + 'r \<times> 's"
    and again :: "'i \<Rightarrow> 'i \<Rightarrow> bool"
    and same :: "'r \<Rightarrow> 'r \<Rightarrow> bool"
    and good :: "'s \<Rightarrow> bool"
  assumes retry: "good s \<Longrightarrow> op i s = Inr (r, s') \<Longrightarrow> again i j \<Longrightarrow> \<exists>r'. op j s' = Inr (r', s') \<and> same r r'"
begin

lemma retried: "good s \<Longrightarrow> op i s = Inr (r, s') \<Longrightarrow> again i j \<Longrightarrow> op j s' = Inr (r', s'') \<Longrightarrow> s'' = s' \<and> same r r'"
  using retry [of s i r s' j] by auto

text \<open>Any number of repetitions leaves the state as the first request left it.\<close>

lemma retries:
  assumes "good s" "op i s = Inr (r, s')" and "\<forall>j\<in>set js. again i j"
  shows "for_each (\<lambda>j t. chain (op j t) (\<lambda>(_, u). Inr u)) js s' = Inr s'"
  using assms(3)
proof (induction js)
  case Nil
  then show ?case by simp
next
  case (Cons j js)
  then obtain r' where "op j s' = Inr (r', s')" using retry [OF assms(1,2), of j] by auto
  with Cons show ?case by simp
qed

end

section \<open>The proof of a session is what its columns say\<close>

lemma current_session_cong:
  assumes "cli_managed_sessions d' = cli_managed_sessions d" "b_source_thread_id b' = b_source_thread_id b"
    and "a_attempt_id a' = a_attempt_id a" "a_managed_session_id a' = a_managed_session_id a"
      "a_session_epoch a' = a_session_epoch a" "a_authorization_mode a' = a_authorization_mode a"
      "a_delivery_rpc_kind a' = a_delivery_rpc_kind a"
      "a_session_activity_revision a' = a_session_activity_revision a"
      "a_session_capability_revision a' = a_session_capability_revision a"
  shows "ensure_cli_attempt_has_current_managed_session_for_batch_tx d' a' b' =
    ensure_cli_attempt_has_current_managed_session_for_batch_tx d a b"
  using assms
  by (simp add: ensure_cli_attempt_has_current_managed_session_for_batch_tx_def query_cli_managed_session_tx_def
      ensure_cli_attempt_has_recorded_detached_delivery_proof_def
      ensure_cli_attempt_has_recorded_detached_delivery_proof_snapshot_def cong: rpc_kind.case_cong)

lemma query_update_attempts:
  assumes "query_delivery_attempt_tx d i = Inr a" "p a" "\<And>q. a_attempt_id (f q) = a_attempt_id q"
  shows "query_delivery_attempt_tx (update_attempts p f d) i = Inr (f a)"
  using assms(1,2) attempts_table.lookup_update [of f i p d, OF assms(3)]
  by (simp add: query_delivery_attempt_tx_def update_attempts_def)

lemma spend_attempts [simp]:
  "spend_delivery_attempt x now d = Inr d' \<Longrightarrow> delivery_attempts d' = delivery_attempts d \<and>
    cli_managed_sessions d' = cli_managed_sessions d"
  by (auto simp: spend_delivery_attempt_def Let_def)

lemma query_update_batch:
  assumes "query_batch_tx d y = Inr b" "\<And>q. b_batch_id (f q) = b_batch_id q"
  shows "query_batch_tx (d\<lparr>batches := update_where p f (batches d)\<rparr>) y = Inr (if p b then f b else b)"
  using assms(1) batches_table.lookup_update [of f y p d, OF assms(2)] by (simp add: query_batch_tx_def)

lemma spend_query_batch:
  assumes "spend_delivery_attempt x now d = Inr d'" "query_batch_tx d y = Inr b"
  shows "\<exists>b'. query_batch_tx d' y = Inr b' \<and> b_source_thread_id b' = b_source_thread_id b"
  using assms by (auto simp: spend_delivery_attempt_def Let_def query_update_batch)

lemma query_attempts_cong:
  "delivery_attempts d' = delivery_attempts d \<Longrightarrow> query_delivery_attempt_tx d' i = query_delivery_attempt_tx d i"
  by (simp add: query_delivery_attempt_tx_def)

lemma accepted_row:
  assumes "query_delivery_attempt_tx d i = Inr a" "pending_acceptance a"
    and "spend_delivery_attempt x now (store_acceptance i turn now dl d) = Inr d'"
    and "query_delivery_attempt_tx d' i = Inr r"
  shows "r = a\<lparr>a_state := Cooldown, a_delivery_rpc_state := Some Accepted,
             a_delivery_turn_id := Some turn, a_delivery_accepted_at := Some now,
             a_delivery_observation_state := Some Tracking,
             a_delivery_observation_deadline := Some dl, a_updated_at := now\<rparr>"
proof -
  have "query_delivery_attempt_tx d' i = query_delivery_attempt_tx (store_acceptance i turn now dl d) i"
    by (rule query_attempts_cong) (use assms(3) spend_attempts in blast)
  also have "\<dots> = Inr (a\<lparr>a_state := Cooldown, a_delivery_rpc_state := Some Accepted,
             a_delivery_turn_id := Some turn, a_delivery_accepted_at := Some now,
             a_delivery_observation_state := Some Tracking,
             a_delivery_observation_deadline := Some dl, a_updated_at := now\<rparr>)"
    unfolding store_acceptance_def
    by (rule query_update_attempts) (use assms(1,2) query_attempt_ok [OF assms(1)] in simp_all)
  finally show ?thesis using assms(4) by simp
qed

section \<open>Accepting again\<close>

lemma accept_cli_again:
  assumes op: "accept_cli_attempt i turn now dl d = Inr (r, d')"
  shows "accept_cli_attempt i turn now' dl' d' = Inr (r, d')"
proof -
  obtain a where a: "query_delivery_attempt_tx d i = Inr a" and turn: "turn \<noteq> []"
    using op by (auto simp: accept_cli_attempt_def)
  show ?thesis
  proof (cases "already_accepted a turn")
    case True
    with op a show ?thesis by (auto simp: accept_cli_attempt_def)
  next
    case False
    obtain b where b: "query_batch_tx d (a_batch_id a) = Inr b"
      and pend: "pending_acceptance a"
      and cur: "ensure_cli_attempt_has_current_managed_session_for_batch_tx d a b = Inr ()"
      and sp: "spend_delivery_attempt (a_batch_id a) now (store_acceptance i turn now dl d) = Inr d'"
      and r: "query_delivery_attempt_tx d' i = Inr r"
      using op a False by (auto simp: accept_cli_attempt_def pending_of_adapter Let_def)
    note row = accepted_row [OF a pend sp r]
    obtain b' where b': "query_batch_tx d' (a_batch_id a) = Inr b'" "b_source_thread_id b' = b_source_thread_id b"
      using spend_query_batch [OF sp] b by (auto simp: store_acceptance_def update_attempts_def query_batch_tx_def)
    have "ensure_cli_attempt_has_current_managed_session_for_batch_tx d' r b' = Inr ()"
      by (subst current_session_cong [where d = d and a = a and b = b])
        (use spend_attempts [OF sp] b'(2) cur in \<open>simp_all add: row store_acceptance_def update_attempts_def\<close>)
    then show ?thesis
      using turn r b'(1) by (simp add: accept_cli_attempt_def already_accepted_def row
          ensure_cli_attempt_has_current_managed_session_tx_def)
  qed
qed

lemma accept_codex_again:
  assumes op: "accept_codex_app_server_attempt i turn now dl d = Inr (r, d')"
  shows "accept_codex_app_server_attempt i turn now' dl' d' = Inr (r, d')"
proof -
  obtain a where a: "query_delivery_attempt_tx d i = Inr a" and turn: "turn \<noteq> []"
    using op by (auto simp: accept_codex_app_server_attempt_def)
  show ?thesis
  proof (cases "already_accepted a turn")
    case True
    with op a show ?thesis by (auto simp: accept_codex_app_server_attempt_def)
  next
    case False
    have pend: "pending_acceptance a"
      and sp: "spend_delivery_attempt (a_batch_id a) now (store_acceptance i turn now dl d) = Inr d'"
      and r: "query_delivery_attempt_tx d' i = Inr r"
      using op a False by (auto simp: accept_codex_app_server_attempt_def pending_of_adapter Let_def)
    show ?thesis
      using turn r by (simp add: accept_codex_app_server_attempt_def already_accepted_def
          accepted_row [OF a pend sp r])
  qed
qed

interpretation accept_cli_op: retryable "\<lambda>(i, turn, now, dl). accept_cli_attempt i turn now dl"
    "\<lambda>(i, turn, _, _) (i', turn', _, _). i' = i \<and> turn' = turn" "(=)" "\<lambda>_. True"
  by unfold_locales (auto dest: accept_cli_again)

interpretation accept_codex_op: retryable "\<lambda>(i, turn, now, dl). accept_codex_app_server_attempt i turn now dl"
    "\<lambda>(i, turn, _, _) (i', turn', _, _). i' = i \<and> turn' = turn" "(=)" "\<lambda>_. True"
  by unfold_locales (auto dest: accept_codex_again)


section \<open>Beginning again\<close>

text \<open>A repeated begin names the same request, batch, session and mode; its attempt id may be new.\<close>

definition same_cli_request :: "new_cli_attempt \<Rightarrow> new_cli_attempt \<Rightarrow> bool" where
  "same_cli_request att att' \<longleftrightarrow>
     nc_delivery_rpc_request_id att' = nc_delivery_rpc_request_id att \<and> nc_batch_id att' = nc_batch_id att \<and>
     nc_managed_session_id att' = nc_managed_session_id att \<and> nc_session_epoch att' = nc_session_epoch att \<and>
     nc_authorization_mode att' = nc_authorization_mode att \<and>
     nc_delivery_rpc_kind att' = nc_delivery_rpc_kind att"

definition same_codex_request :: "new_codex_attempt \<Rightarrow> new_codex_attempt \<Rightarrow> bool" where
  "same_codex_request att att' \<longleftrightarrow>
     nx_delivery_rpc_request_id att' = nx_delivery_rpc_request_id att \<and> nx_batch_id att' = nx_batch_id att \<and>
     nx_managed_session_id att' = nx_managed_session_id att \<and> nx_session_epoch att' = nx_session_epoch att"

lemma find_append_new:
  "find P xs = None \<Longrightarrow> P x \<Longrightarrow> find P (xs @ [x]) = Some x"
  by (induction xs) (auto split: if_splits)

lemma query_rpc_inserted:
  "query_delivery_attempt_by_rpc_request_id_tx d rpc = None \<Longrightarrow> a_delivery_rpc_request_id a = Some rpc \<Longrightarrow>
    query_delivery_attempt_by_rpc_request_id_tx (d\<lparr>delivery_attempts := delivery_attempts d @ [a]\<rparr>) rpc = Some a"
  by (simp add: query_delivery_attempt_by_rpc_request_id_tx_def find_append_new)

lemma admitted_session_is_current:
  assumes "reachable d" "cli_admitted d att b s mode"
  shows "ensure_cli_attempt_has_current_managed_session_for_batch_tx d
    (pending_cli_attempt_row att b mode TurnStart s g) b = Inr ()"
proof -
  have s: "s \<in> set (cli_managed_sessions d)" "s_managed_session_id s = nc_managed_session_id att"
    and ready: "session_ready s (b_source_thread_id b) (nc_session_epoch att) mode"
    using assms(2) by (simp_all add: cli_admitted_def)
  have "query_cli_managed_session_tx d (nc_managed_session_id att) = Inr s"
    using s query_session_iff [OF assms(1)] by simp
  moreover have "session_ok s" using reachable_sessions [OF assms(1)] s(1) by (simp add: sessions_ok_def)
  ultimately show ?thesis using ready
    by (cases mode) (auto simp: ensure_cli_attempt_has_current_managed_session_for_batch_tx_def
        pending_cli_attempt_row_def session_ready_def session_ok_def
        ensure_cli_session_identity_allows_delivery_def ensure_cli_session_epoch_matches_def
        ensure_cli_attempt_has_recorded_detached_delivery_proof_def
        ensure_cli_attempt_has_recorded_detached_delivery_proof_snapshot_def
        ensure_cli_session_has_minimum_turn_start_capabilities_def)
qed

lemma begin_cli_again:
  assumes "reachable d" and op: "begin_cli_accept_pending_attempt att d = Inr (r, d')"
    and same: "same_cli_request att att'"
  shows "begin_cli_accept_pending_attempt att' d' = Inr (r, d')"
proof (cases "query_delivery_attempt_by_rpc_request_id_tx d (nc_delivery_rpc_request_id att)")
  case (Some e)
  with op same show ?thesis
    by (auto simp: begin_cli_accept_pending_attempt_def same_cli_request_def
        ensure_existing_cli_accept_matches_request_def Let_def)
next
  case None
  obtain b s mode g where adm: "cli_admitted d att b s mode"
    and r: "r = pending_cli_attempt_row att b mode TurnStart s g"
    and d': "d' = d\<lparr>delivery_attempts := delivery_attempts d @ [r]\<rparr>"
    using begin_cli_admitted [OF assms(1) None op] by blast
  have found: "query_delivery_attempt_by_rpc_request_id_tx d' (nc_delivery_rpc_request_id att) = Some r"
    unfolding d' by (rule query_rpc_inserted [OF None]) (simp add: r pending_cli_attempt_row_def)
  have "query_batch_tx d' (nc_batch_id att) = Inr b"
    using adm thread_may_deliver_mem query_batch_iff [OF assms(1)]
    by (auto simp: d' cli_admitted_def query_batch_tx_def)
  moreover have "ensure_cli_attempt_has_current_managed_session_for_batch_tx d' r b = Inr ()"
    using admitted_session_is_current [OF assms(1) adm, of g]
    by (subst current_session_cong [where d = d and a = r and b = b]) (simp_all add: d' r)
  ultimately have cur: "ensure_cli_attempt_has_current_managed_session_tx d' r = Inr ()"
    by (simp add: ensure_cli_attempt_has_current_managed_session_tx_def r pending_cli_attempt_row_def)
  have "ensure_existing_cli_accept_matches_request r att' = Inr ()"
    using adm same by (simp add: ensure_existing_cli_accept_matches_request_def Let_def r
        pending_cli_attempt_row_def cli_admitted_def same_cli_request_def)
  with found cur adm same show ?thesis
    by (simp add: begin_cli_accept_pending_attempt_def same_cli_request_def cli_admitted_def)
      (auto simp: authorization_value_iff)
qed

lemma begin_codex_again:
  assumes op: "begin_codex_app_server_accept_pending_attempt_tx att d = Inr ((r, c), d')"
    and same: "same_codex_request att att'"
  shows "begin_codex_app_server_accept_pending_attempt_tx att' d' = Inr ((r, False), d')"
proof (cases "query_delivery_attempt_by_rpc_request_id_tx d (nx_delivery_rpc_request_id att)")
  case (Some e)
  with op same show ?thesis
    by (auto simp: begin_codex_app_server_accept_pending_attempt_tx_def same_codex_request_def
        ensure_existing_codex_app_server_accept_matches_request_def Let_def)
next
  case None
  obtain b g where ins: "insert_attempt (pending_codex_attempt_row att b g) d = Inr d'"
    and q: "query_delivery_attempt_tx d' (nx_attempt_id att) = Inr r"
    using op None by (auto simp: begin_codex_app_server_accept_pending_attempt_tx_def)
  let ?row = "pending_codex_attempt_row att b g"
  have d': "d' = d\<lparr>delivery_attempts := delivery_attempts d @ [?row]\<rparr>"
    and "a_attempt_id ?row \<notin> a_attempt_id ` set (delivery_attempts d)"
    using ins by (auto simp: insert_attempt_def)
  then have r: "r = ?row"
    using query_inserted_attempt [of ?row d] q by (simp add: pending_codex_attempt_row_def)
  have "query_delivery_attempt_by_rpc_request_id_tx d' (nx_delivery_rpc_request_id att) = Some r"
    unfolding d' r by (rule query_rpc_inserted [OF None]) (simp add: pending_codex_attempt_row_def)
  with same show ?thesis
    by (simp add: begin_codex_app_server_accept_pending_attempt_tx_def same_codex_request_def
        ensure_existing_codex_app_server_accept_matches_request_def Let_def r pending_codex_attempt_row_def)
qed

interpretation begin_cli_op: retryable begin_cli_accept_pending_attempt same_cli_request "(=)" reachable
  by unfold_locales (auto dest: begin_cli_again)

interpretation begin_codex_op: retryable begin_codex_app_server_accept_pending_attempt_tx same_codex_request
    "\<lambda>(r, _) (r', created). r' = r \<and> \<not> created" "\<lambda>_. True"
  by unfold_locales (auto dest: begin_codex_again)


section \<open>Enqueueing a plugin delivery again\<close>

definition same_plugin_request :: "new_plugin_delivery \<Rightarrow> new_plugin_delivery \<Rightarrow> bool" where
  "same_plugin_request delivery delivery' \<longleftrightarrow>
     np_plugin_name delivery' = np_plugin_name delivery \<and>
     np_idempotency_key delivery' = np_idempotency_key delivery \<and>
     np_request_fingerprint delivery' = np_request_fingerprint delivery"

definition same_enqueue :: "plugin_enqueue_record \<Rightarrow> plugin_enqueue_record \<Rightarrow> bool" where
  "same_enqueue e e' \<longleftrightarrow> \<not> pe_created e' \<and> pe_idempotency_key e' = pe_idempotency_key e \<and>
     pe_job e' = pe_job e \<and> pe_batch e' = pe_batch e"

text \<open>A committed enqueue leaves its request, with the job and the batch it answers about.\<close>

lemma enqueue_leaves_request:
  assumes "enqueue_plugin_delivery_tx delivery d = Inr (e, d')"
  obtains p where
    "query_plugin_delivery_request d' (np_plugin_name delivery) (np_idempotency_key delivery) = Some p"
    "p_request_fingerprint p = np_request_fingerprint delivery"
    "query_job_tx d' (p_job_id p) = Inr (pe_job e)" "query_batch_inspect_tx d' (p_batch_id p) = Inr (pe_batch e)"
    "p_idempotency_key p = np_idempotency_key delivery" "pe_idempotency_key e = np_idempotency_key delivery"
    "pe_created e \<longrightarrow> p_batch_id p = np_batch_id delivery"
proof (cases "query_plugin_delivery_request d (np_plugin_name delivery) (np_idempotency_key delivery)")
  case (Some p)
  then have "p_idempotency_key p = np_idempotency_key delivery"
    by (auto simp: query_plugin_delivery_request_def find_Some_iff)
  with assms Some show ?thesis
    by (intro that [of p]) (auto simp: enqueue_plugin_delivery_tx_def existing_enqueue_record_def)
next
  case None
  let ?p = "\<lparr>p_plugin_name = np_plugin_name delivery, p_idempotency_key = np_idempotency_key delivery,
            p_plugin_instance_id = np_plugin_instance_id delivery,
            p_request_fingerprint = np_request_fingerprint delivery, p_job_id = np_job_id delivery,
            p_batch_id = np_batch_id delivery, p_created_at = np_created_at delivery,
            p_updated_at = np_created_at delivery\<rparr>"
  obtain d1 where ins: "insert_plugin_request ?p d1 = Inr d'"
    and q: "query_job_tx d' (np_job_id delivery) = Inr (pe_job e)"
      "query_batch_inspect_tx d' (np_batch_id delivery) = Inr (pe_batch e)"
    and key: "pe_idempotency_key e = np_idempotency_key delivery"
    using assms None unfolding enqueue_plugin_delivery_tx_def by auto
  have "query_plugin_delivery_request d' (np_plugin_name delivery) (np_idempotency_key delivery) = Some ?p"
    using ins by (auto simp: insert_plugin_request_def query_plugin_delivery_request_def find_None_iff
        intro!: find_append_new)
  with q key show ?thesis by (intro that [of ?p]) simp_all
qed

lemma begin_codex_frame:
  "begin_codex_app_server_accept_pending_attempt_tx att d = Inr (r, d') \<Longrightarrow>
    d' = d\<lparr>delivery_attempts := delivery_attempts d'\<rparr>"
  by (auto simp: begin_codex_app_server_accept_pending_attempt_tx_def insert_attempt_def split: option.splits)

lemma enqueue_queries_frame:
  assumes "d' = d\<lparr>delivery_attempts := A\<rparr>"
  shows "query_plugin_delivery_request d' = query_plugin_delivery_request d"
    "query_job_tx d' = query_job_tx d" "query_batch_inspect_tx d' = query_batch_inspect_tx d"
    "query_batch_tx d' = query_batch_tx d"
  by (simp_all add: assms fun_eq_iff query_plugin_delivery_request_def query_job_tx_def
      query_batch_inspect_tx_def query_batch_jobs_tx_def query_batch_tx_def query_artifact_for_job_tx_def)

lemma enqueue_found:
  assumes "query_plugin_delivery_request d (np_plugin_name delivery) (np_idempotency_key delivery) = Some p"
  shows "enqueue_plugin_delivery_tx delivery d =
    (if p_request_fingerprint p = np_request_fingerprint delivery
     then chain (existing_enqueue_record d p) (\<lambda>record. Inr (record, d))
     else Inl (fingerprint_conflict (np_idempotency_key delivery) (np_plugin_name delivery)))"
  using assms by (simp add: enqueue_plugin_delivery_tx_def)

lemma enqueue_if_head_leaves_request:
  assumes "enqueue_plugin_delivery_with_codex_app_server_attempt_if_head delivery att d = Inr ((e, x), d')"
  obtains p b where
    "query_plugin_delivery_request d' (np_plugin_name delivery) (np_idempotency_key delivery) = Some p"
    "p_request_fingerprint p = np_request_fingerprint delivery"
    "query_job_tx d' (p_job_id p) = Inr (pe_job e)" "query_batch_inspect_tx d' (p_batch_id p) = Inr (pe_batch e)"
    "p_idempotency_key p = np_idempotency_key delivery" "pe_idempotency_key e = np_idempotency_key delivery"
    "query_batch_tx d' (np_batch_id delivery) = Inr b"
proof -
  obtain d1 b where e: "enqueue_plugin_delivery_tx delivery d = Inr (e, d1)"
    and b: "query_batch_tx d1 (np_batch_id delivery) = Inr b"
    and d': "d' = d1 \<or> (\<exists>r. begin_codex_app_server_accept_pending_attempt_tx att d1 = Inr (r, d'))"
    using assms unfolding enqueue_plugin_delivery_with_codex_app_server_attempt_if_head_def
    by (auto split: if_splits)
  from d' have "d' = d1\<lparr>delivery_attempts := delivery_attempts d'\<rparr>"
    using begin_codex_frame [of att d1 _ d'] by auto
  note frame = enqueue_queries_frame [OF this]
  obtain p where
    "query_plugin_delivery_request d1 (np_plugin_name delivery) (np_idempotency_key delivery) = Some p"
    "p_request_fingerprint p = np_request_fingerprint delivery"
    "query_job_tx d1 (p_job_id p) = Inr (pe_job e)" "query_batch_inspect_tx d1 (p_batch_id p) = Inr (pe_batch e)"
    "p_idempotency_key p = np_idempotency_key delivery" "pe_idempotency_key e = np_idempotency_key delivery"
    using enqueue_leaves_request [OF e] by metis
  with b show ?thesis by (intro that [of p b]) (simp_all add: frame)
qed


definition repeats_enqueue ::
    "new_plugin_delivery \<times> new_codex_attempt \<Rightarrow> new_plugin_delivery \<times> new_codex_attempt \<Rightarrow> bool" where
  "repeats_enqueue = (\<lambda>(delivery, _) (delivery', att').
     same_plugin_request delivery delivery' \<and> np_batch_id delivery' = np_batch_id delivery \<and>
     validate_new_plugin_delivery delivery' = Inr () \<and>
     validate_codex_app_server_accept_pending_attempt att' = Inr () \<and>
     nx_batch_id att' = np_batch_id delivery')"

lemma enqueue_again:
  assumes op: "enqueue_plugin_delivery_with_codex_app_server_attempt_if_head delivery att d = Inr ((e, x), d')"
    and rep: "repeats_enqueue (delivery, att) (delivery', att')"
  shows "\<exists>e'. enqueue_plugin_delivery_with_codex_app_server_attempt_if_head delivery' att' d' = Inr ((e', None), d') \<and>
    same_enqueue e e'"
proof -
  obtain p b where
    "query_plugin_delivery_request d' (np_plugin_name delivery) (np_idempotency_key delivery) = Some p"
    "p_request_fingerprint p = np_request_fingerprint delivery"
    and q: "query_job_tx d' (p_job_id p) = Inr (pe_job e)" "query_batch_inspect_tx d' (p_batch_id p) = Inr (pe_batch e)"
    and key: "p_idempotency_key p = np_idempotency_key delivery" "pe_idempotency_key e = np_idempotency_key delivery"
    and b: "query_batch_tx d' (np_batch_id delivery) = Inr b"
    by (rule enqueue_if_head_leaves_request [OF op])
  then have "enqueue_plugin_delivery_tx delivery' d' = chain (existing_enqueue_record d' p) (\<lambda>record. Inr (record, d'))"
    using enqueue_found [of d' delivery' p] rep by (simp add: repeats_enqueue_def same_plugin_request_def)
  with q key b rep show ?thesis
    by (auto simp: enqueue_plugin_delivery_with_codex_app_server_attempt_if_head_def existing_enqueue_record_def
        same_enqueue_def repeats_enqueue_def)
qed

interpretation enqueue_op: retryable
    "\<lambda>(delivery, att). enqueue_plugin_delivery_with_codex_app_server_attempt_if_head delivery att"
    repeats_enqueue "\<lambda>(e, _) (e', attempt). same_enqueue e e' \<and> attempt = None" "\<lambda>_. True"
  by unfold_locales (auto dest: enqueue_again)

section \<open>The properties\<close>

text \<open>
  C11: After a CLI attempt has begun, any number of repetitions of the request (even with other attempt
  ids) leaves the store as it is, and each repetition returns the attempt that was begun.
\<close>

theorem begin_cli_is_idempotent:
  assumes "reachable d" and "begin_cli_accept_pending_attempt att d = Inr (r, d')"
    and "\<forall>att'\<in>set repeats. same_cli_request att att'"
  shows "for_each (\<lambda>att' t. chain (begin_cli_accept_pending_attempt att' t) (\<lambda>(_, u). Inr u)) repeats d' = Inr d' \<and>
    (\<forall>att'\<in>set repeats. begin_cli_accept_pending_attempt att' d' = Inr (r, d'))"
  using begin_cli_op.retries [OF assms] begin_cli_op.retry [OF assms(1,2)] assms(3) by auto

theorem begin_cli_is_idempotent_witness:
  "\<exists>r. begin_cli_accept_pending_attempt (demo_cli_attempt\<lparr>nc_attempt_id := ''a2''\<rparr>) cli5 = Inr (r, cli5)"
proof -
  have "is_ok (begin_cli_accept_pending_attempt demo_cli_attempt cli4)" by code_simp
  then obtain r where "begin_cli_accept_pending_attempt demo_cli_attempt cli4 = Inr (r, cli5)"
    unfolding cli5_def using committed_step by blast
  moreover have "\<forall>att'\<in>set [demo_cli_attempt\<lparr>nc_attempt_id := ''a2''\<rparr>]. same_cli_request demo_cli_attempt att'"
    by (simp add: same_cli_request_def)
  ultimately show ?thesis
    using begin_cli_is_idempotent [OF cli4_reachable, of demo_cli_attempt r cli5] by fastforce
qed

text \<open>
  C12: An accepted turn is charged once: repeating the acceptance of a CLI or a codex app-server
  attempt for the same turn, at any later time, returns the same row and leaves the store as it is.
\<close>

theorem accept_is_idempotent:
  "(accept_cli_attempt i turn now dl d = Inr (r, d') \<longrightarrow>
     accept_cli_attempt i turn now' dl' d' = Inr (r, d')) \<and>
   (accept_codex_app_server_attempt i turn now dl d = Inr (r, d') \<longrightarrow>
     accept_codex_app_server_attempt i turn now' dl' d' = Inr (r, d'))"
  using accept_cli_op.retry [where i = "(i, turn, now, dl)" and j = "(i, turn, now', dl')"]
    accept_codex_op.retry [where i = "(i, turn, now, dl)" and j = "(i, turn, now', dl')"] by simp

theorem accept_is_idempotent_witness: "\<exists>r. accept_cli_attempt ''a1'' ''u1'' 50 200 cli6 = Inr (r, cli6)"
proof -
  have "is_ok (accept_cli_attempt ''a1'' ''u1'' 40 100 cli5)" by code_simp
  then obtain r where "accept_cli_attempt ''a1'' ''u1'' 40 100 cli5 = Inr (r, cli6)"
    unfolding cli6_def using committed_step by blast
  then show ?thesis using accept_is_idempotent [of "''a1''" "''u1''" 40 100 cli5 r cli6 50 200] by blast
qed

text \<open>
  C13: Repeating a plugin enqueue with the same key and fingerprint answers with the job and the batch
  of the first request, marked as not created; it begins no attempt and changes nothing.
\<close>

theorem enqueue_is_idempotent:
  assumes "enqueue_plugin_delivery_with_codex_app_server_attempt_if_head delivery att d = Inr ((e, x), d')"
    and "repeats_enqueue (delivery, att) (delivery', att')"
  shows "\<exists>e'. enqueue_plugin_delivery_with_codex_app_server_attempt_if_head delivery' att' d' = Inr ((e', None), d') \<and>
    \<not> pe_created e' \<and> pe_job e' = pe_job e \<and> pe_batch e' = pe_batch e"
  using enqueue_op.retry [where i = "(delivery, att)" and r = "(e, x)" and j = "(delivery', att')"] assms
  by (auto simp: same_enqueue_def)

theorem enqueue_is_idempotent_witness:
  "\<exists>e. enqueue_plugin_delivery_with_codex_app_server_attempt_if_head
      (demo_delivery ''k1'' ''pj1'' ''plugin-b1'' 25) (demo_codex_attempt ''xa1'' ''plugin-b1'' ''xr1'' 25) codex1 =
    Inr ((e, None), codex1) \<and> \<not> pe_created e"
proof -
  have "is_ok (enqueue_plugin_delivery_with_codex_app_server_attempt_if_head
     (demo_delivery ''k1'' ''pj1'' ''plugin-b1'' 20) (demo_codex_attempt ''xa1'' ''plugin-b1'' ''xr1'' 20) cli0)"
    by code_simp
  then obtain e x where "enqueue_plugin_delivery_with_codex_app_server_attempt_if_head
     (demo_delivery ''k1'' ''pj1'' ''plugin-b1'' 20) (demo_codex_attempt ''xa1'' ''plugin-b1'' ''xr1'' 20) cli0 =
     Inr ((e, x), codex1)"
    unfolding codex1_def using committed_step by (metis prod.exhaust)
  moreover have "repeats_enqueue (demo_delivery ''k1'' ''pj1'' ''plugin-b1'' 20, demo_codex_attempt ''xa1'' ''plugin-b1'' ''xr1'' 20)
      (demo_delivery ''k1'' ''pj1'' ''plugin-b1'' 25, demo_codex_attempt ''xa1'' ''plugin-b1'' ''xr1'' 25)"
    unfolding repeats_enqueue_def prod.case same_plugin_request_def by code_simp
  ultimately show ?thesis using enqueue_is_idempotent by blast
qed

text \<open>
  C14: Once a plugin delivery is enqueued, its idempotency key cannot be used for a different request:
  a valid enqueue of the same plugin and key with another fingerprint is refused and changes nothing.
\<close>

theorem enqueue_conflict_is_refused:
  assumes "enqueue_plugin_delivery_with_codex_app_server_attempt_if_head delivery att d = Inr ((e, x), d')"
    and "np_plugin_name delivery' = np_plugin_name delivery" "np_idempotency_key delivery' = np_idempotency_key delivery"
    and "np_request_fingerprint delivery' \<noteq> np_request_fingerprint delivery"
    and "validate_new_plugin_delivery delivery' = Inr ()"
      "validate_codex_app_server_accept_pending_attempt att' = Inr ()" "nx_batch_id att' = np_batch_id delivery'"
  shows "enqueue_plugin_delivery_with_codex_app_server_attempt_if_head delivery' att' d' =
    Inl (BatchError (IdempotencyKeyReused (np_idempotency_key delivery) (np_plugin_name delivery)))"
proof -
  obtain p b where
    "query_plugin_delivery_request d' (np_plugin_name delivery) (np_idempotency_key delivery) = Some p"
    "p_request_fingerprint p = np_request_fingerprint delivery"
    by (rule enqueue_if_head_leaves_request [OF assms(1)])
  then show ?thesis
    using enqueue_found [of d' delivery' p] assms(2-)
    by (simp add: enqueue_plugin_delivery_with_codex_app_server_attempt_if_head_def fingerprint_conflict_def)
qed

theorem enqueue_conflict_is_refused_witness:
  "enqueue_plugin_delivery_with_codex_app_server_attempt_if_head
      ((demo_delivery ''k1'' ''pj2'' ''plugin-b2'' 25)\<lparr>np_request_fingerprint := ''f2''\<rparr>)
      (demo_codex_attempt ''xa2'' ''plugin-b2'' ''xr2'' 25) codex1 =
    Inl (BatchError (IdempotencyKeyReused ''k1'' ''plug''))"
proof -
  let ?d1 = "demo_delivery ''k1'' ''pj1'' ''plugin-b1'' 20"
  let ?d2 = "(demo_delivery ''k1'' ''pj2'' ''plugin-b2'' 25)\<lparr>np_request_fingerprint := ''f2''\<rparr>"
  have "is_ok (enqueue_plugin_delivery_with_codex_app_server_attempt_if_head
     ?d1 (demo_codex_attempt ''xa1'' ''plugin-b1'' ''xr1'' 20) cli0)"
    by code_simp
  then obtain e x where ok: "enqueue_plugin_delivery_with_codex_app_server_attempt_if_head
     ?d1 (demo_codex_attempt ''xa1'' ''plugin-b1'' ''xr1'' 20) cli0 = Inr ((e, x), codex1)"
    unfolding codex1_def using committed_step by (metis prod.exhaust)
  have valid: "validate_new_plugin_delivery ?d2 = Inr ()"
      "validate_codex_app_server_accept_pending_attempt (demo_codex_attempt ''xa2'' ''plugin-b2'' ''xr2'' 25) = Inr ()"
    by code_simp+
  show ?thesis
    using enqueue_conflict_is_refused [OF ok _ _ _ valid] by (simp add: demo_delivery_def demo_codex_attempt_def)
qed

end
