(* ===== verification/Cbth_Fifo.thy ===== *)
theory Cbth_Fifo
  imports Cbth_Retry
begin

text \<open>
  The open batches of a thread as a first-in first-out queue: the contract \<open>fifo\<close> (what an arrival
  and a departure do to every queue), the order of departures it implies, and its interpretation on
  plugin enqueues and the closing of heads.
\<close>

section \<open>The contract\<close>

datatype ('t, 'b) queue_event = Arrive 't 'b | Depart 't

fun replay :: "('t, 'b) queue_event list \<Rightarrow> ('t \<Rightarrow> 'b list) \<Rightarrow> 't \<Rightarrow> 'b list" where
  "replay [] q = q"
| "replay (Arrive t b # evs) q = replay evs (q(t := q t @ [b]))"
| "replay (Depart t # evs) q = replay evs (q(t := tl (q t)))"

fun arrivals :: "'t \<Rightarrow> ('t, 'b) queue_event list \<Rightarrow> 'b list" where
  "arrivals t [] = []"
| "arrivals t (Arrive u b # evs) = (if u = t then b # arrivals t evs else arrivals t evs)"
| "arrivals t (Depart u # evs) = arrivals t evs"

fun departures :: "'t \<Rightarrow> ('t, 'b) queue_event list \<Rightarrow> ('t \<Rightarrow> 'b list) \<Rightarrow> 'b list" where
  "departures t [] q = []"
| "departures t (Arrive u b # evs) q = departures t evs (q(u := q u @ [b]))"
| "departures t (Depart u # evs) q =
     (if u = t then take 1 (q t) @ departures t evs (q(u := tl (q u))) else departures t evs (q(u := tl (q u))))"

text \<open>What left, followed by what is still queued, is what was queued followed by what arrived.\<close>

lemma take1_tl: "take (Suc 0) xs @ tl xs = xs"
  by (cases xs) simp_all

lemma replay_conserves: "departures t evs q @ replay evs q t = q t @ arrivals t evs"
  by (induction evs arbitrary: q rule: arrivals.induct) (simp_all add: take1_tl)

inductive event_run :: "(('t, 'b) queue_event \<Rightarrow> 's \<Rightarrow> 's \<Rightarrow> bool) \<Rightarrow> ('t, 'b) queue_event list \<Rightarrow> 's \<Rightarrow> 's \<Rightarrow> bool"
  for event where
  stop: "event_run event [] s s"
| more: "event e s s' \<Longrightarrow> event_run event evs s' s'' \<Longrightarrow> event_run event (e # evs) s s''"

inductive_simps event_run_simps: "event_run event [] s s'" "event_run event (e # evs) s s'"

locale fifo =
  fixes queue :: "'s \<Rightarrow> 't \<Rightarrow> 'b list" and event :: "('t, 'b) queue_event \<Rightarrow> 's \<Rightarrow> 's \<Rightarrow> bool"
  assumes arrive: "event (Arrive t b) s s' \<Longrightarrow> queue s' = (queue s)(t := queue s t @ [b])"
    and depart: "event (Depart t) s s' \<Longrightarrow> queue s t \<noteq> [] \<and> queue s' = (queue s)(t := tl (queue s t))"
begin

lemma run_replays: "event_run event evs s s' \<Longrightarrow> queue s' = replay evs (queue s)"
proof (induction rule: event_run.induct)
  case (more e s s' evs s'')
  show ?case
  proof (cases e)
    case (Arrive t b)
    with more arrive [of t b s s'] show ?thesis by (simp add: fun_upd_def)
  next
    case (Depart t)
    with more depart [of t s s'] show ?thesis by (simp add: fun_upd_def)
  qed
qed simp

lemma run_in_order:
  "event_run event evs s s' \<Longrightarrow> departures t evs (queue s) @ queue s' t = queue s t @ arrivals t evs"
  by (simp add: run_replays replay_conserves)

end

section \<open>The queue of a thread\<close>

definition thread_queue :: "db \<Rightarrow> string \<Rightarrow> string list" where
  "thread_queue d th = map b_batch_id (order_by queue_key (filter (open_in_thread th) (batches d)))"

lemma thread_head_queue: "thread_head d th = first_row (thread_queue d th)"
  by (simp add: thread_head_def thread_queue_def first_row_def split: list.split)

lemma thread_queue_mem:
  "x \<in> set (thread_queue d th) \<longleftrightarrow>
    (\<exists>b\<in>set (batches d). b_batch_id b = x \<and> b_source_thread_id b = th \<and> b_state b = BatchOpen)"
  by (auto simp: thread_queue_def open_in_thread_def)

lemma insort_append: "k y \<le> k x \<Longrightarrow> insort_key k y (zs @ [x]) = insort_key k y zs @ [x]"
  by (induction zs) auto

lemma order_by_append: "\<forall>y\<in>set ys. k y \<le> k x \<Longrightarrow> order_by k (ys @ [x]) = order_by k ys @ [x]"
  unfolding order_by_def by (induction ys) (simp_all add: insort_append)

text \<open>A batch that sorts after every open batch of its thread arrives at the end of its queue.\<close>

lemma thread_queue_arrive:
  assumes "batches d' = batches d @ [b]" "b_state b = BatchOpen"
    and "\<forall>q\<in>set (batches d). open_in_thread (b_source_thread_id b) q \<longrightarrow> queue_key q \<le> queue_key b"
  shows "thread_queue d' = (thread_queue d)(b_source_thread_id b := thread_queue d (b_source_thread_id b) @ [b_batch_id b])"
proof
  fix th
  show "thread_queue d' th =
    ((thread_queue d)(b_source_thread_id b := thread_queue d (b_source_thread_id b) @ [b_batch_id b])) th"
  proof (cases "th = b_source_thread_id b")
    case True
    have "order_by queue_key (filter (open_in_thread th) (batches d) @ [b]) =
        order_by queue_key (filter (open_in_thread th) (batches d)) @ [b]"
      by (rule order_by_append) (use assms(3) True in auto)
    with True assms(1,2) show ?thesis by (simp add: thread_queue_def open_in_thread_def)
  qed (use assms(1) in \<open>simp add: thread_queue_def open_in_thread_def\<close>)
qed

text \<open>A batch that closes leaves its queue; every other queue keeps its order.\<close>

lemma filter_order_by: "filter p (order_by k xs) = order_by k (filter p xs)"
  by (simp add: order_by_def filter_sort)

lemma thread_queue_close:
  assumes "close_batch_tx x reason nt now d = Inr d'"
  shows "thread_queue d' th = filter (\<lambda>i. i \<noteq> x) (thread_queue d th)"
proof -
  have inv: "batches (fold (\<lambda>(sid, epoch). invalidate_cli_managed_session_activity_tx sid epoch now) fs e) = batches e" for fs e
    by (induction fs arbitrary: e) (auto simp: invalidate_cli_managed_session_activity_tx_def split: option.splits)
  have B: "batches d' = update_where (\<lambda>b. b_batch_id b = x \<and> b_state b = BatchOpen)
      (\<lambda>b. b\<lparr>b_state := BatchClosed, b_close_reason := Some reason, b_close_note := nt,
            b_updated_at := now, b_closed_at := Some now\<rparr>) (batches d)"
    using assms by (auto simp: close_batch_tx_def Let_def inv)
  have "filter (open_in_thread th) (update_where (\<lambda>b. b_batch_id b = x \<and> b_state b = BatchOpen)
      (\<lambda>b. b\<lparr>b_state := BatchClosed, b_close_reason := Some reason, b_close_note := nt,
            b_updated_at := now, b_closed_at := Some now\<rparr>) bs) =
      filter (\<lambda>b. b_batch_id b \<noteq> x) (filter (open_in_thread th) bs)" for bs
    by (induction bs) (auto simp: open_in_thread_def)
  from this [of "batches d"] have "filter (open_in_thread th) (batches d') =
      filter (\<lambda>b. b_batch_id b \<noteq> x) (filter (open_in_thread th) (batches d))" by (simp only: B)
  then show ?thesis by (simp add: thread_queue_def filter_order_by [symmetric] filter_map comp_def)
qed


section \<open>The operations on queues\<close>

lemma dview_batches: "dview d' = dview d \<Longrightarrow> batches d' = batches d"
  by (simp add: dview_def)

lemma insert_batch_jobs_batches:
  "for_each (\<lambda>(pos, job). insert_batch_job (r pos job)) xs d = Inr d' \<Longrightarrow> batches d' = batches d"
  by (induction xs arbitrary: d) (auto simp: insert_batch_job_def split: prod.splits)

lemma insert_batch_tx_batches:
  assumes "insert_batch_tx nb ids d = Inr d'"
  shows "\<exists>b. batches d' = batches d @ [b] \<and> b_state b = BatchOpen \<and> b_batch_id b = nb_batch_id nb \<and>
    b_source_thread_id b = nb_source_thread_id nb \<and> b_created_at b = nb_created_at nb"
proof -
  obtain d1 where d1: "for_each (\<lambda>(position, job_id).
        insert_batch_job \<lparr>bj_batch_id = nb_batch_id nb, bj_job_id = job_id, bj_position = int position\<rparr>)
      (enumerate 0 ids) d1 = Inr d'"
    and b: "\<exists>b. batches d1 = batches d @ [b] \<and> b_state b = BatchOpen \<and> b_batch_id b = nb_batch_id nb \<and>
    b_source_thread_id b = nb_source_thread_id nb \<and> b_created_at b = nb_created_at nb"
    using assms by (auto simp: insert_batch_tx_def insert_batch_row_def)
  with insert_batch_jobs_batches [OF d1] show ?thesis by simp
qed

lemma plugin_created_at_last:
  assumes "plugin_delivery_batch_created_at_tx d th t = Inr c" "q \<in> set (batches d)" "open_in_thread th q"
  shows "b_created_at q < c"
proof -
  obtain m where m: "max_open_created_at d th = Some m"
    using assms(2,3) by (cases "max_open_created_at d th") (auto simp: max_open_created_at_def filter_empty_conv)
  then have "b_created_at q \<le> m"
    using assms(2,3) unfolding max_open_created_at_def max_agg_Some_iff by auto
  with m assms(1) show ?thesis
    by (auto simp: plugin_delivery_batch_created_at_tx_def checked_timestamp_add_ok split: if_splits)
qed

lemma enqueue_tx_queue:
  assumes "enqueue_plugin_delivery_tx delivery d = Inr (e, d')" "pe_created e"
  shows "thread_queue d' = (thread_queue d)(np_source_thread_id delivery :=
    thread_queue d (np_source_thread_id delivery) @ [np_batch_id delivery])"
proof -
  have new: "query_plugin_delivery_request d (np_plugin_name delivery) (np_idempotency_key delivery) = None"
    using assms by (auto simp: enqueue_plugin_delivery_tx_def existing_enqueue_record_def split: option.splits)
  obtain d1 d2 d3 c nb p jr where d1: "insert_job jr d = Inr d1" "insert_plugin_artifact delivery d1 = Inr d2"
    and c: "plugin_delivery_batch_created_at_tx d2 (np_source_thread_id delivery) (np_created_at delivery) = Inr c"
    and ins: "insert_batch_tx nb [np_job_id delivery] d2 = Inr d3" "insert_plugin_request p d3 = Inr d'"
    and nb: "nb_batch_id nb = np_batch_id delivery" "nb_source_thread_id nb = np_source_thread_id delivery"
      "nb_created_at nb = c"
    using assms(1) new unfolding enqueue_plugin_delivery_tx_def by fastforce
  have B2: "batches d2 = batches d"
    using d1 dview_inserts(1) [OF d1(1)]
    by (auto simp: insert_plugin_artifact_def dview_def split: option.splits dest!: dview_inserts(3))
  obtain b where b: "batches d3 = batches d2 @ [b]" "b_state b = BatchOpen" "b_batch_id b = np_batch_id delivery"
      "b_source_thread_id b = np_source_thread_id delivery" "b_created_at b = c"
    using insert_batch_tx_batches [OF ins(1)] nb by auto
  have "batches d' = batches d @ [b]" using ins(2) b(1) B2 by (auto simp: insert_plugin_request_def)
  from thread_queue_arrive [OF this b(2)] show ?thesis
    using plugin_created_at_last [OF c] b B2 by (fastforce simp: queue_key_def)
qed

lemma enqueue_if_head_queue:
  assumes "enqueue_plugin_delivery_with_codex_app_server_attempt_if_head delivery att d = Inr ((e, x), d')"
    and "pe_created e"
  shows "thread_queue d' = (thread_queue d)(np_source_thread_id delivery :=
    thread_queue d (np_source_thread_id delivery) @ [np_batch_id delivery])"
proof -
  obtain d1 where e: "enqueue_plugin_delivery_tx delivery d = Inr (e, d1)"
    and d': "d' = d1 \<or> (\<exists>r. begin_codex_app_server_accept_pending_attempt_tx att d1 = Inr (r, d'))"
    using assms(1) unfolding enqueue_plugin_delivery_with_codex_app_server_attempt_if_head_def
    by (auto split: if_splits)
  have "batches d' = batches d1"
    using d' by (auto simp: begin_codex_app_server_accept_pending_attempt_tx_def insert_attempt_def
        split: option.splits)
  then have "thread_queue d' = thread_queue d1" by (simp add: thread_queue_def fun_eq_iff)
  with enqueue_tx_queue [OF e assms(2)] show ?thesis by simp
qed

text \<open>
  C15: A plugin delivery that is created is queued behind every open batch of its thread, whatever its
  clock says, and the queues of all other threads stay as they are.
\<close>

theorem plugin_enqueue_goes_last:
  assumes "enqueue_plugin_delivery_with_codex_app_server_attempt_if_head delivery att d = Inr ((e, x), d')"
    and "pe_created e"
  shows "thread_queue d' = (thread_queue d)(np_source_thread_id delivery :=
    thread_queue d (np_source_thread_id delivery) @ [np_batch_id delivery])"
  by (rule enqueue_if_head_queue [OF assms])

theorem plugin_enqueue_goes_last_witness: "thread_queue codex1 ''t1'' = thread_queue cli0 ''t1'' @ [''plugin-b1'']"
proof -
  let ?op = "enqueue_plugin_delivery_with_codex_app_server_attempt_if_head
     (demo_delivery ''k1'' ''pj1'' ''plugin-b1'' 20) (demo_codex_attempt ''xa1'' ''plugin-b1'' ''xr1'' 20) cli0"
  have "is_ok ?op" by code_simp
  then obtain e x where ok: "?op = Inr ((e, x), codex1)"
    unfolding codex1_def using committed_step by (metis prod.exhaust)
  have "(case ?op of Inr ((e, _), _) \<Rightarrow> pe_created e | Inl _ \<Rightarrow> False)" by code_simp
  with ok have "pe_created e" by simp
  from plugin_enqueue_goes_last [OF ok this] show ?thesis by (simp add: demo_delivery_def)
qed

text \<open>Taking the head out of all queues is taking the first element out of its own.\<close>

lemma thread_queue_without_head:
  assumes "reachable d" and x: "thread_head d th = Some x"
  shows "filter (\<lambda>i. i \<noteq> x) (thread_queue d u) = ((thread_queue d)(th := tl (thread_queue d th))) u"
proof -
  have "distinct (map b_batch_id (batches d))" using reachable_inv [OF assms(1)] by (simp add: dview_def)
  then have dist: "distinct (thread_queue d u)" for u
    by (simp add: thread_queue_def order_by_def distinct_map inj_on_def)
  obtain rest where q: "thread_queue d th = x # rest"
    using x by (auto simp: thread_head_queue first_row_def split: list.splits)
  have other: "x \<notin> set (thread_queue d u)" if "u \<noteq> th"
  proof
    assume "x \<in> set (thread_queue d u)"
    then obtain b where b: "b \<in> set (batches d)" "b_batch_id b = x" "b_source_thread_id b = u"
      unfolding thread_queue_mem by blast
    have "x \<in> set (thread_queue d th)" using q by simp
    then obtain c where c: "c \<in> set (batches d)" "b_batch_id c = x" "b_source_thread_id c = th"
      unfolding thread_queue_mem by blast
    have "c = b" by (rule reachable_unique(2) [OF assms(1) b(1) c(1)]) (simp add: b c)
    with b c that show False by simp
  qed
  show ?thesis using q dist [of th] other by (cases "u = th") (auto intro!: filter_True)
qed

lemma close_head_queue:
  assumes "reachable d" and "close_head rewrite th reason nt now d = Inr (r, d')"
  shows "thread_queue d th \<noteq> [] \<and> b_batch_id (bi_batch r) = hd (thread_queue d th) \<and>
    thread_queue d' = (thread_queue d)(th := tl (thread_queue d th))"
proof -
  obtain x d1 arts d2 where x: "thread_head d th = Some x" and d1: "close_batch_tx x reason nt now d = Inr d1"
    and d2: "extend_closed_batch_artifact_retention_tx x now d1 = Inr (arts, d2)"
    and r: "query_batch_inspect_tx d2 x = Inr r"
    and d': "d' = snd (sync_artifact_manifests rewrite arts now d2)"
    using assms(2) by (auto simp: close_head_def)
  have "batches d' = batches d1"
    using dview_batches [OF dview_sync] dview_batches [OF dview_extend [OF d2]] d' by simp
  then have "thread_queue d' = thread_queue d1" by (simp add: thread_queue_def fun_eq_iff)
  moreover have "thread_queue d1 = (thread_queue d)(th := tl (thread_queue d th))"
    using thread_queue_close [OF d1] thread_queue_without_head [OF assms(1) x] by (simp add: fun_eq_iff)
  moreover have "b_batch_id (bi_batch r) = x"
    using r query_batch_ok by (auto simp: query_batch_inspect_tx_def)
  ultimately show ?thesis using x by (auto simp: thread_head_queue first_row_def split: list.splits)
qed

text \<open>
  Closing the head of a thread's queue takes exactly its first batch out of it; the queues of all
  other threads stay as they are.
\<close>

theorem close_head_takes_first:
  assumes "reachable d" and "close_head rewrite th reason nt now d = Inr (r, d')"
  shows "thread_queue d th \<noteq> [] \<and> b_batch_id (bi_batch r) = hd (thread_queue d th) \<and>
    thread_queue d' = (thread_queue d)(th := tl (thread_queue d th))"
  by (rule close_head_queue [OF assms])

definition queued2 :: db where
  "queued2 = committed (enqueue_plugin_delivery_with_codex_app_server_attempt_if_head
     (demo_delivery ''k2'' ''pj2'' ''plugin-b2'' 20) (demo_codex_attempt ''xa2'' ''plugin-b2'' ''xr2'' 20) codex1)"
definition queued3 :: db where
  "queued3 = committed (close_head (\<lambda>_. True) ''t1'' ''done'' None 50 queued2)"

lemma queued2_ok:
  obtains e x where "enqueue_plugin_delivery_with_codex_app_server_attempt_if_head
     (demo_delivery ''k2'' ''pj2'' ''plugin-b2'' 20) (demo_codex_attempt ''xa2'' ''plugin-b2'' ''xr2'' 20) codex1 =
     Inr ((e, x), queued2)" "pe_created e"
proof -
  let ?op = "enqueue_plugin_delivery_with_codex_app_server_attempt_if_head
     (demo_delivery ''k2'' ''pj2'' ''plugin-b2'' 20) (demo_codex_attempt ''xa2'' ''plugin-b2'' ''xr2'' 20) codex1"
  have "is_ok ?op" by code_simp
  then obtain e x where ok: "?op = Inr ((e, x), queued2)"
    unfolding queued2_def using committed_step by (metis prod.exhaust)
  have "(case ?op of Inr ((e, _), _) \<Rightarrow> pe_created e | Inl _ \<Rightarrow> False)" by code_simp
  with ok that show ?thesis by simp
qed

lemma queued2_reachable: "reachable queued2"
  using queued2_ok codex1_reachable by (metis reachable.step store_step.enqueue_plugin)

lemma queued3_ok: obtains r where "close_head (\<lambda>_. True) ''t1'' ''done'' None 50 queued2 = Inr (r, queued3)"
proof -
  have "is_ok (close_head (\<lambda>_. True) ''t1'' ''done'' None 50 queued2)" by code_simp
  with that show ?thesis unfolding queued3_def using committed_step by blast
qed

theorem close_head_takes_first_witness: "thread_queue queued3 ''t1'' = tl (thread_queue queued2 ''t1'')"
proof -
  obtain r where "close_head (\<lambda>_. True) ''t1'' ''done'' None 50 queued2 = Inr (r, queued3)" by (rule queued3_ok)
  from close_head_takes_first [OF queued2_reachable this] show ?thesis by simp
qed

section \<open>First in, first out\<close>

fun queue_step :: "(string, string) queue_event \<Rightarrow> db \<Rightarrow> db \<Rightarrow> bool" where
  "queue_step (Arrive th x) d d' \<longleftrightarrow> (\<exists>delivery att e a.
     enqueue_plugin_delivery_with_codex_app_server_attempt_if_head delivery att d = Inr ((e, a), d') \<and>
     pe_created e \<and> np_source_thread_id delivery = th \<and> np_batch_id delivery = x)"
| "queue_step (Depart th) d d' \<longleftrightarrow> reachable d \<and>
     (\<exists>rewrite reason nt now r. close_head rewrite th reason nt now d = Inr (r, d'))"

interpretation thread_fifo: fifo thread_queue queue_step
  by unfold_locales (auto dest: enqueue_if_head_queue close_head_queue)

text \<open>
  C16: Along any run of plugin enqueues and head closings, on any threads, the batches of a thread leave
  its queue in the order in which they arrived: those that left, followed by those still queued, are
  those queued at the start followed by the arrivals.
\<close>

theorem batches_leave_in_order:
  assumes "event_run queue_step evs d d'"
  shows "departures th evs (thread_queue d) @ thread_queue d' th = thread_queue d th @ arrivals th evs"
  by (rule thread_fifo.run_in_order [OF assms])

theorem batches_leave_in_order_witness:
  "departures ''t1'' [Arrive ''t1'' ''plugin-b2'', Depart ''t1''] (thread_queue codex1) @ thread_queue queued3 ''t1'' =
    [''plugin-b1'', ''plugin-b2'']"
proof -
  obtain e x where "enqueue_plugin_delivery_with_codex_app_server_attempt_if_head
     (demo_delivery ''k2'' ''pj2'' ''plugin-b2'' 20) (demo_codex_attempt ''xa2'' ''plugin-b2'' ''xr2'' 20) codex1 =
     Inr ((e, x), queued2)" "pe_created e" by (rule queued2_ok)
  then have 1: "queue_step (Arrive ''t1'' ''plugin-b2'') codex1 queued2"
    by (force simp: demo_delivery_def)
  obtain r where "close_head (\<lambda>_. True) ''t1'' ''done'' None 50 queued2 = Inr (r, queued3)" by (rule queued3_ok)
  then have 2: "queue_step (Depart ''t1'') queued2 queued3"
    using queued2_reachable unfolding queue_step.simps by blast
  have "event_run queue_step [Arrive ''t1'' ''plugin-b2'', Depart ''t1''] codex1 queued3"
    using 1 2 by (blast intro: event_run.intros)
  moreover have "thread_queue codex1 ''t1'' = [''plugin-b1'']" by code_simp
  ultimately show ?thesis using batches_leave_in_order [of _ codex1 queued3 "''t1''"] by fastforce
qed


section \<open>Finished jobs\<close>

lemma query_updated_job:
  assumes "query_job_tx d i = Inr j" "\<And>q. j_job_id (f q) = j_job_id q"
  shows "query_job_tx (update_job i f d) i = Inr (f j)"
  using assms(1) jobs_table.lookup_update [of f i "\<lambda>j. j_job_id j = i" d, OF assms(2)] query_job_ok [OF assms(1)]
  by (simp add: query_job_tx_def update_job_def)

lemma insert_batch_jobs_attempts:
  "for_each (\<lambda>(pos, job). insert_batch_job (r pos job)) xs d = Inr d' \<Longrightarrow> delivery_attempts d' = delivery_attempts d"
  by (induction xs arbitrary: d) (auto simp: insert_batch_job_def split: prod.splits)

lemma insert_batch_tx_attempts: "insert_batch_tx nb ids d = Inr d' \<Longrightarrow> delivery_attempts d' = delivery_attempts d"
  by (auto simp: insert_batch_tx_def insert_batch_row_def dest!: insert_batch_jobs_attempts)

lemma failed_job_rows:
  assumes "fail_job new_batch_id job_id reason now n w d = Inr (r, d')"
    and "find (\<lambda>j. j_job_id j = job_id) (jobs d) = Some j"
  obtains b where "batches d' = batches d @ [b]" "b_state b = BatchOpen" "b_batch_id b = new_batch_id"
    "b_source_thread_id b = j_source_thread_id j" "b_created_at b = now" "delivery_attempts d' = delivery_attempts d"
proof -
  let ?f = "\<lambda>j. j\<lparr>j_status := JobFailed, j_updated_at := now, j_failed_at := Some now,
      j_failure_reason := Some reason\<rparr>"
  have q: "query_job_tx d job_id = Inr j" using assms(2) by (simp add: query_job_tx_def)
  note updated = query_updated_job [OF q, of ?f, simplified]
  obtain nb ids where ins: "insert_batch_tx nb ids (update_job job_id ?f d) = Inr d'"
    and nb: "nb_batch_id nb = new_batch_id" "nb_source_thread_id nb = j_source_thread_id j" "nb_created_at nb = now"
    using assms(1) q updated unfolding fail_job_def Let_def by fastforce
  have d1: "batches (update_job job_id ?f d) = batches d" "delivery_attempts (update_job job_id ?f d) = delivery_attempts d"
    by (simp_all add: update_job_def)
  show thesis
    using insert_batch_tx_batches [OF ins] insert_batch_tx_attempts [OF ins] nb d1 that by auto
qed

text \<open>
  A job that fails queues its batch behind the open batches of its thread, provided each of them was
  created before the second of the failure.
\<close>

theorem failed_job_goes_last:
  assumes "fail_job new_batch_id job_id reason now n w d = Inr (r, d')"
    and "find (\<lambda>j. j_job_id j = job_id) (jobs d) = Some j"
    and "\<forall>b\<in>set (batches d). b_source_thread_id b = j_source_thread_id j \<and> b_state b = BatchOpen \<longrightarrow>
      b_created_at b < now"
  shows "thread_queue d' = (thread_queue d)(j_source_thread_id j :=
    thread_queue d (j_source_thread_id j) @ [new_batch_id])"
proof -
  obtain b where b: "batches d' = batches d @ [b]" "b_state b = BatchOpen" "b_batch_id b = new_batch_id"
      "b_source_thread_id b = j_source_thread_id j" "b_created_at b = now"
    by (rule failed_job_rows [OF assms(1,2)])
  from thread_queue_arrive [OF b(1,2)] show ?thesis
    using assms(3) b by (auto simp: queue_key_def open_in_thread_def)
qed

theorem failed_job_goes_last_witness: "thread_queue cli1 ''t1'' = thread_queue cli0 ''t1'' @ [''b1'']"
proof -
  have "is_ok (fail_job ''b1'' ''j1'' ''boom'' 20 3 86400 cli0)" by code_simp
  then obtain r where ok: "fail_job ''b1'' ''j1'' ''boom'' 20 3 86400 cli0 = Inr (r, cli1)"
    unfolding cli1_def using committed_step by blast
  have j: "find (\<lambda>j. j_job_id j = ''j1'') (jobs cli0) = Some (hd (jobs cli0))"
      "\<forall>b\<in>set (batches cli0). b_source_thread_id b = j_source_thread_id (hd (jobs cli0)) \<and> b_state b = BatchOpen \<longrightarrow>
        b_created_at b < 20" "j_source_thread_id (hd (jobs cli0)) = ''t1''" by code_simp+
  from failed_job_goes_last [OF ok j(1,2)] j(3) show ?thesis by simp
qed

lemma new_batch_oldest:
  assumes "oldest_open d h" and b: "batches d' = batches d @ [b]" "b_state b = BatchOpen"
      "b_source_thread_id b = b_source_thread_id h"
  shows "oldest_open d' (if queue_key b < queue_key h then b else h)"
  using assms by (auto simp: oldest_open_def queue_key_def less_prod_def')

lemma codex_turn_of_other_batch:
  assumes "reachable d" and a: "a \<in> set (delivery_attempts d)" "a_adapter_kind a = CodexAppServer" "tracking a"
    and turn: "a_delivery_turn_id a = Some turn" "turn \<noteq> []" and ev: "turn_event_of_text txt = Some ev"
    and b: "b \<in> set (batches d)" "b_batch_id b = a_batch_id a" "b_state b = BatchOpen" "\<not> oldest_open d b"
  shows "observe_codex_app_server_turn_event rewrite (a_attempt_id a) turn txt now d =
    Inl (BatchError (NotThreadHead (b_batch_id b)))"
proof -
  have "attempt_ok a" by (rule reachable_attempt [OF assms(1) a(1)])
  then have "ensure_attempt_tracking_turn_observation_for_adapter a CodexAppServer = Inr ()"
    using a(2,3) by (simp add: ensure_attempt_tracking_turn_observation_for_adapter_def attempt_ok_def tracking_def)
  moreover have "query_batch_tx d (a_batch_id a) = Inr b" using query_batch_iff [OF assms(1)] b(1,2) by simp
  moreover have "ensure_batch_is_thread_head_tx d b = Inl (BatchError (NotThreadHead (b_batch_id b)))"
    using thread_head_iff [OF assms(1) b(1)] b(4) by (simp add: ensure_batch_is_thread_head_tx_def)
  ultimately have "observe_tracked_codex_turn a ev now d = Inl (BatchError (NotThreadHead (b_batch_id b)))"
    using b(3) by (simp add: observe_tracked_codex_turn_def ensure_batch_open_def)
  moreover have "query_delivery_attempt_tx d (a_attempt_id a) = Inr a" using query_attempt_iff [OF assms(1)] a(1) by simp
  ultimately show ?thesis
    using a(3) turn ev
    by (simp add: observe_codex_app_server_turn_event_def ensure_cli_turn_event_value_def ok_or_def
        ensure_cli_turn_observation_matches_attempt_def is_idempotent_terminal_cli_turn_observation_def
        can_record_late_cli_turn_evidence_def tracking_def ensure_nonempty_value_def)
qed

text \<open>
  C17: That condition matters. A job that fails takes over the head of its thread exactly when the second
  of the failure, and then the id of its batch, sorts before those of the head: a failure in the second in
  which the head was created can do so, since the ids of these batches sort before those of plugin
  batches. The turn that the codex app server accepted for the old head is then refused whatever is
  observed of it, its completion included.
\<close>

theorem failed_job_can_preempt_head:
  assumes "reachable d" and head: "oldest_open d h"
    and op: "fail_job new_batch_id job_id reason now n w d = Inr (r, d')"
    and j: "find (\<lambda>j. j_job_id j = job_id) (jobs d) = Some j" "j_source_thread_id j = b_source_thread_id h"
    and a: "a \<in> set (delivery_attempts d)" "a_adapter_kind a = CodexAppServer" "tracking a"
      "a_batch_id a = b_batch_id h" "a_delivery_turn_id a = Some turn" "turn \<noteq> []"
    and ev: "turn_event_of_text txt = Some ev"
  shows "if now < b_created_at h \<or> now = b_created_at h \<and> new_batch_id < b_batch_id h
    then thread_head d' (b_source_thread_id h) = Some new_batch_id \<and>
      observe_codex_app_server_turn_event rewrite (a_attempt_id a) turn txt observed_at d' =
        Inl (BatchError (NotThreadHead (b_batch_id h)))
    else thread_head d' (b_source_thread_id h) = Some (b_batch_id h)"
proof -
  obtain b where b: "batches d' = batches d @ [b]" "b_state b = BatchOpen" "b_batch_id b = new_batch_id"
      "b_source_thread_id b = b_source_thread_id h" "b_created_at b = now" and A: "delivery_attempts d' = delivery_attempts d"
    by (rule failed_job_rows [OF op j(1)]) (use j(2) in simp)
  have reach: "reachable d'" by (rule reachable.step [OF assms(1) store_step.fail_job [OF op]])
  let ?first = "if queue_key b < queue_key h then b else h"
  have first: "oldest_open d' ?first" by (rule new_batch_oldest [OF head b(1,2,4)])
  then have "batch_is_thread_head_tx d' ?first" using thread_head_iff [OF reach] by (simp add: oldest_open_def)
  then have "thread_head d' (b_source_thread_id h) = Some (b_batch_id ?first)"
    using b(4) by (simp add: batch_is_thread_head_tx_def split: if_splits)
  moreover have "queue_key b < queue_key h \<longleftrightarrow> now < b_created_at h \<or> now = b_created_at h \<and> new_batch_id < b_batch_id h"
    using b(3,5) by (auto simp: queue_key_def)
  moreover have "observe_codex_app_server_turn_event rewrite (a_attempt_id a) turn txt observed_at d' =
      Inl (BatchError (NotThreadHead (b_batch_id h)))" if "queue_key b < queue_key h"
  proof (rule codex_turn_of_other_batch [OF reach _ a(2,3,5,6) ev])
    show "\<not> oldest_open d' h" using that b by (force simp: oldest_open_def queue_key_def)
  qed (use a head b(1) A in \<open>auto simp: oldest_open_def\<close>)
  ultimately show ?thesis using b(3) by simp
qed

theorem failed_job_can_preempt_head_witness:
  "thread_head codex2 ''t1'' = Some ''plugin-b1'' \<and> thread_head codex3 ''t1'' = Some ''018f-b2'' \<and>
   observe_codex_app_server_turn_event (\<lambda>_. True) ''xa1'' ''u1'' ''turn_completed'' 40 codex3 =
     Inl (BatchError (NotThreadHead ''plugin-b1''))"
proof -
  let ?h = "hd (batches codex2)" and ?a = "hd (delivery_attempts codex2)" and ?j = "hd (jobs codex2)"
  have h: "oldest_open codex2 ?h" "b_batch_id ?h = ''plugin-b1''" "b_source_thread_id ?h = ''t1''" "b_created_at ?h = 20"
    by code_simp+
  have "is_ok (fail_job ''018f-b2'' ''j1'' ''boom'' 20 3 86400 codex2)" by code_simp
  then obtain r where op: "fail_job ''018f-b2'' ''j1'' ''boom'' 20 3 86400 codex2 = Inr (r, codex3)"
    unfolding codex3_def using committed_step by blast
  have j: "find (\<lambda>j. j_job_id j = ''j1'') (jobs codex2) = Some ?j" "j_source_thread_id ?j = b_source_thread_id ?h"
    by code_simp+
  have a: "?a \<in> set (delivery_attempts codex2)" "a_adapter_kind ?a = CodexAppServer" "tracking ?a"
    "a_batch_id ?a = b_batch_id ?h" "a_delivery_turn_id ?a = Some ''u1''" "''u1'' \<noteq> ([] :: string)" by code_simp+
  have more: "turn_event_of_text ''turn_completed'' = Some TurnCompleted" "a_attempt_id ?a = ''xa1''"
    "''018f-b2'' < (''plugin-b1'' :: string)" "thread_head codex2 ''t1'' = Some ''plugin-b1''" by code_simp+
  from failed_job_can_preempt_head [OF codex2_reachable h(1) op j a more(1), of "\<lambda>_. True" 40] h more
  show ?thesis by simp
qed

end
