(* ===== verification/Cbth_Outcomes.thy ===== *)
theory Cbth_Outcomes
  imports Cbth_Fifo
begin

text \<open>
  How an accepted CLI turn ends: its completion, observed in time and with the session's proof intact,
  closes the batch as delivered and fences the session; every other end hands the batch to manual
  resolution and parks the session.
\<close>

section \<open>The guards of an observation\<close>

lemma tracked_attempt:
  assumes "reachable d" "a \<in> set (delivery_attempts d)" "a_adapter_kind a = Cli" "tracking a"
  shows "ensure_attempt_tracking_turn_observation_for_adapter a Cli = Inr ()"
    "ensure_attempt_is_current_generation_tx d a = Inr ()"
proof -
  have "attempt_ok a" by (rule reachable_attempt [OF assms(1,2)])
  with assms(3,4) show "ensure_attempt_tracking_turn_observation_for_adapter a Cli = Inr ()"
    by (simp add: ensure_attempt_tracking_turn_observation_for_adapter_def attempt_ok_def tracking_def)
  show "ensure_attempt_is_current_generation_tx d a = Inr ()"
    by (rule active_is_latest [OF assms(1,2)]) (use assms(4) in \<open>simp add: tracking_def active_def\<close>)
qed

lemma oldest_open_checks:
  assumes "reachable d" "oldest_open d b"
  shows "ensure_batch_open b = Inr ()" "ensure_batch_is_thread_head_tx d b = Inr ()"
    "query_batch_tx d (b_batch_id b) = Inr b"
  using assms thread_head_iff [OF assms(1), of b] query_batch_iff [OF assms(1)]
  by (auto simp: oldest_open_def ensure_batch_open_def ensure_batch_is_thread_head_tx_def)

lemma observe_cli_tracked:
  assumes "reachable d" and a: "a \<in> set (delivery_attempts d)" "a_adapter_kind a = Cli" "tracking a"
    and turn: "a_delivery_turn_id a = Some turn" "turn \<noteq> []" and ev: "turn_event_of_text txt = Some ev"
  shows "observe_cli_turn_event rewrite (a_attempt_id a) turn txt now d =
    chain (observe_tracked_cli_turn a ev now d) (\<lambda>(arts, d).
    chain (query_delivery_attempt_tx d (a_attempt_id a)) (\<lambda>record.
    Inr (record, snd (sync_artifact_manifests rewrite arts now d))))"
proof -
  have "query_delivery_attempt_tx d (a_attempt_id a) = Inr a" using query_attempt_iff [OF assms(1)] a(1) by simp
  then show ?thesis
    using a turn ev
    by (simp add: observe_cli_turn_event_def ensure_cli_turn_event_value_def ok_or_def
        ensure_cli_turn_observation_matches_attempt_def is_idempotent_terminal_cli_turn_observation_def
        can_complete_delayed_cli_turn_after_expiry_def can_record_late_cli_turn_evidence_def tracking_def
        ensure_nonempty_value_def)
qed

lemma observe_tracked_iff:
  assumes "reachable d" and a: "a \<in> set (delivery_attempts d)" "a_adapter_kind a = Cli" "tracking a"
    and b: "oldest_open d b" "b_batch_id b = a_batch_id a"
    and dl: "a_delivery_observation_deadline a = Some dl"
  shows "observe_tracked_cli_turn a ev now d =
    (if \<not> is_ok (ensure_cli_attempt_has_current_managed_session_for_batch_tx d a b)
     then chain (lose_cli_observation a ev ObservationAbandoned now d) (\<lambda>d. Inr ([], d))
     else if dl \<le> now
     then chain (lose_cli_observation a ev ObservationExpired now d) (\<lambda>d. Inr ([], d))
     else case ev of
         TurnStarted \<Rightarrow> Inr ([], store_turn_started (a_attempt_id a) now d)
       | TurnCompleted \<Rightarrow>
           chain (ensure_batch_allows_automatic_delivery b) (\<lambda>_.
           close_delivered_batch (a_batch_id a) ''observed CLI turn completion'' now
             (store_turn_completed (a_attempt_id a) now d))
       | _ \<Rightarrow> chain (lose_cli_observation a ev ObservationAbandoned now d) (\<lambda>d. Inr ([], d)))"
  using tracked_attempt [OF assms(1) a] oldest_open_checks [OF assms(1) b(1)] b(2) dl
  by (simp add: observe_tracked_cli_turn_def cli_turn_observation_is_after_deadline_def ok_or_def)


section \<open>Delivery\<close>

lemma fold_invalidate_frame:
  "batches (fold (\<lambda>(sid, epoch). invalidate_cli_managed_session_activity_tx sid epoch now) fs d) = batches d"
  "delivery_attempts (fold (\<lambda>(sid, epoch). invalidate_cli_managed_session_activity_tx sid epoch now) fs d) =
    delivery_attempts d"
  by (induction fs arbitrary: d)
    (auto simp: invalidate_cli_managed_session_activity_tx_def split: option.splits)

text \<open>A live session named by one of the fences leaves its epoch.\<close>

lemma invalidate_session_row:
  assumes "s \<in> set (cli_managed_sessions d)" "s_session_state s \<in> {Live, Detached}"
  shows "\<exists>s'\<in>set (cli_managed_sessions (invalidate_cli_managed_session_activity_tx sid epoch now d)).
    s_managed_session_id s' = s_managed_session_id s \<and> s_session_state s' \<in> {Live, Detached} \<and>
    s_session_epoch s \<le> s_session_epoch s' \<and>
    (sid = Some (s_managed_session_id s) \<and> epoch = Some (s_session_epoch s) \<longrightarrow> s_session_epoch s < s_session_epoch s')"
proof (rule bexI)
  let ?s' = "if sid = Some (s_managed_session_id s) \<and> epoch = Some (s_session_epoch s)
    then (clear_current_proof s)\<lparr>s_session_epoch := s_session_epoch s + 1, s_updated_at := now\<rparr> else s"
  show "s_managed_session_id ?s' = s_managed_session_id s \<and> s_session_state ?s' \<in> {Live, Detached} \<and>
    s_session_epoch s \<le> s_session_epoch ?s' \<and>
    (sid = Some (s_managed_session_id s) \<and> epoch = Some (s_session_epoch s) \<longrightarrow> s_session_epoch s < s_session_epoch ?s')"
    using assms(2) by (simp add: clear_current_proof_def)
  show "?s' \<in> set (cli_managed_sessions (invalidate_cli_managed_session_activity_tx sid epoch now d))"
    unfolding invalidate_cli_managed_session_activity_tx_def
    by (cases sid; cases epoch) (use assms in \<open>auto simp: set_update_where intro!: image_eqI [of _ _ s]\<close>)
qed

lemma fold_invalidate_leaves_epoch:
  assumes "s \<in> set (cli_managed_sessions d)" "s_session_state s \<in> {Live, Detached}"
    and "(Some (s_managed_session_id s), Some e) \<in> set fs \<and> s_session_epoch s = e \<or> e < s_session_epoch s"
  shows "\<exists>s'\<in>set (cli_managed_sessions
      (fold (\<lambda>(sid, epoch). invalidate_cli_managed_session_activity_tx sid epoch now) fs d)).
    s_managed_session_id s' = s_managed_session_id s \<and> e < s_session_epoch s'"
  using assms
proof (induction fs arbitrary: d s)
  case Nil
  then show ?case by auto
next
  case (Cons f fs)
  obtain sid epoch where f: "f = (sid, epoch)" by (cases f)
  obtain s' where s': "s' \<in> set (cli_managed_sessions (invalidate_cli_managed_session_activity_tx sid epoch now d))"
    "s_managed_session_id s' = s_managed_session_id s" "s_session_state s' \<in> {Live, Detached}"
    "s_session_epoch s \<le> s_session_epoch s'"
    "sid = Some (s_managed_session_id s) \<and> epoch = Some (s_session_epoch s) \<longrightarrow> s_session_epoch s < s_session_epoch s'"
    using invalidate_session_row [OF Cons.prems(1,2)] by blast
  have "(Some (s_managed_session_id s'), Some e) \<in> set fs \<and> s_session_epoch s' = e \<or> e < s_session_epoch s'"
    using Cons.prems(3) s'(2,4,5) f by auto
  from Cons.IH [OF s'(1,3) this] s'(2) f show ?case by simp
qed

lemma close_batch_rows:
  assumes "close_batch_tx x reason nt now d = Inr d'"
  shows "batches d' = update_where (\<lambda>b. b_batch_id b = x \<and> b_state b = BatchOpen) (close_batch_row reason nt now) (batches d)"
    "delivery_attempts d' = update_where (\<lambda>a. a_batch_id a = x \<and> active a) (close_attempt_row now) (delivery_attempts d)"
  using assms by (auto simp: close_batch_tx_def Let_def fold_invalidate_frame close_batch_row_def [abs_def]
      close_attempt_row_def [abs_def])

lemma close_batch_succeeds:
  assumes "b \<in> set (batches d)" "b_batch_id b = x" "b_state b = BatchOpen"
  shows "is_ok (close_batch_tx x reason nt now d)"
proof -
  have "count_where (\<lambda>b. b_batch_id b = x \<and> b_state b = BatchOpen) (batches d) \<noteq> 0"
    using assms by (auto simp: count_where_zero_iff)
  then show ?thesis by (simp add: close_batch_tx_def Let_def)
qed

lemma close_delivered_rows:
  assumes "close_delivered_batch x nt now d = Inr (arts, d')"
  shows "batches d' = update_where (\<lambda>b. b_batch_id b = x \<and> b_state b = BatchOpen)
      (close_batch_row ''delivered'' (Some nt) now) (batches d)"
    "delivery_attempts d' = update_where (\<lambda>a. a_batch_id a = x \<and> active a) (close_attempt_row now) (delivery_attempts d)"
proof -
  obtain d1 where d1: "close_batch_tx x ''delivered'' (Some nt) now d = Inr d1"
    and e: "extend_closed_batch_artifact_retention_tx x now d1 = Inr (arts, d')"
    using assms by (auto simp: close_delivered_batch_def)
  show "batches d' = update_where (\<lambda>b. b_batch_id b = x \<and> b_state b = BatchOpen)
      (close_batch_row ''delivered'' (Some nt) now) (batches d)"
    "delivery_attempts d' = update_where (\<lambda>a. a_batch_id a = x \<and> active a) (close_attempt_row now) (delivery_attempts d)"
    using close_batch_rows [OF d1] dview_extend [OF e] by (simp_all add: dview_def)
qed

lemma close_delivered_succeeds:
  assumes "b \<in> set (batches d)" "b_batch_id b = x" "b_state b = BatchOpen"
    and "in_i64 (now + POST_CLOSE_ARTIFACT_TTL_SECONDS)"
  shows "is_ok (close_delivered_batch x nt now d)"
proof -
  obtain d1 where "close_batch_tx x ''delivered'' (Some nt) now d = Inr d1"
    using close_batch_succeeds [OF assms(1-3)] unfolding is_ok_iff by blast
  with assms(4) show ?thesis
    by (auto simp: close_delivered_batch_def extend_closed_batch_artifact_retention_tx_def is_ok_iff
        checked_timestamp_add_ok Let_def)
qed


lemma close_batch_fences:
  assumes op: "close_batch_tx x reason nt now d = Inr d'"
    and a: "a \<in> set (delivery_attempts d)" "a_batch_id a = x" "a_adapter_kind a = Cli" "active a"
      "a_managed_session_id a = Some (s_managed_session_id s)" "a_session_epoch a = Some (s_session_epoch s)"
    and s: "s \<in> set (cli_managed_sessions d)" "s_session_state s \<in> {Live, Detached}"
  shows "\<exists>s'\<in>set (cli_managed_sessions d'). s_managed_session_id s' = s_managed_session_id s \<and>
    s_session_epoch s < s_session_epoch s'"
proof -
  let ?fs = "query_active_cli_attempt_session_fences_for_batch_tx d x"
  have mem: "(Some (s_managed_session_id s), Some (s_session_epoch s)) \<in> set ?fs"
    using a by (force simp: query_active_cli_attempt_session_fences_for_batch_tx_def)
  have "\<exists>B A. d' = fold (\<lambda>(sid, epoch). invalidate_cli_managed_session_activity_tx sid epoch now) ?fs
      (d\<lparr>batches := B, delivery_attempts := A\<rparr>)"
    using op by (auto simp: close_batch_tx_def Let_def)
  then obtain B A where d': "d' = fold (\<lambda>(sid, epoch). invalidate_cli_managed_session_activity_tx sid epoch now) ?fs
      (d\<lparr>batches := B, delivery_attempts := A\<rparr>)" by blast
  let ?d = "d\<lparr>batches := B, delivery_attempts := A\<rparr>"
  have "s \<in> set (cli_managed_sessions ?d)" using s(1) by simp
  with d' show ?thesis using fold_invalidate_leaves_epoch [of s ?d "s_session_epoch s" ?fs now] mem s(2) by blast
qed

lemma current_session:
  assumes "reachable d" "ensure_cli_attempt_has_current_managed_session_for_batch_tx d a b = Inr ()"
  obtains s where "s \<in> set (cli_managed_sessions d)" "s_session_state s \<in> {Live, Detached}"
    "a_managed_session_id a = Some (s_managed_session_id s)" "a_session_epoch a = Some (s_session_epoch s)"
  using assms(2)
  by (auto simp: ensure_cli_attempt_has_current_managed_session_for_batch_tx_def query_session_iff [OF assms(1)]
      ensure_cli_session_identity_allows_delivery_def ensure_cli_session_epoch_matches_def)

text \<open>
  The completion of a tracked turn of an automatic head batch, before its deadline and while the
  session of the attempt is still at the attempt's epoch.
\<close>

definition deliverable_turn :: "db \<Rightarrow> attempt_row \<Rightarrow> batch_row \<Rightarrow> string \<Rightarrow> int \<Rightarrow> bool" where
  "deliverable_turn d a b turn now \<longleftrightarrow>
     a \<in> set (delivery_attempts d) \<and> a_adapter_kind a = Cli \<and> tracking a \<and>
     a_delivery_turn_id a = Some turn \<and> turn \<noteq> [] \<and>
     oldest_open d b \<and> b_batch_id b = a_batch_id a \<and> b_replay_policy b = Automatic \<and>
     null_gt (a_delivery_observation_deadline a) now \<and>
     ensure_cli_attempt_has_current_managed_session_for_batch_tx d a b = Inr ()"

lemma deliverable_turn_closes:
  assumes "reachable d" "deliverable_turn d a b turn now"
    and "in_i64 (now + POST_CLOSE_ARTIFACT_TTL_SECONDS)"
  obtains arts d1 r where
    "close_delivered_batch (a_batch_id a) ''observed CLI turn completion'' now
       (store_turn_completed (a_attempt_id a) now d) = Inr (arts, d1)"
    "query_delivery_attempt_tx d1 (a_attempt_id a) = Inr r"
    "a_state r = AttemptClosed" "a_delivery_observation_state r = Some ObservationCompleted"
    "observe_cli_turn_event rewrite (a_attempt_id a) turn ''turn_completed'' now d =
       Inr (r, snd (sync_artifact_manifests rewrite arts now d1))"
proof -
  note del = assms(2) [unfolded deliverable_turn_def]
  obtain dl where dl: "a_delivery_observation_deadline a = Some dl" "now < dl"
    using del by (auto simp: null_gt_def split: option.splits)
  let ?d = "store_turn_completed (a_attempt_id a) now d"
  have b: "b \<in> set (batches ?d)" "b_batch_id b = a_batch_id a" "b_state b = BatchOpen"
    using del by (simp_all add: oldest_open_def store_turn_completed_def update_attempts_def)
  obtain arts d1 where close: "close_delivered_batch (a_batch_id a) ''observed CLI turn completion'' now ?d = Inr (arts, d1)"
    using close_delivered_succeeds [OF b assms(3)] unfolding is_ok_iff by (metis prod.exhaust)
  have q: "query_delivery_attempt_tx d (a_attempt_id a) = Inr a"
    using query_attempt_iff [OF assms(1)] del by simp
  let ?a = "a\<lparr>a_delivery_observation_state := Some ObservationCompleted, a_last_observed_turn_event := Some TurnCompleted,
             a_last_observed_turn_event_at := Some now, a_updated_at := now\<rparr>"
  have q1: "query_delivery_attempt_tx ?d (a_attempt_id a) = Inr ?a"
    unfolding store_turn_completed_def by (rule query_update_attempts [OF q]) (use del in simp_all)
  have "query_delivery_attempt_tx d1 (a_attempt_id a) =
      query_delivery_attempt_tx (update_attempts (\<lambda>q. a_batch_id q = a_batch_id a \<and> active q) (close_attempt_row now) ?d)
        (a_attempt_id a)"
    by (intro query_attempts_cong) (simp add: close_delivered_rows(2) [OF close] update_attempts_def)
  also have "\<dots> = Inr (close_attempt_row now ?a)"
    by (rule query_update_attempts [OF q1]) (use del in \<open>simp_all add: active_def tracking_def close_attempt_row_def\<close>)
  finally have q2: "query_delivery_attempt_tx d1 (a_attempt_id a) = Inr (close_attempt_row now ?a)" .
  have "observe_cli_turn_event rewrite (a_attempt_id a) turn ''turn_completed'' now d =
       Inr (close_attempt_row now ?a, snd (sync_artifact_manifests rewrite arts now d1))"
    using observe_cli_tracked [OF assms(1), of a turn "''turn_completed''" TurnCompleted]
      observe_tracked_iff [OF assms(1), of a b dl TurnCompleted now] del dl close q2
    by (simp add: turn_event_of_text_def ensure_batch_allows_automatic_delivery_def)
  with that [OF close q2 _ _ this] show ?thesis by (simp add: close_attempt_row_def)
qed


text \<open>
  C18: When the completion of an accepted turn of the head batch is observed before its deadline, with the
  session still at the attempt's epoch, the operation succeeds: the attempt is closed as completed, the
  batch is closed as delivered and leaves its thread's queue, and the session moves past the epoch.
\<close>

theorem turn_completion_delivers:
  assumes "reachable d" and "deliverable_turn d a b turn now"
    and "in_i64 (now + POST_CLOSE_ARTIFACT_TTL_SECONDS)"
  shows "\<exists>r d'. observe_cli_turn_event rewrite (a_attempt_id a) turn ''turn_completed'' now d = Inr (r, d') \<and>
    a_state r = AttemptClosed \<and> a_delivery_observation_state r = Some ObservationCompleted \<and>
    (\<exists>c\<in>set (batches d'). b_batch_id c = b_batch_id b \<and> b_state c = BatchClosed \<and> b_close_reason c = Some ''delivered'') \<and>
    thread_queue d' = (thread_queue d)(b_source_thread_id b := tl (thread_queue d (b_source_thread_id b))) \<and>
    (\<exists>s\<in>set (cli_managed_sessions d'). Some (s_managed_session_id s) = a_managed_session_id a \<and>
      null_le (a_session_epoch a) (s_session_epoch s - 1))"
proof -
  note del = assms(2) [unfolded deliverable_turn_def]
  let ?d = "store_turn_completed (a_attempt_id a) now d"
  have frame: "batches ?d = batches d" "cli_managed_sessions ?d = cli_managed_sessions d"
    by (simp_all add: store_turn_completed_def update_attempts_def)
  obtain arts d1 r where close: "close_delivered_batch (a_batch_id a) ''observed CLI turn completion'' now ?d = Inr (arts, d1)"
    and r: "a_state r = AttemptClosed" "a_delivery_observation_state r = Some ObservationCompleted"
    and op: "observe_cli_turn_event rewrite (a_attempt_id a) turn ''turn_completed'' now d =
       Inr (r, snd (sync_artifact_manifests rewrite arts now d1))"
    by (rule deliverable_turn_closes [OF assms])
  obtain d2 where d2: "close_batch_tx (a_batch_id a) ''delivered'' (Some ''observed CLI turn completion'') now ?d = Inr d2"
    and e: "extend_closed_batch_artifact_retention_tx (a_batch_id a) now d2 = Inr (arts, d1)"
    using close by (auto simp: close_delivered_batch_def)
  let ?d' = "snd (sync_artifact_manifests rewrite arts now d1)"
  have same: "batches ?d' = batches d2" "cli_managed_sessions ?d' = cli_managed_sessions d2"
    using dview_sync [of rewrite arts now d1] dview_extend [OF e] by (simp_all add: dview_def)
  have b: "b \<in> set (batches d)" "b_batch_id b = a_batch_id a" "b_state b = BatchOpen"
    using del by (simp_all add: oldest_open_def)
  have closed: "\<exists>c\<in>set (batches ?d'). b_batch_id c = b_batch_id b \<and> b_state c = BatchClosed \<and> b_close_reason c = Some ''delivered''"
    unfolding same close_batch_rows(1) [OF d2] frame set_update_where
    by (rule bexI [OF _ imageI [OF b(1)]]) (use b in \<open>simp add: close_batch_row_def\<close>)
  have "thread_head d (b_source_thread_id b) = Some (a_batch_id a)"
    using thread_head_iff [OF assms(1) b(1)] del by (simp add: batch_is_thread_head_tx_def)
  then have queue: "thread_queue ?d' = (thread_queue d)(b_source_thread_id b := tl (thread_queue d (b_source_thread_id b)))"
    using thread_queue_close [OF d2] thread_queue_without_head [OF assms(1)]
    by (simp add: fun_eq_iff thread_queue_def same frame)
  obtain s where s: "s \<in> set (cli_managed_sessions d)" "s_session_state s \<in> {Live, Detached}"
    "a_managed_session_id a = Some (s_managed_session_id s)" "a_session_epoch a = Some (s_session_epoch s)"
    using current_session [OF assms(1)] del by metis
  let ?f = "\<lambda>q. if q = a then a\<lparr>a_delivery_observation_state := Some ObservationCompleted,
      a_last_observed_turn_event := Some TurnCompleted, a_last_observed_turn_event_at := Some now, a_updated_at := now\<rparr> else q"
  have a': "?f a \<in> set (delivery_attempts ?d)" "a_batch_id (?f a) = a_batch_id a" "a_adapter_kind (?f a) = Cli" "active (?f a)"
    using del by (auto simp: store_turn_completed_def update_attempts_def set_update_where tracking_def active_def
        intro!: image_eqI [of _ _ a])
  from close_batch_fences [OF d2 a', of s] s frame same
  have "\<exists>s'\<in>set (cli_managed_sessions ?d'). Some (s_managed_session_id s') = a_managed_session_id a \<and>
      null_le (a_session_epoch a) (s_session_epoch s' - 1)" by (auto simp: null_le_def)
  with op r closed queue show ?thesis by blast
qed

theorem turn_completion_delivers_witness:
  "\<exists>r d'. observe_cli_turn_event (\<lambda>_. True) ''a1'' ''u1'' ''turn_completed'' 60 cli6 = Inr (r, d') \<and>
    a_state r = AttemptClosed"
proof -
  have "deliverable_turn cli6 (hd (delivery_attempts cli6)) (hd (batches cli6)) ''u1'' 60"
    unfolding deliverable_turn_def by (intro conjI; code_simp)
  moreover have "in_i64 (60 + POST_CLOSE_ARTIFACT_TTL_SECONDS)" by code_simp
  moreover have "a_attempt_id (hd (delivery_attempts cli6)) = ''a1''" by code_simp
  ultimately show ?thesis using turn_completion_delivers [OF cli6_reachable] by metis
qed


section \<open>Lost observations\<close>

text \<open>
  The rows after a lost observation: the attempt is abandoned with the given outcome, its batch waits
  for manual resolution, in a window that ends no earlier than before and at least a day from now, and its
  session, if it was not retired, is parked without any proof.
\<close>

definition lost_turn :: "db \<Rightarrow> attempt_row \<Rightarrow> batch_row \<Rightarrow> observation_state \<Rightarrow> int \<Rightarrow> db \<Rightarrow> bool" where
  "lost_turn d a b outcome now d' \<longleftrightarrow>
     (\<forall>q\<in>set (delivery_attempts d'). a_attempt_id q = a_attempt_id a \<longrightarrow>
        a_state q = Abandoned \<and> a_delivery_observation_state q = Some outcome) \<and>
     (\<forall>b\<in>set (batches d'). b_batch_id b = a_batch_id a \<and> b_state b = BatchOpen \<longrightarrow>
        b_replay_policy b = ManualResolutionOnly) \<and>
     query_batch_tx d' (a_batch_id a) = Inr (b\<lparr>b_replay_policy := ManualResolutionOnly,
        b_redelivery_window_ends_at := max (b_redelivery_window_ends_at b) (now + 24 * 60 * 60), b_updated_at := now\<rparr>) \<and>
     (\<forall>s\<in>set (cli_managed_sessions d'). Some (s_managed_session_id s) = a_managed_session_id a \<longrightarrow>
        s_session_state s \<in> {Parked, Retired} \<and> cli_session_proof_is_clear s)"

lemma park_rows:
  assumes "\<forall>s\<in>set (cli_managed_sessions d). s_session_state s \<in> {Parked, Retired} \<longrightarrow> cli_session_proof_is_clear s"
    and "s \<in> set (cli_managed_sessions (park_cli_managed_session_tx sid now d))" "sid = Some (s_managed_session_id s)"
  shows "s_session_state s \<in> {Parked, Retired} \<and> cli_session_proof_is_clear s"
proof -
  obtain r where r: "r \<in> set (cli_managed_sessions d)"
    and s: "s = (if s_managed_session_id r = s_managed_session_id s \<and> s_session_state r \<in> {Live, Detached, Stale}
      then (clear_startup_proof (clear_current_proof r))\<lparr>s_session_state := Parked, s_updated_at := now\<rparr> else r)"
    using assms(2,3) by (auto simp: park_cli_managed_session_tx_def set_update_where)
  show ?thesis
  proof (cases "s_session_state r \<in> {Live, Detached, Stale}")
    case True
    have "s_managed_session_id r = s_managed_session_id s"
      by (subst s) (simp add: clear_startup_proof_def clear_current_proof_def)
    with True s show ?thesis
      by (simp add: clear_startup_proof_def clear_current_proof_def cli_session_proof_is_clear_def)
  next
    case False
    with s have "s = r" by simp
    with False r assms(1) show ?thesis by (cases "s_session_state r") auto
  qed
qed

lemma parked_sessions_clear:
  "sessions_ok S \<Longrightarrow> \<forall>s\<in>set S. s_session_state s \<in> {Parked, Retired} \<longrightarrow> cli_session_proof_is_clear s"
  by (auto simp: sessions_ok_def session_ok_def)

lemma dsteps_sessions_ok:
  "reachable d \<Longrightarrow> dsteps (dview d) (dview d') \<Longrightarrow> sessions_ok (cli_managed_sessions d')"
  using dsteps_inv [OF _ reachable_inv, of d "dview d'"] by (simp add: dview_def)

lemma lose_cli_observation_rows:
  assumes "reachable d" and a: "a \<in> set (delivery_attempts d)" "tracking a"
    and op: "lose_cli_observation a ev outcome now d = Inr d'"
    and outcome: "outcome \<in> {ObservationExpired, ObservationAbandoned}"
    and b: "query_batch_tx d (a_batch_id a) = Inr b" "b_state b = BatchOpen"
  shows "lost_turn d a b outcome now d'"
proof -
  let ?d1 = "abandon_cli_turn_observation_tx a ev outcome now d"
  obtain w where w_eq: "w = now + DEFAULT_REDELIVERY_WINDOW_SECONDS"
    and w: "d' = park_cli_managed_session_tx (a_managed_session_id a) now
      (invalidate_cli_managed_session_activity_tx (a_managed_session_id a) (a_session_epoch a) now
        (set_batch_manual (a_batch_id a) w now ?d1))"
    using op
    by (auto simp: lose_cli_observation_def manualize_cli_batch_after_observation_loss_tx_def Let_def
        manual_window_ends_at_def checked_timestamp_add_ok)
  have frame: "delivery_attempts (park_cli_managed_session_tx x n e) = delivery_attempts e"
      "batches (park_cli_managed_session_tx x n e) = batches e"
      "delivery_attempts (invalidate_cli_managed_session_activity_tx x y n e) = delivery_attempts e"
      "batches (invalidate_cli_managed_session_activity_tx x y n e) = batches e" for x y n e
    by (auto simp: park_cli_managed_session_tx_def invalidate_cli_managed_session_activity_tx_def split: option.splits)
  have attempts: "a_state q = Abandoned \<and> a_delivery_observation_state q = Some outcome"
    if "q \<in> set (delivery_attempts d')" "a_attempt_id q = a_attempt_id a" for q
  proof -
    have "q \<in> set (delivery_attempts ?d1)" using that(1) by (simp add: w frame)
    then obtain q0 where q0: "q0 \<in> set (delivery_attempts d)"
      and q: "q = (if a_attempt_id q0 = a_attempt_id a \<and> tracking q0 then q0\<lparr>a_state := Abandoned,
        a_delivery_observation_state := Some outcome, a_last_observed_turn_event := Some ev,
        a_last_observed_turn_event_at := Some now, a_updated_at := now, a_abandoned_at := Some now\<rparr> else q0)"
      unfolding abandon_cli_turn_observation_tx_def update_attempts_def attempts_table.rows_modify
      by (rule update_where_mem)
    then have "a_attempt_id q0 = a_attempt_id a" using that(2) by (simp split: if_splits)
    then have "q0 = a" using reachable_unique(1) [OF assms(1) a(1) q0] by simp
    with q a(2) show ?thesis by simp
  qed
  have manual: "b_replay_policy b = ManualResolutionOnly"
    if "b \<in> set (batches d')" "b_batch_id b = a_batch_id a" "b_state b = BatchOpen" for b
  proof -
    have "b \<in> set (batches (set_batch_manual (a_batch_id a) w now ?d1))" using that(1) by (simp add: w frame)
    then obtain c where "b = (if b_batch_id c = a_batch_id a \<and> b_state c = BatchOpen
        then c\<lparr>b_replay_policy := ManualResolutionOnly,
              b_redelivery_window_ends_at := max (b_redelivery_window_ends_at c) w, b_updated_at := now\<rparr> else c)"
      unfolding set_batch_manual_def batches_table.rows_modify by (rule update_where_mem)
    with that(2,3) show ?thesis by (simp split: if_splits)
  qed
  have window: "query_batch_tx d' (a_batch_id a) = Inr (b\<lparr>b_replay_policy := ManualResolutionOnly,
      b_redelivery_window_ends_at := max (b_redelivery_window_ends_at b) (now + 24 * 60 * 60), b_updated_at := now\<rparr>)"
  proof -
    have "query_batch_tx ?d1 (a_batch_id a) = Inr b"
      using b(1) by (simp add: query_batch_tx_def abandon_cli_turn_observation_tx_def update_attempts_def)
    from query_update_batch [OF this] b query_batch_ok [OF b(1)]
    have "query_batch_tx (set_batch_manual (a_batch_id a) w now ?d1) (a_batch_id a) = Inr
        (b\<lparr>b_replay_policy := ManualResolutionOnly, b_redelivery_window_ends_at := max (b_redelivery_window_ends_at b) w,
          b_updated_at := now\<rparr>)" by (simp add: set_batch_manual_def)
    then show ?thesis by (simp add: w query_batch_tx_def frame w_eq DEFAULT_REDELIVERY_WINDOW_SECONDS_def)
  qed
  have "dsteps (dview d) (dview (invalidate_cli_managed_session_activity_tx (a_managed_session_id a) (a_session_epoch a) now
        (set_batch_manual (a_batch_id a) w now ?d1)))"
    by (rule wsteps_dsteps [OF wsteps_trans [OF abandon_turn_steps [OF outcome]
        wsteps_trans [OF manual_steps invalidate_steps]]])
  then have "sessions_ok (cli_managed_sessions (invalidate_cli_managed_session_activity_tx (a_managed_session_id a)
      (a_session_epoch a) now (set_batch_manual (a_batch_id a) w now ?d1)))"
    by (rule dsteps_sessions_ok [OF assms(1)])
  note clear = parked_sessions_clear [OF this]
  have "s_session_state s \<in> {Parked, Retired} \<and> cli_session_proof_is_clear s"
    if "s \<in> set (cli_managed_sessions d')" "Some (s_managed_session_id s) = a_managed_session_id a" for s
    by (rule park_rows [OF clear]) (use that w in auto)
  with attempts manual window show ?thesis unfolding lost_turn_def by blast
qed


lemma lose_cli_observation_succeeds:
  "in_i64 (now + DEFAULT_REDELIVERY_WINDOW_SECONDS) \<Longrightarrow> \<exists>d'. lose_cli_observation a ev outcome now d = Inr d'"
  by (auto simp: lose_cli_observation_def manualize_cli_batch_after_observation_loss_tx_def Let_def
      manual_window_ends_at_def checked_timestamp_add_ok)

definition losing_outcome :: "db \<Rightarrow> attempt_row \<Rightarrow> batch_row \<Rightarrow> turn_event \<Rightarrow> int \<Rightarrow> observation_state option" where
  "losing_outcome d a b ev now =
     (if \<not> is_ok (ensure_cli_attempt_has_current_managed_session_for_batch_tx d a b) then Some ObservationAbandoned
      else if null_le (a_delivery_observation_deadline a) now then Some ObservationExpired
      else if ev \<in> {TurnFailed, TurnInterrupted, TurnReplaced} then Some ObservationAbandoned
      else None)"

text \<open>
  C19: Observing a tracked turn of the head batch after the session lost its proof or moved on, after the
  deadline, or with a failure, interruption or replacement, succeeds and gives the turn up: the attempt is
  abandoned (as expired exactly when it was only late), the batch is left to manual resolution, with a
  window that is extended to at least a day from now, and the session is parked without a proof.
\<close>

theorem lost_turn_goes_manual:
  assumes "reachable d" and a: "a \<in> set (delivery_attempts d)" "a_adapter_kind a = Cli" "tracking a"
    and turn: "a_delivery_turn_id a = Some turn" "turn \<noteq> []"
    and b: "oldest_open d b" "b_batch_id b = a_batch_id a"
    and lost: "losing_outcome d a b ev now = Some outcome"
    and now: "in_i64 (now + DEFAULT_REDELIVERY_WINDOW_SECONDS)"
  shows "\<exists>r d'. observe_cli_turn_event rewrite (a_attempt_id a) turn (turn_event_text ev) now d = Inr (r, d') \<and>
    lost_turn d a b outcome now d'"
proof -
  have "attempt_ok a" by (rule reachable_attempt [OF assms(1) a(1)])
  then obtain dl where dl: "a_delivery_observation_deadline a = Some dl"
    using a by (auto simp: attempt_ok_def tracking_def)
  have ev: "turn_event_of_text (turn_event_text ev) = Some ev" by (cases ev) (simp_all add: turn_event_of_text_def)
  have outcome: "outcome \<in> {ObservationExpired, ObservationAbandoned}"
    using lost by (auto simp: losing_outcome_def split: if_splits)
  obtain d' where d': "lose_cli_observation a ev outcome now d = Inr d'"
    using lose_cli_observation_succeeds [OF now] by blast
  have "observe_tracked_cli_turn a ev now d = chain (lose_cli_observation a ev outcome now d) (\<lambda>d. Inr ([], d))"
    unfolding observe_tracked_iff [OF assms(1) a b dl]
    using lost dl by (cases ev) (auto simp: losing_outcome_def null_le_def split: if_splits)
  with d' have tracked: "observe_tracked_cli_turn a ev now d = Inr ([], d')" by simp
  have "dsteps (dview d) (dview d')"
    by (rule wsteps_dsteps, rule lose_cli_steps [OF d']) (rule outcome)
  then have "rows_evolve attempt_le (delivery_attempts d) (delivery_attempts d')"
    using dsteps_evolve [of "dview d" "dview d'"] by (simp add: dview_def)
  then obtain a' where "a' \<in> set (delivery_attempts d')" "a_attempt_id a' = a_attempt_id a"
    using rows_evolve_mem [OF _ a(1)] unfolding attempt_le_def attempt_identity_def by blast
  then obtain r where "query_delivery_attempt_tx d' (a_attempt_id a) = Inr r"
    by (cases "query_delivery_attempt_tx d' (a_attempt_id a)")
      (auto simp: query_delivery_attempt_tx_def ok_or_def find_None_iff split: option.splits)
  with tracked observe_cli_tracked [OF assms(1) a turn ev] lose_cli_observation_rows [OF assms(1) a(1,3) d' outcome, of b] b query_batch_iff [OF assms(1)]
  show ?thesis by (simp add: sync_artifact_manifests_def oldest_open_def)
qed


theorem lost_turn_goes_manual_witness:
  "\<exists>r d'. observe_cli_turn_event (\<lambda>_. True) ''a1'' ''u1'' ''turn_completed'' 100 cli6 = Inr (r, d') \<and>
    lost_turn cli6 (hd (delivery_attempts cli6)) (hd (batches cli6)) ObservationExpired 100 d'"
proof -
  let ?a = "hd (delivery_attempts cli6)" and ?b = "hd (batches cli6)"
  have a: "?a \<in> set (delivery_attempts cli6)" "a_adapter_kind ?a = Cli" "tracking ?a"
    "a_delivery_turn_id ?a = Some ''u1''" "a_attempt_id ?a = ''a1''" by code_simp+
  have b: "oldest_open cli6 ?b" "b_batch_id ?b = a_batch_id ?a" by code_simp+
  have "losing_outcome cli6 ?a ?b TurnCompleted 100 = Some ObservationExpired"
    "in_i64 (100 + DEFAULT_REDELIVERY_WINDOW_SECONDS)" by code_simp+
  from lost_turn_goes_manual [OF cli6_reachable a(1-4) _ b this] a(5) show ?thesis by simp
qed

text \<open>
  C20: Once a batch is closed or waits for manual resolution, no new delivery of it begins: after any run
  of the store, whatever the adapter, every delivery attempt of the batch is one it had before, and none
  is active that was not; of a closed batch none is active at all. A request of the CLI or of the codex
  app server to begin one, other than the repetition of an earlier request, is refused.
\<close>

theorem manual_is_final:
  assumes "reachable d" and b: "b \<in> set (batches d)"
    and final: "b_state b = BatchClosed \<or> b_replay_policy b = ManualResolutionOnly"
    and run: "store_step\<^sup>*\<^sup>* d d'"
  shows "(\<forall>a'\<in>set (delivery_attempts d'). a_batch_id a' = b_batch_id b \<longrightarrow>
      (\<exists>a\<in>set (delivery_attempts d). a_attempt_id a = a_attempt_id a' \<and> a_batch_id a = b_batch_id b \<and>
        a_adapter_kind a = a_adapter_kind a' \<and> (active a' \<longrightarrow> active a \<and> b_state b \<noteq> BatchClosed))) \<and>
    (nc_batch_id att = b_batch_id b \<and>
      query_delivery_attempt_by_rpc_request_id_tx d' (nc_delivery_rpc_request_id att) = None \<longrightarrow>
      \<not> is_ok (begin_cli_accept_pending_attempt att d')) \<and>
    (nx_batch_id xatt = b_batch_id b \<and>
      query_delivery_attempt_by_rpc_request_id_tx d' (nx_delivery_rpc_request_id xatt) = None \<longrightarrow>
      \<not> is_ok (begin_codex_app_server_accept_pending_attempt_with_created xatt d'))"
proof -
  have reach: "reachable d'" and "rows_evolve batch_le (batches d) (batches d')"
    using reachable_evolves [OF run assms(1)] by (simp_all add: dview_def)
  then obtain b' where b': "b' \<in> set (batches d')" "batch_le b b'" using rows_evolve_mem [OF _ b] by blast
  then have query: "query_batch_tx d' (b_batch_id b) = Inr b'"
    using query_batch_iff [OF reach] by (simp add: batch_le_def)
  have final': "b_state b' = BatchClosed \<or> b_replay_policy b' = ManualResolutionOnly"
    using final b'(2) by (auto simp: batch_le_def)
  then have shut: "\<not> (is_ok (ensure_batch_open b') \<and> is_ok (ensure_batch_allows_automatic_delivery b'))"
    by (auto simp: is_ok_iff ensure_batch_open_def ensure_batch_allows_automatic_delivery_def)
  have old: "\<exists>a\<in>set (delivery_attempts d). attempt_le a a'"
    if "a' \<in> set (delivery_attempts d')" "a_batch_id a' = b_batch_id b" for a'
    using dsteps_old_attempts [OF run_refines [OF run assms(1), unfolded dview_def] _ b _ that]
      reachable_inv [OF assms(1)] final by (simp add: dview_def retired_batch_def)
  have dead: "b_state b \<noteq> BatchClosed"
    if cur: "a' \<in> set (delivery_attempts d')" "a_batch_id a' = b_batch_id b" "active a'" for a'
  proof -
    obtain c where "c \<in> set (batches d')" "b_batch_id c = a_batch_id a'" "b_state c = BatchOpen"
      using reachable_inv [OF reach] cur unfolding dview_def dinv.simps attempts_linked_def by blast
    then have "query_batch_tx d' (b_batch_id b) = Inr c" "b_state c = BatchOpen"
      using cur(2) query_batch_iff [OF reach] by simp_all
    then have "b_state b' = BatchOpen" using query by simp
    with b'(2) show ?thesis by (auto simp: batch_le_def)
  qed
  have "\<exists>a\<in>set (delivery_attempts d). a_attempt_id a = a_attempt_id a' \<and> a_batch_id a = b_batch_id b \<and>
      a_adapter_kind a = a_adapter_kind a' \<and> (active a' \<longrightarrow> active a \<and> b_state b \<noteq> BatchClosed)"
    if "a' \<in> set (delivery_attempts d')" "a_batch_id a' = b_batch_id b" for a'
    using old [OF that] dead [OF that] that(2) unfolding attempt_le_def attempt_identity_def by metis
  with query shut show ?thesis
    by (auto simp: is_ok_iff begin_cli_accept_pending_attempt_def
        begin_codex_app_server_accept_pending_attempt_with_created_def
        begin_codex_app_server_accept_pending_attempt_tx_def)
qed

definition lost7 :: db where
  "lost7 = committed (observe_cli_turn_event (\<lambda>_. True) ''a1'' ''u1'' ''turn_completed'' 100 cli6)"

lemma lost7_reachable: "reachable lost7"
  unfolding lost7_def
  by (rule reachable.step [OF cli6_reachable], rule run_step [OF _ store_step.observe_cli]) code_simp

theorem manual_is_final_witness:
  "(\<exists>a\<in>set (delivery_attempts lost7). a_attempt_id a = ''a1'' \<and> a_batch_id a = b_batch_id (hd (batches lost7))) \<and>
   \<not> is_ok (begin_cli_accept_pending_attempt (demo_cli_attempt\<lparr>nc_delivery_rpc_request_id := ''r2''\<rparr>) lost7)"
proof -
  let ?b = "hd (batches lost7)" and ?att = "demo_cli_attempt\<lparr>nc_delivery_rpc_request_id := ''r2''\<rparr>"
    and ?a = "hd (delivery_attempts lost7)"
  have "?b \<in> set (batches lost7)" "b_state ?b = BatchClosed \<or> b_replay_policy ?b = ManualResolutionOnly"
    "nc_batch_id ?att = b_batch_id ?b"
    "query_delivery_attempt_by_rpc_request_id_tx lost7 (nc_delivery_rpc_request_id ?att) = None"
    "?a \<in> set (delivery_attempts lost7)" "a_attempt_id ?a = ''a1''" "a_batch_id ?a = b_batch_id ?b"
    by code_simp+
  with manual_is_final [OF lost7_reachable this(1,2) rtranclp.rtrancl_refl, of ?att] show ?thesis by auto
qed

end
