(* ===== verification/Cbth_Frames.thy ===== *)
theory Cbth_Frames
  imports Cbth_Store
begin

text \<open>
  Which tables an operation leaves alone. The delivery operations (batches, attempts, sessions,
  artifacts) leave the jobs, the tasks, the plugin requests and the tables of the desktop bridge as
  they are; every operation that is not one of the bridge leaves the tables of the bridge as they are.
\<close>

section \<open>Views\<close>

definition bridge_view :: "db \<Rightarrow> desktop_installation_row option \<times> desktop_binding_row list \<times>
    relay_consumption_row list \<times> relay_scanner_row list \<times> relay_marker_row list" where
  "bridge_view d = (desktop_installation d, desktop_bindings d, desktop_transcript_relay_consumptions d,
     desktop_relay_scanner_bindings d, desktop_transcript_relay_markers d)"

definition outer :: "db \<Rightarrow> job_row list \<times> task_row list \<times> batch_job_row list \<times> plugin_request_row list \<times>
    desktop_installation_row option \<times> desktop_binding_row list \<times>
    relay_consumption_row list \<times> relay_scanner_row list \<times> relay_marker_row list" where
  "outer d = (jobs d, tasks d, batch_jobs d, plugin_delivery_requests d, bridge_view d)"

lemma outer_bridge: "outer d' = outer d \<Longrightarrow> bridge_view d' = bridge_view d"
  by (simp add: outer_def)

lemma outer_update [simp]:
  "outer (d\<lparr>artifacts := x3\<rparr>) = outer d" "outer (d\<lparr>artifact_ingests := x4\<rparr>) = outer d"
  "outer (d\<lparr>batches := x5\<rparr>) = outer d" "outer (d\<lparr>cli_managed_sessions := x6\<rparr>) = outer d"
  "outer (d\<lparr>delivery_attempts := x7\<rparr>) = outer d" "outer (d\<lparr>audit_decisions := x8\<rparr>) = outer d"
  by (simp_all add: outer_def bridge_view_def)

lemma bridge_update [simp]:
  "bridge_view (d\<lparr>jobs := x1\<rparr>) = bridge_view d" "bridge_view (d\<lparr>tasks := x2\<rparr>) = bridge_view d"
  "bridge_view (d\<lparr>artifacts := x3\<rparr>) = bridge_view d" "bridge_view (d\<lparr>artifact_ingests := x4\<rparr>) = bridge_view d"
  "bridge_view (d\<lparr>batches := x5\<rparr>) = bridge_view d" "bridge_view (d\<lparr>batch_jobs := x6\<rparr>) = bridge_view d"
  "bridge_view (d\<lparr>plugin_delivery_requests := x7\<rparr>) = bridge_view d"
  "bridge_view (d\<lparr>cli_managed_sessions := x8\<rparr>) = bridge_view d"
  "bridge_view (d\<lparr>delivery_attempts := x9\<rparr>) = bridge_view d" "bridge_view (d\<lparr>audit_decisions := x10\<rparr>) = bridge_view d"
  by (simp_all add: bridge_view_def)

lemma fold_frame: "(\<And>x d. v (f x d) = v d) \<Longrightarrow> v (fold f xs d) = v d"
  by (induction xs arbitrary: d) simp_all

lemma for_each_frame:
  assumes "for_each f xs d = Inr d'" and "\<And>x d d'. f x d = Inr d' \<Longrightarrow> v d' = v d"
  shows "v d' = v d"
  using assms(1) by (rule for_each_related [where R = "\<lambda>d d'. v d' = v d"]) (auto dest: assms(2))

section \<open>Batches, sessions and attempts\<close>

lemma outer_blocks [simp]:
  "outer (invalidate_cli_managed_session_activity_tx sid e now d) = outer d"
  "outer (park_cli_managed_session_tx sid now d) = outer d"
  "outer (set_batch_manual x w now d) = outer d"
  "outer (detach_cli_managed_session_tx i now d) = outer d"
  "outer (update_session i f d) = outer d"
  "outer (update_attempts p g d) = outer d"
  "outer (mark_artifact_manifest_sync_attempted k now d) = outer d"
  by (simp_all add: invalidate_cli_managed_session_activity_tx_def park_cli_managed_session_tx_def
      set_batch_manual_def detach_cli_managed_session_tx_def update_session_def update_attempts_def
      mark_artifact_manifest_sync_attempted_def split: option.split)

lemma outer_stores [simp]:
  "outer (store_acceptance i turn now dl d) = outer d" "outer (store_pre_accept_end out i now d) = outer d"
  "outer (store_turn_started i now d) = outer d" "outer (store_turn_completed i now d) = outer d"
  "outer (store_observation_end ob i now d) = outer d"
  "outer (abandon_cli_turn_observation_tx a ev ob now d) = outer d"
  "outer (record_late_cli_turn_evidence_tx a ev now d) = outer d"
  "outer (abandon_desktop_arm_pending_tx i now d) = outer d"
  "outer (store_desktop_arm a bridge lease now d) = outer d"
  "outer (fence_and_park a now d) = outer d"
  by (simp_all add: store_acceptance_def store_pre_accept_end_def store_turn_started_def
      store_turn_completed_def store_observation_end_def abandon_cli_turn_observation_tx_def
      record_late_cli_turn_evidence_tx_def abandon_desktop_arm_pending_tx_def store_desktop_arm_def
      fence_and_park_def)

lemma outer_inserts:
  "insert_attempt a d = Inr d' \<Longrightarrow> outer d' = outer d" "insert_session s d = Inr d' \<Longrightarrow> outer d' = outer d"
  "insert_audit au d = Inr d' \<Longrightarrow> outer d' = outer d" "insert_batch_row b d = Inr d' \<Longrightarrow> outer d' = outer d"
  "spend_delivery_attempt x now d = Inr d' \<Longrightarrow> outer d' = outer d"
  by (auto simp: insert_defs spend_delivery_attempt_def Let_def)

lemma outer_extend: "extend_closed_batch_artifact_retention_tx x now d = Inr (arts, d') \<Longrightarrow> outer d' = outer d"
  by (auto simp: extend_closed_batch_artifact_retention_tx_def Let_def)

lemma outer_close: "close_batch_tx x reason note now d = Inr d' \<Longrightarrow> outer d' = outer d"
  by (auto simp: close_batch_tx_def Let_def fold_frame [where v = outer] split: prod.split)

lemma outer_close_delivered: "close_delivered_batch x note now d = Inr (arts, d') \<Longrightarrow> outer d' = outer d"
  by (auto simp: close_delivered_batch_def dest!: outer_close outer_extend)

lemma outer_sync [simp]: "outer (snd (sync_artifact_manifests rewrite arts now d)) = outer d"
proof -
  have one: "sync_artifact_manifest rewrite i now d = Inr (b, d') \<Longrightarrow> outer d' = outer d" for i b d d'
    by (auto simp: sync_artifact_manifest_def Let_def split: option.splits if_splits)
  have "outer (snd (sync_artifact_manifests_loop rewrite now arts (r, d))) = outer d" for r
  proof (induction arts arbitrary: r d)
    case (Cons ar arts)
    show ?case
      using Cons one by (auto split: sum.splits bool.splits prod.splits)
  qed simp
  then show ?thesis by (simp add: sync_artifact_manifests_def)
qed

lemma outer_epoch_loss: "abandon_cli_observations_for_session_epoch_loss_tx sid now d = Inr d' \<Longrightarrow> outer d' = outer d"
proof -
  have one: "outer (abandon_one_epoch_bound_observation w now x d) = outer d" for w x d
    by (simp add: abandon_one_epoch_bound_observation_def split: prod.split)
  show "abandon_cli_observations_for_session_epoch_loss_tx sid now d = Inr d' \<Longrightarrow> outer d' = outer d"
    by (auto simp: abandon_cli_observations_for_session_epoch_loss_tx_def Let_def one
        fold_frame [where v = outer] split: if_splits)
qed

lemma outer_manualize:
  "manualize_cli_batch_after_observation_loss_tx a now d = Inr d' \<Longrightarrow> outer d' = outer d"
  "manualize_cli_batch_after_pre_accept_rejection_tx a now d = Inr d' \<Longrightarrow> outer d' = outer d"
  "manualize_codex_app_server_batch_tx a now d = Inr d' \<Longrightarrow> outer d' = outer d"
  by (auto simp: manualize_cli_batch_after_observation_loss_tx_def
      manualize_cli_batch_after_pre_accept_rejection_tx_def manualize_codex_app_server_batch_tx_def Let_def)

lemma outer_lose:
  "lose_cli_observation a ev ob now d = Inr d' \<Longrightarrow> outer d' = outer d"
  "lose_codex_observation a ev ob now d = Inr d' \<Longrightarrow> outer d' = outer d"
  by (auto simp: lose_cli_observation_def lose_codex_observation_def dest!: outer_manualize)

lemmas outer_facts = outer_inserts outer_extend outer_close outer_close_delivered outer_epoch_loss
  outer_manualize outer_lose

section \<open>The delivery operations\<close>

lemma outer_sessions:
  "create_cli_managed_session_tx i th prof now d = Inr (r, d') \<Longrightarrow> outer d' = outer d"
  "retire_cli_managed_session_tx aid s dec reason now d = Inr (r, d') \<Longrightarrow> outer d' = outer d"
  "retire_cli_managed_session aid sid reason now d = Inr (r, d') \<Longrightarrow> outer d' = outer d"
  "note_cli_managed_session_activity sid e act rv now d = Inr (r, d') \<Longrightarrow> outer d' = outer d"
  "note_cli_managed_session_capabilities sid e rv c now d = Inr (r, d') \<Longrightarrow> outer d' = outer d"
  "note_cli_managed_session_permissions sid e snap now d = Inr (r, d') \<Longrightarrow> outer d' = outer d"
  "invalidate_cli_managed_session_proof sid e now d = Inr (r, d') \<Longrightarrow> outer d' = outer d"
  "invalidate_cli_managed_session_current_proof sid th now d = Inr (r, d') \<Longrightarrow> outer d' = outer d"
         apply (auto simp: create_cli_managed_session_tx_def dest!: outer_facts)[1]
        apply (auto simp: retire_cli_managed_session_tx_def Let_def dest!: outer_facts)[1]
       apply (auto simp: retire_cli_managed_session_def retire_cli_managed_session_tx_def Let_def dest!: outer_facts)[1]
      apply (auto simp: note_cli_managed_session_activity_def Let_def split: if_splits)[1]
     apply (auto simp: note_cli_managed_session_capabilities_def Let_def split: if_splits)[1]
    apply (auto simp: note_cli_managed_session_permissions_def Let_def)[1]
   apply (auto simp: invalidate_cli_managed_session_proof_def Let_def split: if_splits dest!: outer_facts)[1]
  apply (auto simp: invalidate_cli_managed_session_current_proof_def Let_def split: if_splits dest!: outer_facts)[1]
  done

lemma outer_attach: "attach_or_create_cli_managed_session sid aid th prof req now d = Inr (r, d') \<Longrightarrow> outer d' = outer d"
  by (auto simp: attach_or_create_cli_managed_session_def Let_def case_option_ok_iff split: if_splits
      dest!: outer_epoch_loss outer_sessions)

lemma outer_cli:
  "begin_cli_accept_pending_attempt att d = Inr (r, d') \<Longrightarrow> outer d' = outer d"
  "accept_cli_attempt i turn now dl d = Inr (r, d') \<Longrightarrow> outer d' = outer d"
  "reject_cli_attempt_before_accept i now man d = Inr (r, d') \<Longrightarrow> outer d' = outer d"
  "expire_cli_observation i now d = Inr (r, d') \<Longrightarrow> outer d' = outer d"
     apply (auto simp: begin_cli_accept_pending_attempt_def case_option_ok_iff dest!: outer_facts)[1]
    apply (auto simp: accept_cli_attempt_def Let_def split: if_splits dest!: outer_facts)[1]
   apply (auto simp: reject_cli_attempt_before_accept_def Let_def split: if_splits dest!: outer_facts)[1]
  apply (auto simp: expire_cli_observation_def Let_def split: if_splits dest!: outer_facts)[1]
  done

lemma outer_observe_cli: "observe_cli_turn_event rewrite i turn ev now d = Inr (r, d') \<Longrightarrow> outer d' = outer d"
proof -
  have delayed: "complete_delayed_cli_turn_after_expiry_tx a now d = Inr (arts, d') \<Longrightarrow> outer d' = outer d" for a arts d d'
    by (auto simp: complete_delayed_cli_turn_after_expiry_tx_def Let_def split: if_splits dest!: outer_facts)
  have tracked: "observe_tracked_cli_turn a e now d = Inr (arts, d') \<Longrightarrow> outer d' = outer d" for a e arts d d'
    by (auto simp: observe_tracked_cli_turn_def Let_def split: if_splits turn_event.splits dest!: outer_facts)
  show "observe_cli_turn_event rewrite i turn ev now d = Inr (r, d') \<Longrightarrow> outer d' = outer d"
    by (auto simp: observe_cli_turn_event_def Let_def case_option_ok_iff split: if_splits prod.splits
        dest!: delayed tracked)
qed

lemma outer_codex:
  "begin_codex_app_server_accept_pending_attempt_tx xatt d = Inr (r, d') \<Longrightarrow> outer d' = outer d"
  "begin_codex_app_server_accept_pending_attempt_with_created xatt d = Inr (r, d') \<Longrightarrow> outer d' = outer d"
  "accept_codex_app_server_attempt i turn now dl d = Inr (r2, d') \<Longrightarrow> outer d' = outer d"
  "reject_codex_app_server_attempt_before_accept i now man d = Inr (r3, d') \<Longrightarrow> outer d' = outer d"
  "abandon_codex_app_server_attempt_as_unknown i now man d = Inr (r4, d') \<Longrightarrow> outer d' = outer d"
proof -
  show tx: "begin_codex_app_server_accept_pending_attempt_tx xatt d = Inr (r, d') \<Longrightarrow> outer d' = outer d" for r
    by (auto simp: begin_codex_app_server_accept_pending_attempt_tx_def case_option_ok_iff dest!: outer_facts)
  show "begin_codex_app_server_accept_pending_attempt_with_created xatt d = Inr (r, d') \<Longrightarrow> outer d' = outer d"
    by (auto simp: begin_codex_app_server_accept_pending_attempt_with_created_def dest!: tx)
  show "accept_codex_app_server_attempt i turn now dl d = Inr (r2, d') \<Longrightarrow> outer d' = outer d"
    by (auto simp: accept_codex_app_server_attempt_def Let_def split: if_splits dest!: outer_facts)
  show "reject_codex_app_server_attempt_before_accept i now man d = Inr (r3, d') \<Longrightarrow> outer d' = outer d"
    by (auto simp: reject_codex_app_server_attempt_before_accept_def Let_def split: if_splits dest!: outer_facts)
  show "abandon_codex_app_server_attempt_as_unknown i now man d = Inr (r4, d') \<Longrightarrow> outer d' = outer d"
    by (auto simp: abandon_codex_app_server_attempt_as_unknown_def Let_def split: if_splits dest!: outer_facts)
qed

lemma outer_observe_codex:
  "observe_codex_app_server_turn_event rewrite i turn ev now d = Inr (r, d') \<Longrightarrow> outer d' = outer d"
proof -
  have tracked: "observe_tracked_codex_turn a e now d = Inr (arts, d') \<Longrightarrow> outer d' = outer d" for a e arts d d'
    by (auto simp: observe_tracked_codex_turn_def Let_def split: if_splits turn_event.splits dest!: outer_facts)
  show "observe_codex_app_server_turn_event rewrite i turn ev now d = Inr (r, d') \<Longrightarrow> outer d' = outer d"
    by (auto simp: observe_codex_app_server_turn_event_def Let_def case_option_ok_iff split: if_splits prod.splits
        dest!: tracked)
qed

lemma outer_close_head: "close_head rewrite th reason note now d = Inr (r, d') \<Longrightarrow> outer d' = outer d"
  by (auto simp: close_head_def Let_def case_option_ok_iff split: if_splits prod.splits dest!: outer_facts)

lemma outer_manualize_plugin: "manualize_plugin_delivery x reason now d = Inr (r, d') \<Longrightarrow> outer d' = outer d"
  by (auto simp: manualize_plugin_delivery_def Let_def split: if_splits)

lemma outer_record_audit: "record_audit_decision au d = Inr (r, d') \<Longrightarrow> outer d' = outer d"
  by (auto simp: record_audit_decision_def dest!: outer_facts)

section \<open>The sweep\<close>

lemma outer_sweep_cli:
  "expire_stale_cli_acceptances_tx now d = Inr (n, d') \<Longrightarrow> outer d' = outer d"
  "expire_due_cli_observations_tx now d = Inr (n, d') \<Longrightarrow> outer d' = outer d"
  by (auto simp: expire_stale_cli_acceptances_tx_def expire_due_cli_observations_tx_def
      expire_one_cli_observation_def Let_def fold_frame [where v = outer]
      elim!: for_each_frame dest!: outer_manualize)

lemma outer_sweep_codex:
  "expire_stale_codex_app_server_acceptances_tx now d = Inr (n, d') \<Longrightarrow> outer d' = outer d"
  "expire_due_codex_app_server_observations_tx now d = Inr (n, d') \<Longrightarrow> outer d' = outer d"
  by (auto simp: expire_stale_codex_app_server_acceptances_tx_def expire_due_codex_app_server_observations_tx_def
      expire_one_codex_acceptance_def expire_one_codex_observation_def Let_def
      elim!: for_each_frame dest!: outer_manualize)

lemma outer_sweep_desktop [simp]:
  "outer (snd (expire_expired_desktop_prepared_attempts_tx now d)) = outer d"
  "outer (snd (expire_expired_desktop_arm_pending_attempts_tx now d)) = outer d"
  by (simp_all add: expire_expired_desktop_prepared_attempts_tx_def expire_expired_desktop_arm_pending_attempts_tx_def)

lemma outer_close_expired:
  "close_expired_batches reason now ids (arts, d) = Inr (arts', d') \<Longrightarrow> outer d' = outer d"
proof (induction ids arbitrary: arts d)
  case (Cons x ids)
  then obtain d1 more d2 where 1: "close_batch_tx x reason (Some ''closed by maintenance sweep'') now d = Inr d1"
    and 2: "extend_closed_batch_artifact_retention_tx x now d1 = Inr (more, d2)"
    and 3: "close_expired_batches reason now ids (arts @ more, d2) = Inr (arts', d')" by auto
  from Cons.IH [OF 3] outer_close [OF 1] outer_extend [OF 2] show ?case by simp
qed simp

lemma outer_sweep_tx:
  assumes "sweep_tx now d = Inr (plan, d')"
  shows "outer d' = outer d"
  using assms
  by (auto simp: sweep_tx_def Let_def close_expired_manual_batches_tx_def close_expired_automatic_batches_tx_def
      dest!: outer_sweep_cli outer_sweep_codex outer_close_expired)

lemma outer_sweep_cleanup: "sweep_codex_app_server_delivery_cleanup now d = Inr (r, d') \<Longrightarrow> outer d' = outer d"
  by (auto simp: sweep_codex_app_server_delivery_cleanup_def dest!: outer_sweep_codex)

section \<open>Jobs, artifacts and plugin deliveries\<close>

lemma bridge_blocks [simp]:
  "bridge_view (update_task i f d) = bridge_view d" "bridge_view (update_job j g d) = bridge_view d"
  "bridge_view (abandon_artifact_ingest k d) = bridge_view d" "bridge_view (delete_job_cascade j d) = bridge_view d"
  "bridge_view (mark_artifact_gc_attempted k n d) = bridge_view d"
  "bridge_view (mark_task_log_gc_attempted i n d) = bridge_view d"
  "bridge_view (refresh_artifact_ingest k n d) = bridge_view d"
  "bridge_view (delete_artifacts ids d) = bridge_view d"
  by (simp_all add: update_task_def update_job_def abandon_artifact_ingest_def delete_job_cascade_def
      mark_artifact_gc_attempted_def mark_task_log_gc_attempted_def refresh_artifact_ingest_def
      delete_artifacts_def fold_frame [where v = bridge_view])

lemma bridge_inserts:
  "insert_job j d = Inr d' \<Longrightarrow> bridge_view d' = bridge_view d"
  "insert_task t d = Inr d' \<Longrightarrow> bridge_view d' = bridge_view d"
  "insert_artifact ar d = Inr d' \<Longrightarrow> bridge_view d' = bridge_view d"
  "insert_artifact_ingest ai d = Inr d' \<Longrightarrow> bridge_view d' = bridge_view d"
  "insert_batch_row b d = Inr d' \<Longrightarrow> bridge_view d' = bridge_view d"
  "insert_batch_job bj d = Inr d' \<Longrightarrow> bridge_view d' = bridge_view d"
  "insert_plugin_request p d = Inr d' \<Longrightarrow> bridge_view d' = bridge_view d"
  "insert_attempt a d = Inr d' \<Longrightarrow> bridge_view d' = bridge_view d"
  by (auto simp: insert_defs)

lemma bridge_insert_batch:
  assumes "insert_batch_tx b ids d = Inr d'"
  shows "bridge_view d' = bridge_view d"
proof -
  obtain r d1 where 1: "insert_batch_row r d = Inr d1"
    and loop: "for_each (\<lambda>(position, job_id).
        insert_batch_job \<lparr>bj_batch_id = nb_batch_id b, bj_job_id = job_id, bj_position = int position\<rparr>)
      (enumerate 0 ids) d1 = Inr d'"
    using assms by (auto simp: insert_batch_tx_def)
  have "bridge_view d' = bridge_view d1"
    by (rule for_each_frame [OF loop]) (auto dest!: bridge_inserts)
  with bridge_inserts(5) [OF 1] show ?thesis by simp
qed

lemma bridge_jobs:
  "submit_job_for_supervisor_generation job g d = Inr (r1, d') \<Longrightarrow> bridge_view d' = bridge_view d"
  "create_task_with_job_for_supervisor_generation job task g d = Inr (r2, d') \<Longrightarrow> bridge_view d' = bridge_view d"
  "delete_unstarted_task_with_job i j d = Inr (r3, d') \<Longrightarrow> bridge_view d' = bridge_view d"
  "mark_task_started i pid ident now d = Inr (r4, d') \<Longrightarrow> bridge_view d' = bridge_view d"
  "request_task_cancel i now d = Inr (r4, d') \<Longrightarrow> bridge_view d' = bridge_view d"
  "finish_task u d = Inr (r4, d') \<Longrightarrow> bridge_view d' = bridge_view d"
  "begin_artifact_ingest j k now d = Inr (r3, d') \<Longrightarrow> bridge_view d' = bridge_view d"
  by (auto simp: submit_job_for_supervisor_generation_def create_task_with_job_for_supervisor_generation_def
      insert_pending_job_def delete_unstarted_task_with_job_def mark_task_started_def request_task_cancel_def
      finish_task_def store_task_end_def begin_artifact_ingest_def Let_def split: if_splits dest!: bridge_inserts)

lemma bridge_job_ends:
  "complete_job bid art summary now m w d = Inr (r, d') \<Longrightarrow> bridge_view d' = bridge_view d"
  "fail_job_with_artifact bid art reason now m w d = Inr (r, d') \<Longrightarrow> bridge_view d' = bridge_view d"
  "fail_job bid j reason now m w d = Inr (r, d') \<Longrightarrow> bridge_view d' = bridge_view d"
  "fail_pending_supervised_job bid j reason now m w d = Inr (r2, d') \<Longrightarrow> bridge_view d' = bridge_view d"
  by (auto simp: complete_job_def fail_job_with_artifact_def fail_job_def fail_pending_supervised_job_def
      insert_new_artifact_def Let_def dest!: bridge_inserts bridge_insert_batch)

lemma bridge_fail_supervised:
  "fail_supervised_task_with_job bid j reason u m w d = Inr (r, d') \<Longrightarrow> bridge_view d' = bridge_view d"
  by (auto simp: fail_supervised_task_with_job_def store_task_end_def split: if_splits dest!: bridge_job_ends)

lemma bridge_recover: "bridge_view (snd (fail_lost_tasks_matching_excluding_with ids now m act d)) = bridge_view d"
proof -
  have one: "bridge_view (snd (recover_lost_task ids now (t, j) d)) = bridge_view d" for t j d
    by (auto simp: recover_lost_task_def Let_def split: job_status.split sum.split prod.split if_split
        dest!: bridge_jobs bridge_job_ends)
  have "bridge_view (snd (recover_lost_tasks ids now m act tjs n d)) = bridge_view d" for tjs n
  proof (induction tjs arbitrary: n d)
    case (Cons tj tjs)
    obtain t j where tj: "tj = (t, j)" by (cases tj)
    show ?case
      using Cons.IH one [of t j d]
      by (auto simp: tj split: sum.split bool.split prod.split if_split)
  qed simp
  then show ?thesis by (simp add: fail_lost_tasks_matching_excluding_with_def)
qed

lemma bridge_enqueue:
  "enqueue_plugin_delivery_with_codex_app_server_attempt_if_head dl att d = Inr (r, d') \<Longrightarrow> bridge_view d' = bridge_view d"
proof -
  have art: "insert_plugin_artifact dl d = Inr d' \<Longrightarrow> bridge_view d' = bridge_view d" for dl d d'
    by (auto simp: insert_plugin_artifact_def case_option_ok_iff dest!: bridge_inserts)
  have tx: "enqueue_plugin_delivery_tx dl d = Inr (r, d') \<Longrightarrow> bridge_view d' = bridge_view d" for dl r d d'
    by (auto simp: enqueue_plugin_delivery_tx_def Let_def case_option_ok_iff
        dest!: bridge_inserts bridge_insert_batch art)
  show "enqueue_plugin_delivery_with_codex_app_server_attempt_if_head dl att d = Inr (r, d') \<Longrightarrow>
      bridge_view d' = bridge_view d"
    by (auto simp: enqueue_plugin_delivery_with_codex_app_server_attempt_if_head_def split: if_splits
        dest!: tx outer_codex outer_bridge)
qed

lemma bridge_sweep:
  assumes "sweep fs now d = Inr (r, d')"
  shows "bridge_view d' = bridge_view d"
proof -
  have dirs: "bridge_view (snd (delete_artifact_dirs fs now arts (acc, d))) = bridge_view d" for arts acc d
  proof (induction arts arbitrary: acc d)
    case (Cons ar arts)
    obtain x y where "acc = (x, y)" by (cases acc)
    then show ?case using Cons by simp
  qed simp
  have one: "bridge_view (snd (cleanup_stale_ingest fs ai (r, d))) = bridge_view d" for ai r d
    by (auto simp: cleanup_stale_ingest_def Let_def split: sum.split bool.split)
  have "bridge_view (snd (fold (cleanup_stale_ingest fs) ais (r, d))) = bridge_view d" for ais r d
    using fold_frame [of "\<lambda>st. bridge_view (snd st)" "cleanup_stale_ingest fs" ais "(r, d)"] one
    by (metis prod.exhaust_sel snd_conv)
  then have ingests: "bridge_view (snd (cleanup_stale_artifact_ingests fs d)) = bridge_view d" for d
    by (simp add: cleanup_stale_artifact_ingests_def)
  have "bridge_view (snd (remove_task_log_dirs fs now ids (acc, d))) = bridge_view d" for ids acc d
  proof (induction ids arbitrary: acc d)
    case (Cons i ids)
    obtain x y where "acc = (x, y)" by (cases acc)
    then show ?case using Cons by simp
  qed simp
  then have logs: "bridge_view (snd (cleanup_expired_task_log_dirs fs ids now d)) = bridge_view d" for ids d
    by (simp add: cleanup_expired_task_log_dirs_def fold_frame [where v = bridge_view] split: prod.split) (metis snd_conv)
  obtain plan d1 where tx: "sweep_tx now d = Inr (plan, d1)" using assms by (auto simp: sweep_def)
  obtain m d2 where 2: "sync_artifact_manifests (rewrite_manifest fs)
         (dedupe_artifacts_by_id (plan_manifests plan)) now d1 = (m, d2)" by (rule prod.exhaust)
  obtain del f d3 where 3: "delete_artifact_dirs fs now (plan_artifacts plan) (([], 0), d2) = ((del, f), d3)"
    by (metis prod.exhaust)
  obtain o1 d4 where 4: "cleanup_stale_artifact_ingests fs d3 = (o1, d4)" by (rule prod.exhaust)
  obtain t d5 where 5: "cleanup_expired_task_log_dirs fs (plan_task_logs plan) now d4 = (t, d5)" by (rule prod.exhaust)
  have "d' = delete_artifacts del d5" using assms tx 2 3 4 5 by (simp add: sweep_def)
  moreover have "bridge_view d2 = bridge_view d1" using outer_bridge [OF outer_sync] 2 by (metis snd_conv)
  moreover have "bridge_view d3 = bridge_view d2" using dirs 3 by (metis snd_conv)
  moreover have "bridge_view d4 = bridge_view d3" using ingests 4 by (metis snd_conv)
  moreover have "bridge_view d5 = bridge_view d4" using logs 5 by (metis snd_conv)
  ultimately show ?thesis using outer_bridge [OF outer_sweep_tx [OF tx]] by simp
qed

lemmas outer_ops = outer_attach outer_sessions outer_cli outer_observe_cli outer_codex outer_observe_codex
  outer_close_head outer_manualize_plugin outer_record_audit outer_sweep_cleanup

lemmas bridge_ops = bridge_jobs bridge_job_ends bridge_fail_supervised bridge_enqueue bridge_sweep

end
