(* ===== verification/Cbth_Bridge.thy ===== *)
theory Cbth_Bridge
  imports Cbth_Frames
begin

text \<open>
  The desktop bridge as a step relation \<open>bstep\<close> on its own tables (installation, bindings,
  consumptions, scanners, markers), with the invariant its steps keep and the order in which its rows
  may change. Every operation of the store is a sequence of these steps, or the cleanup of relay
  records that are past their retention.
\<close>

section \<open>The order of versions of a row\<close>

definition owned :: "desktop_binding_row \<Rightarrow> bool" where
  "owned k \<longleftrightarrow> dk_binding_state k \<in> {Bound, Degraded}"

definition binding_le :: "desktop_binding_row \<Rightarrow> desktop_binding_row \<Rightarrow> bool" where
  "binding_le k k' \<longleftrightarrow> dk_source_thread_id k' = dk_source_thread_id k \<and> dk_created_at k' = dk_created_at k \<and>
     (dk_armed_generation k \<noteq> None \<longrightarrow> dk_armed_generation k' \<noteq> None)"

text \<open>A marker that is no longer issued keeps its state and times; only its hash may be filled in.\<close>

definition marker_identity :: "relay_marker_row \<Rightarrow> string list \<times> marker_kind \<times> int list" where
  "marker_identity m =
     ([mk_marker m, mk_bridge_thread_id m, mk_source_thread_id m, mk_caller_automation_id m,
       mk_validation_fingerprint m, mk_attempt_id m, mk_bridge_request_id m], mk_envelope_kind m,
      [mk_read_transport_generation m, mk_generation m, mk_issued_at m, mk_retention_until m])"

definition marker_fate :: "relay_marker_row \<Rightarrow>
    marker_state \<times> int \<times> int option \<times> int option \<times> relay_rejection option" where
  "marker_fate m = (mk_marker_state m, mk_expires_at m, mk_consumed_at m, mk_rejected_at m, mk_rejection_reason m)"

definition marker_le :: "relay_marker_row \<Rightarrow> relay_marker_row \<Rightarrow> bool" where
  "marker_le m m' \<longleftrightarrow> marker_identity m' = marker_identity m \<and> mk_expires_at m' \<le> mk_expires_at m \<and>
     (mk_envelope_hash m \<noteq> None \<longrightarrow> mk_envelope_hash m' = mk_envelope_hash m) \<and>
     (mk_marker_state m \<noteq> Issued \<longrightarrow> marker_fate m' = marker_fate m)"

definition scanner_le :: "relay_scanner_row \<Rightarrow> relay_scanner_row \<Rightarrow> bool" where
  "scanner_le s s' \<longleftrightarrow> sc_bridge_thread_id s' = sc_bridge_thread_id s \<and> sc_created_at s' = sc_created_at s \<and>
     (s' = s \<or> sc_binding_revision s < sc_binding_revision s')"

lemma binding_le_refl [simp]: "binding_le k k"
  by (simp add: binding_le_def)

lemma binding_le_trans: "binding_le a b \<Longrightarrow> binding_le b c \<Longrightarrow> binding_le a c"
  by (auto simp: binding_le_def)

lemma marker_le_refl [simp]: "marker_le m m"
  by (simp add: marker_le_def)

lemma marker_le_trans: "marker_le a b \<Longrightarrow> marker_le b c \<Longrightarrow> marker_le a c"
  unfolding marker_le_def by (auto simp: marker_fate_def)

lemma marker_le_id: "marker_le m m' \<Longrightarrow> mk_marker m' = mk_marker m"
  by (simp add: marker_le_def marker_identity_def)

lemma scanner_le_refl [simp]: "scanner_le s s"
  by (simp add: scanner_le_def)

lemma scanner_le_trans: "scanner_le a b \<Longrightarrow> scanner_le b c \<Longrightarrow> scanner_le a c"
  by (auto simp: scanner_le_def)

section \<open>Well-formed rows\<close>

definition marker_ok :: "relay_marker_row \<Rightarrow> bool" where
  "marker_ok m \<longleftrightarrow> mk_expires_at m < mk_retention_until m \<and>
     (case mk_marker_state m of
        Issued \<Rightarrow> mk_consumed_at m = None \<and> mk_rejected_at m = None \<and> mk_rejection_reason m = None \<and>
          mk_envelope_hash m = None
      | Consumed \<Rightarrow> mk_consumed_at m \<noteq> None \<and> mk_envelope_hash m \<noteq> None \<and> mk_rejected_at m = None
      | _ \<Rightarrow> mk_consumed_at m = None \<and> mk_rejected_at m \<noteq> None \<and> mk_rejection_reason m \<noteq> None)"

definition scanner_ok :: "relay_scanner_row \<Rightarrow> bool" where
  "scanner_ok s \<longleftrightarrow> 1 \<le> sc_binding_revision s \<and> 0 \<le> sc_cursor_byte_offset s \<and> 0 \<le> sc_cursor_line_number s"

section \<open>The steps\<close>

type_synonym bstate = "desktop_installation_row option \<times> desktop_binding_row list \<times>
    relay_consumption_row list \<times> relay_scanner_row list \<times> relay_marker_row list"

inductive bstep :: "bstate \<Rightarrow> bstate \<Rightarrow> bool" where
  install: "\<forall>k\<in>set K. p k \<longrightarrow> binding_le k (f k) \<and> (owned (f k) \<longrightarrow> owned k) \<and>
      dk_caller_automation_id (f k) = dk_caller_automation_id k \<and>
      dk_armed_generation_quiesced_at (f k) = dk_armed_generation_quiesced_at k
    \<Longrightarrow> bstep (I, K, C, S, M) (J, update_where p f K, C, S, M)"
| rebind: "\<lbrakk>\<forall>k\<in>set K. \<not> owns_caller c th k;
      \<forall>k. binding_le k (f k) \<and> dk_caller_automation_id (f k) = c \<and>
        dk_armed_generation_quiesced_at (f k) = dk_armed_generation_quiesced_at k\<rbrakk>
    \<Longrightarrow> bstep (I, K, C, S, M) (I, update_where (\<lambda>k. dk_source_thread_id k = th) f K, C, S, M)"
| new_binding: "\<lbrakk>\<forall>q\<in>set K. \<not> owns_caller (dk_caller_automation_id k) (dk_source_thread_id k) q;
      dk_source_thread_id k \<notin> dk_source_thread_id ` set K; dk_armed_generation_quiesced_at k = None\<rbrakk>
    \<Longrightarrow> bstep (I, K, C, S, M) (I, K @ [k], C, S, M)"
| arm: "bstep (I, K, C, S, M) (I, update_where (\<lambda>k. dk_source_thread_id k = th \<and> dk_binding_state k = Bound)
      (\<lambda>k. k\<lparr>dk_armed_generation := Some g, dk_armed_generation_quiesced_at := None,
         dk_pause_not_before := Some x, dk_pause_deadline := Some y, dk_updated_at := now\<rparr>) K, C, S, M)"
| consume: "rc_marker c \<notin> rc_marker ` set C \<Longrightarrow> bstep (I, K, C, S, M) (I, K, C @ [c], S, M)"
| new_scanner: "\<lbrakk>sc_bridge_thread_id s \<notin> sc_bridge_thread_id ` set S; scanner_ok s\<rbrakk>
    \<Longrightarrow> bstep (I, K, C, S, M) (I, K, C, S @ [s], M)"
| scanner: "\<forall>s\<in>set S. q s \<longrightarrow> scanner_le s (h s) \<and> (scanner_ok s \<longrightarrow> scanner_ok (h s))
    \<Longrightarrow> bstep (I, K, C, S, M) (I, K, C, update_where q h S, M)"
| issue: "\<lbrakk>mk_marker m \<notin> mk_marker ` set M; mk_marker_state m = Issued; marker_ok m\<rbrakk>
    \<Longrightarrow> bstep (I, K, C, S, M) (I, K, C, S, M @ [m])"
| marker: "\<forall>m\<in>set M. r m \<longrightarrow> marker_le m (g m) \<and> (marker_ok m \<longrightarrow> marker_ok (g m))
    \<Longrightarrow> bstep (I, K, C, S, M) (I, K, C, S, update_where r g M)"

text \<open>The one way records leave the relay: terminal markers and consumptions past their retention.\<close>

fun cleaned :: "int \<Rightarrow> bstate \<Rightarrow> bstate" where
  "cleaned now (I, K, C, S, M) =
     (I, K, delete_where (\<lambda>c. rc_consumed_at c \<le> now - DESKTOP_TRANSCRIPT_RELAY_RETENTION_SECONDS) C, S,
      delete_where (marker_is_retired now) M)"

definition bsteps :: "bstate \<Rightarrow> bstate \<Rightarrow> bool" where
  "bsteps = bstep\<^sup>*\<^sup>*"

lemma bsteps_refl [simp, intro]: "bsteps s s"
  by (simp add: bsteps_def)

lemma bsteps_one: "bstep s t \<Longrightarrow> bsteps s t"
  by (simp add: bsteps_def)

lemma bsteps_trans: "bsteps s t \<Longrightarrow> bsteps t u \<Longrightarrow> bsteps s u"
  unfolding bsteps_def by (rule rtranclp_trans)

section \<open>The invariant\<close>

definition callers_unique :: "desktop_binding_row list \<Rightarrow> bool" where
  "callers_unique K \<longleftrightarrow> (\<forall>k\<in>set K. \<forall>q\<in>set K. owned k \<and> owned q \<and>
     dk_source_thread_id q \<noteq> dk_source_thread_id k \<longrightarrow> dk_caller_automation_id q \<noteq> dk_caller_automation_id k)"

fun binv :: "bstate \<Rightarrow> bool" where
  "binv (I, K, C, S, M) \<longleftrightarrow>
     distinct (map dk_source_thread_id K) \<and> callers_unique K \<and>
     (\<forall>k\<in>set K. dk_armed_generation_quiesced_at k = None) \<and>
     distinct (map rc_marker C) \<and>
     distinct (map sc_bridge_thread_id S) \<and> (\<forall>s\<in>set S. scanner_ok s) \<and>
     distinct (map mk_marker M) \<and> (\<forall>m\<in>set M. marker_ok m)"

lemma binv_empty: "binv (bridge_view empty_db)"
  by (simp add: bridge_view_def empty_db_def callers_unique_def)

lemma map_update_where_cong:
  "(\<And>r. r \<in> set rs \<Longrightarrow> p r \<Longrightarrow> k (f r) = k r) \<Longrightarrow> map k (update_where p f rs) = map k rs"
  by (induction rs) auto

lemma callers_uniqueD:
  "callers_unique K \<Longrightarrow> k \<in> set K \<Longrightarrow> q \<in> set K \<Longrightarrow> owned k \<Longrightarrow> owned q \<Longrightarrow>
    dk_caller_automation_id q = dk_caller_automation_id k \<Longrightarrow> dk_source_thread_id q = dk_source_thread_id k"
  unfolding callers_unique_def by blast

lemma callers_unique_kept:
  assumes "callers_unique K"
    and "\<And>k. k \<in> set K \<Longrightarrow> p k \<Longrightarrow> dk_source_thread_id (f k) = dk_source_thread_id k \<and>
      dk_caller_automation_id (f k) = dk_caller_automation_id k \<and> (owned (f k) \<longrightarrow> owned k)"
  shows "callers_unique (update_where p f K)"
  unfolding callers_unique_def
proof (intro ballI impI)
  fix k q assume k: "k \<in> set (update_where p f K)" and q: "q \<in> set (update_where p f K)"
    and own: "owned k \<and> owned q \<and> dk_source_thread_id q \<noteq> dk_source_thread_id k"
  obtain k0 where k0: "k0 \<in> set K" "k = (if p k0 then f k0 else k0)" by (rule update_where_mem [OF k])
  obtain q0 where q0: "q0 \<in> set K" "q = (if p q0 then f q0 else q0)" by (rule update_where_mem [OF q])
  have "dk_source_thread_id k = dk_source_thread_id k0 \<and> dk_caller_automation_id k = dk_caller_automation_id k0 \<and>
      (owned k \<longrightarrow> owned k0)" using assms(2) [OF k0(1)] k0(2) by simp
  moreover have "dk_source_thread_id q = dk_source_thread_id q0 \<and> dk_caller_automation_id q = dk_caller_automation_id q0 \<and>
      (owned q \<longrightarrow> owned q0)" using assms(2) [OF q0(1)] q0(2) by simp
  ultimately show "dk_caller_automation_id q \<noteq> dk_caller_automation_id k"
    using callers_uniqueD [OF assms(1) k0(1) q0(1)] own by metis
qed

lemma callers_unique_rebind:
  assumes "callers_unique K" and none: "\<forall>k\<in>set K. \<not> owns_caller c th k"
    and f: "\<forall>k. dk_source_thread_id (f k) = dk_source_thread_id k \<and> dk_caller_automation_id (f k) = c"
  shows "callers_unique (update_where (\<lambda>k. dk_source_thread_id k = th) f K)"
  unfolding callers_unique_def
proof (intro ballI impI)
  fix k q assume k: "k \<in> set (update_where (\<lambda>k. dk_source_thread_id k = th) f K)"
    and q: "q \<in> set (update_where (\<lambda>k. dk_source_thread_id k = th) f K)"
    and own: "owned k \<and> owned q \<and> dk_source_thread_id q \<noteq> dk_source_thread_id k"
  have other: "r \<in> set K \<and> dk_caller_automation_id r \<noteq> c" if
      "r \<in> set (update_where (\<lambda>k. dk_source_thread_id k = th) f K)" "dk_source_thread_id r \<noteq> th" "owned r" for r
    using that none f by (elim update_where_mem) (auto simp: owns_caller_def owned_def split: if_splits)
  have bound: "dk_caller_automation_id r = c" if
      "r \<in> set (update_where (\<lambda>k. dk_source_thread_id k = th) f K)" "dk_source_thread_id r = th" for r
    using that f by (elim update_where_mem) (auto split: if_splits)
  show "dk_caller_automation_id q \<noteq> dk_caller_automation_id k"
  proof (cases "dk_source_thread_id k = th")
    case True
    then show ?thesis using bound [OF k] other [OF q] own by metis
  next
    case False
    note k' = other [OF k False]
    show ?thesis
    proof (cases "dk_source_thread_id q = th")
      case True
      then show ?thesis using bound [OF q] k' own by metis
    next
      case False
      then show ?thesis using callers_uniqueD [OF assms(1)] k' other [OF q] own by metis
    qed
  qed
qed

lemma bstep_inv: "bstep s t \<Longrightarrow> binv s \<Longrightarrow> binv t"
proof (induction rule: bstep.induct)
  case (install K p f I C S M J)
  have "callers_unique (update_where p f K)"
    by (rule callers_unique_kept) (use install in \<open>auto simp: binding_le_def\<close>)
  with install show ?case
    by (auto simp: set_update_where binding_le_def map_update_where_cong [where k = dk_source_thread_id])
next
  case (rebind K c th f I C S M)
  have "callers_unique (update_where (\<lambda>k. dk_source_thread_id k = th) f K)"
    by (rule callers_unique_rebind) (use rebind in \<open>auto simp: binding_le_def\<close>)
  with rebind show ?case
    by (auto simp: set_update_where binding_le_def map_update_where_cong [where k = dk_source_thread_id])
next
  case (new_binding K k I C S M)
  then have "callers_unique (K @ [k])"
    by (auto simp: callers_unique_def owns_caller_def owned_def)
  with new_binding show ?case by auto
next
  case (arm I K C S M th now y x g)
  let ?p = "\<lambda>k. dk_source_thread_id k = th \<and> dk_binding_state k = Bound"
  let ?f = "\<lambda>k. k\<lparr>dk_armed_generation := Some g, dk_armed_generation_quiesced_at := None,
         dk_pause_not_before := Some x, dk_pause_deadline := Some y, dk_updated_at := now\<rparr>"
  have "callers_unique (update_where ?p ?f K)"
    by (rule callers_unique_kept) (use arm in \<open>auto simp: owned_def\<close>)
  with arm show ?case
    by (auto simp: set_update_where map_update_where_cong [where k = dk_source_thread_id])
next
  case (scanner S q h I K C M)
  then show ?case
    by (auto simp: set_update_where scanner_le_def map_update_where_cong [where k = sc_bridge_thread_id])
next
  case (marker M r g I K C S)
  then show ?case
    by (auto simp: set_update_where marker_le_id map_update_where_cong [where k = mk_marker])
qed auto

lemma bsteps_inv: "bsteps s t \<Longrightarrow> binv s \<Longrightarrow> binv t"
  unfolding bsteps_def by (induction rule: rtranclp_induct) (auto intro: bstep_inv)

lemma distinct_map_delete: "distinct (map k rs) \<Longrightarrow> distinct (map k (delete_where p rs))"
  unfolding delete_where_def by (rule distinct_map_filter)

lemma cleaned_inv: "binv s \<Longrightarrow> binv (cleaned now s)"
  by (cases s) (auto simp: distinct_map_delete delete_where_def intro: distinct_map_filter)

section \<open>Rows evolve\<close>

fun bevolves :: "bstate \<Rightarrow> bstate \<Rightarrow> bool" where
  "bevolves (I, K, C, S, M) (I', K', C', S', M') \<longleftrightarrow>
     rows_evolve binding_le K K' \<and> rows_evolve (=) C C' \<and> rows_evolve scanner_le S S' \<and> rows_evolve marker_le M M'"

lemma bevolves_refl [simp]: "bevolves s s"
  by (cases s) (simp add: rows_evolve_refl)

lemma bevolves_trans: "bevolves s t \<Longrightarrow> bevolves t u \<Longrightarrow> bevolves s u"
  by (cases s; cases t; cases u)
    (auto elim: rows_evolve_trans simp: binding_le_trans scanner_le_trans marker_le_trans)

lemma bstep_evolves: "bstep s t \<Longrightarrow> bevolves s t"
proof (induction rule: bstep.induct)
  case (rebind K c th f I C S M)
  then show ?case by (auto intro!: rows_evolve_update rows_evolve_refl)
next
  case (arm I K C S M th now y x g)
  then show ?case by (auto simp: binding_le_def intro!: rows_evolve_update rows_evolve_refl)
qed (auto intro!: rows_evolve_update rows_evolve_insert rows_evolve_refl)

lemma bsteps_evolve: "bsteps s t \<Longrightarrow> bevolves s t"
  unfolding bsteps_def by (induction rule: rtranclp_induct) (auto intro: bstep_evolves bevolves_trans)

end
