(* ===== verification/Cbth_BridgeSteps.thy ===== *)
theory Cbth_BridgeSteps
  imports Cbth_Bridge
begin

text \<open>
  Every operation of the store is a sequence of bridge steps (\<open>Cbth_Bridge\<close>), or the cleanup of relay
  records past their retention; the invariant of the bridge then holds in all reachable states.
\<close>

lemmas attempt_bridge [simp] = outer_blocks [THEN outer_bridge] outer_stores [THEN outer_bridge]

section \<open>Reading the invariant\<close>

lemma bridge_marker_ok: "binv (bridge_view d) \<Longrightarrow> m \<in> set (desktop_transcript_relay_markers d) \<Longrightarrow> marker_ok m"
  by (simp add: bridge_view_def)

lemma bridge_marker_unique:
  "binv (bridge_view d) \<Longrightarrow> m \<in> set (desktop_transcript_relay_markers d) \<Longrightarrow>
    q \<in> set (desktop_transcript_relay_markers d) \<Longrightarrow> mk_marker q = mk_marker m \<Longrightarrow> q = m"
  by (auto simp: bridge_view_def intro: distinct_key_eq)

section \<open>One update, one step\<close>

lemma marker_steps:
  "(\<And>m. m \<in> set (desktop_transcript_relay_markers d) \<Longrightarrow> r m \<Longrightarrow> marker_le m (g m) \<and> (marker_ok m \<longrightarrow> marker_ok (g m))) \<Longrightarrow>
    bsteps (bridge_view d) (bridge_view (update_markers r g d))"
  unfolding update_markers_def bridge_view_def by (auto intro!: bsteps_one bstep.marker)

lemma consumed_le: "marker_ok m \<Longrightarrow> mk_marker_state m \<in> {Issued, Consumed} \<Longrightarrow>
    marker_le m (consumed_marker t h m) \<and> marker_ok (consumed_marker t h m)"
  by (auto simp: consumed_marker_def marker_le_def marker_identity_def marker_fate_def marker_ok_def)

lemma rejected_le: "marker_ok m \<Longrightarrow> mk_marker_state m \<in> {Issued, Rejected} \<Longrightarrow>
    marker_le m (rejected_marker t why h m) \<and> marker_ok (rejected_marker t why h m)"
  by (auto simp: rejected_marker_def marker_le_def marker_identity_def marker_fate_def marker_ok_def
      split: option.splits)

lemma capped_le: "mk_marker_state m = Issued \<Longrightarrow> x \<le> mk_expires_at m \<Longrightarrow>
    marker_le m (m\<lparr>mk_expires_at := x\<rparr>) \<and> (marker_ok m \<longrightarrow> marker_ok (m\<lparr>mk_expires_at := x\<rparr>))"
  by (auto simp: marker_le_def marker_identity_def marker_ok_def)

lemma fate_steps:
  assumes inv: "binv (bridge_view d)" and m: "m \<in> set (desktop_transcript_relay_markers d)"
  shows "mk_marker_state m \<in> {Issued, Consumed} \<Longrightarrow> mk_marker m = i \<Longrightarrow>
      bsteps (bridge_view d) (bridge_view (update_markers (\<lambda>m. mk_marker m = i) (consumed_marker t h) d))"
    and "mk_marker_state m \<in> {Issued, Rejected} \<Longrightarrow> mk_marker m = i \<Longrightarrow>
      bsteps (bridge_view d) (bridge_view (update_markers (\<lambda>m. mk_marker m = i) (rejected_marker t why ho) d))"
    and "mk_marker_state m = Issued \<Longrightarrow> mk_marker m = i \<Longrightarrow> x \<le> mk_expires_at m \<Longrightarrow>
      bsteps (bridge_view d) (bridge_view (update_markers (\<lambda>m. mk_marker m = i) (\<lambda>m. m\<lparr>mk_expires_at := x\<rparr>) d))"
proof -
  note one = bridge_marker_unique [OF inv m] and ok = bridge_marker_ok [OF inv m]
  show "bsteps (bridge_view d) (bridge_view (update_markers (\<lambda>m. mk_marker m = i) (consumed_marker t h) d))"
    if "mk_marker_state m \<in> {Issued, Consumed}" "mk_marker m = i"
    using consumed_le [OF ok that(1)] one that(2) by (intro marker_steps) blast
  show "bsteps (bridge_view d) (bridge_view (update_markers (\<lambda>m. mk_marker m = i) (rejected_marker t why ho) d))"
    if "mk_marker_state m \<in> {Issued, Rejected}" "mk_marker m = i"
    using rejected_le [OF ok that(1)] one that(2) by (intro marker_steps) blast
  show "bsteps (bridge_view d) (bridge_view (update_markers (\<lambda>m. mk_marker m = i) (\<lambda>m. m\<lparr>mk_expires_at := x\<rparr>) d))"
    if "mk_marker_state m = Issued" "mk_marker m = i" "x \<le> mk_expires_at m"
    using capped_le [OF that(1,3)] one that(2) by (intro marker_steps) blast
qed

section \<open>Installation and bindings\<close>

lemma repair_installation_bsteps:
  "bsteps (bridge_view d) (bridge_view (snd (repair_desktop_installation_state repair d)))"
proof -
  have "bstep (I, K, C, S, M) (J, update_where (outdated_binding s)
      (\<lambda>k. k\<lparr>dk_binding_state := Degraded, dk_updated_at := t,
         dk_degraded_at := Some (coalesce (dk_degraded_at k) t)\<rparr>) K, C, S, M)" for I K C S M J s t
    by (rule bstep.install) (auto simp: outdated_binding_def binding_le_def owned_def)
  then show ?thesis
    by (auto simp: repair_desktop_installation_state_def Let_def bridge_view_def intro: bsteps_one
        split: option.split bool.split)
qed

lemma upsert_bsteps:
  assumes op: "upsert_desktop_binding th c inst created now d = Inr d'"
  shows "bsteps (bridge_view d) (bridge_view d')"
proof (cases "th \<in> dk_source_thread_id ` set (desktop_bindings d)")
  case True
  let ?f = "\<lambda>k. k\<lparr>dk_caller_automation_id := c, dk_binding_state := Bound,
             dk_read_transport := di_read_transport inst,
             dk_read_transport_generation := di_read_transport_generation inst,
             dk_validation_fingerprint := di_validation_fingerprint inst,
             dk_updated_at := now, dk_degraded_at := None\<rparr>"
  have free: "\<forall>k\<in>set (desktop_bindings d). \<not> owns_caller c th k"
    and d': "d' = d\<lparr>desktop_bindings := update_where (\<lambda>k. dk_source_thread_id k = th) ?f (desktop_bindings d)\<rparr>"
    using op True by (auto simp: upsert_desktop_binding_def)
  show ?thesis
    unfolding d' bridge_view_def
    by (auto simp: binding_le_def intro!: bsteps_one bstep.rebind [OF free])
next
  case False
  let ?k = "\<lparr>dk_source_thread_id = th, dk_caller_automation_id = c,
            dk_binding_state = Bound, dk_armed_generation = None, dk_armed_generation_quiesced_at = None,
            dk_pause_not_before = None, dk_pause_deadline = None,
            dk_read_transport = di_read_transport inst,
            dk_read_transport_generation = di_read_transport_generation inst,
            dk_validation_fingerprint = di_validation_fingerprint inst,
            dk_created_at = created, dk_updated_at = now, dk_degraded_at = None\<rparr>"
  have free: "\<forall>k\<in>set (desktop_bindings d). \<not> owns_caller c th k"
    and d': "d' = d\<lparr>desktop_bindings := desktop_bindings d @ [?k]\<rparr>"
    using op False by (auto simp: upsert_desktop_binding_def)
  show ?thesis
    unfolding d' bridge_view_def using free False
    by (auto intro!: bsteps_one bstep.new_binding)
qed

lemma repair_binding_bsteps:
  "repair_desktop_binding th c fp now d = Inr (r, d') \<Longrightarrow> bsteps (bridge_view d) (bridge_view d')"
  by (auto simp: repair_desktop_binding_def Let_def dest: upsert_bsteps)

lemma prepare_fixture_bsteps:
  assumes op: "prepare_desktop_writeback_fixture ids fixture d = Inr (r, d')"
  shows "bsteps (bridge_view d) (bridge_view d')"
proof -
  obtain j x i where ids: "ids = (j, x, i)" by (cases ids)
  obtain th c inst t now d1 where up: "upsert_desktop_binding th c inst t now d = Inr d1"
    and same: "bridge_view d' = bridge_view d1"
    using op unfolding prepare_desktop_writeback_fixture_def Let_def ids
    by (auto dest!: bridge_inserts bridge_insert_batch)
  from upsert_bsteps [OF up] show ?thesis by (simp add: same)
qed

section \<open>Arming\<close>

lemma arm_pending_bridge:
  "note_desktop_arm_pending_tx lease th i g bridge now d = Inr (r, d') \<Longrightarrow> bridge_view d' = bridge_view d"
  by (auto simp: note_desktop_arm_pending_tx_def repeat_desktop_arm_pending_def begin_desktop_arm_pending_def
      Let_def split: if_splits)

lemma store_armed_bsteps [simp]:
  "bsteps (bridge_view d) (bridge_view (store_armed_generation th g nb dl now d))"
  by (auto simp: store_armed_generation_def bridge_view_def intro: bsteps_one bstep.arm)

lemma bridge_store_armed:
  "bridge_view d1 = bridge_view d \<Longrightarrow>
    bridge_view (store_armed_generation th g nb dl now d1) = bridge_view (store_armed_generation th g nb dl now d)"
  by (simp add: store_armed_generation_def bridge_view_def)

lemma arm_bridge:
  assumes "note_desktop_arm_tx th i g bridge lease now d = Inr (r, d')"
  shows "bridge_view d' = bridge_view d \<or>
    (\<exists>th g nb dl. bridge_view d' = bridge_view (store_armed_generation th g nb dl now d))"
proof -
  have arm: "bridge_view d' = bridge_view d \<or>
      (\<exists>th g nb dl. bridge_view d' = bridge_view (store_armed_generation th g nb dl now d))"
    if "arm_desktop_attempt a b bridge lease now d = Inr (r, d')" for a b
  proof -
    have "bridge_view d' = bridge_view d \<or> (\<exists>x d1 th g nb dl.
        spend_delivery_attempt x now (store_desktop_arm a bridge lease now d) = Inr d1 \<and>
        d' = store_armed_generation th g nb dl now d1)"
      using that by (auto simp: arm_desktop_attempt_def Let_def split: if_splits) blast
    moreover have "bridge_view d1 = bridge_view d"
      if "spend_delivery_attempt x now (store_desktop_arm a bridge lease now d) = Inr d1" for x d1
      using outer_bridge [OF outer_inserts(5) [OF that]] by simp
    ultimately show ?thesis using bridge_store_armed by blast
  qed
  show ?thesis
    using assms by (auto simp: note_desktop_arm_tx_def split: if_splits intro: arm) (use arm in blast)+
qed

lemma arm_bsteps: "note_desktop_arm_tx th i g bridge lease now d = Inr (r, d') \<Longrightarrow> bsteps (bridge_view d) (bridge_view d')"
  by (drule arm_bridge) (metis store_armed_bsteps bsteps_refl)

lemma arm_op_bsteps:
  "note_desktop_arm_pending lease th i g bridge now d = Inr (r, d') \<Longrightarrow> bsteps (bridge_view d) (bridge_view d')"
  "note_desktop_arm th i g bridge lease now d = Inr (r', d') \<Longrightarrow> bsteps (bridge_view d) (bridge_view d')"
  by (auto simp: note_desktop_arm_pending_def note_desktop_arm_def dest: arm_pending_bridge arm_bsteps)

section \<open>Relaying\<close>

text \<open>Performing a relayed request changes no consumption, scanner or marker.\<close>

lemma perform_bridge:
  assumes "perform_relayed_request lease kind c d = Inr (r, d')"
  shows "bsteps (bridge_view d) (bridge_view d') \<and>
    desktop_transcript_relay_consumptions d' = desktop_transcript_relay_consumptions d \<and>
    desktop_transcript_relay_markers d' = desktop_transcript_relay_markers d"
  using assms
proof (cases kind)
  case ArmPendingRequested
  then have "bridge_view d' = bridge_view d"
    using assms by (auto simp: perform_relayed_request_def dest: arm_pending_bridge)
  then show ?thesis by (simp add: bridge_view_def)
next
  case ArmRequested
  then obtain s lease where op: "note_desktop_arm_tx (nr_source_thread_id c) (nr_attempt_id c)
      (nr_generation c) (nr_bridge_request_id c) lease (nr_now c) d = Inr (s, d')"
    using assms by (auto simp: perform_relayed_request_def)
  from arm_bridge [OF op] arm_bsteps [OF op] show ?thesis
    by (auto simp: bridge_view_def store_armed_generation_def)
qed

lemma insert_consumption_bsteps:
  "insert_desktop_transcript_relay_consumption_tx c kind out d = Inr d' \<Longrightarrow>
    bsteps (bridge_view d) (bridge_view d') \<and> desktop_transcript_relay_markers d' = desktop_transcript_relay_markers d"
  by (auto simp: insert_desktop_transcript_relay_consumption_tx_def bridge_view_def
      intro!: bsteps_one bstep.consume)

lemma consume_tx_bsteps:
  assumes "consume_desktop_transcript_relay_tx lease kind c d = Inr (r, d')"
  shows "bsteps (bridge_view d) (bridge_view d') \<and>
    desktop_transcript_relay_markers d' = desktop_transcript_relay_markers d"
proof -
  have "d' = d \<or> (\<exists>x d1 out. perform_relayed_request lease kind c d = Inr (x, d1) \<and>
      insert_desktop_transcript_relay_consumption_tx c kind out d1 = Inr d')"
    using assms(1) by (auto simp: consume_desktop_transcript_relay_tx_def case_option_ok_iff case_sum_ok_iff)
  then show ?thesis
    by (elim disjE exE conjE) (auto dest!: perform_bridge insert_consumption_bsteps intro: bsteps_trans)
qed

lemma consume_bsteps:
  "consume_desktop_transcript_relay lease c fp d = Inr (r, d') \<Longrightarrow> bsteps (bridge_view d) (bridge_view d')"
  by (auto simp: consume_desktop_transcript_relay_def case_option_ok_iff dest: consume_tx_bsteps)

lemma consume_issued_bsteps:
  assumes op: "consume_issued_desktop_transcript_relay_marker lease c sc fp d = Inr (r, d')"
    and inv: "binv (bridge_view d)"
  shows "bsteps (bridge_view d) (bridge_view d')"
proof -
  obtain m kind x d1 where m: "query_desktop_transcript_relay_marker_tx d (nr_marker c) = Inr m"
      "mk_marker_state m = Issued"
    and tx: "consume_desktop_transcript_relay_tx lease kind c d = Inr (x, d1)"
    and alt: "d' = update_markers (\<lambda>m. mk_marker m = nr_marker c) (consumed_marker (nr_now c) (nr_envelope_hash c)) d1 \<or>
      (\<exists>why ho. d' = update_markers (\<lambda>m. mk_marker m = nr_marker c) (rejected_marker (nr_now c) why ho) d1)"
    using op
    by (auto simp: consume_issued_desktop_transcript_relay_marker_def Let_def case_sum_ok_iff
        ensure_desktop_relay_marker_matches_consumption_def) blast
  have tx: "bsteps (bridge_view d) (bridge_view d1)"
      "desktop_transcript_relay_markers d1 = desktop_transcript_relay_markers d"
    using consume_tx_bsteps [OF tx] by simp_all
  have mem: "m \<in> set (desktop_transcript_relay_markers d1)" "mk_marker m = nr_marker c"
    using query_marker_ok [OF m(1)] tx(2) by simp_all
  have "bsteps (bridge_view d1) (bridge_view d')"
    using alt fate_steps [OF bsteps_inv [OF tx(1) inv] mem(1)] m(2) mem(2) by auto
  with tx(1) show ?thesis by (rule bsteps_trans)
qed

section \<open>Scanners\<close>

lemma bind_scanner_bsteps:
  assumes op: "bind_desktop_relay_scanner s d = Inr (r, d')"
  shows "bsteps (bridge_view d) (bridge_view d')"
proof (cases "ns_bridge_thread_id s \<in> sc_bridge_thread_id ` set (desktop_relay_scanner_bindings d)")
  case True
  with op show ?thesis
    by (auto simp: bind_desktop_relay_scanner_def Let_def ensure_cursor_non_negative_def bridge_view_def scanner_le_def
        scanner_ok_def intro!: bsteps_one bstep.scanner)
next
  case False
  with op show ?thesis
    by (auto simp: bind_desktop_relay_scanner_def Let_def ensure_cursor_non_negative_def bridge_view_def scanner_ok_def
        intro!: bsteps_one bstep.new_scanner)
qed

lemma update_scanner_bsteps:
  assumes "update_current_scanner seen f d = Inr (r, d')"
    and "\<And>s. scanner_le s (f s) \<and> (scanner_ok s \<longrightarrow> scanner_ok (f s))"
  shows "bsteps (bridge_view d) (bridge_view d')"
  using assms by (auto simp: update_current_scanner_def Let_def bridge_view_def intro!: bsteps_one bstep.scanner)

lemma scanner_bsteps:
  "update_desktop_relay_scanner_cursor seen cursor n now d = Inr (r, d') \<Longrightarrow> bsteps (bridge_view d) (bridge_view d')"
  "degrade_desktop_relay_scanner_binding_if_current seen reason now d = Inr (r, d') \<Longrightarrow>
    bsteps (bridge_view d) (bridge_view d')"
  by (auto simp: update_desktop_relay_scanner_cursor_def degrade_desktop_relay_scanner_binding_if_current_def
      ensure_cursor_non_negative_def scanner_le_def scanner_ok_def split: prod.splits
      elim!: update_scanner_bsteps)

section \<open>Markers\<close>

lemma mark_bsteps:
  "mark_desktop_transcript_relay_marker_consumed_for_scanner m h sc now d = Inr (r, d') \<Longrightarrow>
    binv (bridge_view d) \<Longrightarrow> bsteps (bridge_view d) (bridge_view d')"
  "mark_desktop_transcript_relay_marker_rejected_for_scanner m why ho sc now d = Inr (r, d') \<Longrightarrow>
    binv (bridge_view d) \<Longrightarrow> bsteps (bridge_view d) (bridge_view d')"
  by (auto simp: mark_desktop_transcript_relay_marker_consumed_for_scanner_def
      mark_desktop_transcript_relay_marker_rejected_for_scanner_def Let_def
      dest!: query_marker_ok intro: fate_steps)

lemma fold_bsteps:
  "(\<And>x d. x \<in> set xs \<Longrightarrow> binv (bridge_view d) \<Longrightarrow> bsteps (bridge_view d) (bridge_view (f x d))) \<Longrightarrow>
    binv (bridge_view d) \<Longrightarrow> bsteps (bridge_view d) (bridge_view (fold f xs d))"
proof (induction xs arbitrary: d)
  case (Cons x xs)
  have one: "bsteps (bridge_view d) (bridge_view (f x d))" using Cons.prems by simp
  from Cons.IH [OF _ bsteps_inv [OF one Cons.prems(2)]] Cons.prems(1)
  show ?case using bsteps_trans [OF one] by simp
qed simp

lemma reconcile_bsteps:
  "binv (bridge_view d) \<Longrightarrow>
    bsteps (bridge_view d) (bridge_view (snd (reconcile_desktop_transcript_relay_consumed_markers_tx now d)))"
  unfolding reconcile_desktop_transcript_relay_consumed_markers_tx_def Let_def snd_conv
proof (rule fold_bsteps)
  show "bsteps (bridge_view d) (bridge_view (reconcile_marker now c d))" if "binv (bridge_view d)" for c d
    using bridge_marker_ok [OF that]
    by (auto simp: reconcile_marker_def consumed_le rejected_le split: relay_outcome.split intro!: marker_steps)
qed

lemma expire_bsteps:
  "binv (bridge_view d) \<Longrightarrow> bsteps (bridge_view d) (bridge_view (snd (expire_desktop_transcript_relay_markers now d)))"
  by (auto simp: expire_desktop_transcript_relay_markers_def marker_is_expired_def marker_le_def marker_identity_def
      marker_ok_def intro!: marker_steps)

lemma cleanup_cleaned:
  "bridge_view (snd (cleanup_desktop_transcript_relay_retention now d)) = cleaned now (bridge_view d)"
  by (simp add: cleanup_desktop_transcript_relay_retention_def bridge_view_def Let_def)

section \<open>Issuing\<close>

lemma arm_accepted_expiry_le: "arm_accepted_expiry m d = Inr x \<Longrightarrow> x \<le> nm_expires_at m"
  by (auto simp: arm_accepted_expiry_def Let_def)

lemma issue_bsteps:
  assumes "insert_desktop_transcript_relay_marker_tx m d = Inr (r, d')"
  shows "bsteps (bridge_view d) (bridge_view d')"
proof -
  obtain kind k x where m: "nm_expires_at m < nm_retention_until m"
    and x: "(case kind of MarkArmAccepted \<Rightarrow> arm_accepted_expiry m d
         | MarkArmPendingRequested \<Rightarrow> Inr (nm_expires_at m)) = Inr x"
    and ins: "insert_marker_row (issued_marker_row m kind k x) d = Inr d'"
    using assms by (auto simp: insert_desktop_transcript_relay_marker_tx_def)
  have "x \<le> nm_expires_at m" using x by (cases kind) (auto dest: arm_accepted_expiry_le)
  with m have "marker_ok (issued_marker_row m kind k x)" "mk_marker_state (issued_marker_row m kind k x) = Issued"
    by (simp_all add: issued_marker_row_def marker_ok_def)
  with ins show ?thesis
    by (auto simp: insert_marker_row_def bridge_view_def intro!: bsteps_one bstep.issue)
qed

lemma find_or_issue_bsteps:
  assumes op: "find_or_issue_desktop_relay_marker_tx ids rq now d = Inr (r, d')" and inv: "binv (bridge_view d)"
  shows "bsteps (bridge_view d) (bridge_view d')"
proof (cases "find_issued_desktop_relay_marker_tx d rq now")
  case None
  with op show ?thesis
    by (auto simp: find_or_issue_desktop_relay_marker_tx_def dest: issue_bsteps)
next
  case (Some m)
  then have m: "m \<in> set (desktop_transcript_relay_markers d)" "mk_marker_state m = Issued"
    unfolding find_issued_desktop_relay_marker_tx_def by (auto dest!: first_row_mem)
  have "d' = d \<or> (\<exists>x. x < mk_expires_at m \<and> d' = update_markers (\<lambda>q. mk_marker q = mk_marker m) (\<lambda>q. q\<lparr>mk_expires_at := x\<rparr>) d)"
    using op Some by (auto simp: find_or_issue_desktop_relay_marker_tx_def Let_def case_option_ok_iff split: if_splits)
  with fate_steps(3) [OF inv m refl] show ?thesis by auto
qed

section \<open>The snapshot\<close>

text \<open>Capping: a fold of updates, each of which lowers the expiry of an issued marker.\<close>

lemma cap_fold_bsteps:
  assumes "binv (bridge_view d)"
    and "\<And>i x m. (i, x) \<in> set L \<Longrightarrow> m \<in> set (desktop_transcript_relay_markers d) \<Longrightarrow> mk_marker m = i \<Longrightarrow>
      mk_marker_state m = Issued \<and> x \<le> mk_expires_at m"
    and "\<And>i x y. (i, x) \<in> set L \<Longrightarrow> (i, y) \<in> set L \<Longrightarrow> x = y"
  shows "bsteps (bridge_view d) (bridge_view (fold (\<lambda>(i, x).
      update_markers (\<lambda>m. mk_marker m = i) (\<lambda>m. m\<lparr>mk_expires_at := x\<rparr>)) L d))"
  using assms
proof (induction L arbitrary: d)
  case (Cons p L)
  obtain i x where p: "p = (i, x)" by (rule prod.exhaust)
  let ?d = "update_markers (\<lambda>m. mk_marker m = i) (\<lambda>m. m\<lparr>mk_expires_at := x\<rparr>) d"
  have one: "bsteps (bridge_view d) (bridge_view ?d)"
    using Cons.prems(2) [of i x] capped_le by (intro marker_steps) (auto simp: p)
  have "bsteps (bridge_view ?d) (bridge_view (fold (\<lambda>(i, x).
      update_markers (\<lambda>m. mk_marker m = i) (\<lambda>m. m\<lparr>mk_expires_at := x\<rparr>)) L ?d))"
  proof (rule Cons.IH)
    show "binv (bridge_view ?d)" by (rule bsteps_inv [OF one Cons.prems(1)])
    fix j y m assume j: "(j, y) \<in> set L" and m: "m \<in> set (desktop_transcript_relay_markers ?d)" "mk_marker m = j"
    from m(1) obtain m0 where m0: "m0 \<in> set (desktop_transcript_relay_markers d)"
      "m = (if mk_marker m0 = i then m0\<lparr>mk_expires_at := x\<rparr> else m0)"
      by (auto simp: update_markers_def elim: update_where_mem)
    have "mk_marker m0 = j" using m0(2) m(2) by (simp split: if_splits)
    then show "mk_marker_state m = Issued \<and> y \<le> mk_expires_at m"
      using Cons.prems(2) [OF _ m0(1), of j y] Cons.prems(3) [of i x y] j m0(2) by (auto simp: p split: if_splits)
  next
    fix j y z assume "(j, y) \<in> set L" "(j, z) \<in> set L"
    then show "y = z" using Cons.prems(3) [of j y z] by simp
  qed
  then show ?case using bsteps_trans [OF one] by (simp add: p)
qed simp

lemma cap_bsteps:
  assumes b: "binv (bridge_view d)" and inv: "dinv (dview d)"
  shows "bsteps (bridge_view d) (bridge_view (cap_desktop_ready_marker_expiries_tx bridge d))"
proof -
  define L where "L = [(mk_marker m, b_redelivery_window_ends_at b).
          m \<leftarrow> desktop_transcript_relay_markers d, a \<leftarrow> delivery_attempts d,
          a_attempt_id a = mk_attempt_id m \<and> a_generation a = mk_generation m,
          b \<leftarrow> batches d, b_batch_id b = a_batch_id a,
          mk_bridge_thread_id m = bridge \<and> mk_envelope_kind m = MarkArmPendingRequested \<and>
          mk_marker_state m = Issued \<and> b_redelivery_window_ends_at b < mk_expires_at m]"
  have L: "\<exists>m a b. m \<in> set (desktop_transcript_relay_markers d) \<and> a \<in> set (delivery_attempts d) \<and>
      b \<in> set (batches d) \<and> i = mk_marker m \<and> x = b_redelivery_window_ends_at b \<and> a_attempt_id a = mk_attempt_id m \<and>
      b_batch_id b = a_batch_id a \<and> mk_marker_state m = Issued \<and> x < mk_expires_at m" if "(i, x) \<in> set L" for i x
    using that unfolding L_def by (auto split: if_splits)
  have "bsteps (bridge_view d) (bridge_view (fold (\<lambda>(i, x).
      update_markers (\<lambda>m. mk_marker m = i) (\<lambda>m. m\<lparr>mk_expires_at := x\<rparr>)) L d))"
  proof (rule cap_fold_bsteps [OF b])
    fix i x m assume "(i, x) \<in> set L" "m \<in> set (desktop_transcript_relay_markers d)" "mk_marker m = i"
    with L [of i x] bridge_marker_unique [OF b] show "mk_marker_state m = Issued \<and> x \<le> mk_expires_at m"
      by (metis less_imp_le)
  next
    fix i x y assume "(i, x) \<in> set L" "(i, y) \<in> set L"
    then obtain m a p m' a' p' where
      1: "m \<in> set (desktop_transcript_relay_markers d)" "a \<in> set (delivery_attempts d)" "p \<in> set (batches d)"
        "i = mk_marker m" "x = b_redelivery_window_ends_at p" "a_attempt_id a = mk_attempt_id m" "b_batch_id p = a_batch_id a" and
      2: "m' \<in> set (desktop_transcript_relay_markers d)" "a' \<in> set (delivery_attempts d)" "p' \<in> set (batches d)"
        "i = mk_marker m'" "y = b_redelivery_window_ends_at p'" "a_attempt_id a' = mk_attempt_id m'" "b_batch_id p' = a_batch_id a'"
      using L [of i x] L [of i y] by blast
    have "m' = m" using bridge_marker_unique [OF b 1(1) 2(1)] 1(4) 2(4) by simp
    then have "a' = a" using dinv_attempt_unique [OF inv 1(2) 2(2)] 1(6) 2(6) by simp
    then have "p' = p" using dinv_batch_unique [OF inv 1(3) 2(3)] 1(7) 2(7) by simp
    then show "x = y" using 1(5) 2(5) by simp
  qed
  then show ?thesis unfolding cap_desktop_ready_marker_expiries_tx_def L_def .
qed

lemma choose_bridge: "choose_prepared_attempt i b now d = Inr (r, d') \<Longrightarrow> bridge_view d' = bridge_view d"
  by (auto simp: choose_prepared_attempt_def create_desktop_prepared_attempt_tx_def Let_def split: list.splits
      dest!: outer_inserts outer_bridge)

lemma prepare_ready_bsteps:
  "prepare_ready_entry ids bridge rv inst now x d = Inr (r, d') \<Longrightarrow> binv (bridge_view d) \<Longrightarrow>
    bsteps (bridge_view d) (bridge_view d')"
  by (auto simp: prepare_ready_entry_def case_option_ok_iff split: if_splits
      dest!: choose_bridge dest: find_or_issue_bsteps)

lemma materialize_ready_bsteps:
  assumes op: "materialize_desktop_ready_entries_tx ids bridge rv inst now d = Inr (r, d')"
    and b: "binv (bridge_view d)" and inv: "dinv (dview d)"
  shows "bsteps (bridge_view d) (bridge_view d')"
proof -
  let ?d = "cap_desktop_ready_marker_expiries_tx bridge d"
  note cap = cap_bsteps [OF b inv, of bridge]
  have "d' = d \<or> d' = ?d \<or> (\<exists>x e. prepare_ready_entry ids bridge rv inst now x ?d = Inr (e, d'))"
    using op by (auto simp: materialize_desktop_ready_entries_tx_def Let_def split: if_splits option.splits)
  then show ?thesis
    using cap bsteps_trans [OF cap prepare_ready_bsteps [OF _ bsteps_inv [OF cap b]]] by blast
qed

lemma list_pending_bsteps:
  assumes "list_desktop_arm_pending_bindings_tx fresh bridge inst now d = Inr (r, d')" and b: "binv (bridge_view d)"
  shows "bsteps (bridge_view d) (bridge_view d')"
proof -
  obtain rows where loop: "for_each (announce_arm_accepted fresh bridge inst now) rows ([], d) = Inr (r, d')"
    using assms by (auto simp: list_desktop_arm_pending_bindings_tx_def Let_def)
  have one: "bsteps (bridge_view d0) (bridge_view d1)"
    if "announce_arm_accepted fresh bridge inst now row (es, d0) = Inr (es', d1)" "binv (bridge_view d0)" for row es es' d0 d1
    using that by (auto simp: announce_arm_accepted_def split: if_splits prod.splits dest: find_or_issue_bsteps)
  have "bsteps (bridge_view d) (bridge_view (snd (r, d')))"
  proof (rule for_each_invariant [OF loop, where P = "\<lambda>st. bsteps (bridge_view d) (bridge_view (snd st))"])
    fix row s t assume s: "bsteps (bridge_view d) (bridge_view (snd s))"
      and step: "announce_arm_accepted fresh bridge inst now row s = Inr t"
    have "bsteps (bridge_view (snd s)) (bridge_view (snd t))"
      by (rule one [of row "fst s" "snd s" "fst t"]) (use step bsteps_inv [OF s b] in simp_all)
    with s show "bsteps (bridge_view d) (bridge_view (snd t))" by (rule bsteps_trans)
  qed simp
  then show ?thesis by simp
qed

lemma materialize_bsteps:
  assumes op: "materialize_desktop_ready_and_arm_pending_entries ids fresh bridge rv inst now d = Inr (r, d')"
    and b: "binv (bridge_view d)" and inv: "dinv (dview d)"
  shows "bsteps (bridge_view d) (bridge_view d')"
proof -
  let ?d = "snd (reconcile_desktop_transcript_relay_consumed_markers_tx now d)"
  obtain x y d1 where 1: "materialize_desktop_ready_entries_tx ids bridge rv inst now ?d = Inr (x, d1)"
    and 2: "list_desktop_arm_pending_bindings_tx fresh bridge inst now d1 = Inr (y, d')"
    using op by (auto simp: materialize_desktop_ready_and_arm_pending_entries_def Let_def)
  note a = reconcile_bsteps [OF b, of now]
  have c: "bsteps (bridge_view ?d) (bridge_view d1)"
    by (rule materialize_ready_bsteps [OF 1 bsteps_inv [OF a b]]) (simp add: inv)
  note ac = bsteps_trans [OF a c]
  from list_pending_bsteps [OF 2 bsteps_inv [OF ac b]] show ?thesis by (rule bsteps_trans [OF ac])
qed

section \<open>The store\<close>

lemmas bridge_simple = bind_scanner_bsteps scanner_bsteps repair_binding_bsteps prepare_fixture_bsteps arm_op_bsteps
  consume_bsteps issue_bsteps [folded issue_desktop_transcript_relay_marker_def]

lemmas bridge_with_inv = consume_issued_bsteps mark_bsteps

theorem store_step_bridge:
  "store_step d d' \<Longrightarrow> binv (bridge_view d) \<Longrightarrow> dinv (dview d) \<Longrightarrow>
    bsteps (bridge_view d) (bridge_view d') \<or> (\<exists>now. d' = snd (cleanup_desktop_transcript_relay_retention now d))"
  by (erule store_step.cases;
      (simp only: bridge_blocks bridge_recover repair_installation_bsteps bsteps_refl simp_thms; fail)?;
      (simp add: reconcile_bsteps [folded reconcile_desktop_transcript_relay_consumed_markers_def] expire_bsteps; fail)?;
      (rule disjI2, blast; fail)?;
      (drule bridge_ops, simp; fail)?; (drule outer_ops [THEN outer_bridge], simp; fail)?;
      (drule bridge_simple, simp; fail)?; (drule bridge_with_inv, simp, simp; fail)?;
      (drule materialize_bsteps, simp, simp, simp; fail)?)

lemma reachable_binv: "reachable d \<Longrightarrow> binv (bridge_view d)"
proof (induction rule: reachable.induct)
  case (step d d')
  from store_step_bridge [OF step.hyps(2) step.IH reachable_inv [OF step.hyps(1)]] step.IH
  show ?case by (auto simp: cleanup_cleaned intro: bsteps_inv cleaned_inv)
qed (rule binv_empty)

end
