(* ===== verification/Cbth_DesktopScenario.thy ===== *)
theory Cbth_DesktopScenario
  imports Cbth_BridgeSteps Cbth_Scenario
begin

text \<open>
  A concrete run of the desktop bridge that the witnesses share: a failed job is announced to the
  automation bound to its thread, asked for, accepted and armed.
\<close>

definition demo_repair :: desktop_installation_repair where
  "demo_repair = \<lparr>ir_read_transport = DirectFileRead, ir_read_transport_capability = CapabilityValidated,
     ir_artifact_read_capability = CapabilityUnknown, ir_writeback_capability = CapabilityValidated,
     ir_validation_fingerprint = ''fp'', ir_now = 5\<rparr>"

definition demo_installation :: desktop_installation_row where
  "demo_installation = irr_state (fst (repair_desktop_installation_state demo_repair empty_db))"

definition demo_scanner :: new_relay_scanner where
  "demo_scanner = \<lparr>ns_bridge_thread_id = ''bt'', ns_rollout_path = ''p'', ns_rollout_identity = ''id'',
     ns_cursor_byte_offset = 0, ns_cursor_line_number = 0, ns_now = 31\<rparr>"

definition demo_arm_pending :: new_relay_consumption where
  "demo_arm_pending = \<lparr>nr_marker = ''CBTH_DESKTOP_RELAY_ARM_PENDING_m1'', nr_envelope_hash = ''h1'',
     nr_envelope_kind = ''arm_pending_requested'', nr_envelope_json = ''{}'', nr_source_thread_id = ''t1'',
     nr_attempt_id = ''da1'', nr_generation = 1, nr_bridge_request_id = ''br1'',
     nr_bridge_arm_lease_id = None, nr_now = 40\<rparr>"

definition demo_arm :: new_relay_consumption where
  "demo_arm = \<lparr>nr_marker = ''CBTH_DESKTOP_RELAY_ARM_ACCEPTED_m2'', nr_envelope_hash = ''h2'',
     nr_envelope_kind = ''arm_requested'', nr_envelope_json = ''{}'', nr_source_thread_id = ''t1'',
     nr_attempt_id = ''da1'', nr_generation = 1, nr_bridge_request_id = ''br1'',
     nr_bridge_arm_lease_id = Some ''l1'', nr_now = 42\<rparr>"

definition desk1 :: db where "desk1 = snd (repair_desktop_installation_state demo_repair empty_db)"
definition desk2 :: db where "desk2 = committed (repair_desktop_binding ''t1'' ''auto1'' ''fp'' 6 desk1)"
definition desk3 :: db where "desk3 = committed (submit_job_for_supervisor_generation demo_job None desk2)"
definition desk4 :: db where "desk4 = committed (fail_job ''b1'' ''j1'' ''boom'' 20 3 86400 desk3)"
definition desk5 :: db where
  "desk5 = committed (materialize_desktop_ready_and_arm_pending_entries (''da1'', ''br1'', ''m1'') (\<lambda>_. ''m2'')
     ''bt'' ''rev1'' demo_installation 30 desk4)"
definition desk6 :: db where "desk6 = committed (bind_desktop_relay_scanner demo_scanner desk5)"
definition seen_scanner :: relay_scanner_row where "seen_scanner = hd (desktop_relay_scanner_bindings desk6)"
definition desk7 :: db where
  "desk7 = committed (consume_issued_desktop_transcript_relay_marker ''l1'' demo_arm_pending seen_scanner ''fp'' desk6)"
definition desk8 :: db where
  "desk8 = committed (materialize_desktop_ready_and_arm_pending_entries (''da2'', ''br2'', ''m3'') (\<lambda>_. ''m2'')
     ''bt'' ''rev2'' demo_installation 41 desk7)"
definition desk9 :: db where "desk9 = committed (consume_desktop_transcript_relay ''l2'' demo_arm ''fp'' desk8)"

lemma desk1_reachable: "reachable desk1"
  unfolding desk1_def by (rule reachable.step [OF reachable.initial store_step.repair_installation])

lemma desk2_step: "store_step desk1 desk2"
  unfolding desk2_def by (rule run_step [OF _ store_step.repair_binding]) code_simp

lemma desk2_reachable: "reachable desk2"
  by (rule reachable.step [OF desk1_reachable desk2_step])

lemma desk3_step: "store_step desk2 desk3"
  unfolding desk3_def by (rule run_step [OF _ store_step.submit]) code_simp

lemma desk3_reachable: "reachable desk3"
  by (rule reachable.step [OF desk2_reachable desk3_step])

lemma desk4_step: "store_step desk3 desk4"
  unfolding desk4_def by (rule run_step [OF _ store_step.fail_job]) code_simp

lemma desk4_reachable: "reachable desk4"
  by (rule reachable.step [OF desk3_reachable desk4_step])

lemma desk5_step: "store_step desk4 desk5"
  unfolding desk5_def by (rule run_step [OF _ store_step.materialize]) code_simp

lemma desk5_reachable: "reachable desk5"
  by (rule reachable.step [OF desk4_reachable desk5_step])

lemma desk6_step: "store_step desk5 desk6"
  unfolding desk6_def by (rule run_step [OF _ store_step.bind_scanner]) code_simp

lemma desk6_reachable: "reachable desk6"
  by (rule reachable.step [OF desk5_reachable desk6_step])

lemma desk7_step: "store_step desk6 desk7"
  unfolding desk7_def by (rule run_step [OF _ store_step.consume_issued]) code_simp

lemma desk7_reachable: "reachable desk7"
  by (rule reachable.step [OF desk6_reachable desk7_step])

lemma desk8_step: "store_step desk7 desk8"
  unfolding desk8_def by (rule run_step [OF _ store_step.materialize]) code_simp

lemma desk8_reachable: "reachable desk8"
  by (rule reachable.step [OF desk7_reachable desk8_step])

lemma desk9_step: "store_step desk8 desk9"
  unfolding desk9_def by (rule run_step [OF _ store_step.consume_relay]) code_simp

lemma desk9_reachable: "reachable desk9"
  by (rule reachable.step [OF desk8_reachable desk9_step])

end
