(* ===== verification/Cbth_DesktopSafety.thy ===== *)
theory Cbth_DesktopSafety
  imports Cbth_DesktopScenario Cbth_Outcomes
begin

text \<open>
  What holds of the desktop bridge in every reachable store and along every run: an automation wakes one
  thread, relay records end once and are only removed by the cleanup, a request is performed once however
  often it is relayed, and a scanner that lost the race for its cursor can do nothing any more.
\<close>

section \<open>Rows of the bridge along a run\<close>

lemma store_step_bridge_rows:
  assumes "reachable d" "store_step d d'"
  shows "rows_evolve binding_le (desktop_bindings d) (desktop_bindings d')"
    and "rows_evolve scanner_le (desktop_relay_scanner_bindings d) (desktop_relay_scanner_bindings d')"
proof -
  from store_step_bridge [OF assms(2) reachable_binv [OF assms(1)] reachable_inv [OF assms(1)]]
  have "rows_evolve binding_le (desktop_bindings d) (desktop_bindings d') \<and>
    rows_evolve scanner_le (desktop_relay_scanner_bindings d) (desktop_relay_scanner_bindings d')"
  proof
    assume "bsteps (bridge_view d) (bridge_view d')"
    from bsteps_evolve [OF this] show ?thesis by (simp add: bridge_view_def)
  next
    assume "\<exists>now. d' = snd (cleanup_desktop_transcript_relay_retention now d)"
    then show ?thesis by (auto simp: cleanup_desktop_transcript_relay_retention_def Let_def rows_evolve_refl)
  qed
  then show "rows_evolve binding_le (desktop_bindings d) (desktop_bindings d')"
    and "rows_evolve scanner_le (desktop_relay_scanner_bindings d) (desktop_relay_scanner_bindings d')" by simp_all
qed

lemma bridge_rows_trans:
  "rows_evolve binding_le K L \<Longrightarrow> rows_evolve binding_le L N \<Longrightarrow> rows_evolve binding_le K N"
  "rows_evolve scanner_le S T \<Longrightarrow> rows_evolve scanner_le T U \<Longrightarrow> rows_evolve scanner_le S U"
  by (blast intro: rows_evolve_trans binding_le_trans scanner_le_trans)+

lemma run_bridge_rows:
  assumes "store_step\<^sup>*\<^sup>* d d'" "reachable d"
  shows "reachable d' \<and> rows_evolve binding_le (desktop_bindings d) (desktop_bindings d') \<and>
    rows_evolve scanner_le (desktop_relay_scanner_bindings d) (desktop_relay_scanner_bindings d')"
  using assms
proof (induction rule: rtranclp_induct)
  case (step y z)
  then have y: "reachable y" "rows_evolve binding_le (desktop_bindings d) (desktop_bindings y)"
    "rows_evolve scanner_le (desktop_relay_scanner_bindings d) (desktop_relay_scanner_bindings y)" by simp_all
  from bridge_rows_trans(1) [OF y(2) store_step_bridge_rows(1) [OF y(1) step.hyps(2)]]
    bridge_rows_trans(2) [OF y(3) store_step_bridge_rows(2) [OF y(1) step.hyps(2)]]
  show ?case using reachable.step [OF y(1) step.hyps(2)] by blast
qed (simp add: rows_evolve_refl)

lemma reachable_bridge:
  assumes "reachable d"
  shows "distinct (map dk_source_thread_id (desktop_bindings d))" "callers_unique (desktop_bindings d)"
    "k \<in> set (desktop_bindings d) \<Longrightarrow> dk_armed_generation_quiesced_at k = None"
    "distinct (map rc_marker (desktop_transcript_relay_consumptions d))"
    "distinct (map sc_bridge_thread_id (desktop_relay_scanner_bindings d))"
    "distinct (map mk_marker (desktop_transcript_relay_markers d))"
    "m \<in> set (desktop_transcript_relay_markers d) \<Longrightarrow> marker_ok m"
  using reachable_binv [OF assms] by (simp_all add: bridge_view_def)

section \<open>Bindings\<close>

text \<open>
  C21: In every reachable state an automation that is bound to a thread, or was and is degraded, is so
  for one thread only, and a thread has one binding: no automation can be woken for two threads.
\<close>

theorem automation_wakes_one_thread:
  assumes "reachable d" and "k \<in> set (desktop_bindings d)" "q \<in> set (desktop_bindings d)"
    and "dk_binding_state k \<in> {Bound, Degraded}" "dk_binding_state q \<in> {Bound, Degraded}"
    and "dk_caller_automation_id q = dk_caller_automation_id k \<or> dk_source_thread_id q = dk_source_thread_id k"
  shows "q = k"
proof -
  have "dk_source_thread_id q = dk_source_thread_id k"
    using callers_uniqueD [OF reachable_bridge(2) [OF assms(1)] assms(2,3)] assms(4-6) by (auto simp: owned_def)
  then show ?thesis by (rule distinct_key_eq [OF reachable_bridge(1) [OF assms(1)] assms(3,2)])
qed

theorem automation_wakes_one_thread_witness:
  "dk_binding_state (hd (desktop_bindings desk9)) = Bound \<and> last (desktop_bindings desk9) = hd (desktop_bindings desk9)"
proof -
  let ?k = "hd (desktop_bindings desk9)" and ?q = "last (desktop_bindings desk9)"
  have k: "?k \<in> set (desktop_bindings desk9)" "?q \<in> set (desktop_bindings desk9)" "dk_binding_state ?k = Bound"
    "dk_binding_state ?q = Bound" "dk_caller_automation_id ?q = dk_caller_automation_id ?k" by code_simp+
  with automation_wakes_one_thread [OF desk9_reachable k(1,2)] show ?thesis by simp
qed

section \<open>Relay records\<close>

text \<open>
  C22: A step of the store removes no marker and no consumption, except the cleanup, which removes
  markers that are no longer issued and past their retention and consumptions of seven days ago. Other
  than that a marker keeps its identity, its expiry is never put off, a hash it has stays, and once it is
  consumed, expired or rejected it stays so, with its times and its reason.
\<close>

theorem relay_records_end_once:
  assumes "reachable d" and "store_step d d'"
  shows "(\<forall>m\<in>set (desktop_transcript_relay_markers d).
      (\<exists>m'\<in>set (desktop_transcript_relay_markers d'). marker_le m m') \<or>
      mk_marker_state m \<noteq> Issued \<and>
        (\<exists>now\<ge>mk_retention_until m. d' = snd (cleanup_desktop_transcript_relay_retention now d))) \<and>
    (\<forall>c\<in>set (desktop_transcript_relay_consumptions d). c \<in> set (desktop_transcript_relay_consumptions d') \<or>
      (\<exists>now\<ge>rc_consumed_at c + DESKTOP_TRANSCRIPT_RELAY_RETENTION_SECONDS.
         d' = snd (cleanup_desktop_transcript_relay_retention now d)))"
  using store_step_bridge [OF assms(2) reachable_binv [OF assms(1)] reachable_inv [OF assms(1)]]
proof
  assume "bsteps (bridge_view d) (bridge_view d')"
  from bsteps_evolve [OF this] show ?thesis by (auto simp: bridge_view_def dest: rows_evolve_mem)
next
  assume "\<exists>now. d' = snd (cleanup_desktop_transcript_relay_retention now d)"
  then obtain now where d': "d' = snd (cleanup_desktop_transcript_relay_retention now d)" ..
  then have rows: "set (desktop_transcript_relay_markers d') = {m \<in> set (desktop_transcript_relay_markers d). \<not> marker_is_retired now m}"
    "set (desktop_transcript_relay_consumptions d') = {c \<in> set (desktop_transcript_relay_consumptions d).
       \<not> rc_consumed_at c \<le> now - DESKTOP_TRANSCRIPT_RELAY_RETENTION_SECONDS}"
    by (simp_all add: cleanup_desktop_transcript_relay_retention_def Let_def)
  have "\<exists>t\<ge>x. d' = snd (cleanup_desktop_transcript_relay_retention t d)" if "x \<le> now" for x
    using that d' by blast
  then show ?thesis unfolding rows by (auto simp: marker_is_retired_def algebra_simps)
qed

theorem relay_records_end_once_witness:
  "\<exists>m'\<in>set (desktop_transcript_relay_markers desk8). mk_marker m' = ''CBTH_DESKTOP_RELAY_ARM_PENDING_m1'' \<and>
     mk_marker_state m' = Consumed"
proof -
  let ?m = "hd (desktop_transcript_relay_markers desk7)"
  have m: "?m \<in> set (desktop_transcript_relay_markers desk7)" "mk_marker ?m = ''CBTH_DESKTOP_RELAY_ARM_PENDING_m1''"
    "mk_marker_state ?m = Consumed" by code_simp+
  have here: "length (desktop_transcript_relay_markers desk7) < length (desktop_transcript_relay_markers desk8)"
    by code_simp
  have "length (desktop_transcript_relay_markers (snd (cleanup_desktop_transcript_relay_retention now desk7)))
      \<le> length (desktop_transcript_relay_markers desk7)" for now
    by (simp add: cleanup_desktop_transcript_relay_retention_def Let_def delete_where_def)
  with here have "desk8 \<noteq> snd (cleanup_desktop_transcript_relay_retention now desk7)" for now by (metis leD)
  with relay_records_end_once [OF desk7_reachable desk8_step] m(1)
  obtain m' where m': "m' \<in> set (desktop_transcript_relay_markers desk8)" "marker_le ?m m'" by blast
  have "marker_fate m' = marker_fate ?m" using m'(2) m(3) by (simp add: marker_le_def)
  with marker_le_id [OF m'(2)] m'(1) m(2,3) show ?thesis by (auto simp: marker_fate_def)
qed

section \<open>Requests are performed once\<close>

text \<open>The outcome that a result of a relayed request stands for.\<close>

fun relayed_outcome :: "relay_failure + relay_record \<Rightarrow> relay_outcome" where
  "relayed_outcome (Inl (FreshArmFailure f)) = CasFailed f"
| "relayed_outcome (Inl (ReplayedArmFailure _ f)) = CasFailed f"
| "relayed_outcome (Inr r) = rr_outcome r"

lemma replay_some:
  assumes "replay_desktop_transcript_relay_consumption_tx d m h = Inr (Some r)"
  shows "\<exists>row\<in>set (desktop_transcript_relay_consumptions d). rc_marker row = m \<and> rc_envelope_hash row = h \<and>
    relayed_outcome r = rc_outcome row"
proof -
  obtain row where row: "query_relay_consumption d m = Some row" "rc_envelope_hash row = h"
    and r: "relayed_outcome r = rc_outcome row"
    using assms by (auto simp: replay_desktop_transcript_relay_consumption_tx_def split: option.splits relay_outcome.splits)
  then show ?thesis
    using consumptions_table.lookup_found [OF row(1) [unfolded query_relay_consumption_def]] by auto
qed

lemma replay_none:
  "replay_desktop_transcript_relay_consumption_tx d m h = Inr None \<Longrightarrow>
    m \<notin> rc_marker ` set (desktop_transcript_relay_consumptions d)"
  by (auto simp: replay_desktop_transcript_relay_consumption_tx_def query_relay_consumption_def find_None_iff
      split: option.splits relay_outcome.splits)

text \<open>A consumption that commits has a row with its outcome, and when it had one before, changes nothing.\<close>

lemma consume_tx_records:
  assumes op: "consume_desktop_transcript_relay_tx lease kind c d = Inr (r, d')"
  shows "\<exists>row\<in>set (desktop_transcript_relay_consumptions d'). rc_marker row = nr_marker c \<and>
      rc_envelope_hash row = nr_envelope_hash c \<and> relayed_outcome r = rc_outcome row \<and>
      (d' = d \<or> nr_marker c \<notin> rc_marker ` set (desktop_transcript_relay_consumptions d))"
proof -
  obtain replay where replay: "replay_desktop_transcript_relay_consumption_tx d (nr_marker c) (nr_envelope_hash c) = Inr replay"
    using op by (auto simp: consume_desktop_transcript_relay_tx_def)
  show ?thesis
  proof (cases replay)
    case None
    then have new: "nr_marker c \<notin> rc_marker ` set (desktop_transcript_relay_consumptions d)"
      using replay_none replay by simp
    from op replay None show ?thesis
      by (auto simp: consume_desktop_transcript_relay_tx_def case_sum_ok_iff new
          insert_desktop_transcript_relay_consumption_tx_def)
  next
    case (Some x)
    with op replay show ?thesis
      by (auto simp: consume_desktop_transcript_relay_tx_def dest!: replay_some)
  qed
qed

lemma consume_records:
  assumes op: "consume_desktop_transcript_relay lease c fp d = Inr (r, d')"
  shows "\<exists>row\<in>set (desktop_transcript_relay_consumptions d'). rc_marker row = nr_marker c \<and>
      rc_envelope_hash row = nr_envelope_hash c \<and> relayed_outcome r = rc_outcome row \<and>
      (d' = d \<or> nr_marker c \<notin> rc_marker ` set (desktop_transcript_relay_consumptions d))"
  using op by (auto simp: consume_desktop_transcript_relay_def case_option_ok_iff
      dest!: replay_some dest: consume_tx_records)

lemma replay_found:
  assumes "query_relay_consumption d m = Some row"
  shows "\<exists>r. replay_desktop_transcript_relay_consumption_tx d m (rc_envelope_hash row) = Inr (Some r) \<and>
    relayed_outcome r = rc_outcome row"
  using assms by (cases "rc_outcome row") (simp_all add: replay_desktop_transcript_relay_consumption_tx_def)

text \<open>The checks a request passes before it is looked up do not depend on the time of the request.\<close>

lemma request_checks:
  assumes "consume_desktop_transcript_relay lease c fp d = Inr (r, d')"
  obtains kind m where "validate_desktop_transcript_relay_consumption c = Inr kind"
    "query_desktop_transcript_relay_marker_tx d (nr_marker c) = Inr m"
    "ensure_desktop_relay_marker_tokens_match_consumption m kind c = Inr ()"
  using assms by (auto simp: consume_desktop_transcript_relay_def)

lemma later_request_checks:
  "validate_desktop_transcript_relay_consumption (c\<lparr>nr_now := t\<rparr>) = validate_desktop_transcript_relay_consumption c"
  "ensure_desktop_relay_marker_tokens_match_consumption m kind (c\<lparr>nr_now := t\<rparr>) =
    ensure_desktop_relay_marker_tokens_match_consumption m kind c"
  by (simp_all add: validate_desktop_transcript_relay_consumption_def
      ensure_desktop_relay_marker_tokens_match_consumption_def)

lemma request_replayed:
  assumes first: "consume_desktop_transcript_relay lease c fp d = Inr (r, d1)" and "reachable d" "reachable d2"
    and row: "row \<in> set (desktop_transcript_relay_consumptions d2)" "rc_marker row = nr_marker c"
      "rc_envelope_hash row = nr_envelope_hash c"
    and m: "m \<in> set (desktop_transcript_relay_markers d)" "mk_marker m = nr_marker c"
    and m2: "m2 \<in> set (desktop_transcript_relay_markers d2)" "marker_identity m2 = marker_identity m"
      "mk_envelope_hash m2 \<in> {None, Some (nr_envelope_hash c)}"
    and fp': "fp' \<noteq> []"
  shows "\<exists>r'. consume_desktop_transcript_relay lease' (c\<lparr>nr_now := now'\<rparr>) fp' d2 = Inr (r', d2) \<and>
    relayed_outcome r' = rc_outcome row"
proof -
  obtain kind m0 where valid: "validate_desktop_transcript_relay_consumption c = Inr kind"
    and m0: "query_desktop_transcript_relay_marker_tx d (nr_marker c) = Inr m0"
    and tokens: "ensure_desktop_relay_marker_tokens_match_consumption m0 kind c = Inr ()"
    by (rule request_checks [OF first])
  have "m0 = m"
    using distinct_key_eq [OF reachable_bridge(6) [OF assms(2)], of m0 m] query_marker_ok [OF m0] m by simp
  with tokens m2(2,3) have "ensure_desktop_relay_marker_tokens_match_consumption m2 kind c = Inr ()"
    by (simp add: ensure_desktop_relay_marker_tokens_match_consumption_def marker_identity_def)
  moreover have "query_desktop_transcript_relay_marker_tx d2 (nr_marker c) = Inr m2"
    using markers_table.lookup_mem [OF reachable_bridge(6) [OF assms(3)] m2(1)] m2(2) m(2)
    by (simp add: query_desktop_transcript_relay_marker_tx_def marker_identity_def)
  moreover have "query_relay_consumption d2 (nr_marker c) = Some row"
    using consumptions_table.lookup_mem [OF reachable_bridge(4) [OF assms(3)] row(1)] row(2)
    by (simp add: query_relay_consumption_def)
  ultimately show ?thesis
    using replay_found [of d2 "nr_marker c" row] valid fp' row(3)
    by (auto simp: consume_desktop_transcript_relay_def later_request_checks ensure_nonempty_value_def)
qed

text \<open>
  C23: A relayed request is performed once. When a marker has been consumed, with success or with a
  failure the store remembers, then in every later state that still has the record of it a further
  consumption of the marker, under any lease and with any other tokens, changes nothing if it is answered
  at all, must name the same envelope hash, and is answered with the outcome of the first one. The same
  request made again at any time is always answered, whatever became of the marker and of its binding, as
  long as the marker's row is there and has not been given another envelope hash.
\<close>

theorem relayed_request_performed_once:
  assumes "reachable d" and first: "consume_desktop_transcript_relay lease c fp d = Inr (r, d1)"
    and "store_step\<^sup>*\<^sup>* d1 d2"
    and kept: "row \<in> set (desktop_transcript_relay_consumptions d1)" "rc_marker row = nr_marker c"
      "row \<in> set (desktop_transcript_relay_consumptions d2)"
  shows "(nr_marker c' = nr_marker c \<and> consume_desktop_transcript_relay lease' c' fp' d2 = Inr (r', d3) \<longrightarrow>
      d3 = d2 \<and> nr_envelope_hash c' = nr_envelope_hash c \<and> relayed_outcome r' = relayed_outcome r) \<and>
    (m \<in> set (desktop_transcript_relay_markers d) \<and> mk_marker m = nr_marker c \<and>
      m2 \<in> set (desktop_transcript_relay_markers d2) \<and> marker_identity m2 = marker_identity m \<and>
      mk_envelope_hash m2 \<in> {None, Some (nr_envelope_hash c)} \<and> fp' \<noteq> [] \<longrightarrow>
      (\<exists>r'. consume_desktop_transcript_relay lease' (c\<lparr>nr_now := now'\<rparr>) fp' d2 = Inr (r', d2) \<and>
        relayed_outcome r' = relayed_outcome r))"
proof -
  have d1: "reachable d1" using assms(1) store_step.consume_relay [OF first] by (rule reachable.step)
  then have d2: "reachable d2" using run_bridge_rows [OF assms(3)] by blast
  obtain row1 where row1: "row1 \<in> set (desktop_transcript_relay_consumptions d1)" "rc_marker row1 = nr_marker c"
    "rc_envelope_hash row1 = nr_envelope_hash c" "relayed_outcome r = rc_outcome row1"
    using consume_records [OF first] by blast
  have "row1 = row" using distinct_key_eq [OF reachable_bridge(4) [OF d1] row1(1) kept(1)] row1(2) kept(2) by simp
  have "d3 = d2 \<and> nr_envelope_hash c' = nr_envelope_hash c \<and> relayed_outcome r' = relayed_outcome r"
    if again: "nr_marker c' = nr_marker c" "consume_desktop_transcript_relay lease' c' fp' d2 = Inr (r', d3)"
  proof -
    obtain row3 where row3: "row3 \<in> set (desktop_transcript_relay_consumptions d3)" "rc_marker row3 = nr_marker c'"
      "rc_envelope_hash row3 = nr_envelope_hash c'" "relayed_outcome r' = rc_outcome row3"
      "d3 = d2 \<or> nr_marker c' \<notin> rc_marker ` set (desktop_transcript_relay_consumptions d2)"
      using consume_records [OF again(2)] by blast
    have same: "d3 = d2" using row3(5) kept(2,3) again(1) by force
    then have "row3 = row"
      using distinct_key_eq [OF reachable_bridge(4) [OF d2], of row3 row] row3(1,2) kept(2,3) again(1) by simp
    with same \<open>row1 = row\<close> row1 row3 show ?thesis by simp
  qed
  moreover have "\<exists>r'. consume_desktop_transcript_relay lease' (c\<lparr>nr_now := now'\<rparr>) fp' d2 = Inr (r', d2) \<and>
      relayed_outcome r' = relayed_outcome r"
    if "m \<in> set (desktop_transcript_relay_markers d)" "mk_marker m = nr_marker c"
      "m2 \<in> set (desktop_transcript_relay_markers d2)" "marker_identity m2 = marker_identity m"
      "mk_envelope_hash m2 \<in> {None, Some (nr_envelope_hash c)}" "fp' \<noteq> []"
    using request_replayed [OF first assms(1) d2 kept(3,2) _ that] row1 \<open>row1 = row\<close> by simp
  ultimately show ?thesis by blast
qed

theorem relayed_request_performed_once_witness:
  "\<exists>r r'. consume_desktop_transcript_relay ''l2'' demo_arm ''fp'' desk8 = Inr (r, desk9) \<and>
     consume_desktop_transcript_relay ''l3'' (demo_arm\<lparr>nr_now := 5000\<rparr>) ''fp'' desk9 = Inr (r', desk9) \<and>
     relayed_outcome r' = relayed_outcome r"
proof -
  have "is_ok (consume_desktop_transcript_relay ''l2'' demo_arm ''fp'' desk8)" by code_simp
  then obtain r where r: "consume_desktop_transcript_relay ''l2'' demo_arm ''fp'' desk8 = Inr (r, desk9)"
    unfolding desk9_def by (blast dest: committed_step)
  let ?row = "last (desktop_transcript_relay_consumptions desk9)"
  have row: "?row \<in> set (desktop_transcript_relay_consumptions desk9)" "rc_marker ?row = nr_marker demo_arm"
    by code_simp+
  let ?m = "last (desktop_transcript_relay_markers desk8)" and ?m2 = "last (desktop_transcript_relay_markers desk9)"
  have m: "?m \<in> set (desktop_transcript_relay_markers desk8)" "mk_marker ?m = nr_marker demo_arm"
    "?m2 \<in> set (desktop_transcript_relay_markers desk9)" "marker_identity ?m2 = marker_identity ?m"
    "mk_envelope_hash ?m2 \<in> {None, Some (nr_envelope_hash demo_arm)}" "''fp'' \<noteq> ([] :: string)"
    by code_simp+
  note once = relayed_request_performed_once [OF desk8_reachable r rtranclp.rtrancl_refl row row(1),
      where fp' = "''fp''" and m = ?m and ?m2.0 = ?m2 and lease' = "''l3''" and now' = 5000]
  from conjunct2 [OF once] r m show ?thesis by blast
qed

section \<open>The race for a scanner's cursor\<close>

lemma current_scanner_updates:
  assumes op: "update_current_scanner seen f d = Inr (r, d')"
    and f: "\<And>s. sc_bridge_thread_id (f s) = sc_bridge_thread_id s \<and> sc_binding_revision s < sc_binding_revision (f s)"
  shows "\<exists>s\<in>set (desktop_relay_scanner_bindings d'). sc_bridge_thread_id s = sc_bridge_thread_id seen \<and>
    sc_binding_revision seen < sc_binding_revision s"
proof -
  have "\<exists>s\<in>set (desktop_relay_scanner_bindings d). scanner_is_current seen s"
    using op count_where_zero_iff by (auto simp: update_current_scanner_def)
  then obtain s where s: "s \<in> set (desktop_relay_scanner_bindings d)" "scanner_is_current seen s" ..
  have "f s \<in> set (desktop_relay_scanner_bindings d')"
    using op s by (auto simp: update_current_scanner_def Let_def set_update_where image_iff)
  with f [of s] s(2) show ?thesis by (auto simp: scanner_is_current_def)
qed

lemma outdated_scanner_refused:
  assumes "reachable d" and s: "s \<in> set (desktop_relay_scanner_bindings d)"
      "sc_bridge_thread_id s = sc_bridge_thread_id seen" "sc_binding_revision seen < sc_binding_revision s"
  shows "\<not> is_ok (update_current_scanner seen f d)"
    and "\<not> is_ok (ensure_desktop_relay_scanner_binding_matches_tx d seen m)"
proof -
  have none: "\<not> scanner_is_current seen q" if "q \<in> set (desktop_relay_scanner_bindings d)" for q
    using distinct_key_eq [OF reachable_bridge(5) [OF assms(1)] that s(1)] s(2,3)
    by (auto simp: scanner_is_current_def)
  then have "count_where (scanner_is_current seen) (desktop_relay_scanner_bindings d) = 0"
    by (simp add: count_where_zero_iff)
  then show "\<not> is_ok (update_current_scanner seen f d)" by (simp add: update_current_scanner_def)
  show "\<not> is_ok (ensure_desktop_relay_scanner_binding_matches_tx d seen m)"
    using none by (auto simp: is_ok_iff ensure_desktop_relay_scanner_binding_matches_tx_def dest!: query_scanner_ok)
qed

lemma scanner_ops_need_current:
  assumes "\<And>f. \<not> is_ok (update_current_scanner seen f d)"
    and "\<And>m. \<not> is_ok (ensure_desktop_relay_scanner_binding_matches_tx d seen m)"
  shows "\<not> is_ok (update_desktop_relay_scanner_cursor seen cursor n now d)"
    and "\<not> is_ok (degrade_desktop_relay_scanner_binding_if_current seen why now d)"
    and "\<not> is_ok (consume_issued_desktop_transcript_relay_marker lease c seen fp d)"
    and "\<not> is_ok (mark_desktop_transcript_relay_marker_consumed_for_scanner i h seen now d)"
    and "\<not> is_ok (mark_desktop_transcript_relay_marker_rejected_for_scanner i why ho seen now d)"
  using assms
  by (auto simp: is_ok_iff update_desktop_relay_scanner_cursor_def degrade_desktop_relay_scanner_binding_if_current_def
      consume_issued_desktop_transcript_relay_marker_def mark_desktop_transcript_relay_marker_consumed_for_scanner_def
      mark_desktop_transcript_relay_marker_rejected_for_scanner_def split: prod.splits)

text \<open>
  C24: Of the scanners that read the same row, one moves the cursor. Once an update with that row
  has succeeded, whatever the store does later, no operation that names the same row succeeds: it cannot
  move or degrade the cursor, consume a marker or close one.
\<close>

theorem scanner_cursor_moves_once:
  assumes "reachable d" and op: "update_desktop_relay_scanner_cursor seen cursor n now d = Inr (r, d1)"
    and "store_step\<^sup>*\<^sup>* d1 d2"
  shows "\<not> is_ok (update_desktop_relay_scanner_cursor seen cursor' n' now' d2) \<and>
    \<not> is_ok (degrade_desktop_relay_scanner_binding_if_current seen why now' d2) \<and>
    \<not> is_ok (consume_issued_desktop_transcript_relay_marker lease c seen fp d2) \<and>
    \<not> is_ok (mark_desktop_transcript_relay_marker_consumed_for_scanner i h seen now' d2) \<and>
    \<not> is_ok (mark_desktop_transcript_relay_marker_rejected_for_scanner i why ho seen now' d2)"
proof -
  have d1: "reachable d1" using assms(1) store_step.scanner_cursor [OF op] by (rule reachable.step)
  note run = run_bridge_rows [OF assms(3) d1]
  have "\<exists>s\<in>set (desktop_relay_scanner_bindings d1). sc_bridge_thread_id s = sc_bridge_thread_id seen \<and>
      sc_binding_revision seen < sc_binding_revision s"
    using op by (auto simp: update_desktop_relay_scanner_cursor_def split: prod.splits elim!: current_scanner_updates)
  then obtain s where s: "s \<in> set (desktop_relay_scanner_bindings d1)"
    "sc_bridge_thread_id s = sc_bridge_thread_id seen" "sc_binding_revision seen < sc_binding_revision s" by blast
  obtain s2 where s2: "s2 \<in> set (desktop_relay_scanner_bindings d2)" "scanner_le s s2"
    using run s(1) by (meson rows_evolve_mem)
  have "sc_bridge_thread_id s2 = sc_bridge_thread_id seen" "sc_binding_revision seen < sc_binding_revision s2"
    using s2(2) s(2,3) by (auto simp: scanner_le_def)
  with run s2(1) have "\<not> is_ok (update_current_scanner seen f d2)"
    "\<not> is_ok (ensure_desktop_relay_scanner_binding_matches_tx d2 seen m)" for f m
    using outdated_scanner_refused by blast+
  from scanner_ops_need_current [OF this] show ?thesis by blast
qed

theorem scanner_cursor_moves_once_witness:
  "is_ok (update_desktop_relay_scanner_cursor seen_scanner (120, 3) 1 33 desk6) \<and>
   \<not> is_ok (consume_issued_desktop_transcript_relay_marker ''l1'' demo_arm_pending seen_scanner ''fp''
     (committed (update_desktop_relay_scanner_cursor seen_scanner (120, 3) 1 33 desk6)))"
proof -
  have ok: "is_ok (update_desktop_relay_scanner_cursor seen_scanner (120, 3) 1 33 desk6)" by code_simp
  then obtain r where "update_desktop_relay_scanner_cursor seen_scanner (120, 3) 1 33 desk6 =
      Inr (r, committed (update_desktop_relay_scanner_cursor seen_scanner (120, 3) 1 33 desk6))"
    by (blast dest: committed_step)
  from scanner_cursor_moves_once [OF desk6_reachable this rtranclp.rtrancl_refl] ok show ?thesis by blast
qed

end
