(* ===== verification/Cbth_Arming.thy ===== *)
theory Cbth_Arming
  imports Cbth_DesktopSafety
begin

text \<open>
  Arming a desktop attempt: what it records, that repeating it changes nothing, that coming too late is
  remembered and not charged, and that a thread once armed is not armed afresh.
\<close>

section \<open>Lookups after the updates of arming\<close>

lemma query_binding_update:
  assumes "query_desktop_binding_tx d i = Inr k" "\<And>q. dk_source_thread_id (f q) = dk_source_thread_id q"
  shows "query_desktop_binding_tx (d\<lparr>desktop_bindings := update_where p f (desktop_bindings d)\<rparr>) i =
    Inr (if p k then f k else k)"
  using assms(1) bindings_table.lookup_update [of f i p d, OF assms(2)] by (simp add: query_desktop_binding_tx_def)

lemma query_cong:
  "delivery_attempts d' = delivery_attempts d \<Longrightarrow> query_delivery_attempt_tx d' i = query_delivery_attempt_tx d i"
  "batches d' = batches d \<Longrightarrow> query_batch_tx d' i = query_batch_tx d i"
  "desktop_bindings d' = desktop_bindings d \<Longrightarrow> query_desktop_binding_tx d' i = query_desktop_binding_tx d i"
  by (simp_all add: query_delivery_attempt_tx_def query_batch_tx_def query_desktop_binding_tx_def)

lemma store_armed_tables [simp]:
  "delivery_attempts (store_armed_generation th g nb dl now d) = delivery_attempts d"
  "batches (store_armed_generation th g nb dl now d) = batches d"
  by (simp_all add: store_armed_generation_def)

lemma store_arm_tables [simp]:
  "batches (store_desktop_arm a bridge lease now d) = batches d"
  "desktop_bindings (store_desktop_arm a bridge lease now d) = desktop_bindings d"
  by (simp_all add: store_desktop_arm_def update_attempts_def)

lemma spend_batch:
  assumes "spend_delivery_attempt x now d = Inr d'" "query_batch_tx d x = Inr b" "b_state b = BatchOpen"
    "b_delivery_attempt_count b < b_max_delivery_attempts b"
  shows "query_batch_tx d' x = Inr (b\<lparr>b_delivery_attempt_count := b_delivery_attempt_count b + 1, b_updated_at := now\<rparr>)"
  using assms query_batch_ok [OF assms(2)] by (auto simp: spend_delivery_attempt_def Let_def query_update_batch)

lemma spend_bindings: "spend_delivery_attempt x now d = Inr d' \<Longrightarrow> desktop_bindings d' = desktop_bindings d"
  by (auto simp: spend_delivery_attempt_def Let_def)

section \<open>The two ways to succeed\<close>

definition armed_attempt :: "int \<Rightarrow> attempt_row \<Rightarrow> attempt_row" where
  "armed_attempt now a = a\<lparr>a_state := Cooldown, a_desktop_armed_at := Some now, a_updated_at := now\<rparr>"

definition armed_binding :: "int \<Rightarrow> int \<Rightarrow> desktop_binding_row \<Rightarrow> desktop_binding_row" where
  "armed_binding now g k = k\<lparr>dk_armed_generation := Some g, dk_armed_generation_quiesced_at := None,
     dk_pause_not_before := Some (now + DESKTOP_PAUSE_NOT_BEFORE_SECONDS),
     dk_pause_deadline := Some (now + DESKTOP_PAUSE_NOT_BEFORE_SECONDS + DESKTOP_PAUSE_DEADLINE_GRACE_SECONDS),
     dk_updated_at := now\<rparr>"

definition charged_batch :: "int \<Rightarrow> batch_row \<Rightarrow> batch_row" where
  "charged_batch now b = b\<lparr>b_delivery_attempt_count := b_delivery_attempt_count b + 1, b_updated_at := now\<rparr>"

lemma stored_arm:
  assumes a: "query_delivery_attempt_tx d i = Inr a" "a_state a = ArmPending" "a_bridge_request_id a = Some bridge"
      "a_bridge_arm_lease_id a = Some lease"
    and k: "query_desktop_binding_tx d th = Inr k" "dk_binding_state k = Bound"
    and b: "query_batch_tx d (a_batch_id a) = Inr b" "b_state b = BatchOpen"
      "b_delivery_attempt_count b < b_max_delivery_attempts b"
    and sp: "spend_delivery_attempt (a_batch_id a) now (store_desktop_arm a bridge lease now d) = Inr d1"
    and d'_def: "d' = store_armed_generation th g (now + DESKTOP_PAUSE_NOT_BEFORE_SECONDS)
      (now + DESKTOP_PAUSE_NOT_BEFORE_SECONDS + DESKTOP_PAUSE_DEADLINE_GRACE_SECONDS) now d1"
  shows "query_delivery_attempt_tx d' i = Inr (armed_attempt now a)"
    and "query_desktop_binding_tx d' th = Inr (armed_binding now g k)"
    and "query_batch_tx d' (a_batch_id a) = Inr (charged_batch now b)"
proof -
  have "query_delivery_attempt_tx (store_desktop_arm a bridge lease now d) i = Inr (armed_attempt now a)"
    unfolding store_desktop_arm_def armed_attempt_def
    by (rule query_update_attempts [OF a(1)]) (use a query_attempt_ok [OF a(1)] in simp_all)
  moreover have same: "delivery_attempts d' = delivery_attempts (store_desktop_arm a bridge lease now d)"
    using spend_attempts [OF sp] by (simp add: d'_def)
  ultimately show "query_delivery_attempt_tx d' i = Inr (armed_attempt now a)" using query_cong(1) [OF same] by simp
  have "desktop_bindings d1 = desktop_bindings d" using spend_bindings [OF sp] by simp
  then have "query_desktop_binding_tx d1 th = Inr k" using k(1) query_cong(3) by metis
  then show "query_desktop_binding_tx d' th = Inr (armed_binding now g k)"
    unfolding d'_def store_armed_generation_def
    by (subst query_binding_update) (use k(2) query_binding_ok [OF k(1)] in \<open>auto simp: armed_binding_def\<close>)
  have "query_batch_tx (store_desktop_arm a bridge lease now d) (a_batch_id a) = Inr b"
    using b(1) by (simp add: query_batch_tx_def)
  from spend_batch [OF sp this b(2,3)] show "query_batch_tx d' (a_batch_id a) = Inr (charged_batch now b)"
    by (simp add: d'_def charged_batch_def query_batch_tx_def)
qed

lemma ensure_tokens_iff:
  "ensure_desktop_attempt_tokens a th g = Inr u \<longleftrightarrow>
    a_adapter_kind a = Desktop \<and> a_source_thread_id a = th \<and> a_generation a = g"
  by (auto simp: ensure_desktop_attempt_tokens_def)

lemma ensure_bound_iff: "ensure_desktop_binding_bound_for_arm k = Inr u \<longleftrightarrow> dk_binding_state k = Bound"
  by (simp add: ensure_desktop_binding_bound_for_arm_def)

lemma arm_successE:
  assumes "note_desktop_arm th i g bridge lease now d = Inr (Inr rec, d')"
  obtains (repeated) a k b where "query_delivery_attempt_tx d i = Inr a" "query_desktop_binding_tx d th = Inr k"
      "query_batch_tx d (a_batch_id a) = Inr b" "already_armed a k bridge g" "a_bridge_arm_lease_id a = Some lease"
      "d' = d" "rec = arm_record ''already_armed'' a k b"
  | (fresh) a k b dl where "query_delivery_attempt_tx d i = Inr a" "query_desktop_binding_tx d th = Inr k"
      "query_batch_tx d (a_batch_id a) = Inr b" "a_adapter_kind a = Desktop" "a_source_thread_id a = th"
      "a_generation a = g" "dk_binding_state k = Bound" "a_state a = ArmPending" "a_bridge_request_id a = Some bridge"
      "a_bridge_arm_lease_id a = Some lease" "a_bridge_arm_lease_deadline a = Some dl" "now < dl"
      "now < b_redelivery_window_ends_at b" "b_state b = BatchOpen"
      "b_delivery_attempt_count b < b_max_delivery_attempts b"
      "query_delivery_attempt_tx d' i = Inr (armed_attempt now a)"
      "query_desktop_binding_tx d' th = Inr (armed_binding now g k)"
      "query_batch_tx d' (a_batch_id a) = Inr (charged_batch now b)"
      "rec = arm_record ''armed'' (armed_attempt now a) (armed_binding now g k) (charged_batch now b)"
proof -
  obtain a k b where q: "query_delivery_attempt_tx d i = Inr a" "query_desktop_binding_tx d th = Inr k"
      "query_batch_tx d (a_batch_id a) = Inr b"
    and tokens: "a_adapter_kind a = Desktop" "a_source_thread_id a = th" "a_generation a = g"
    and bound: "dk_binding_state k = Bound"
    and alt: "already_armed a k bridge g \<and> a_bridge_arm_lease_id a = Some lease \<and> d' = d \<and>
        rec = arm_record ''already_armed'' a k b \<or>
      ensure_desktop_attempt_head_and_batch_eligible d a b = Inr () \<and>
        arm_desktop_attempt a b bridge lease now d = Inr (Inr rec, d')"
    using assms
    by (auto simp: note_desktop_arm_def note_desktop_arm_tx_def ensure_tokens_iff ensure_bound_iff split: if_splits)
  from alt show thesis
  proof
    assume "already_armed a k bridge g \<and> a_bridge_arm_lease_id a = Some lease \<and> d' = d \<and>
        rec = arm_record ''already_armed'' a k b"
    with q show thesis using repeated by blast
  next
    assume "ensure_desktop_attempt_head_and_batch_eligible d a b = Inr () \<and>
        arm_desktop_attempt a b bridge lease now d = Inr (Inr rec, d')"
    then obtain dl d1 a' k' b' where
      pend: "b_state b = BatchOpen" "a_state a = ArmPending" "a_bridge_request_id a = Some bridge"
        "a_bridge_arm_lease_id a = Some lease" "a_bridge_arm_lease_deadline a = Some dl" "now < dl"
        "b_delivery_attempt_count b < b_max_delivery_attempts b" "now < b_redelivery_window_ends_at b"
      and sp: "spend_delivery_attempt (a_batch_id a) now (store_desktop_arm a bridge lease now d) = Inr d1"
      and d': "d' = store_armed_generation th g (now + DESKTOP_PAUSE_NOT_BEFORE_SECONDS)
          (now + DESKTOP_PAUSE_NOT_BEFORE_SECONDS + DESKTOP_PAUSE_DEADLINE_GRACE_SECONDS) now d1"
      and q': "query_delivery_attempt_tx d' i = Inr a'" "query_desktop_binding_tx d' (a_source_thread_id a') = Inr k'"
        "query_batch_tx d' (a_batch_id a') = Inr b'" "rec = arm_record ''armed'' a' k' b'"
      using tokens query_attempt_ok [OF q(1)]
      by (auto simp: ensure_desktop_attempt_head_and_batch_eligible_def ensure_batch_open_def arm_desktop_attempt_def
          ensure_attempt_budget_remaining_def checked_timestamp_add_ok Let_def split: if_splits)
    note rows = stored_arm [OF q(1) pend(2-4) q(2) bound q(3) pend(1,7) sp d']
    have a': "a' = armed_attempt now a" using rows(1) q'(1) by simp
    then have "k' = armed_binding now g k" "b' = charged_batch now b"
      using rows(2,3) q'(2,3) tokens by (simp_all add: armed_attempt_def)
    then show thesis
      by (intro fresh [of a k b dl]) (use a' q tokens bound pend rows q'(4) in simp_all)
  qed
qed

section \<open>Arming is charged once\<close>

text \<open>A request that succeeds, seen as an operation with a result; other outcomes are errors.\<close>

definition succeeded :: "store_error + (arm_failure + 'a) \<times> db \<Rightarrow> (store_error + arm_failure \<times> db) + 'a \<times> db" where
  "succeeded r = (case r of Inl e \<Rightarrow> Inl (Inl e) | Inr (Inl f, d) \<Rightarrow> Inl (Inr (f, d)) | Inr (Inr x, d) \<Rightarrow> Inr (x, d))"

lemma succeeded_iff [simp]: "succeeded r = Inr (x, d) \<longleftrightarrow> r = Inr (Inr x, d)"
  by (auto simp: succeeded_def split: sum.split prod.split)

definition same_arm :: "desktop_arm_record \<Rightarrow> desktop_arm_record \<Rightarrow> bool" where
  "same_arm r r' \<longleftrightarrow> dr_outcome r' = ''already_armed'' \<and> dr_attempt r' = dr_attempt r \<and> dr_binding r' = dr_binding r \<and>
     dr_delivery_attempt_count r' = dr_delivery_attempt_count r"

lemma arm_again:
  assumes op: "note_desktop_arm th i g bridge lease now d = Inr (Inr rec, d')"
  shows "\<exists>rec'. note_desktop_arm th i g bridge lease now' d' = Inr (Inr rec', d') \<and> same_arm rec rec'"
proof -
  have valid: "th \<noteq> []" "i \<noteq> []" "0 < g" "bridge \<noteq> []" "lease \<noteq> []"
    using op by (auto simp: note_desktop_arm_def)
  from op show ?thesis
  proof (cases rule: arm_successE)
    case (repeated a k b)
    with op valid show ?thesis
      by (auto simp: note_desktop_arm_def note_desktop_arm_tx_def same_arm_def arm_record_def)
  next
    case (fresh a k b dl)
    then have "already_armed (armed_attempt now a) (armed_binding now g k) bridge g"
      by (simp add: already_armed_def armed_attempt_def armed_binding_def)
    with fresh valid show ?thesis
      by (simp add: note_desktop_arm_def note_desktop_arm_tx_def same_arm_def arm_record_def armed_attempt_def
          armed_binding_def ensure_desktop_attempt_tokens_def ensure_desktop_binding_bound_for_arm_def)
  qed
qed

interpretation arm_op: retryable
    "\<lambda>(th, i, g, bridge, lease, now) d. succeeded (note_desktop_arm th i g bridge lease now d)"
    "\<lambda>(th, i, g, bridge, lease, _) (th', i', g', bridge', lease', _).
       th' = th \<and> i' = i \<and> g' = g \<and> bridge' = bridge \<and> lease' = lease" same_arm "\<lambda>_. True"
  by unfold_locales (auto intro: arm_again)

text \<open>
  C25: An attempt is armed under the lease it waits with, before the lease and the redelivery window
  end, and within the budget of its batch, which it is charged to; its binding then names its generation
  and the times at which to pause. The request can be repeated any number of times, at any time: nothing
  changes and nothing is charged again.
\<close>

theorem arming_charges_once:
  assumes op: "note_desktop_arm th i g bridge lease now d = Inr (Inr rec, d')" and first: "dr_outcome rec = ''armed''"
  shows "(\<exists>a k b dl. query_delivery_attempt_tx d i = Inr a \<and> query_desktop_binding_tx d th = Inr k \<and>
      query_batch_tx d (a_batch_id a) = Inr b \<and>
      a_state a = ArmPending \<and> a_source_thread_id a = th \<and> a_generation a = g \<and>
      a_bridge_request_id a = Some bridge \<and> a_bridge_arm_lease_id a = Some lease \<and>
      a_bridge_arm_lease_deadline a = Some dl \<and> now < dl \<and> now < b_redelivery_window_ends_at b \<and>
      b_delivery_attempt_count b < b_max_delivery_attempts b \<and>
      query_delivery_attempt_tx d' i =
        Inr (a\<lparr>a_state := Cooldown, a_desktop_armed_at := Some now, a_updated_at := now\<rparr>) \<and>
      query_desktop_binding_tx d' th = Inr (k\<lparr>dk_armed_generation := Some g, dk_armed_generation_quiesced_at := None,
        dk_pause_not_before := Some (now + 90), dk_pause_deadline := Some (now + 180), dk_updated_at := now\<rparr>) \<and>
      query_batch_tx d' (a_batch_id a) =
        Inr (b\<lparr>b_delivery_attempt_count := b_delivery_attempt_count b + 1, b_updated_at := now\<rparr>)) \<and>
    (note_desktop_arm th i g bridge lease now' d' = Inr (r', d'') \<longrightarrow>
      d'' = d' \<and> (\<exists>rec'. r' = Inr rec' \<and> same_arm rec rec'))"
  using op
proof (cases rule: arm_successE)
  case (repeated a k b)
  with first show ?thesis by (simp add: arm_record_def)
next
  case (fresh a k b dl)
  from arm_again [OF op, of now'] show ?thesis
    using fresh by (auto simp: armed_attempt_def armed_binding_def charged_batch_def DESKTOP_PAUSE_NOT_BEFORE_SECONDS_def
        DESKTOP_PAUSE_DEADLINE_GRACE_SECONDS_def)
qed

text \<open>The demonstration run up to the arming itself, with the arming called directly.\<close>

definition arm_result :: "store_error + (arm_failure + desktop_arm_record) \<times> db" where
  "arm_result = note_desktop_arm ''t1'' ''da1'' 1 ''br1'' ''l1'' 43 desk7"

lemma armed_resultE:
  "(case r of Inr (Inr rec, _) \<Rightarrow> P rec | _ \<Rightarrow> False) \<Longrightarrow> \<exists>rec. r = Inr (Inr rec, committed r) \<and> P rec"
  by (cases r) (auto simp: committed_def split: sum.splits)

lemma failed_resultE:
  "(case r of Inr (Inl f, _) \<Rightarrow> True | _ \<Rightarrow> False) \<Longrightarrow> \<exists>f. r = Inr (Inl f, committed r)"
  by (cases r) (auto simp: committed_def split: sum.splits)

lemma arm_result_ok: "\<exists>rec. arm_result = Inr (Inr rec, committed arm_result) \<and> dr_outcome rec = ''armed''"
  by (rule armed_resultE) code_simp

theorem arming_charges_once_witness:
  "is_ok (note_desktop_arm ''t1'' ''da1'' 1 ''br1'' ''l1'' 900 (committed arm_result)) \<and>
   snd (projr (note_desktop_arm ''t1'' ''da1'' 1 ''br1'' ''l1'' 900 (committed arm_result))) = committed arm_result"
proof -
  obtain rec where rec: "note_desktop_arm ''t1'' ''da1'' 1 ''br1'' ''l1'' 43 desk7 = Inr (Inr rec, committed arm_result)"
    "dr_outcome rec = ''armed''" using arm_result_ok unfolding arm_result_def by blast
  have "is_ok (note_desktop_arm ''t1'' ''da1'' 1 ''br1'' ''l1'' 900 (committed arm_result))" by code_simp
  then obtain r d where again: "note_desktop_arm ''t1'' ''da1'' 1 ''br1'' ''l1'' 900 (committed arm_result) = Inr (r, d)"
    by (metis is_ok_iff prod.exhaust)
  with arming_charges_once [OF rec, of 900 r d] show ?thesis by simp
qed

section \<open>Coming too late\<close>

lemma arm_refused_unless:
  assumes "\<And>a. query_delivery_attempt_tx d i = Inr a \<Longrightarrow> a_state a \<notin> {ArmPending, Cooldown, AttemptClosed}"
  shows "\<not> is_ok (note_desktop_arm th i g bridge lease now d)"
  using assms
  by (auto simp: is_ok_iff note_desktop_arm_def note_desktop_arm_tx_def already_armed_def arm_desktop_attempt_def
      split: if_splits)

text \<open>
  A request to arm that comes after the lease or the redelivery window has ended is a failure the
  store remembers: the waiting attempt is abandoned, and nothing else changes; the batch is not charged and
  the binding not armed. However the request is repeated, it is refused.
\<close>

theorem late_arm_is_remembered:
  assumes op: "note_desktop_arm th i g bridge lease now d = Inr (Inl f, d')"
  shows "\<exists>a b dl. query_delivery_attempt_tx d i = Inr a \<and> query_batch_tx d (a_batch_id a) = Inr b \<and>
    a_state a = ArmPending \<and> a_bridge_request_id a = Some bridge \<and> a_bridge_arm_lease_id a = Some lease \<and>
    a_bridge_arm_lease_deadline a = Some dl \<and>
    f = (if dl \<le> now then ArmLeaseExpired i dl else ArmWindowClosed (b_batch_id b) (b_redelivery_window_ends_at b)) \<and>
    (dl \<le> now \<or> b_redelivery_window_ends_at b \<le> now) \<and>
    query_delivery_attempt_tx d' i =
      Inr (a\<lparr>a_state := Abandoned, a_updated_at := now, a_abandoned_at := Some now\<rparr>) \<and>
    d' = d\<lparr>delivery_attempts := delivery_attempts d'\<rparr> \<and>
    \<not> is_ok (note_desktop_arm th i g' bridge' lease' now' d')"
proof -
  obtain a b dl where a: "query_delivery_attempt_tx d i = Inr a" "query_batch_tx d (a_batch_id a) = Inr b"
      "a_adapter_kind a = Desktop" "a_state a = ArmPending" "a_bridge_request_id a = Some bridge"
      "a_bridge_arm_lease_id a = Some lease" "a_bridge_arm_lease_deadline a = Some dl"
    and f: "f = (if dl \<le> now then ArmLeaseExpired i dl else ArmWindowClosed (b_batch_id b) (b_redelivery_window_ends_at b))"
      "dl \<le> now \<or> b_redelivery_window_ends_at b \<le> now"
    and d': "d' = abandon_desktop_arm_pending_tx i now d"
    using op query_attempt_ok [of d i]
    by (auto simp: note_desktop_arm_def note_desktop_arm_tx_def ensure_tokens_iff arm_desktop_attempt_def Let_def
        split: if_splits)
  let ?a = "a\<lparr>a_state := Abandoned, a_updated_at := now, a_abandoned_at := Some now\<rparr>"
  have row: "query_delivery_attempt_tx d' i = Inr ?a"
    unfolding d' abandon_desktop_arm_pending_tx_def
    by (rule query_update_attempts [OF a(1)]) (use a query_attempt_ok [OF a(1)] in simp_all)
  have "\<not> is_ok (note_desktop_arm th i g' bridge' lease' now' d')"
    by (rule arm_refused_unless) (use row in auto)
  moreover have "d' = d\<lparr>delivery_attempts := delivery_attempts d'\<rparr>"
    by (simp add: d' abandon_desktop_arm_pending_tx_def update_attempts_def)
  ultimately show ?thesis using a f row by blast
qed

definition late_result :: "store_error + (arm_failure + desktop_arm_record) \<times> db" where
  "late_result = note_desktop_arm ''t1'' ''da1'' 1 ''br1'' ''l1'' 340 desk7"

theorem late_arm_is_remembered_witness:
  "(\<exists>f. late_result = Inr (Inl f, committed late_result)) \<and>
   \<not> is_ok (note_desktop_arm ''t1'' ''da1'' 1 ''br1'' ''l1'' 41 (committed late_result))"
proof -
  have "case late_result of Inr (Inl f, _) \<Rightarrow> True | _ \<Rightarrow> False" by code_simp
  from failed_resultE [OF this] obtain f where f: "late_result = Inr (Inl f, committed late_result)" by blast
  with late_arm_is_remembered [of "''t1''" "''da1''" 1 "''br1''" "''l1''" 340 desk7 f "committed late_result"]
  show ?thesis unfolding late_result_def by blast
qed

section \<open>A thread is armed once\<close>

lemma armed_not_quiet:
  assumes "reachable d" and k: "k \<in> set (desktop_bindings d)" "dk_armed_generation k \<noteq> None"
    and run: "store_step\<^sup>*\<^sup>* d d1"
  shows "dk_source_thread_id k \<notin> quiet_threads d1"
proof
  assume "dk_source_thread_id k \<in> quiet_threads d1"
  then obtain q where q: "query_desktop_binding_tx d1 (dk_source_thread_id k) = Inr q"
    and quiet: "is_ok (ensure_desktop_binding_quiesced_for_fresh_arm q)"
    by (auto simp: quiet_threads_def)
  note rows = run_bridge_rows [OF run assms(1)]
  obtain k1 where k1: "k1 \<in> set (desktop_bindings d1)" "binding_le k k1"
    using rows k(1) by (meson rows_evolve_mem)
  then have armed: "dk_armed_generation k1 \<noteq> None" "dk_source_thread_id k1 = dk_source_thread_id k"
    using k(2) by (auto simp: binding_le_def)
  have "q = k1"
    using query_binding_ok [OF q] k1(1) armed(2) rows reachable_bridge(1) distinct_key_eq by metis
  with quiet armed(1) rows reachable_bridge(3) k1(1) show False
    by (auto simp: ensure_desktop_binding_quiesced_for_fresh_arm_def)
qed

lemma armed_thread_waits_no_more:
  assumes run: "store_step\<^sup>*\<^sup>* d d1" and "reachable d"
    and k: "k \<in> set (desktop_bindings d)" "dk_armed_generation k \<noteq> None"
    and "a' \<in> set (delivery_attempts d1)" "a_source_thread_id a' = dk_source_thread_id k" "a_state a' = ArmPending"
  shows "\<exists>a\<in>set (delivery_attempts d). a_attempt_id a = a_attempt_id a' \<and>
    a_source_thread_id a = dk_source_thread_id k \<and> a_state a = ArmPending"
  using run assms(5-)
proof (induction arbitrary: a' rule: rtranclp_induct)
  case (step y z)
  have "reachable y" using run_bridge_rows [OF step.hyps(1) assms(2)] by simp
  then have "waits_in (quiet_threads y) (dview y) (dview z)"
    by (intro wsteps_waits_in store_step_waits [OF step.hyps(2)] reachable_inv)
  with step.prems armed_not_quiet [OF assms(2) k step.hyps(1)]
  obtain a where "a \<in> set (delivery_attempts y)" "a_attempt_id a = a_attempt_id a'"
    "a_source_thread_id a = dk_source_thread_id k" "a_state a = ArmPending"
    unfolding dview_def waits_in.simps by metis
  with step.IH [of a] show ?case by simp
qed blast

text \<open>
  C26: Once a thread's binding names an armed generation, then after any run of the store, whichever way
  its operations are requested (directly or relayed by the desktop), an attempt of the thread that waits
  to be armed has waited since before: none starts to. The direct request to start is refused, or
  repeats what was asked for before and leaves the store as it is, or finds its attempt too late and
  abandons it. (The time at which a generation is quiesced is a column that no operation sets.)
\<close>

theorem armed_thread_is_not_armed_again:
  assumes "reachable d" and k: "k \<in> set (desktop_bindings d)" "dk_armed_generation k \<noteq> None"
    and run: "store_step\<^sup>*\<^sup>* d d1"
  shows "(\<forall>a'\<in>set (delivery_attempts d1). a_source_thread_id a' = dk_source_thread_id k \<and> a_state a' = ArmPending \<longrightarrow>
      (\<exists>a\<in>set (delivery_attempts d). a_attempt_id a = a_attempt_id a' \<and> a_state a = ArmPending)) \<and>
    (note_desktop_arm_pending lease (dk_source_thread_id k) i g bridge now d1 = Inr (r, d2) \<longrightarrow>
      (\<exists>a. query_delivery_attempt_tx d1 i = Inr a \<and> a_state a \<in> {ArmPending, Cooldown, AttemptClosed} \<and>
        (case r of Inr p \<Rightarrow> d2 = d1 \<and> dp_outcome p \<in> {''already_pending'', ''already_armed''} \<and> dp_attempt p = a
         | Inl f \<Rightarrow> a_state a = ArmPending \<and> d2 = abandon_desktop_arm_pending_tx i now d1)))"
proof (intro conjI ballI impI, goal_cases)
  case (1 a')
  with armed_thread_waits_no_more [OF run assms(1) k] show ?case by blast
next
  case op: 2
  then obtain a q where a: "query_delivery_attempt_tx d1 i = Inr a"
    and q: "query_desktop_binding_tx d1 (dk_source_thread_id k) = Inr q"
    and alt: "a_state a = ArmPending \<and> repeat_desktop_arm_pending a q bridge now d1 = Inr (r, d2) \<or>
      already_armed a q bridge g \<and> r = Inr (arm_pending_record ''already_armed'' a q) \<and> d2 = d1 \<or>
      begin_desktop_arm_pending lease a q bridge now d1 = Inr (r, d2)"
    by (auto simp: note_desktop_arm_pending_def note_desktop_arm_pending_tx_def split: if_splits)
  have "begin_desktop_arm_pending lease a q bridge now d1 \<noteq> Inr (r, d2)"
    using armed_not_quiet [OF assms(1) k run] q
    by (auto simp: begin_desktop_arm_pending_def is_ok_iff quiet_threads_def)
  with alt a query_attempt_ok [OF a] show ?case
    by (auto simp: repeat_desktop_arm_pending_def already_armed_def arm_pending_record_def split: if_splits)
qed

theorem armed_thread_is_not_armed_again_witness:
  "\<exists>k\<in>set (desktop_bindings desk9). dk_armed_generation k \<noteq> None \<and>
     (\<exists>r. note_desktop_arm_pending ''l9'' ''t1'' ''da1'' 1 ''br1'' 60 desk9 = Inr (r, desk9))"
proof -
  let ?k = "hd (desktop_bindings desk9)"
  have k: "?k \<in> set (desktop_bindings desk9)" "dk_armed_generation ?k \<noteq> None" "dk_source_thread_id ?k = ''t1''"
    by code_simp+
  have "case note_desktop_arm_pending ''l9'' ''t1'' ''da1'' 1 ''br1'' 60 desk9 of Inr (Inr p, _) \<Rightarrow> True | _ \<Rightarrow> False"
    by code_simp
  from armed_resultE [OF this] obtain p d2 where
    op: "note_desktop_arm_pending ''l9'' ''t1'' ''da1'' 1 ''br1'' 60 desk9 = Inr (Inr p, d2)" by blast
  with armed_thread_is_not_armed_again [OF desk9_reachable k(1,2) rtranclp.rtrancl_refl] k
  show ?thesis by fastforce
qed

section \<open>An attempt that was never armed\<close>

text \<open>
  A run in which an attempt that waits to be armed is closed with its batch, and the next batch of the
  thread is armed. Generations are counted per batch, so both attempts have generation 1.
\<close>

definition demo_fixture :: "string \<Rightarrow> int \<Rightarrow> desktop_writeback_fixture" where
  "demo_fixture bridge now = \<lparr>nf_source_thread_id = ''t1'', nf_caller_automation_id = ''auto1'',
     nf_bridge_request_id = bridge, nf_default_validation_fingerprint = ''fp'', nf_now = now\<rparr>"

definition stale1 :: db where
  "stale1 = committed (prepare_desktop_writeback_fixture (''j1'', ''b1'', ''da1'') (demo_fixture ''br1'' 10) empty_db)"
definition stale2 :: db where
  "stale2 = committed (note_desktop_arm_pending ''l1'' ''t1'' ''da1'' 1 ''br1'' 20 stale1)"
definition stale3 :: db where "stale3 = committed (close_head (\<lambda>_. True) ''t1'' ''done'' None 30 stale2)"
definition stale4 :: db where
  "stale4 = committed (prepare_desktop_writeback_fixture (''j2'', ''b2'', ''da2'') (demo_fixture ''br2'' 40) stale3)"
definition stale5 :: db where
  "stale5 = committed (note_desktop_arm_pending ''l2'' ''t1'' ''da2'' 1 ''br2'' 62 stale4)"
definition stale6 :: db where
  "stale6 = committed (note_desktop_arm ''t1'' ''da2'' 1 ''br2'' ''l2'' 63 stale5)"

lemma stale6_reachable: "reachable stale6"
proof -
  have 1: "store_step empty_db stale1"
    unfolding stale1_def by (rule run_step [OF _ store_step.prepare_fixture]) code_simp
  have 2: "store_step stale1 stale2"
    unfolding stale2_def by (rule run_step [OF _ store_step.arm_pending]) code_simp
  have 3: "store_step stale2 stale3"
    unfolding stale3_def by (rule run_step [OF _ store_step.close_head]) code_simp
  have 4: "store_step stale3 stale4"
    unfolding stale4_def by (rule run_step [OF _ store_step.prepare_fixture]) code_simp
  have 5: "store_step stale4 stale5"
    unfolding stale5_def by (rule run_step [OF _ store_step.arm_pending]) code_simp
  have 6: "store_step stale5 stale6"
    unfolding stale6_def by (rule run_step [OF _ store_step.arm]) code_simp
  note r3 = reachable.step [OF reachable.step [OF reachable.step [OF reachable.initial 1] 2] 3]
  show ?thesis by (rule reachable.step [OF reachable.step [OF reachable.step [OF r3 4] 5] 6])
qed

text \<open>
  C27: A request to arm an attempt that is closed succeeds exactly when it names the attempt's thread,
  generation, bridge request and lease, and the bound binding of the thread names a generation equal to
  the attempt's; it is then answered \<open>already_armed\<close>, with the attempt, and changes nothing. When the attempt
  was armed plays no part: generations are counted per batch, so that the binding's generation can be that
  of another attempt, and an attempt that was closed while it waited, never armed, is reported as armed.
\<close>

theorem unarmed_attempt_reported_armed:
  assumes "reachable d" and a: "a \<in> set (delivery_attempts d)" "a_state a = AttemptClosed"
  shows "(\<exists>rec. note_desktop_arm th (a_attempt_id a) g bridge lease now d = Inr (Inr rec, d') \<and>
      dr_outcome rec = outcome \<and> dr_attempt rec = reported) \<longleftrightarrow>
    d' = d \<and> outcome = ''already_armed'' \<and> reported = a \<and>
    a_adapter_kind a = Desktop \<and> a_source_thread_id a = th \<and> a_generation a = g \<and>
    a_bridge_request_id a = Some bridge \<and> a_bridge_arm_lease_id a = Some lease \<and>
    (\<exists>k\<in>set (desktop_bindings d). dk_source_thread_id k = th \<and> dk_binding_state k = Bound \<and>
      dk_armed_generation k = Some g) \<and>
    th \<noteq> [] \<and> a_attempt_id a \<noteq> [] \<and> 0 < g \<and> bridge \<noteq> [] \<and> lease \<noteq> []"
    (is "?answer \<longleftrightarrow> ?conds")
proof
  assume ?answer
  then obtain rec where op: "note_desktop_arm th (a_attempt_id a) g bridge lease now d = Inr (Inr rec, d')"
    and rec: "dr_outcome rec = outcome" "dr_attempt rec = reported" by blast
  have same: "q = a" if "query_delivery_attempt_tx d (a_attempt_id a) = Inr q" for q
    using reachable_unique(1) [OF assms(1) a(1)] query_attempt_ok [OF that] by metis
  from op show ?conds
  proof (cases rule: arm_successE)
    case (repeated q k b)
    have "a_source_thread_id a = th \<and> a_generation a = g \<and> a_adapter_kind a = Desktop \<and> dk_binding_state k = Bound \<and>
        th \<noteq> [] \<and> a_attempt_id a \<noteq> [] \<and> 0 < g \<and> bridge \<noteq> [] \<and> lease \<noteq> []"
      using op repeated same [OF repeated(1)]
      by (auto simp: note_desktop_arm_def note_desktop_arm_tx_def ensure_tokens_iff ensure_bound_iff)
    with repeated same [OF repeated(1)] query_binding_ok [OF repeated(2)] rec show ?thesis
      by (auto simp: already_armed_def arm_record_def)
  next
    case (fresh q)
    with a(2) same [OF fresh(1)] show ?thesis by simp
  qed
next
  assume c: ?conds
  then obtain k where k: "k \<in> set (desktop_bindings d)" "dk_source_thread_id k = th" "dk_binding_state k = Bound"
    "dk_armed_generation k = Some g" by blast
  have "query_desktop_binding_tx d th = Inr k"
    using reachable_bridge(1) [OF assms(1)] k(1,2) bindings_table.lookup_mem [of d k]
    by (simp add: query_desktop_binding_tx_def)
  moreover have "query_delivery_attempt_tx d (a_attempt_id a) = Inr a"
    using query_attempt_iff [OF assms(1)] a(1) by simp
  moreover obtain b where "query_batch_tx d (a_batch_id a) = Inr b"
    using reachable_inv [OF assms(1)] a(1) query_batch_iff [OF assms(1)]
    unfolding dview_def dinv.simps attempts_linked_def by blast
  ultimately show ?answer
    using c k a(2)
    by (simp add: note_desktop_arm_def note_desktop_arm_tx_def already_armed_def arm_record_def
        ensure_desktop_attempt_tokens_def ensure_desktop_binding_bound_for_arm_def)
qed

theorem unarmed_attempt_reported_armed_witness:
  "reachable stale6 \<and> a_desktop_armed_at (hd (delivery_attempts stale6)) = None \<and>
   a_attempt_id (last (delivery_attempts stale6)) = ''da2'' \<and> a_desktop_armed_at (last (delivery_attempts stale6)) = Some 63 \<and>
   (\<exists>rec. note_desktop_arm ''t1'' ''da1'' 1 ''br1'' ''l1'' 64 stale6 = Inr (Inr rec, stale6) \<and>
     dr_outcome rec = ''already_armed'' \<and> dr_attempt rec = hd (delivery_attempts stale6))"
proof -
  let ?a = "hd (delivery_attempts stale6)" and ?k = "hd (desktop_bindings stale6)"
  have a: "?a \<in> set (delivery_attempts stale6)" "a_state ?a = AttemptClosed" by code_simp+
  have never: "a_desktop_armed_at ?a = None" "a_attempt_id (last (delivery_attempts stale6)) = ''da2''"
    "a_desktop_armed_at (last (delivery_attempts stale6)) = Some 63" by code_simp+
  have fits: "a_adapter_kind ?a = Desktop" "a_source_thread_id ?a = ''t1''" "a_generation ?a = 1"
    "a_attempt_id ?a = ''da1''" "a_bridge_request_id ?a = Some ''br1''" "a_bridge_arm_lease_id ?a = Some ''l1''" by code_simp+
  have k: "?k \<in> set (desktop_bindings stale6)" "dk_source_thread_id ?k = ''t1''" "dk_binding_state ?k = Bound"
    "dk_armed_generation ?k = Some 1" by code_simp+
  show ?thesis
    using unarmed_attempt_reported_armed [OF stale6_reachable a, of "''t1''" 1 "''br1''" "''l1''" 64 stale6
        "''already_armed''" ?a] fits k never stale6_reachable by auto
qed

end
