(* ===== verification/Cbth_Json.thy ===== *)
theory Cbth_Json
  imports Cbth_Prelude
begin

text \<open>
  JSON values as \<open>serde_json\<close> has them, and what the client of a codex app server reads from them
  (\<open>src/cli_app_server_client.rs\<close>): notifications, and the activity of a thread or a turn in a result.
\<close>

section \<open>Values\<close>

text \<open>
  \<open>serde_json::Value\<close>: a number is an unsigned or a negative 64-bit integer, or a decimal kept as its
  text; an object is a list of members in which the first with a key counts (its keys are distinct).
\<close>

datatype json_number = PosInt int | NegInt int | Decimal string

datatype json =
    JNull
  | JBool bool
  | JNumber json_number
  | JString string
  | JArray "json list"
  | JObject "(string \<times> json) list"

fun json_get :: "json \<Rightarrow> string \<Rightarrow> json option" where
  "json_get (JObject members) field = map_of members field"
| "json_get _ field = None"

fun json_as_str :: "json \<Rightarrow> string option" where
  "json_as_str (JString s) = Some s"
| "json_as_str _ = None"

fun json_as_array :: "json \<Rightarrow> json list option" where
  "json_as_array (JArray xs) = Some xs"
| "json_as_array _ = None"

fun json_as_u64 :: "json \<Rightarrow> int option" where
  "json_as_u64 (JNumber (PosInt n)) = Some n"
| "json_as_u64 _ = None"

fun json_as_bool :: "json \<Rightarrow> bool option" where
  "json_as_bool (JBool b) = Some b"
| "json_as_bool _ = None"

text \<open>\<open>Option::and_then\<close>, \<open>Option::or_else\<close> and \<open>Option::filter\<close>.\<close>

definition and_then :: "'a option \<Rightarrow> ('a \<Rightarrow> 'b option) \<Rightarrow> 'b option" where
  "and_then v f = (case v of None \<Rightarrow> None | Some x \<Rightarrow> f x)"

definition or_else :: "'a option \<Rightarrow> 'a option \<Rightarrow> 'a option" where
  "or_else v w = (case v of None \<Rightarrow> w | Some x \<Rightarrow> Some x)"

lemma and_then_Some_iff [simp]: "and_then v f = Some y \<longleftrightarrow> (\<exists>x. v = Some x \<and> f x = Some y)"
  by (cases v) (simp_all add: and_then_def)

lemma and_then_simps [simp]: "and_then None f = None" "and_then (Some x) f = f x"
  by (simp_all add: and_then_def)

lemma or_else_simps [simp]: "or_else None w = w" "or_else (Some x) w = Some x"
  by (simp_all add: or_else_def)

lemma json_as_str_Some_iff [simp]: "json_as_str v = Some s \<longleftrightarrow> v = JString s"
  by (cases v) simp_all

lemma json_as_array_Some_iff [simp]: "json_as_array v = Some xs \<longleftrightarrow> v = JArray xs"
  by (cases v) simp_all

definition string_field :: "json \<Rightarrow> string \<Rightarrow> string option" where
  "string_field v field = and_then (json_get v field) json_as_str"

definition turn_string_field :: "json \<Rightarrow> string \<Rightarrow> string option" where
  "turn_string_field v field =
     and_then (json_get v ''turn'') (\<lambda>turn. and_then (json_get turn field) json_as_str)"

section \<open>Notifications\<close>

datatype app_server_notification =
    ThreadStarted string
  | TurnStartedNote "string option" "string option"
  | TurnTerminal "string option" "string option" string
  | ThreadProofInvalidated "string option"
  | ThreadActivityChanged "string option" bool

definition is_terminal_turn_status :: "string \<Rightarrow> bool" where
  "is_terminal_turn_status status \<longleftrightarrow>
     status = ''completed'' \<or> status = ''failed'' \<or> status = ''interrupted'' \<or> status = ''replaced''"

definition thread_started_id :: "json \<Rightarrow> string option" where
  "thread_started_id params =
     (case or_else (or_else (string_field params ''threadId'') (string_field params ''id''))
         (and_then (json_get params ''thread'') (\<lambda>thread. and_then (json_get thread ''id'') json_as_str)) of
        Some thread_id \<Rightarrow> if thread_id \<noteq> [] then Some thread_id else None
      | None \<Rightarrow> None)"

definition decode_notification :: "json \<Rightarrow> app_server_notification option" where
  "decode_notification v =
     and_then (json_get v ''method'') (\<lambda>m. and_then (json_as_str m) (\<lambda>meth.
     let params = (case json_get v ''params'' of Some p \<Rightarrow> p | None \<Rightarrow> JNull) in
     if meth = ''thread/started'' then map_option ThreadStarted (thread_started_id params)
     else if meth = ''turn/started''
     then Some (TurnStartedNote (string_field params ''threadId'') (turn_string_field params ''id''))
     else if meth = ''turn/completed''
     then and_then (and_then (json_get params ''turn'') (\<lambda>turn. and_then (json_get turn ''status'') json_as_str))
       (\<lambda>status. if is_terminal_turn_status status
          then Some (TurnTerminal (string_field params ''threadId'') (turn_string_field params ''id'') status)
          else None)
     else if meth = ''thread/status/changed''
     then let thread_id = string_field params ''threadId'';
              status_type = and_then (json_get params ''status'') (\<lambda>status. and_then (json_get status ''type'') json_as_str)
       in if status_type = Some ''active'' then Some (ThreadActivityChanged thread_id True)
          else if status_type = Some ''idle'' then Some (ThreadActivityChanged thread_id False)
          else Some (ThreadProofInvalidated thread_id)
     else None))"

section \<open>Snapshots of a thread\<close>

datatype thread_activity_snapshot = SnapActive | SnapIdle | SnapMissing | SnapUntrusted

datatype turn_status_snapshot = TurnInProgress | TurnCompletedStatus | TurnFailedStatus | TurnInterruptedStatus | TurnReplacedStatus

datatype activity_or_turn = TurnKnown turn_status_snapshot | TurnMissing | TurnUntrusted

definition turn_status_from_status :: "string \<Rightarrow> turn_status_snapshot option" where
  "turn_status_from_status status =
     (if status = ''inProgress'' then Some TurnInProgress
      else if status = ''completed'' then Some TurnCompletedStatus
      else if status = ''failed'' then Some TurnFailedStatus
      else if status = ''interrupted'' then Some TurnInterruptedStatus
      else if status = ''replaced'' then Some TurnReplacedStatus else None)"

text \<open>The loop over the three places a thread id may stand: one wrong id spoils it, none is not enough.\<close>

fun identifiers_match :: "string \<Rightarrow> json option list \<Rightarrow> bool \<Rightarrow> bool" where
  "identifiers_match bound_thread_id [] matched = matched"
| "identifiers_match bound_thread_id (None # candidates) matched =
     identifiers_match bound_thread_id candidates matched"
| "identifiers_match bound_thread_id (Some candidate # candidates) matched =
     (if json_as_str candidate \<noteq> Some bound_thread_id then False
      else identifiers_match bound_thread_id candidates True)"

definition thread_result_identifiers_match :: "json \<Rightarrow> string \<Rightarrow> bool" where
  "thread_result_identifiers_match result bound_thread_id =
     identifiers_match bound_thread_id
       [json_get result ''id'', json_get result ''threadId'',
        and_then (json_get result ''thread'') (\<lambda>thread. json_get thread ''id'')] False"

definition result_thread :: "json \<Rightarrow> json" where
  "result_thread result = (case json_get result ''thread'' of Some thread \<Rightarrow> thread | None \<Rightarrow> result)"

text \<open>\<open>None\<close> where the code returns \<open>Untrusted\<close> from the match that reads the type of the status.\<close>

definition status_type_of :: "json \<Rightarrow> string option option" where
  "status_type_of thread =
     (case json_get thread ''status'' of
        Some status \<Rightarrow> map_option Some (and_then (json_get status ''type'') json_as_str)
      | None \<Rightarrow> Some None)"

definition activity_of_last_turn :: "json list \<Rightarrow> thread_activity_snapshot" where
  "activity_of_last_turn turns =
     (if turns = [] then SnapIdle
      else case and_then (json_get (last turns) ''status'') json_as_str of
        None \<Rightarrow> SnapUntrusted
      | Some status \<Rightarrow>
          if status = ''inProgress'' then SnapActive
          else if is_terminal_turn_status status then SnapIdle else SnapUntrusted)"

definition thread_result_activity_snapshot :: "json \<Rightarrow> string \<Rightarrow> thread_activity_snapshot" where
  "thread_result_activity_snapshot result bound_thread_id =
     (if \<not> thread_result_identifiers_match result bound_thread_id then SnapUntrusted
      else let thread = result_thread result in
        case status_type_of thread of
          None \<Rightarrow> SnapUntrusted
        | Some status_type \<Rightarrow>
            let turns = and_then (json_get thread ''turns'') json_as_array in
            if status_type = None \<and> turns = None then SnapMissing
            else if and_then (json_get thread ''id'') json_as_str \<noteq> Some bound_thread_id then SnapUntrusted
            else case status_type of
                Some ty \<Rightarrow> if ty = ''active'' then SnapActive else if ty = ''idle'' then SnapIdle else SnapUntrusted
              | None \<Rightarrow> (case turns of None \<Rightarrow> SnapMissing | Some ts \<Rightarrow> activity_of_last_turn ts))"

fun turn_status_in :: "string \<Rightarrow> json list \<Rightarrow> activity_or_turn" where
  "turn_status_in turn_id [] = TurnMissing"
| "turn_status_in turn_id (turn # turns) =
     (if and_then (json_get turn ''id'') json_as_str = Some turn_id
      then case and_then (json_get turn ''status'') json_as_str of
          None \<Rightarrow> TurnUntrusted
        | Some status \<Rightarrow>
            (case turn_status_from_status status of Some t \<Rightarrow> TurnKnown t | None \<Rightarrow> TurnUntrusted)
      else turn_status_in turn_id turns)"

definition thread_result_turn_status :: "json \<Rightarrow> string \<Rightarrow> string \<Rightarrow> activity_or_turn" where
  "thread_result_turn_status result bound_thread_id turn_id =
     (if \<not> thread_result_identifiers_match result bound_thread_id then TurnUntrusted
      else let thread = result_thread result in
        if and_then (json_get thread ''id'') json_as_str \<noteq> Some bound_thread_id then TurnUntrusted
        else case and_then (or_else (json_get thread ''turns'') (json_get result ''turns'')) json_as_array of
          None \<Rightarrow> TurnMissing
        | Some turns \<Rightarrow> turn_status_in turn_id turns)"

definition thread_turns_list_turn_status :: "json \<Rightarrow> string \<Rightarrow> activity_or_turn" where
  "thread_turns_list_turn_status result turn_id =
     (case and_then (json_get result ''data'') json_as_array of
        None \<Rightarrow> TurnUntrusted
      | Some turns \<Rightarrow> turn_status_in turn_id turns)"

end
