(* ===== verification/Cbth_WebSocket.thy ===== *)
theory Cbth_WebSocket
  imports Cbth_Json "HOL-Library.Word"
begin

text \<open>
  The websocket layer of \<open>src/cli_app_server_client.rs\<close>: the URL of the app server, the opening
  handshake with its SHA-1 and base64, and the frames. A byte is an \<open>8 word\<close>; text is the list of the
  bytes of its UTF-8 encoding, as characters. What can be read from a socket before the deadline is a
  list of bytes and how it ends; the bytes drawn from the system's random source are parameters.
\<close>

unbundle bit_operations_syntax

type_synonym byte = "8 word"

definition MAX_HANDSHAKE_BYTES :: nat where "MAX_HANDSHAKE_BYTES = 8 * 1024"
definition MAX_MESSAGE_BYTES :: nat where "MAX_MESSAGE_BYTES = 1024 * 1024"
definition WEBSOCKET_GUID :: string where "WEBSOCKET_GUID = ''258EAFA5-E914-47DA-95CA-C5AB0DC85B11''"

datatype ws_error =
    PayloadTooLarge
  | ControlFrameTooLarge
  | FragmentedFrame
  | MessageTooLarge
  | TimedOut
  | TimedOutMidFrame
  | SocketClosed
  | NoRandomness
  | WriteFailed
  | HandshakeTooLong
  | NotUtf8
  | NotJson
  | NotSwitchingProtocols
  | MissingAcceptHeader
  | WrongAcceptHeader
  | UnsupportedScheme
  | UnsupportedAuthority
  | BadBracketedHost
  | BadBracketedAuthority
  | UnbracketedIpv6
  | EmptyHost
  | BadPort
  | NotLoopback
  | HostNotResolved
  | NoLoopbackAddress
  | ConnectFailed

section \<open>Bytes and text\<close>

text \<open>\<open>to_be_bytes\<close> of an integer of \<open>n\<close> bytes and \<open>from_be_bytes\<close>.\<close>

fun to_be_bytes :: "nat \<Rightarrow> nat \<Rightarrow> byte list" where
  "to_be_bytes 0 v = []"
| "to_be_bytes (Suc n) v = to_be_bytes n (v div 256) @ [word_of_nat v]"

definition from_be_bytes :: "byte list \<Rightarrow> nat" where
  "from_be_bytes bs = foldl (\<lambda>v b. v * 256 + unat b) 0 bs"

definition bytes_of_string :: "string \<Rightarrow> byte list" where
  "bytes_of_string s = map of_char s"

definition string_of_bytes :: "byte list \<Rightarrow> string" where
  "string_of_bytes bs = map (\<lambda>b. char_of (unat b)) bs"

text \<open>The encodings \<open>String::from_utf8\<close> accepts.\<close>

definition continuation :: "byte \<Rightarrow> bool" where
  "continuation b \<longleftrightarrow> 0x80 \<le> b \<and> b \<le> 0xBF"

fun utf8_valid :: "byte list \<Rightarrow> bool" where
  "utf8_valid [] = True"
| "utf8_valid (a # bs) =
     (if a < 0x80 then utf8_valid bs
      else case bs of
        [] \<Rightarrow> False
      | b # cs \<Rightarrow>
          if 0xC2 \<le> a \<and> a \<le> 0xDF then continuation b \<and> utf8_valid cs
          else case cs of
            [] \<Rightarrow> False
          | c # ds \<Rightarrow>
              if a = 0xE0 then 0xA0 \<le> b \<and> b \<le> 0xBF \<and> continuation c \<and> utf8_valid ds
              else if a = 0xED then 0x80 \<le> b \<and> b \<le> 0x9F \<and> continuation c \<and> utf8_valid ds
              else if 0xE1 \<le> a \<and> a \<le> 0xEF then continuation b \<and> continuation c \<and> utf8_valid ds
              else case ds of
                [] \<Rightarrow> False
              | d # es \<Rightarrow>
                  (if a = 0xF0 then 0x90 \<le> b \<and> b \<le> 0xBF
                   else if a = 0xF4 then 0x80 \<le> b \<and> b \<le> 0x8F
                   else 0xF1 \<le> a \<and> a \<le> 0xF3 \<and> continuation b) \<and>
                  continuation c \<and> continuation d \<and> utf8_valid es)"

section \<open>Reading and writing\<close>

datatype stream_end = EndsAtDeadline | EndsClosed

type_synonym stream = "byte list \<times> stream_end"

definition read_exact_or_timeout :: "nat \<Rightarrow> stream \<Rightarrow> ws_error + byte list option \<times> stream" where
  "read_exact_or_timeout n s =
     (let (bs, ending) = s in
      if n \<le> length bs then Inr (Some (take n bs), (drop n bs, ending))
      else case ending of
          EndsAtDeadline \<Rightarrow> if bs = [] then Inr (None, s) else Inl TimedOutMidFrame
        | EndsClosed \<Rightarrow> Inl SocketClosed)"

definition read_exact_required :: "nat \<Rightarrow> stream \<Rightarrow> ws_error + byte list \<times> stream" where
  "read_exact_required n s =
     chain (read_exact_or_timeout n s) (\<lambda>(r, s). case r of Some bs \<Rightarrow> Inr (bs, s) | None \<Rightarrow> Inl TimedOut)"

section \<open>Frames\<close>

definition apply_mask :: "byte list \<Rightarrow> byte list \<Rightarrow> byte list" where
  "apply_mask key payload = map (\<lambda>(i, b). b XOR key ! (i mod 4)) (enumerate 0 payload)"

definition frame_length_bytes :: "nat \<Rightarrow> byte list" where
  "frame_length_bytes len =
     (if len \<le> 125 then [0x80 OR word_of_nat len]
      else if len \<le> 65535 then [0x80 OR 126] @ to_be_bytes 2 len
      else [0x80 OR 127] @ to_be_bytes 8 len)"

definition encode_frame :: "byte list \<Rightarrow> byte \<Rightarrow> byte list \<Rightarrow> ws_error + byte list" where
  "encode_frame key opcode payload =
     chain (require (length payload \<le> MAX_MESSAGE_BYTES) PayloadTooLarge) (\<lambda>_.
     chain (require (\<not> (opcode AND 0x08 \<noteq> 0 \<and> length payload > 125)) ControlFrameTooLarge) (\<lambda>_.
     Inr ([0x80 OR (opcode AND 0x0F)] @ frame_length_bytes (length payload) @ key @ apply_mask key payload)))"

definition read_length :: "byte \<Rightarrow> stream \<Rightarrow> ws_error + nat \<times> stream" where
  "read_length b s =
     (let short = b AND 0x7F in
      if short = 126 then chain (read_exact_required 2 s) (\<lambda>(bs, s). Inr (from_be_bytes bs, s))
      else if short = 127 then chain (read_exact_required 8 s) (\<lambda>(bs, s). Inr (from_be_bytes bs, s))
      else Inr (unat short, s))"

definition read_payload :: "bool \<Rightarrow> nat \<Rightarrow> stream \<Rightarrow> ws_error + byte list \<times> stream" where
  "read_payload masked len s =
     (if masked
      then chain (read_exact_required 4 s) (\<lambda>(key, s).
        chain (read_exact_required len s) (\<lambda>(payload, s). Inr (apply_mask key payload, s)))
      else read_exact_required len s)"

definition read_frame :: "stream \<Rightarrow> ws_error + (byte \<times> byte list) option \<times> stream" where
  "read_frame s =
     chain (read_exact_or_timeout 2 s) (\<lambda>(header, s).
     case header of
       None \<Rightarrow> Inr (None, s)
     | Some hs \<Rightarrow>
         let opcode = hs ! 0 AND 0x0F; masked = (hs ! 1 AND 0x80 \<noteq> 0) in
         chain (require (hs ! 0 AND 0x80 \<noteq> 0) FragmentedFrame) (\<lambda>_.
         chain (read_length (hs ! 1) s) (\<lambda>(len, s).
         chain (require (len \<le> MAX_MESSAGE_BYTES) MessageTooLarge) (\<lambda>_.
         chain (require (\<not> (opcode AND 0x08 \<noteq> 0 \<and> len > 125)) ControlFrameTooLarge) (\<lambda>_.
         chain (read_payload masked len s) (\<lambda>(payload, s). Inr (Some (opcode, payload), s)))))))"

section \<open>Base64 and SHA-1\<close>

definition BASE64_TABLE :: string where
  "BASE64_TABLE = ''ABCDEFGHIJKLMNOPQRSTUVWXYZabcdefghijklmnopqrstuvwxyz0123456789+/''"

definition sextet :: "nat \<Rightarrow> 32 word \<Rightarrow> char" where
  "sextet n v = BASE64_TABLE ! unat (drop_bit n v AND 0x3F)"

fun base64_encode :: "byte list \<Rightarrow> string" where
  "base64_encode (a # b # c # rest) =
     (let v = push_bit 16 (ucast a) OR push_bit 8 (ucast b) OR ucast c
      in [sextet 18 v, sextet 12 v, sextet 6 v, sextet 0 v] @ base64_encode rest)"
| "base64_encode [a, b] =
     (let v = push_bit 16 (ucast a) OR push_bit 8 (ucast b)
      in [sextet 18 v, sextet 12 v, sextet 6 v, CHR ''=''])"
| "base64_encode [a] =
     (let v = push_bit 16 (ucast a) OR push_bit 8 (0 :: 32 word) in [sextet 18 v, sextet 12 v, CHR ''='', CHR ''=''])"
| "base64_encode [] = []"

text \<open>The padding loop \<open>while message.len() % 64 != 56 { message.push(0) }\<close>.\<close>

function pad_zeros :: "byte list \<Rightarrow> byte list" where
  "pad_zeros message = (if length message mod 64 \<noteq> 56 then pad_zeros (message @ [0]) else message)"
  by pat_completeness auto
termination
proof (relation "measure (\<lambda>m. (120 - length m mod 64) mod 64)")
  fix m :: "byte list" assume "length m mod 64 \<noteq> 56"
  moreover have "(120 - k) mod 64 = (if k \<le> 56 then 56 - k else 120 - k)" if "k < 64" for k :: nat
    using that by (cases "k \<le> 56") (simp_all add: mod_if)
  moreover have "length m mod 64 < 64" "Suc (length m) mod 64 < 64" by simp_all
  ultimately have "(120 - Suc (length m) mod 64) mod 64 < (120 - length m mod 64) mod 64"
    by (auto simp: mod_Suc split: if_splits)
  then show "(m @ [0], m) \<in> measure (\<lambda>m. (120 - length m mod 64) mod 64)" by simp
qed simp

declare pad_zeros.simps [simp del, code del]

lemma pad_zeros_code [code]:
  "pad_zeros message = (case length message mod 64 \<noteq> 56 of True \<Rightarrow> pad_zeros (message @ [0]) | False \<Rightarrow> message)"
  by (subst pad_zeros.simps) simp

definition sha1_message :: "byte list \<Rightarrow> byte list" where
  "sha1_message input =
     (let bit_len = (word_of_nat (length input) :: 64 word) * 8
      in pad_zeros (input @ [0x80]) @ map (\<lambda>i. ucast (drop_bit (56 - 8 * i) bit_len)) [0..<8])"

fun chunks_exact :: "nat \<Rightarrow> 'a list \<Rightarrow> 'a list list" where
  "chunks_exact n xs = (if n = 0 \<or> length xs < n then [] else take n xs # chunks_exact n (drop n xs))"

declare chunks_exact.simps [simp del, code del]

lemma chunks_exact_code [code]:
  "chunks_exact n xs = (case n = 0 \<or> length xs < n of True \<Rightarrow> [] | False \<Rightarrow> take n xs # chunks_exact n (drop n xs))"
  by (subst chunks_exact.simps) simp

definition word_from_be_bytes :: "byte list \<Rightarrow> 32 word" where
  "word_from_be_bytes bs = foldl (\<lambda>w b. push_bit 8 w OR ucast b) 0 bs"

fun word_to_be_bytes :: "32 word \<Rightarrow> byte list" where
  "word_to_be_bytes w = [ucast (drop_bit 24 w), ucast (drop_bit 16 w), ucast (drop_bit 8 w), ucast w]"

text \<open>The array \<open>words\<close>: sixteen words of the chunk, and 64 more, each from the ones before it.\<close>

definition extend_words :: "32 word list \<Rightarrow> 32 word list" where
  "extend_words words = (let n = length words in
     words @ [word_rotl 1 (words ! (n - 3) XOR words ! (n - 8) XOR words ! (n - 14) XOR words ! (n - 16))])"

primrec extend_words_by :: "nat \<Rightarrow> 32 word list \<Rightarrow> 32 word list" where
  "extend_words_by 0 words = words"
| "extend_words_by (Suc n) words = extend_words_by n (extend_words words)"

definition chunk_words :: "byte list \<Rightarrow> 32 word list" where
  "chunk_words chunk = extend_words_by 64 (map word_from_be_bytes (chunks_exact 4 chunk))"

type_synonym sha1_state = "32 word \<times> 32 word \<times> 32 word \<times> 32 word \<times> 32 word"

fun sha1_round :: "nat \<times> 32 word \<Rightarrow> sha1_state \<Rightarrow> sha1_state" where
  "sha1_round (i, w) (a, b, c, d, e) =
     (let (f, k) =
        (if i \<le> 19 then ((b AND c) OR (NOT b AND d), 0x5A827999)
         else if i \<le> 39 then (b XOR c XOR d, 0x6ED9EBA1)
         else if i \<le> 59 then ((b AND c) OR (b AND d) OR (c AND d), 0x8F1BBCDC)
         else (b XOR c XOR d, 0xCA62C1D6))
      in (word_rotl 5 a + f + e + k + w, a, word_rotl 30 b, c, d))"

fun add_state :: "sha1_state \<Rightarrow> sha1_state \<Rightarrow> sha1_state" where
  "add_state (h0, h1, h2, h3, h4) (a, b, c, d, e) = (h0 + a, h1 + b, h2 + c, h3 + d, h4 + e)"

definition sha1_chunk :: "byte list \<Rightarrow> sha1_state \<Rightarrow> sha1_state" where
  "sha1_chunk chunk h = add_state h (fold sha1_round (enumerate 0 (chunk_words chunk)) h)"

fun digest_bytes :: "sha1_state \<Rightarrow> byte list" where
  "digest_bytes (h0, h1, h2, h3, h4) = concat (map word_to_be_bytes [h0, h1, h2, h3, h4])"

definition sha1_initial :: sha1_state where
  "sha1_initial = (0x67452301, 0xEFCDAB89, 0x98BADCFE, 0x10325476, 0xC3D2E1F0)"

definition sha1_digest :: "byte list \<Rightarrow> byte list" where
  "sha1_digest input = digest_bytes (fold sha1_chunk (chunks_exact 64 (sha1_message input)) sha1_initial)"

definition websocket_accept_key :: "string \<Rightarrow> string" where
  "websocket_accept_key websocket_key =
     base64_encode (sha1_digest (bytes_of_string websocket_key @ bytes_of_string WEBSOCKET_GUID))"

definition generate_websocket_key :: "byte list \<Rightarrow> string" where
  "generate_websocket_key nonce = base64_encode nonce"

end
