(* ===== verification/Cbth_AppClient.thy ===== *)
theory Cbth_AppClient
  imports Cbth_WebSocket
begin

text \<open>
  The JSON-RPC client of \<open>src/cli_app_server_client.rs\<close>: the URL it accepts, its opening handshake, and
  the loops that receive a message and wait for the response to a request. The decoder and the encoder
  of JSON text (\<open>serde_json\<close>) are parameters.
\<close>

section \<open>Splitting text\<close>

text \<open>\<open>str::split_once\<close> and \<open>str::rsplit_once\<close> at a character, and \<open>str::parse::<u16>\<close>.\<close>

definition split_once :: "char \<Rightarrow> string \<Rightarrow> (string \<times> string) option" where
  "split_once c s = (if c \<in> set s then Some (takeWhile (\<lambda>x. x \<noteq> c) s, tl (dropWhile (\<lambda>x. x \<noteq> c) s)) else None)"

definition rsplit_once :: "char \<Rightarrow> string \<Rightarrow> (string \<times> string) option" where
  "rsplit_once c s = map_option (\<lambda>(a, b). (rev b, rev a)) (split_once c (rev s))"

definition digit_value :: "char \<Rightarrow> nat option" where
  "digit_value c = (if CHR ''0'' \<le> c \<and> c \<le> CHR ''9'' then Some (of_char c - 48) else None)"

fun decimal_value :: "nat \<Rightarrow> string \<Rightarrow> nat option" where
  "decimal_value v [] = Some v"
| "decimal_value v (c # cs) = (case digit_value c of None \<Rightarrow> None | Some d \<Rightarrow> decimal_value (v * 10 + d) cs)"

definition parse_u16 :: "string \<Rightarrow> nat option" where
  "parse_u16 s =
     (let digits = (case strip_prefix ''+'' s of Some rest \<Rightarrow> rest | None \<Rightarrow> s) in
      if digits = [] then None
      else case decimal_value 0 digits of
          Some v \<Rightarrow> if v \<le> 65535 then Some v else None
        | None \<Rightarrow> None)"

section \<open>The URL\<close>

record parsed_ws_url =
  url_authority :: string
  url_host :: string
  url_port :: nat
  url_path :: string

definition is_loopback_host :: "string \<Rightarrow> bool" where
  "is_loopback_host host \<longleftrightarrow> host = ''127.0.0.1'' \<or> host = ''localhost'' \<or> host = ''::1''"

definition parse_port :: "string \<Rightarrow> ws_error + nat" where
  "parse_port s = ok_or BadPort (parse_u16 s)"

definition parse_authority :: "string \<Rightarrow> ws_error + string \<times> nat" where
  "parse_authority authority =
     (case strip_prefix ''['' authority of
        Some rest \<Rightarrow>
          chain (ok_or BadBracketedHost (split_once (CHR '']'') rest)) (\<lambda>(host, suffix).
          case strip_prefix '':'' suffix of
            Some port \<Rightarrow> chain (parse_port port) (\<lambda>port. Inr (host, port))
          | None \<Rightarrow> if suffix = [] then Inr (host, 80) else Inl BadBracketedAuthority)
      | None \<Rightarrow>
          chain (case rsplit_once (CHR '':'') authority of
              Some (host, port) \<Rightarrow>
                if CHR '':'' \<notin> set host then chain (parse_port port) (\<lambda>port. Inr (host, port))
                else Inl UnbracketedIpv6
            | None \<Rightarrow> Inr (authority, 80)) (\<lambda>(host, port).
          chain (require (host \<noteq> []) EmptyHost) (\<lambda>_. Inr (host, port))))"

definition parse_ws_url :: "string \<Rightarrow> ws_error + parsed_ws_url" where
  "parse_ws_url url =
     chain (ok_or UnsupportedScheme (strip_prefix ''ws://'' url)) (\<lambda>rest.
     let (authority, path) = (case split_once (CHR ''/'') rest of
           Some (authority, path) \<Rightarrow> (authority, ''/'' @ path)
         | None \<Rightarrow> (rest, ''/'')) in
     chain (require (authority \<noteq> [] \<and> CHR ''@'' \<notin> set authority) UnsupportedAuthority) (\<lambda>_.
     chain (parse_authority authority) (\<lambda>(host, port).
     chain (require (is_loopback_host host) NotLoopback) (\<lambda>_.
     Inr \<lparr>url_authority = authority, url_host = host, url_port = port, url_path = path\<rparr>))))"

section \<open>The handshake\<close>

definition CRLF :: string where "CRLF = [CHR 0x0D, CHR 0x0A]"

definition handshake_request :: "parsed_ws_url \<Rightarrow> string \<Rightarrow> string" where
  "handshake_request parsed websocket_key =
     ''GET '' @ url_path parsed @ '' HTTP/1.1'' @ CRLF @
     ''Host: '' @ url_authority parsed @ CRLF @
     ''Upgrade: websocket'' @ CRLF @
     ''Connection: Upgrade'' @ CRLF @
     ''Sec-WebSocket-Key: '' @ websocket_key @ CRLF @
     ''Sec-WebSocket-Version: 13'' @ CRLF @ CRLF"

definition ends_with :: "'a list \<Rightarrow> 'a list \<Rightarrow> bool" where
  "ends_with suffix xs \<longleftrightarrow> length suffix \<le> length xs \<and> drop (length xs - length suffix) xs = suffix"

text \<open>The loop over single bytes, of which \<open>n\<close> may still be read.\<close>

fun read_handshake_bytes :: "nat \<Rightarrow> byte list \<Rightarrow> stream \<Rightarrow> ws_error + byte list \<times> stream" where
  "read_handshake_bytes 0 bytes s = Inl HandshakeTooLong"
| "read_handshake_bytes (Suc n) bytes s =
     chain (read_exact_required 1 s) (\<lambda>(buffer, s).
     let bytes = bytes @ buffer in
     if ends_with (bytes_of_string (CRLF @ CRLF)) bytes then Inr (bytes, s)
     else read_handshake_bytes n bytes s)"

definition read_handshake_response :: "stream \<Rightarrow> ws_error + string \<times> stream" where
  "read_handshake_response s =
     chain (read_handshake_bytes MAX_HANDSHAKE_BYTES [] s) (\<lambda>(bytes, s).
     chain (require (utf8_valid bytes) NotUtf8) (\<lambda>_. Inr (string_of_bytes bytes, s)))"

fun split_crlf :: "string \<Rightarrow> string list" where
  "split_crlf [] = [[]]"
| "split_crlf [c] = [[c]]"
| "split_crlf (c # d # s) =
     (if [c, d] = CRLF then [] # split_crlf s
      else case split_crlf (d # s) of
          [] \<Rightarrow> [[c]]
        | line # lines \<Rightarrow> (c # line) # lines)"

text \<open>The UTF-8 encodings of the characters \<open>str::trim\<close> removes.\<close>

definition whitespace_encodings :: "string list" where
  "whitespace_encodings =
     [[CHR 0x09], [CHR 0x0A], [CHR 0x0B], [CHR 0x0C], [CHR 0x0D], [CHR 0x20], [CHR 0xC2, CHR 0x85], [CHR 0xC2, CHR 0xA0],
      [CHR 0xE1, CHR 0x9A, CHR 0x80], [CHR 0xE2, CHR 0x80, CHR 0xA8], [CHR 0xE2, CHR 0x80, CHR 0xA9],
      [CHR 0xE2, CHR 0x80, CHR 0xAF], [CHR 0xE2, CHR 0x81, CHR 0x9F], [CHR 0xE3, CHR 0x80, CHR 0x80]] @
     map (\<lambda>i. [CHR 0xE2, CHR 0x80, char_of (0x80 + i :: nat)]) [0..<11]"

fun trim_start_by :: "string list \<Rightarrow> nat \<Rightarrow> string \<Rightarrow> string" where
  "trim_start_by spaces 0 s = s"
| "trim_start_by spaces (Suc n) s =
     (case find (\<lambda>w. strip_prefix w s \<noteq> None) spaces of
        Some w \<Rightarrow> trim_start_by spaces n (drop (length w) s)
      | None \<Rightarrow> s)"

definition trim :: "string \<Rightarrow> string" where
  "trim s =
     (let t = trim_start_by whitespace_encodings (length s) s
      in rev (trim_start_by (map rev whitespace_encodings) (length t) (rev t)))"

definition lower_char :: "char \<Rightarrow> char" where
  "lower_char c = (if CHR ''A'' \<le> c \<and> c \<le> CHR ''Z'' then char_of (of_char c + 32 :: nat) else c)"

definition eq_ignore_ascii_case :: "string \<Rightarrow> string \<Rightarrow> bool" where
  "eq_ignore_ascii_case s t \<longleftrightarrow> map lower_char s = map lower_char t"

definition accept_header :: "string list \<Rightarrow> string option" where
  "accept_header lines =
     map_option (\<lambda>(name, v). trim v)
       (find (\<lambda>(name, v). eq_ignore_ascii_case name ''Sec-WebSocket-Accept'')
         (List.map_filter (split_once (CHR '':'')) lines))"

definition validate_websocket_handshake_response :: "string \<Rightarrow> string \<Rightarrow> ws_error + unit" where
  "validate_websocket_handshake_response response websocket_key =
     (let lines = split_crlf response; status = hd lines in
      chain (require (strip_prefix ''HTTP/1.1 101 '' status \<noteq> None \<or> strip_prefix ''HTTP/1.0 101 '' status \<noteq> None)
        NotSwitchingProtocols) (\<lambda>_.
      chain (ok_or MissingAcceptHeader (accept_header (tl lines))) (\<lambda>accept.
      require (accept = websocket_accept_key websocket_key) WrongAcceptHeader)))"

section \<open>The client\<close>

text \<open>
  The socket: what can be read, what has been written and how much more can be. \<open>client_random\<close> are the
  bytes the random source delivers. An operation returns its result beside the client it leaves, as the
  code mutates the client also when it fails.
\<close>

record client =
  client_in :: stream
  client_out :: "byte list"
  client_room :: nat
  client_random :: "byte list"
  next_request_id :: int
  pending_messages :: "json list"

datatype receive = Received json | ReceiveTimeout | ReceiveClosed

definition u64_max :: int where "u64_max = 18446744073709551615"

definition write_all :: "byte list \<Rightarrow> client \<Rightarrow> (ws_error + unit) \<times> client" where
  "write_all bs c =
     (if length bs \<le> client_room c
      then (Inr (), c\<lparr>client_out := client_out c @ bs, client_room := client_room c - length bs\<rparr>)
      else (Inl WriteFailed,
        c\<lparr>client_out := client_out c @ take (client_room c) bs, client_room := 0\<rparr>))"

definition send_frame :: "byte \<Rightarrow> byte list \<Rightarrow> client \<Rightarrow> (ws_error + unit) \<times> client" where
  "send_frame opcode payload c =
     (case encode_frame (take 4 (client_random c)) opcode payload of
        Inl e \<Rightarrow> (Inl e, c)
      | Inr frame \<Rightarrow>
          if length (client_random c) < 4 then (Inl NoRandomness, c\<lparr>client_random := []\<rparr>)
          else write_all frame (c\<lparr>client_random := drop 4 (client_random c)\<rparr>))"

text \<open>A read that fails leaves the rest of the input to nobody: the connection is given up.\<close>

definition read_client_frame :: "client \<Rightarrow> (ws_error + (byte \<times> byte list) option) \<times> client" where
  "read_client_frame c =
     (case read_frame (client_in c) of
        Inl e \<Rightarrow> (Inl e, c\<lparr>client_in := ([], snd (client_in c))\<rparr>)
      | Inr (frame, s) \<Rightarrow> (Inr frame, c\<lparr>client_in := s\<rparr>))"

lemma read_frame_shorter:
  assumes "read_frame s = Inr (Some f, t)"
  shows "length (fst t) < length (fst s)"
proof -
  have req: "length (fst t) \<le> length (fst s)" if "read_exact_required n s = Inr (bs, t)" for n s bs t
    using that by (cases s) (auto simp: read_exact_required_def read_exact_or_timeout_def Let_def
        split: if_splits option.splits stream_end.splits)
  have head: "length (fst t) < length (fst s)" if "read_exact_or_timeout 2 s = Inr (Some hs, t)" for s hs t
    using that by (cases s) (auto simp: read_exact_or_timeout_def split: if_splits stream_end.splits)
  have len: "length (fst t) \<le> length (fst s)" if "read_length b s = Inr (n, t)" for b s n t
    using that by (auto simp: read_length_def Let_def split: if_splits dest: req)
  have pay: "length (fst t) \<le> length (fst s)" if "read_payload m n s = Inr (bs, t)" for m n s bs t
    using that by (fastforce simp: read_payload_def split: if_splits dest: req)
  show ?thesis
    using assms
    by (fastforce simp: read_frame_def Let_def case_option_ok_iff split: if_splits dest: pay head len)
qed

section \<open>Connecting\<close>

text \<open>
  \<open>resolve\<close> (the addresses of a host and port), \<open>ip_is_loopback\<close> and \<open>try_connect\<close> stand for the
  operating system; of the addresses only those of the loopback device are tried, in order.
\<close>

fun first_connection :: "('a \<Rightarrow> 'c option) \<Rightarrow> 'a list \<Rightarrow> ws_error + 'a \<times> 'c" where
  "first_connection try_connect [] = Inl ConnectFailed"
| "first_connection try_connect (a # addresses) =
     (case try_connect a of Some stream \<Rightarrow> Inr (a, stream) | None \<Rightarrow> first_connection try_connect addresses)"

definition connect_loopback ::
    "(string \<Rightarrow> nat \<Rightarrow> 'a list option) \<Rightarrow> ('a \<Rightarrow> bool) \<Rightarrow> ('a \<Rightarrow> 'c option) \<Rightarrow> parsed_ws_url \<Rightarrow> ws_error + 'a \<times> 'c" where
  "connect_loopback resolve ip_is_loopback try_connect parsed =
     chain (ok_or HostNotResolved (resolve (url_host parsed) (url_port parsed))) (\<lambda>found.
     let addresses = filter ip_is_loopback found in
     chain (require (addresses \<noteq> []) NoLoopbackAddress) (\<lambda>_. first_connection try_connect addresses))"

text \<open>The opening of a client on a connected socket, with the nonce drawn from its random source.\<close>

definition open_client :: "parsed_ws_url \<Rightarrow> client \<Rightarrow> ws_error + client" where
  "open_client parsed c =
     chain (require (16 \<le> length (client_random c)) NoRandomness) (\<lambda>_.
     let websocket_key = generate_websocket_key (take 16 (client_random c));
         (sent, c) = write_all (bytes_of_string (handshake_request parsed websocket_key))
           (c\<lparr>client_random := drop 16 (client_random c)\<rparr>) in
     chain sent (\<lambda>_.
     chain (read_handshake_response (client_in c)) (\<lambda>(response, s).
     chain (validate_websocket_handshake_response response websocket_key) (\<lambda>_.
     Inr (c\<lparr>client_in := s, next_request_id := 1, pending_messages := []\<rparr>)))))"

definition connect :: "(string \<Rightarrow> nat \<Rightarrow> 'a list option) \<Rightarrow> ('a \<Rightarrow> bool) \<Rightarrow> ('a \<Rightarrow> client option) \<Rightarrow> string \<Rightarrow>
    ws_error + 'a \<times> client" where
  "connect resolve ip_is_loopback try_connect url =
     chain (parse_ws_url url) (\<lambda>parsed.
     chain (connect_loopback resolve ip_is_loopback try_connect parsed) (\<lambda>(address, c).
     chain (open_client parsed c) (\<lambda>c. Inr (address, c))))"

section \<open>Receiving\<close>

lemma send_frame_in [simp]: "client_in (snd (send_frame opcode payload c)) = client_in c"
  by (simp add: send_frame_def write_all_def split: sum.split)

lemma read_client_frame_shorter:
  "read_client_frame c = (Inr (Some f), c') \<Longrightarrow> length (fst (client_in c')) < length (fst (client_in c))"
  by (auto simp: read_client_frame_def split: sum.splits prod.splits dest: read_frame_shorter)

function recv_loop :: "(string \<Rightarrow> json option) \<Rightarrow> client \<Rightarrow> (ws_error + receive) \<times> client" where
  "recv_loop parse_json c =
     (case read_client_frame c of
        (Inl e, c) \<Rightarrow> (Inl e, c)
      | (Inr None, c) \<Rightarrow> (Inr ReceiveTimeout, c)
      | (Inr (Some (opcode, payload)), c) \<Rightarrow>
          if opcode = 0x1 then
            (if \<not> utf8_valid payload then (Inl NotUtf8, c)
             else case parse_json (string_of_bytes payload) of
                 None \<Rightarrow> (Inl NotJson, c)
               | Some v \<Rightarrow> (Inr (Received v), c))
          else if opcode = 0x8 then (Inr ReceiveClosed, c)
          else if opcode = 0x9 then
            (case send_frame 0xA payload c of
               (Inl e, c) \<Rightarrow> (Inl e, c)
             | (Inr _, c) \<Rightarrow> recv_loop parse_json c)
          else recv_loop parse_json c)"
  by pat_completeness auto
termination
proof (relation "measure (\<lambda>(_, c). length (fst (client_in c)))")
  fix parse_json :: "string \<Rightarrow> json option" and c r c1 f q opcode payload sent c2 u
  assume eq: "(r, c1) = read_client_frame c" "r = Inr f" "f = Some q" "(opcode, payload) = q"
    "(sent, c2) = send_frame 0xA payload c1"
  then have "client_in c2 = client_in c1" by (metis send_frame_in snd_conv)
  with eq show "((parse_json, c2), (parse_json, c)) \<in> measure (\<lambda>(_, c). length (fst (client_in c)))"
    using read_client_frame_shorter [of c q c1] by simp
next
  fix parse_json :: "string \<Rightarrow> json option" and c r c1 f q opcode payload
  assume "(r, c1) = read_client_frame c" "r = Inr f" "f = Some q" "(opcode, payload) = q"
  then show "((parse_json, c1), (parse_json, c)) \<in> measure (\<lambda>(_, c). length (fst (client_in c)))"
    using read_client_frame_shorter [of c q c1] by simp
qed simp

declare recv_loop.simps [simp del]

definition recv :: "(string \<Rightarrow> json option) \<Rightarrow> client \<Rightarrow> (ws_error + receive) \<times> client" where
  "recv parse_json c =
     (case pending_messages c of
        message # rest \<Rightarrow> (Inr (Received message), c\<lparr>pending_messages := rest\<rparr>)
      | [] \<Rightarrow> recv_loop parse_json c)"

definition drain_pending_messages :: "client \<Rightarrow> json list \<times> client" where
  "drain_pending_messages c = (pending_messages c, c\<lparr>pending_messages := []\<rparr>)"

lemma write_all_keeps [simp]:
  "pending_messages (snd (write_all bs c)) = pending_messages c" "client_in (snd (write_all bs c)) = client_in c"
  "next_request_id (snd (write_all bs c)) = next_request_id c"
  by (simp_all add: write_all_def)

lemma send_frame_keeps [simp]:
  "pending_messages (snd (send_frame opcode payload c)) = pending_messages c"
  "next_request_id (snd (send_frame opcode payload c)) = next_request_id c"
  by (simp_all add: send_frame_def split: sum.split)

lemma read_client_frame_keeps:
  "read_client_frame c = (r, c') \<Longrightarrow> pending_messages c' = pending_messages c \<and> next_request_id c' = next_request_id c"
  by (auto simp: read_client_frame_def split: sum.splits prod.splits)

lemma send_frame_eq:
  "send_frame opcode payload c = (r, c') \<Longrightarrow> client_in c' = client_in c \<and>
    pending_messages c' = pending_messages c \<and> next_request_id c' = next_request_id c"
  by (metis send_frame_in send_frame_keeps snd_conv)

lemma recv_loop_effect:
  "recv_loop parse_json c = (r, c') \<Longrightarrow>
    pending_messages c' = pending_messages c \<and> next_request_id c' = next_request_id c \<and>
    (r = Inr (Received m) \<longrightarrow> length (fst (client_in c')) < length (fst (client_in c)))"
proof (induction parse_json c arbitrary: r c' rule: recv_loop.induct)
  case (1 parse_json c)
  obtain f c1 where read: "read_client_frame c = (f, c1)" by (rule prod.exhaust)
  note kept = read_client_frame_keeps [OF read]
  show ?case
  proof (cases f)
    case (Inl e)
    with 1(3) read kept show ?thesis by (auto simp: recv_loop.simps [of _ c])
  next
    case (Inr q)
    show ?thesis
    proof (cases q)
      case None
      with 1(3) read kept Inr show ?thesis by (auto simp: recv_loop.simps [of _ c])
    next
      case (Some frame)
      obtain opcode payload where frame: "frame = (opcode, payload)" by (rule prod.exhaust)
      note shorter = read_client_frame_shorter [OF read [unfolded Inr Some]]
      note IH = 1(1) [OF read [symmetric] Inr Some frame [symmetric]] 1(2) [OF read [symmetric] Inr Some frame [symmetric]]
      show ?thesis
      proof (cases "opcode \<in> {1, 8, 9}")
        case True
        show ?thesis
        proof (cases "opcode = 9")
          case ping: True
          obtain sent c2 where sent: "send_frame 0xA payload c1 = (sent, c2)" by (rule prod.exhaust)
          note kept2 = send_frame_eq [OF sent]
          show ?thesis
          proof (cases sent)
            case (Inr u)
            with 1(3) read frame \<open>f = Inr q\<close> Some ping sent have "recv_loop parse_json c2 = (r, c')"
              by (simp add: recv_loop.simps [of _ c])
            from IH(1) [OF _ _ ping sent [symmetric] Inr this] kept kept2 shorter ping show ?thesis by fastforce
          qed (use 1(3) read frame \<open>f = Inr q\<close> Some ping sent kept kept2 in \<open>auto simp: recv_loop.simps [of _ c]\<close>)
        next
          case False
          with True 1(3) read Inr Some frame kept shorter show ?thesis
            by (auto simp: recv_loop.simps [of _ c] split: if_splits option.splits)
        qed
      next
        case False
        with 1(3) read Inr Some frame have "recv_loop parse_json c1 = (r, c')"
          by (simp add: recv_loop.simps [of _ c])
        with False IH(2) kept shorter show ?thesis by fastforce
      qed
    qed
  qed
qed

section \<open>Requests\<close>

datatype request_error =
    RequestTimeout
  | RemoteError json
  | RequestClosed
  | RequestProtocol ws_error
  | RequestIdOverflow

text \<open>
  The loop of \<open>request_with_message_handler\<close>. \<open>expired i\<close> says whether the clock, read before the \<open>i\<close>-th
  message, has passed the deadline; \<open>handled\<close> are the messages that were handed to the handler.
\<close>

lemma recv_decreases:
  "recv parse_json c = (Inr (Received m), c') \<Longrightarrow>
    length (pending_messages c') + length (fst (client_in c')) < length (pending_messages c) + length (fst (client_in c))"
  by (auto simp: recv_def split: list.splits dest: recv_loop_effect [where m = m])

function await_response :: "(string \<Rightarrow> json option) \<Rightarrow> (nat \<Rightarrow> bool) \<Rightarrow> int \<Rightarrow> nat \<Rightarrow> json list \<Rightarrow> client \<Rightarrow>
    (request_error + json) \<times> json list \<times> client" where
  "await_response parse_json expired request_id i handled c =
     (if expired i then (Inl RequestTimeout, handled, c)
      else case recv parse_json c of
        (Inl e, c) \<Rightarrow> (Inl (RequestProtocol e), handled, c)
      | (Inr (Received message), c) \<Rightarrow>
          if and_then (json_get message ''id'') json_as_u64 \<noteq> Some request_id
          then await_response parse_json expired request_id (Suc i) (handled @ [message]) c
          else (case json_get message ''error'' of
              Some error \<Rightarrow> (Inl (RemoteError error), handled, c)
            | None \<Rightarrow> (Inr (case json_get message ''result'' of Some r \<Rightarrow> r | None \<Rightarrow> JNull), handled, c))
      | (Inr ReceiveTimeout, c) \<Rightarrow> (Inl RequestTimeout, handled, c)
      | (Inr ReceiveClosed, c) \<Rightarrow> (Inl RequestClosed, handled, c))"
  by pat_completeness auto
termination
proof (relation "measure (\<lambda>(_, _, _, _, _, c). length (pending_messages c) + length (fst (client_in c)))")
  fix parse_json :: "string \<Rightarrow> json option" and expired :: "nat \<Rightarrow> bool" and request_id :: int
    and i handled c r c1 x message
  assume "(r, c1) = recv parse_json c" "r = Inr x" "x = Received message"
  then show "((parse_json, expired, request_id, Suc i, handled @ [message], c1), (parse_json, expired, request_id, i, handled, c))
      \<in> measure (\<lambda>(_, _, _, _, _, c). length (pending_messages c) + length (fst (client_in c)))"
    using recv_decreases [of parse_json c message c1] by simp
qed simp

declare await_response.simps [simp del]

definition request_message :: "int \<Rightarrow> string \<Rightarrow> json \<Rightarrow> json" where
  "request_message request_id meth params =
     JObject [(''jsonrpc'', JString ''2.0''), (''id'', JNumber (PosInt request_id)), (''method'', JString meth),
       (''params'', params)]"

definition send_json :: "(json \<Rightarrow> byte list) \<Rightarrow> json \<Rightarrow> client \<Rightarrow> (ws_error + unit) \<times> client" where
  "send_json to_vec v = send_frame 0x1 (to_vec v)"

definition request_with_message_handler ::
    "(json \<Rightarrow> byte list) \<Rightarrow> (string \<Rightarrow> json option) \<Rightarrow> (nat \<Rightarrow> bool) \<Rightarrow> string \<Rightarrow> json \<Rightarrow> client \<Rightarrow>
      (request_error + json) \<times> json list \<times> client" where
  "request_with_message_handler to_vec parse_json expired meth params c =
     (let request_id = next_request_id c in
      if request_id + 1 > u64_max then (Inl RequestIdOverflow, [], c)
      else case send_json to_vec (request_message request_id meth params) (c\<lparr>next_request_id := request_id + 1\<rparr>) of
          (Inl e, c) \<Rightarrow> (Inl (RequestProtocol e), [], c)
        | (Inr _, c) \<Rightarrow> await_response parse_json expired request_id 0 [] c)"

definition request ::
    "(json \<Rightarrow> byte list) \<Rightarrow> (string \<Rightarrow> json option) \<Rightarrow> (nat \<Rightarrow> bool) \<Rightarrow> string \<Rightarrow> json \<Rightarrow> client \<Rightarrow>
      (request_error + json) \<times> client" where
  "request to_vec parse_json expired meth params c =
     (let (result, handled, c) = request_with_message_handler to_vec parse_json expired meth params c
      in (result, c\<lparr>pending_messages := pending_messages c @ handled\<rparr>))"

definition initialize_params :: "string \<Rightarrow> json" where
  "initialize_params version =
     JObject [(''clientInfo'', JObject [(''name'', JString ''cbth_cli_passive_adapter''),
         (''title'', JString ''CBTH CLI Passive Adapter''), (''version'', JString version)]),
       (''capabilities'', JObject [(''experimentalApi'', JBool True),
         (''optOutNotificationMethods'', JArray (map JString
           [''item/agentMessage/delta'', ''item/reasoning/summaryTextDelta'', ''item/reasoning/textDelta'',
            ''command/exec/outputDelta'', ''item/commandExecution/outputDelta'', ''item/fileChange/outputDelta'',
            ''item/mcpToolCall/progress'']))])]"

definition initialize ::
    "(json \<Rightarrow> byte list) \<Rightarrow> (string \<Rightarrow> json option) \<Rightarrow> (nat \<Rightarrow> bool) \<Rightarrow> string \<Rightarrow> client \<Rightarrow>
      (request_error + json) \<times> client" where
  "initialize to_vec parse_json expired version =
     request to_vec parse_json expired ''initialize'' (initialize_params version)"

definition notify_initialized :: "(json \<Rightarrow> byte list) \<Rightarrow> client \<Rightarrow> (ws_error + unit) \<times> client" where
  "notify_initialized to_vec =
     send_json to_vec (JObject [(''jsonrpc'', JString ''2.0''), (''method'', JString ''initialized''), (''params'', JObject [])])"

end
