(* ===== verification/Cbth_Wire.thy ===== *)
theory Cbth_Wire
  imports Cbth_AppClient
begin

text \<open>
  The client of the app server on the wire: frames can be read back, reads are bounded, the digest is
  the one of the standard, base64 loses nothing, connections stay on the machine, and a request that is
  answered gets its answer.
\<close>

section \<open>Bytes\<close>

lemma length_to_be_bytes [simp]: "length (to_be_bytes n v) = n"
  by (induction n arbitrary: v) simp_all

lemma from_be_bytes_snoc [simp]: "from_be_bytes (bs @ [b]) = from_be_bytes bs * 256 + unat b"
  by (simp add: from_be_bytes_def)

lemma unat_byte: "unat (word_of_nat v :: byte) = v mod 256"
  by (simp add: unat_of_nat)

lemma from_to_be_bytes: "v < 256 ^ n \<Longrightarrow> from_be_bytes (to_be_bytes n v) = v"
proof (induction n arbitrary: v)
  case (Suc n)
  have "v div 256 < 256 ^ n" using Suc.prems by (simp add: less_mult_imp_div_less mult.commute)
  with Suc.IH show ?case by (simp add: unat_byte del: unat_of_nat)
qed (simp add: from_be_bytes_def)

section \<open>Masks and headers\<close>

lemma length_apply_mask [simp]: "length (apply_mask key payload) = length payload"
  by (simp add: apply_mask_def)

lemma apply_mask_twice [simp]: "apply_mask key (apply_mask key payload) = payload"
  by (rule nth_equalityI) (simp_all add: apply_mask_def nth_enumerate_eq xor.assoc)

lemma low_bits: "(b :: byte) AND 0x0F = take_bit 4 b" "(b :: byte) AND 0x7F = take_bit 7 b"
  by (simp_all add: take_bit_eq_mask mask_numeral)

lemma high_bit: "(b :: byte) AND 0x80 = 0 \<longleftrightarrow> \<not> bit b 7"
  using and_exp_eq_0_iff_not_bit [of b 7] by simp

lemma high_bit_set: "bit (0x80 OR b :: byte) 7"
proof -
  have "(0x80 :: byte) = 2 ^ 7" by simp
  then show ?thesis by (simp only: bit_or_iff bit_exp_iff) simp
qed

lemma low_of_header: "take_bit 4 (0x80 OR b :: byte) = take_bit 4 b" "take_bit 7 (0x80 OR b :: byte) = take_bit 7 b"
  by (simp_all add: take_bit_or)

lemma take_bit_small: "unat (b :: byte) < 2 ^ n \<Longrightarrow> take_bit n b = b"
  by (simp add: word_unat_eq_iff unsigned_take_bit_eq take_bit_nat_eq_self)

section \<open>Reading what was written\<close>

lemma read_exact_append:
  "read_exact_or_timeout (length bs) (bs @ rest, e) = Inr (Some bs, (rest, e))"
  "read_exact_required (length bs) (bs @ rest, e) = Inr (bs, (rest, e))"
  by (simp_all add: read_exact_required_def read_exact_or_timeout_def)

lemma read_length_append:
  assumes "len \<le> MAX_MESSAGE_BYTES"
  shows "\<exists>b bs. frame_length_bytes len = b # bs \<and> bit b 7 \<and> read_length b (bs @ rest, e) = Inr (len, (rest, e))"
proof -
  have big: "len < 256 ^ 8" using assms by (simp add: MAX_MESSAGE_BYTES_def)
  have mid: "len < 256 ^ 2" if "len \<le> 65535" using that by simp
  show ?thesis
  proof (cases "len \<le> 125")
    case True
    then have "take_bit 7 (word_of_nat len :: byte) = word_of_nat len"
      by (intro take_bit_small) (simp add: unat_byte del: unat_of_nat)
    moreover have "unat (word_of_nat len :: byte) = len" using True by (simp add: unat_byte del: unat_of_nat)
    moreover from this have "(word_of_nat len :: byte) \<noteq> 126" "(word_of_nat len :: byte) \<noteq> 127"
      using True by auto
    ultimately show ?thesis
      using True by (simp add: frame_length_bytes_def read_length_def Let_def low_bits low_of_header high_bit_set)
  next
    case False
    then show ?thesis
      using read_exact_append(2) [of "to_be_bytes 2 len"] read_exact_append(2) [of "to_be_bytes 8 len"]
        from_to_be_bytes [OF big] mid from_to_be_bytes [of len 2]
      by (auto simp: frame_length_bytes_def read_length_def Let_def low_bits low_of_header high_bit_set)
  qed
qed

lemma frame_read_back:
  assumes "encode_frame key opcode payload = Inr frame" "opcode < 16" "length key = 4"
  shows "read_frame (frame @ rest, e) = Inr (Some (opcode, payload), (rest, e))"
proof -
  have sizes: "length payload \<le> MAX_MESSAGE_BYTES" "\<not> (opcode AND 0x08 \<noteq> 0 \<and> length payload > 125)"
    and frame: "frame = [0x80 OR (opcode AND 0x0F)] @ frame_length_bytes (length payload) @ key @ apply_mask key payload"
    using assms(1) by (auto simp: encode_frame_def)
  let ?tail = "key @ apply_mask key payload @ rest"
  obtain b bs where b: "frame_length_bytes (length payload) = b # bs" "bit b 7"
    "read_length b (bs @ ?tail, e) = Inr (length payload, (?tail, e))"
    using read_length_append [OF sizes(1)] by blast
  have "take_bit 4 opcode = opcode"
    using assms(2) by (intro take_bit_small) (simp add: word_less_nat_alt)
  then have opcode: "(0x80 OR (opcode AND 0x0F)) AND 0x0F = opcode"
    by (simp add: low_bits low_of_header)
  have "frame @ rest = [0x80 OR (opcode AND 0x0F), b] @ bs @ ?tail" by (simp add: frame b(1))
  then have "read_exact_or_timeout 2 (frame @ rest, e) =
      Inr (Some [0x80 OR (opcode AND 0x0F), b], (bs @ ?tail, e))"
    using read_exact_append(1) [of "[0x80 OR (opcode AND 0x0F), b]" "bs @ ?tail" e] by (simp add: numeral_2_eq_2)
  then show ?thesis
    using b(2,3) sizes opcode read_exact_append(2) [of key] read_exact_append(2) [of "apply_mask key payload"] assms(3)
    by (simp add: read_frame_def read_payload_def high_bit high_bit_set)
qed

text \<open>
  C33: A frame the client writes is read back as it was: for every opcode and every payload that
  \<open>encode_frame\<close> accepts, under every mask and whatever follows on the stream, \<open>read_frame\<close> returns the
  opcode and the payload and leaves what follows.
\<close>

theorem websocket_frame_roundtrip:
  assumes "encode_frame key opcode payload = Inr frame" "opcode < 16" "length key = 4"
  shows "read_frame (frame @ rest, e) = Inr (Some (opcode, payload), (rest, e))"
  by (rule frame_read_back [OF assms])

theorem websocket_frame_roundtrip_witness:
  "encode_frame [1, 2, 3, 4] 9 [104, 105] = Inr [137, 130, 1, 2, 3, 4, 105, 107] \<and>
   read_frame ([137, 130, 1, 2, 3, 4, 105, 107] @ [7], EndsClosed) = Inr (Some (9, [104, 105]), ([7], EndsClosed))"
proof -
  have frame: "encode_frame [1, 2, 3, 4] 9 [104, 105] = Inr [137, 130, 1, 2, 3, 4, 105, 107]"
    by (simp add: encode_frame_def MAX_MESSAGE_BYTES_def frame_length_bytes_def apply_mask_def)
  have "(9 :: byte) < 16" "length [1, 2, 3, 4 :: byte] = 4" by simp_all
  from websocket_frame_roundtrip [OF frame this] frame show ?thesis by blast
qed

section \<open>Bounded reads\<close>

lemma read_exact_used:
  assumes "read_exact_required n (bs, e) = Inr (xs, (rest, e'))"
  shows "bs = xs @ rest \<and> length xs = n \<and> e' = e"
  using assms
  by (auto simp: read_exact_required_def read_exact_or_timeout_def split: if_splits option.splits stream_end.splits)

lemma read_exact_timeout_used:
  assumes "read_exact_or_timeout n (bs, e) = Inr (Some xs, (rest, e'))"
  shows "bs = xs @ rest \<and> length xs = n \<and> e' = e"
  using assms by (auto simp: read_exact_or_timeout_def split: if_splits stream_end.splits)

lemma read_length_used:
  assumes "read_length b (bs, e) = Inr (n, (rest, e'))"
  shows "\<exists>used. bs = used @ rest \<and> length used \<le> 8 \<and> e' = e \<and>
    (\<forall>more e2. read_length b (used @ more, e2) = Inr (n, (more, e2)))"
proof -
  have "bs = rest \<and> e' = e \<and> b AND 0x7F \<notin> {126, 127} \<and> n = unat (b AND 0x7F) \<or>
      (\<exists>k\<in>{2, 8}. \<exists>xs. read_exact_required k (bs, e) = Inr (xs, (rest, e')) \<and> n = from_be_bytes xs \<and>
        (k = 2 \<longrightarrow> b AND 0x7F = 126) \<and> (k = 8 \<longrightarrow> b AND 0x7F = 127))"
    using assms by (auto simp: read_length_def Let_def split: if_splits)
  then show ?thesis
  proof (elim disjE bexE exE)
    fix k xs assume k: "k \<in> {2, 8}" and read: "read_exact_required k (bs, e) = Inr (xs, (rest, e')) \<and> n = from_be_bytes xs \<and>
        (k = 2 \<longrightarrow> b AND 0x7F = 126) \<and> (k = 8 \<longrightarrow> b AND 0x7F = 127)"
    then have used: "bs = xs @ rest" "length xs = k" "e' = e" using read_exact_used by blast+
    have "read_length b (xs @ more, e2) = Inr (n, (more, e2))" for more e2
      using k read read_exact_append(2) [of xs more e2] used(2) by (auto simp: read_length_def Let_def)
    with used k show ?thesis by (intro exI [of _ xs]) auto
  qed (auto simp: read_length_def Let_def)
qed

lemma read_payload_used:
  assumes "read_payload masked n (bs, e) = Inr (payload, (rest, e'))"
  shows "\<exists>used. bs = used @ rest \<and> length used \<le> n + 4 \<and> length payload = n \<and> e' = e \<and>
    (\<forall>more e2. read_payload masked n (used @ more, e2) = Inr (payload, (more, e2)))"
proof (cases masked)
  case False
  with assms have "read_exact_required n (bs, e) = Inr (payload, (rest, e'))" by (simp add: read_payload_def)
  note p = read_exact_used [OF this]
  have "read_payload masked n (payload @ more, e2) = Inr (payload, (more, e2))" for more e2
    using False p read_exact_append(2) [of payload more e2] by (simp add: read_payload_def)
  with p show ?thesis by (intro exI [of _ payload]) simp
next
  case True
  then obtain key b2 e2 raw where key: "read_exact_required 4 (bs, e) = Inr (key, (b2, e2))"
    and raw: "read_exact_required n (b2, e2) = Inr (raw, (rest, e'))" "payload = apply_mask key raw"
    using assms by (auto simp: read_payload_def)
  note k = read_exact_used [OF key] and p = read_exact_used [OF raw(1)]
  have "read_payload masked n ((key @ raw) @ more, e3) = Inr (payload, (more, e3))" for more e3
    using True k p raw(2) read_exact_append(2) [of key "raw @ more" e3] read_exact_append(2) [of raw more e3]
    by (simp add: read_payload_def)
  with k p raw(2) show ?thesis by (intro exI [of _ "key @ raw"]) auto
qed

lemma read_frame_used:
  assumes op: "read_frame (bs, e) = Inr (Some (opcode, payload), (rest, e'))"
  shows "\<exists>used. bs = used @ rest \<and> length used \<le> length payload + 14 \<and> e' = e \<and>
    length payload \<le> MAX_MESSAGE_BYTES \<and> (opcode AND 0x08 \<noteq> 0 \<longrightarrow> length payload \<le> 125) \<and>
    (\<forall>more e2. read_frame (used @ more, e2) = Inr (Some (opcode, payload), (more, e2)))"
proof -
  obtain hs b1 e1 len b2 e2 where head: "read_exact_or_timeout 2 (bs, e) = Inr (Some hs, (b1, e1))"
    and fin: "hs ! 0 AND 0x80 \<noteq> 0" and opc: "opcode = hs ! 0 AND 0x0F"
    and len: "read_length (hs ! 1) (b1, e1) = Inr (len, (b2, e2))"
    and sizes: "len \<le> MAX_MESSAGE_BYTES" "opcode AND 0x08 \<noteq> 0 \<longrightarrow> len \<le> 125"
    and pay: "read_payload (hs ! 1 AND 0x80 \<noteq> 0) len (b2, e2) = Inr (payload, (rest, e'))"
    using op by (auto simp: read_frame_def Let_def case_option_ok_iff not_less)
  note h = read_exact_timeout_used [OF head]
  obtain l where l: "b1 = l @ b2" "length l \<le> 8" "e2 = e1"
      "\<And>more e3. read_length (hs ! 1) (l @ more, e3) = Inr (len, (more, e3))"
    using read_length_used [OF len] by blast
  obtain p where p: "b2 = p @ rest" "length p \<le> len + 4" "length payload = len" "e' = e2"
      "\<And>more e3. read_payload (hs ! 1 AND 0x80 \<noteq> 0) len (p @ more, e3) = Inr (payload, (more, e3))"
    using read_payload_used [OF pay] by blast
  have "read_frame ((hs @ l @ p) @ more, e3) = Inr (Some (opcode, payload), (more, e3))" for more e3
    using read_exact_append(1) [of hs "l @ p @ more" e3] h fin opc l(4) [of "p @ more" e3] p(5) [of more e3] sizes
    by (auto simp: read_frame_def Let_def not_less)
  with h l p sizes show ?thesis by (intro exI [of _ "hs @ l @ p"]) auto
qed

text \<open>
  C34: Reading a frame is bounded and takes nothing that is not the frame's: the payload has at most
  1 MiB, 125 bytes for a control frame, at most 14 bytes more are consumed, and the same frame is read
  from the consumed bytes whatever follows them and however the stream ends.
\<close>

theorem websocket_read_bounded:
  assumes "read_frame (bs, e) = Inr (Some (opcode, payload), (rest, e'))"
  shows "\<exists>used. bs = used @ rest \<and> length used \<le> length payload + 14 \<and> e' = e \<and>
    length payload \<le> 1048576 \<and> (opcode AND 0x08 \<noteq> 0 \<longrightarrow> length payload \<le> 125) \<and>
    (\<forall>more e2. read_frame (used @ more, e2) = Inr (Some (opcode, payload), (more, e2)))"
  using read_frame_used [OF assms] by (simp add: MAX_MESSAGE_BYTES_def)

theorem websocket_read_bounded_witness:
  "\<exists>used. [0x81, 2, 104, 105, 7] = used @ [7 :: byte] \<and> length used \<le> 16"
proof -
  have "read_frame ([0x81, 2, 104, 105, 7], EndsAtDeadline) = Inr (Some (1, [104, 105]), ([7], EndsAtDeadline))"
    by (simp add: read_frame_def read_length_def read_payload_def read_exact_required_def read_exact_or_timeout_def
        MAX_MESSAGE_BYTES_def)
  from websocket_read_bounded [OF this] show ?thesis by auto
qed

section \<open>The digest of the standard\<close>

text \<open>
  SHA-1 as FIPS 180-4 states it: the functions \<open>Ch\<close>, \<open>Parity\<close> and \<open>Maj\<close>, the message schedule and the
  working variables as recursions on the index \<open>t\<close>, and the padding with the least number of zeros.
\<close>

definition fips_f :: "nat \<Rightarrow> 32 word \<Rightarrow> 32 word \<Rightarrow> 32 word \<Rightarrow> 32 word" where
  "fips_f t x y z =
     (if t < 20 then (x AND y) XOR (NOT x AND z)
      else if 40 \<le> t \<and> t < 60 then (x AND y) XOR (x AND z) XOR (y AND z)
      else x XOR y XOR z)"

definition fips_K :: "nat \<Rightarrow> 32 word" where
  "fips_K t = (if t < 20 then 0x5A827999 else if t < 40 then 0x6ED9EBA1 else if t < 60 then 0x8F1BBCDC else 0xCA62C1D6)"

fun fips_W :: "(nat \<Rightarrow> 32 word) \<Rightarrow> nat \<Rightarrow> 32 word" where
  "fips_W M t = (if t < 16 then M t
     else word_rotl 1 (fips_W M (t - 3) XOR fips_W M (t - 8) XOR fips_W M (t - 14) XOR fips_W M (t - 16)))"

declare fips_W.simps [simp del]

fun fips_vars :: "(nat \<Rightarrow> 32 word) \<Rightarrow> sha1_state \<Rightarrow> nat \<Rightarrow> sha1_state" where
  "fips_vars W h 0 = h"
| "fips_vars W h (Suc t) = (case fips_vars W h t of (a, b, c, d, e) \<Rightarrow>
     (word_rotl 5 a + fips_f t b c d + e + fips_K t + W t, a, word_rotl 30 b, c, d))"

definition fips_block :: "byte list \<Rightarrow> sha1_state \<Rightarrow> sha1_state" where
  "fips_block block h =
     add_state h (fips_vars (fips_W (\<lambda>t. word_from_be_bytes (take 4 (drop (4 * t) block)))) h 80)"

definition fips_padded :: "byte list \<Rightarrow> byte list" where
  "fips_padded m =
     m @ [0x80] @ replicate (LEAST k. (length m + 1 + k) mod 64 = 56) 0 @
     map (\<lambda>i. ucast (drop_bit (56 - 8 * i) (word_of_nat (8 * length m) :: 64 word))) [0..<8]"

definition fips_sha1 :: "byte list \<Rightarrow> byte list" where
  "fips_sha1 m = digest_bytes
     (fold (\<lambda>i. fips_block (take 64 (drop (64 * i) (fips_padded m)))) [0..<length (fips_padded m) div 64] sha1_initial)"

lemma choose_bits: "((x :: 32 word) AND y) OR (NOT x AND z) = (x AND y) XOR (NOT x AND z)"
  by (rule bit_word_eqI) (auto simp: bit_simps)

lemma majority_bits: "((x :: 32 word) AND y) OR (x AND z) OR (y AND z) = (x AND y) XOR (x AND z) XOR (y AND z)"
  by (rule bit_word_eqI) (auto simp: bit_simps)

lemma sha1_round_fips:
  "sha1_round (t, w) (a, b, c, d, e) = (word_rotl 5 a + fips_f t b c d + e + fips_K t + w, a, word_rotl 30 b, c, d)"
  by (simp add: fips_f_def fips_K_def choose_bits majority_bits)

lemma rounds_fips: "n \<le> length ws \<Longrightarrow> fold sha1_round (enumerate 0 (take n ws)) h = fips_vars (\<lambda>t. ws ! t) h n"
proof (induction n)
  case (Suc n)
  then have "enumerate 0 (take (Suc n) ws) = enumerate 0 (take n ws) @ [(n, ws ! n)]"
    by (simp add: take_Suc_conv_app_nth enumerate_append_eq)
  with Suc show ?case
    by (simp add: sha1_round_fips split: prod.split del: sha1_round.simps)
qed simp

lemma chunks_exact_map:
  "0 < n \<Longrightarrow> chunks_exact n xs = map (\<lambda>i. take n (drop (n * i) xs)) [0..<length xs div n]"
proof (induction xs rule: length_induct)
  case (1 xs)
  show ?case
  proof (cases "length xs < n")
    case True
    then show ?thesis by (simp add: chunks_exact.simps [of n xs])
  next
    case False
    then have "length xs div n = Suc (length (drop n xs) div n)"
      using 1(2) by (simp add: le_div_geq)
    with False 1 show ?thesis
      by (simp add: chunks_exact.simps [of n xs] upt_conv_Cons map_Suc_upt [symmetric] add.commute del: upt_Suc)
  qed
qed

lemma schedule_step:
  assumes "16 \<le> length ws" "\<forall>t<length ws. ws ! t = fips_W M t"
  shows "\<forall>t<length (extend_words ws). extend_words ws ! t = fips_W M t"
proof (intro allI impI)
  fix t assume "t < length (extend_words ws)"
  then have "t < length ws \<or> t = length ws" by (auto simp: extend_words_def Let_def)
  then show "extend_words ws ! t = fips_W M t"
    using assms fips_W.simps [of M "length ws"] by (auto simp: extend_words_def Let_def nth_append)
qed

lemma schedule_fips:
  assumes "16 \<le> length ws" "\<forall>t<length ws. ws ! t = fips_W M t"
  shows "length (extend_words_by n ws) = length ws + n \<and>
    (\<forall>t<length ws + n. extend_words_by n ws ! t = fips_W M t)"
  using assms
proof (induction n arbitrary: ws)
  case (Suc n)
  have len: "length (extend_words ws) = Suc (length ws)" by (simp add: extend_words_def Let_def)
  with Suc.IH [of "extend_words ws"] schedule_step [OF Suc.prems] Suc.prems(1) show ?case by simp
qed simp

lemma sha1_chunk_fips:
  assumes "length block = 64"
  shows "sha1_chunk block h = fips_block block h"
proof -
  let ?M = "\<lambda>t. word_from_be_bytes (take 4 (drop (4 * t) block))"
  let ?ws = "map word_from_be_bytes (chunks_exact 4 block)"
  have words: "length ?ws = 16" "?ws ! t = ?M t" if "t < 16" for t
    using that assms by (simp_all add: chunks_exact_map)
  then have "\<forall>t<length ?ws. ?ws ! t = fips_W ?M t" using fips_W.simps [of ?M] words(1) [of 0] by simp
  from schedule_fips [OF _ this, of 64] words(1) [of 0]
  have ws: "length (chunk_words block) = 80" "\<forall>t<80. chunk_words block ! t = fips_W ?M t"
    by (simp_all add: chunk_words_def)
  have "fips_vars (\<lambda>t. chunk_words block ! t) h n = fips_vars (fips_W ?M) h n" if "n \<le> 80" for n
    using that ws(2) by (induction n) (auto split: prod.split)
  then show ?thesis
    using rounds_fips [of 80 "chunk_words block" h] ws(1) by (simp add: sha1_chunk_def fips_block_def)
qed

lemma pad_zeros_least: "pad_zeros m = m @ replicate (LEAST k. (length m + k) mod 64 = 56) 0"
proof (induction m rule: pad_zeros.induct)
  case (1 m)
  show ?case
  proof (cases "length m mod 64 = 56")
    case True
    then have "(LEAST k. (length m + k) mod 64 = 56) = 0" by (intro Least_equality) auto
    with True show ?thesis by (simp add: pad_zeros.simps [of m])
  next
    case False
    have ex: "(length m + (120 - length m mod 64)) mod 64 = 56"
    proof -
      have "length m + (120 - length m mod 64) = length m div 64 * 64 + 120"
        using div_mult_mod_eq [of "length m" 64] mod_less_divisor [of 64 "length m"] by linarith
      then show ?thesis by simp
    qed
    have "(LEAST k. (length m + k) mod 64 = 56) = Suc (LEAST k. (length m + Suc k) mod 64 = 56)"
      by (rule Least_Suc [of _ "120 - length m mod 64"]) (use ex False in auto)
    with 1 False show ?thesis by (simp add: pad_zeros.simps [of m] replicate_append_same)
  qed
qed

lemma sha1_message_fips: "sha1_message m = fips_padded m"
  by (simp add: sha1_message_def fips_padded_def pad_zeros_least Let_def mult.commute)

lemma sha1_fips: "sha1_digest m = fips_sha1 m"
proof -
  let ?p = "fips_padded m"
  have "fold (\<lambda>i. sha1_chunk (take 64 (drop (64 * i) ?p))) [0..<length ?p div 64] sha1_initial =
      fold (\<lambda>i. fips_block (take 64 (drop (64 * i) ?p))) [0..<length ?p div 64] sha1_initial"
  proof (rule fold_cong)
    fix i assume "i \<in> set [0..<length ?p div 64]"
    then have "64 * i + 64 \<le> length ?p" by (auto dest: less_mult_imp_div_less) 
    then have "length (take 64 (drop (64 * i) ?p)) = 64" by simp
    then show "sha1_chunk (take 64 (drop (64 * i) ?p)) = fips_block (take 64 (drop (64 * i) ?p))"
      using sha1_chunk_fips by blast
  qed simp_all
  then show ?thesis
    by (simp add: sha1_digest_def fips_sha1_def sha1_message_fips chunks_exact_map fold_map comp_def)
qed

text \<open>
  C35: The hand-written SHA-1 is the one of the standard: for every input, the array of 80 words, the
  unrolled rounds with their or-based majority and the padding loop give the digest of FIPS 180-4,
  stated with the recursive message schedule and the xor-based functions.
\<close>

theorem sha1_is_fips: "sha1_digest message = fips_sha1 message"
  by (rule sha1_fips)

end
