(* ===== verification/Cbth_Exchange.thy ===== *)
theory Cbth_Exchange
  imports Cbth_Wire
begin

text \<open>
  Exchanges with the app server: a client is only ever connected to the loopback device, a request that
  is answered gets its answer, and a snapshot of a thread is trusted only when it names the thread.
\<close>

section \<open>Connections\<close>

lemma first_connection_Inr:
  "first_connection try_connect addresses = Inr (a, c) \<Longrightarrow>
    \<exists>before after. addresses = before @ a # after \<and> try_connect a = Some c \<and> List.map_filter try_connect before = []"
proof (induction addresses)
  case (Cons x xs)
  show ?case
  proof (cases "try_connect x")
    case None
    with Cons obtain before after where "xs = before @ a # after" "try_connect a = Some c" "List.map_filter try_connect before = []"
      by auto
    with None show ?thesis by (intro exI [of _ "x # before"] exI [of _ after]) auto
  qed (use Cons in \<open>intro exI [of _ "[]"] exI [of _ xs], auto\<close>)
qed simp

lemma parse_ws_url_loopback: "parse_ws_url url = Inr parsed \<Longrightarrow> is_loopback_host (url_host parsed)"
  by (auto simp: parse_ws_url_def Let_def split: prod.splits option.splits)

lemma open_client_Inr:
  assumes "open_client parsed c0 = Inr c"
  shows "next_request_id c = 1 \<and> pending_messages c = [] \<and> 16 \<le> length (client_random c0) \<and>
    client_out c = client_out c0 @ bytes_of_string (handshake_request parsed (base64_encode (take 16 (client_random c0)))) \<and>
    (\<exists>response s. read_handshake_response (client_in c0) = Inr (response, s) \<and> client_in c = s \<and>
      accept_header (tl (split_crlf response)) = Some (websocket_accept_key (base64_encode (take 16 (client_random c0)))))"
  using assms
  by (auto simp: open_client_def Let_def generate_websocket_key_def write_all_def
      validate_websocket_handshake_response_def split: if_splits prod.splits)

lemma connect_Inr:
  assumes "connect resolve ip_is_loopback try_connect url = Inr (address, c)"
  shows "\<exists>parsed found before after c0 response s.
    parse_ws_url url = Inr parsed \<and> is_loopback_host (url_host parsed) \<and>
    resolve (url_host parsed) (url_port parsed) = Some found \<and>
    filter ip_is_loopback found = before @ address # after \<and> ip_is_loopback address \<and>
    List.map_filter try_connect before = [] \<and> try_connect address = Some c0 \<and>
    client_out c = client_out c0 @ bytes_of_string (handshake_request parsed (base64_encode (take 16 (client_random c0)))) \<and>
    read_handshake_response (client_in c0) = Inr (response, s) \<and> client_in c = s \<and>
    accept_header (tl (split_crlf response)) = Some (websocket_accept_key (base64_encode (take 16 (client_random c0)))) \<and>
    next_request_id c = 1 \<and> pending_messages c = []"
proof -
  obtain parsed found c0 where parsed: "parse_ws_url url = Inr parsed"
    and found: "resolve (url_host parsed) (url_port parsed) = Some found"
    and first: "first_connection try_connect (filter ip_is_loopback found) = Inr (address, c0)"
    and opened: "open_client parsed c0 = Inr c"
    using assms by (auto simp: connect_def connect_loopback_def Let_def)
  from first_connection_Inr [OF first] obtain before after
    where split: "filter ip_is_loopback found = before @ address # after"
      "try_connect address = Some c0" "List.map_filter try_connect before = []" by blast
  from split(1) have "address \<in> set (filter ip_is_loopback found)" by simp
  then have "ip_is_loopback address" by simp
  with parsed found split parse_ws_url_loopback [OF parsed] open_client_Inr [OF opened] show ?thesis by blast
qed

text \<open>
  C37: A client is connected to this machine only, and only to a server that answered its own nonce:
  whatever the resolver returns, the socket belongs to a loopback address of a loopback host, the first
  of these that accepted; the client has sent its handshake, the response carries the accept key that
  belongs to the nonce, and the client starts with request id 1 and nothing pending.
\<close>

theorem connected_to_loopback:
  "case connect resolve ip_is_loopback try_connect url of
     Inr (address, c) \<Rightarrow> (\<exists>parsed found before after c0 response s.
       parse_ws_url url = Inr parsed \<and> is_loopback_host (url_host parsed) \<and>
       resolve (url_host parsed) (url_port parsed) = Some found \<and>
       filter ip_is_loopback found = before @ address # after \<and> ip_is_loopback address \<and>
       List.map_filter try_connect before = [] \<and> try_connect address = Some c0 \<and>
       client_out c = client_out c0 @ bytes_of_string (handshake_request parsed (base64_encode (take 16 (client_random c0)))) \<and>
       read_handshake_response (client_in c0) = Inr (response, s) \<and> client_in c = s \<and>
       accept_header (tl (split_crlf response)) = Some (websocket_accept_key (base64_encode (take 16 (client_random c0)))) \<and>
       next_request_id c = 1 \<and> pending_messages c = [])
   | Inl e \<Rightarrow> True"
proof (cases "connect resolve ip_is_loopback try_connect url")
  case (Inr r)
  obtain address c where "r = (address, c)" by (rule prod.exhaust)
  moreover from connect_Inr [OF Inr [unfolded this]] show ?thesis by (simp add: Inr calculation)
qed simp

section \<open>Requests\<close>

text \<open>What a server sends, as the client reads it; masked or not, a frame is what \<open>read_frame\<close> makes of its bytes.\<close>

datatype incoming = Message json | Ping "byte list" | Ignored byte

fun reads_as :: "(string \<Rightarrow> json option) \<Rightarrow> byte \<Rightarrow> byte list \<Rightarrow> incoming \<Rightarrow> bool" where
  "reads_as parse_json opcode payload (Message m) \<longleftrightarrow>
     opcode = 0x1 \<and> utf8_valid payload \<and> parse_json (string_of_bytes payload) = Some m"
| "reads_as parse_json opcode payload (Ping p) \<longleftrightarrow> opcode = 0x9 \<and> payload = p"
| "reads_as parse_json opcode payload (Ignored q) \<longleftrightarrow> opcode = q \<and> q \<notin> {0x1, 0x8, 0x9}"

definition carries :: "(string \<Rightarrow> json option) \<Rightarrow> byte list \<Rightarrow> incoming \<Rightarrow> bool" where
  "carries parse_json wire f \<longleftrightarrow> (\<exists>opcode payload. reads_as parse_json opcode payload f \<and>
     (\<forall>rest e. read_frame (wire @ rest, e) = Inr (Some (opcode, payload), (rest, e))))"

lemma carriesI:
  "(\<And>rest e. read_frame (wire @ rest, e) = Inr (Some (opcode, payload), (rest, e))) \<Longrightarrow>
    reads_as parse_json opcode payload f \<Longrightarrow> carries parse_json wire f"
  by (auto simp: carries_def)

fun messages :: "incoming list \<Rightarrow> json list" where
  "messages [] = []"
| "messages (Message m # fs) = m # messages fs"
| "messages (_ # fs) = messages fs"

fun pings :: "incoming list \<Rightarrow> byte list list" where
  "pings [] = []"
| "pings (Ping p # fs) = p # pings fs"
| "pings (_ # fs) = pings fs"

text \<open>The client after its pongs, if all of them can be written.\<close>

fun send_pongs :: "byte list list \<Rightarrow> client \<Rightarrow> client option" where
  "send_pongs [] c = Some c"
| "send_pongs (p # ps) c = (case send_frame 0xA p c of (Inr _, c) \<Rightarrow> send_pongs ps c | _ \<Rightarrow> None)"

definition answers :: "int \<Rightarrow> json \<Rightarrow> bool" where
  "answers request_id m \<longleftrightarrow> and_then (json_get m ''id'') json_as_u64 = Some request_id"

text \<open>Writing does not look at what can be read or waits.\<close>

lemma send_frame_input:
  "send_frame opcode p (c\<lparr>client_in := s\<rparr>) = map_prod id (\<lambda>c. c\<lparr>client_in := s\<rparr>) (send_frame opcode p c)"
  "send_frame opcode p (c\<lparr>pending_messages := ms\<rparr>) = map_prod id (\<lambda>c. c\<lparr>pending_messages := ms\<rparr>) (send_frame opcode p c)"
  by (simp_all add: send_frame_def write_all_def split: sum.split)

lemma send_pongs_input:
  "send_pongs ps (c\<lparr>client_in := s\<rparr>) = map_option (\<lambda>c. c\<lparr>client_in := s\<rparr>) (send_pongs ps c)"
  "send_pongs ps (c\<lparr>pending_messages := ms\<rparr>) = map_option (\<lambda>c. c\<lparr>pending_messages := ms\<rparr>) (send_pongs ps c)"
  by (induction ps arbitrary: c) (auto simp: send_frame_input split: prod.split sum.split)

lemma recv_frame:
  assumes "read_frame (client_in c) = Inr (Some (opcode, payload), s)"
  shows "reads_as parse_json opcode payload (Message m) \<Longrightarrow> recv_loop parse_json c = (Inr (Received m), c\<lparr>client_in := s\<rparr>)"
    and "reads_as parse_json opcode payload (Ping p) \<Longrightarrow> send_frame 0xA p (c\<lparr>client_in := s\<rparr>) = (Inr u, c1) \<Longrightarrow>
      recv_loop parse_json c = recv_loop parse_json c1"
    and "reads_as parse_json opcode payload (Ignored q) \<Longrightarrow> recv_loop parse_json c = recv_loop parse_json (c\<lparr>client_in := s\<rparr>)"
  using assms by (auto simp: recv_loop.simps [of _ c] read_client_frame_def)

lemma await_cong:
  "\<not> expired i \<Longrightarrow> pending_messages c = [] \<Longrightarrow> pending_messages c' = [] \<Longrightarrow>
    recv_loop parse_json c = recv_loop parse_json c' \<Longrightarrow>
    await_response parse_json expired request_id i handled c = await_response parse_json expired request_id i handled c'"
  by (simp add: await_response.simps [of _ _ _ _ _ c] await_response.simps [of _ _ _ _ _ c'] recv_def)

lemma await_pending:
  assumes "\<forall>j<i + length ms. \<not> expired j" "\<forall>m\<in>set ms. \<not> answers request_id m" "pending_messages c = ms @ rest"
  shows "await_response parse_json expired request_id i handled c =
    await_response parse_json expired request_id (i + length ms) (handled @ ms) (c\<lparr>pending_messages := rest\<rparr>)"
  using assms
proof (induction ms arbitrary: i handled c)
  case (Cons m ms)
  have "await_response parse_json expired request_id i handled c =
      await_response parse_json expired request_id (Suc i) (handled @ [m]) (c\<lparr>pending_messages := ms @ rest\<rparr>)"
    using Cons.prems by (subst await_response.simps) (simp add: recv_def answers_def)
  also have "\<dots> = await_response parse_json expired request_id (Suc i + length ms) ((handled @ [m]) @ ms)
      (c\<lparr>pending_messages := ms @ rest\<rparr>\<lparr>pending_messages := rest\<rparr>)"
    using Cons.prems by (intro Cons.IH) auto
  finally show ?case by simp
next
  case Nil
  then have "c\<lparr>pending_messages := rest\<rparr> = c" by (cases c) simp
  then show ?case by simp
qed

lemma await_frames:
  assumes "\<forall>j\<le>i + length (messages fs). \<not> expired j" "list_all2 (carries parse_json) wires fs"
    "\<forall>m\<in>set (messages fs). \<not> answers request_id m" "send_pongs (pings fs) c = Some c2"
    "client_in c = (concat wires @ rest, e)" "pending_messages c = []"
  shows "await_response parse_json expired request_id i handled c =
    await_response parse_json expired request_id (i + length (messages fs)) (handled @ messages fs)
      (c2\<lparr>client_in := (rest, e)\<rparr>)"
  using assms(2,1,3-6)
proof (induction arbitrary: i handled c c2 rule: list_all2_induct)
  case Nil
  then have "c2\<lparr>client_in := (rest, e)\<rparr> = c" by (cases c) simp
  then show ?case by simp
next
  case (Cons wire wires f fs)
  let ?s = "(concat wires @ rest, e)" and ?c = "c\<lparr>client_in := (concat wires @ rest, e)\<rparr>"
  obtain opcode payload where as: "reads_as parse_json opcode payload f"
    and read: "read_frame (client_in c) = Inr (Some (opcode, payload), ?s)"
    using Cons.hyps(1) Cons.prems(4) by (auto simp: carries_def)
  note one = recv_frame [OF read]
  show ?case
  proof (cases f)
    case (Message m)
    have "recv parse_json c = (Inr (Received m), ?c)"
      using one(1) as Message Cons.prems(5) by (simp add: recv_def)
    then have "await_response parse_json expired request_id i handled c =
        await_response parse_json expired request_id (Suc i) (handled @ [m]) ?c"
      using Cons.prems(1,2) Message by (subst await_response.simps) (simp add: answers_def)
    also have "\<dots> = await_response parse_json expired request_id (Suc i + length (messages fs)) ((handled @ [m]) @ messages fs)
        (c2\<lparr>client_in := ?s\<rparr>\<lparr>client_in := (rest, e)\<rparr>)"
      using Cons.prems Message by (intro Cons.IH) (simp_all add: send_pongs_input)
    finally show ?thesis using Message by simp
  next
    case (Ping p)
    then obtain u c1 where pong: "send_frame 0xA p c = (Inr u, c1)" and pongs: "send_pongs (pings fs) c1 = Some c2"
      using Cons.prems(3) by (auto split: prod.splits sum.splits)
    note kept = send_frame_eq [OF pong]
    have "recv_loop parse_json c = recv_loop parse_json (c1\<lparr>client_in := ?s\<rparr>)"
      using one(2) as Ping pong by (simp add: send_frame_input)
    then have "await_response parse_json expired request_id i handled c =
        await_response parse_json expired request_id i handled (c1\<lparr>client_in := ?s\<rparr>)"
      using Cons.prems(1,5) kept by (intro await_cong) auto
    also have "\<dots> = await_response parse_json expired request_id (i + length (messages fs)) (handled @ messages fs)
        (c2\<lparr>client_in := ?s\<rparr>\<lparr>client_in := (rest, e)\<rparr>)"
      using Cons.prems Ping pongs kept by (intro Cons.IH) (simp_all add: send_pongs_input)
    finally show ?thesis using Ping by simp
  next
    case (Ignored q)
    have "recv_loop parse_json c = recv_loop parse_json ?c" using one(3) as Ignored by simp
    then have "await_response parse_json expired request_id i handled c =
        await_response parse_json expired request_id i handled ?c"
      using Cons.prems(1,5) by (intro await_cong) auto
    also have "\<dots> = await_response parse_json expired request_id (i + length (messages fs)) (handled @ messages fs)
        (c2\<lparr>client_in := ?s\<rparr>\<lparr>client_in := (rest, e)\<rparr>)"
      using Cons.prems Ignored by (intro Cons.IH) (simp_all add: send_pongs_input)
    finally show ?thesis using Ignored by simp
  qed
qed

lemma await_answer:
  assumes "\<not> expired i" "carries parse_json wire (Message m)" "answers request_id m"
    "client_in c = (wire @ rest, e)" "pending_messages c = []"
  shows "await_response parse_json expired request_id i handled c =
    (case json_get m ''error'' of Some error \<Rightarrow> Inl (RemoteError error)
       | None \<Rightarrow> Inr (case json_get m ''result'' of Some r \<Rightarrow> r | None \<Rightarrow> JNull),
     handled, c\<lparr>client_in := (rest, e)\<rparr>)"
proof -
  obtain opcode payload where "reads_as parse_json opcode payload (Message m)"
    and "read_frame (client_in c) = Inr (Some (opcode, payload), (rest, e))"
    using assms(2,4) by (auto simp: carries_def)
  then have "recv parse_json c = (Inr (Received m), c\<lparr>client_in := (rest, e)\<rparr>)"
    using recv_frame(1) assms(5) by (simp add: recv_def)
  with assms(1,3) show ?thesis
    by (subst await_response.simps) (simp add: answers_def split: option.split)
qed

text \<open>The state a client is in when its request has been written.\<close>

definition request_sent :: "(json \<Rightarrow> byte list) \<Rightarrow> string \<Rightarrow> json \<Rightarrow> client \<Rightarrow> (ws_error + unit) \<times> client" where
  "request_sent to_vec meth params c =
     send_json to_vec (request_message (next_request_id c) meth params) (c\<lparr>next_request_id := next_request_id c + 1\<rparr>)"

lemma request_answered:
  assumes id: "next_request_id c < u64_max"
    and sent: "request_sent to_vec meth params c = (Inr (), c1)"
    and clock: "\<forall>j\<le>length (pending_messages c) + length (messages fs). \<not> expired j"
    and others: "\<forall>m\<in>set (pending_messages c @ messages fs). \<not> answers (next_request_id c) m"
    and before: "list_all2 (carries parse_json) wires fs" and pongs: "send_pongs (pings fs) c1 = Some c2"
    and answer: "carries parse_json wire (Message response)" "answers (next_request_id c) response"
    and input: "client_in c = (concat wires @ wire @ rest, e)"
  shows "request to_vec parse_json expired meth params c =
    (case json_get response ''error'' of Some error \<Rightarrow> Inl (RemoteError error)
       | None \<Rightarrow> Inr (case json_get response ''result'' of Some r \<Rightarrow> r | None \<Rightarrow> JNull),
     c2\<lparr>client_in := (rest, e), pending_messages := pending_messages c @ messages fs\<rparr>)"
proof -
  let ?id = "next_request_id c" and ?n = "length (pending_messages c)" and ?c1 = "c1\<lparr>pending_messages := []\<rparr>"
    and ?c2 = "c2\<lparr>pending_messages := []\<rparr>"
  have kept: "client_in c1 = client_in c" "pending_messages c1 = pending_messages c"
    using send_frame_eq [OF sent [unfolded request_sent_def send_json_def]] by simp_all
  have "await_response parse_json expired ?id 0 [] c1 = await_response parse_json expired ?id (0 + ?n) ([] @ pending_messages c) ?c1"
    by (rule await_pending) (use clock others kept(2) in auto)
  also have "\<dots> = await_response parse_json expired ?id (?n + length (messages fs)) (pending_messages c @ messages fs)
      (?c2\<lparr>client_in := (wire @ rest, e)\<rparr>)"
    using clock others before pongs kept(1) input by (simp, subst await_frames) (auto simp: send_pongs_input)
  also have "\<dots> = (case json_get response ''error'' of Some error \<Rightarrow> Inl (RemoteError error)
       | None \<Rightarrow> Inr (case json_get response ''result'' of Some r \<Rightarrow> r | None \<Rightarrow> JNull),
     pending_messages c @ messages fs, ?c2\<lparr>client_in := (rest, e)\<rparr>)"
    using clock answer by (subst await_answer [where wire = wire and rest = rest and e = e and m = response]) auto
  finally show ?thesis
    using id sent by (simp add: request_def request_with_message_handler_def request_sent_def Let_def)
qed

text \<open>
  C36: A request that is answered in time gets its answer and loses nothing. Whatever arrives before the
  response (other messages, pings, frames the client ignores, masked or not; only no frame that closes the
  connection or cannot be read), \<open>request\<close> returns the result of the response, or its error, reads nothing
  behind it, answers every ping in order with a pong (which must be possible to write), and leaves every
  other message, those that waited before included, pending in the order of arrival.
\<close>

theorem request_is_answered:
  assumes "next_request_id c < u64_max" "request_sent to_vec meth params c = (Inr (), c1)"
    and "\<forall>j\<le>length (pending_messages c) + length (messages fs). \<not> expired j"
    and "\<forall>m\<in>set (pending_messages c @ messages fs). \<not> answers (next_request_id c) m"
    and "list_all2 (carries parse_json) wires fs" "send_pongs (pings fs) c1 = Some c2"
    and "carries parse_json wire (Message response)" "answers (next_request_id c) response"
    and "client_in c = (concat wires @ wire @ rest, e)"
  shows "request to_vec parse_json expired meth params c =
    (case json_get response ''error'' of Some error \<Rightarrow> Inl (RemoteError error)
       | None \<Rightarrow> Inr (case json_get response ''result'' of Some r \<Rightarrow> r | None \<Rightarrow> JNull),
     c2\<lparr>client_in := (rest, e), pending_messages := pending_messages c @ messages fs\<rparr>)"
  by (rule request_answered [OF assms])

text \<open>Short frames as a server sends them, unmasked.\<close>

lemma read_exact_short:
  "read_exact_or_timeout 2 (a # b # bs, e) = Inr (Some [a, b], (bs, e))"
  using read_exact_append(1) [of "[a, b]" bs e] by (simp add: numeral_2_eq_2)

lemma read_short_frame:
  assumes "b AND 0x80 = 0" "b AND 0x7F = b" "unat b = length payload" "length payload \<le> 125" "a AND 0x80 \<noteq> 0"
  shows "read_frame ((a # b # payload) @ rest, e) = Inr (Some (a AND 0x0F, payload), (rest, e))"
proof -
  have "b \<noteq> 126" "b \<noteq> 127" using assms(3,4) by auto
  then show ?thesis
    using assms read_exact_append(2) [of payload rest e]
    by (simp add: read_frame_def read_exact_short read_length_def read_payload_def Let_def MAX_MESSAGE_BYTES_def)
qed

theorem request_is_answered_witness:
  "request (\<lambda>_. [123, 125])
     (\<lambda>s. if s = ''n'' then Some (JObject [(''method'', JString ''x'')])
       else Some (JObject [(''id'', JNumber (PosInt 4)), (''result'', JString s)]))
     (\<lambda>i. 2 < i) ''thread/read'' JNull
     \<lparr>client_in = ([0x81, 1, 110, 0x89, 1, 7, 0x8A, 0, 0x81, 1, 114, 7], EndsClosed), client_out = [], client_room = 20,
      client_random = [0, 0, 0, 0, 1, 1, 1, 1], next_request_id = 4, pending_messages = [JNull]\<rparr> =
   (Inr (JString ''r''),
     \<lparr>client_in = ([7], EndsClosed), client_out = [0x81, 0x82, 0, 0, 0, 0, 123, 125, 0x8A, 0x81, 1, 1, 1, 1, 6],
      client_room = 5, client_random = [], next_request_id = 5,
      pending_messages = [JNull, JObject [(''method'', JString ''x'')]]\<rparr>)"
proof -
  let ?parse = "\<lambda>s. if s = ''n'' then Some (JObject [(''method'', JString ''x'')])
       else Some (JObject [(''id'', JNumber (PosInt 4)), (''result'', JString s)])"
  let ?in = "([0x81, 1, 110, 0x89, 1, 7, 0x8A, 0, 0x81, 1, 114, 7], EndsClosed)"
  let ?c = "\<lparr>client_in = ?in, client_out = [], client_room = 20, client_random = [0, 0, 0, 0, 1, 1, 1, 1],
      next_request_id = 4, pending_messages = [JNull]\<rparr>"
  let ?c1 = "\<lparr>client_in = ?in, client_out = [0x81, 0x82, 0, 0, 0, 0, 123, 125],
      client_room = 12, client_random = [1, 1, 1, 1], next_request_id = 5, pending_messages = [JNull]\<rparr>"
  let ?c2 = "\<lparr>client_in = ?in, client_out = [0x81, 0x82, 0, 0, 0, 0, 123, 125, 0x8A, 0x81, 1, 1, 1, 1, 6],
      client_room = 5, client_random = [], next_request_id = 5, pending_messages = [JNull]\<rparr>"
  let ?fs = "[Message (JObject [(''method'', JString ''x'')]), Ping [7], Ignored 0xA]"
  let ?wires = "[[0x81, 1, 110], [0x89, 1, 7], [0x8A, 0]]"
  note sending = send_frame_def encode_frame_def MAX_MESSAGE_BYTES_def frame_length_bytes_def apply_mask_def write_all_def
  have c1: "next_request_id ?c < u64_max" by (simp add: u64_max_def)
  have c2: "request_sent (\<lambda>_. [123, 125]) ''thread/read'' JNull ?c = (Inr (), ?c1)"
    by (simp add: request_sent_def send_json_def sending)
  have c3: "\<forall>j\<le>length (pending_messages ?c) + length (messages ?fs). \<not> (\<lambda>i. 2 < i) j" by simp
  have c4: "\<forall>m\<in>set (pending_messages ?c @ messages ?fs). \<not> answers (next_request_id ?c) m" by (simp add: answers_def)
  have strings: "string_of_bytes [110] = ''n''" "string_of_bytes [114] = ''r''" by code_simp+
  have frames: "read_frame ([0x81, 1, 110] @ rest, e) = Inr (Some (1, [110]), (rest, e))"
    "read_frame ([0x89, 1, 7] @ rest, e) = Inr (Some (9, [7]), (rest, e))"
    "read_frame ([0x8A, 0] @ rest, e) = Inr (Some (0xA, []), (rest, e))"
    "read_frame ([0x81, 1, 114] @ rest, e) = Inr (Some (1, [114]), (rest, e))" for rest e
    by (subst read_short_frame; simp)+
  have utf8: "utf8_valid [110]" "utf8_valid [114]" by code_simp+
  have c5: "list_all2 (carries ?parse) ?wires ?fs"
    using carriesI [OF frames(1), of ?parse] carriesI [OF frames(2), of ?parse] carriesI [OF frames(3), of ?parse] strings utf8
    by simp
  have c6: "send_pongs (pings ?fs) ?c1 = Some ?c2" by (simp add: sending)
  have c7: "carries ?parse [0x81, 1, 114] (Message (JObject [(''id'', JNumber (PosInt 4)), (''result'', JString ''r'')]))"
    by (rule carriesI [OF frames(4)]) (use strings utf8 in simp)
  have c8: "answers (next_request_id ?c) (JObject [(''id'', JNumber (PosInt 4)), (''result'', JString ''r'')])"
    by (simp add: answers_def)
  have c9: "client_in ?c = (concat ?wires @ [0x81, 1, 114] @ [7], EndsClosed)" by simp
  from request_is_answered [OF c1 c2 c3 c4 c5 c6 c7 c8 c9] show ?thesis by simp
qed

section \<open>Snapshots\<close>

text \<open>The ids of a result, where they stand, and the thread the result describes.\<close>

definition result_ids :: "json \<Rightarrow> json list" where
  "result_ids result =
     List.map_filter (\<lambda>v. v) [json_get result ''id'', json_get result ''threadId'',
       and_then (json_get result ''thread'') (\<lambda>thread. json_get thread ''id'')]"

lemma identifiers_match_iff:
  "identifiers_match t candidates matched \<longleftrightarrow>
    (\<forall>v\<in>set (List.map_filter (\<lambda>v. v) candidates). v = JString t) \<and> (matched \<or> List.map_filter (\<lambda>v. v) candidates \<noteq> [])"
  by (induction t candidates matched rule: identifiers_match.induct) (auto simp: List.map_filter_simps)

lemma identifiers_match_ids:
  "thread_result_identifiers_match result t \<longleftrightarrow> result_ids result \<noteq> [] \<and> set (result_ids result) \<subseteq> {JString t}"
  by (auto simp: thread_result_identifiers_match_def identifiers_match_iff result_ids_def)

definition thread_says_idle :: "json \<Rightarrow> bool" where
  "thread_says_idle thread \<longleftrightarrow>
     (case json_get thread ''status'' of
        Some status \<Rightarrow> json_get status ''type'' = Some (JString ''idle'')
      | None \<Rightarrow> (case json_get thread ''turns'' of
          Some (JArray turns) \<Rightarrow> turns = [] \<or>
            (\<exists>s\<in>{''completed'', ''failed'', ''interrupted'', ''replaced''}. json_get (last turns) ''status'' = Some (JString s))
        | _ \<Rightarrow> False))"

definition thread_says_active :: "json \<Rightarrow> bool" where
  "thread_says_active thread \<longleftrightarrow>
     (case json_get thread ''status'' of
        Some status \<Rightarrow> json_get status ''type'' = Some (JString ''active'')
      | None \<Rightarrow> (case json_get thread ''turns'' of
          Some (JArray turns) \<Rightarrow> turns \<noteq> [] \<and> json_get (last turns) ''status'' = Some (JString ''inProgress'')
        | _ \<Rightarrow> False))"

definition names_thread :: "json \<Rightarrow> string \<Rightarrow> bool" where
  "names_thread result t \<longleftrightarrow>
     result_ids result \<noteq> [] \<and> set (result_ids result) \<subseteq> {JString t} \<and>
     json_get (result_thread result) ''id'' = Some (JString t)"

lemma snapshot_of_status:
  "json_get (result_thread result) ''status'' = Some status \<Longrightarrow>
    thread_result_activity_snapshot result t =
      (if names_thread result t \<and> json_get status ''type'' = Some (JString ''idle'') then SnapIdle
       else if names_thread result t \<and> json_get status ''type'' = Some (JString ''active'') then SnapActive
       else SnapUntrusted)"
  by (auto simp: thread_result_activity_snapshot_def status_type_of_def Let_def names_thread_def
      identifiers_match_ids split: option.splits)

lemma snapshot_of_turns:
  "json_get (result_thread result) ''status'' = None \<Longrightarrow>
    thread_result_activity_snapshot result t =
      (if \<not> thread_result_identifiers_match result t then SnapUntrusted
       else case json_get (result_thread result) ''turns'' of
           Some (JArray turns) \<Rightarrow> if names_thread result t then activity_of_last_turn turns else SnapUntrusted
         | _ \<Rightarrow> SnapMissing)"
  by (auto simp: thread_result_activity_snapshot_def status_type_of_def Let_def names_thread_def
      identifiers_match_ids split: option.splits json.splits)

lemma snapshot_idle_iff:
  "thread_result_activity_snapshot result t = SnapIdle \<longleftrightarrow> names_thread result t \<and> thread_says_idle (result_thread result)"
proof (cases "json_get (result_thread result) ''status''")
  case None
  then show ?thesis
    by (auto simp: snapshot_of_turns thread_says_idle_def activity_of_last_turn_def is_terminal_turn_status_def
        names_thread_def identifiers_match_ids split: option.splits json.splits if_splits)
qed (auto simp: snapshot_of_status thread_says_idle_def)

lemma snapshot_active_iff:
  "thread_result_activity_snapshot result t = SnapActive \<longleftrightarrow> names_thread result t \<and> thread_says_active (result_thread result)"
proof (cases "json_get (result_thread result) ''status''")
  case None
  then show ?thesis
    by (auto simp: snapshot_of_turns thread_says_active_def activity_of_last_turn_def is_terminal_turn_status_def
        names_thread_def identifiers_match_ids split: option.splits json.splits if_splits)
qed (auto simp: snapshot_of_status thread_says_active_def)

text \<open>
  A snapshot of a thread is trusted only when it names the thread: \<open>Idle\<close> is read exactly when every
  id in the result and the thread's own id are the bound thread's, at least one is there, and the status
  says idle or, without a status, the last turn (if any) has ended; \<open>Active\<close> likewise.
\<close>

theorem snapshot_is_trusted:
  "(thread_result_activity_snapshot result t = SnapIdle) = (names_thread result t \<and> thread_says_idle (result_thread result)) \<and>
   (thread_result_activity_snapshot result t = SnapActive) = (names_thread result t \<and> thread_says_active (result_thread result))"
  by (simp only: snapshot_idle_iff snapshot_active_iff)

end
