(* ===== verification/Cbth_Paths.thy ===== *)
theory Cbth_Paths
  imports Cbth_Prelude
begin

text \<open>
  Unix paths as the permission code of \<open>src/cli.rs\<close> reads them (\<open>std::path\<close>): a path is the list of its
  components, repeated and trailing slashes and inner dots are skipped, and \<open>starts_with\<close> compares whole
  components. \<open>normalize_root\<close> is the one body of \<open>normalize_workspace_writable_root\<close>,
  \<open>normalize_absolute_permission_root_for_drift\<close> and \<open>normalize_absolute_permission_profile_path\<close>, which
  differ in whether they insist on an absolute path and in their messages.
\<close>

section \<open>Components\<close>

datatype path_component = RootDir | CurDir | ParentDir | NormalPart string

text \<open>Components are ordered as the variants of \<open>std::path::Component\<close>, names by their bytes.\<close>

fun component_key :: "path_component \<Rightarrow> nat \<times> string" where
  "component_key RootDir = (0, [])"
| "component_key CurDir = (1, [])"
| "component_key ParentDir = (2, [])"
| "component_key (NormalPart s) = (3, s)"

lemma component_key_inject [simp]: "component_key x = component_key y \<longleftrightarrow> x = y"
  by (cases x; cases y) simp_all

instantiation path_component :: linorder
begin

definition less_eq_path_component :: "path_component \<Rightarrow> path_component \<Rightarrow> bool" where
  "less_eq_path_component x y \<longleftrightarrow> component_key x \<le> component_key y"

definition less_path_component :: "path_component \<Rightarrow> path_component \<Rightarrow> bool" where
  "less_path_component x y \<longleftrightarrow> component_key x < component_key y"

instance
  by standard (auto simp: less_eq_path_component_def less_path_component_def
      intro: order.trans simp flip: component_key_inject)

end

type_synonym path = "path_component list"

definition piece_component :: "string \<Rightarrow> path_component option" where
  "piece_component s =
     (if s = [] \<or> s = ''.'' then None else if s = ''..'' then Some ParentDir else Some (NormalPart s))"

definition components :: "string \<Rightarrow> path" where
  "components s =
     (if is_absolute s then [RootDir] else if hd (split_on (CHR ''/'') s) = ''.'' then [CurDir] else []) @
     List.map_filter piece_component (split_on (CHR ''/'') s)"

definition path_starts_with :: "path \<Rightarrow> path \<Rightarrow> bool" where
  "path_starts_with p base \<longleftrightarrow> take (length base) p = base"

fun part_string :: "path_component \<Rightarrow> string" where
  "part_string RootDir = ''''"
| "part_string CurDir = ''.''"
| "part_string ParentDir = ''..''"
| "part_string (NormalPart s) = s"

fun path_to_string :: "path \<Rightarrow> string" where
  "path_to_string [] = ''''"
| "path_to_string [RootDir] = ''/''"
| "path_to_string [c] = part_string c"
| "path_to_string (c # p) = part_string c @ ''/'' @ path_to_string p"

section \<open>Normalization\<close>

datatype path_error = NotAbsolute | ParentDirComponent

fun push_component :: "path \<Rightarrow> path_component \<Rightarrow> path" where
  "push_component p RootDir = [RootDir]"
| "push_component p c = p @ [c]"

fun normalize_components :: "path \<Rightarrow> path \<Rightarrow> path_error + path" where
  "normalize_components normalized [] = Inr normalized"
| "normalize_components normalized (c # cs) =
     (if c = ParentDir then Inl ParentDirComponent
      else normalize_components (if c = CurDir then normalized else push_component normalized c) cs)"

definition normalize_root :: "string \<Rightarrow> path_error + path" where
  "normalize_root root =
     chain (require (is_absolute root) NotAbsolute) (\<lambda>_. normalize_components [] (components root))"

text \<open>Without the check, a relative path normalizes to a relative one, and \<open>.\<close> to the empty path.\<close>

definition normalize_path :: "string \<Rightarrow> path_error + path" where
  "normalize_path s = normalize_components [] (components s)"

lemma normalize_dot: "normalize_path ''.'' = Inr []" "normalize_path '''' = Inr []"
  by (simp_all add: normalize_path_def components_def is_absolute_def piece_component_def List.map_filter_simps)

lemma path_starts_with_iff: "path_starts_with p base \<longleftrightarrow> (\<exists>rest. p = base @ rest)"
  unfolding path_starts_with_def by (metis append_eq_conv_conj append_take_drop_id)

lemma path_starts_with_refl [simp]: "path_starts_with p p"
  by (simp add: path_starts_with_def)

lemma path_starts_with_Nil [simp]: "path_starts_with p []"
  by (simp add: path_starts_with_def)

lemma path_starts_with_trans: "path_starts_with p q \<Longrightarrow> path_starts_with q r \<Longrightarrow> path_starts_with p r"
  by (auto simp: path_starts_with_iff)

text \<open>Two bases of one path lie on one line: the subtrees of two roots are nested or disjoint.\<close>

lemma path_bases_nested:
  "path_starts_with p a \<Longrightarrow> path_starts_with p b \<Longrightarrow> path_starts_with a b \<or> path_starts_with b a"
  by (auto simp: path_starts_with_iff append_eq_append_conv2)

lemma normalize_components_shape:
  "normalize_components p cs = Inr q \<Longrightarrow> set p \<subseteq> - {CurDir, ParentDir} \<Longrightarrow> RootDir \<notin> set cs \<Longrightarrow>
    q = p @ filter (\<lambda>c. c \<noteq> CurDir) cs \<and> ParentDir \<notin> set cs"
proof (induction p cs rule: normalize_components.induct)
  case (2 p c cs)
  then show ?case by (cases c) (auto split: if_splits)
qed simp

end
