(* ===== verification/Cbth_Permissions.thy ===== *)
theory Cbth_Permissions
  imports Cbth_Paths Cbth_Json
begin

text \<open>
  The permissions of a managed CLI session (\<open>src/cli.rs\<close>): what a \<open>thread/resume\<close> response says about
  the approval policy, the sandbox and the permission profile, when a profile covers another, and the
  overrides a delivered turn is started with. The members of an object are sorted by key, as the
  \<open>BTreeMap\<close> of \<open>serde_json\<close> keeps them, so that equal values are equal lists. Error texts are constructors.
\<close>

section \<open>Values\<close>

datatype permission_error =
    MissingField string
  | WrongShape string
  | UnknownValue string
  | EmptyField string
  | BadPath path_error
  | ProfileSandboxDisagree
  | NotRepresentable string
  | NotCovered string
  | CannotPin string string
  | ExternalMismatch
  | MissingStartupSnapshot
  | RequestFailed
  | UntrustedSnapshot
  | RecordFailed

fun json_is_object :: "json \<Rightarrow> bool" where
  "json_is_object (JObject _) = True"
| "json_is_object _ = False"

definition json_str :: "json \<Rightarrow> string \<Rightarrow> string option" where
  "json_str v field = and_then (json_get v field) json_as_str"

text \<open>\<open>Map::insert\<close> of the sorted map.\<close>

fun insert_member :: "string \<Rightarrow> json \<Rightarrow> (string \<times> json) list \<Rightarrow> (string \<times> json) list" where
  "insert_member k v [] = [(k, v)]"
| "insert_member k v ((k', v') # members) =
     (if k = k' then (k, v) # members
      else if k < k' then (k, v) # (k', v') # members
      else (k', v') # insert_member k v members)"

definition lift_path :: "path_error + 'a \<Rightarrow> permission_error + 'a" where
  "lift_path r = (case r of Inl e \<Rightarrow> Inl (BadPath e) | Inr x \<Rightarrow> Inr x)"

definition string_array :: "json \<Rightarrow> string \<Rightarrow> permission_error + string list" where
  "string_array v field =
     chain (ok_or (MissingField field) (and_then (json_get v field) json_as_array)) (\<lambda>roots.
     map_ok (\<lambda>root. ok_or (WrongShape field) (json_as_str root)) roots)"

definition sandbox_required_bool_field :: "json \<Rightarrow> string \<Rightarrow> permission_error + bool" where
  "sandbox_required_bool_field v field =
     (case json_get v field of
        None \<Rightarrow> Inl (MissingField field)
      | Some value \<Rightarrow> (case value of JBool b \<Rightarrow> Inr b | _ \<Rightarrow> Inl (WrongShape field)))"

definition sandbox_bool_field :: "json \<Rightarrow> string \<Rightarrow> bool \<Rightarrow> permission_error + bool" where
  "sandbox_bool_field v field fallback =
     (case json_get v field of
        None \<Rightarrow> Inr fallback
      | Some value \<Rightarrow> (case value of JBool b \<Rightarrow> Inr b | _ \<Rightarrow> Inl (WrongShape field)))"

section \<open>Sandbox policies\<close>

definition sandbox_policy_type :: "json \<Rightarrow> permission_error + string" where
  "sandbox_policy_type sandbox = ok_or (MissingField ''type'') (json_str sandbox ''type'')"

definition full_read_only_access :: json where
  "full_read_only_access = JObject [(''type'', JString ''fullAccess'')]"

definition read_only_readable_roots :: "json \<Rightarrow> permission_error + string list" where
  "read_only_readable_roots access = string_array access ''readableRoots''"

definition workspace_writable_roots :: "json \<Rightarrow> permission_error + string list" where
  "workspace_writable_roots sandbox = string_array sandbox ''writableRoots''"

definition validate_read_only_access :: "json \<Rightarrow> permission_error + unit" where
  "validate_read_only_access access =
     (case json_str access ''type'' of
        None \<Rightarrow> Inl (MissingField ''type'')
      | Some ty \<Rightarrow>
          if ty = ''fullAccess'' then Inr ()
          else if ty = ''restricted'' then
            chain (sandbox_bool_field access ''includePlatformDefaults'' False) (\<lambda>_.
            chain (read_only_readable_roots access) (\<lambda>_. Inr ()))
          else Inl (UnknownValue ty))"

definition read_only_access_type :: "json \<Rightarrow> permission_error + string" where
  "read_only_access_type access =
     chain (validate_read_only_access access) (\<lambda>_. ok_or (MissingField ''type'') (json_str access ''type''))"

definition sandbox_access :: "json \<Rightarrow> string \<Rightarrow> permission_error + json" where
  "sandbox_access sandbox field =
     (case json_get sandbox field of
        None \<Rightarrow> Inr full_read_only_access
      | Some access \<Rightarrow> chain (validate_read_only_access access) (\<lambda>_. Inr access))"

definition validate_sandbox_access_if_present :: "json \<Rightarrow> string \<Rightarrow> permission_error + unit" where
  "validate_sandbox_access_if_present sandbox field =
     (case json_get sandbox field of None \<Rightarrow> Inr () | Some access \<Rightarrow> validate_read_only_access access)"

definition parse_approval_policy_allows_approval :: "json \<Rightarrow> permission_error + bool" where
  "parse_approval_policy_allows_approval v =
     (case json_as_str v of
        None \<Rightarrow> Inl (WrongShape ''approvalPolicy'')
      | Some s \<Rightarrow>
          if s = ''never'' then Inr False
          else if s = ''untrusted'' \<or> s = ''on-failure'' \<or> s = ''on-request'' then Inr True
          else Inl (UnknownValue s))"

text \<open>Whether the sandbox allows network access, and whether it allows writing.\<close>

definition parse_sandbox_permissions :: "json \<Rightarrow> permission_error + bool \<times> bool" where
  "parse_sandbox_permissions v =
     chain (ok_or (MissingField ''type'') (json_str v ''type'')) (\<lambda>ty.
     if ty = ''readOnly'' then
       chain (validate_sandbox_access_if_present v ''access'') (\<lambda>_.
       chain (sandbox_required_bool_field v ''networkAccess'') (\<lambda>network. Inr (network, False)))
     else if ty = ''workspaceWrite'' then
       chain (validate_sandbox_access_if_present v ''readOnlyAccess'') (\<lambda>_.
       chain (workspace_writable_roots v) (\<lambda>_.
       chain (sandbox_required_bool_field v ''excludeTmpdirEnvVar'') (\<lambda>_.
       chain (sandbox_required_bool_field v ''excludeSlashTmp'') (\<lambda>_.
       chain (sandbox_required_bool_field v ''networkAccess'') (\<lambda>network. Inr (network, True))))))
     else if ty = ''dangerFullAccess'' then Inr (True, True)
     else if ty = ''externalSandbox'' then
       (case json_str v ''networkAccess'' of
          None \<Rightarrow> Inr (False, True)
        | Some s \<Rightarrow> if s = ''enabled'' then Inr (True, True) else if s = ''restricted'' then Inr (False, True)
            else Inl (UnknownValue s))
     else Inl (UnknownValue ty))"

section \<open>Permission profiles\<close>

datatype runtime_kind = Managed | Disabled | External

datatype path_scope = AbsoluteScope path | GlobPattern | SpecialScope string

record profile_permissions =
  pp_kind :: runtime_kind
  pp_network :: bool
  pp_write_access :: bool
  read_paths :: "path list"
  read_special_kinds :: "string set"
  unrepresentable_read :: bool
  write_paths :: "path list"
  write_special_kinds :: "string set"
  unrepresentable_write :: bool
  deny_paths :: "path list"
  deny_special_kinds :: "string set"
  unrepresentable_deny :: bool
  has_access_denials :: bool

definition new_permissions :: "runtime_kind \<Rightarrow> bool \<Rightarrow> profile_permissions" where
  "new_permissions kind network =
     \<lparr>pp_kind = kind, pp_network = network, pp_write_access = False,
      read_paths = [], read_special_kinds = {}, unrepresentable_read = False,
      write_paths = [], write_special_kinds = {}, unrepresentable_write = False,
      deny_paths = [], deny_special_kinds = {}, unrepresentable_deny = False, has_access_denials = False\<rparr>"

definition record_full_file_system_access :: "profile_permissions \<Rightarrow> profile_permissions" where
  "record_full_file_system_access p =
     p\<lparr>pp_write_access := True, read_special_kinds := insert ''root'' (read_special_kinds p),
       write_special_kinds := insert ''root'' (write_special_kinds p)\<rparr>"

definition full_access :: "runtime_kind \<Rightarrow> bool \<Rightarrow> profile_permissions" where
  "full_access kind network = record_full_file_system_access (new_permissions kind network)"

definition external :: "bool \<Rightarrow> profile_permissions" where
  "external network = (new_permissions External network)\<lparr>pp_write_access := True\<rparr>"

definition derived_permissions :: "profile_permissions \<Rightarrow> bool \<times> bool" where
  "derived_permissions p = (pp_network p, pp_write_access p)"

definition slash_tmp :: path where "slash_tmp = [RootDir, NormalPart ''tmp'']"

definition write_covers_path :: "profile_permissions \<Rightarrow> path \<Rightarrow> bool" where
  "write_covers_path p path \<longleftrightarrow>
     ''root'' \<in> write_special_kinds p \<or>
     (''slash_tmp'' \<in> write_special_kinds p \<and> path_starts_with path slash_tmp) \<or>
     list_ex (path_starts_with path) (write_paths p)"

definition write_covers_workspace_root :: "profile_permissions \<Rightarrow> path \<Rightarrow> bool" where
  "write_covers_workspace_root p path \<longleftrightarrow> write_covers_path p path \<or> ''project_roots'' \<in> write_special_kinds p"

definition write_covers_special :: "profile_permissions \<Rightarrow> string \<Rightarrow> bool" where
  "write_covers_special p kind \<longleftrightarrow> ''root'' \<in> write_special_kinds p \<or> kind \<in> write_special_kinds p"

fun record_read_scope :: "path_scope \<Rightarrow> profile_permissions \<Rightarrow> profile_permissions" where
  "record_read_scope (AbsoluteScope path) p = p\<lparr>read_paths := read_paths p @ [path]\<rparr>"
| "record_read_scope (SpecialScope kind) p =
     (if kind = ''root'' \<or> kind = ''slash_tmp'' then p\<lparr>read_special_kinds := insert kind (read_special_kinds p)\<rparr>
      else p\<lparr>unrepresentable_read := True\<rparr>)"
| "record_read_scope GlobPattern p = p\<lparr>unrepresentable_read := True\<rparr>"

definition read_covers_path :: "profile_permissions \<Rightarrow> path \<Rightarrow> bool" where
  "read_covers_path p path \<longleftrightarrow>
     ''root'' \<in> read_special_kinds p \<or> write_covers_path p path \<or>
     (''slash_tmp'' \<in> read_special_kinds p \<and> path_starts_with path slash_tmp) \<or>
     list_ex (path_starts_with path) (read_paths p)"

definition read_covers_special :: "profile_permissions \<Rightarrow> string \<Rightarrow> bool" where
  "read_covers_special p kind \<longleftrightarrow>
     (if kind = ''root'' then read_covers_path p [RootDir]
      else if kind = ''slash_tmp'' then read_covers_path p slash_tmp
      else ''root'' \<in> read_special_kinds p \<or> kind \<in> read_special_kinds p)"

definition write_covers_scope_kind :: "profile_permissions \<Rightarrow> string \<Rightarrow> bool" where
  "write_covers_scope_kind p kind \<longleftrightarrow>
     (if kind = ''root'' then write_covers_path p [RootDir]
      else if kind = ''slash_tmp'' then write_covers_path p slash_tmp
      else write_covers_special p kind)"

fun record_deny_scope :: "path_scope \<Rightarrow> profile_permissions \<Rightarrow> profile_permissions" where
  "record_deny_scope (AbsoluteScope path) p = p\<lparr>has_access_denials := True, deny_paths := deny_paths p @ [path]\<rparr>"
| "record_deny_scope (SpecialScope kind) p =
     p\<lparr>has_access_denials := True, deny_special_kinds := insert kind (deny_special_kinds p)\<rparr>"
| "record_deny_scope GlobPattern p = p\<lparr>has_access_denials := True, unrepresentable_deny := True\<rparr>"

fun record_write_scope :: "path_scope \<Rightarrow> profile_permissions \<Rightarrow> profile_permissions" where
  "record_write_scope (AbsoluteScope path) p = p\<lparr>pp_write_access := True, write_paths := write_paths p @ [path]\<rparr>"
| "record_write_scope (SpecialScope kind) p =
     (if kind \<in> {''root'', ''tmpdir'', ''slash_tmp'', ''project_roots''}
      then p\<lparr>pp_write_access := True, write_special_kinds := insert kind (write_special_kinds p)\<rparr>
      else p\<lparr>pp_write_access := True, unrepresentable_write := True\<rparr>)"
| "record_write_scope GlobPattern p = p\<lparr>pp_write_access := True, unrepresentable_write := True\<rparr>"

definition permission_profile_special_subpath :: "json \<Rightarrow> string \<Rightarrow> permission_error + string option" where
  "permission_profile_special_subpath v field =
     (case json_get v field of
        None \<Rightarrow> Inr None
      | Some value \<Rightarrow> (case value of
          JString s \<Rightarrow> if s \<noteq> [] then Inr (Some s) else Inr None
        | JNull \<Rightarrow> Inr None
        | _ \<Rightarrow> Inl (WrongShape field)))"

definition validate_optional_string_field :: "json \<Rightarrow> string \<Rightarrow> permission_error + unit" where
  "validate_optional_string_field v field =
     (case json_get v field of
        None \<Rightarrow> Inr ()
      | Some value \<Rightarrow> (case value of JString _ \<Rightarrow> Inr () | JNull \<Rightarrow> Inr () | _ \<Rightarrow> Inl (WrongShape field)))"

definition parse_special_path :: "json \<Rightarrow> permission_error + path_scope" where
  "parse_special_path path =
     chain (ok_or (MissingField ''value'') (json_get path ''value'')) (\<lambda>v.
     case json_str v ''kind'' of
       None \<Rightarrow> Inl (MissingField ''kind'')
     | Some kind \<Rightarrow>
         if kind \<in> {''root'', ''minimal'', ''current_working_directory'', ''tmpdir'', ''slash_tmp''}
         then Inr (SpecialScope kind)
         else if kind = ''project_roots'' then
           chain (permission_profile_special_subpath v ''subpath'') (\<lambda>subpath.
           case subpath of
             Some s \<Rightarrow> Inr (SpecialScope (''project_roots_subpath:'' @ s))
           | None \<Rightarrow> Inr (SpecialScope kind))
         else if kind = ''unknown'' then
           chain (ok_or (MissingField ''path'') (json_str v ''path'')) (\<lambda>_.
           chain (validate_optional_string_field v ''subpath'') (\<lambda>_. Inr (SpecialScope ''unknown'')))
         else Inl (UnknownValue kind))"

definition parse_permission_profile_path :: "json \<Rightarrow> permission_error + path_scope" where
  "parse_permission_profile_path path =
     (case json_str path ''type'' of
        None \<Rightarrow> Inl (MissingField ''type'')
      | Some ty \<Rightarrow>
          if ty = ''path'' then
            chain (ok_or (MissingField ''path'') (json_str path ''path'')) (\<lambda>s.
            chain (require (is_absolute s) (BadPath NotAbsolute)) (\<lambda>_.
            chain (lift_path (normalize_path s)) (\<lambda>p. Inr (AbsoluteScope p))))
          else if ty = ''glob_pattern'' then
            chain (ok_or (MissingField ''pattern'') (json_str path ''pattern'')) (\<lambda>_. Inr GlobPattern)
          else if ty = ''special'' then parse_special_path path
          else Inl (UnknownValue ty))"

definition parse_permission_profile_entry_path :: "json \<Rightarrow> permission_error + path_scope" where
  "parse_permission_profile_entry_path entry =
     chain (ok_or (MissingField ''path'') (json_get entry ''path'')) parse_permission_profile_path"

definition record_profile_entry :: "json \<Rightarrow> profile_permissions \<Rightarrow> permission_error + profile_permissions" where
  "record_profile_entry entry p =
     chain (parse_permission_profile_entry_path entry) (\<lambda>scope.
     case json_str entry ''access'' of
       None \<Rightarrow> Inl (MissingField ''access'')
     | Some access \<Rightarrow>
         if access = ''read'' then Inr (record_read_scope scope p)
         else if access = ''none'' then Inr (record_deny_scope scope p)
         else if access = ''write'' then Inr (record_write_scope scope p)
         else Inl (UnknownValue access))"

definition parse_permission_profile_restricted_file_system ::
    "json \<Rightarrow> profile_permissions \<Rightarrow> permission_error + profile_permissions" where
  "parse_permission_profile_restricted_file_system file_system p =
     chain (ok_or (MissingField ''entries'') (and_then (json_get file_system ''entries'') json_as_array)) (\<lambda>entries.
     chain (require (case json_get file_system ''globScanMaxDepth'' of
         None \<Rightarrow> True
       | Some depth \<Rightarrow> (case json_as_u64 depth of None \<Rightarrow> False | Some n \<Rightarrow> n \<noteq> 0)) (WrongShape ''globScanMaxDepth'')) (\<lambda>_.
     for_each record_profile_entry entries p))"

definition parse_permission_profile_file_system ::
    "json option \<Rightarrow> bool \<Rightarrow> profile_permissions \<Rightarrow> permission_error + profile_permissions" where
  "parse_permission_profile_file_system v required p =
     (case (case v of Some x \<Rightarrow> if x = JNull then None else Some x | None \<Rightarrow> None) of
        None \<Rightarrow> if required then Inl (MissingField ''fileSystem'') else Inr p
      | Some file_system \<Rightarrow>
          chain (require (json_is_object file_system) (WrongShape ''fileSystem'')) (\<lambda>_.
          case json_str file_system ''type'' of
            None \<Rightarrow> parse_permission_profile_restricted_file_system file_system p
          | Some ty \<Rightarrow>
              if ty = ''restricted'' then parse_permission_profile_restricted_file_system file_system p
              else if ty = ''unrestricted'' then Inr (record_full_file_system_access p)
              else Inl (UnknownValue ty)))"

definition parse_permission_profile_network :: "json option \<Rightarrow> bool \<Rightarrow> permission_error + bool" where
  "parse_permission_profile_network v required =
     (if (v = Some JNull \<or> v = None) \<and> \<not> required then Inr False
      else case v of
        None \<Rightarrow> Inl (MissingField ''network'')
      | Some value \<Rightarrow>
          if json_is_object value
          then ok_or (WrongShape ''enabled'') (and_then (json_get value ''enabled'') json_as_bool)
          else Inl (WrongShape ''network''))"

definition parse_permission_profile_permissions :: "json \<Rightarrow> permission_error + profile_permissions" where
  "parse_permission_profile_permissions v =
     chain (require (json_is_object v) (WrongShape ''permissionProfile'')) (\<lambda>_.
     case json_str v ''type'' of
       None \<Rightarrow>
         chain (parse_permission_profile_network (json_get v ''network'') False) (\<lambda>network.
         parse_permission_profile_file_system (json_get v ''fileSystem'') False (new_permissions Managed network))
     | Some ty \<Rightarrow>
         if ty = ''managed'' then
           chain (parse_permission_profile_network (json_get v ''network'') True) (\<lambda>network.
           parse_permission_profile_file_system (json_get v ''fileSystem'') True (new_permissions Managed network))
         else if ty = ''disabled'' then Inr (full_access Disabled True)
         else if ty = ''external'' then
           chain (parse_permission_profile_network (json_get v ''network'') True) (\<lambda>network. Inr (external network))
         else Inl (UnknownValue ty))"

end
