(* ===== verification/Cbth_TurnStart.thy ===== *)
theory Cbth_TurnStart
  imports Cbth_Permissions
begin

text \<open>
  The permissions a delivered turn is started with (\<open>src/cli.rs\<close>): the snapshot of a \<open>thread/resume\<close>
  response, when the active profile may be selected again, and otherwise the legacy sandbox pinned to
  the tighter of the startup and the current one.
\<close>

section \<open>Profiles against legacy sandboxes\<close>

definition ensure_permission_profile_covers_read_access :: "profile_permissions \<Rightarrow> json \<Rightarrow> permission_error + unit" where
  "ensure_permission_profile_covers_read_access profile access =
     chain (read_only_access_type access) (\<lambda>ty.
     if ty = ''fullAccess'' then require (read_covers_path profile [RootDir]) (NotCovered ''read access'')
     else if ty = ''restricted'' then
       chain (read_only_readable_roots access) (\<lambda>roots.
       for_each (\<lambda>root _. chain (lift_path (normalize_path root)) (\<lambda>p.
         require (read_covers_path profile p) (NotCovered ''readableRoot''))) roots ())
     else Inl (UnknownValue ty))"

definition ensure_permission_profile_covers_legacy_read_access ::
    "profile_permissions \<Rightarrow> json \<Rightarrow> permission_error + unit" where
  "ensure_permission_profile_covers_legacy_read_access profile sandbox =
     chain (sandbox_policy_type sandbox) (\<lambda>ty.
     if ty = ''readOnly'' then
       chain (sandbox_access sandbox ''access'') (ensure_permission_profile_covers_read_access profile)
     else if ty = ''workspaceWrite'' then
       chain (sandbox_access sandbox ''readOnlyAccess'') (ensure_permission_profile_covers_read_access profile)
     else if ty = ''dangerFullAccess'' then require (read_covers_path profile [RootDir]) (NotCovered ''read access'')
     else if ty = ''externalSandbox'' then Inl ExternalMismatch
     else Inl (UnknownValue ty))"

definition ensure_permission_profile_covers_workspace_write ::
    "profile_permissions \<Rightarrow> json \<Rightarrow> permission_error + unit" where
  "ensure_permission_profile_covers_workspace_write profile sandbox =
     chain (workspace_writable_roots sandbox) (\<lambda>roots.
     chain (for_each (\<lambda>root _. chain (lift_path (normalize_root root)) (\<lambda>p.
       require (write_covers_workspace_root profile p) (NotCovered ''writableRoot''))) roots ()) (\<lambda>_.
     chain (sandbox_required_bool_field sandbox ''excludeTmpdirEnvVar'') (\<lambda>exclude_tmpdir.
     chain (require (exclude_tmpdir \<or> write_covers_special profile ''tmpdir'') (NotCovered ''tmpdir'')) (\<lambda>_.
     chain (sandbox_required_bool_field sandbox ''excludeSlashTmp'') (\<lambda>exclude_slash_tmp.
     require (exclude_slash_tmp \<or> write_covers_path profile slash_tmp) (NotCovered ''/tmp''))))))"

definition ensure_permission_profile_legacy_write_equivalence ::
    "profile_permissions \<Rightarrow> json \<Rightarrow> permission_error + unit" where
  "ensure_permission_profile_legacy_write_equivalence profile sandbox =
     (if pp_kind profile = External then
        chain (sandbox_policy_type sandbox) (\<lambda>ty. require (ty = ''externalSandbox'') ExternalMismatch)
      else
        chain (require (\<not> has_access_denials profile) (NotRepresentable ''deny'')) (\<lambda>_.
        chain (require (\<not> unrepresentable_read profile) (NotRepresentable ''read'')) (\<lambda>_.
        chain (ensure_permission_profile_covers_legacy_read_access profile sandbox) (\<lambda>_.
        if \<not> pp_write_access profile then Inr ()
        else
          chain (require (\<not> unrepresentable_write profile) (NotRepresentable ''write'')) (\<lambda>_.
          chain (sandbox_policy_type sandbox) (\<lambda>ty.
          if ty = ''workspaceWrite'' then ensure_permission_profile_covers_workspace_write profile sandbox
          else if ty = ''dangerFullAccess'' then require (write_covers_special profile ''root'') (NotCovered ''root'')
          else if ty = ''externalSandbox'' then Inl ExternalMismatch
          else Inl (UnknownValue ty)))))))"

section \<open>The active profile\<close>

record profile_selection =
  selection_id :: string
  additional_writable_roots :: "path list"

definition parse_modification :: "json \<Rightarrow> path list \<Rightarrow> permission_error + path list" where
  "parse_modification modification roots =
     chain (require (json_is_object modification) (WrongShape ''modification'')) (\<lambda>_.
     case json_str modification ''type'' of
       None \<Rightarrow> Inl (MissingField ''type'')
     | Some ty \<Rightarrow>
         if ty = ''additionalWritableRoot'' \<or> ty = ''additional_writable_root'' then
           chain (ok_or (MissingField ''path'') (json_str modification ''path'')) (\<lambda>s.
           chain (require (is_absolute s) (BadPath NotAbsolute)) (\<lambda>_.
           chain (lift_path (normalize_path s)) (\<lambda>p. Inr (roots @ [p]))))
         else Inl (UnknownValue ty))"

definition parse_active_permission_profile_selection :: "json \<Rightarrow> permission_error + profile_selection" where
  "parse_active_permission_profile_selection v =
     chain (require (json_is_object v) (WrongShape ''activePermissionProfile'')) (\<lambda>_.
     chain (ok_or (MissingField ''id'') (json_str v ''id'')) (\<lambda>id.
     chain (require (id \<noteq> []) (EmptyField ''id'')) (\<lambda>_.
     chain (case json_get v ''modifications'' of
         None \<Rightarrow> Inr []
       | Some modifications \<Rightarrow> (case modifications of
           JNull \<Rightarrow> Inr []
         | JArray ms \<Rightarrow> for_each parse_modification ms []
         | _ \<Rightarrow> Inl (WrongShape ''modifications''))) (\<lambda>roots.
     Inr \<lparr>selection_id = id, additional_writable_roots = remdups_adj (sort roots)\<rparr>))))"

definition to_turn_start_permissions_json :: "profile_selection \<Rightarrow> json" where
  "to_turn_start_permissions_json selection =
     JObject ([(''id'', JString (selection_id selection))] @
       (if additional_writable_roots selection \<noteq> []
        then [(''modifications'', JArray (map (\<lambda>path. JObject [(''path'', JString (path_to_string path)),
            (''type'', JString ''additionalWritableRoot'')]) (additional_writable_roots selection)))]
        else []) @
       [(''type'', JString ''profile'')])"

definition active_permission_profile_id_is_stable_builtin :: "string \<Rightarrow> bool" where
  "active_permission_profile_id_is_stable_builtin profile_id \<longleftrightarrow>
     profile_id = '':read-only'' \<or> profile_id = '':workspace'' \<or> profile_id = '':danger-no-sandbox''"

definition permission_profile_cap_from_active_selection :: "profile_selection \<Rightarrow> profile_permissions option" where
  "permission_profile_cap_from_active_selection selection =
     map_option (\<lambda>p.
         if additional_writable_roots selection \<noteq> []
         then p\<lparr>pp_write_access := True, write_paths := write_paths p @ additional_writable_roots selection\<rparr>
         else p)
       (if selection_id selection = '':read-only''
        then Some ((new_permissions Managed False)\<lparr>read_special_kinds := {''root''}\<rparr>)
        else if selection_id selection = '':workspace''
        then Some ((new_permissions Managed False)\<lparr>read_special_kinds := {''root''}, pp_write_access := True,
          write_special_kinds := {''project_roots'', ''tmpdir'', ''slash_tmp''},
          deny_special_kinds := {''project_roots_subpath:.git'', ''project_roots_subpath:.agents'', ''project_roots_subpath:.codex''},
          has_access_denials := True\<rparr>)
        else if selection_id selection = '':danger-no-sandbox'' then Some (full_access Disabled True)
        else None)"

section \<open>Snapshots\<close>

datatype snapshot_source = FromPermissionProfile | FromLegacySandbox

record resolved_permissions =
  may_approve :: bool
  may_network :: bool
  may_write :: bool

record permission_snapshot_of =
  snap_source :: snapshot_source
  snap_permissions :: resolved_permissions
  approval_policy :: json
  sandbox_policy :: json
  permission_profile :: "json option"
  legacy_compatible :: bool
  active_permission_profile :: "json option"
  active_selection :: "profile_selection option"

definition non_null :: "json option \<Rightarrow> json option" where
  "non_null v = (if v = Some JNull then None else v)"

fun transpose_selection :: "json option \<Rightarrow> permission_error + profile_selection option" where
  "transpose_selection None = Inr None"
| "transpose_selection (Some v) = chain (parse_active_permission_profile_selection v) (\<lambda>s. Inr (Some s))"

definition parse_thread_resume_permission_snapshot :: "json \<Rightarrow> permission_error + permission_snapshot_of" where
  "parse_thread_resume_permission_snapshot result =
     chain (ok_or (MissingField ''approvalPolicy'') (json_get result ''approvalPolicy'')) (\<lambda>approval.
     chain (ok_or (MissingField ''sandbox'') (json_get result ''sandbox'')) (\<lambda>sandbox.
     chain (parse_approval_policy_allows_approval approval) (\<lambda>allows_approval.
     chain (parse_sandbox_permissions sandbox) (\<lambda>legacy.
     let profile = non_null (json_get result ''permissionProfile'');
         active = non_null (json_get result ''activePermissionProfile'') in
     chain (transpose_selection active) (\<lambda>selection.
     let can_use_selection = (case selection of
           None \<Rightarrow> False | Some s \<Rightarrow> active_permission_profile_id_is_stable_builtin (selection_id s)) in
     chain (case profile of
         None \<Rightarrow> Inr (FromLegacySandbox, True)
       | Some v \<Rightarrow>
           chain (parse_permission_profile_permissions v) (\<lambda>p.
           chain (require (derived_permissions p = legacy) ProfileSandboxDisagree) (\<lambda>_.
           case ensure_permission_profile_legacy_write_equivalence p sandbox of
             Inr _ \<Rightarrow> Inr (FromPermissionProfile, True)
           | Inl e \<Rightarrow> if can_use_selection then Inr (FromPermissionProfile, False) else Inl e))) (\<lambda>(source, compatible).
     Inr \<lparr>snap_source = source,
       snap_permissions = \<lparr>may_approve = allows_approval, may_network = fst legacy, may_write = snd legacy\<rparr>,
       approval_policy = approval, sandbox_policy = sandbox, permission_profile = profile,
       legacy_compatible = compatible, active_permission_profile = active, active_selection = selection\<rparr>))))))"

definition effective_permissions :: "resolved_permissions \<Rightarrow> resolved_permissions \<Rightarrow> resolved_permissions" where
  "effective_permissions startup current =
     \<lparr>may_approve = may_approve startup \<and> may_approve current, may_network = may_network startup \<and> may_network current,
      may_write = may_write startup \<and> may_write current\<rparr>"

section \<open>When one scope lies within another\<close>

definition permission_profile_read_scope_within :: "profile_permissions \<Rightarrow> profile_permissions \<Rightarrow> bool" where
  "permission_profile_read_scope_within current cap \<longleftrightarrow>
     \<not> (unrepresentable_read current \<and> \<not> read_covers_path cap [RootDir]) \<and>
     list_all (read_covers_path cap) (read_paths current) \<and>
     (\<forall>kind\<in>read_special_kinds current. read_covers_special cap kind)"

definition permission_profile_write_scope_within :: "profile_permissions \<Rightarrow> profile_permissions \<Rightarrow> bool" where
  "permission_profile_write_scope_within current cap \<longleftrightarrow>
     \<not> (unrepresentable_write current \<and> \<not> write_covers_path cap [RootDir]) \<and>
     list_all (write_covers_path cap) (write_paths current) \<and>
     (\<forall>kind\<in>write_special_kinds current. write_covers_scope_kind cap kind)"

definition current_permission_profile_denials_preserve_startup_denials ::
    "profile_permissions \<Rightarrow> profile_permissions \<Rightarrow> bool" where
  "current_permission_profile_denials_preserve_startup_denials current cap \<longleftrightarrow>
     (if \<not> has_access_denials cap then True
      else if unrepresentable_deny cap then False
      else list_all (\<lambda>path. list_ex (path_starts_with path) (deny_paths current)) (deny_paths cap) \<and>
        deny_special_kinds cap \<subseteq> deny_special_kinds current)"

definition permission_profile_scope_within :: "profile_permissions \<Rightarrow> profile_permissions \<Rightarrow> bool \<Rightarrow> bool" where
  "permission_profile_scope_within current cap denials_preserved \<longleftrightarrow>
     \<not> (pp_network current \<and> \<not> pp_network cap) \<and>
     \<not> (pp_write_access current \<and> \<not> pp_write_access cap) \<and>
     \<not> (has_access_denials cap \<and> \<not> denials_preserved) \<and>
     permission_profile_read_scope_within current cap \<and> permission_profile_write_scope_within current cap"

definition selection_denials_cover_permission_profile :: "profile_selection \<Rightarrow> profile_permissions \<Rightarrow> bool" where
  "selection_denials_cover_permission_profile selection current \<longleftrightarrow>
     (if \<not> has_access_denials current then True
      else if unrepresentable_deny current then False
      else if selection_id selection = '':workspace'' then
        deny_paths current = [] \<and>
        deny_special_kinds current \<subseteq>
          {''project_roots_subpath:.git'', ''project_roots_subpath:.agents'', ''project_roots_subpath:.codex''}
      else False)"

definition record_sandbox_read_access :: "profile_permissions \<Rightarrow> json \<Rightarrow> permission_error + profile_permissions" where
  "record_sandbox_read_access p access =
     chain (read_only_access_type access) (\<lambda>ty.
     if ty = ''fullAccess'' then Inr (p\<lparr>read_special_kinds := insert ''root'' (read_special_kinds p)\<rparr>)
     else if ty = ''restricted'' then
       chain (read_only_readable_roots access) (\<lambda>roots.
       chain (map_ok (\<lambda>root. lift_path (normalize_path root)) roots) (\<lambda>paths.
       chain (sandbox_bool_field access ''includePlatformDefaults'' False) (\<lambda>defaults.
       Inr (p\<lparr>read_paths := read_paths p @ paths, unrepresentable_read := unrepresentable_read p \<or> defaults\<rparr>))))
     else Inl (UnknownValue ty))"

definition read_only_cap :: "json \<Rightarrow> permission_error + profile_permissions" where
  "read_only_cap sandbox =
     chain (sandbox_required_bool_field sandbox ''networkAccess'') (\<lambda>network.
     chain (sandbox_access sandbox ''access'') (record_sandbox_read_access (new_permissions Managed network)))"

definition workspace_write_cap :: "json \<Rightarrow> permission_error + profile_permissions" where
  "workspace_write_cap sandbox =
     chain (sandbox_required_bool_field sandbox ''networkAccess'') (\<lambda>network.
     chain (sandbox_access sandbox ''readOnlyAccess'') (\<lambda>access.
     chain (record_sandbox_read_access ((new_permissions Managed network)\<lparr>pp_write_access := True\<rparr>) access) (\<lambda>p.
     chain (workspace_writable_roots sandbox) (\<lambda>roots.
     chain (map_ok (\<lambda>root. lift_path (normalize_root root)) roots) (\<lambda>paths.
     chain (sandbox_required_bool_field sandbox ''excludeTmpdirEnvVar'') (\<lambda>exclude_tmpdir.
     chain (sandbox_required_bool_field sandbox ''excludeSlashTmp'') (\<lambda>exclude_slash_tmp.
     Inr (p\<lparr>write_paths := write_paths p @ paths,
       write_special_kinds := write_special_kinds p \<union> (if exclude_tmpdir then {} else {''tmpdir''}) \<union>
         (if exclude_slash_tmp then {} else {''slash_tmp''})\<rparr>))))))))"

definition permission_scope_cap_from_legacy_sandbox :: "json \<Rightarrow> permission_error + profile_permissions option" where
  "permission_scope_cap_from_legacy_sandbox sandbox =
     chain (sandbox_policy_type sandbox) (\<lambda>ty.
     if ty = ''readOnly'' then chain (read_only_cap sandbox) (\<lambda>p. Inr (Some p))
     else if ty = ''workspaceWrite'' then chain (workspace_write_cap sandbox) (\<lambda>p. Inr (Some p))
     else if ty = ''dangerFullAccess'' then Inr (Some (full_access Managed True))
     else if ty = ''externalSandbox'' then Inr None
     else Inl (UnknownValue ty))"

definition current_permission_profile_scope_within_startup ::
    "permission_snapshot_of \<Rightarrow> permission_snapshot_of \<Rightarrow> permission_error + bool" where
  "current_permission_profile_scope_within_startup startup current =
     (case permission_profile current of
        None \<Rightarrow> Inr False
      | Some current_profile \<Rightarrow>
          if permission_profile startup = Some current_profile then Inr True
          else
            chain (parse_permission_profile_permissions current_profile) (\<lambda>current_permissions.
            case permission_profile startup of
              Some startup_profile \<Rightarrow>
                chain (parse_permission_profile_permissions startup_profile) (\<lambda>cap.
                Inr (permission_profile_scope_within current_permissions cap
                  (current_permission_profile_denials_preserve_startup_denials current_permissions cap)))
            | None \<Rightarrow>
                chain (permission_scope_cap_from_legacy_sandbox (sandbox_policy startup)) (\<lambda>cap.
                case cap of
                  None \<Rightarrow> Inr False
                | Some cap \<Rightarrow> Inr (permission_profile_scope_within current_permissions cap False))))"

definition current_permission_profile_selection_matches_current_profile ::
    "profile_selection \<Rightarrow> profile_permissions \<Rightarrow> permission_snapshot_of \<Rightarrow> permission_error + bool" where
  "current_permission_profile_selection_matches_current_profile selection selection_permissions current =
     (case permission_profile current of
        None \<Rightarrow> Inr False
      | Some current_profile \<Rightarrow>
          chain (parse_permission_profile_permissions current_profile) (\<lambda>current_permissions.
          if \<not> permission_profile_scope_within selection_permissions current_permissions
              (selection_denials_cover_permission_profile selection current_permissions)
          then Inr False
          else Inr (permission_profile_scope_within current_permissions selection_permissions
            (current_permission_profile_denials_preserve_startup_denials current_permissions selection_permissions))))"

definition current_permission_profile_selection_for_turn_start ::
    "permission_snapshot_of \<Rightarrow> permission_snapshot_of \<Rightarrow> resolved_permissions \<Rightarrow> permission_error + json option" where
  "current_permission_profile_selection_for_turn_start startup current effective =
     (case active_selection current of
        None \<Rightarrow> Inr None
      | Some selection \<Rightarrow>
          if snap_source current \<noteq> FromPermissionProfile then Inr None
          else if may_network (snap_permissions current) \<noteq> may_network effective \<or>
            may_write (snap_permissions current) \<noteq> may_write effective then Inr None
          else if \<not> active_permission_profile_id_is_stable_builtin (selection_id selection) then Inr None
          else case permission_profile_cap_from_active_selection selection of
            None \<Rightarrow> Inr None
          | Some selection_permissions \<Rightarrow>
              if derived_permissions selection_permissions \<noteq> (may_network effective, may_write effective) then Inr None
              else
                chain (current_permission_profile_selection_matches_current_profile selection selection_permissions current)
                  (\<lambda>matches.
                if \<not> matches then Inr None
                else chain (current_permission_profile_scope_within_startup startup current) (\<lambda>within.
                  Inr (if within then Some (to_turn_start_permissions_json selection) else None))))"

end
