(* ===== verification/Cbth_Pin.thy ===== *)
theory Cbth_Pin
  imports Cbth_TurnStart
begin

text \<open>
  Pinning (\<open>src/cli.rs\<close>): the approval policy and the legacy sandbox of a delivered turn, computed from
  the startup and the current snapshot, how far the two have drifted apart, and the part of the passive
  adapter's state that remembers them.
\<close>

section \<open>Approval\<close>

definition approval_policy_risk_rank :: "json \<Rightarrow> permission_error + nat" where
  "approval_policy_risk_rank v =
     (case json_as_str v of
        None \<Rightarrow> Inl (WrongShape ''approvalPolicy'')
      | Some s \<Rightarrow>
          if s = ''never'' then Inr 0
          else if s = ''untrusted'' then Inr 1
          else if s = ''on-failure'' then Inr 2
          else if s = ''on-request'' then Inr 3
          else Inl (UnknownValue s))"

definition pinned_approval_policy :: "json \<Rightarrow> json \<Rightarrow> bool \<Rightarrow> permission_error + json" where
  "pinned_approval_policy startup current allows_approval =
     (if \<not> allows_approval then Inr (JString ''never'')
      else
        chain (approval_policy_risk_rank startup) (\<lambda>startup_rank.
        chain (approval_policy_risk_rank current) (\<lambda>current_rank.
        Inr (if startup_rank \<le> current_rank then startup else current))))"

section \<open>Read access\<close>

definition readable_roots_intersection :: "json \<Rightarrow> json \<Rightarrow> permission_error + string list" where
  "readable_roots_intersection startup_access current_access =
     chain (read_only_readable_roots startup_access) (\<lambda>startup_roots.
     chain (read_only_readable_roots current_access) (\<lambda>current_roots.
     Inr (rev (remdups (rev (filter (\<lambda>root. root \<in> set current_roots) startup_roots))))))"

definition pinned_read_only_access :: "json \<Rightarrow> json \<Rightarrow> permission_error + json" where
  "pinned_read_only_access startup_access current_access =
     chain (read_only_access_type startup_access) (\<lambda>startup_type.
     chain (read_only_access_type current_access) (\<lambda>current_type.
     if startup_type = ''fullAccess'' \<and> current_type = ''fullAccess'' then Inr full_read_only_access
     else if startup_type = ''restricted'' \<and> current_type = ''fullAccess'' then Inr startup_access
     else if startup_type = ''fullAccess'' \<and> current_type = ''restricted'' then Inr current_access
     else if startup_type = ''restricted'' \<and> current_type = ''restricted'' then
       chain (sandbox_bool_field startup_access ''includePlatformDefaults'' False) (\<lambda>startup_defaults.
       chain (if startup_defaults then sandbox_bool_field current_access ''includePlatformDefaults'' False else Inr False)
         (\<lambda>defaults.
       chain (readable_roots_intersection startup_access current_access) (\<lambda>roots.
       Inr (JObject [(''includePlatformDefaults'', JBool defaults), (''readableRoots'', JArray (map JString roots)),
         (''type'', JString ''restricted'')]))))
     else Inl (CannotPin startup_type current_type)))"

definition ensure_legacy_turn_start_full_read_access :: "json \<Rightarrow> permission_error + unit" where
  "ensure_legacy_turn_start_full_read_access access =
     chain (read_only_access_type access) (\<lambda>ty. require (ty = ''fullAccess'') (NotRepresentable ''read''))"

section \<open>Sandboxes\<close>

text \<open>The read access of a sandbox of the given type.\<close>

definition access_of :: "json \<Rightarrow> string \<Rightarrow> permission_error + json" where
  "access_of sandbox ty = sandbox_access sandbox (if ty = ''readOnly'' then ''access'' else ''readOnlyAccess'')"

definition pinned_read_access :: "json \<Rightarrow> string \<Rightarrow> json \<Rightarrow> string \<Rightarrow> permission_error + json" where
  "pinned_read_access startup s current c =
     (if s \<in> {''readOnly'', ''workspaceWrite''} \<and> c \<in> {''readOnly'', ''workspaceWrite''} then
        chain (access_of startup s) (\<lambda>startup_access.
        chain (access_of current c) (\<lambda>current_access. pinned_read_only_access startup_access current_access))
      else if s \<in> {''readOnly'', ''workspaceWrite''} \<and> c = ''dangerFullAccess'' then access_of startup s
      else if s = ''dangerFullAccess'' \<and> c \<in> {''readOnly'', ''workspaceWrite''} then access_of current c
      else if s = ''dangerFullAccess'' \<and> c = ''dangerFullAccess'' then Inr full_read_only_access
      else Inl (CannotPin s c))"

definition pinned_read_only_sandbox :: "json \<Rightarrow> json \<Rightarrow> resolved_permissions \<Rightarrow> permission_error + json" where
  "pinned_read_only_sandbox startup current effective =
     chain (sandbox_policy_type startup) (\<lambda>s.
     chain (sandbox_policy_type current) (\<lambda>c.
     chain (pinned_read_access startup s current c) (\<lambda>read_access.
     chain (ensure_legacy_turn_start_full_read_access read_access) (\<lambda>_.
     Inr (JObject [(''networkAccess'', JBool (may_network effective)), (''type'', JString ''readOnly'')])))))"

definition narrower_writable_root :: "string \<Rightarrow> string \<Rightarrow> permission_error + string option" where
  "narrower_writable_root startup_root current_root =
     chain (lift_path (normalize_root startup_root)) (\<lambda>startup_path.
     chain (lift_path (normalize_root current_root)) (\<lambda>current_path.
     Inr (if path_starts_with current_path startup_path then Some (path_to_string current_path)
       else if path_starts_with startup_path current_path then Some (path_to_string startup_path)
       else None)))"

definition add_narrower_root :: "string \<Rightarrow> string \<Rightarrow> string list \<Rightarrow> permission_error + string list" where
  "add_narrower_root startup_root current_root narrowed_roots =
     chain (narrower_writable_root startup_root current_root) (\<lambda>root.
     Inr (case root of
         None \<Rightarrow> narrowed_roots
       | Some r \<Rightarrow> if r \<in> set narrowed_roots then narrowed_roots else narrowed_roots @ [r]))"

definition workspace_writable_roots_intersection :: "json \<Rightarrow> json \<Rightarrow> permission_error + string list" where
  "workspace_writable_roots_intersection startup current =
     chain (workspace_writable_roots startup) (\<lambda>startup_roots.
     chain (workspace_writable_roots current) (\<lambda>current_roots.
     for_each (\<lambda>startup_root. for_each (add_narrower_root startup_root) current_roots) startup_roots []))"

definition normalized_workspace_writable_roots :: "json \<Rightarrow> permission_error + string list" where
  "normalized_workspace_writable_roots sandbox =
     chain (workspace_writable_roots sandbox) (\<lambda>roots.
     map_ok (\<lambda>root. chain (lift_path (normalize_root root)) (\<lambda>p. Inr (path_to_string p))) roots)"

definition workspace_bool_if_workspace :: "json \<Rightarrow> bool \<Rightarrow> string \<Rightarrow> permission_error + bool" where
  "workspace_bool_if_workspace sandbox is_workspace field =
     (if is_workspace then sandbox_bool_field sandbox field False else Inr False)"

text \<open>\<open>a? || b?\<close>, which does not look at the second when the first is true.\<close>

definition or_ok :: "'e + bool \<Rightarrow> 'e + bool \<Rightarrow> 'e + bool" where
  "or_ok a b = chain a (\<lambda>x. if x then Inr True else b)"

definition pinned_workspace_write_sandbox :: "json \<Rightarrow> json \<Rightarrow> resolved_permissions \<Rightarrow> permission_error + json" where
  "pinned_workspace_write_sandbox startup current effective =
     chain (sandbox_policy_type startup) (\<lambda>s.
     chain (sandbox_policy_type current) (\<lambda>c.
     let s_workspace = (s = ''workspaceWrite''); c_workspace = (c = ''workspaceWrite'') in
     chain (if s_workspace \<and> c_workspace then workspace_writable_roots_intersection startup current
       else if s_workspace then normalized_workspace_writable_roots startup
       else if c_workspace then normalized_workspace_writable_roots current
       else Inl (CannotPin s c)) (\<lambda>writable_roots.
     chain (or_ok (workspace_bool_if_workspace startup s_workspace ''excludeTmpdirEnvVar'')
       (workspace_bool_if_workspace current c_workspace ''excludeTmpdirEnvVar'')) (\<lambda>exclude_tmpdir_env_var.
     chain (or_ok (workspace_bool_if_workspace startup s_workspace ''excludeSlashTmp'')
       (workspace_bool_if_workspace current c_workspace ''excludeSlashTmp'')) (\<lambda>exclude_slash_tmp.
     chain (if s_workspace \<and> c_workspace then
         chain (sandbox_access startup ''readOnlyAccess'') (\<lambda>startup_access.
         chain (sandbox_access current ''readOnlyAccess'') (\<lambda>current_access.
         pinned_read_only_access startup_access current_access))
       else if s_workspace then sandbox_access startup ''readOnlyAccess''
       else sandbox_access current ''readOnlyAccess'') (\<lambda>read_access.
     chain (ensure_legacy_turn_start_full_read_access read_access) (\<lambda>_.
     Inr (JObject [(''excludeSlashTmp'', JBool exclude_slash_tmp), (''excludeTmpdirEnvVar'', JBool exclude_tmpdir_env_var),
       (''networkAccess'', JBool (may_network effective)), (''type'', JString ''workspaceWrite''),
       (''writableRoots'', JArray (map JString writable_roots))])))))))) "

definition pinned_external_sandbox :: "json \<Rightarrow> json \<Rightarrow> resolved_permissions \<Rightarrow> permission_error + json" where
  "pinned_external_sandbox startup current effective =
     chain (sandbox_policy_type startup) (\<lambda>s.
     case (if s = ''externalSandbox'' then startup else current) of
       JObject members \<Rightarrow> Inr (JObject (insert_member ''networkAccess''
         (JString (if may_network effective then ''enabled'' else ''restricted'')) members))
     | _ \<Rightarrow> Inl (WrongShape ''sandbox''))"

definition pinned_sandbox_policy :: "json \<Rightarrow> json \<Rightarrow> resolved_permissions \<Rightarrow> permission_error + json" where
  "pinned_sandbox_policy startup current effective =
     (if \<not> may_write effective then pinned_read_only_sandbox startup current effective
      else
        chain (sandbox_policy_type startup) (\<lambda>s.
        chain (sandbox_policy_type current) (\<lambda>c.
        if s = ''readOnly'' \<or> c = ''readOnly'' then Inl (CannotPin s c)
        else if s = ''externalSandbox'' \<and> c = ''workspaceWrite'' \<or> s = ''workspaceWrite'' \<and> c = ''externalSandbox''
        then Inl (CannotPin s c)
        else if s = ''externalSandbox'' \<or> c = ''externalSandbox'' then pinned_external_sandbox startup current effective
        else if s = ''workspaceWrite'' \<or> c = ''workspaceWrite'' then pinned_workspace_write_sandbox startup current effective
        else if s = ''dangerFullAccess'' \<and> c = ''dangerFullAccess'' \<and> may_network effective then Inr startup
        else Inl (CannotPin s c))))"

section \<open>Overrides\<close>

definition fallback_compatible :: "permission_snapshot_of \<Rightarrow> bool" where
  "fallback_compatible snapshot \<longleftrightarrow>
     \<not> (snap_source snapshot = FromPermissionProfile \<and> \<not> legacy_compatible snapshot)"

definition ensure_legacy_permission_fallback_compatible ::
    "permission_snapshot_of \<Rightarrow> permission_snapshot_of \<Rightarrow> permission_error + unit" where
  "ensure_legacy_permission_fallback_compatible startup current =
     chain (require (fallback_compatible startup) (NotRepresentable ''startup'')) (\<lambda>_.
     require (fallback_compatible current) (NotRepresentable ''current''))"

definition turn_start_permission_overrides ::
    "permission_snapshot_of \<Rightarrow> permission_snapshot_of \<Rightarrow> resolved_permissions \<Rightarrow> permission_error + json" where
  "turn_start_permission_overrides startup current effective =
     chain (pinned_approval_policy (approval_policy startup) (approval_policy current) (may_approve effective)) (\<lambda>approval.
     chain (current_permission_profile_selection_for_turn_start startup current effective) (\<lambda>selection.
     case selection of
       Some permissions \<Rightarrow> Inr (JObject [(''approvalPolicy'', approval), (''permissions'', permissions)])
     | None \<Rightarrow>
         chain (ensure_legacy_permission_fallback_compatible startup current) (\<lambda>_.
         chain (pinned_sandbox_policy (sandbox_policy startup) (sandbox_policy current) effective) (\<lambda>sandbox.
         Inr (JObject [(''approvalPolicy'', approval), (''sandboxPolicy'', sandbox)])))))"

section \<open>Drift\<close>

datatype drift = Tightened | Loosened | MixedDrift | ChangedDrift

definition combine_drift_directions :: "drift list \<Rightarrow> drift option" where
  "combine_drift_directions directions =
     (if directions = [] then None
      else
        let tightened = Tightened \<in> set directions; loosened = Loosened \<in> set directions;
            mixed = MixedDrift \<in> set directions; changed = ChangedDrift \<in> set directions in
        if mixed \<or> tightened \<and> loosened \<or> tightened \<and> changed \<or> loosened \<and> changed then Some MixedDrift
        else if tightened then Some Tightened
        else if loosened then Some Loosened
        else if changed then Some ChangedDrift
        else None)"

definition permissive_bool_drift_direction :: "bool \<Rightarrow> bool \<Rightarrow> drift option" where
  "permissive_bool_drift_direction startup current =
     (if startup \<and> \<not> current then Some Tightened else if \<not> startup \<and> current then Some Loosened else None)"

definition restrictive_bool_drift_direction :: "bool \<Rightarrow> bool \<Rightarrow> drift option" where
  "restrictive_bool_drift_direction startup current =
     (if \<not> startup \<and> current then Some Tightened else if startup \<and> \<not> current then Some Loosened else None)"

definition permission_roots_covered_by :: "path list \<Rightarrow> path list \<Rightarrow> bool" where
  "permission_roots_covered_by roots covering_roots \<longleftrightarrow>
     list_all (\<lambda>root. list_ex (path_starts_with root) covering_roots) roots"

definition normalize_permission_roots_for_drift :: "string list \<Rightarrow> permission_error + path list" where
  "normalize_permission_roots_for_drift roots =
     chain (map_ok (\<lambda>root. lift_path (normalize_root root)) roots) (\<lambda>paths. Inr (rev (remdups (rev paths))))"

definition roots_drift_direction :: "string list \<Rightarrow> string list \<Rightarrow> permission_error + drift option" where
  "roots_drift_direction startup_roots current_roots =
     chain (normalize_permission_roots_for_drift startup_roots) (\<lambda>startup.
     chain (normalize_permission_roots_for_drift current_roots) (\<lambda>current.
     let current_is_subset = permission_roots_covered_by current startup;
         startup_is_subset = permission_roots_covered_by startup current in
     Inr (if current_is_subset \<and> startup_is_subset then None
       else if current_is_subset then Some Tightened
       else if startup_is_subset then Some Loosened
       else Some MixedDrift)))"

definition drift_or_changed :: "drift option list \<Rightarrow> drift" where
  "drift_or_changed directions =
     (case combine_drift_directions (List.map_filter (\<lambda>d. d) directions) of Some d \<Rightarrow> d | None \<Rightarrow> ChangedDrift)"

definition read_only_access_drift_direction :: "json \<Rightarrow> json \<Rightarrow> permission_error + drift option" where
  "read_only_access_drift_direction startup current =
     (if startup = current then Inr None
      else
        chain (read_only_access_type startup) (\<lambda>s.
        chain (read_only_access_type current) (\<lambda>c.
        if s = ''fullAccess'' \<and> c = ''restricted'' then Inr (Some Tightened)
        else if s = ''restricted'' \<and> c = ''fullAccess'' then Inr (Some Loosened)
        else if s = ''fullAccess'' \<and> c = ''fullAccess'' then Inr (Some ChangedDrift)
        else if s = ''restricted'' \<and> c = ''restricted'' then
          chain (read_only_readable_roots startup) (\<lambda>startup_roots.
          chain (read_only_readable_roots current) (\<lambda>current_roots.
          chain (roots_drift_direction startup_roots current_roots) (\<lambda>roots.
          chain (sandbox_bool_field startup ''includePlatformDefaults'' False) (\<lambda>startup_defaults.
          chain (sandbox_bool_field current ''includePlatformDefaults'' False) (\<lambda>current_defaults.
          Inr (Some (drift_or_changed [roots, permissive_bool_drift_direction startup_defaults current_defaults])))))))
        else Inr (Some ChangedDrift))))"

definition workspace_drift_directions :: "json \<Rightarrow> json \<Rightarrow> permission_error + drift option list" where
  "workspace_drift_directions startup current =
     chain (workspace_writable_roots startup) (\<lambda>startup_roots.
     chain (workspace_writable_roots current) (\<lambda>current_roots.
     chain (roots_drift_direction startup_roots current_roots) (\<lambda>roots.
     chain (sandbox_access startup ''readOnlyAccess'') (\<lambda>startup_access.
     chain (sandbox_access current ''readOnlyAccess'') (\<lambda>current_access.
     chain (read_only_access_drift_direction startup_access current_access) (\<lambda>access.
     chain (sandbox_required_bool_field startup ''excludeTmpdirEnvVar'') (\<lambda>startup_tmpdir.
     chain (sandbox_required_bool_field current ''excludeTmpdirEnvVar'') (\<lambda>current_tmpdir.
     chain (sandbox_required_bool_field startup ''excludeSlashTmp'') (\<lambda>startup_slash.
     chain (sandbox_required_bool_field current ''excludeSlashTmp'') (\<lambda>current_slash.
     Inr [roots, access, restrictive_bool_drift_direction startup_tmpdir current_tmpdir,
       restrictive_bool_drift_direction startup_slash current_slash]))))))))))"

definition sandbox_policy_drift_direction :: "json \<Rightarrow> json \<Rightarrow> permission_error + drift" where
  "sandbox_policy_drift_direction startup current =
     chain (sandbox_policy_type startup) (\<lambda>s.
     chain (sandbox_policy_type current) (\<lambda>c.
     if s \<noteq> c then Inr ChangedDrift
     else if s = ''readOnly'' then
       chain (sandbox_access startup ''access'') (\<lambda>startup_access.
       chain (sandbox_access current ''access'') (\<lambda>current_access.
       chain (read_only_access_drift_direction startup_access current_access) (\<lambda>access. Inr (drift_or_changed [access]))))
     else if s = ''workspaceWrite'' then
       chain (workspace_drift_directions startup current) (\<lambda>directions. Inr (drift_or_changed directions))
     else Inr ChangedDrift))"

definition approval_policy_drift_direction :: "json \<Rightarrow> json \<Rightarrow> permission_error + drift" where
  "approval_policy_drift_direction startup current =
     chain (approval_policy_risk_rank startup) (\<lambda>startup_rank.
     chain (approval_policy_risk_rank current) (\<lambda>current_rank.
     Inr (if current_rank < startup_rank then Tightened else if startup_rank < current_rank then Loosened else ChangedDrift)))"

definition permission_drift_changes :: "resolved_permissions \<Rightarrow> resolved_permissions \<Rightarrow> (string \<times> drift) list" where
  "permission_drift_changes startup current =
     List.map_filter (\<lambda>(dimension, d). map_option (Pair dimension) d)
       [(''approval'', permissive_bool_drift_direction (may_approve startup) (may_approve current)),
        (''network'', permissive_bool_drift_direction (may_network startup) (may_network current)),
        (''write_access'', permissive_bool_drift_direction (may_write startup) (may_write current))]"

definition permission_snapshot_drift_changes ::
    "permission_snapshot_of \<Rightarrow> permission_snapshot_of \<Rightarrow> permission_error + (string \<times> drift) list" where
  "permission_snapshot_drift_changes startup current =
     chain (if approval_policy startup \<noteq> approval_policy current
       then chain (approval_policy_drift_direction (approval_policy startup) (approval_policy current))
         (\<lambda>d. Inr [(''approval_policy'', d)])
       else Inr []) (\<lambda>approval.
     chain (if sandbox_policy startup \<noteq> sandbox_policy current
       then chain (sandbox_policy_drift_direction (sandbox_policy startup) (sandbox_policy current))
         (\<lambda>d. Inr [(''sandbox_policy'', d)])
       else Inr []) (\<lambda>sandbox.
     Inr (approval @ sandbox @
       (if permission_profile startup \<noteq> permission_profile current then [(''permission_profile'', ChangedDrift)] else []) @
       (if active_permission_profile startup \<noteq> active_permission_profile current
        then [(''active_permission_profile'', ChangedDrift)] else []))))"

text \<open>
  \<open>record_permission_drift_if_needed\<close>: the warning to be recorded, as its direction and its changes.
\<close>

definition permission_drift ::
    "resolved_permissions \<Rightarrow> resolved_permissions \<Rightarrow> permission_snapshot_of \<Rightarrow> permission_snapshot_of \<Rightarrow>
      permission_error + (drift \<times> (string \<times> drift) list) option" where
  "permission_drift startup current startup_snapshot snapshot =
     chain (permission_snapshot_drift_changes startup_snapshot snapshot) (\<lambda>more.
     let changes = permission_drift_changes startup current @ more in
     Inr (map_option (\<lambda>d. (d, changes)) (combine_drift_directions (map snd changes))))"

section \<open>The adapter's memory\<close>

record permission_inputs =
  input_approval :: "bool option"
  input_network :: "bool option"
  input_write :: "bool option"

definition uses_auto :: "permission_inputs \<Rightarrow> bool" where
  "uses_auto inputs \<longleftrightarrow> input_approval inputs = None \<or> input_network inputs = None \<or> input_write inputs = None"

definition resolve_permissions :: "permission_inputs \<Rightarrow> permission_snapshot_of \<Rightarrow> resolved_permissions" where
  "resolve_permissions inputs snapshot =
     \<lparr>may_approve = coalesce (input_approval inputs) (may_approve (snap_permissions snapshot)),
      may_network = coalesce (input_network inputs) (may_network (snap_permissions snapshot)),
      may_write = coalesce (input_write inputs) (may_write (snap_permissions snapshot))\<rparr>"

record permission_memory =
  startup_permissions :: "resolved_permissions option"
  startup_permission_snapshot :: "permission_snapshot_of option"
  last_current_permissions :: "resolved_permissions option"
  last_current_permission_snapshot :: "permission_snapshot_of option"
  last_effective_permissions :: "resolved_permissions option"

text \<open>What the invalidation of a proof forgets, and what parking the session forgets.\<close>

definition forget_current :: "permission_memory \<Rightarrow> permission_memory" where
  "forget_current m =
     m\<lparr>last_current_permissions := None, last_current_permission_snapshot := None, last_effective_permissions := None\<rparr>"

definition forget_permissions :: "permission_memory \<Rightarrow> permission_memory" where
  "forget_permissions m =
     \<lparr>startup_permissions = None, startup_permission_snapshot = None, last_current_permissions = None,
      last_current_permission_snapshot = None, last_effective_permissions = None\<rparr>"

text \<open>\<open>stored\<close> says whether the daemon accepts the durable note of the permissions.\<close>

definition record_passive_adapter_permissions ::
    "bool \<Rightarrow> resolved_permissions option \<Rightarrow> resolved_permissions \<Rightarrow> permission_snapshot_of \<Rightarrow> permission_memory \<Rightarrow>
      (permission_error + unit) \<times> permission_memory" where
  "record_passive_adapter_permissions stored startup effective snapshot m =
     (if stored
      then (Inr (), (case startup of
          Some s \<Rightarrow> m\<lparr>startup_permissions := Some s, startup_permission_snapshot := Some snapshot\<rparr>
        | None \<Rightarrow> m)\<lparr>last_effective_permissions := Some effective\<rparr>)
      else (Inl RecordFailed, forget_current m))"

definition drift_to_record ::
    "resolved_permissions \<Rightarrow> permission_snapshot_of \<Rightarrow> permission_memory \<Rightarrow>
      permission_error + (drift \<times> (string \<times> drift) list) option" where
  "drift_to_record current snapshot m =
     (case startup_permissions m of
        None \<Rightarrow> Inr None
      | Some startup \<Rightarrow>
          if last_current_permissions m \<noteq> Some current \<or> last_current_permission_snapshot m \<noteq> Some snapshot
          then chain (ok_or MissingStartupSnapshot (startup_permission_snapshot m)) (\<lambda>startup_snapshot.
            permission_drift startup current startup_snapshot snapshot)
          else Inr None)"

definition sync_passive_adapter_permissions_from_snapshot ::
    "permission_inputs \<Rightarrow> bool \<Rightarrow> bool \<Rightarrow> permission_snapshot_of \<Rightarrow> permission_memory \<Rightarrow>
      (permission_error + resolved_permissions) \<times> permission_memory" where
  "sync_passive_adapter_permissions_from_snapshot inputs audited stored snapshot m =
     (if \<not> uses_auto inputs
      then (Inr \<lparr>may_approve = coalesce (input_approval inputs) False, may_network = coalesce (input_network inputs) False,
          may_write = coalesce (input_write inputs) False\<rparr>, m)
      else
        let current = resolve_permissions inputs snapshot;
            startup = coalesce (startup_permissions m) current;
            effective = effective_permissions startup current in
        case drift_to_record current snapshot m of
          Inl e \<Rightarrow> (Inl e, m)
        | Inr drift \<Rightarrow>
            if drift \<noteq> None \<and> \<not> audited then (Inl RecordFailed, m)
            else case record_passive_adapter_permissions stored
                (if startup_permissions m = None then Some startup else None) effective snapshot m of
              (Inl e, m) \<Rightarrow> (Inl e, m)
            | (Inr _, m) \<Rightarrow> (Inr effective,
                m\<lparr>last_current_permissions := Some current, last_current_permission_snapshot := Some snapshot\<rparr>))"

text \<open>
  \<open>response\<close> is the result of the \<open>thread/resume\<close> request, if it was answered; \<open>noted\<close> says whether the
  activity it shows could be recorded.
\<close>

definition refresh_cli_auto_delivery_permissions ::
    "permission_inputs \<Rightarrow> string \<Rightarrow> bool \<Rightarrow> bool \<Rightarrow> bool \<Rightarrow> json option \<Rightarrow> permission_memory \<Rightarrow>
      (permission_error + json option) \<times> permission_memory" where
  "refresh_cli_auto_delivery_permissions inputs bound_thread_id noted audited stored response m =
     (if \<not> uses_auto inputs then (Inr None, m)
      else case response of
        None \<Rightarrow> (Inl RequestFailed, forget_current m)
      | Some resume \<Rightarrow>
          (let activity = thread_result_activity_snapshot resume bound_thread_id in
           if activity = SnapMissing \<or> activity = SnapUntrusted then (Inl UntrustedSnapshot, forget_current m)
           else if \<not> noted then (Inl RecordFailed, forget_current m)
           else case parse_thread_resume_permission_snapshot resume of
             Inl e \<Rightarrow> (Inl e, m)
           | Inr snapshot \<Rightarrow>
               (case sync_passive_adapter_permissions_from_snapshot inputs audited stored snapshot m of
                  (Inl e, m) \<Rightarrow> (Inl e, m)
                | (Inr effective, m) \<Rightarrow>
                    if activity \<noteq> SnapIdle then (Inr None, m)
                    else case startup_permission_snapshot m of
                      None \<Rightarrow> (Inl MissingStartupSnapshot, m)
                    | Some startup \<Rightarrow>
                        (case turn_start_permission_overrides startup snapshot effective of
                           Inl e \<Rightarrow> (Inl e, m)
                         | Inr overrides \<Rightarrow> (Inr (Some overrides), m)))))"

text \<open>The answer of \<open>thread/resume\<close> when the adapter connects (\<open>run_cli_app_server_passive_adapter_once\<close>).\<close>

definition sync_on_connect :: "permission_inputs \<Rightarrow> string \<Rightarrow> bool \<Rightarrow> bool \<Rightarrow> json \<Rightarrow> permission_memory \<Rightarrow>
    (permission_error + unit) \<times> permission_memory" where
  "sync_on_connect inputs bound_thread_id audited stored resume m =
     (let activity = thread_result_activity_snapshot resume bound_thread_id in
      if activity = SnapUntrusted then (Inl UntrustedSnapshot, forget_current m)
      else if uses_auto inputs \<and> activity \<noteq> SnapMissing then
        (case parse_thread_resume_permission_snapshot resume of
           Inr snapshot \<Rightarrow>
             (case sync_passive_adapter_permissions_from_snapshot inputs audited stored snapshot m of
                (Inl e, m) \<Rightarrow> (Inl e, m)
              | (Inr _, m) \<Rightarrow> (Inr (), m))
         | Inl _ \<Rightarrow> (Inr (), forget_current m))
      else (Inr (), m))"

end
