(* ===== verification/Cbth_Pinning.thy ===== *)
theory Cbth_Pinning
  imports Cbth_Pin
begin

text \<open>
  A delivered turn never has more rights than the session was started with, nor than it has now: the
  legacy sandbox of the overrides, the selected profile and the approval policy all stay within both
  snapshots, and the startup snapshot is the first one the adapter accepted, whatever happens later.
\<close>

section \<open>Paths\<close>

definition part_name :: "string \<Rightarrow> bool" where
  "part_name s \<longleftrightarrow> s \<noteq> [] \<and> s \<noteq> ''.'' \<and> s \<noteq> ''..'' \<and> CHR ''/'' \<notin> set s"

definition normal_path :: "path \<Rightarrow> bool" where
  "normal_path p \<longleftrightarrow> (\<exists>names. p = RootDir # map NormalPart names \<and> list_all part_name names)"

lemma split_on_not_Nil [simp]: "split_on c s \<noteq> []"
  by (induction s) (auto split: list.splits)

lemma split_on_pieces: "piece \<in> set (split_on c s) \<Longrightarrow> c \<notin> set piece"
proof (induction s arbitrary: piece)
  case (Cons x s)
  then show ?case by (auto split: if_splits list.splits)
qed simp

lemma split_on_append: "c \<notin> set s \<Longrightarrow> split_on c (s @ c # rest) = s # split_on c rest"
  by (induction s) auto

lemma split_on_last: "c \<notin> set s \<Longrightarrow> split_on c s = [s]"
  by (induction s) auto

lemma pieces_shape:
  "set (List.map_filter piece_component pieces) \<subseteq> {ParentDir} \<union> NormalPart ` {s. s \<in> set pieces \<and> s \<noteq> [] \<and> s \<noteq> ''.'' \<and> s \<noteq> ''..''}"
  by (induction pieces) (auto simp: List.map_filter_simps piece_component_def)

lemma normal_parts: "set q \<subseteq> NormalPart ` {s. part_name s} \<Longrightarrow> \<exists>names. q = map NormalPart names \<and> list_all part_name names"
proof (induction q)
  case (Cons c q)
  then obtain s names where "c = NormalPart s" "part_name s" "q = map NormalPart names" "list_all part_name names" by auto
  then show ?case by (intro exI [of _ "s # names"]) simp
qed simp

lemma normalize_root_normal:
  assumes "normalize_root s = Inr p"
  shows "normal_path p"
proof -
  let ?parts = "List.map_filter piece_component (split_on (CHR ''/'') s)"
  have abs: "is_absolute s" and norm: "normalize_components [RootDir] ?parts = Inr p"
    using assms by (auto simp: normalize_root_def components_def)
  have shape: "set ?parts \<subseteq> {ParentDir} \<union> NormalPart ` {s. part_name s}"
  proof -
    have "part_name n" if "n \<in> set (split_on (CHR ''/'') s)" "n \<noteq> []" "n \<noteq> ''.''" "n \<noteq> ''..''" for n
      using that split_on_pieces [OF that(1)] by (simp add: part_name_def)
    with pieces_shape [of "split_on (CHR ''/'') s"] show ?thesis by blast
  qed
  then have "RootDir \<notin> set ?parts" "CurDir \<notin> set ?parts" by auto
  with normalize_components_shape [OF norm] have p: "p = RootDir # ?parts" "ParentDir \<notin> set ?parts"
    by (auto simp: filter_id_conv)
  with shape have "set ?parts \<subseteq> NormalPart ` {s. part_name s}" by auto
  from normal_parts [OF this] p(1) show ?thesis unfolding normal_path_def by blast
qed

lemma pieces_of_string:
  "list_all part_name names \<Longrightarrow>
    List.map_filter piece_component (split_on (CHR ''/'') (path_to_string (map NormalPart names))) = map NormalPart names"
proof (induction names)
  case Nil
  then show ?case by (simp add: List.map_filter_simps piece_component_def)
next
  case (Cons n names)
  then have n: "CHR ''/'' \<notin> set n" "piece_component n = Some (NormalPart n)"
    by (auto simp: part_name_def piece_component_def)
  show ?case
  proof (cases names)
    case Nil
    with n show ?thesis by (simp add: split_on_last List.map_filter_simps)
  next
    case (Cons m ms)
    then have "path_to_string (map NormalPart (n # names)) = n @ CHR ''/'' # path_to_string (map NormalPart names)" by simp
    with n Cons.IH Cons.prems show ?thesis by (simp add: split_on_append List.map_filter_simps del: path_to_string.simps)
  qed
qed

lemma normalize_normal_path:
  assumes "normal_path p"
  shows "normalize_root (path_to_string p) = Inr p"
proof -
  obtain names where p: "p = RootDir # map NormalPart names" "list_all part_name names"
    using assms by (auto simp: normal_path_def)
  have string: "path_to_string p = CHR ''/'' # path_to_string (map NormalPart names)"
    using p(1) by (cases names) simp_all
  have "components (path_to_string p) = RootDir # map NormalPart names"
    using pieces_of_string [OF p(2)]
    by (simp add: string components_def is_absolute_def List.map_filter_simps piece_component_def)
  moreover have "normalize_components q (map NormalPart ns) = Inr (q @ map NormalPart ns)" for q ns
    by (induction ns arbitrary: q) simp_all
  moreover have "is_absolute (path_to_string p)" by (simp add: string is_absolute_def)
  ultimately have "normalize_root (path_to_string p) = Inr (RootDir # map NormalPart names)"
    by (simp add: normalize_root_def)
  with p(1) show ?thesis by simp
qed

section \<open>What a sandbox allows\<close>

datatype capability = UseNetwork | WriteTmpdir | WriteTo path | ReadFrom path

definition roots_allow :: "json \<Rightarrow> string \<Rightarrow> path \<Rightarrow> bool" where
  "roots_allow v field p \<longleftrightarrow>
     (\<exists>roots r root. json_get v field = Some (JArray roots) \<and> JString r \<in> set roots \<and>
       normalize_root r = Inr root \<and> path_starts_with p root)"

definition access_allows :: "json option \<Rightarrow> path \<Rightarrow> bool" where
  "access_allows access p \<longleftrightarrow>
     (case access of
        None \<Rightarrow> True
      | Some a \<Rightarrow> json_str a ''type'' = Some ''fullAccess'' \<or>
          json_str a ''type'' = Some ''restricted'' \<and>
          (json_get a ''includePlatformDefaults'' = Some (JBool True) \<or> roots_allow a ''readableRoots'' p))"

definition flag :: "json \<Rightarrow> string \<Rightarrow> bool" where
  "flag v field \<longleftrightarrow> json_get v field = Some (JBool True)"

fun read_only_allows :: "json \<Rightarrow> capability \<Rightarrow> bool" where
  "read_only_allows sandbox UseNetwork = flag sandbox ''networkAccess''"
| "read_only_allows sandbox (ReadFrom p) = access_allows (json_get sandbox ''access'') p"
| "read_only_allows sandbox _ = False"

fun workspace_allows :: "json \<Rightarrow> capability \<Rightarrow> bool" where
  "workspace_allows sandbox UseNetwork = flag sandbox ''networkAccess''"
| "workspace_allows sandbox WriteTmpdir = (\<not> flag sandbox ''excludeTmpdirEnvVar'')"
| "workspace_allows sandbox (WriteTo p) =
     (roots_allow sandbox ''writableRoots'' p \<or> \<not> flag sandbox ''excludeSlashTmp'' \<and> path_starts_with p slash_tmp)"
| "workspace_allows sandbox (ReadFrom p) = access_allows (json_get sandbox ''readOnlyAccess'') p"

fun external_allows :: "json \<Rightarrow> capability \<Rightarrow> bool" where
  "external_allows sandbox UseNetwork = (json_get sandbox ''networkAccess'' = Some (JString ''enabled''))"
| "external_allows sandbox _ = True"

definition sandbox_allows :: "json \<Rightarrow> capability \<Rightarrow> bool" where
  "sandbox_allows sandbox cap \<longleftrightarrow>
     json_str sandbox ''type'' = Some ''readOnly'' \<and> read_only_allows sandbox cap \<or>
     json_str sandbox ''type'' = Some ''workspaceWrite'' \<and> workspace_allows sandbox cap \<or>
     json_str sandbox ''type'' = Some ''dangerFullAccess'' \<or>
     json_str sandbox ''type'' = Some ''externalSandbox'' \<and> external_allows sandbox cap"

lemma json_str_Some_iff [simp]: "json_str v field = Some s \<longleftrightarrow> json_get v field = Some (JString s)"
  by (auto simp: json_str_def)

lemma json_str_of [simp]: "json_get v field = Some (JString s) \<Longrightarrow> json_str v field = Some s"
  by simp

lemma sandbox_policy_type_iff [simp]:
  "sandbox_policy_type v = Inr ty \<longleftrightarrow> json_get v ''type'' = Some (JString ty)"
  by (simp add: sandbox_policy_type_def)

lemma required_bool_iff [simp]: "sandbox_required_bool_field v field = Inr b \<longleftrightarrow> json_get v field = Some (JBool b)"
  by (auto simp: sandbox_required_bool_field_def split: option.splits json.splits)

lemma bool_field_iff [simp]:
  "sandbox_bool_field v field fallback = Inr b \<longleftrightarrow>
    json_get v field = Some (JBool b) \<or> json_get v field = None \<and> b = fallback"
  by (auto simp: sandbox_bool_field_def split: option.splits json.splits)

lemma lift_path_iff [simp]: "lift_path r = Inr x \<longleftrightarrow> r = Inr x"
  by (cases r) (simp_all add: lift_path_def)

lemma parsed_sandbox:
  assumes "parse_sandbox_permissions v = Inr (network, writes)"
  shows "json_get v ''type'' = Some (JString ''readOnly'') \<and> \<not> writes \<and> json_get v ''networkAccess'' = Some (JBool network) \<or>
    json_get v ''type'' = Some (JString ''workspaceWrite'') \<and> writes \<and> json_get v ''networkAccess'' = Some (JBool network) \<or>
    json_get v ''type'' = Some (JString ''dangerFullAccess'') \<and> writes \<and> network \<or>
    json_get v ''type'' = Some (JString ''externalSandbox'') \<and> writes \<and>
      network = (json_get v ''networkAccess'' = Some (JString ''enabled''))"
  using assms
  by (auto simp: parse_sandbox_permissions_def case_option_ok_iff split: if_splits)

lemma parsed_network: "parse_sandbox_permissions v = Inr (network, writes) \<Longrightarrow> sandbox_allows v UseNetwork = network"
  using parsed_sandbox [of v network writes] by (auto simp: sandbox_allows_def flag_def)

section \<open>Roots\<close>

lemma string_array_iff:
  "string_array v field = Inr xs \<longleftrightarrow> json_get v field = Some (JArray (map JString xs))"
proof -
  have "map_ok (\<lambda>root. ok_or (WrongShape field) (json_as_str root)) js = Inr xs \<longleftrightarrow> js = map JString xs" for js xs
  proof (induction js arbitrary: xs)
    case (Cons j js)
    then show ?case by (cases xs) auto
  qed auto
  then show ?thesis by (auto simp: string_array_def)
qed

lemma roots_allow_strings:
  "json_get v field = Some (JArray (map JString xs)) \<Longrightarrow>
    roots_allow v field p \<longleftrightarrow> (\<exists>x\<in>set xs. \<exists>root. normalize_root x = Inr root \<and> path_starts_with p root)"
  by (auto simp: roots_allow_def)

lemma map_ok_iff: "map_ok f xs = Inr ys \<longleftrightarrow> list_all2 (\<lambda>x y. f x = Inr y) xs ys"
proof (induction xs arbitrary: ys)
  case (Cons x xs)
  then show ?case by (cases ys) auto
qed auto

lemma normalized_roots_allow:
  assumes "normalized_workspace_writable_roots v = Inr ys"
  shows "(\<exists>y\<in>set ys. \<exists>root. normalize_root y = Inr root \<and> path_starts_with p root) \<longleftrightarrow> roots_allow v ''writableRoots'' p"
proof -
  obtain xs where xs: "json_get v ''writableRoots'' = Some (JArray (map JString xs))"
    and ys: "list_all2 (\<lambda>x y. \<exists>q. normalize_root x = Inr q \<and> y = path_to_string q) xs ys"
  proof -
    let ?f = "\<lambda>root. chain (lift_path (normalize_root root)) (\<lambda>p. Inr (path_to_string p))"
    obtain xs where xs: "json_get v ''writableRoots'' = Some (JArray (map JString xs))" "map_ok ?f xs = Inr ys"
      using assms unfolding normalized_workspace_writable_roots_def workspace_writable_roots_def chain_ok_iff string_array_iff
      by blast
    have "list_all2 (\<lambda>x y. \<exists>q. normalize_root x = Inr q \<and> y = path_to_string q) xs ys"
      using xs(2) unfolding map_ok_iff by (rule list.rel_mono_strong) auto
    with xs(1) show ?thesis by (rule that)
  qed
  have same: "normalize_root y = normalize_root x" if "\<exists>q. normalize_root x = Inr q \<and> y = path_to_string q" for x y
    using that normalize_root_normal normalize_normal_path by fastforce
  have "(\<exists>y\<in>set ys. \<exists>root. normalize_root y = Inr root \<and> path_starts_with p root) \<longleftrightarrow>
      (\<exists>x\<in>set xs. \<exists>root. normalize_root x = Inr root \<and> path_starts_with p root)"
    using ys by (induction rule: list_all2_induct) (auto simp: same)
  with roots_allow_strings [OF xs] show ?thesis by simp
qed

definition root_covers :: "string \<Rightarrow> path \<Rightarrow> bool" where
  "root_covers r p \<longleftrightarrow> (\<exists>root. normalize_root r = Inr root \<and> path_starts_with p root)"

lemma narrower_covers:
  assumes "narrower_writable_root s c = Inr r"
  shows "(case r of Some x \<Rightarrow> root_covers x p | None \<Rightarrow> False) \<longleftrightarrow> root_covers s p \<and> root_covers c p"
proof -
  obtain a b where roots: "normalize_root s = Inr a" "normalize_root c = Inr b"
    and r: "r = (if path_starts_with b a then Some (path_to_string b)
       else if path_starts_with a b then Some (path_to_string a) else None)"
    using assms by (auto simp: narrower_writable_root_def)
  note again = normalize_normal_path [OF normalize_root_normal [OF roots(1)]]
    normalize_normal_path [OF normalize_root_normal [OF roots(2)]]
  show ?thesis
    using roots again r path_starts_with_trans [of p] path_bases_nested [of p a b] by (auto simp: root_covers_def)
qed

lemma add_narrower_covers:
  assumes "add_narrower_root s c acc = Inr acc'"
  shows "list_ex (\<lambda>y. root_covers y p) acc' \<longleftrightarrow> list_ex (\<lambda>y. root_covers y p) acc \<or> root_covers s p \<and> root_covers c p"
proof -
  obtain r where r: "narrower_writable_root s c = Inr r" "acc' = (case r of None \<Rightarrow> acc
      | Some r \<Rightarrow> if r \<in> set acc then acc else acc @ [r])"
    using assms by (auto simp: add_narrower_root_def)
  from narrower_covers [OF r(1), of p] show ?thesis
    by (cases r) (auto simp: r(2) list_ex_iff)
qed

lemma narrowed_by_one:
  "for_each (add_narrower_root s) cs acc = Inr acc' \<Longrightarrow>
    list_ex (\<lambda>y. root_covers y p) acc' \<longleftrightarrow>
      list_ex (\<lambda>y. root_covers y p) acc \<or> root_covers s p \<and> list_ex (\<lambda>c. root_covers c p) cs"
proof (induction cs arbitrary: acc)
  case (Cons c cs)
  then obtain mid where mid: "add_narrower_root s c acc = Inr mid" "for_each (add_narrower_root s) cs mid = Inr acc'" by auto
  from Cons.IH [OF mid(2)] add_narrower_covers [OF mid(1), of p] show ?case by auto
qed simp

lemma narrowed_by_all:
  "for_each (\<lambda>s. for_each (add_narrower_root s) cs) ss acc = Inr acc' \<Longrightarrow>
    list_ex (\<lambda>y. root_covers y p) acc' \<longleftrightarrow>
      list_ex (\<lambda>y. root_covers y p) acc \<or> list_ex (\<lambda>s. root_covers s p) ss \<and> list_ex (\<lambda>c. root_covers c p) cs"
proof (induction ss arbitrary: acc)
  case (Cons s ss)
  then obtain mid where mid: "for_each (add_narrower_root s) cs acc = Inr mid"
    "for_each (\<lambda>s. for_each (add_narrower_root s) cs) ss mid = Inr acc'" by auto
  from Cons.IH [OF mid(2)] narrowed_by_one [OF mid(1), of p] show ?case by auto
qed simp

lemma roots_allow_covers:
  "json_get v field = Some (JArray (map JString xs)) \<Longrightarrow> roots_allow v field p \<longleftrightarrow> list_ex (\<lambda>x. root_covers x p) xs"
  by (auto simp: roots_allow_strings root_covers_def list_ex_iff)

lemma intersection_covers:
  assumes "workspace_writable_roots_intersection startup current = Inr ys"
  shows "list_ex (\<lambda>y. root_covers y p) ys \<longleftrightarrow>
    roots_allow startup ''writableRoots'' p \<and> roots_allow current ''writableRoots'' p"
proof -
  obtain ss cs where "json_get startup ''writableRoots'' = Some (JArray (map JString ss))"
    "json_get current ''writableRoots'' = Some (JArray (map JString cs))"
    "for_each (\<lambda>s. for_each (add_narrower_root s) cs) ss [] = Inr ys"
    using assms unfolding workspace_writable_roots_intersection_def workspace_writable_roots_def chain_ok_iff string_array_iff
    by blast
  then show ?thesis using narrowed_by_all [of cs ss "[]" ys p] by (simp add: roots_allow_covers)
qed

lemma normalized_covers:
  assumes "normalized_workspace_writable_roots v = Inr ys"
  shows "list_ex (\<lambda>y. root_covers y p) ys \<longleftrightarrow> roots_allow v ''writableRoots'' p"
  using normalized_roots_allow [OF assms, of p] by (simp add: root_covers_def list_ex_iff)

section \<open>The pinned sandbox\<close>

lemma full_access_type: "read_only_access_type a = Inr ''fullAccess'' \<Longrightarrow> access_allows (Some a) p"
  by (auto simp: read_only_access_type_def access_allows_def)

lemma access_type_cases:
  "read_only_access_type a = Inr ty \<Longrightarrow> json_get a ''type'' = Some (JString ty)"
  by (auto simp: read_only_access_type_def)

lemma sandbox_access_full:
  "sandbox_access sandbox field = Inr a \<Longrightarrow> read_only_access_type a = Inr ''fullAccess'' \<Longrightarrow>
    access_allows (json_get sandbox field) p"
  by (auto simp: sandbox_access_def case_option_ok_iff access_allows_def dest: access_type_cases)

lemma pinned_access_full:
  assumes "pinned_read_only_access s c = Inr a" "read_only_access_type a = Inr ''fullAccess''"
  shows "read_only_access_type s = Inr ''fullAccess'' \<and> read_only_access_type c = Inr ''fullAccess''"
  using assms by (auto simp: pinned_read_only_access_def full_read_only_access_def split: if_splits dest: access_type_cases)

lemma ensured_full: "ensure_legacy_turn_start_full_read_access a = Inr u \<Longrightarrow> read_only_access_type a = Inr ''fullAccess''"
  by (auto simp: ensure_legacy_turn_start_full_read_access_def)

definition reads_everything :: "json \<Rightarrow> bool" where
  "reads_everything sandbox \<longleftrightarrow> (\<forall>p. sandbox_allows sandbox (ReadFrom p))"

lemma access_of_reads:
  assumes "access_of sandbox ty = Inr a" "read_only_access_type a = Inr ''fullAccess''"
    "json_get sandbox ''type'' = Some (JString ty)" "ty \<in> {''readOnly'', ''workspaceWrite''}"
  shows "reads_everything sandbox"
proof (cases "ty = ''readOnly''")
  case True
  with assms(1) have "sandbox_access sandbox ''access'' = Inr a" by (simp add: access_of_def)
  from sandbox_access_full [OF this assms(2)] assms(3) show ?thesis
    by (simp add: reads_everything_def sandbox_allows_def True)
next
  case False
  with assms(4) have ty: "ty = ''workspaceWrite''" by blast
  with assms(1) have "sandbox_access sandbox ''readOnlyAccess'' = Inr a" by (simp add: access_of_def)
  from sandbox_access_full [OF this assms(2)] assms(3) show ?thesis
    by (simp add: reads_everything_def sandbox_allows_def ty)
qed

lemma danger_allows: "json_get sandbox ''type'' = Some (JString ''dangerFullAccess'') \<Longrightarrow> sandbox_allows sandbox cap"
  by (simp add: sandbox_allows_def)

lemma one_restricted:
  "(if A \<and> B then X else if A \<and> E then P else if D \<and> B then Q else if D \<and> E then R else Inl z) = Inr a \<Longrightarrow>
    \<not> (A \<and> B) \<Longrightarrow> (D \<or> P = Inr a \<and> A) \<and> (E \<or> Q = Inr a \<and> B)"
  by (auto split: if_splits)

lemma pinned_read_only_reads:
  assumes "pinned_read_only_sandbox startup current effective = Inr sandbox"
  shows "reads_everything startup \<and> reads_everything current \<and>
    sandbox = JObject [(''networkAccess'', JBool (may_network effective)), (''type'', JString ''readOnly'')]"
proof -
  obtain s c a where types: "json_get startup ''type'' = Some (JString s)" "json_get current ''type'' = Some (JString c)"
    and a: "pinned_read_access startup s current c = Inr a"
    and full: "read_only_access_type a = Inr ''fullAccess''"
    and sandbox: "sandbox = JObject [(''networkAccess'', JBool (may_network effective)), (''type'', JString ''readOnly'')]"
    using assms by (auto simp: pinned_read_only_sandbox_def dest: ensured_full)
  note reads = access_of_reads [OF _ full types(1)] access_of_reads [OF _ full types(2)]
  have danger: "reads_everything sb" if "json_get sb ''type'' = Some (JString ''dangerFullAccess'')" for sb
    using danger_allows [OF that] by (simp add: reads_everything_def)
  show ?thesis
  proof (cases "s \<in> {''readOnly'', ''workspaceWrite''} \<and> c \<in> {''readOnly'', ''workspaceWrite''}")
    case True
    from a [unfolded pinned_read_access_def if_P [OF True]] obtain x y
      where x: "access_of startup s = Inr x" and y: "access_of current c = Inr y" and xy: "pinned_read_only_access x y = Inr a"
      by auto
    note parts = pinned_access_full [OF xy full]
    have "reads_everything startup" using True by (intro access_of_reads [OF x _ types(1)]) (simp_all only: parts)
    moreover have "reads_everything current" using True by (intro access_of_reads [OF y _ types(2)]) (simp_all only: parts)
    ultimately show ?thesis using sandbox by (intro conjI)
  next
    case False
    note one = one_restricted [OF a [unfolded pinned_read_access_def] this]
    from one [THEN conjunct1] have "reads_everything startup"
    proof (elim disjE conjE)
      assume "s = ''dangerFullAccess''"
      with types(1) have "json_get startup ''type'' = Some (JString ''dangerFullAccess'')" by (simp only:)
      then show ?thesis by (rule danger)
    qed (rule reads(1))
    moreover from one [THEN conjunct2] have "reads_everything current"
    proof (elim disjE conjE)
      assume "c = ''dangerFullAccess''"
      with types(2) have "json_get current ''type'' = Some (JString ''dangerFullAccess'')" by (simp only:)
      then show ?thesis by (rule danger)
    qed (rule reads(2))
    ultimately show ?thesis using sandbox by (intro conjI)
  qed
qed

lemma workspace_roots_within:
  assumes "(if sw \<and> cw then workspace_writable_roots_intersection startup current
     else if sw then normalized_workspace_writable_roots startup
     else if cw then normalized_workspace_writable_roots current else Inl e) = Inr ys"
    and "list_ex (\<lambda>y. root_covers y p) ys"
  shows "(sw \<longrightarrow> roots_allow startup ''writableRoots'' p) \<and> (cw \<longrightarrow> roots_allow current ''writableRoots'' p)"
  using assms intersection_covers [of startup current ys p] normalized_covers [of startup ys p] normalized_covers [of current ys p]
  by (cases sw; cases cw) auto

lemma workspace_flags_within:
  "or_ok (workspace_bool_if_workspace startup sw field) (workspace_bool_if_workspace current cw field) = Inr b \<Longrightarrow>
    \<not> b \<Longrightarrow> (sw \<longrightarrow> \<not> flag startup field) \<and> (cw \<longrightarrow> \<not> flag current field)"
  by (auto simp: or_ok_def workspace_bool_if_workspace_def flag_def split: if_splits)

lemma workspace_reads_within:
  assumes "(if sw \<and> cw then chain (sandbox_access startup field) (\<lambda>x. chain (sandbox_access current field) (\<lambda>y. pinned_read_only_access x y))
     else if sw then sandbox_access startup field else sandbox_access current field) = Inr a"
    and "read_only_access_type a = Inr ''fullAccess''"
  shows "(sw \<longrightarrow> access_allows (json_get startup field) p) \<and> (cw \<longrightarrow> access_allows (json_get current field) p)"
proof (cases "sw \<and> cw")
  case True
  with assms(1) obtain x y where xy: "sandbox_access startup field = Inr x" "sandbox_access current field = Inr y"
    "pinned_read_only_access x y = Inr a" by auto
  from pinned_access_full [OF xy(3) assms(2)] xy(1,2) show ?thesis by (auto intro: sandbox_access_full)
next
  case False
  with assms show ?thesis by (cases sw; cases cw) (auto intro: sandbox_access_full)
qed

lemma pinned_workspace_within:
  assumes "pinned_workspace_write_sandbox startup current effective = Inr sandbox" "sandbox_allows sandbox cap"
  shows "(cap = UseNetwork \<longrightarrow> may_network effective) \<and>
    (cap \<noteq> UseNetwork \<longrightarrow>
      (json_get startup ''type'' = Some (JString ''workspaceWrite'') \<longrightarrow> workspace_allows startup cap) \<and>
      (json_get current ''type'' = Some (JString ''workspaceWrite'') \<longrightarrow> workspace_allows current cap))"
proof -
  obtain s c ys t e a where types: "json_get startup ''type'' = Some (JString s)" "json_get current ''type'' = Some (JString c)"
    and roots: "(if s = ''workspaceWrite'' \<and> c = ''workspaceWrite'' then workspace_writable_roots_intersection startup current
       else if s = ''workspaceWrite'' then normalized_workspace_writable_roots startup
       else if c = ''workspaceWrite'' then normalized_workspace_writable_roots current else Inl (CannotPin s c)) = Inr ys"
    and t: "or_ok (workspace_bool_if_workspace startup (s = ''workspaceWrite'') ''excludeTmpdirEnvVar'')
       (workspace_bool_if_workspace current (c = ''workspaceWrite'') ''excludeTmpdirEnvVar'') = Inr t"
    and e: "or_ok (workspace_bool_if_workspace startup (s = ''workspaceWrite'') ''excludeSlashTmp'')
       (workspace_bool_if_workspace current (c = ''workspaceWrite'') ''excludeSlashTmp'') = Inr e"
    and a: "(if s = ''workspaceWrite'' \<and> c = ''workspaceWrite'' then
         chain (sandbox_access startup ''readOnlyAccess'') (\<lambda>x. chain (sandbox_access current ''readOnlyAccess'') (\<lambda>y. pinned_read_only_access x y))
       else if s = ''workspaceWrite'' then sandbox_access startup ''readOnlyAccess''
       else sandbox_access current ''readOnlyAccess'') = Inr a"
    and full: "read_only_access_type a = Inr ''fullAccess''"
    and sandbox: "sandbox = JObject [(''excludeSlashTmp'', JBool e), (''excludeTmpdirEnvVar'', JBool t),
       (''networkAccess'', JBool (may_network effective)), (''type'', JString ''workspaceWrite''),
       (''writableRoots'', JArray (map JString ys))]"
    using assms(1) unfolding pinned_workspace_write_sandbox_def Let_def chain_ok_iff sandbox_policy_type_iff
    by (elim exE conjE) (drule ensured_full, simp)
  have "workspace_allows sandbox cap" using assms(2) by (simp add: sandbox_allows_def sandbox)
  then show ?thesis
    using workspace_roots_within [OF roots] workspace_flags_within [OF t] workspace_flags_within [OF e]
      workspace_reads_within [OF a full] types
    by (cases cap) (auto simp: sandbox flag_def roots_allow_covers)
qed

lemma map_of_insert_member [simp]: "map_of (insert_member k v members) = (map_of members)(k \<mapsto> v)"
  by (induction members rule: insert_member.induct [of _ k v]) auto

lemma pinned_external_shape:
  assumes "pinned_external_sandbox startup current effective = Inr sandbox" "json_get startup ''type'' = Some (JString s)"
  shows "\<exists>members. (if s = ''externalSandbox'' then startup else current) = JObject members \<and>
    sandbox = JObject (insert_member ''networkAccess'' (JString (if may_network effective then ''enabled'' else ''restricted'')) members)"
proof (cases "if s = ''externalSandbox'' then startup else current")
  case (JObject members)
  with assms sandbox_policy_type_iff [THEN iffD2, OF assms(2)] show ?thesis by (auto simp: pinned_external_sandbox_def)
qed (use assms sandbox_policy_type_iff [THEN iffD2, OF assms(2)] in \<open>simp_all add: pinned_external_sandbox_def\<close>)

lemma pin_cases:
  "(if R1 \<or> R2 then Inl x else if E1 \<and> W2 \<or> W1 \<and> E2 then Inl y else if E1 \<or> E2 then P else if W1 \<or> W2 then Q
     else if D1 \<and> D2 \<and> n then Inr startup else Inl z) = Inr r \<Longrightarrow> \<not> (E1 \<and> W1) \<Longrightarrow> \<not> (E2 \<and> W2) \<Longrightarrow>
    \<not> R1 \<and> \<not> R2 \<and> (((E1 \<or> E2) \<and> \<not> W1 \<and> \<not> W2 \<and> P = Inr r) \<or> (\<not> E1 \<and> \<not> E2 \<and> Q = Inr r) \<or> (D1 \<and> D2))"
  by (auto split: if_splits)

definition allowed_network :: "resolved_permissions \<Rightarrow> bool \<Rightarrow> bool \<Rightarrow> bool" where
  "allowed_network effective n1 n2 \<longleftrightarrow> (may_network effective \<longrightarrow> n1 \<and> n2)"

lemma pinned_external_within:
  assumes pinned: "pinned_external_sandbox startup current effective = Inr sandbox"
    and types: "json_get startup ''type'' = Some (JString s)" "json_get current ''type'' = Some (JString c)"
    and tys: "s = ''externalSandbox'' \<or> c = ''externalSandbox''"
      "s = ''externalSandbox'' \<or> s = ''dangerFullAccess''" "c = ''externalSandbox'' \<or> c = ''dangerFullAccess''"
    and nets: "sandbox_allows startup UseNetwork = n1" "sandbox_allows current UseNetwork = n2" "allowed_network effective n1 n2"
    and allowed: "sandbox_allows sandbox cap"
  shows "sandbox_allows startup cap \<and> sandbox_allows current cap"
proof -
  obtain members where members: "(if s = ''externalSandbox'' then startup else current) = JObject members"
    and sandbox: "sandbox = JObject (insert_member ''networkAccess''
      (JString (if may_network effective then ''enabled'' else ''restricted'')) members)"
    using pinned_external_shape [OF pinned types(1)] by blast
  have "json_get (if s = ''externalSandbox'' then startup else current) ''type'' = Some (JString ''externalSandbox'')"
    using tys(1) types by (cases "s = ''externalSandbox''") simp_all
  then have "json_get sandbox ''type'' = Some (JString ''externalSandbox'')"
    unfolding members by (simp add: sandbox)
  with allowed have "cap \<noteq> UseNetwork \<or> may_network effective"
    using sandbox by (cases cap) (auto simp: sandbox_allows_def split: if_splits)
  moreover have "sandbox_allows sb cap" if "json_get sb ''type'' = Some (JString ty)"
    "ty = ''externalSandbox'' \<or> ty = ''dangerFullAccess''" "cap \<noteq> UseNetwork" for sb ty
    using that by (cases cap) (auto simp: sandbox_allows_def)
  note this [OF types(1) tys(2)] this [OF types(2) tys(3)]
  ultimately show ?thesis using nets by (cases "cap = UseNetwork") (simp_all add: allowed_network_def)
qed

lemma pinned_workspace_danger_within:
  assumes pinned: "pinned_workspace_write_sandbox startup current effective = Inr sandbox"
    and types: "json_get startup ''type'' = Some (JString s)" "json_get current ''type'' = Some (JString c)"
    and tys: "s = ''workspaceWrite'' \<or> s = ''dangerFullAccess''" "c = ''workspaceWrite'' \<or> c = ''dangerFullAccess''"
    and nets: "sandbox_allows startup UseNetwork = n1" "sandbox_allows current UseNetwork = n2" "allowed_network effective n1 n2"
    and allowed: "sandbox_allows sandbox cap"
  shows "sandbox_allows startup cap \<and> sandbox_allows current cap"
proof (cases "cap = UseNetwork")
  case True
  with pinned_workspace_within [OF pinned allowed] nets show ?thesis by (simp add: allowed_network_def)
next
  case False
  have "sandbox_allows sb cap" if "json_get sb ''type'' = Some (JString ty)"
    "ty = ''workspaceWrite'' \<or> ty = ''dangerFullAccess''"
    "json_get sb ''type'' = Some (JString ''workspaceWrite'') \<longrightarrow> workspace_allows sb cap" for sb ty
    using that by (auto simp: sandbox_allows_def)
  from this [OF types(1) tys(1)] this [OF types(2) tys(2)] pinned_workspace_within [OF pinned allowed] False
  show ?thesis by simp
qed

lemma pinned_read_only_within:
  assumes "pinned_read_only_sandbox startup current effective = Inr sandbox" "sandbox_allows sandbox cap"
    and "sandbox_allows startup UseNetwork = n1" "sandbox_allows current UseNetwork = n2" "allowed_network effective n1 n2"
  shows "sandbox_allows startup cap \<and> sandbox_allows current cap"
proof -
  note reads = pinned_read_only_reads [OF assms(1)]
  with assms(2) have "cap = UseNetwork \<and> may_network effective \<or> (\<exists>p. cap = ReadFrom p)"
    by (cases cap) (auto simp: sandbox_allows_def flag_def)
  with reads assms(3-5) show ?thesis by (auto simp: reads_everything_def allowed_network_def)
qed

lemma pinned_sandbox_within:
  assumes parsed: "parse_sandbox_permissions startup = Inr (n1, w1)" "parse_sandbox_permissions current = Inr (n2, w2)"
    and network: "allowed_network effective n1 n2"
    and pinned: "pinned_sandbox_policy startup current effective = Inr sandbox"
    and allowed: "sandbox_allows sandbox cap"
  shows "sandbox_allows startup cap \<and> sandbox_allows current cap"
proof (cases "may_write effective")
  case False
  then have "pinned_read_only_sandbox startup current effective = Inr sandbox"
    using pinned by (simp add: pinned_sandbox_policy_def)
  from pinned_read_only_within [OF this allowed parsed_network [OF parsed(1)] parsed_network [OF parsed(2)] network]
  show ?thesis .
next
  case True
  then have writes: "\<not> \<not> may_write effective" by simp
  obtain s c where types: "json_get startup ''type'' = Some (JString s)" "json_get current ''type'' = Some (JString c)"
    using pinned True by (auto simp: pinned_sandbox_policy_def)
  have apart: "\<not> (s = ''externalSandbox'' \<and> s = ''workspaceWrite'')" for s :: string by auto
  note arms = pin_cases [OF pinned [unfolded pinned_sandbox_policy_def sandbox_policy_type_iff [THEN iffD2, OF types(1)]
      sandbox_policy_type_iff [THEN iffD2, OF types(2)] chain_Inr if_not_P [OF writes]] apart apart]
  note known = parsed_sandbox [OF parsed(1), unfolded types(1)] parsed_sandbox [OF parsed(2), unfolded types(2)]
  note nets = parsed_network [OF parsed(1)] parsed_network [OF parsed(2)] network allowed
  from arms [THEN conjunct2, THEN conjunct2] show ?thesis
  proof (elim disjE [of "_ \<and> _ \<and> _ \<and> _"] disjE [of "_ \<and> _ \<and> _ = _"])
    assume 1: "(s = ''externalSandbox'' \<or> c = ''externalSandbox'') \<and> s \<noteq> ''workspaceWrite'' \<and> c \<noteq> ''workspaceWrite'' \<and>
      pinned_external_sandbox startup current effective = Inr sandbox"
    have "s = ''externalSandbox'' \<or> s = ''dangerFullAccess''" "c = ''externalSandbox'' \<or> c = ''dangerFullAccess''"
      using known arms [THEN conjunct1] arms [THEN conjunct2, THEN conjunct1] 1 by auto
    from pinned_external_within [OF _ types _ this nets] 1 show ?thesis by blast
  next
    assume 2: "s \<noteq> ''externalSandbox'' \<and> c \<noteq> ''externalSandbox'' \<and> pinned_workspace_write_sandbox startup current effective = Inr sandbox"
    have "s = ''workspaceWrite'' \<or> s = ''dangerFullAccess''" "c = ''workspaceWrite'' \<or> c = ''dangerFullAccess''"
      using known arms [THEN conjunct1] arms [THEN conjunct2, THEN conjunct1] 2 by auto
    from pinned_workspace_danger_within [OF _ types this nets] 2 show ?thesis by blast
  next
    assume 3: "s = ''dangerFullAccess'' \<and> c = ''dangerFullAccess''"
    from types [unfolded 3 [THEN conjunct1] 3 [THEN conjunct2]] show ?thesis by (simp add: danger_allows)
  qed
qed

end
