(* ===== verification/Cbth_ProfileScope.thy ===== *)
theory Cbth_ProfileScope
  imports Cbth_Pinning
begin

text \<open>
  What a permission profile grants, as bounds: at most, counting every scope the code cannot represent as
  granted, and at least, counting it as refused. When the code finds one scope within another, all that
  the one may grant is surely granted by the other; a profile that is selected again for a delivered
  turn therefore stays within the startup snapshot.
\<close>

section \<open>Grants\<close>

text \<open>The places the special kinds stand for; \<open>other_scope\<close> are the subpaths of the project roots and the like.\<close>

record special_places =
  tmpdir_place :: path
  project_places :: "path list"
  other_scope :: "string \<Rightarrow> path \<Rightarrow> bool"

definition in_special :: "special_places \<Rightarrow> string \<Rightarrow> path \<Rightarrow> bool" where
  "in_special env kind p \<longleftrightarrow>
     (if kind = ''root'' then True
      else if kind = ''slash_tmp'' then path_starts_with p slash_tmp
      else if kind = ''tmpdir'' then path_starts_with p (tmpdir_place env)
      else if kind = ''project_roots'' then list_ex (path_starts_with p) (project_places env)
      else other_scope env kind p)"

definition scope_contains :: "special_places \<Rightarrow> path list \<Rightarrow> string set \<Rightarrow> path \<Rightarrow> bool" where
  "scope_contains env paths kinds p \<longleftrightarrow> list_ex (path_starts_with p) paths \<or> (\<exists>kind\<in>kinds. in_special env kind p)"

definition absolute_paths :: "path set" where
  "absolute_paths = {p. path_starts_with p [RootDir]}"

definition denied :: "special_places \<Rightarrow> profile_permissions \<Rightarrow> path set" where
  "denied env p = {path. scope_contains env (deny_paths p) (deny_special_kinds p) path}"

definition writes_at_most :: "special_places \<Rightarrow> profile_permissions \<Rightarrow> path set" where
  "writes_at_most env p =
     absolute_paths \<inter> {path. unrepresentable_write p \<or> scope_contains env (write_paths p) (write_special_kinds p) path} - denied env p"

definition writes_at_least :: "special_places \<Rightarrow> profile_permissions \<Rightarrow> path set" where
  "writes_at_least env p =
     absolute_paths \<inter> {path. \<not> unrepresentable_deny p \<and> scope_contains env (write_paths p) (write_special_kinds p) path} - denied env p"

definition reads_at_most :: "special_places \<Rightarrow> profile_permissions \<Rightarrow> path set" where
  "reads_at_most env p =
     absolute_paths \<inter> {path. unrepresentable_read p \<or> unrepresentable_write p \<or>
       scope_contains env (read_paths p @ write_paths p) (read_special_kinds p \<union> write_special_kinds p) path} - denied env p"

definition reads_at_least :: "special_places \<Rightarrow> profile_permissions \<Rightarrow> path set" where
  "reads_at_least env p =
     absolute_paths \<inter> {path. \<not> unrepresentable_deny p \<and>
       scope_contains env (read_paths p @ write_paths p) (read_special_kinds p \<union> write_special_kinds p) path} - denied env p"

lemma at_least_at_most: "reads_at_least env p \<subseteq> reads_at_most env p" "writes_at_least env p \<subseteq> writes_at_most env p"
  by (auto simp: reads_at_least_def reads_at_most_def writes_at_least_def writes_at_most_def)

section \<open>Coverage\<close>

lemma write_covers_contains:
  assumes "write_covers_path cap base" "path_starts_with p base"
  shows "scope_contains env (write_paths cap) (write_special_kinds cap) p"
  using assms path_starts_with_trans [OF assms(2)]
  by (auto simp: write_covers_path_def scope_contains_def in_special_def list_ex_iff intro: bexI)

lemma write_contains_reads:
  "scope_contains env (write_paths cap) (write_special_kinds cap) p \<Longrightarrow>
    scope_contains env (read_paths cap @ write_paths cap) (read_special_kinds cap \<union> write_special_kinds cap) p"
  by (auto simp: scope_contains_def)

lemma read_covers_contains:
  assumes "read_covers_path cap base" "path_starts_with p base"
  shows "scope_contains env (read_paths cap @ write_paths cap) (read_special_kinds cap \<union> write_special_kinds cap) p"
proof -
  consider "write_covers_path cap base" | "''root'' \<in> read_special_kinds cap"
    | "''slash_tmp'' \<in> read_special_kinds cap" "path_starts_with base slash_tmp"
    | "list_ex (path_starts_with base) (read_paths cap)"
    using assms(1) by (auto simp: read_covers_path_def)
  then show ?thesis
  proof cases
    case 1
    from write_covers_contains [OF this assms(2)] show ?thesis by (rule write_contains_reads)
  next
    case 3
    with path_starts_with_trans [OF assms(2)] show ?thesis
      by (auto simp: scope_contains_def in_special_def intro!: bexI [of _ "''slash_tmp''"])
  next
    case 4
    with path_starts_with_trans [OF assms(2)] show ?thesis by (auto simp: scope_contains_def list_ex_iff)
  qed (auto simp: scope_contains_def in_special_def intro!: bexI [of _ "''root''"])
qed

lemma write_kind_contains:
  assumes "write_covers_scope_kind cap kind" "in_special env kind p" "p \<in> absolute_paths"
  shows "scope_contains env (write_paths cap) (write_special_kinds cap) p"
proof -
  consider "kind = ''root''" | "kind = ''slash_tmp''" | "''root'' \<in> write_special_kinds cap" | "kind \<in> write_special_kinds cap"
    using assms(1) by (auto simp: write_covers_scope_kind_def write_covers_special_def split: if_splits)
  then show ?thesis
  proof cases
    case 1
    with assms show ?thesis
      by (auto simp: write_covers_scope_kind_def absolute_paths_def intro: write_covers_contains)
  next
    case 2
    with assms show ?thesis
      by (auto simp: write_covers_scope_kind_def in_special_def intro: write_covers_contains)
  next
    case 3
    then show ?thesis by (auto simp: scope_contains_def in_special_def intro!: bexI [of _ "''root''"])
  qed (use assms(2) in \<open>auto simp: scope_contains_def\<close>)
qed

lemma read_kind_contains:
  assumes "read_covers_special cap kind" "in_special env kind p" "p \<in> absolute_paths"
  shows "scope_contains env (read_paths cap @ write_paths cap) (read_special_kinds cap \<union> write_special_kinds cap) p"
proof -
  consider "kind = ''root''" | "kind = ''slash_tmp''" | "''root'' \<in> read_special_kinds cap" | "kind \<in> read_special_kinds cap"
    using assms(1) by (auto simp: read_covers_special_def split: if_splits)
  then show ?thesis
  proof cases
    case 1
    with assms show ?thesis
      by (auto simp: read_covers_special_def absolute_paths_def intro: read_covers_contains)
  next
    case 2
    with assms show ?thesis
      by (auto simp: read_covers_special_def in_special_def intro: read_covers_contains)
  next
    case 3
    then show ?thesis by (auto simp: scope_contains_def in_special_def intro!: bexI [of _ "''root''"])
  qed (use assms(2) in \<open>auto simp: scope_contains_def\<close>)
qed

lemma write_scope_contained:
  assumes "permission_profile_write_scope_within current cap" "p \<in> absolute_paths"
    and "unrepresentable_write current \<or> scope_contains env (write_paths current) (write_special_kinds current) p"
  shows "scope_contains env (write_paths cap) (write_special_kinds cap) p"
  using assms write_covers_contains [of cap _ p env] write_kind_contains [of cap _ env p]
  by (fastforce simp: permission_profile_write_scope_within_def absolute_paths_def scope_contains_def [of env "write_paths current"]
      list_ex_iff list_all_iff)

lemma read_scope_contained:
  assumes within: "permission_profile_read_scope_within current cap" "permission_profile_write_scope_within current cap"
    and p: "p \<in> absolute_paths"
    and granted: "unrepresentable_read current \<or> unrepresentable_write current \<or>
      scope_contains env (read_paths current @ write_paths current) (read_special_kinds current \<union> write_special_kinds current) p"
  shows "scope_contains env (read_paths cap @ write_paths cap) (read_special_kinds cap \<union> write_special_kinds cap) p"
proof -
  from granted consider "unrepresentable_write current \<or> scope_contains env (write_paths current) (write_special_kinds current) p"
    | "unrepresentable_read current \<or> scope_contains env (read_paths current) (read_special_kinds current) p"
    by (auto simp: scope_contains_def)
  then show ?thesis
  proof cases
    case 1
    from write_scope_contained [OF within(2) p this] show ?thesis by (rule write_contains_reads)
  next
    case 2
    then show ?thesis
      using within(1) p read_covers_contains [of cap _ p env] read_kind_contains [of cap _ env p]
      by (fastforce simp: permission_profile_read_scope_within_def absolute_paths_def
          scope_contains_def [of env "read_paths current"] list_ex_iff list_all_iff)
  qed
qed

section \<open>Denials\<close>

definition denials_recorded :: "profile_permissions \<Rightarrow> bool" where
  "denials_recorded p \<longleftrightarrow>
     has_access_denials p \<or> deny_paths p = [] \<and> deny_special_kinds p = {} \<and> \<not> unrepresentable_deny p"

definition denials_kept :: "profile_permissions \<Rightarrow> profile_permissions \<Rightarrow> bool" where
  "denials_kept current cap \<longleftrightarrow> \<not> unrepresentable_deny cap \<and> (\<forall>env. denied env cap \<subseteq> denied env current)"

lemma preserved_denials_kept:
  assumes "denials_recorded cap" "has_access_denials cap \<longrightarrow> preserved"
    "preserved \<longrightarrow> current_permission_profile_denials_preserve_startup_denials current cap"
  shows "denials_kept current cap"
proof (cases "has_access_denials cap")
  case False
  with assms(1) show ?thesis by (auto simp: denials_recorded_def denials_kept_def denied_def scope_contains_def)
next
  case True
  with assms have kept: "\<not> unrepresentable_deny cap" "deny_special_kinds cap \<subseteq> deny_special_kinds current"
    "list_all (\<lambda>path. list_ex (path_starts_with path) (deny_paths current)) (deny_paths cap)"
    by (simp_all add: current_permission_profile_denials_preserve_startup_denials_def split: if_splits)
  then show ?thesis
    by (fastforce simp: denials_kept_def denied_def scope_contains_def list_ex_iff list_all_iff intro: path_starts_with_trans)
qed

lemma scope_within_grants:
  assumes "permission_profile_scope_within current cap preserved" "denials_kept current cap"
  shows "reads_at_most env current \<subseteq> reads_at_least env cap" "writes_at_most env current \<subseteq> writes_at_least env cap"
  using assms read_scope_contained [of current cap _ env] write_scope_contained [of current cap _ env]
  by (auto simp: permission_profile_scope_within_def denials_kept_def reads_at_most_def reads_at_least_def
      writes_at_most_def writes_at_least_def)

lemma new_permissions_recorded: "denials_recorded (new_permissions kind network)"
  by (simp add: denials_recorded_def new_permissions_def)

lemma record_scope_recorded:
  "denials_recorded p \<Longrightarrow> denials_recorded (record_read_scope scope p)"
  "denials_recorded p \<Longrightarrow> denials_recorded (record_write_scope scope p)"
  "denials_recorded (record_deny_scope scope p)"
  by (cases scope; simp add: denials_recorded_def)+

lemma record_entry_recorded:
  "record_profile_entry entry p = Inr q \<Longrightarrow> denials_recorded p \<Longrightarrow> denials_recorded q"
  by (auto simp: record_profile_entry_def case_option_ok_iff record_scope_recorded split: if_splits)

lemma restricted_recorded:
  assumes "parse_permission_profile_restricted_file_system fs p = Inr q" "denials_recorded p"
  shows "denials_recorded q"
proof -
  have "for_each record_profile_entry entries p = Inr q \<Longrightarrow> denials_recorded p \<Longrightarrow> denials_recorded q" for entries p
    by (induction entries arbitrary: p) (auto dest: record_entry_recorded)
  with assms show ?thesis by (auto simp: parse_permission_profile_restricted_file_system_def)
qed

lemma full_access_recorded: "denials_recorded p \<Longrightarrow> denials_recorded (record_full_file_system_access p)"
  by (simp add: denials_recorded_def record_full_file_system_access_def)

lemma file_system_recorded:
  "parse_permission_profile_file_system v required p = Inr q \<Longrightarrow> denials_recorded p \<Longrightarrow> denials_recorded q"
  by (auto simp: parse_permission_profile_file_system_def case_option_ok_iff full_access_recorded
      split: if_splits dest: restricted_recorded)

lemma external_recorded: "denials_recorded (external network)"
  by (simp add: external_def denials_recorded_def new_permissions_def)

lemma parsed_profile_recorded:
  assumes "parse_permission_profile_permissions v = Inr p"
  shows "denials_recorded p"
proof -
  consider network required where "parse_permission_profile_file_system (json_get v ''fileSystem'') required
      (new_permissions Managed network) = Inr p"
    | "p = full_access Disabled True" | network where "p = external network"
    using assms by (auto simp: parse_permission_profile_permissions_def case_option_ok_iff split: if_splits)
  then show ?thesis
    using file_system_recorded new_permissions_recorded full_access_recorded external_recorded
    by cases (auto simp: full_access_def)
qed

lemma legacy_cap_recorded:
  assumes "permission_scope_cap_from_legacy_sandbox sandbox = Inr (Some p)"
  shows "denials_recorded p"
proof -
  have reads: "record_sandbox_read_access q a = Inr r \<Longrightarrow> denials_recorded q \<Longrightarrow> denials_recorded r" for q a r
    by (auto simp: record_sandbox_read_access_def denials_recorded_def split: if_splits)
  have writes: "denials_recorded (q\<lparr>pp_write_access := b\<rparr>) = denials_recorded q"
    "denials_recorded (q\<lparr>write_paths := ps, write_special_kinds := ks\<rparr>) = denials_recorded q" for q b ps ks
    by (simp_all add: denials_recorded_def)
  have "denials_recorded q" if "read_only_cap sandbox = Inr q \<or> workspace_write_cap sandbox = Inr q" for q
    using that new_permissions_recorded
    by (auto simp: read_only_cap_def workspace_write_cap_def writes simp del: if_split dest!: reads)
  with assms show ?thesis
    by (auto simp: permission_scope_cap_from_legacy_sandbox_def full_access_def full_access_recorded new_permissions_recorded
        split: if_splits)
qed

section \<open>The selected profile\<close>

text \<open>What the startup snapshot allows: its profile, or else the scope of its legacy sandbox.\<close>

definition startup_scope :: "permission_snapshot_of \<Rightarrow> permission_error + profile_permissions option" where
  "startup_scope snapshot =
     (case permission_profile snapshot of
        Some v \<Rightarrow> chain (parse_permission_profile_permissions v) (\<lambda>p. Inr (Some p))
      | None \<Rightarrow> permission_scope_cap_from_legacy_sandbox (sandbox_policy snapshot))"

lemma startup_scope_recorded: "startup_scope snapshot = Inr (Some p) \<Longrightarrow> denials_recorded p"
  by (auto simp: startup_scope_def split: option.splits dest: parsed_profile_recorded legacy_cap_recorded)

lemma legacy_denials: 
  assumes "denials_recorded cap" "permission_profile_scope_within current cap False"
  shows "denials_kept current cap"
  using assms by (intro preserved_denials_kept [of _ False]) (auto simp: permission_profile_scope_within_def)

definition no_more_than :: "profile_permissions \<Rightarrow> profile_permissions \<Rightarrow> bool" where
  "no_more_than p cap \<longleftrightarrow>
     (pp_network p \<longrightarrow> pp_network cap) \<and> (pp_write_access p \<longrightarrow> pp_write_access cap) \<and>
     (\<forall>env. reads_at_most env p \<subseteq> reads_at_least env cap \<and> writes_at_most env p \<subseteq> writes_at_least env cap)"

lemma no_more_than_trans: "no_more_than p q \<Longrightarrow> no_more_than q r \<Longrightarrow> no_more_than p r"
  using at_least_at_most unfolding no_more_than_def by (meson order_trans)

lemma scope_within_no_more:
  "permission_profile_scope_within p cap preserved \<Longrightarrow> denials_kept p cap \<Longrightarrow> no_more_than p cap"
  using scope_within_grants [of p cap preserved] by (auto simp: no_more_than_def permission_profile_scope_within_def)

lemma current_within_startup:
  assumes "current_permission_profile_scope_within_startup startup current = Inr True"
    "permission_profile current = Some v" "parse_permission_profile_permissions v = Inr cur"
  shows "(\<exists>cap. startup_scope startup = Inr (Some cap) \<and> (cap = cur \<or> no_more_than cur cap))"
proof (cases "permission_profile startup = Some v")
  case True
  with assms(3) show ?thesis by (simp add: startup_scope_def)
next
  case False
  show ?thesis
  proof (cases "permission_profile startup")
    case (Some w)
    with assms False obtain cap where cap: "parse_permission_profile_permissions w = Inr cap"
      and within: "permission_profile_scope_within cur cap (current_permission_profile_denials_preserve_startup_denials cur cap)"
      by (auto simp: current_permission_profile_scope_within_startup_def split: if_splits)
    have "denials_kept cur cap"
      using parsed_profile_recorded [OF cap] within
      by (intro preserved_denials_kept [of _ "current_permission_profile_denials_preserve_startup_denials cur cap"])
        (auto simp: permission_profile_scope_within_def)
    from scope_within_no_more [OF within this] Some cap show ?thesis by (simp add: startup_scope_def)
  next
    case None
    with assms obtain cap where cap: "permission_scope_cap_from_legacy_sandbox (sandbox_policy startup) = Inr (Some cap)"
      and within: "permission_profile_scope_within cur cap False"
      by (auto simp: current_permission_profile_scope_within_startup_def case_option_ok_iff split: if_splits)
    from scope_within_no_more [OF within legacy_denials [OF legacy_cap_recorded [OF cap] within]] None cap
    show ?thesis by (simp add: startup_scope_def)
  qed
qed

lemma selection_within_current:
  assumes "permission_profile_scope_within chosen cur (selection_denials_cover_permission_profile selection cur)"
    "permission_profile_cap_from_active_selection selection = Some chosen" "denials_recorded cur"
  shows "no_more_than chosen cur"
proof -
  have "selection_denials_cover_permission_profile selection cur \<longrightarrow>
      current_permission_profile_denials_preserve_startup_denials chosen cur"
    using assms(2)
    by (auto simp: selection_denials_cover_permission_profile_def current_permission_profile_denials_preserve_startup_denials_def
        permission_profile_cap_from_active_selection_def split: if_splits)
  with assms have "denials_kept chosen cur"
    by (intro preserved_denials_kept [of _ "selection_denials_cover_permission_profile selection cur"])
      (auto simp: permission_profile_scope_within_def)
  from scope_within_no_more [OF assms(1) this] show ?thesis .
qed

section \<open>What a snapshot grants\<close>

text \<open>
  The grants of a snapshot, read off its profile or, without one, off its sandbox, as \<open>sandbox_allows\<close>
  reads it and not as the code's cap does. What can be written can be read.
\<close>

definition sandbox_writes :: "special_places \<Rightarrow> json \<Rightarrow> path set" where
  "sandbox_writes env sandbox =
     {p. sandbox_allows sandbox (WriteTo p) \<or> sandbox_allows sandbox WriteTmpdir \<and> path_starts_with p (tmpdir_place env)}"

definition sandbox_reads :: "special_places \<Rightarrow> json \<Rightarrow> path set" where
  "sandbox_reads env sandbox = {p. sandbox_allows sandbox (ReadFrom p)} \<union> sandbox_writes env sandbox"

definition profile_of :: "permission_snapshot_of \<Rightarrow> profile_permissions option" where
  "profile_of snapshot =
     and_then (permission_profile snapshot)
       (\<lambda>v. case parse_permission_profile_permissions v of Inr p \<Rightarrow> Some p | Inl _ \<Rightarrow> None)"

definition snapshot_grants_profile :: "permission_snapshot_of \<Rightarrow> profile_permissions \<Rightarrow> bool" where
  "snapshot_grants_profile snapshot chosen \<longleftrightarrow>
     (if permission_profile snapshot = None
      then (pp_network chosen \<longrightarrow> sandbox_allows (sandbox_policy snapshot) UseNetwork) \<and>
        (\<forall>env. reads_at_most env chosen \<subseteq> sandbox_reads env (sandbox_policy snapshot) \<and>
          writes_at_most env chosen \<subseteq> sandbox_writes env (sandbox_policy snapshot))
      else (case profile_of snapshot of
          None \<Rightarrow> False
        | Some granted \<Rightarrow> (pp_network chosen \<longrightarrow> pp_network granted) \<and>
            (\<forall>env. reads_at_most env chosen \<subseteq> reads_at_least env granted \<and>
              writes_at_most env chosen \<subseteq> writes_at_least env granted)))"

text \<open>The readable roots of a sandbox whose reads are restricted; a root like \<open>.\<close> is the empty path.\<close>

definition readable_roots :: "json \<Rightarrow> string set" where
  "readable_roots sandbox = {r. \<exists>access roots.
     json_get sandbox (if json_str sandbox ''type'' = Some ''readOnly'' then ''access'' else ''readOnlyAccess'') = Some access \<and>
     json_str access ''type'' = Some ''restricted'' \<and> json_get access ''readableRoots'' = Some (JArray roots) \<and>
     JString r \<in> set roots}"

definition roots_nonempty :: "permission_snapshot_of \<Rightarrow> bool" where
  "roots_nonempty snapshot \<longleftrightarrow> permission_profile snapshot = None \<longrightarrow>
     (\<forall>r\<in>readable_roots (sandbox_policy snapshot). normalize_path r \<noteq> Inr [])"

lemma normalize_relative:
  assumes "normalize_path s = Inr q" "\<not> is_absolute s"
  shows "RootDir \<notin> set q"
proof -
  have "RootDir \<notin> set (List.map_filter piece_component xs)" for xs
    by (induction xs) (auto simp: List.map_filter_simps piece_component_def)
  then have "RootDir \<notin> set (components s)" using assms(2) by (simp add: components_def)
  with assms(1) normalize_components_shape [of "[]" "components s" q] show ?thesis by (simp add: normalize_path_def)
qed

text \<open>A root that an absolute path starts with is absolute, unless it is the empty path.\<close>

lemma normalize_path_root:
  assumes "normalize_path s = Inr q" "q \<noteq> []" "path_starts_with p q" "p \<in> absolute_paths"
  shows "normalize_root s = Inr q"
proof (cases "is_absolute s")
  case True
  with assms(1) show ?thesis by (simp add: normalize_root_def normalize_path_def)
next
  case False
  with normalize_relative assms(1) have "RootDir \<notin> set q" by blast
  with assms(2-4) show ?thesis by (cases q) (auto simp: absolute_paths_def path_starts_with_iff)
qed

definition restricted_roots_nonempty :: "json \<Rightarrow> bool" where
  "restricted_roots_nonempty access \<longleftrightarrow> (\<forall>roots r. json_str access ''type'' = Some ''restricted'' \<and>
     json_get access ''readableRoots'' = Some (JArray roots) \<and> JString r \<in> set roots \<longrightarrow> normalize_path r \<noteq> Inr [])"

lemma read_access_cap:
  assumes op: "record_sandbox_read_access q0 access = Inr q" and "read_paths q0 = []" "read_special_kinds q0 = {}"
    and roots: "restricted_roots_nonempty access"
  shows "\<exists>ps ks u. q = q0\<lparr>read_paths := ps, read_special_kinds := ks, unrepresentable_read := u\<rparr> \<and>
    (\<forall>env. \<forall>p\<in>absolute_paths. scope_contains env ps ks p \<longrightarrow> access_allows (Some access) p)"
proof -
  obtain ty where ty: "json_get access ''type'' = Some (JString ty)"
    and cases: "ty = ''fullAccess'' \<and> q = q0\<lparr>read_special_kinds := {''root''}\<rparr> \<or>
      ty = ''restricted'' \<and> (\<exists>roots paths u. json_get access ''readableRoots'' = Some (JArray (map JString roots)) \<and>
        list_all2 (\<lambda>x y. normalize_path x = Inr y) roots paths \<and> q = q0\<lparr>read_paths := paths, unrepresentable_read := u\<rparr>)"
    using op assms(2,3)
    by (auto simp: record_sandbox_read_access_def read_only_access_type_def read_only_readable_roots_def string_array_iff
        map_ok_iff split: if_splits)
  from cases show ?thesis
  proof
    assume "ty = ''fullAccess'' \<and> q = q0\<lparr>read_special_kinds := {''root''}\<rparr>"
    with ty show ?thesis
      by (intro exI [of _ "read_paths q0"] exI [of _ "{''root''}"] exI [of _ "unrepresentable_read q0"])
        (simp add: access_allows_def)
  next
    assume "ty = ''restricted'' \<and> (\<exists>roots paths u. json_get access ''readableRoots'' = Some (JArray (map JString roots)) \<and>
        list_all2 (\<lambda>x y. normalize_path x = Inr y) roots paths \<and> q = q0\<lparr>read_paths := paths, unrepresentable_read := u\<rparr>)"
    then obtain rs paths u where restricted: "ty = ''restricted''"
      and rs: "json_get access ''readableRoots'' = Some (JArray (map JString rs))"
      and paths: "list_all2 (\<lambda>x y. normalize_path x = Inr y) rs paths"
      and q: "q = q0\<lparr>read_paths := paths, unrepresentable_read := u\<rparr>" by blast
    have "roots_allow access ''readableRoots'' p"
      if p: "p \<in> absolute_paths" "y \<in> set paths" "path_starts_with p y" for p y
    proof -
      have "\<exists>x\<in>set rs. normalize_path x = Inr y" using paths p(2) by (induction rule: list_all2_induct) auto
      then obtain x where x: "x \<in> set rs" "normalize_path x = Inr y" ..
      then have "y \<noteq> []" using roots rs ty restricted by (auto simp: restricted_roots_nonempty_def)
      from normalize_path_root [OF x(2) this p(3,1)] x(1) p(3) rs show ?thesis by (auto simp: roots_allow_strings)
    qed
    then show ?thesis using q ty restricted assms(3)
      by (intro exI [of _ paths] exI [of _ "{}"] exI [of _ u]) (auto simp: access_allows_def scope_contains_def list_ex_iff)
  qed
qed

lemma sandbox_access_allows:
  assumes "sandbox_access sandbox field = Inr access" "access_allows (Some access) p"
  shows "access_allows (json_get sandbox field) p"
  using assms by (auto simp: sandbox_access_def access_allows_def split: option.splits)

lemma roots_nonempty_access:
  assumes "sandbox_access sandbox field = Inr access" "roots_nonempty snapshot" "permission_profile snapshot = None"
    "sandbox_policy snapshot = sandbox" "field = (if json_str sandbox ''type'' = Some ''readOnly'' then ''access'' else ''readOnlyAccess'')"
  shows "restricted_roots_nonempty access"
  using assms
  by (auto simp: sandbox_access_def restricted_roots_nonempty_def roots_nonempty_def readable_roots_def full_read_only_access_def
      split: option.splits)

lemma special_writes:
  "scope_contains env ps ((if x then {} else {''tmpdir''}) \<union> (if y then {} else {''slash_tmp''})) p \<longleftrightarrow>
    list_ex (path_starts_with p) ps \<or> \<not> x \<and> path_starts_with p (tmpdir_place env) \<or> \<not> y \<and> path_starts_with p slash_tmp"
  by (auto simp: scope_contains_def in_special_def)

text \<open>The code's cap of a legacy sandbox grants no more than the sandbox, unless a readable root is the empty path.\<close>

lemma legacy_cap_sound:
  assumes cap: "permission_scope_cap_from_legacy_sandbox sandbox = Inr (Some cap)"
    and snapshot: "sandbox_policy snapshot = sandbox" "permission_profile snapshot = None" "roots_nonempty snapshot"
  shows "(pp_network cap \<longrightarrow> sandbox_allows sandbox UseNetwork) \<and>
    reads_at_least env cap \<subseteq> sandbox_reads env sandbox \<and> writes_at_least env cap \<subseteq> sandbox_writes env sandbox"
proof -
  consider (read_only) "json_get sandbox ''type'' = Some (JString ''readOnly'')" "read_only_cap sandbox = Inr cap"
    | (workspace) "json_get sandbox ''type'' = Some (JString ''workspaceWrite'')" "workspace_write_cap sandbox = Inr cap"
    | (danger) "json_get sandbox ''type'' = Some (JString ''dangerFullAccess'')"
    using cap by (auto simp: permission_scope_cap_from_legacy_sandbox_def split: if_splits)
  then show ?thesis
  proof cases
    case read_only
    obtain n access where access: "json_get sandbox ''networkAccess'' = Some (JBool n)"
        "sandbox_access sandbox ''access'' = Inr access"
      and rec: "record_sandbox_read_access (new_permissions Managed n) access = Inr cap"
      using read_only(2) by (auto simp: read_only_cap_def)
    have "restricted_roots_nonempty access"
      using roots_nonempty_access [OF access(2) snapshot(3,2,1)] read_only(1) by simp
    from read_access_cap [OF rec _ _ this] obtain ps ks u where
      "cap = (new_permissions Managed n)\<lparr>read_paths := ps, read_special_kinds := ks, unrepresentable_read := u\<rparr>"
      "\<And>env p. p \<in> absolute_paths \<Longrightarrow> scope_contains env ps ks p \<Longrightarrow> access_allows (json_get sandbox ''access'') p"
      using sandbox_access_allows [OF access(2)] by (auto simp: new_permissions_def)
    with read_only(1) access(1) show ?thesis
      by (auto simp: reads_at_least_def writes_at_least_def sandbox_reads_def sandbox_allows_def new_permissions_def flag_def
          scope_contains_def [of env "[]" "{}"])
  next
    case workspace
    obtain n access q roots paths x y where access: "json_get sandbox ''networkAccess'' = Some (JBool n)"
        "sandbox_access sandbox ''readOnlyAccess'' = Inr access"
      and rec: "record_sandbox_read_access ((new_permissions Managed n)\<lparr>pp_write_access := True\<rparr>) access = Inr q"
      and roots: "json_get sandbox ''writableRoots'' = Some (JArray (map JString roots))"
        "list_all2 (\<lambda>r path. normalize_root r = Inr path) roots paths"
      and flags: "json_get sandbox ''excludeTmpdirEnvVar'' = Some (JBool x)" "json_get sandbox ''excludeSlashTmp'' = Some (JBool y)"
      and cap: "cap = q\<lparr>write_paths := write_paths q @ paths,
        write_special_kinds := write_special_kinds q \<union> (if x then {} else {''tmpdir''}) \<union> (if y then {} else {''slash_tmp''})\<rparr>"
      using workspace(2)
      by (auto simp: workspace_write_cap_def workspace_writable_roots_def string_array_iff map_ok_iff simp del: if_split)
    have "restricted_roots_nonempty access"
      using roots_nonempty_access [OF access(2) snapshot(3,2,1)] workspace(1) by simp
    from read_access_cap [OF rec _ _ this] obtain ps ks u where
      q: "q = (new_permissions Managed n)\<lparr>pp_write_access := True, read_paths := ps, read_special_kinds := ks, unrepresentable_read := u\<rparr>"
      and reads: "\<And>env p. p \<in> absolute_paths \<Longrightarrow> scope_contains env ps ks p \<Longrightarrow> access_allows (json_get sandbox ''readOnlyAccess'') p"
      using sandbox_access_allows [OF access(2)] by (auto simp: new_permissions_def)
    have "list_ex (path_starts_with p) paths \<longleftrightarrow> roots_allow sandbox ''writableRoots'' p" for p
      using roots(2) unfolding roots_allow_strings [OF roots(1)]
      by (induction rule: list_all2_induct) auto
    then have writes: "scope_contains env paths ((if x then {} else {''tmpdir''}) \<union> (if y then {} else {''slash_tmp''})) p \<longleftrightarrow>
        p \<in> sandbox_writes env sandbox" for p
      using workspace(1) flags by (auto simp: special_writes sandbox_writes_def sandbox_allows_def flag_def)
    have both: "scope_contains env (ps @ paths) (ks \<union> K) p \<longleftrightarrow> scope_contains env ps ks p \<or> scope_contains env paths K p" for K p
      by (auto simp: scope_contains_def)
    have "reads_at_least env cap \<subseteq> sandbox_reads env sandbox"
      using reads workspace(1) writes
      by (auto simp: reads_at_least_def cap q new_permissions_def both sandbox_reads_def sandbox_allows_def simp del: if_split)
    moreover have "writes_at_least env cap \<subseteq> sandbox_writes env sandbox"
      using writes by (auto simp: writes_at_least_def cap q new_permissions_def simp del: if_split)
    moreover have "pp_network cap = n" by (simp add: cap q new_permissions_def)
    ultimately show ?thesis using workspace(1) access(1) by (simp add: sandbox_allows_def flag_def)
  next
    case danger
    then have "sandbox_allows sandbox c" for c by (rule danger_allows)
    then show ?thesis by (auto simp: sandbox_reads_def sandbox_writes_def)
  qed
qed

lemma startup_scope_sound:
  assumes scope: "startup_scope snapshot = Inr (Some cap)" and "no_more_than chosen cap" "roots_nonempty snapshot"
  shows "snapshot_grants_profile snapshot chosen"
proof (cases "permission_profile snapshot")
  case None
  with scope have "permission_scope_cap_from_legacy_sandbox (sandbox_policy snapshot) = Inr (Some cap)"
    by (simp add: startup_scope_def)
  from legacy_cap_sound [OF this refl None assms(3)] assms(2) None show ?thesis
    unfolding snapshot_grants_profile_def no_more_than_def by (simp, blast)
next
  case (Some v)
  with scope have "profile_of snapshot = Some cap" by (auto simp: startup_scope_def profile_of_def)
  with assms(2) Some show ?thesis by (simp add: snapshot_grants_profile_def no_more_than_def)
qed

section \<open>A readable root that is the empty path\<close>

lemma recorded_reads:
  assumes "record_sandbox_read_access q0 access = Inr q"
  shows "has_access_denials q = has_access_denials q0 \<and>
    (json_str access ''type'' = Some ''restricted'' \<and> json_get access ''readableRoots'' = Some (JArray roots) \<and>
      JString r \<in> set roots \<and> normalize_path r = Inr [] \<longrightarrow> [] \<in> set (read_paths q))"
proof -
  have "[] \<in> set ys" if "list_all2 (\<lambda>x y. normalize_path x = Inr y) xs ys" "r \<in> set xs" "normalize_path r = Inr []" for xs ys
    using that by (induction rule: list_all2_induct) auto
  with assms show ?thesis
    by (auto simp: record_sandbox_read_access_def read_only_access_type_def read_only_readable_roots_def string_array_iff
        map_ok_iff split: if_splits)
qed

lemma empty_root_cap:
  assumes cap: "permission_scope_cap_from_legacy_sandbox sandbox = Inr (Some cap)"
    and r: "r \<in> readable_roots sandbox" "normalize_path r = Inr []"
  shows "read_covers_path cap q \<and> \<not> has_access_denials cap"
proof -
  obtain access roots where access: "json_get sandbox (if json_str sandbox ''type'' = Some ''readOnly'' then ''access'' else ''readOnlyAccess'') =
        Some access" "json_str access ''type'' = Some ''restricted''" "json_get access ''readableRoots'' = Some (JArray roots)"
      "JString r \<in> set roots"
    using r(1) by (auto simp: readable_roots_def)
  consider (read_only) "json_get sandbox ''type'' = Some (JString ''readOnly'')" "read_only_cap sandbox = Inr cap"
    | (workspace) "json_get sandbox ''type'' = Some (JString ''workspaceWrite'')" "workspace_write_cap sandbox = Inr cap"
    | (danger) "cap = full_access Managed True"
    using cap by (auto simp: permission_scope_cap_from_legacy_sandbox_def split: if_splits)
  then show ?thesis
  proof cases
    case read_only
    then obtain n where "record_sandbox_read_access (new_permissions Managed n) access = Inr cap"
      using access(1) by (auto simp: read_only_cap_def sandbox_access_def)
    from recorded_reads [OF this] access r(2) show ?thesis
      by (force simp: read_covers_path_def list_ex_iff new_permissions_def)
  next
    case workspace
    then obtain n q where rec: "record_sandbox_read_access ((new_permissions Managed n)\<lparr>pp_write_access := True\<rparr>) access = Inr q"
      and cap: "read_paths cap = read_paths q" "has_access_denials cap = has_access_denials q"
      using access(1) by (auto simp: workspace_write_cap_def sandbox_access_def simp del: if_split)
    from recorded_reads [OF rec] access r(2) cap show ?thesis
      by (force simp: read_covers_path_def list_ex_iff new_permissions_def)
  next
    case danger
    then show ?thesis by (simp add: read_covers_path_def full_access_def record_full_file_system_access_def new_permissions_def)
  qed
qed

text \<open>A parsed profile names no special kinds for reading but the root and the temporary directory.\<close>

definition plain_reads :: "profile_permissions \<Rightarrow> bool" where
  "plain_reads p \<longleftrightarrow> read_special_kinds p \<subseteq> {''root'', ''slash_tmp''}"

lemma plain_reads_recorded:
  "plain_reads p \<Longrightarrow> plain_reads (record_read_scope scope p)" "plain_reads (record_write_scope scope p) = plain_reads p"
  "plain_reads (record_deny_scope scope p) = plain_reads p"
  "plain_reads p \<Longrightarrow> plain_reads (record_full_file_system_access p)" "plain_reads (new_permissions k n)" "plain_reads (external n)"
  by (cases scope; simp add: plain_reads_def record_full_file_system_access_def new_permissions_def external_def)+

lemma plain_reads_file_system:
  assumes "parse_permission_profile_file_system v required p = Inr q" "plain_reads p"
  shows "plain_reads q"
proof -
  have one: "record_profile_entry entry p = Inr q \<Longrightarrow> plain_reads p \<Longrightarrow> plain_reads q" for entry p q
    by (auto simp: record_profile_entry_def case_option_ok_iff plain_reads_recorded split: if_splits)
  have "for_each record_profile_entry entries p = Inr q \<Longrightarrow> plain_reads p \<Longrightarrow> plain_reads q" for entries p
    by (induction entries arbitrary: p) (auto dest: one)
  with assms show ?thesis
    by (auto simp: parse_permission_profile_file_system_def parse_permission_profile_restricted_file_system_def
        case_option_ok_iff plain_reads_recorded split: if_splits)
qed

lemma parsed_plain_reads:
  assumes "parse_permission_profile_permissions v = Inr p"
  shows "plain_reads p"
proof -
  consider network required where "parse_permission_profile_file_system (json_get v ''fileSystem'') required
      (new_permissions Managed network) = Inr p"
    | "p = full_access Disabled True" | network where "p = external network"
    using assms by (auto simp: parse_permission_profile_permissions_def case_option_ok_iff split: if_splits)
  then show ?thesis
    by cases (auto simp: full_access_def plain_reads_recorded dest: plain_reads_file_system)
qed

lemma empty_root_scope:
  assumes "plain_reads p" "\<And>q. read_covers_path cap q" "\<not> has_access_denials cap"
  shows "permission_profile_scope_within p cap preserved \<longleftrightarrow> (pp_network p \<longrightarrow> pp_network cap) \<and>
    (pp_write_access p \<longrightarrow> pp_write_access cap) \<and> permission_profile_write_scope_within p cap"
  using assms
  by (auto simp: permission_profile_scope_within_def permission_profile_read_scope_within_def plain_reads_def
      read_covers_special_def list_all_iff)

end
