(* ===== verification/Cbth_StartupCap.thy ===== *)
theory Cbth_StartupCap
  imports Cbth_ProfileScope
begin

text \<open>
  The startup cap of a managed CLI session: what a delivered turn is started with stays within the
  snapshot the adapter accepted first and the current one, for as long as the adapter runs.
\<close>

section \<open>Overrides\<close>

lemma parsed_snapshot:
  assumes "parse_thread_resume_permission_snapshot result = Inr snapshot"
  shows "parse_sandbox_permissions (sandbox_policy snapshot) =
      Inr (may_network (snap_permissions snapshot), may_write (snap_permissions snapshot))"
    "parse_approval_policy_allows_approval (approval_policy snapshot) = Inr (may_approve (snap_permissions snapshot))"
  using assms by (auto simp: parse_thread_resume_permission_snapshot_def Let_def split: prod.splits)

lemma parsed_approval_rank:
  assumes "parse_approval_policy_allows_approval v = Inr b"
  shows "\<exists>r. approval_policy_risk_rank v = Inr r"
proof -
  obtain s where v: "v = JString s" using assms by (auto simp: parse_approval_policy_allows_approval_def case_option_ok_iff)
  with assms consider "s = ''never''" | "s = ''untrusted''" | "s = ''on-failure''" | "s = ''on-request''"
    unfolding parse_approval_policy_allows_approval_def by (fastforce split: if_split_asm)
  then show ?thesis by cases (simp_all add: approval_policy_risk_rank_def v)
qed

lemma pinned_approval_rank:
  assumes "pinned_approval_policy startup current b = Inr approval"
    "approval_policy_risk_rank startup = Inr m" "approval_policy_risk_rank current = Inr n"
  shows "\<exists>r\<le>min m n. approval_policy_risk_rank approval = Inr r"
  using assms by (auto simp: pinned_approval_policy_def approval_policy_risk_rank_def [of "JString _"] min_def split: if_splits)

definition riskier :: "json \<Rightarrow> json \<Rightarrow> bool" where
  "riskier a b \<longleftrightarrow>
     (case (approval_policy_risk_rank a, approval_policy_risk_rank b) of (Inr m, Inr n) \<Rightarrow> n < m | _ \<Rightarrow> True)"

definition sandbox_rights :: "json \<Rightarrow> capability set" where
  "sandbox_rights sandbox = {cap. sandbox_allows sandbox cap}"

text \<open>The rights a turn is started with, whether as a sandbox or as a selected profile.\<close>

definition within_snapshot :: "json \<Rightarrow> permission_snapshot_of \<Rightarrow> bool" where
  "within_snapshot overrides snapshot \<longleftrightarrow>
     (case json_get overrides ''approvalPolicy'' of
        Some approval \<Rightarrow> \<not> riskier approval (approval_policy snapshot)
      | None \<Rightarrow> False) \<and>
     (case json_get overrides ''sandboxPolicy'' of
        Some sandbox \<Rightarrow> sandbox_rights sandbox \<subseteq> sandbox_rights (sandbox_policy snapshot)
      | None \<Rightarrow> (\<exists>selection chosen. json_get overrides ''permissions'' = Some (to_turn_start_permissions_json selection) \<and>
          permission_profile_cap_from_active_selection selection = Some chosen \<and> snapshot_grants_profile snapshot chosen))"

text \<open>The cap of a startup snapshot, which a readable root that is the empty path lifts for profiles.\<close>

definition capped_by :: "json \<Rightarrow> permission_snapshot_of \<Rightarrow> bool" where
  "capped_by overrides startup \<longleftrightarrow>
     (roots_nonempty startup \<or> json_get overrides ''sandboxPolicy'' \<noteq> None \<longrightarrow> within_snapshot overrides startup)"

definition parsed_snapshot_of :: "permission_snapshot_of \<Rightarrow> bool" where
  "parsed_snapshot_of snapshot \<longleftrightarrow> (\<exists>result. parse_thread_resume_permission_snapshot result = Inr snapshot)"

lemma selected_profile_within:
  assumes "current_permission_profile_selection_for_turn_start startup current effective = Inr (Some permissions)"
  shows "\<exists>selection chosen cur cap. permissions = to_turn_start_permissions_json selection \<and>
    permission_profile_cap_from_active_selection selection = Some chosen \<and>
    startup_scope current = Inr (Some cur) \<and> no_more_than chosen cur \<and> roots_nonempty current \<and>
    startup_scope startup = Inr (Some cap) \<and> no_more_than chosen cap"
proof -
  obtain selection chosen where chosen: "permission_profile_cap_from_active_selection selection = Some chosen"
    and matches: "current_permission_profile_selection_matches_current_profile selection chosen current = Inr True"
    and within: "current_permission_profile_scope_within_startup startup current = Inr True"
    and permissions: "permissions = to_turn_start_permissions_json selection"
    using assms by (auto simp: current_permission_profile_selection_for_turn_start_def case_option_ok_iff split: if_splits)
  obtain v cur where cur: "permission_profile current = Some v" "parse_permission_profile_permissions v = Inr cur"
    and covered: "permission_profile_scope_within chosen cur (selection_denials_cover_permission_profile selection cur)"
    using matches by (auto simp: current_permission_profile_selection_matches_current_profile_def case_option_ok_iff split: if_splits)
  note chosen_cur = selection_within_current [OF covered chosen parsed_profile_recorded [OF cur(2)]]
  obtain cap where cap: "startup_scope startup = Inr (Some cap)" "cap = cur \<or> no_more_than cur cap"
    using current_within_startup [OF within cur] by blast
  have "no_more_than chosen cap" using cap(2) chosen_cur no_more_than_trans by blast
  with permissions chosen cur cap(1) chosen_cur show ?thesis
    by (auto simp: startup_scope_def roots_nonempty_def)
qed

lemma overrides_within_snapshots:
  assumes parsed: "parsed_snapshot_of startup" "parsed_snapshot_of current"
    and network: "allowed_network effective (may_network (snap_permissions startup)) (may_network (snap_permissions current))"
    and overrides: "turn_start_permission_overrides startup current effective = Inr overrides"
  shows "capped_by overrides startup \<and> within_snapshot overrides current"
proof -
  obtain r0 r1 where r: "parse_thread_resume_permission_snapshot r0 = Inr startup" "parse_thread_resume_permission_snapshot r1 = Inr current"
    using parsed by (auto simp: parsed_snapshot_of_def)
  obtain approval selection where approval: "pinned_approval_policy (approval_policy startup) (approval_policy current) (may_approve effective) = Inr approval"
    and selection: "current_permission_profile_selection_for_turn_start startup current effective = Inr selection"
    and get: "json_get overrides ''approvalPolicy'' = Some approval"
    and rest: "case selection of Some permissions \<Rightarrow> overrides = JObject [(''approvalPolicy'', approval), (''permissions'', permissions)]
      | None \<Rightarrow> \<exists>sandbox. pinned_sandbox_policy (sandbox_policy startup) (sandbox_policy current) effective = Inr sandbox \<and>
          overrides = JObject [(''approvalPolicy'', approval), (''sandboxPolicy'', sandbox)]"
    using overrides by (auto simp: turn_start_permission_overrides_def split: option.splits)
  obtain m n where "approval_policy_risk_rank (approval_policy startup) = Inr m" "approval_policy_risk_rank (approval_policy current) = Inr n"
    using parsed_approval_rank parsed_snapshot(2) r by blast
  with pinned_approval_rank [OF approval this]
  have calm: "\<not> riskier approval (approval_policy startup)" "\<not> riskier approval (approval_policy current)"
    by (auto simp: riskier_def)
  show ?thesis
  proof (cases selection)
    case None
    with rest obtain sandbox where pinned: "pinned_sandbox_policy (sandbox_policy startup) (sandbox_policy current) effective = Inr sandbox"
      and overrides: "overrides = JObject [(''approvalPolicy'', approval), (''sandboxPolicy'', sandbox)]" by auto
    from pinned_sandbox_within [OF parsed_snapshot(1) [OF r(1)] parsed_snapshot(1) [OF r(2)] network pinned] calm get
    show ?thesis by (auto simp: within_snapshot_def capped_by_def overrides sandbox_rights_def)
  next
    case (Some permissions)
    with rest have overrides: "overrides = JObject [(''approvalPolicy'', approval), (''permissions'', permissions)]" by simp
    obtain choice chosen cur cap where "permissions = to_turn_start_permissions_json choice"
      "permission_profile_cap_from_active_selection choice = Some chosen"
      and scopes: "startup_scope current = Inr (Some cur)" "no_more_than chosen cur" "roots_nonempty current"
        "startup_scope startup = Inr (Some cap)" "no_more_than chosen cap"
      using selected_profile_within [OF selection [unfolded Some]] by blast
    with startup_scope_sound [OF scopes(1-3)] startup_scope_sound [OF scopes(4,5)] calm get show ?thesis
      by (auto simp: within_snapshot_def capped_by_def overrides)
  qed
qed

text \<open>A session that starts with a writable workspace and network access, and is tightened later.\<close>

definition resume_of :: "string list \<Rightarrow> bool \<Rightarrow> json" where
  "resume_of roots network =
     JObject [(''approvalPolicy'', JString ''on-request''),
       (''sandbox'', JObject [(''excludeSlashTmp'', JBool False), (''excludeTmpdirEnvVar'', JBool False),
         (''networkAccess'', JBool network), (''type'', JString ''workspaceWrite''),
         (''writableRoots'', JArray (map JString roots))]),
       (''status'', JObject [(''type'', JString ''idle'')]), (''id'', JString ''t'')]"

definition snapshot_of :: "string list \<Rightarrow> bool \<Rightarrow> permission_snapshot_of" where
  "snapshot_of roots network =
     (case parse_thread_resume_permission_snapshot (resume_of roots network) of
        Inr snapshot \<Rightarrow> snapshot
      | Inl e \<Rightarrow> \<lparr>snap_source = FromLegacySandbox, snap_permissions = \<lparr>may_approve = False, may_network = False, may_write = False\<rparr>,
          approval_policy = JNull, sandbox_policy = JNull, permission_profile = None, legacy_compatible = False,
          active_permission_profile = None, active_selection = None\<rparr>)"

definition tightened_overrides :: json where
  "tightened_overrides =
     JObject [(''approvalPolicy'', JString ''on-request''),
       (''sandboxPolicy'', JObject [(''excludeSlashTmp'', JBool False), (''excludeTmpdirEnvVar'', JBool False),
         (''networkAccess'', JBool False), (''type'', JString ''workspaceWrite''),
         (''writableRoots'', JArray [JString ''/w/a''])])]"




text \<open>A session that starts with restricted reads, and the same with a profile that reads no more.\<close>

definition reads_resume :: "string list \<Rightarrow> json" where
  "reads_resume roots =
     JObject [(''approvalPolicy'', JString ''never''),
       (''sandbox'', JObject [(''access'', JObject [(''readableRoots'', JArray (map JString roots)), (''type'', JString ''restricted'')]),
         (''networkAccess'', JBool False), (''type'', JString ''readOnly'')])]"

definition profile_resume :: json where
  "profile_resume =
     JObject [(''activePermissionProfile'', JObject [(''id'', JString '':read-only'')]),
       (''approvalPolicy'', JString ''never''),
       (''permissionProfile'', JObject [
         (''fileSystem'', JObject [(''entries'', JArray [JObject [(''access'', JString ''read''),
            (''path'', JObject [(''type'', JString ''special''), (''value'', JObject [(''kind'', JString ''root'')])])]]),
           (''type'', JString ''restricted'')]),
         (''network'', JObject [(''enabled'', JBool False)]), (''type'', JString ''managed'')]),
       (''sandbox'', JObject [(''networkAccess'', JBool False), (''type'', JString ''readOnly'')])]"

definition read_only_overrides :: json where
  "read_only_overrides = JObject [(''approvalPolicy'', JString ''never''),
     (''permissions'', JObject [(''id'', JString '':read-only''), (''type'', JString ''profile'')])]"

definition resumed :: "json \<Rightarrow> permission_snapshot_of" where
  "resumed resume = projr (parse_thread_resume_permission_snapshot resume)"




section \<open>Runs of the adapter\<close>

datatype adapter_event =
    Connected bool bool json
  | ProofInvalidated
  | Refreshed bool bool bool "json option"

text \<open>A step yields the overrides a turn is started with, if any.\<close>

fun adapter_step :: "permission_inputs \<Rightarrow> string \<Rightarrow> adapter_event \<Rightarrow> permission_memory \<Rightarrow> json option \<times> permission_memory" where
  "adapter_step inputs t (Connected audited stored resume) m = (None, snd (sync_on_connect inputs t audited stored resume m))"
| "adapter_step inputs t ProofInvalidated m = (None, forget_current m)"
| "adapter_step inputs t (Refreshed noted audited stored response) m =
     (case refresh_cli_auto_delivery_permissions inputs t noted audited stored response m of
        (Inr overrides, m) \<Rightarrow> (overrides, m)
      | (Inl e, m) \<Rightarrow> (None, m))"

fun adapter_run :: "permission_inputs \<Rightarrow> string \<Rightarrow> adapter_event list \<Rightarrow> permission_memory \<Rightarrow> json option list \<times> permission_memory" where
  "adapter_run inputs t [] m = ([], m)"
| "adapter_run inputs t (event # events) m =
     (let (overrides, m) = adapter_step inputs t event m; (rest, m) = adapter_run inputs t events m
      in (overrides # rest, m))"

definition memory_ok :: "permission_inputs \<Rightarrow> permission_memory \<Rightarrow> bool" where
  "memory_ok inputs m \<longleftrightarrow>
     (case startup_permission_snapshot m of
        None \<Rightarrow> startup_permissions m = None
      | Some startup \<Rightarrow> parsed_snapshot_of startup \<and> startup_permissions m = Some (resolve_permissions inputs startup))"

definition startup_kept :: "permission_memory \<Rightarrow> permission_memory \<Rightarrow> bool" where
  "startup_kept m m' \<longleftrightarrow>
     startup_permission_snapshot m = None \<or> startup_permission_snapshot m' = startup_permission_snapshot m"

lemma startup_kept_refl [simp]: "startup_kept m m"
  by (simp add: startup_kept_def)

lemma startup_kept_trans: "startup_kept m m' \<Longrightarrow> startup_kept m' m'' \<Longrightarrow> startup_kept m m''"
  by (auto simp: startup_kept_def)

lemma forget_current_ok [simp]:
  "memory_ok inputs (forget_current m) = memory_ok inputs m" "startup_kept m (forget_current m)"
  by (simp_all add: memory_ok_def forget_current_def startup_kept_def cong: option.case_cong)

text \<open>What a synchronization leaves behind, and what its effective permissions allow.\<close>

lemma sync_effect:
  assumes "sync_passive_adapter_permissions_from_snapshot inputs audited stored snapshot m = (r, m')"
    and "uses_auto inputs" "memory_ok inputs m" "parsed_snapshot_of snapshot"
  shows "memory_ok inputs m' \<and> startup_kept m m' \<and>
    (case r of
       Inr effective \<Rightarrow> (case startup_permission_snapshot m' of
           Some startup \<Rightarrow> effective = effective_permissions (resolve_permissions inputs startup) (resolve_permissions inputs snapshot)
         | None \<Rightarrow> False)
     | Inl e \<Rightarrow> True)"
  using assms
  by (auto simp: sync_passive_adapter_permissions_from_snapshot_def record_passive_adapter_permissions_def Let_def
      memory_ok_def startup_kept_def forget_current_def coalesce_def
      split: sum.splits if_splits option.splits prod.splits)

lemma connect_effect:
  assumes "sync_on_connect inputs t audited stored resume m = (r, m')" "memory_ok inputs m"
  shows "memory_ok inputs m' \<and> startup_kept m m'"
proof (cases "thread_result_activity_snapshot resume t \<noteq> SnapUntrusted \<and> uses_auto inputs \<and>
    thread_result_activity_snapshot resume t \<noteq> SnapMissing")
  case False
  with assms show ?thesis by (auto simp: sync_on_connect_def Let_def split: if_splits)
next
  case True
  show ?thesis
  proof (cases "parse_thread_resume_permission_snapshot resume")
    case (Inl e)
    with True assms show ?thesis by (auto simp: sync_on_connect_def Let_def)
  next
    case (Inr snapshot)
    obtain q m1 where sync: "sync_passive_adapter_permissions_from_snapshot inputs audited stored snapshot m = (q, m1)"
      by (rule prod.exhaust)
    with True Inr assms(1) have "m' = m1" by (auto simp: sync_on_connect_def Let_def split: sum.splits)
    moreover have "parsed_snapshot_of snapshot" using Inr by (auto simp: parsed_snapshot_of_def)
    ultimately show ?thesis using sync_effect [OF sync _ assms(2)] True by blast
  qed
qed

lemma refresh_effect:
  assumes refresh: "refresh_cli_auto_delivery_permissions inputs t noted audited stored response m = (r, m')"
    and ok: "memory_ok inputs m" and network: "input_network inputs \<noteq> Some True"
  shows "memory_ok inputs m' \<and> startup_kept m m' \<and>
    (case r of Inr (Some overrides) \<Rightarrow>
        (case startup_permission_snapshot m' of Some startup \<Rightarrow> capped_by overrides startup | None \<Rightarrow> False)
     | _ \<Rightarrow> True)"
proof (cases "uses_auto inputs \<and> response \<noteq> None \<and> noted \<and>
    thread_result_activity_snapshot (the response) t \<notin> {SnapMissing, SnapUntrusted} \<and>
    is_ok (parse_thread_resume_permission_snapshot (the response))")
  case False
  with refresh ok show ?thesis
    by (auto simp: refresh_cli_auto_delivery_permissions_def Let_def is_ok_def split: if_splits option.splits sum.splits)
next
  case True
  then obtain resume snapshot where resume: "response = Some resume" and snapshot: "parse_thread_resume_permission_snapshot resume = Inr snapshot"
    by (auto simp: is_ok_def split: sum.splits)
  have parsed: "parsed_snapshot_of snapshot" using snapshot by (auto simp: parsed_snapshot_of_def)
  obtain q m1 where sync: "sync_passive_adapter_permissions_from_snapshot inputs audited stored snapshot m = (q, m1)"
    by (rule prod.exhaust)
  note effect = sync_effect [OF sync _ ok parsed]
  have m1: "m' = m1" using refresh True resume snapshot sync
    by (auto simp: refresh_cli_auto_delivery_permissions_def Let_def split: sum.splits option.splits if_splits)
  have "case startup_permission_snapshot m' of Some startup \<Rightarrow> capped_by overrides startup | None \<Rightarrow> False"
    if r: "r = Inr (Some overrides)" for overrides
  proof -
    from refresh [unfolded r] True resume snapshot sync obtain effective startup where q: "q = Inr effective"
      and startup: "startup_permission_snapshot m1 = Some startup"
      and overrides: "turn_start_permission_overrides startup snapshot effective = Inr overrides"
      by (auto simp: refresh_cli_auto_delivery_permissions_def Let_def split: sum.splits option.splits if_splits)
    from effect True q startup have effective: "effective = effective_permissions (resolve_permissions inputs startup) (resolve_permissions inputs snapshot)"
      and "parsed_snapshot_of startup" by (auto simp: memory_ok_def)
    moreover have "allowed_network effective (may_network (snap_permissions startup)) (may_network (snap_permissions snapshot))"
      using network by (cases "input_network inputs")
        (auto simp: allowed_network_def effective effective_permissions_def resolve_permissions_def coalesce_def)
    ultimately show ?thesis using overrides_within_snapshots [OF _ parsed _ overrides] startup m1 by simp
  qed
  with effect True m1 show ?thesis by (auto split: sum.splits option.splits)
qed

lemma step_effect:
  assumes "adapter_step inputs t event m = (overrides, m')" "memory_ok inputs m" "input_network inputs \<noteq> Some True"
  shows "memory_ok inputs m' \<and> startup_kept m m' \<and>
    (case overrides of Some v \<Rightarrow>
        (case startup_permission_snapshot m' of Some startup \<Rightarrow> capped_by v startup | None \<Rightarrow> False)
     | None \<Rightarrow> True)"
proof (cases event)
  case (Connected audited stored resume)
  with assms connect_effect [of inputs t audited stored resume m _ m'] show ?thesis
    by (cases "sync_on_connect inputs t audited stored resume m") auto
next
  case (Refreshed noted audited stored response)
  obtain r m1 where refresh: "refresh_cli_auto_delivery_permissions inputs t noted audited stored response m = (r, m1)"
    by (rule prod.exhaust)
  with refresh_effect [OF refresh assms(2,3)] assms(1) Refreshed show ?thesis
    by (auto split: sum.splits option.splits)
qed (use assms in auto)

definition all_within :: "json option list \<Rightarrow> permission_memory \<Rightarrow> bool" where
  "all_within overrides m \<longleftrightarrow>
     list_all (\<lambda>v. case startup_permission_snapshot m of Some startup \<Rightarrow> capped_by v startup | None \<Rightarrow> False)
       (List.map_filter (\<lambda>v. v) overrides)"

lemma run_effect:
  "adapter_run inputs t events m = (overrides, m') \<Longrightarrow> memory_ok inputs m \<Longrightarrow> input_network inputs \<noteq> Some True \<Longrightarrow>
    memory_ok inputs m' \<and> startup_kept m m' \<and> all_within overrides m'"
proof (induction events arbitrary: m overrides m')
  case Nil
  then show ?case by (auto simp: all_within_def List.map_filter_simps)
next
  case (Cons event events)
  obtain v m1 where step: "adapter_step inputs t event m = (v, m1)" by (rule prod.exhaust)
  obtain vs m2 where run: "adapter_run inputs t events m1 = (vs, m2)" by (rule prod.exhaust)
  note eff = step_effect [OF step Cons.prems(2,3)]
  from Cons.IH [OF run _ Cons.prems(3)] eff
  have rest: "memory_ok inputs m2" "startup_kept m1 m2" "all_within vs m2" by auto
  have "overrides = v # vs" "m' = m2" using Cons.prems(1) step run by auto
  with eff rest show ?case
    by (auto simp: all_within_def List.map_filter_simps startup_kept_def split: option.splits)
qed

definition empty_memory :: permission_memory where
  "empty_memory = \<lparr>startup_permissions = None, startup_permission_snapshot = None, last_current_permissions = None,
     last_current_permission_snapshot = None, last_effective_permissions = None\<rparr>"

text \<open>
  C39: The first snapshot an adapter accepts caps every turn it delivers: in any run of connections, lost
  proofs and refreshes, whatever snapshots the app server returns later and whichever writes fail, the
  startup snapshot once recorded is never replaced, and all overrides that are produced lie within it, in
  the sense of C38, provided that the user did not grant network access explicitly and, for overrides that
  select a profile, that no readable root of the startup sandbox is the empty path.
\<close>

theorem startup_cap_holds:
  assumes "adapter_run inputs t events (forget_permissions m0) = (overrides, m)"
    and "adapter_run inputs t next_events m = (later, m')" and "input_network inputs \<noteq> Some True"
  shows "all_within overrides m \<and> all_within later m' \<and> startup_kept m m'"
proof -
  have "memory_ok inputs (forget_permissions m0)" by (simp add: memory_ok_def forget_permissions_def)
  from run_effect [OF assms(1) this assms(3)] run_effect [OF assms(2) _ assms(3)] show ?thesis by blast
qed

theorem startup_cap_holds_witness:
  "case adapter_run \<lparr>input_approval = None, input_network = None, input_write = None\<rparr> ''t''
      [Connected True True (resume_of [''/w''] True), Refreshed True True True (Some (resume_of [''/w/a/'', ''/x''] False))]
      (forget_permissions empty_memory) of
    (overrides, m) \<Rightarrow> overrides = [None, Some tightened_overrides] \<and>
      startup_permission_snapshot m = Some (snapshot_of [''/w''] True) \<and> all_within overrides m"
proof -
  let ?inputs = "\<lparr>input_approval = None, input_network = None, input_write = None\<rparr>"
  let ?events = "[Connected True True (resume_of [''/w''] True), Refreshed True True True (Some (resume_of [''/w/a/'', ''/x''] False))]"
  have start: "forget_permissions empty_memory = \<lparr>startup_permissions = None, startup_permission_snapshot = None,
      last_current_permissions = None, last_current_permission_snapshot = None, last_effective_permissions = None\<rparr>"
    by (simp add: forget_permissions_def)
  have results: "fst (adapter_run ?inputs ''t'' ?events (forget_permissions empty_memory)) = [None, Some tightened_overrides]"
    "startup_permission_snapshot (snd (adapter_run ?inputs ''t'' ?events (forget_permissions empty_memory))) = Some (snapshot_of [''/w''] True)"
    unfolding start by code_simp+
  obtain overrides m where run: "adapter_run ?inputs ''t'' ?events (forget_permissions empty_memory) = (overrides, m)" by (rule prod.exhaust)
  have "input_network ?inputs \<noteq> Some True" by simp
  from startup_cap_holds [OF run adapter_run.simps(1) this] results [unfolded run fst_conv snd_conv]
  show ?thesis unfolding run prod.case by (intro conjI) simp_all
qed

section \<open>A readable root that is the empty path\<close>

text \<open>
  C40: A readable root such as \<open>.\<close> lifts the startup cap on reading. The code accepts the relative root,
  which normalizes to the empty path, and every path starts with the empty path: when a session was
  started under a sandbox with such a root and without a profile, a later profile is found to be within
  the startup scope exactly when its network and write access are; what it reads plays no part, although
  the root itself, not being absolute, grants nothing.
\<close>

theorem relative_readable_root_lifts_cap:
  assumes "permission_profile startup = None" and r: "r \<in> readable_roots (sandbox_policy startup)" "normalize_path r = Inr []"
    and cap: "permission_scope_cap_from_legacy_sandbox (sandbox_policy startup) = Inr (Some cap)"
    and p: "permission_profile current = Some v" "parse_permission_profile_permissions v = Inr p"
  shows "normalize_root r = Inl NotAbsolute \<and>
    current_permission_profile_scope_within_startup startup current =
      Inr ((pp_network p \<longrightarrow> pp_network cap) \<and> (pp_write_access p \<longrightarrow> pp_write_access cap) \<and>
        permission_profile_write_scope_within p cap)"
proof -
  have "\<not> is_absolute r"
  proof
    assume "is_absolute r"
    then have "normalize_root r = Inr []" using r(2) by (simp add: normalize_root_def normalize_path_def)
    from normalize_root_normal [OF this] show False by (simp add: normal_path_def)
  qed
  with empty_root_scope [OF parsed_plain_reads [OF p(2)]] empty_root_cap [OF cap r] assms(1) cap p show ?thesis
    by (simp add: normalize_root_def current_permission_profile_scope_within_startup_def)
qed

text \<open>A session started with reads restricted to \<open>.\<close>, and the turn it delivers with a profile that reads everything.\<close>

theorem relative_readable_root_lifts_cap_witness:
  "current_permission_profile_scope_within_startup (resumed (reads_resume [''.''])) (resumed profile_resume) = Inr True \<and>
   ReadFrom [RootDir, NormalPart ''etc''] \<notin> sandbox_rights (sandbox_policy (resumed (reads_resume [''.'']))) \<and>
   turn_start_permission_overrides (resumed (reads_resume [''.''])) (resumed profile_resume)
     (effective_permissions (snap_permissions (resumed (reads_resume [''.'']))) (snap_permissions (resumed profile_resume))) =
   Inr read_only_overrides"
proof -
  let ?s = "resumed (reads_resume [''.''])" and ?c = "resumed profile_resume"
  have policy: "permission_profile ?s = None" "sandbox_policy ?s =
      JObject [(''access'', JObject [(''readableRoots'', JArray [JString ''.'']), (''type'', JString ''restricted'')]),
         (''networkAccess'', JBool False), (''type'', JString ''readOnly'')]" by code_simp+
  have root: "''.'' \<in> readable_roots (sandbox_policy ?s)" by (simp add: readable_roots_def policy)
  have "permission_scope_cap_from_legacy_sandbox (sandbox_policy ?s) =
      Inr (Some ((new_permissions Managed False)\<lparr>read_paths := [[]]\<rparr>))" unfolding policy by code_simp
  moreover obtain v p where "permission_profile ?c = Some v" "parse_permission_profile_permissions v = Inr p"
    and none: "\<not> pp_network p" "\<not> pp_write_access p" "write_paths p = []" "write_special_kinds p = {}" "\<not> unrepresentable_write p"
  proof -
    have "case permission_profile ?c of Some v \<Rightarrow> (case parse_permission_profile_permissions v of
        Inr p \<Rightarrow> \<not> pp_network p \<and> \<not> pp_write_access p \<and> write_paths p = [] \<and> write_special_kinds p = {} \<and> \<not> unrepresentable_write p
      | Inl _ \<Rightarrow> False) | None \<Rightarrow> False" by code_simp
    with that show thesis by (auto split: option.splits sum.splits)
  qed
  ultimately have "current_permission_profile_scope_within_startup ?s ?c = Inr True"
    using relative_readable_root_lifts_cap [OF policy(1) root normalize_dot(1)]
    by (simp add: permission_profile_write_scope_within_def)
  moreover have "ReadFrom [RootDir, NormalPart ''etc''] \<notin> sandbox_rights (sandbox_policy ?s)"
    by (simp add: policy sandbox_rights_def sandbox_allows_def access_allows_def roots_allow_def normalize_root_def is_absolute_def)
  moreover have "turn_start_permission_overrides ?s ?c (effective_permissions (snap_permissions ?s) (snap_permissions ?c)) =
      Inr read_only_overrides" by code_simp
  ultimately show ?thesis by simp
qed

end
