(* ===== verification/Cbth_PluginRpc.thy ===== *)
theory Cbth_PluginRpc
  imports Cbth_WebSocket
begin

text \<open>
  The protocol between the service and its plugins (\<open>src/plugin_rpc.rs\<close>): frames of a four-byte length
  and a JSON payload on one stream, the errors a plugin is told, and the negotiation of the hello. The
  JSON codec of a type is a parameter: \<open>encode\<close> and \<open>decode\<close> give the bytes of a value and the value of
  bytes, or the text of serde's error.
\<close>

definition PLUGIN_RPC_MAX_FRAME_BYTES :: nat where "PLUGIN_RPC_MAX_FRAME_BYTES = 2 * 1024 * 1024"
definition FRAME_LENGTH_PREFIX_BYTES :: nat where "FRAME_LENGTH_PREFIX_BYTES = 4"
definition PLUGIN_RPC_HELLO_METHOD :: string where "PLUGIN_RPC_HELLO_METHOD = ''plugin.hello''"
definition PLUGIN_RPC_SUPPORTED_PROTOCOL_VERSIONS :: "int list" where "PLUGIN_RPC_SUPPORTED_PROTOCOL_VERSIONS = [1]"

section \<open>Errors\<close>

datatype rpc_error_kind =
    UnsupportedProtocol
  | MissingCapability
  | StaleLease
  | PolicyBlocked
  | TargetUnavailable
  | TransientDaemonUnavailable
  | MalformedFrame
  | FrameTooLarge
  | IoFailure
  | InvalidRequest
  | MethodNotFound
  | InternalFailure

record rpc_error =
  re_kind :: rpc_error_kind
  re_message :: string
  re_retryable :: bool
  re_details :: "json option"

definition rpc_failure :: "rpc_error_kind \<Rightarrow> string \<Rightarrow> rpc_error" where
  "rpc_failure kind message =
     \<lparr>re_kind = kind, re_message = message,
      re_retryable = (kind = IoFailure \<or> kind = TransientDaemonUnavailable), re_details = None\<rparr>"

definition with_details :: "json \<Rightarrow> rpc_error \<Rightarrow> rpc_error" where
  "with_details details e = e\<lparr>re_details := Some details\<rparr>"

text \<open>The decimal text of an unsigned number.\<close>

fun decimal_text :: "nat \<Rightarrow> string" where
  "decimal_text n = (if n < 10 then [char_of (48 + n)] else decimal_text (n div 10) @ [char_of (48 + n mod 10)])"

declare decimal_text.simps [simp del]

definition frame_too_large :: "nat \<Rightarrow> nat \<Rightarrow> rpc_error" where
  "frame_too_large frame_bytes max_frame_bytes =
     with_details (JObject [(''frame_bytes'', JNumber (PosInt (int frame_bytes))),
         (''max_frame_bytes'', JNumber (PosInt (int max_frame_bytes)))])
       (rpc_failure FrameTooLarge (''plugin RPC frame is '' @ decimal_text frame_bytes @ '' bytes, exceeds '' @
         decimal_text max_frame_bytes @ '' bytes''))"

section \<open>Frames on the stream\<close>

text \<open>
  What can be read is a list of bytes that ends (\<open>None\<close>) or fails with an I/O error. A failed read leaves
  the stream to nobody: the connection is given up.
\<close>

type_synonym reader = "byte list \<times> string option"

definition read_exact_frame_bytes :: "nat \<Rightarrow> reader \<Rightarrow> rpc_error + byte list \<times> reader" where
  "read_exact_frame_bytes n r =
     (let (bs, failure) = r in
      if n \<le> length bs then Inr (take n bs, (drop n bs, failure))
      else case failure of
          None \<Rightarrow> Inl (rpc_failure MalformedFrame ''truncated plugin RPC frame'')
        | Some message \<Rightarrow> Inl (rpc_failure IoFailure message))"

definition read_plugin_rpc_frame :: "(byte list \<Rightarrow> string + 'a) \<Rightarrow> nat \<Rightarrow> reader \<Rightarrow> rpc_error + 'a \<times> reader" where
  "read_plugin_rpc_frame decode max_frame_bytes r =
     chain (require (max_frame_bytes \<noteq> 0)
       (rpc_failure MalformedFrame ''max frame byte budget must be greater than zero'')) (\<lambda>_.
     chain (read_exact_frame_bytes FRAME_LENGTH_PREFIX_BYTES r) (\<lambda>(prefix, r).
     let frame_bytes = from_be_bytes prefix in
     chain (require (frame_bytes \<noteq> 0) (rpc_failure MalformedFrame ''plugin RPC frame has zero-length payload'')) (\<lambda>_.
     chain (require (frame_bytes \<le> max_frame_bytes) (frame_too_large frame_bytes max_frame_bytes)) (\<lambda>_.
     chain (read_exact_frame_bytes frame_bytes r) (\<lambda>(payload, r).
     case decode payload of
       Inl e \<Rightarrow> Inl (rpc_failure MalformedFrame (''invalid JSON frame: '' @ e))
     | Inr frame \<Rightarrow> Inr (frame, r))))))"

text \<open>A writer: what has been written, how much more can be, and whether it can be flushed.\<close>

record writer =
  written :: "byte list"
  write_room :: nat
  flushable :: bool

definition write_frame_bytes :: "byte list \<Rightarrow> writer \<Rightarrow> (rpc_error + unit) \<times> writer" where
  "write_frame_bytes bs w =
     (if length bs \<le> write_room w
      then (Inr (), w\<lparr>written := written w @ bs, write_room := write_room w - length bs\<rparr>)
      else (Inl (rpc_failure IoFailure ''write failed''),
        w\<lparr>written := written w @ take (write_room w) bs, write_room := 0\<rparr>))"

definition u32_max :: nat where "u32_max = 4294967295"

definition frame_payload :: "('a \<Rightarrow> string + byte list) \<Rightarrow> nat \<Rightarrow> 'a \<Rightarrow> rpc_error + byte list" where
  "frame_payload encode max_frame_bytes frame =
     chain (require (max_frame_bytes \<noteq> 0)
       (rpc_failure MalformedFrame ''max frame byte budget must be greater than zero'')) (\<lambda>_.
     case encode frame of
       Inl e \<Rightarrow> Inl (rpc_failure MalformedFrame (''encode JSON frame: '' @ e))
     | Inr payload \<Rightarrow>
         chain (require (length payload \<le> max_frame_bytes) (frame_too_large (length payload) max_frame_bytes)) (\<lambda>_.
         chain (require (length payload \<le> u32_max) (frame_too_large (length payload) u32_max)) (\<lambda>_.
         Inr payload)))"

definition write_plugin_rpc_frame ::
    "('a \<Rightarrow> string + byte list) \<Rightarrow> nat \<Rightarrow> 'a \<Rightarrow> writer \<Rightarrow> (rpc_error + unit) \<times> writer" where
  "write_plugin_rpc_frame encode max_frame_bytes frame w =
     (case frame_payload encode max_frame_bytes frame of
        Inl e \<Rightarrow> (Inl e, w)
      | Inr payload \<Rightarrow>
          case write_frame_bytes (to_be_bytes 4 (length payload)) w of
            (Inl e, w) \<Rightarrow> (Inl e, w)
          | (Inr _, w) \<Rightarrow>
              case write_frame_bytes payload w of
                (Inl e, w) \<Rightarrow> (Inl e, w)
              | (Inr _, w) \<Rightarrow>
                  (if flushable w then Inr () else Inl (rpc_failure IoFailure ''flush failed''), w))"

section \<open>Requests and responses\<close>

record request_frame =
  rf_jsonrpc :: string
  rf_id :: string
  rf_method :: string
  rf_params :: json

record response_frame =
  sf_jsonrpc :: string
  sf_id :: string
  sf_result :: "json option"
  sf_error :: "rpc_error option"

definition success_frame :: "string \<Rightarrow> json \<Rightarrow> response_frame" where
  "success_frame frame_id result =
     \<lparr>sf_jsonrpc = ''2.0'', sf_id = frame_id, sf_result = Some result, sf_error = None\<rparr>"

definition failure_frame :: "string \<Rightarrow> rpc_error \<Rightarrow> response_frame" where
  "failure_frame frame_id e =
     \<lparr>sf_jsonrpc = ''2.0'', sf_id = frame_id, sf_result = None, sf_error = Some e\<rparr>"

definition respond :: "string \<Rightarrow> rpc_error + json \<Rightarrow> response_frame" where
  "respond frame_id result =
     (case result of Inl e \<Rightarrow> failure_frame frame_id e | Inr v \<Rightarrow> success_frame frame_id v)"

section \<open>The hello\<close>

record plugin_capability =
  cap_name :: string
  cap_version :: "int option"

record hello_request =
  plugin_name_of :: string
  plugin_instance_id_of :: string
  plugin_release_id_of :: string
  protocol_versions :: "int list"
  plugin_capabilities :: "plugin_capability list"
  plugin_home_of :: string
  plugin_pid :: int

record rpc_policy =
  policy_max_frame_bytes :: nat
  requires_idempotency_key :: bool

record endpoint_hint =
  hint_transport :: string
  hint_endpoint :: string

record hello_response =
  protocol_version :: int
  service_capabilities_of :: "plugin_capability list"
  response_policy :: rpc_policy
  daemon_endpoint_of :: "endpoint_hint option"

record handshake_policy =
  supported_protocol_versions :: "int list"
  required_plugin_capabilities :: "plugin_capability list"
  service_capabilities :: "plugin_capability list"
  handshake_rpc_policy :: rpc_policy
  handshake_endpoint :: "endpoint_hint option"

definition new_capability :: "string \<Rightarrow> plugin_capability" where
  "new_capability name = \<lparr>cap_name = name, cap_version = None\<rparr>"

definition default_rpc_policy :: rpc_policy where
  "default_rpc_policy = \<lparr>policy_max_frame_bytes = PLUGIN_RPC_MAX_FRAME_BYTES, requires_idempotency_key = True\<rparr>"

definition default_handshake_policy :: handshake_policy where
  "default_handshake_policy =
     \<lparr>supported_protocol_versions = PLUGIN_RPC_SUPPORTED_PROTOCOL_VERSIONS, required_plugin_capabilities = [],
      service_capabilities = [new_capability ''plugin-rpc-v1'', new_capability ''plugin-hello''],
      handshake_rpc_policy = default_rpc_policy, handshake_endpoint = None\<rparr>"

definition plugin_capabilities_contain :: "plugin_capability list \<Rightarrow> plugin_capability \<Rightarrow> bool" where
  "plugin_capabilities_contain capabilities required =
     list_ex (\<lambda>c. cap_name c = cap_name required \<and>
       (case cap_version required of None \<Rightarrow> True | Some v \<Rightarrow> cap_version c = Some v)) capabilities"

definition version_list :: "int list \<Rightarrow> json" where
  "version_list versions = JArray (map (\<lambda>v. JNumber (PosInt v)) versions)"

definition capability_json :: "plugin_capability \<Rightarrow> json" where
  "capability_json c = JObject ((''name'', JString (cap_name c)) #
     (case cap_version c of None \<Rightarrow> [] | Some v \<Rightarrow> [(''version'', JNumber (PosInt v))]))"

definition negotiate_plugin_hello :: "hello_request \<Rightarrow> handshake_policy \<Rightarrow> rpc_error + hello_response" where
  "negotiate_plugin_hello request policy =
     chain (ok_or
       (with_details (JObject [(''plugin_protocol_versions'', version_list (protocol_versions request)),
           (''service_protocol_versions'', version_list (supported_protocol_versions policy))])
         (rpc_failure UnsupportedProtocol ''plugin does not advertise a supported protocol version''))
       (max_agg (filter (\<lambda>v. v \<in> set (supported_protocol_versions policy)) (protocol_versions request)))) (\<lambda>version.
     case find (\<lambda>required. \<not> plugin_capabilities_contain (plugin_capabilities request) required)
         (required_plugin_capabilities policy) of
       Some required \<Rightarrow> Inl (with_details
         (JObject [(''required_capability'', capability_json required),
           (''plugin_capabilities'', JArray (map capability_json (plugin_capabilities request)))])
         (rpc_failure MissingCapability (''plugin is missing required capability '' @ [CHR 0x27] @ cap_name required @ [CHR 0x27])))
     | None \<Rightarrow> Inr \<lparr>protocol_version = version, service_capabilities_of = service_capabilities policy,
         response_policy = handshake_rpc_policy policy, daemon_endpoint_of = handshake_endpoint policy\<rparr>)"

text \<open>\<open>parse\<close> and \<open>encode\<close> are serde's view of the request and the response as JSON values.\<close>

definition handle_plugin_hello_frame ::
    "(json \<Rightarrow> string + hello_request) \<Rightarrow> (hello_response \<Rightarrow> string + json) \<Rightarrow> request_frame \<Rightarrow> handshake_policy \<Rightarrow>
      response_frame" where
  "handle_plugin_hello_frame parse encode frame policy =
     respond (rf_id frame)
      (if rf_method frame \<noteq> PLUGIN_RPC_HELLO_METHOD
       then Inl (rpc_failure MethodNotFound
         (''expected '' @ PLUGIN_RPC_HELLO_METHOD @ '', got '' @ rf_method frame))
       else case parse (rf_params frame) of
         Inl e \<Rightarrow> Inl (rpc_failure InvalidRequest (''invalid plugin hello request: '' @ e))
       | Inr hello \<Rightarrow>
           chain (negotiate_plugin_hello hello policy) (\<lambda>response.
           case encode response of
             Inl e \<Rightarrow> Inl (rpc_failure InternalFailure e)
           | Inr result \<Rightarrow> Inr result))"

end
