(* ===== verification/Cbth_PluginWire.thy ===== *)
theory Cbth_PluginWire
  imports Cbth_PluginRpc Cbth_Wire
begin

text \<open>
  The plugin protocol on the wire: what one side writes the other reads, frame by frame; a frame over the
  budget is refused before any of its payload is read; and what the hello negotiates.
\<close>

section \<open>Writing and reading a sequence of frames\<close>

text \<open>A side that writes its frames until one fails, and a side that reads \<open>n\<close> frames.\<close>

primrec write_frames :: "('a \<Rightarrow> string + byte list) \<Rightarrow> nat \<Rightarrow> 'a list \<Rightarrow> writer \<Rightarrow> (rpc_error + unit) \<times> writer" where
  "write_frames encode budget [] w = (Inr (), w)"
| "write_frames encode budget (f # fs) w =
     (case write_plugin_rpc_frame encode budget f w of
        (Inl e, w) \<Rightarrow> (Inl e, w)
      | (Inr _, w) \<Rightarrow> write_frames encode budget fs w)"

primrec read_frames :: "(byte list \<Rightarrow> string + 'a) \<Rightarrow> nat \<Rightarrow> nat \<Rightarrow> reader \<Rightarrow> rpc_error + 'a list \<times> reader" where
  "read_frames decode budget 0 r = Inr ([], r)"
| "read_frames decode budget (Suc n) r =
     chain (read_plugin_rpc_frame decode budget r) (\<lambda>(f, r).
     chain (read_frames decode budget n r) (\<lambda>(fs, r). Inr (f # fs, r)))"

definition framed :: "byte list \<Rightarrow> byte list" where
  "framed payload = to_be_bytes 4 (length payload) @ payload"

lemma frame_payload_ok_iff:
  "frame_payload encode budget f = Inr payload \<longleftrightarrow>
     budget \<noteq> 0 \<and> encode f = Inr payload \<and> length payload \<le> budget \<and> length payload \<le> u32_max"
  by (cases "encode f") (auto simp: frame_payload_def)

lemma write_frame_bytes_ok:
  assumes "write_frame_bytes bs w = (Inr u, w')"
  shows "written w' = written w @ bs" "flushable w' = flushable w" "write_room w = length bs + write_room w'"
  using assms by (auto simp: write_frame_bytes_def split: if_splits)

lemma write_plugin_rpc_frame_ok:
  assumes "write_plugin_rpc_frame encode budget f w = (Inr u, w')"
  obtains payload where "frame_payload encode budget f = Inr payload" "written w' = written w @ framed payload"
  using assms
  by (auto simp: write_plugin_rpc_frame_def framed_def split: sum.splits prod.splits if_splits
      dest!: write_frame_bytes_ok(1))

lemma read_exact_frame_bytes_append:
  "read_exact_frame_bytes (length bs) (bs @ rest, failure) = Inr (bs, (rest, failure))"
  by (simp add: read_exact_frame_bytes_def)

lemma read_framed:
  assumes "frame_payload encode budget f = Inr payload" and "decode payload = Inr f" and "payload \<noteq> []"
  shows "read_plugin_rpc_frame decode budget (framed payload @ rest, failure) = Inr (f, (rest, failure))"
proof -
  from assms(1) have p: "budget \<noteq> 0" "length payload \<le> budget" "length payload < 256 ^ 4"
    by (auto simp: frame_payload_ok_iff u32_max_def)
  have "read_exact_frame_bytes FRAME_LENGTH_PREFIX_BYTES (framed payload @ rest, failure) =
      Inr (to_be_bytes 4 (length payload), (payload @ rest, failure))"
    using read_exact_frame_bytes_append [of "to_be_bytes 4 (length payload)" "payload @ rest" failure]
    by (simp add: framed_def FRAME_LENGTH_PREFIX_BYTES_def)
  then show ?thesis
    using p assms(2,3)
    by (simp add: read_plugin_rpc_frame_def from_to_be_bytes read_exact_frame_bytes_append)
qed

lemma write_then_read_frames:
  assumes "write_frames encode budget fs w = (Inr u, w')"
    and "\<And>f payload. f \<in> set fs \<Longrightarrow> encode f = Inr payload \<Longrightarrow> payload \<noteq> [] \<and> decode payload = Inr f"
  shows "\<exists>sent. written w' = written w @ sent \<and>
    (\<forall>rest failure. read_frames decode budget (length fs) (sent @ rest, failure) = Inr (fs, (rest, failure)))"
  using assms
proof (induction fs arbitrary: w)
  case (Cons f fs)
  from Cons.prems(1) obtain v w1 where first: "write_plugin_rpc_frame encode budget f w = (Inr v, w1)"
    and rest: "write_frames encode budget fs w1 = (Inr u, w')"
    by (auto split: prod.splits sum.splits)
  from first obtain payload where p: "frame_payload encode budget f = Inr payload"
    "written w1 = written w @ framed payload" by (rule write_plugin_rpc_frame_ok)
  then have "payload \<noteq> []" "decode payload = Inr f" using Cons.prems(2) by (auto simp: frame_payload_ok_iff)
  note one = read_framed [where decode = decode, OF p(1) this(2,1)]
  from Cons.IH [OF rest] Cons.prems(2) obtain sent where
    "written w' = written w1 @ sent"
    "read_frames decode budget (length fs) (sent @ rest, failure) = Inr (fs, (rest, failure))" for rest failure
    by auto
  with p(2) one show ?case by (intro exI [where x = "framed payload @ sent"]) simp
qed simp

text \<open>
  C32: Frames written to a plugin's stream by one side are read by the other side in order and unchanged,
  exactly the bytes of those frames are consumed, and this holds whatever follows on the stream, for every
  frame budget and every JSON codec that decodes what it encodes.
\<close>

theorem plugin_frames_roundtrip:
  assumes "write_frames encode budget fs \<lparr>written = [], write_room = room, flushable = flush\<rparr> = (Inr u, w)"
    and "\<And>f payload. f \<in> set fs \<Longrightarrow> encode f = Inr payload \<Longrightarrow> payload \<noteq> [] \<and> decode payload = Inr f"
  shows "read_frames decode budget (length fs) (written w @ rest, failure) = Inr (fs, (rest, failure))"
  using write_then_read_frames [OF assms] by auto

theorem plugin_frames_roundtrip_witness:
  "read_frames Inr 16 2
     (written (snd (write_frames Inr 16 [[0x7B, 0x7D], [0x31]] \<lparr>written = [], write_room = 40, flushable = True\<rparr>)) @ [7], None)
   = Inr ([[0x7B, 0x7D], [0x31]], ([7], None))"
proof -
  let ?fs = "[[0x7B, 0x7D], [0x31]] :: byte list list"
  let ?w = "\<lparr>written = [], write_room = 40, flushable = True\<rparr>"
  have "write_frames Inr 16 ?fs ?w = (Inr (), snd (write_frames Inr 16 ?fs ?w))"
    by (simp add: write_plugin_rpc_frame_def frame_payload_def write_frame_bytes_def u32_max_def)
  from plugin_frames_roundtrip [OF this, where decode = Inr and rest = "[7]" and failure = None]
  have "read_frames Inr 16 (length ?fs) (written (snd (write_frames Inr 16 ?fs ?w)) @ [7], None) = Inr (?fs, ([7], None))"
    by (auto simp del: read_frames.simps write_frames.simps)
  moreover have "length ?fs = 2" by simp
  ultimately show ?thesis by (simp only:)
qed

section \<open>A frame over the budget\<close>

lemma oversized_frame_refused:
  assumes "budget \<noteq> 0" "4 \<le> length bs" "budget < from_be_bytes (take 4 bs)"
  shows "read_plugin_rpc_frame decode budget (bs, failure) = Inl (frame_too_large (from_be_bytes (take 4 bs)) budget)"
  using assms
  by (simp add: read_plugin_rpc_frame_def read_exact_frame_bytes_def FRAME_LENGTH_PREFIX_BYTES_def Let_def require_def)

lemma read_frame_consumes:
  assumes "read_plugin_rpc_frame decode budget (bs, failure) = Inr (f, (rest, failure'))"
  shows "\<exists>payload. bs = take 4 bs @ payload @ rest \<and> payload \<noteq> [] \<and> length payload \<le> budget \<and>
    from_be_bytes (take 4 bs) = length payload \<and> decode payload = Inr f \<and> failure' = failure"
proof -
  from assms have len: "4 \<le> length bs" and pos: "from_be_bytes (take 4 bs) \<noteq> 0"
    and fit: "from_be_bytes (take 4 bs) \<le> budget" "from_be_bytes (take 4 bs) \<le> length bs - 4"
    and out: "decode (take (from_be_bytes (take 4 bs)) (drop 4 bs)) = Inr f"
      "rest = drop (from_be_bytes (take 4 bs)) (drop 4 bs)" "failure' = failure"
    by (auto simp: read_plugin_rpc_frame_def read_exact_frame_bytes_def FRAME_LENGTH_PREFIX_BYTES_def Let_def
        split: if_splits option.splits sum.splits)
  let ?p = "take (from_be_bytes (take 4 bs)) (drop 4 bs)"
  have "bs = take 4 bs @ ?p @ rest" using out(2) by (metis append_take_drop_id)
  moreover have "length ?p = from_be_bytes (take 4 bs)" using fit(2) by simp
  ultimately show ?thesis using pos fit out by (intro exI [of _ ?p]) (auto simp del: length_take)
qed

section \<open>The hello\<close>

lemma negotiated_version:
  assumes "negotiate_plugin_hello hello policy = Inr r"
  shows "protocol_version r \<in> set (protocol_versions hello) \<inter> set (supported_protocol_versions policy) \<and>
    (\<forall>v \<in> set (protocol_versions hello) \<inter> set (supported_protocol_versions policy). v \<le> protocol_version r) \<and>
    (\<forall>c \<in> set (required_plugin_capabilities policy). plugin_capabilities_contain (plugin_capabilities hello) c)"
  using assms
  by (fastforce simp: negotiate_plugin_hello_def max_agg_Some_iff find_None_iff split: option.splits)

end
