(* ===== verification/Cbth_Supervisor.thy ===== *)
theory Cbth_Supervisor
  imports Cbth_PluginRpc Cbth_Paths Cbth_Tables
begin

text \<open>
  How the service supervises its plugins (\<open>src/service.rs\<close>): the registry and its checks, launching a
  plugin, its crashes and restarts, the hello that makes a connection speak for a plugin, and the check
  of every later frame. The operating system is a parameter: what \<open>try_wait\<close> answers for the process of
  a plugin and whether it can be spawned. Instants are counted in milliseconds. The errors of \<open>bail!\<close>
  are constructors.
\<close>

section \<open>Registry\<close>

record restart_policy =
  initial_delay_ms :: nat
  max_delay_ms :: nat
  max_crashes :: nat

definition default_restart_policy :: restart_policy where
  "default_restart_policy = \<lparr>initial_delay_ms = 500, max_delay_ms = 30000, max_crashes = 32\<rparr>"

record plugin_manifest =
  mf_name :: string
  mf_executable_path :: string
  mf_args :: "string list"
  mf_enabled :: bool
  mf_release_id :: "string option"
  mf_capabilities :: "string list"
  mf_restart :: restart_policy
  mf_environment :: "(string \<times> string) list"

record plugin_registry =
  registry_schema :: int
  registry_plugins :: "plugin_manifest list"

datatype plugin_error =
    UnsupportedSchema int
  | UnsupportedCharacters string
  | UnsupportedPathCharacters string
  | BadEnvironmentKey string
  | DuplicatePlugin string
  | ExecutableNotAbsolute string
  | InitialDelayNotPositive string
  | MaxDelayTooSmall string
  | MaxCrashesNotPositive string
  | HomeNotUnderRoot
  | PluginNotConfigured string
  | HomeMismatch string string string
  | PluginIsDisabled string
  | PluginNotManaged string
  | PidMismatch string int int
  | PeerPidMismatch string int int
  | InstanceMismatch string "string option" string
  | ProcessNotActive string
  | ProcessMismatch string int int
  | ProcessAlreadyExited string
  | ProcessNotConfirmed string
  | HelloNotParsed string
  | ClockFailed string
  | StatusNotRead string

definition ascii_alphanumeric :: "char \<Rightarrow> bool" where
  "ascii_alphanumeric c \<longleftrightarrow> (CHR ''0'' \<le> c \<and> c \<le> CHR ''9'') \<or> (CHR ''A'' \<le> c \<and> c \<le> CHR ''Z'') \<or>
     (CHR ''a'' \<le> c \<and> c \<le> CHR ''z'')"

definition validate_nonempty_ascii_token :: "string \<Rightarrow> string \<Rightarrow> plugin_error + unit" where
  "validate_nonempty_ascii_token v name =
     require (v \<noteq> [] \<and> list_all (\<lambda>c. ascii_alphanumeric c \<or> c \<in> {CHR ''-'', CHR ''_'', CHR ''.''}) v)
       (UnsupportedCharacters name)"

definition validate_environment_key :: "string \<Rightarrow> plugin_error + unit" where
  "validate_environment_key v =
     require (v \<noteq> [] \<and> CHR ''='' \<notin> set v \<and> list_all (\<lambda>c. ascii_alphanumeric c \<or> c = CHR ''_'') v \<and>
         strip_prefix ''CBTH_PLUGIN_'' v = None)
       (BadEnvironmentKey v)"

definition validate_plugin_name :: "string \<Rightarrow> plugin_error + unit" where
  "validate_plugin_name name =
     require (is_ok (validate_id_path_component name ''plugin name'')) (UnsupportedPathCharacters ''plugin name'')"

text \<open>\<open>plugins_dir\<close> and \<open>plugin_home_dir\<close> below the home directory of the layout.\<close>

definition plugins_dir :: "string \<Rightarrow> string" where
  "plugins_dir home = home @ ''/plugins''"

definition plugin_home_dir :: "string \<Rightarrow> string \<Rightarrow> string" where
  "plugin_home_dir home name = plugins_dir home @ ''/'' @ name"

definition home_under_root :: "string \<Rightarrow> string \<Rightarrow> bool" where
  "home_under_root home name \<longleftrightarrow>
     path_starts_with (components (plugin_home_dir home name)) (components (plugins_dir home)) \<and>
     length (components (plugins_dir home)) < length (components (plugin_home_dir home name))"

definition validate_manifest :: "string \<Rightarrow> string list \<Rightarrow> plugin_manifest \<Rightarrow> plugin_error + unit" where
  "validate_manifest home names p =
     (let name = mf_name p; restart = mf_restart p in
      chain (validate_plugin_name name) (\<lambda>_.
      chain (require (name \<notin> set names) (DuplicatePlugin name)) (\<lambda>_.
      chain (require (is_absolute (mf_executable_path p)) (ExecutableNotAbsolute name)) (\<lambda>_.
      chain (require (initial_delay_ms restart \<noteq> 0) (InitialDelayNotPositive name)) (\<lambda>_.
      chain (require (initial_delay_ms restart \<le> max_delay_ms restart) (MaxDelayTooSmall name)) (\<lambda>_.
      chain (require (max_crashes restart \<noteq> 0) (MaxCrashesNotPositive name)) (\<lambda>_.
      chain (map_ok (\<lambda>c. validate_nonempty_ascii_token c ''plugin capability'') (mf_capabilities p)) (\<lambda>_.
      chain (map_ok validate_environment_key (map fst (mf_environment p))) (\<lambda>_.
      require (home_under_root home name) HomeNotUnderRoot)))))))))"

fun validate_manifests :: "string \<Rightarrow> string list \<Rightarrow> plugin_manifest list \<Rightarrow> plugin_error + unit" where
  "validate_manifests home names [] = Inr ()"
| "validate_manifests home names (p # ps) =
     chain (validate_manifest home names p) (\<lambda>_. validate_manifests home (mf_name p # names) ps)"

definition registry_schema_version :: int where "registry_schema_version = 1"

definition validate_plugin_registry :: "string \<Rightarrow> plugin_registry \<Rightarrow> plugin_error + unit" where
  "validate_plugin_registry home registry =
     chain (require (registry_schema registry = registry_schema_version)
       (UnsupportedSchema (registry_schema registry))) (\<lambda>_.
     validate_manifests home [] (registry_plugins registry))"

section \<open>Supervised plugins\<close>

datatype plugin_state = PluginDisabled | PluginStarting | PluginRunning | PluginBackingOff | PluginFailed | PluginExited

record plugin_status =
  ps_name :: string
  ps_enabled :: bool
  ps_configured :: bool
  ps_state :: plugin_state
  ps_pid :: "int option"
  ps_release_id :: "string option"
  ps_instance_id :: "string option"
  ps_crash_count :: nat
  ps_restart_after_epoch :: "int option"
  ps_last_started_at :: "int option"
  ps_last_healthy_at :: "int option"
  ps_last_exit :: "string option"
  ps_last_error :: "string option"
  ps_plugin_home :: string
  ps_stdout_log :: string
  ps_stderr_log :: string

text \<open>A supervised plugin; \<open>process\<close> is the pid of its child, delays are milliseconds.\<close>

record supervised_plugin =
  manifest :: plugin_manifest
  process :: "int option"
  plugin_status :: plugin_status
  next_restart :: "nat option"
  current_backoff :: nat

definition plugin_logs_dir :: "string \<Rightarrow> string \<Rightarrow> string" where
  "plugin_logs_dir home name = plugin_home_dir home name @ ''/logs''"

definition new_supervised_plugin :: "string \<Rightarrow> plugin_manifest \<Rightarrow> int \<Rightarrow> nat \<Rightarrow> supervised_plugin" where
  "new_supervised_plugin home m now instant =
     \<lparr>manifest = m, process = None,
      plugin_status = \<lparr>ps_name = mf_name m, ps_enabled = mf_enabled m, ps_configured = True,
        ps_state = (if mf_enabled m then PluginStarting else PluginDisabled), ps_pid = None,
        ps_release_id = mf_release_id m, ps_instance_id = None, ps_crash_count = 0,
        ps_restart_after_epoch = (if mf_enabled m then Some now else None), ps_last_started_at = None,
        ps_last_healthy_at = None, ps_last_exit = None, ps_last_error = None,
        ps_plugin_home = plugin_home_dir home (mf_name m),
        ps_stdout_log = plugin_logs_dir home (mf_name m) @ ''/stdout.log'',
        ps_stderr_log = plugin_logs_dir home (mf_name m) @ ''/stderr.log''\<rparr>,
      next_restart = (if mf_enabled m then Some instant else None),
      current_backoff = initial_delay_ms (mf_restart m)\<rparr>"

definition can_restart :: "supervised_plugin \<Rightarrow> bool" where
  "can_restart p \<longleftrightarrow> mf_enabled (manifest p) \<and> ps_crash_count (plugin_status p) < max_crashes (mf_restart (manifest p))"

definition set_status :: "(plugin_status \<Rightarrow> plugin_status) \<Rightarrow> supervised_plugin \<Rightarrow> supervised_plugin" where
  "set_status f p = p\<lparr>plugin_status := f (plugin_status p)\<rparr>"

definition schedule_restart :: "int \<Rightarrow> nat \<Rightarrow> supervised_plugin \<Rightarrow> supervised_plugin" where
  "schedule_restart now instant p =
     (if \<not> can_restart p
      then (set_status (\<lambda>s. s\<lparr>ps_state := PluginFailed, ps_restart_after_epoch := None\<rparr>) p)\<lparr>next_restart := None\<rparr>
      else let delay = current_backoff p;
               seconds = (if int (delay div 1000) \<le> i64_max then int (delay div 1000) else i64_max) in
        (set_status (\<lambda>s. s\<lparr>ps_state := PluginBackingOff,
            ps_restart_after_epoch := or_else (checked_add now seconds) (Some i64_max)\<rparr>) p)
          \<lparr>next_restart := Some (instant + delay),
           current_backoff := min (2 * delay) (max_delay_ms (mf_restart (manifest p)))\<rparr>)"

definition saturating_inc_u32 :: "nat \<Rightarrow> nat" where
  "saturating_inc_u32 n = min (n + 1) u32_max"

definition record_plugin_crash :: "int \<Rightarrow> nat \<Rightarrow> supervised_plugin \<Rightarrow> supervised_plugin" where
  "record_plugin_crash now instant p =
     schedule_restart now instant (set_status (\<lambda>s. s\<lparr>ps_crash_count := saturating_inc_u32 (ps_crash_count s)\<rparr>) p)"

definition record_plugin_start_failure :: "int \<Rightarrow> nat \<Rightarrow> supervised_plugin \<Rightarrow> supervised_plugin" where
  "record_plugin_start_failure now instant p =
     schedule_restart now instant
       (set_status (\<lambda>s. s\<lparr>ps_pid := None, ps_crash_count := saturating_inc_u32 (ps_crash_count s)\<rparr>) p)"

definition record_plugin_exit :: "string \<Rightarrow> bool \<Rightarrow> int \<Rightarrow> nat \<Rightarrow> supervised_plugin \<Rightarrow> supervised_plugin" where
  "record_plugin_exit exit_text success now instant p =
     (let p = set_status (\<lambda>s. s\<lparr>ps_last_exit := Some exit_text\<rparr>) p in
      if success
      then (set_status (\<lambda>s. s\<lparr>ps_state := PluginExited, ps_restart_after_epoch := None\<rparr>) p)
        \<lparr>next_restart := None, current_backoff := initial_delay_ms (mf_restart (manifest p))\<rparr>
      else record_plugin_crash now instant p)"

section \<open>One tick\<close>

text \<open>What \<open>try_wait\<close> answers: the process runs, exited (with the text and success of its status), or an error.\<close>

datatype waited = StillRunning | ExitedWith string bool | WaitFailed string

definition reap_plugin :: "waited \<Rightarrow> int \<Rightarrow> nat \<Rightarrow> supervised_plugin \<Rightarrow> supervised_plugin \<times> bool" where
  "reap_plugin w now instant p =
     (case process p of
        None \<Rightarrow> (p, False)
      | Some _ \<Rightarrow>
          (case w of
             StillRunning \<Rightarrow> (p, False)
           | ExitedWith exit_text success \<Rightarrow>
               (record_plugin_exit exit_text success now instant
                  ((set_status (\<lambda>s. s\<lparr>ps_pid := None\<rparr>) p)\<lparr>process := None\<rparr>), True)
           | WaitFailed message \<Rightarrow>
               (record_plugin_crash now instant
                  ((set_status (\<lambda>s. s\<lparr>ps_last_error := Some (''wait plugin process: '' @ message), ps_pid := None\<rparr>) p)
                    \<lparr>process := None\<rparr>), True)))"

definition restart_due :: "nat \<Rightarrow> supervised_plugin \<Rightarrow> bool" where
  "restart_due instant p \<longleftrightarrow> process p = None \<and> can_restart p \<and>
     (case next_restart p of None \<Rightarrow> False | Some deadline \<Rightarrow> deadline \<le> instant)"

definition launch_plugin :: "string + int \<Rightarrow> int \<Rightarrow> nat \<Rightarrow> supervised_plugin \<Rightarrow> supervised_plugin" where
  "launch_plugin spawned now instant p =
     (case spawned of
        Inr pid \<Rightarrow>
          (set_status (\<lambda>s. s\<lparr>ps_pid := Some pid, ps_state := PluginStarting, ps_last_started_at := Some now,
             ps_restart_after_epoch := None, ps_instance_id := None, ps_last_healthy_at := None,
             ps_last_error := None\<rparr>) p)\<lparr>process := Some pid, next_restart := None\<rparr>
      | Inl message \<Rightarrow>
          record_plugin_start_failure now instant (set_status (\<lambda>s. s\<lparr>ps_last_error := Some message\<rparr>) p))"

text \<open>
  \<open>spawn_plugin\<close> is called exactly when a restart is due; its answer is \<open>spawned\<close>. The result says
  whether the status changed and whether the plugin was launched.
\<close>

definition supervise_plugin :: "waited \<Rightarrow> string + int \<Rightarrow> int \<Rightarrow> nat \<Rightarrow> supervised_plugin \<Rightarrow> supervised_plugin \<times> bool \<times> bool" where
  "supervise_plugin w spawned now instant p =
     (if \<not> mf_enabled (manifest p) then (set_status (\<lambda>s. s\<lparr>ps_state := PluginDisabled\<rparr>) p, False, False)
      else let (p, dirty) = reap_plugin w now instant p in
        if restart_due instant p then (launch_plugin spawned now instant p, True, True)
        else (p, dirty, False))"

record service_state =
  service_home :: string
  service_plugins :: "(string \<times> supervised_plugin) list"
  service_dirty :: bool

definition supervise_tick ::
    "(string \<Rightarrow> waited) \<Rightarrow> (string \<Rightarrow> string + int) \<Rightarrow> int \<Rightarrow> nat \<Rightarrow> service_state \<Rightarrow> service_state" where
  "supervise_tick wait spawn now instant st =
     (let results = map (\<lambda>(n, p). (n, supervise_plugin (wait n) (spawn n) now instant p)) (service_plugins st) in
      st\<lparr>service_plugins := map (\<lambda>(n, p, _). (n, p)) results,
         service_dirty := service_dirty st \<or> list_ex (\<lambda>(_, _, dirty, _). dirty) results\<rparr>)"

text \<open>
  A process group of an earlier run of the service that still exists is not launched a second time.
  \<open>persisted\<close> is the stored status, \<open>exists\<close> whether its process group does.
\<close>

definition reconcile_persisted_plugin_process ::
    "plugin_status option \<Rightarrow> (int \<Rightarrow> bool) \<Rightarrow> supervised_plugin \<Rightarrow> supervised_plugin" where
  "reconcile_persisted_plugin_process persisted exists p =
     (if \<not> mf_enabled (manifest p) then p
      else case persisted of
        None \<Rightarrow> p
      | Some old \<Rightarrow>
          case ps_pid old of
            None \<Rightarrow> p
          | Some pid \<Rightarrow>
              if \<not> exists pid then p
              else (set_status (\<lambda>s. s\<lparr>ps_state := PluginFailed, ps_pid := Some pid,
                  ps_instance_id := ps_instance_id old, ps_crash_count := ps_crash_count old,
                  ps_last_started_at := ps_last_started_at old, ps_last_healthy_at := ps_last_healthy_at old,
                  ps_last_exit := ps_last_exit old,
                  ps_last_error := Some (''persisted plugin process group '' @ decimal_text (nat pid) @
                    '' is still running; refusing to launch duplicate without a process identity fence''),
                  ps_restart_after_epoch := None\<rparr>) p)\<lparr>next_restart := None\<rparr>)"

definition new_service_state ::
    "string \<Rightarrow> (string \<Rightarrow> plugin_status option) \<Rightarrow> (int \<Rightarrow> bool) \<Rightarrow> int \<Rightarrow> nat \<Rightarrow> plugin_registry \<Rightarrow> service_state" where
  "new_service_state home persisted exists now instant registry =
     \<lparr>service_home = home,
      service_plugins = map (\<lambda>m. (mf_name m, reconcile_persisted_plugin_process (persisted (mf_name m)) exists
        (new_supervised_plugin home m now instant))) (registry_plugins registry),
      service_dirty = True\<rparr>"

definition shutdown_managed_plugins :: "service_state \<Rightarrow> service_state \<times> (string \<times> int) list" where
  "shutdown_managed_plugins st =
     (let children = List.map_filter (\<lambda>(n, p). map_option (\<lambda>pid. (n, pid)) (process p)) (service_plugins st) in
      (st\<lparr>service_plugins := map (\<lambda>(n, p). (n, case process p of
            None \<Rightarrow> p
          | Some _ \<Rightarrow> (set_status (\<lambda>s. s\<lparr>ps_pid := None, ps_state := PluginExited, ps_restart_after_epoch := None,
              ps_last_exit := Some ''terminated by service shutdown''\<rparr>) p)\<lparr>process := None\<rparr>)) (service_plugins st),
         service_dirty := service_dirty st \<or> children \<noteq> []\<rparr>,
       children))"

section \<open>Status reports\<close>

definition status_from_manifest :: "string \<Rightarrow> plugin_manifest \<Rightarrow> plugin_status" where
  "status_from_manifest home m =
     \<lparr>ps_name = mf_name m, ps_enabled = mf_enabled m, ps_configured = True,
      ps_state = (if mf_enabled m then PluginExited else PluginDisabled), ps_pid = None,
      ps_release_id = mf_release_id m, ps_instance_id = None, ps_crash_count = 0,
      ps_restart_after_epoch = None, ps_last_started_at = None, ps_last_healthy_at = None,
      ps_last_exit = None, ps_last_error = None, ps_plugin_home = plugin_home_dir home (mf_name m),
      ps_stdout_log = plugin_logs_dir home (mf_name m) @ ''/stdout.log'',
      ps_stderr_log = plugin_logs_dir home (mf_name m) @ ''/stderr.log''\<rparr>"

definition apply_manifest_status_overlay :: "plugin_manifest \<Rightarrow> plugin_status \<Rightarrow> plugin_status" where
  "apply_manifest_status_overlay m s =
     (let s = s\<lparr>ps_enabled := mf_enabled m, ps_configured := True,
         ps_release_id := or_else (ps_release_id s) (mf_release_id m)\<rparr> in
      if mf_enabled m then s
      else s\<lparr>ps_state := PluginDisabled, ps_pid := None, ps_instance_id := None, ps_restart_after_epoch := None,
         ps_last_healthy_at := None\<rparr>)"

definition status_report ::
    "string \<Rightarrow> (string \<Rightarrow> plugin_error + plugin_status option) \<Rightarrow> plugin_registry \<Rightarrow> string option \<Rightarrow>
      plugin_error + plugin_status list" where
  "status_report home stored registry wanted =
     chain (validate_plugin_registry home registry) (\<lambda>_.
     chain (map_ok (\<lambda>m. chain (stored (mf_name m)) (\<lambda>found. Inr (case found of
           Some s \<Rightarrow> apply_manifest_status_overlay m s
         | None \<Rightarrow> status_from_manifest home m)))
       (filter (\<lambda>m. case wanted of None \<Rightarrow> True | Some name \<Rightarrow> mf_name m = name) (registry_plugins registry))) (\<lambda>plugins.
     case wanted of
       None \<Rightarrow> Inr plugins
     | Some name \<Rightarrow> if plugins = [] then Inl (PluginNotConfigured name) else Inr plugins))"

section \<open>Connections\<close>

record connection_identity =
  ci_plugin_name :: string
  ci_pid :: int
  ci_instance_id :: string

definition get_plugin :: "service_state \<Rightarrow> string \<Rightarrow> supervised_plugin option" where
  "get_plugin st name = map_of (service_plugins st) name"

definition put_plugin :: "string \<Rightarrow> supervised_plugin \<Rightarrow> service_state \<Rightarrow> service_state" where
  "put_plugin name p st =
     st\<lparr>service_plugins := map (\<lambda>(n, q). (n, if n = name then p else q)) (service_plugins st)\<rparr>"

definition mark_dirty :: "service_state \<Rightarrow> service_state" where
  "mark_dirty st = st\<lparr>service_dirty := True\<rparr>"

definition hello_process :: "hello_request \<Rightarrow> int option \<Rightarrow> service_state \<Rightarrow> plugin_error + supervised_plugin \<times> int" where
  "hello_process hello peer_pid st =
     (let name = plugin_name_of hello in
      chain (validate_plugin_name name) (\<lambda>_.
      chain (ok_or (PluginNotConfigured name) (get_plugin st name)) (\<lambda>p.
      chain (require (components (plugin_home_of hello) = components (plugin_home_dir (service_home st) name))
        (HomeMismatch name (plugin_home_dir (service_home st) name) (plugin_home_of hello))) (\<lambda>_.
      chain (require (mf_enabled (manifest p)) (PluginIsDisabled name)) (\<lambda>_.
      chain (ok_or (PluginNotManaged name) (process p)) (\<lambda>expected_pid.
      chain (require (plugin_pid hello = expected_pid) (PidMismatch name expected_pid (plugin_pid hello))) (\<lambda>_.
      chain (case peer_pid of
          None \<Rightarrow> Inr ()
        | Some peer \<Rightarrow> require (peer = expected_pid) (PeerPidMismatch name expected_pid peer)) (\<lambda>_.
      Inr (p, expected_pid)))))))))"

text \<open>When the clock fails the status has been changed already, though it is not marked to be persisted.\<close>

definition hello_identity ::
    "hello_request \<Rightarrow> int option \<Rightarrow> string + int \<Rightarrow> service_state \<Rightarrow> (plugin_error + connection_identity) \<times> service_state" where
  "hello_identity hello peer_pid clock st =
     (case hello_process hello peer_pid st of
        Inl e \<Rightarrow> (Inl e, st)
      | Inr (p, expected_pid) \<Rightarrow>
          let name = plugin_name_of hello;
              p = set_status (\<lambda>s. s\<lparr>ps_state := PluginRunning, ps_pid := Some expected_pid,
                ps_release_id := Some (plugin_release_id_of hello),
                ps_instance_id := Some (plugin_instance_id_of hello)\<rparr>) p in
          case clock of
            Inl e \<Rightarrow> (Inl (ClockFailed e), put_plugin name p st)
          | Inr now \<Rightarrow>
              (Inr \<lparr>ci_plugin_name = name, ci_pid = expected_pid, ci_instance_id = plugin_instance_id_of hello\<rparr>,
               mark_dirty (put_plugin name
                 (set_status (\<lambda>s. s\<lparr>ps_last_healthy_at := Some now, ps_last_error := None\<rparr>) p) st)))"

text \<open>The answer to the first frame of a connection, and the identity it then has.\<close>

definition validate_and_handle_hello ::
    "(json \<Rightarrow> string + hello_request) \<Rightarrow> (hello_response \<Rightarrow> string + json) \<Rightarrow> (plugin_error \<Rightarrow> string) \<Rightarrow>
      request_frame \<Rightarrow> handshake_policy \<Rightarrow> int option \<Rightarrow> string + int \<Rightarrow> service_state \<Rightarrow>
      (response_frame \<times> connection_identity option) \<times> service_state" where
  "validate_and_handle_hello parse encode error_text frame policy peer_pid clock st =
     (let response = handle_plugin_hello_frame parse encode frame policy in
      if sf_error response \<noteq> None then ((response, None), st)
      else let (validation, st) = (case parse (rf_params frame) of
             Inl e \<Rightarrow> (Inl (HelloNotParsed e), st)
           | Inr hello \<Rightarrow> hello_identity hello peer_pid clock st) in
        case validation of
          Inr ident \<Rightarrow> ((response, Some ident), st)
        | Inl e \<Rightarrow> ((failure_frame (rf_id frame) (rpc_failure PolicyBlocked (error_text e)), None), st))"

definition plugin_handshake_policy :: "string \<Rightarrow> handshake_policy" where
  "plugin_handshake_policy daemon_socket_path = default_handshake_policy
     \<lparr>service_capabilities := map new_capability
        [''plugin-rpc-v1'', ''plugin-hello'', ''plugin-health-update'', ''app-server-lease-rpc-v1'',
         ''app_server.ensure'', ''app_server.refresh'', ''app_server.stop'', ''generic-delivery-core-v1'',
         ''delivery-driver-codex-app-server-v1'', ''delivery.enqueue'', ''delivery.inspect'',
         ''delivery.manualize'', ''plugin-supervisor-c2''],
      handshake_rpc_policy := default_rpc_policy,
      handshake_endpoint := Some \<lparr>hint_transport = ''uds'', hint_endpoint = daemon_socket_path\<rparr>\<rparr>"

text \<open>The check made for each frame: the identity names the plugin's process and its latest instance.\<close>

definition validate_plugin_connection_identity ::
    "connection_identity \<Rightarrow> waited \<Rightarrow> int \<Rightarrow> nat \<Rightarrow> supervised_plugin \<Rightarrow> (plugin_error + unit) \<times> supervised_plugin" where
  "validate_plugin_connection_identity ident w now instant p =
     (if ps_instance_id (plugin_status p) \<noteq> Some (ci_instance_id ident)
      then (Inl (InstanceMismatch (ci_plugin_name ident) (ps_instance_id (plugin_status p)) (ci_instance_id ident)), p)
      else case process p of
        None \<Rightarrow> (Inl (ProcessNotActive (ci_plugin_name ident)), p)
      | Some current_pid \<Rightarrow>
          if current_pid \<noteq> ci_pid ident
          then (Inl (ProcessMismatch (ci_plugin_name ident) current_pid (ci_pid ident)), p)
          else case w of
            StillRunning \<Rightarrow> (Inr (), p)
          | ExitedWith _ _ \<Rightarrow> (Inl (ProcessAlreadyExited (ci_plugin_name ident)), fst (reap_plugin w now instant p))
          | WaitFailed message \<Rightarrow> (Inl (ProcessNotConfirmed message), fst (reap_plugin w now instant p)))"

definition validate_current_plugin_connection ::
    "connection_identity \<Rightarrow> waited \<Rightarrow> int \<Rightarrow> nat \<Rightarrow> service_state \<Rightarrow> (plugin_error + unit) \<times> service_state" where
  "validate_current_plugin_connection ident w now instant st =
     (case get_plugin st (ci_plugin_name ident) of
        None \<Rightarrow> (Inl (PluginNotConfigured (ci_plugin_name ident)), st)
      | Some p \<Rightarrow>
          case validate_plugin_connection_identity ident w now instant p of
            (Inl e, p) \<Rightarrow> (Inl e, mark_dirty (put_plugin (ci_plugin_name ident) p st))
          | (Inr _, p) \<Rightarrow> (Inr (), put_plugin (ci_plugin_name ident) p st))"

definition health_update ::
    "connection_identity \<Rightarrow> waited \<Rightarrow> int \<Rightarrow> nat \<Rightarrow> service_state \<Rightarrow> (plugin_error + json) \<times> service_state" where
  "health_update ident w now instant st =
     (case validate_current_plugin_connection ident w now instant st of
        (Inl e, st) \<Rightarrow> (Inl e, st)
      | (Inr _, st) \<Rightarrow>
          case get_plugin st (ci_plugin_name ident) of
            None \<Rightarrow> (Inl (PluginNotConfigured (ci_plugin_name ident)), st)
          | Some p \<Rightarrow> (Inr (JObject [(''accepted'', JBool True)]),
              mark_dirty (put_plugin (ci_plugin_name ident)
                (set_status (\<lambda>s. s\<lparr>ps_last_healthy_at := Some now, ps_state := PluginRunning\<rparr>) p) st)))"

end
