(* ===== verification/Cbth_Supervision.thy ===== *)
theory Cbth_Supervision
  imports Cbth_Supervisor
begin

text \<open>
  What the supervision of plugins guarantees, for any sequence of ticks, hellos and frames and any answers
  of the operating system: a plugin is launched at most \<open>max_crashes\<close> times, its restarts back off
  exponentially up to the maximum, and only the latest instance of the running process is listened to.
\<close>

section \<open>Runs of the service\<close>

datatype service_event =
    TickAt "string \<Rightarrow> waited" "string \<Rightarrow> string + int" int nat
  | FrameAt connection_identity waited int nat
  | HealthAt connection_identity waited int nat
  | HelloFrom hello_request "int option" "string + int"
  | StopPlugins

fun handle_event :: "service_event \<Rightarrow> service_state \<Rightarrow> service_state" where
  "handle_event (TickAt wait spawn now instant) st = supervise_tick wait spawn now instant st"
| "handle_event (FrameAt ident w now instant) st = snd (validate_current_plugin_connection ident w now instant st)"
| "handle_event (HealthAt ident w now instant) st = snd (health_update ident w now instant st)"
| "handle_event (HelloFrom hello peer clock) st = snd (hello_identity hello peer clock st)"
| "handle_event StopPlugins st = fst (shutdown_managed_plugins st)"

fun launched :: "string \<Rightarrow> service_event \<Rightarrow> service_state \<Rightarrow> nat" where
  "launched name (TickAt wait spawn now instant) st =
     (case get_plugin st name of
        None \<Rightarrow> 0
      | Some p \<Rightarrow> if snd (snd (supervise_plugin (wait name) (spawn name) now instant p)) then 1 else 0)"
| "launched name _ st = 0"

primrec launches :: "string \<Rightarrow> service_event list \<Rightarrow> service_state \<Rightarrow> nat" where
  "launches name [] st = 0"
| "launches name (e # es) st = launched name e st + launches name es (handle_event e st)"

primrec supervisor_run :: "service_event list \<Rightarrow> service_state \<Rightarrow> service_state" where
  "supervisor_run [] st = st"
| "supervisor_run (e # es) st = supervisor_run es (handle_event e st)"

section \<open>What an event does to one plugin\<close>

lemma map_of_map_snd: "map_of (map (\<lambda>(n, p). (n, f n p)) xs) name = map_option (f name) (map_of xs name)"
  by (induction xs) auto

lemma get_put_plugin:
  "get_plugin (put_plugin n p st) name = (if n = name then map_option (\<lambda>_. p) (get_plugin st name) else get_plugin st name)"
  using map_of_map_snd [of "\<lambda>m q. if m = n then p else q" "service_plugins st" name]
  by (auto simp: get_plugin_def put_plugin_def option.map_ident)

lemma get_plugin_mark_dirty [simp]: "get_plugin (mark_dirty st) name = get_plugin st name"
  by (simp add: get_plugin_def mark_dirty_def)

lemma get_plugin_tick:
  "get_plugin (supervise_tick wait spawn now instant st) name =
     map_option (\<lambda>p. fst (supervise_plugin (wait name) (spawn name) now instant p)) (get_plugin st name)"
proof -
  have "(\<lambda>(n, p, _). (n, p)) \<circ> (\<lambda>(n, p). (n, supervise_plugin (wait n) (spawn n) now instant p)) =
      (\<lambda>(n, p). (n, fst (supervise_plugin (wait n) (spawn n) now instant p)))"
    by (auto simp: fun_eq_iff split: prod.splits)
  then show ?thesis
    using map_of_map_snd [of "\<lambda>n p. fst (supervise_plugin (wait n) (spawn n) now instant p)" "service_plugins st" name]
    by (simp add: get_plugin_def supervise_tick_def Let_def)
qed

text \<open>An event leaves a plugin alone, reaps it, notes it in its status, or is a tick.\<close>

definition same_process :: "supervised_plugin \<Rightarrow> supervised_plugin \<Rightarrow> bool" where
  "same_process p q \<longleftrightarrow> manifest q = manifest p \<and> process q = process p \<and> next_restart q = next_restart p \<and>
     current_backoff q = current_backoff p \<and> ps_crash_count (plugin_status q) = ps_crash_count (plugin_status p)"

definition stopped_process :: "supervised_plugin \<Rightarrow> supervised_plugin \<Rightarrow> bool" where
  "stopped_process p q \<longleftrightarrow> process p \<noteq> None \<and> same_process (p\<lparr>process := None\<rparr>) q"

lemma same_process_refl [simp]: "same_process p p"
  by (simp add: same_process_def)

lemma same_process_set_status:
  "(\<And>s. ps_crash_count (f s) = ps_crash_count s) \<Longrightarrow> same_process p (set_status f p)"
  by (simp add: same_process_def set_status_def)

lemma validate_identity_cases:
  assumes "validate_plugin_connection_identity ident w now instant p = (r, q)"
  shows "q = p \<or> q = fst (reap_plugin w now instant p)"
  using assms by (auto simp: validate_plugin_connection_identity_def split: if_splits option.splits waited.splits)

lemma hello_effect:
  assumes "get_plugin (snd (hello_identity hello peer clock st)) name = Some q"
  shows "\<exists>p. get_plugin st name = Some p \<and> same_process p q"
proof (cases "hello_process hello peer st")
  case (Inr r)
  obtain p pid where r: "r = (p, pid)" by (cases r)
  with Inr have p: "get_plugin st (plugin_name_of hello) = Some p"
    by (simp add: hello_process_def Let_def)
  have status: "same_process p (set_status f p)" if "\<And>s. ps_crash_count (f s) = ps_crash_count s" for f
    by (rule same_process_set_status [OF that])
  show ?thesis
    using assms Inr r p
    by (cases clock; cases "plugin_name_of hello = name")
      (auto simp: hello_identity_def get_put_plugin Let_def same_process_def set_status_def)
qed (use assms in \<open>simp add: hello_identity_def\<close>)

lemma frame_effect:
  assumes "get_plugin (snd (validate_current_plugin_connection ident w now instant st)) name = Some q"
  shows "\<exists>p. get_plugin st name = Some p \<and> (q = p \<or> q = fst (reap_plugin w now instant p))"
proof (cases "get_plugin st (ci_plugin_name ident)")
  case (Some p)
  obtain r q' where v: "validate_plugin_connection_identity ident w now instant p = (r, q')" by fastforce
  with assms Some validate_identity_cases [OF v] show ?thesis
    by (cases r; cases "ci_plugin_name ident = name")
      (auto simp: validate_current_plugin_connection_def get_put_plugin)
qed (use assms in \<open>simp add: validate_current_plugin_connection_def\<close>)

lemma health_effect:
  assumes "get_plugin (snd (health_update ident w now instant st)) name = Some q"
  shows "\<exists>p r. get_plugin st name = Some p \<and> (r = p \<or> r = fst (reap_plugin w now instant p)) \<and> same_process r q"
proof -
  obtain v st1 where v: "validate_current_plugin_connection ident w now instant st = (v, st1)" by fastforce
  have "\<exists>r. get_plugin st1 name = Some r \<and> same_process r q"
    using assms v
    by (cases v; cases "get_plugin st1 (ci_plugin_name ident)"; cases "ci_plugin_name ident = name")
      (auto simp: health_update_def get_put_plugin same_process_def set_status_def)
  with frame_effect [of ident w now instant st name] v show ?thesis by auto
qed

definition stop_plugin :: "supervised_plugin \<Rightarrow> supervised_plugin" where
  "stop_plugin p = (case process p of None \<Rightarrow> p | Some _ \<Rightarrow>
     (set_status (\<lambda>s. s\<lparr>ps_pid := None, ps_state := PluginExited, ps_restart_after_epoch := None,
       ps_last_exit := Some ''terminated by service shutdown''\<rparr>) p)\<lparr>process := None\<rparr>)"

lemma get_plugin_stop:
  "get_plugin (fst (shutdown_managed_plugins st)) name = map_option stop_plugin (get_plugin st name)"
  using map_of_map_snd [of "\<lambda>_. stop_plugin" "service_plugins st" name]
  by (simp add: shutdown_managed_plugins_def get_plugin_def Let_def stop_plugin_def)

lemma stop_effect:
  assumes "get_plugin (fst (shutdown_managed_plugins st)) name = Some q"
  shows "\<exists>p. get_plugin st name = Some p \<and> (q = p \<or> stopped_process p q)"
proof -
  from assms obtain p where p: "get_plugin st name = Some p" "q = stop_plugin p"
    by (auto simp: get_plugin_stop)
  have "stop_plugin p = p \<or> stopped_process p (stop_plugin p)"
    by (cases "process p") (simp_all add: stop_plugin_def stopped_process_def same_process_def set_status_def)
  with p show ?thesis by blast
qed

section \<open>Launches\<close>

text \<open>How often a plugin can still be launched.\<close>

definition launches_left :: "supervised_plugin \<Rightarrow> nat" where
  "launches_left p =
     (let left = max_crashes (mf_restart (manifest p)) - ps_crash_count (plugin_status p) in
      if process p \<noteq> None then left - 1 else if next_restart p = None then 0 else left)"

lemma launches_left_same: "same_process p q \<Longrightarrow> launches_left q = launches_left p"
  by (auto simp: same_process_def launches_left_def Let_def)

lemma manifest_reap [simp]: "manifest (fst (reap_plugin w now instant p)) = manifest p"
  by (auto simp: reap_plugin_def record_plugin_exit_def record_plugin_crash_def schedule_restart_def set_status_def
      Let_def split: option.splits waited.splits)

lemma schedule_restart_fields:
  "manifest (schedule_restart now instant p) = manifest p"
  "process (schedule_restart now instant p) = process p"
  "ps_crash_count (plugin_status (schedule_restart now instant p)) = ps_crash_count (plugin_status p)"
  by (simp_all add: schedule_restart_def set_status_def Let_def)

lemma saturating_inc_bound: "n < m \<Longrightarrow> m \<le> u32_max \<Longrightarrow> saturating_inc_u32 n = n + 1"
  by (simp add: saturating_inc_u32_def)

lemma launches_left_crash:
  assumes "process q = None" "manifest q = manifest p"
    "ps_crash_count (plugin_status q) = saturating_inc_u32 (ps_crash_count (plugin_status p))"
    "max_crashes (mf_restart (manifest p)) \<le> u32_max"
  shows "launches_left (schedule_restart now instant q) \<le>
    max_crashes (mf_restart (manifest p)) - ps_crash_count (plugin_status p) - 1"
proof (cases "can_restart q")
  case True
  with assms have "ps_crash_count (plugin_status p) < max_crashes (mf_restart (manifest p))"
    by (auto simp: can_restart_def saturating_inc_u32_def min_def split: if_splits)
  with assms show ?thesis by (simp add: launches_left_def Let_def schedule_restart_fields saturating_inc_bound)
next
  case False
  then show ?thesis using assms by (simp add: launches_left_def schedule_restart_def set_status_def)
qed

lemma launches_left_reap:
  assumes "max_crashes (mf_restart (manifest p)) \<le> u32_max"
  shows "launches_left (fst (reap_plugin w now instant p)) \<le> launches_left p"
proof (cases "process p")
  case (Some pid)
  have crash: "launches_left (record_plugin_crash now instant q) \<le> launches_left p"
    if "process q = None" "manifest q = manifest p"
      "ps_crash_count (plugin_status q) = ps_crash_count (plugin_status p)" for q
  proof -
    let ?q = "set_status (\<lambda>s. s\<lparr>ps_crash_count := saturating_inc_u32 (ps_crash_count s)\<rparr>) q"
    have "launches_left (schedule_restart now instant ?q) \<le>
        max_crashes (mf_restart (manifest p)) - ps_crash_count (plugin_status p) - 1"
      using that assms by (intro launches_left_crash) (simp_all add: set_status_def)
    then show ?thesis using Some by (simp add: record_plugin_crash_def launches_left_def [of p] Let_def)
  qed
  show ?thesis
  proof (cases w)
    case (ExitedWith exit_text success)
    then show ?thesis
      using Some by (cases success)
        (auto simp: reap_plugin_def record_plugin_exit_def launches_left_def [of "_\<lparr>next_restart := _, current_backoff := _\<rparr>"]
          set_status_def Let_def intro!: crash)
  qed (use Some in \<open>auto simp: reap_plugin_def set_status_def intro!: crash\<close>)
qed (simp add: reap_plugin_def)

lemma launches_left_supervise:
  assumes "max_crashes (mf_restart (manifest p)) \<le> u32_max"
    and "supervise_plugin w spawned now instant p = (q, dirty, launch)"
  shows "launches_left q + (if launch then 1 else 0) \<le> launches_left p"
proof -
  let ?r = "fst (reap_plugin w now instant p)"
  have reap: "launches_left ?r \<le> launches_left p" by (rule launches_left_reap [OF assms(1)])
  have launch: "launches_left (launch_plugin spawned now instant r) + 1 \<le> launches_left r"
    if due: "restart_due instant r" and max: "max_crashes (mf_restart (manifest r)) \<le> u32_max" for r
  proof -
    from due have r: "process r = None" "next_restart r \<noteq> None"
      "ps_crash_count (plugin_status r) < max_crashes (mf_restart (manifest r))"
      by (auto simp: restart_due_def can_restart_def split: option.splits)
    show ?thesis
    proof (cases spawned)
      case (Inl m)
      let ?q = "set_status (\<lambda>s. s\<lparr>ps_pid := None, ps_crash_count := saturating_inc_u32 (ps_crash_count s)\<rparr>)
        (set_status (\<lambda>s. s\<lparr>ps_last_error := Some m\<rparr>) r)"
      have "launches_left (schedule_restart now instant ?q) \<le>
          max_crashes (mf_restart (manifest r)) - ps_crash_count (plugin_status r) - 1"
        using r max by (intro launches_left_crash) (simp_all add: set_status_def)
      then show ?thesis
        using Inl r by (simp add: launch_plugin_def record_plugin_start_failure_def schedule_restart_fields
            set_status_def launches_left_def [of r] Let_def)
    next
      case (Inr pid)
      then show ?thesis using r by (simp add: launch_plugin_def launches_left_def set_status_def Let_def)
    qed
  qed
  have disabled: "launches_left (set_status (\<lambda>s. s\<lparr>ps_state := PluginDisabled\<rparr>) p) = launches_left p"
    by (rule launches_left_same [OF same_process_set_status]) simp
  from assms reap launch [of ?r] disabled
  show "launches_left q + (if launch then 1 else 0) \<le> launches_left p"
    by (auto simp: supervise_plugin_def Let_def split: if_splits prod.splits)
qed

lemma manifest_launch [simp]: "manifest (launch_plugin spawned now instant p) = manifest p"
  by (simp add: launch_plugin_def record_plugin_start_failure_def schedule_restart_fields set_status_def
      split: sum.splits)

lemma manifest_supervise [simp]: "manifest (fst (supervise_plugin w spawned now instant p)) = manifest p"
  using manifest_reap [of w now instant p]
  by (auto simp: supervise_plugin_def set_status_def Let_def simp del: manifest_reap split: prod.splits)

text \<open>What an event does to a plugin and to the launches it has left.\<close>

definition plugin_settled :: "supervised_plugin \<Rightarrow> bool" where
  "plugin_settled p \<longleftrightarrow> (process p = None \<or> next_restart p = None) \<and> max_crashes (mf_restart (manifest p)) \<le> u32_max"

definition spends :: "nat \<Rightarrow> supervised_plugin \<Rightarrow> supervised_plugin \<Rightarrow> bool" where
  "spends n p q \<longleftrightarrow> (plugin_settled p \<longrightarrow> plugin_settled q \<and> launches_left q + n \<le> launches_left p)"

lemma spends_refl: "spends 0 p p"
  by (simp add: spends_def)

lemma process_reap: "fst (reap_plugin w now instant p) = p \<or> process (fst (reap_plugin w now instant p)) = None"
  by (auto simp: reap_plugin_def record_plugin_exit_def record_plugin_crash_def schedule_restart_fields set_status_def
      Let_def split: option.splits waited.splits)

lemma settled_reap: "plugin_settled p \<Longrightarrow> plugin_settled (fst (reap_plugin w now instant p))"
  using process_reap [of w now instant p] by (auto simp: plugin_settled_def)

lemma spends_reap: "spends 0 p (fst (reap_plugin w now instant p))"
  using launches_left_reap [of p] settled_reap by (auto simp: spends_def plugin_settled_def)

lemma spends_same:
  assumes "same_process p q"
  shows "spends 0 p q"
  using launches_left_same [OF assms] assms by (simp add: spends_def same_process_def plugin_settled_def)

lemma spends_stopped:
  assumes "stopped_process p q"
  shows "spends 0 p q"
proof -
  from assms have "process p \<noteq> None" "process q = None" "next_restart q = next_restart p" "manifest q = manifest p"
    by (simp_all add: stopped_process_def same_process_def)
  then show ?thesis by (auto simp: spends_def plugin_settled_def launches_left_def)
qed

lemma process_launch:
  "next_restart (launch_plugin (Inr pid) now instant p) = None"
  "process (launch_plugin (Inl m) now instant p) = process p"
  by (simp_all add: launch_plugin_def record_plugin_start_failure_def schedule_restart_fields set_status_def)

lemma settled_launch: "restart_due instant p \<Longrightarrow> plugin_settled p \<Longrightarrow> plugin_settled (launch_plugin spawned now instant p)"
  by (cases spawned) (auto simp: plugin_settled_def process_launch restart_due_def)

lemma spends_supervise:
  assumes "supervise_plugin w spawned now instant p = (q, dirty, launch)"
  shows "spends (if launch then 1 else 0) p q"
proof -
  have "plugin_settled q" if "plugin_settled p"
  proof -
    have "plugin_settled (set_status (\<lambda>s. s\<lparr>ps_state := PluginDisabled\<rparr>) p)"
      using that by (simp add: plugin_settled_def set_status_def)
    with assms settled_reap [OF that, of w now instant]
      settled_launch [of instant "fst (reap_plugin w now instant p)" spawned now]
    show ?thesis by (auto simp: supervise_plugin_def Let_def split: if_splits prod.splits)
  qed
  then show ?thesis using launches_left_supervise [OF _ assms] by (auto simp: spends_def plugin_settled_def)
qed

lemma spends_trans: "spends 0 p q \<Longrightarrow> spends 0 q r \<Longrightarrow> spends 0 p r"
  by (auto simp: spends_def)

lemma service_event_plugin:
  assumes "get_plugin (handle_event e st) name = Some q"
  shows "\<exists>p. get_plugin st name = Some p \<and> spends (launched name e st) p q"
proof (cases e)
  case (TickAt wait spawn now instant)
  let ?s = "supervise_plugin (wait name) (spawn name) now instant"
  from assms TickAt obtain p where p: "get_plugin st name = Some p" "q = fst (?s p)"
    by (auto simp: get_plugin_tick)
  obtain dirty launch where s: "?s p = (q, dirty, launch)" using p(2) by (metis prod.collapse)
  have "launched name e st = (if launch then 1 else 0)" using p(1) s TickAt by simp
  with spends_supervise [OF s] have "spends (launched name e st) p q" by (simp only:)
  with p(1) show ?thesis by blast
next
  case (FrameAt ident w now instant)
  with assms have "get_plugin (snd (validate_current_plugin_connection ident w now instant st)) name = Some q" by simp
  from frame_effect [OF this] FrameAt spends_refl spends_reap show ?thesis by (metis launched.simps(2))
next
  case (HealthAt ident w now instant)
  with assms have "get_plugin (snd (health_update ident w now instant st)) name = Some q" by simp
  from health_effect [OF this] obtain p r where p: "get_plugin st name = Some p"
    "r = p \<or> r = fst (reap_plugin w now instant p)" "same_process r q" by blast
  from p(2) have "spends 0 p r" using spends_refl spends_reap by metis
  from spends_trans [OF this spends_same [OF p(3)]] p(1) HealthAt show ?thesis by simp
next
  case (HelloFrom hello peer clock)
  with assms have "get_plugin (snd (hello_identity hello peer clock st)) name = Some q" by simp
  from hello_effect [OF this] HelloFrom spends_same show ?thesis by (metis launched.simps(4))
next
  case StopPlugins
  with assms have "get_plugin (fst (shutdown_managed_plugins st)) name = Some q" by simp
  from stop_effect [OF this] StopPlugins spends_refl spends_stopped show ?thesis by (metis launched.simps(5))
qed

lemma launched_present: "launched name e st \<noteq> 0 \<Longrightarrow> get_plugin (handle_event e st) name \<noteq> None"
  by (cases e) (auto simp: get_plugin_tick split: option.splits)

lemma launches_bounded:
  assumes "\<And>p. get_plugin st name = Some p \<Longrightarrow> plugin_settled p \<and> launches_left p \<le> n"
  shows "launches name es st \<le> n"
  using assms
proof (induction es arbitrary: st n)
  case (Cons e es)
  show ?case
  proof (cases "get_plugin (handle_event e st) name")
    case None
    then have "launched name e st = 0" using launched_present by blast
    moreover have "launches name es (handle_event e st) \<le> 0" by (rule Cons.IH) (simp add: None)
    ultimately show ?thesis by simp
  next
    case (Some q)
    from service_event_plugin [OF this] obtain p where p: "get_plugin st name = Some p"
      "spends (launched name e st) p q" by blast
    with Cons.prems have fit: "plugin_settled q" "launches_left q + launched name e st \<le> n" by (fastforce simp: spends_def)+
    then have "launches name es (handle_event e st) \<le> n - launched name e st"
      by (intro Cons.IH) (auto simp: Some)
    with fit show ?thesis by simp
  qed
qed simp

text \<open>The service starts with plugins whose limits are 32-bit integers of the registry.\<close>

definition registry_in_range :: "plugin_registry \<Rightarrow> bool" where
  "registry_in_range registry \<longleftrightarrow> (\<forall>m \<in> set (registry_plugins registry). max_crashes (mf_restart m) \<le> u32_max)"

lemma new_plugin_settled:
  assumes "max_crashes (mf_restart m) \<le> u32_max"
  shows "plugin_settled (reconcile_persisted_plugin_process persisted exists (new_supervised_plugin home m now instant)) \<and>
    launches_left (reconcile_persisted_plugin_process persisted exists (new_supervised_plugin home m now instant))
      \<le> max_crashes (mf_restart m)"
  using assms
  by (auto simp: reconcile_persisted_plugin_process_def new_supervised_plugin_def plugin_settled_def launches_left_def
      set_status_def Let_def split: option.splits)

lemma get_new_service_state:
  assumes "get_plugin (new_service_state home persisted exists now instant registry) name = Some p"
  shows "\<exists>m \<in> set (registry_plugins registry). mf_name m = name \<and>
    p = reconcile_persisted_plugin_process (persisted name) exists (new_supervised_plugin home m now instant)"
  using map_of_SomeD [OF assms [unfolded get_plugin_def]] by (auto simp: new_service_state_def)

text \<open>
  C30: However the processes of a plugin end and whether or not they can be spawned, the service launches a
  plugin at most \<open>max_crashes\<close> times in one run, counting the attempts that fail: the restart loop of a
  plugin that keeps failing ends, and frames, hellos, health updates and a shutdown do not extend it.
\<close>

theorem plugin_launches_end:
  assumes "registry_in_range registry" and "\<forall>m \<in> set (registry_plugins registry). mf_name m = name \<longrightarrow> max_crashes (mf_restart m) = limit"
  shows "launches name events (new_service_state home persisted exists now instant registry) \<le> limit"
proof (rule launches_bounded)
  fix p assume "get_plugin (new_service_state home persisted exists now instant registry) name = Some p"
  from get_new_service_state [OF this] obtain m where m: "m \<in> set (registry_plugins registry)" "mf_name m = name"
    "p = reconcile_persisted_plugin_process (persisted name) exists (new_supervised_plugin home m now instant)" by blast
  with assms new_plugin_settled [of m "persisted name" exists home now instant]
  show "plugin_settled p \<and> launches_left p \<le> limit" by (auto simp: registry_in_range_def)
qed

definition busy_registry :: plugin_registry where
  "busy_registry = \<lparr>registry_schema = 1, registry_plugins =
     [\<lparr>mf_name = ''p'', mf_executable_path = ''/p'', mf_args = [], mf_enabled = True, mf_release_id = None,
       mf_capabilities = [], mf_restart = \<lparr>initial_delay_ms = 10, max_delay_ms = 15, max_crashes = 2\<rparr>,
       mf_environment = []\<rparr>]\<rparr>"

theorem plugin_launches_end_witness:
  "launches ''p''
     [TickAt (\<lambda>_. StillRunning) (\<lambda>_. Inr 7) 0 0, TickAt (\<lambda>_. ExitedWith ''signal'' False) (\<lambda>_. Inl ''gone'') 1 5,
      TickAt (\<lambda>_. StillRunning) (\<lambda>_. Inl ''gone'') 1 15, TickAt (\<lambda>_. StillRunning) (\<lambda>_. Inr 9) 9 99999]
     (new_service_state ''/h'' (\<lambda>_. None) (\<lambda>_. False) 0 0 busy_registry) = 2 \<and>
   2 \<le> max_crashes (mf_restart (hd (registry_plugins busy_registry)))"
proof -
  let ?es = "[TickAt (\<lambda>_. StillRunning) (\<lambda>_. Inr 7) 0 0, TickAt (\<lambda>_. ExitedWith ''signal'' False) (\<lambda>_. Inl ''gone'') 1 5,
      TickAt (\<lambda>_. StillRunning) (\<lambda>_. Inl ''gone'') 1 15, TickAt (\<lambda>_. StillRunning) (\<lambda>_. Inr 9) 9 99999]"
  have count: "launches ''p'' ?es (new_service_state ''/h'' (\<lambda>_. None) (\<lambda>_. False) 0 0 busy_registry) = 2"
    by (simp add: busy_registry_def new_service_state_def new_supervised_plugin_def reconcile_persisted_plugin_process_def
        supervise_tick_def supervise_plugin_def reap_plugin_def restart_due_def can_restart_def launch_plugin_def
        record_plugin_exit_def record_plugin_crash_def record_plugin_start_failure_def schedule_restart_def
        set_status_def get_plugin_def saturating_inc_u32_def u32_max_def)
  have "registry_in_range busy_registry" "\<forall>m \<in> set (registry_plugins busy_registry). mf_name m = ''p'' \<longrightarrow>
      max_crashes (mf_restart m) = max_crashes (mf_restart (hd (registry_plugins busy_registry)))"
    by (simp_all add: registry_in_range_def busy_registry_def u32_max_def)
  from plugin_launches_end [OF this, of ?es "''/h''" "\<lambda>_. None" "\<lambda>_. False" 0 0] count
  show ?thesis by (simp only:)
qed

section \<open>Delays\<close>

text \<open>The delay after the \<open>n\<close>-th crash.\<close>

definition delay_after :: "restart_policy \<Rightarrow> nat \<Rightarrow> nat" where
  "delay_after r n = min (initial_delay_ms r * 2 ^ n) (max_delay_ms r)"

definition paced :: "supervised_plugin \<Rightarrow> bool" where
  "paced p \<longleftrightarrow> (process p = None \<and> next_restart p = None) \<or>
     current_backoff p = delay_after (mf_restart (manifest p)) (ps_crash_count (plugin_status p))"

fun event_instant :: "service_event \<Rightarrow> nat" where
  "event_instant (TickAt _ _ _ t) = t"
| "event_instant (FrameAt _ _ _ t) = t"
| "event_instant (HealthAt _ _ _ t) = t"
| "event_instant _ = 0"

text \<open>A plugin that crashed since \<open>p\<close> and is to be restarted is due after the delay of its last crash.\<close>

definition backs_off :: "nat \<Rightarrow> supervised_plugin \<Rightarrow> supervised_plugin \<Rightarrow> bool" where
  "backs_off t p q \<longleftrightarrow> (plugin_settled p \<and> paced p \<longrightarrow> paced q \<and>
     (ps_crash_count (plugin_status p) < ps_crash_count (plugin_status q) \<longrightarrow> next_restart q \<noteq> None \<longrightarrow>
        next_restart q = Some (t + delay_after (mf_restart (manifest q)) (ps_crash_count (plugin_status q) - 1))))"

lemma delay_doubles: "min (2 * delay_after r n) (max_delay_ms r) = delay_after r (Suc n)"
  by (simp add: delay_after_def min_def)

lemma crash_backs_off:
  assumes "plugin_settled p" "current_backoff p = delay_after (mf_restart (manifest p)) (ps_crash_count (plugin_status p))"
    "manifest q = manifest p" "current_backoff q = current_backoff p" "process q = None"
    "ps_crash_count (plugin_status q) = saturating_inc_u32 (ps_crash_count (plugin_status p))"
  shows "backs_off t p (schedule_restart now t q)"
proof (cases "can_restart q")
  case True
  with assms have inc: "ps_crash_count (plugin_status q) = Suc (ps_crash_count (plugin_status p))"
    by (auto simp: can_restart_def plugin_settled_def saturating_inc_u32_def min_def split: if_splits)
  with assms(2-5) True show ?thesis
    by (simp add: backs_off_def schedule_restart_def set_status_def paced_def Let_def delay_doubles)
qed (use assms in \<open>simp add: backs_off_def schedule_restart_def set_status_def paced_def\<close>)

lemma backs_off_refl: "backs_off t p p"
  by (simp add: backs_off_def)

lemma backs_off_same: "same_process p q \<Longrightarrow> backs_off t p q"
  by (simp add: backs_off_def same_process_def paced_def)

lemma backs_off_stopped: "stopped_process p q \<Longrightarrow> backs_off t p q"
  by (auto simp: backs_off_def stopped_process_def same_process_def paced_def)

lemma backs_off_settled: "(plugin_settled p \<Longrightarrow> paced p \<Longrightarrow> backs_off t p q) \<Longrightarrow> backs_off t p q"
  by (auto simp: backs_off_def)

lemma reap_backs_off: "backs_off t p (fst (reap_plugin w now t p))"
proof (rule backs_off_settled)
  assume p: "plugin_settled p" "paced p"
  show ?thesis
  proof (cases "process p")
    case (Some pid)
    with p have backoff: "current_backoff p = delay_after (mf_restart (manifest p)) (ps_crash_count (plugin_status p))"
      by (simp add: paced_def)
    have crash: "backs_off t p (record_plugin_crash now t q)"
      if "manifest q = manifest p" "current_backoff q = current_backoff p" "process q = None"
        "ps_crash_count (plugin_status q) = ps_crash_count (plugin_status p)" for q
      unfolding record_plugin_crash_def
      by (rule crash_backs_off [OF p(1) backoff]) (simp_all add: that set_status_def)
    show ?thesis
    proof (cases w)
      case (ExitedWith exit_text success)
      then show ?thesis
        by (cases success) (use Some in \<open>simp_all add: reap_plugin_def record_plugin_exit_def crash set_status_def\<close>,
            use Some in \<open>simp add: backs_off_def paced_def set_status_def\<close>)
    qed (use Some in \<open>simp_all add: reap_plugin_def backs_off_refl crash set_status_def\<close>)
  qed (simp add: reap_plugin_def backs_off_refl)
qed

lemma launch_backs_off:
  assumes "restart_due t p"
  shows "backs_off t p (launch_plugin spawned now t p)"
proof (rule backs_off_settled)
  assume p: "plugin_settled p" "paced p"
  with assms have backoff: "current_backoff p = delay_after (mf_restart (manifest p)) (ps_crash_count (plugin_status p))"
    by (auto simp: paced_def restart_due_def split: option.splits)
  show ?thesis
  proof (cases spawned)
    case (Inl m)
    show ?thesis
      unfolding launch_plugin_def record_plugin_start_failure_def Inl sum.case
      by (rule crash_backs_off [OF p(1) backoff]) (use assms in \<open>simp_all add: set_status_def restart_due_def\<close>)
  next
    case (Inr pid)
    then show ?thesis using backoff by (simp add: launch_plugin_def backs_off_def paced_def set_status_def)
  qed
qed

lemma launch_crashes_or_runs:
  assumes "restart_due t p" "plugin_settled p"
  shows "next_restart (launch_plugin spawned now t p) = None \<or>
    ps_crash_count (plugin_status p) < ps_crash_count (plugin_status (launch_plugin spawned now t p))"
proof (cases spawned)
  case (Inl m)
  from assms have "saturating_inc_u32 (ps_crash_count (plugin_status p)) = Suc (ps_crash_count (plugin_status p))"
    by (auto simp: restart_due_def can_restart_def plugin_settled_def saturating_inc_u32_def)
  with Inl show ?thesis
    by (simp add: launch_plugin_def record_plugin_start_failure_def schedule_restart_fields set_status_def)
qed (simp add: process_launch)

lemma supervise_backs_off:
  assumes "supervise_plugin w spawned now t p = (q, dirty, launch)"
  shows "backs_off t p q"
proof -
  let ?r = "fst (reap_plugin w now t p)"
  consider "q = set_status (\<lambda>s. s\<lparr>ps_state := PluginDisabled\<rparr>) p" | "q = ?r"
    | "restart_due t ?r" "q = launch_plugin spawned now t ?r"
    using assms by (auto simp: supervise_plugin_def Let_def split: if_splits prod.splits)
  then show ?thesis
  proof cases
    case 1
    then show ?thesis using backs_off_same [OF same_process_set_status] by simp
  next
    case 2
    then show ?thesis using reap_backs_off by simp
  next
    case 3
    have "plugin_settled ?r" if "plugin_settled p" using settled_reap that .
    with 3 reap_backs_off [of t p w now] launch_backs_off [OF 3(1), of spawned now]
      launch_crashes_or_runs [OF 3(1), of spawned now]
    show ?thesis by (auto simp: backs_off_def)
  qed
qed

lemma event_backs_off:
  assumes "get_plugin (handle_event e st) name = Some q"
  shows "\<exists>p. get_plugin st name = Some p \<and> backs_off (event_instant e) p q"
proof (cases e)
  case (TickAt wait spawn now instant)
  let ?s = "supervise_plugin (wait name) (spawn name) now instant"
  from assms TickAt obtain p where p: "get_plugin st name = Some p" "q = fst (?s p)"
    by (auto simp: get_plugin_tick)
  obtain dirty launch where "?s p = (q, dirty, launch)" using p(2) by (metis prod.collapse)
  from supervise_backs_off [OF this] p(1) TickAt show ?thesis by auto
next
  case (FrameAt ident w now instant)
  with assms have "get_plugin (snd (validate_current_plugin_connection ident w now instant st)) name = Some q" by simp
  from frame_effect [OF this] FrameAt backs_off_refl reap_backs_off show ?thesis by (metis event_instant.simps(2))
next
  case (HealthAt ident w now instant)
  with assms have "get_plugin (snd (health_update ident w now instant st)) name = Some q" by simp
  from health_effect [OF this] obtain p r where p: "get_plugin st name = Some p"
    "r = p \<or> r = fst (reap_plugin w now instant p)" "same_process r q" by blast
  from p(2) have "backs_off instant p r" "plugin_settled p \<longrightarrow> plugin_settled r"
    using backs_off_refl reap_backs_off settled_reap by metis+
  with backs_off_same [OF p(3), of instant] p(1,3) HealthAt show ?thesis
    by (auto simp: backs_off_def same_process_def)
next
  case (HelloFrom hello peer clock)
  with assms have "get_plugin (snd (hello_identity hello peer clock st)) name = Some q" by simp
  from hello_effect [OF this] backs_off_same show ?thesis by metis
next
  case StopPlugins
  with assms have "get_plugin (fst (shutdown_managed_plugins st)) name = Some q" by simp
  from stop_effect [OF this] backs_off_refl backs_off_stopped show ?thesis by metis
qed

lemma run_settled_paced:
  assumes "get_plugin (supervisor_run es st) name = Some q"
    and "\<And>p. get_plugin st name = Some p \<Longrightarrow> plugin_settled p \<and> paced p"
  shows "plugin_settled q \<and> paced q"
  using assms
proof (induction es arbitrary: st)
  case (Cons e es)
  have "plugin_settled r \<and> paced r" if r: "get_plugin (handle_event e st) name = Some r" for r
  proof -
    from service_event_plugin [OF r] event_backs_off [OF r] obtain p where "get_plugin st name = Some p"
      "spends (launched name e st) p r" "backs_off (event_instant e) p r" by auto
    with Cons.prems(2) show ?thesis by (auto simp: spends_def backs_off_def)
  qed
  from Cons.IH [OF _ this] Cons.prems(1) show ?case by simp
qed simp

lemma new_plugin_paced:
  assumes "initial_delay_ms (mf_restart m) \<le> max_delay_ms (mf_restart m)"
  shows "paced (reconcile_persisted_plugin_process persisted exists (new_supervised_plugin home m now instant))"
  using assms
  by (auto simp: reconcile_persisted_plugin_process_def new_supervised_plugin_def paced_def delay_after_def
      set_status_def min_def split: option.splits)

lemma valid_manifests_paced:
  "validate_manifests home names ms = Inr u \<Longrightarrow> m \<in> set ms \<Longrightarrow>
     initial_delay_ms (mf_restart m) \<le> max_delay_ms (mf_restart m)"
  by (induction ms arbitrary: names) (auto simp: validate_manifest_def Let_def)

text \<open>
  C31: In any run of the service with a valid registry, a plugin whose process has crashed for the \<open>n\<close>-th
  time (or could not be spawned) and is to be restarted is due exactly \<open>min (initial * 2^(n-1)) max\<close>
  milliseconds later.
\<close>

theorem plugin_backs_off_exponentially:
  assumes "validate_plugin_registry home registry = Inr u" "registry_in_range registry"
    and "st = supervisor_run events (new_service_state home persisted exists now instant registry)"
    and "get_plugin st name = Some p" "get_plugin (handle_event e st) name = Some q"
    and "ps_crash_count (plugin_status p) < ps_crash_count (plugin_status q)" "next_restart q = Some due"
  shows "due = event_instant e + delay_after (mf_restart (manifest q)) (ps_crash_count (plugin_status q) - 1)"
proof -
  have "plugin_settled r \<and> paced r"
    if r: "get_plugin (new_service_state home persisted exists now instant registry) name = Some r" for r
  proof -
    from get_new_service_state [OF r] obtain m where m: "m \<in> set (registry_plugins registry)"
      "r = reconcile_persisted_plugin_process (persisted name) exists (new_supervised_plugin home m now instant)"
      by blast
    moreover have "initial_delay_ms (mf_restart m) \<le> max_delay_ms (mf_restart m)"
      using assms(1) m(1) by (auto simp: validate_plugin_registry_def intro: valid_manifests_paced)
    moreover have "max_crashes (mf_restart m) \<le> u32_max" using assms(2) m(1) by (simp add: registry_in_range_def)
    ultimately show ?thesis using new_plugin_settled new_plugin_paced by simp
  qed
  then have "plugin_settled p \<and> paced p" using assms(3,4) run_settled_paced by blast
  moreover from event_backs_off [OF assms(5)] assms(4) have "backs_off (event_instant e) p q" by simp
  ultimately show ?thesis using assms(6,7) by (simp add: backs_off_def)
qed

theorem plugin_backs_off_exponentially_witness:
  "let st = supervisor_run [TickAt (\<lambda>_. StillRunning) (\<lambda>_. Inr 7) 0 0]
       (new_service_state ''/h'' (\<lambda>_. None) (\<lambda>_. False) 0 0 busy_registry);
     e = TickAt (\<lambda>_. ExitedWith ''signal'' False) (\<lambda>_. Inl ''gone'') 1 5;
     p = the (get_plugin st ''p''); q = the (get_plugin (handle_event e st) ''p'')
   in ps_crash_count (plugin_status p) = 0 \<and> ps_crash_count (plugin_status q) = 1 \<and> next_restart q = Some 15"
proof -
  define st where "st = supervisor_run [TickAt (\<lambda>_. StillRunning) (\<lambda>_. Inr 7) 0 0]
       (new_service_state ''/h'' (\<lambda>_. None) (\<lambda>_. False) 0 0 busy_registry)"
  define e where "e = TickAt (\<lambda>_. ExitedWith ''signal'' False) (\<lambda>_. Inl ''gone'') 1 5"
  note evaluation = busy_registry_def new_service_state_def new_supervised_plugin_def reconcile_persisted_plugin_process_def
        supervise_tick_def supervise_plugin_def reap_plugin_def restart_due_def can_restart_def launch_plugin_def
        record_plugin_exit_def record_plugin_crash_def record_plugin_start_failure_def schedule_restart_def
        set_status_def get_plugin_def saturating_inc_u32_def u32_max_def
  have name: "validate_plugin_name ''p'' = Inr ()" "is_absolute ''/p''" by code_simp+
  have home: "home_under_root ''/h'' ''p''" by code_simp
  have valid: "validate_plugin_registry ''/h'' busy_registry = Inr ()" "registry_in_range busy_registry"
    using name home by (simp_all add: validate_plugin_registry_def busy_registry_def registry_in_range_def u32_max_def
        registry_schema_version_def validate_manifest_def)
  obtain p where p: "get_plugin st ''p'' = Some p" "ps_crash_count (plugin_status p) = 0"
    by (simp add: st_def evaluation)
  obtain q due where q: "get_plugin (handle_event e st) ''p'' = Some q" "ps_crash_count (plugin_status q) = 1"
      "next_restart q = Some due" "mf_restart (manifest q) = \<lparr>initial_delay_ms = 10, max_delay_ms = 15, max_crashes = 2\<rparr>"
    by (simp add: st_def e_def evaluation)
  have "due = 15"
    using plugin_backs_off_exponentially [OF valid st_def p(1) q(1) _ q(3)] p(2) q(2,4)
    by (simp add: e_def delay_after_def)
  then show ?thesis using p q(1,2,3) unfolding st_def [symmetric] e_def [symmetric] Let_def by simp
qed

section \<open>The latest instance only\<close>

lemma frame_needs_latest_instance:
  assumes "validate_current_plugin_connection ident w now instant st = (Inr u, st')"
  shows "\<exists>p. get_plugin st (ci_plugin_name ident) = Some p \<and> process p = Some (ci_pid ident) \<and>
    ps_instance_id (plugin_status p) = Some (ci_instance_id ident) \<and> w = StillRunning"
  using assms
  by (auto simp: validate_current_plugin_connection_def validate_plugin_connection_identity_def
      split: option.splits if_splits waited.splits sum.splits prod.splits)

lemma hello_needs_process:
  assumes "hello_identity hello peer clock st = (Inr ident, st')"
  shows "\<exists>p. get_plugin st (ci_plugin_name ident) = Some p \<and> mf_enabled (manifest p) \<and>
    process p = Some (ci_pid ident) \<and> plugin_pid hello = ci_pid ident \<and> (peer = None \<or> peer = Some (ci_pid ident))"
proof -
  from assms obtain p pid where p: "hello_process hello peer st = Inr (p, pid)"
    "ci_plugin_name ident = plugin_name_of hello" "ci_pid ident = pid"
    by (auto simp: hello_identity_def Let_def split: sum.splits)
  then show ?thesis by (auto simp: hello_process_def Let_def split: option.splits)
qed

end
