(* ===== verification/Cbth_Calls.thy ===== *)
theory Cbth_Calls
  imports Cbth_Prelude
begin

text \<open>
  Code that runs in several threads on shared state. A call is the tree of its steps: \<open>Atomic f k\<close> is a
  section under a lock or a transaction (\<open>f\<close> gives the state after it, or \<open>None\<close> while it has to wait;
  \<open>k\<close> reads the state it found), \<open>Ask q k\<close> asks the environment (a daemon, an app server, the clock) and
  goes on with any answer. Between two steps of a call the other threads do as they like. The locale
  \<open>interference\<close> has the rules by which a call is proved correct under that interference, and from which
  the whole system is.
\<close>

section \<open>Calls\<close>

datatype ('s, 'q, 'a, 'r) prog =
    Finish 'r
  | Atomic "'s \<Rightarrow> 's option" "'s \<Rightarrow> ('s, 'q, 'a, 'r) prog"
  | Ask 'q "'a \<Rightarrow> ('s, 'q, 'a, 'r) prog"

primrec bind_prog :: "('s, 'q, 'a, 'r) prog \<Rightarrow> ('r \<Rightarrow> ('s, 'q, 'a, 't) prog) \<Rightarrow> ('s, 'q, 'a, 't) prog" where
  "bind_prog (Finish r) g = g r"
| "bind_prog (Atomic f k) g = Atomic f (\<lambda>s. bind_prog (k s) g)"
| "bind_prog (Ask q k) g = Ask q (\<lambda>a. bind_prog (k a) g)"

text \<open>The operator \<open>?\<close> on the result of a call.\<close>

definition try_prog :: "('s, 'q, 'a, 'e + 'r) prog \<Rightarrow> ('r \<Rightarrow> ('s, 'q, 'a, 'e + 't) prog) \<Rightarrow> ('s, 'q, 'a, 'e + 't) prog" where
  "try_prog p g = bind_prog p (\<lambda>r. case r of Inl e \<Rightarrow> Finish (Inl e) | Inr x \<Rightarrow> g x)"

definition read_state :: "('s \<Rightarrow> ('s, 'q, 'a, 'r) prog) \<Rightarrow> ('s, 'q, 'a, 'r) prog" where
  "read_state g = Atomic Some g"

text \<open>An operation that fails leaves the state alone.\<close>

definition perform :: "('s \<Rightarrow> bool) \<Rightarrow> ('s \<Rightarrow> 'e + 'x \<times> 's) \<Rightarrow> ('s, 'q, 'a, 'e + 'x) prog" where
  "perform enabled f =
     Atomic (\<lambda>s. if enabled s then Some (case f s of Inl _ \<Rightarrow> s | Inr (_, s') \<Rightarrow> s') else None)
       (\<lambda>s. Finish (map_sum (\<lambda>e. e) fst (f s)))"

lemma bind_prog_assoc: "bind_prog (bind_prog p f) g = bind_prog p (\<lambda>r. bind_prog (f r) g)"
  by (induction p) simp_all

section \<open>Threads\<close>

inductive prog_step ::
    "('q \<Rightarrow> 's \<Rightarrow> 's) \<Rightarrow> ('s, 'q, 'a, 'r) prog \<Rightarrow> 's \<Rightarrow> ('s, 'q, 'a, 'r) prog \<Rightarrow> 's \<Rightarrow> bool" for remember where
  step_atomic: "f s = Some s' \<Longrightarrow> prog_step remember (Atomic f k) s (k s) s'"
| step_ask: "prog_step remember (Ask q k) s (k a) (remember q s)"

inductive_cases prog_step_cases [elim!]:
  "prog_step remember (Finish r) s p s'"
  "prog_step remember (Atomic f k) s p s'"
  "prog_step remember (Ask q k) s p s'"

text \<open>
  A step of the system: a thread makes a step of its call, the world outside changes the state, or a
  thread that has finished its call gets the next one of those it can be given.
\<close>

inductive system_step ::
    "(nat \<Rightarrow> 'q \<Rightarrow> 's \<Rightarrow> 's) \<Rightarrow> ('s \<Rightarrow> 's \<Rightarrow> bool) \<Rightarrow> (nat \<Rightarrow> 's \<Rightarrow> ('s, 'q, 'a, 'r) prog \<Rightarrow> bool) \<Rightarrow>
      (nat \<Rightarrow> ('s, 'q, 'a, 'r) prog) \<times> 's \<Rightarrow> (nat \<Rightarrow> ('s, 'q, 'a, 'r) prog) \<times> 's \<Rightarrow> bool"
    for remember outside given where
  thread_runs: "prog_step (remember c) (pool c) s p s' \<Longrightarrow>
    system_step remember outside given (pool, s) (pool(c := p), s')"
| outside_moves: "outside s s' \<Longrightarrow> system_step remember outside given (pool, s) (pool, s')"
| call_starts: "pool c = Finish r \<Longrightarrow> given c s p \<Longrightarrow> system_step remember outside given (pool, s) (pool(c := p), s)"

definition system_run ::
    "(nat \<Rightarrow> 'q \<Rightarrow> 's \<Rightarrow> 's) \<Rightarrow> ('s \<Rightarrow> 's \<Rightarrow> bool) \<Rightarrow> (nat \<Rightarrow> 's \<Rightarrow> ('s, 'q, 'a, 'r) prog \<Rightarrow> bool) \<Rightarrow>
      (nat \<Rightarrow> ('s, 'q, 'a, 'r) prog) \<times> 's \<Rightarrow> (nat \<Rightarrow> ('s, 'q, 'a, 'r) prog) \<times> 's \<Rightarrow> bool" where
  "system_run remember outside given = (system_step remember outside given)\<^sup>*\<^sup>*"

section \<open>Correct under interference\<close>

text \<open>
  \<open>guar c\<close> is what a step of thread \<open>c\<close> may do, \<open>rely c\<close> what the steps of all others may amount to,
  \<open>inv\<close> holds between steps, \<open>idle c\<close> between the calls of \<open>c\<close>, and \<open>may_ask c\<close> says when \<open>c\<close> may ask
  what.
\<close>

locale interference =
  fixes remember :: "nat \<Rightarrow> 'q \<Rightarrow> 's \<Rightarrow> 's"
    and guar rely :: "nat \<Rightarrow> 's \<Rightarrow> 's \<Rightarrow> bool"
    and inv :: "'s \<Rightarrow> bool"
    and idle :: "nat \<Rightarrow> 's \<Rightarrow> bool"
    and may_ask :: "nat \<Rightarrow> 'q \<Rightarrow> 's \<Rightarrow> bool"
    and outside :: "'s \<Rightarrow> 's \<Rightarrow> bool"
  assumes rely_refl: "rely c s s"
    and rely_trans: "rely c s s' \<Longrightarrow> rely c s' s'' \<Longrightarrow> rely c s s''"
    and guar_rely: "c \<noteq> c' \<Longrightarrow> inv s \<Longrightarrow> guar c s s' \<Longrightarrow> rely c' s s'"
    and guar_inv: "inv s \<Longrightarrow> guar c s s' \<Longrightarrow> inv s'"
    and outside_rely: "inv s \<Longrightarrow> outside s s' \<Longrightarrow> rely c s s'"
    and outside_inv: "inv s \<Longrightarrow> outside s s' \<Longrightarrow> inv s'"
    and idle_stable: "inv s \<Longrightarrow> inv s' \<Longrightarrow> idle c s \<Longrightarrow> rely c s s' \<Longrightarrow> idle c s'"
begin

primrec ok :: "nat \<Rightarrow> ('r \<Rightarrow> 's \<Rightarrow> bool) \<Rightarrow> ('s, 'q, 'a, 'r) prog \<Rightarrow> 's \<Rightarrow> bool" where
  "ok c Q (Finish r) s = (\<forall>s1. rely c s s1 \<longrightarrow> inv s1 \<longrightarrow> Q r s1)"
| "ok c Q (Atomic f k) s =
     (\<forall>s1 s2. rely c s s1 \<longrightarrow> inv s1 \<longrightarrow> f s1 = Some s2 \<longrightarrow> guar c s1 s2 \<and> ok c Q (k s1) s2)"
| "ok c Q (Ask q k) s =
     (\<forall>s1. rely c s s1 \<longrightarrow> inv s1 \<longrightarrow> may_ask c q s1 \<and> guar c s1 (remember c q s1) \<and>
        (\<forall>a. ok c Q (k a) (remember c q s1)))"

lemma ok_stable: "ok c Q p s \<Longrightarrow> rely c s s' \<Longrightarrow> ok c Q p s'"
  by (cases p) (auto dest: rely_trans)

text \<open>The call that follows starts in any later state that satisfies what the first one ends with.\<close>

lemma ok_bind:
  assumes "ok c Q p s" and "\<And>r s. inv s \<Longrightarrow> Q r s \<Longrightarrow> ok c R (g r) s" and "inv s"
  shows "ok c R (bind_prog p g) s"
  using assms(1,3)
proof (induction p arbitrary: s)
  case (Finish r)
  then show ?case using assms(2) rely_refl by simp
next
  case (Atomic f k)
  show ?case unfolding bind_prog.simps ok.simps
  proof (intro allI impI)
    fix s1 s2 assume "rely c s s1" "inv s1" "f s1 = Some s2"
    with Atomic.prems(1) have "guar c s1 s2" "ok c Q (k s1) s2" by auto
    with guar_inv [OF \<open>inv s1\<close>] Atomic.IH [OF rangeI] show "guar c s1 s2 \<and> ok c R (bind_prog (k s1) g) s2" by blast
  qed
next
  case (Ask q k)
  show ?case unfolding bind_prog.simps ok.simps
  proof (intro allI impI)
    fix s1 assume "rely c s s1" "inv s1"
    with Ask.prems(1) have "may_ask c q s1" "guar c s1 (remember c q s1)" "ok c Q (k a) (remember c q s1)" for a by auto
    with guar_inv [OF \<open>inv s1\<close>] Ask.IH [OF rangeI] show "may_ask c q s1 \<and> guar c s1 (remember c q s1) \<and>
        (\<forall>a. ok c R (bind_prog (k a) g) (remember c q s1))" by blast
  qed
qed

lemma bind_prog_Finish: "bind_prog p Finish = p"
  by (induction p) simp_all

lemma ok_weaken:
  assumes "ok c Q p s" "inv s" "\<And>r s s1. inv s \<Longrightarrow> Q r s \<Longrightarrow> rely c s s1 \<Longrightarrow> inv s1 \<Longrightarrow> Q' r s1"
  shows "ok c Q' p s"
  using ok_bind [OF assms(1), of Q' Finish] assms(2,3) by (simp add: bind_prog_Finish)

lemma ok_try:
  assumes "ok c (case_sum E Q) p s" and "inv s"
    and "\<And>e s s1. inv s \<Longrightarrow> E e s \<Longrightarrow> rely c s s1 \<Longrightarrow> inv s1 \<Longrightarrow> R (Inl e) s1"
    and "\<And>x s. inv s \<Longrightarrow> Q x s \<Longrightarrow> ok c R (g x) s"
  shows "ok c R (try_prog p g) s"
  unfolding try_prog_def
proof (rule ok_bind [OF assms(1) _ assms(2)])
  fix r s assume r: "inv s" "case_sum E Q r s"
  show "ok c R (case r of Inl e \<Rightarrow> Finish (Inl e) | Inr x \<Rightarrow> g x) s"
    by (cases r) (use r assms(3,4) in auto)
qed

text \<open>Every step of a correct call keeps the invariant, stays within the guarantee and asks only what it may.\<close>

lemma ok_step:
  assumes "ok c Q p s" "inv s" "prog_step (remember c) p s p' s'"
  shows "guar c s s' \<and> ok c Q p' s' \<and> inv s'"
proof -
  have "guar c s s' \<and> ok c Q p' s'"
    using assms(3,1,2) rely_refl by (cases rule: prog_step.cases) auto
  then show ?thesis using guar_inv assms(2) by blast
qed

lemma ok_ask: "ok c Q (Ask q k) s \<Longrightarrow> inv s \<Longrightarrow> may_ask c q s"
  using rely_refl by simp

definition all_ok :: "(nat \<Rightarrow> ('s, 'q, 'a, 'r) prog) \<Rightarrow> 's \<Rightarrow> bool" where
  "all_ok pool s \<longleftrightarrow> inv s \<and> (\<forall>c. ok c (\<lambda>_. idle c) (pool c) s)"

lemma all_ok_move:
  assumes "all_ok pool s" "inv s'" "\<And>c'. c' \<noteq> c \<Longrightarrow> rely c' s s'" "ok c (\<lambda>_. idle c) p s'"
  shows "all_ok (pool(c := p)) s'"
  using assms ok_stable unfolding all_ok_def by (metis fun_upd_apply)

lemma all_ok_step:
  assumes "system_step remember outside given (pool, s) (pool', s')" "all_ok pool s"
    and "\<And>c s p. given c s p \<Longrightarrow> inv s \<Longrightarrow> idle c s \<Longrightarrow> ok c (\<lambda>_. idle c) p s"
  shows "all_ok pool' s'"
  using assms(1)
proof (cases rule: system_step.cases)
  case (thread_runs c p)
  have "inv s" "ok c (\<lambda>_. idle c) (pool c) s" using assms(2) by (simp_all add: all_ok_def)
  from ok_step [OF this(2,1) thread_runs(2)] have step: "guar c s s'" "ok c (\<lambda>_. idle c) p s'" "inv s'" by simp_all
  have "rely c' s s'" if "c' \<noteq> c" for c' using guar_rely [OF that [symmetric] \<open>inv s\<close> step(1)] .
  from all_ok_move [OF assms(2) step(3) this step(2)] thread_runs(1) show ?thesis by simp
next
  case outside_moves
  have "inv s" using assms(2) by (simp add: all_ok_def)
  with assms(2) outside_moves outside_rely [OF \<open>inv s\<close>] outside_inv [OF \<open>inv s\<close>] ok_stable
  show ?thesis unfolding all_ok_def by metis
next
  case (call_starts c r p)
  have "inv s" "ok c (\<lambda>_. idle c) (pool c) s" using assms(2) by (auto simp: all_ok_def)
  then have "idle c s" using rely_refl call_starts(3) by simp
  from assms(3) [OF call_starts(4) \<open>inv s\<close> this] have "ok c (\<lambda>_. idle c) p s" .
  from all_ok_move [OF assms(2) \<open>inv s\<close> rely_refl this] call_starts show ?thesis by simp
qed

lemma all_ok_run:
  assumes "system_run remember outside given (pool, s) (pool', s')" "all_ok pool s"
    and "\<And>c s p. given c s p \<Longrightarrow> inv s \<Longrightarrow> idle c s \<Longrightarrow> ok c (\<lambda>_. idle c) p s"
  shows "all_ok pool' s'"
  using assms(1) unfolding system_run_def
proof (induction "(pool', s')" arbitrary: pool' s' rule: rtranclp_induct)
  case base
  then show ?case using assms(2) by simp
next
  case (step y)
  then show ?case using all_ok_step [OF _ _ assms(3)] by (cases y) blast
qed

end

end
