(* ===== verification/Cbth_Broker.thy ===== *)
theory Cbth_Broker
  imports Cbth_Calls Cbth_Supervisor Cbth_Store
begin

text \<open>
  The leases plugins hold on app servers of the daemon (\<open>src/service.rs\<close>). A lease belongs to a plugin
  instance and is shared by its connections through a registry under a lock; each connection keeps its own
  leases beside it. The operations are calls in the sense of \<open>Cbth_Calls\<close>: a section under the registry
  lock is an atomic step, the daemon is asked in between. What a connection changes in its own fields,
  which no other thread sees, is done in the neighbouring section. \<open>ensure_daemon_endpoint\<close> (starting a
  daemon) is answered by the environment; panics, which would poison the lock, are not modelled.
\<close>

section \<open>The state of the service\<close>

record lease_key =
  lk_plugin_name :: string
  lk_instance_id :: string
  lk_lease_id :: string

record lease_target =
  lt_managed_session_id :: string
  lt_bound_thread_id :: string
  lt_session_epoch :: int

record lease_record =
  lr_target :: lease_target
  lr_endpoint :: string
  lr_scoped_lease_id :: string
  lr_endpoint_confirmed :: bool

record shared_lease = lease_record +
  holders :: "nat set"

definition from_record :: "lease_record \<Rightarrow> nat \<Rightarrow> shared_lease" where
  "from_record r holder = lease_record.extend r \<lparr>holders = {holder}\<rparr>"

definition to_record :: "shared_lease \<Rightarrow> lease_record" where
  "to_record shared = lease_record.truncate shared"

record connection =
  cn_leases :: "lease_key \<Rightarrow> lease_record option"
  cn_seen_targets :: "lease_key \<Rightarrow> lease_target option"

record delivery_target =
  dt_plugin_lease_id :: string
  dt_target :: lease_target
  dt_url :: string

datatype codex_turn_event = EventStarted | EventCompleted | EventFailed | EventInterrupted | EventReplaced

text \<open>An error of a request to the daemon: its outermost text, the whole chain, and whether the endpoint is gone.\<close>

record daemon_error =
  de_text :: string
  de_chain :: string
  de_endpoint_gone :: bool

text \<open>
  What a call asks of the environment. \<open>StartTurn\<close> names the attempt for which the turn is started, which
  the driver is not told. An answer has a part for every kind of question.
\<close>

datatype query =
    EnsureDaemon
  | DaemonRequest string string json
  | OpenStore
  | Clock
  | TryWait string
  | StartTurn string delivery_target string string
  | ReconcileTurn delivery_target string string

record answer =
  an_endpoint :: "rpc_error + string \<times> json"
  an_daemon :: "daemon_error + json"
  an_store :: "string + unit"
  an_now :: "string + int"
  an_waited :: waited
  an_instant :: nat
  an_turn :: "rpc_error + string"
  an_event :: "rpc_error + codex_turn_event option"

text \<open>
  The log says what the connections asked and which delivery attempts they created; the code does not have
  it, nor does a call read it.
\<close>

datatype log_entry = Asked nat query | Began nat string

record world =
  w_store :: db
  w_service :: service_state
  w_leases :: "lease_key \<Rightarrow> shared_lease option"
  w_registry_lock :: "nat option"
  w_connections :: "nat \<Rightarrow> connection"
  w_log :: "log_entry list"

definition remember_query :: "nat \<Rightarrow> query \<Rightarrow> world \<Rightarrow> world" where
  "remember_query c q w = w\<lparr>w_log := w_log w @ [Asked c q]\<rparr>"

type_synonym 'r call = "(world, query, answer, rpc_error + 'r) prog"

text \<open>What is fixed for a service: the layout, SHA-256, the printing of JSON, the texts of errors.\<close>

record service_config =
  cf_sha256 :: "byte list \<Rightarrow> byte list"
  cf_default_endpoint :: string
  cf_home :: string
  cf_json_text :: "json \<Rightarrow> string"
  cf_json_pretty :: "json \<Rightarrow> string"
  cf_store_text :: "store_error \<Rightarrow> string"
  cf_error_text :: "plugin_error \<Rightarrow> string"
  cf_manifest_written :: "artifact_row \<Rightarrow> bool"

section \<open>Requests and their checks\<close>

record ensure_request =
  er_managed_session_id :: string
  er_bound_thread_id :: string
  er_session_epoch :: int
  er_codex_binary :: string
  er_lease_id :: string
  er_lease_ttl_seconds :: "int option"

record refresh_request =
  rr_managed_session_id :: string
  rr_lease_id :: string
  rr_lease_ttl_seconds :: "int option"

record stop_request =
  st_managed_session_id :: string
  st_lease_id :: string

definition MAX_PLUGIN_APP_SERVER_LEASE_TTL_SECONDS :: int where "MAX_PLUGIN_APP_SERVER_LEASE_TTL_SECONDS = 300"
definition DEFAULT_PLUGIN_APP_SERVER_LEASE_TTL_SECONDS :: int where
  "DEFAULT_PLUGIN_APP_SERVER_LEASE_TTL_SECONDS = 60"
definition PLUGIN_DELIVERY_OBSERVATION_WINDOW_SECONDS :: int where "PLUGIN_DELIVERY_OBSERVATION_WINDOW_SECONDS = 4 * 60"
definition PLUGIN_DELIVERY_OBSERVATION_LEASE_HEADROOM_SECONDS :: int where
  "PLUGIN_DELIVERY_OBSERVATION_LEASE_HEADROOM_SECONDS = 60"
definition PLUGIN_DELIVERY_APP_SERVER_LEASE_TTL_SECONDS :: int where
  "PLUGIN_DELIVERY_APP_SERVER_LEASE_TTL_SECONDS =
     PLUGIN_DELIVERY_OBSERVATION_WINDOW_SECONDS + PLUGIN_DELIVERY_OBSERVATION_LEASE_HEADROOM_SECONDS"

definition validate_nonempty_rpc_field :: "string \<Rightarrow> string \<Rightarrow> rpc_error + unit" where
  "validate_nonempty_rpc_field name v = require (v \<noteq> []) (rpc_failure InvalidRequest (name @ '' must not be empty''))"

definition validate_positive_rpc_i64 :: "string \<Rightarrow> int \<Rightarrow> rpc_error + unit" where
  "validate_positive_rpc_i64 name v = require (0 < v) (rpc_failure InvalidRequest (name @ '' must be positive''))"

definition rpc_checked :: "service_config \<Rightarrow> plugin_error + 'a \<Rightarrow> rpc_error + 'a" where
  "rpc_checked cf r = (case r of Inl e \<Rightarrow> Inl (rpc_failure InvalidRequest (cf_error_text cf e)) | Inr x \<Rightarrow> Inr x)"

definition validate_lease_id :: "service_config \<Rightarrow> string \<Rightarrow> rpc_error + unit" where
  "validate_lease_id cf v = rpc_checked cf (validate_nonempty_ascii_token v ''lease_id'')"

definition validate_optional_lease_ttl :: "int option \<Rightarrow> rpc_error + unit" where
  "validate_optional_lease_ttl ttl =
     (case ttl of
        None \<Rightarrow> Inr ()
      | Some seconds \<Rightarrow>
          if seconds = 0 then Inl (rpc_failure InvalidRequest ''lease_ttl_seconds must be positive'')
          else if MAX_PLUGIN_APP_SERVER_LEASE_TTL_SECONDS < seconds
          then Inl (rpc_failure InvalidRequest (''lease_ttl_seconds must not exceed '' @
            decimal_text (nat MAX_PLUGIN_APP_SERVER_LEASE_TTL_SECONDS)))
          else Inr ())"

definition validate_plugin_app_server_ensure_request :: "service_config \<Rightarrow> ensure_request \<Rightarrow> rpc_error + unit" where
  "validate_plugin_app_server_ensure_request cf r =
     chain (validate_nonempty_rpc_field ''managed_session_id'' (er_managed_session_id r)) (\<lambda>_.
     chain (validate_nonempty_rpc_field ''bound_thread_id'' (er_bound_thread_id r)) (\<lambda>_.
     chain (validate_positive_rpc_i64 ''session_epoch'' (er_session_epoch r)) (\<lambda>_.
     chain (validate_nonempty_rpc_field ''codex_binary'' (er_codex_binary r)) (\<lambda>_.
     chain (validate_lease_id cf (er_lease_id r)) (\<lambda>_.
     validate_optional_lease_ttl (er_lease_ttl_seconds r))))))"

definition validate_plugin_app_server_refresh_request :: "service_config \<Rightarrow> refresh_request \<Rightarrow> rpc_error + unit" where
  "validate_plugin_app_server_refresh_request cf r =
     chain (validate_nonempty_rpc_field ''managed_session_id'' (rr_managed_session_id r)) (\<lambda>_.
     chain (validate_lease_id cf (rr_lease_id r)) (\<lambda>_.
     validate_optional_lease_ttl (rr_lease_ttl_seconds r)))"

definition validate_plugin_app_server_stop_request :: "service_config \<Rightarrow> stop_request \<Rightarrow> rpc_error + unit" where
  "validate_plugin_app_server_stop_request cf r =
     chain (validate_nonempty_rpc_field ''managed_session_id'' (st_managed_session_id r)) (\<lambda>_.
     validate_lease_id cf (st_lease_id r))"

definition plugin_app_server_lease_key :: "connection_identity \<Rightarrow> string \<Rightarrow> lease_key" where
  "plugin_app_server_lease_key ident lease_id =
     \<lparr>lk_plugin_name = ci_plugin_name ident, lk_instance_id = ci_instance_id ident, lk_lease_id = lease_id\<rparr>"

definition plugin_app_server_lease_target :: "ensure_request \<Rightarrow> lease_target" where
  "plugin_app_server_lease_target r =
     \<lparr>lt_managed_session_id = er_managed_session_id r, lt_bound_thread_id = er_bound_thread_id r,
      lt_session_epoch = er_session_epoch r\<rparr>"

fun to_le_bytes :: "nat \<Rightarrow> nat \<Rightarrow> byte list" where
  "to_le_bytes 0 v = []"
| "to_le_bytes (Suc n) v = word_of_nat v # to_le_bytes n (v div 256)"

definition hex_digit :: "nat \<Rightarrow> char" where
  "hex_digit n = ''0123456789abcdef'' ! n"

definition lowercase_hex :: "byte list \<Rightarrow> string" where
  "lowercase_hex bytes = concat (map (\<lambda>b. [hex_digit (unat b div 16), hex_digit (unat b mod 16)]) bytes)"

definition scoped_hash_field :: "string \<Rightarrow> byte list" where
  "scoped_hash_field s = to_le_bytes 8 (length s) @ bytes_of_string s"

definition scoped_plugin_app_server_lease_id :: "service_config \<Rightarrow> connection_identity \<Rightarrow> string \<Rightarrow> string" where
  "scoped_plugin_app_server_lease_id cf ident lease_id =
     ''plugin-'' @ lowercase_hex (take 16 (cf_sha256 cf (scoped_hash_field (ci_plugin_name ident) @
       scoped_hash_field (ci_instance_id ident) @ scoped_hash_field lease_id)))"

section \<open>What is sent and answered\<close>

definition json_int :: "int \<Rightarrow> json" where
  "json_int n = JNumber (if 0 \<le> n then PosInt n else NegInt n)"

definition ttl_json :: "int option \<Rightarrow> json" where
  "ttl_json ttl = json_int (coalesce ttl DEFAULT_PLUGIN_APP_SERVER_LEASE_TTL_SECONDS)"

definition plugin_app_server_ensure_payload :: "ensure_request \<Rightarrow> string \<Rightarrow> json" where
  "plugin_app_server_ensure_payload r scoped = JObject
     [(''managed_session_id'', JString (er_managed_session_id r)),
      (''bound_thread_id'', JString (er_bound_thread_id r)),
      (''session_epoch'', json_int (er_session_epoch r)),
      (''codex_binary'', JArray (map (\<lambda>b. json_int (uint b)) (bytes_of_string (er_codex_binary r)))),
      (''lease_id'', JString scoped), (''lease_ttl_seconds'', ttl_json (er_lease_ttl_seconds r))]"

definition plugin_app_server_reserve_payload :: "ensure_request \<Rightarrow> string \<Rightarrow> json" where
  "plugin_app_server_reserve_payload r scoped = JObject
     [(''bound_thread_id'', JString (er_bound_thread_id r)), (''lease_id'', JString scoped),
      (''lease_ttl_seconds'', ttl_json (er_lease_ttl_seconds r))]"

definition release_payload :: "string \<Rightarrow> string \<Rightarrow> json" where
  "release_payload bound_thread_id scoped = JObject
     [(''bound_thread_id'', JString bound_thread_id), (''lease_id'', JString scoped)]"

definition refresh_payload :: "lease_record \<Rightarrow> int option \<Rightarrow> json" where
  "refresh_payload r ttl = JObject
     [(''managed_session_id'', JString (lt_managed_session_id (lr_target r))),
      (''lease_id'', JString (lr_scoped_lease_id r)), (''lease_ttl_seconds'', ttl_json ttl)]"

definition stop_payload :: "lease_record \<Rightarrow> json" where
  "stop_payload r = JObject
     [(''managed_session_id'', JString (lt_managed_session_id (lr_target r))),
      (''lease_id'', JString (lr_scoped_lease_id r))]"

definition app_server_handoff_socket_path :: "json \<Rightarrow> string option" where
  "app_server_handoff_socket_path response =
     and_then (or_else
       (and_then (json_get response ''cli_app_server'') (\<lambda>server. json_get server ''handoff_daemon_socket_path''))
       (json_get response ''handoff_daemon_socket_path'')) json_as_str"

definition daemon_member :: "string \<Rightarrow> string \<times> json" where
  "daemon_member endpoint = (''daemon'', JObject [(''socket_path'', JString endpoint)])"

definition plugin_app_server_response :: "string \<Rightarrow> string \<Rightarrow> json \<Rightarrow> json \<Rightarrow> json" where
  "plugin_app_server_response lease_id endpoint daemon_ensure response = JObject
     ([(''lease_id'', JString lease_id), daemon_member endpoint,
       (''app_server'', coalesce (json_get response ''cli_app_server'') JNull)] @
      (if daemon_ensure = JNull then [] else [(''daemon_ensure'', daemon_ensure)]))"

definition plugin_app_server_stop_response :: "string \<Rightarrow> string \<Rightarrow> json \<Rightarrow> json" where
  "plugin_app_server_stop_response lease_id endpoint response = JObject
     [(''lease_id'', JString lease_id), daemon_member endpoint,
      (''stopped'', JBool (coalesce (and_then (json_get response ''stopped'') json_as_bool) False)),
      (''handoff_daemon_socket_path'', coalesce (json_get response ''handoff_daemon_socket_path'') JNull)]"

definition plugin_app_server_retained_stop_response :: "string \<Rightarrow> string \<Rightarrow> json" where
  "plugin_app_server_retained_stop_response lease_id endpoint = JObject
     [(''lease_id'', JString lease_id), daemon_member endpoint, (''stopped'', JBool False),
      (''handoff_daemon_socket_path'', JNull)]"

definition stale_plugin_app_server_lease :: "string \<Rightarrow> rpc_error" where
  "stale_plugin_app_server_lease lease_id =
     rpc_failure StaleLease (''app-server lease is not active for this plugin connection: '' @ lease_id)"

definition replayed_plugin_app_server_lease_target_error :: rpc_error where
  "replayed_plugin_app_server_lease_target_error =
     rpc_failure PolicyBlocked ''app-server lease replay targets a different managed session, thread, or epoch''"

section \<open>Errors of the daemon\<close>

fun contains :: "string \<Rightarrow> string \<Rightarrow> bool" where
  "contains [] needle = (needle = [])"
| "contains (c # cs) needle = (take (length needle) (c # cs) = needle \<or> contains cs needle)"

definition contains_any :: "string \<Rightarrow> string list \<Rightarrow> bool" where
  "contains_any message needles = list_ex (contains message) needles"

definition daemon_error_needs_app_server_reservation :: "daemon_error \<Rightarrow> bool" where
  "daemon_error_needs_app_server_reservation e \<longleftrightarrow>
     contains (de_text e) ''does not have an active CLI app-server reservation''"

definition daemon_error_needs_endpoint_refresh :: "daemon_error \<Rightarrow> bool" where
  "daemon_error_needs_endpoint_refresh e \<longleftrightarrow>
     de_endpoint_gone e \<or> contains_any (de_chain e) [''daemon is quiescing for handoff'', ''daemon is stopping'']"

definition daemon_error_kind :: "daemon_error \<Rightarrow> rpc_error_kind" where
  "daemon_error_kind e =
     (if de_endpoint_gone e \<or> contains_any (de_chain e)
          [''daemon is quiescing for handoff'', ''daemon is stopping'', ''daemon is busy'',
           ''daemon connection limit reached'', ''daemon startup is already in progress'']
      then TransientDaemonUnavailable
      else if contains_any (de_chain e)
          [''owned by a different lease'', ''already has an active CLI app-server'',
           ''already has an active CLI app-server lease'', ''already has an active CLI app-server reservation'',
           ''already has a registered CLI app-server'', ''is already attached to app-server'',
           ''app-server is at epoch'', ''different active CLI app-server reservation'', ''targets a different'']
      then PolicyBlocked
      else if contains_any (de_chain e)
          [''is not running'', ''has exited'', ''does not have an active CLI app-server reservation'']
      then StaleLease
      else if contains_any (de_chain e) [''spawn'', ''codex app-server''] then TargetUnavailable
      else InternalFailure)"

definition daemon_dispatch_error :: "daemon_error \<Rightarrow> rpc_error" where
  "daemon_dispatch_error e = rpc_failure (daemon_error_kind e) (de_chain e)"

definition with_context :: "string \<Rightarrow> daemon_error \<Rightarrow> daemon_error" where
  "with_context what e = e\<lparr>de_text := what, de_chain := what @ '': '' @ de_chain e\<rparr>"

end
