(* ===== verification/Cbth_Leases.thy ===== *)
theory Cbth_Leases
  imports Cbth_Broker
begin

text \<open>
  The operations of the lease broker of a connection (\<open>src/service.rs\<close>): ensure, refresh, stop, the lease
  behind a delivery, and the cleanup when the connection ends. \<open>c\<close> is the connection.
\<close>

section \<open>Sections under the registry lock\<close>

definition update_connection :: "nat \<Rightarrow> (connection \<Rightarrow> connection) \<Rightarrow> world \<Rightarrow> world" where
  "update_connection c f w = w\<lparr>w_connections := (w_connections w)(c := f (w_connections w c))\<rparr>"

definition set_lease :: "lease_key \<Rightarrow> shared_lease option \<Rightarrow> world \<Rightarrow> world" where
  "set_lease key v w = w\<lparr>w_leases := (w_leases w)(key := v)\<rparr>"

definition set_local_lease :: "lease_key \<Rightarrow> lease_record option \<Rightarrow> connection \<Rightarrow> connection" where
  "set_local_lease key v cn = cn\<lparr>cn_leases := (cn_leases cn)(key := v)\<rparr>"

definition registry_free :: "world \<Rightarrow> bool" where
  "registry_free w \<longleftrightarrow> w_registry_lock w = None"

text \<open>A section that takes the lock and releases it again.\<close>

definition registry_section :: "(world \<Rightarrow> rpc_error + 'x \<times> world) \<Rightarrow> 'x call" where
  "registry_section f = perform registry_free f"

text \<open>The thread's own fields and the store are always accessible; a failed store operation is rolled back.\<close>

definition own_section :: "(world \<Rightarrow> 'x \<times> world) \<Rightarrow> 'x call" where
  "own_section f = perform (\<lambda>_. True) (\<lambda>w. Inr (f w))"

definition give :: "'x \<Rightarrow> 'x call" where
  "give x = Finish (Inr x)"

definition fail_with :: "rpc_error \<Rightarrow> 'x call" where
  "fail_with e = Finish (Inl e)"

definition checked :: "rpc_error + 'x \<Rightarrow> 'x call" where
  "checked r = Finish r"

definition shared_lease_record :: "lease_key \<Rightarrow> lease_target \<Rightarrow> lease_record option call" where
  "shared_lease_record key target = registry_section (\<lambda>w.
     case w_leases w key of
       None \<Rightarrow> Inr (None, w)
     | Some shared \<Rightarrow>
         if lr_target shared \<noteq> target then Inl replayed_plugin_app_server_lease_target_error
         else Inr (Some (to_record shared), w))"

definition merge_lease :: "nat \<Rightarrow> lease_record \<Rightarrow> shared_lease \<Rightarrow> shared_lease" where
  "merge_lease c r shared =
     (let shared = (if lr_endpoint_confirmed r \<or> \<not> lr_endpoint_confirmed shared
        then shared\<lparr>lr_endpoint := lr_endpoint r, lr_scoped_lease_id := lr_scoped_lease_id r,
          lr_endpoint_confirmed := lr_endpoint_confirmed r\<rparr>
        else shared)
      in shared\<lparr>holders := insert c (holders shared)\<rparr>)"

definition note_own_lease :: "nat \<Rightarrow> lease_key \<Rightarrow> lease_record \<Rightarrow> world \<Rightarrow> world" where
  "note_own_lease c key r = update_connection c (\<lambda>cn. (set_local_lease key (Some r) cn)
     \<lparr>cn_seen_targets := (cn_seen_targets cn)(key \<mapsto> lr_target r)\<rparr>)"

definition register_connection_lease :: "nat \<Rightarrow> lease_key \<Rightarrow> lease_record \<Rightarrow> unit call" where
  "register_connection_lease c key r = registry_section (\<lambda>w.
     case w_leases w key of
       Some shared \<Rightarrow>
         if lr_target shared \<noteq> lr_target r then Inl replayed_plugin_app_server_lease_target_error
         else Inr ((), note_own_lease c key (to_record (merge_lease c r shared))
                (set_lease key (Some (merge_lease c r shared)) w))
     | None \<Rightarrow> Inr ((), note_own_lease c key r (set_lease key (Some (from_record r c)) w)))"

definition confirm_endpoint :: "string \<Rightarrow> 'a lease_record_scheme \<Rightarrow> 'a lease_record_scheme" where
  "confirm_endpoint endpoint r = r\<lparr>lr_endpoint := endpoint, lr_endpoint_confirmed := True\<rparr>"

definition confirm_own :: "nat \<Rightarrow> lease_key \<Rightarrow> string \<Rightarrow> world \<Rightarrow> world" where
  "confirm_own c key endpoint = update_connection c (\<lambda>cn.
     set_local_lease key (map_option (confirm_endpoint endpoint) (cn_leases cn key)) cn)"

definition update_connection_lease_endpoint :: "nat \<Rightarrow> lease_key \<Rightarrow> string \<Rightarrow> unit call" where
  "update_connection_lease_endpoint c key endpoint = registry_section (\<lambda>w.
     Inr ((), case w_leases (confirm_own c key endpoint w) key of
         Some shared \<Rightarrow>
           if c \<in> holders shared then set_lease key (Some (confirm_endpoint endpoint shared)) (confirm_own c key endpoint w)
           else confirm_own c key endpoint w
       | None \<Rightarrow> confirm_own c key endpoint w))"

definition latest_connection_lease_record :: "nat \<Rightarrow> lease_key \<Rightarrow> lease_record \<Rightarrow> lease_record call" where
  "latest_connection_lease_record c key fallback = registry_section (\<lambda>w.
     case w_leases w key of
       Some shared \<Rightarrow>
         if c \<in> holders shared
         then Inr (to_record shared, update_connection c (set_local_lease key (Some (to_record shared))) w)
         else Inr (fallback, w)
     | None \<Rightarrow> Inr (fallback, w))"

section \<open>Asking the daemon\<close>

definition ask_daemon :: "string \<Rightarrow> string \<Rightarrow> json \<Rightarrow> (world, query, answer, daemon_error + json) prog" where
  "ask_daemon endpoint command payload = Ask (DaemonRequest endpoint command payload) (\<lambda>a. Finish (an_daemon a))"

definition ensure_daemon_endpoint :: "(string \<times> json) call" where
  "ensure_daemon_endpoint = Ask EnsureDaemon (\<lambda>a. Finish (an_endpoint a))"

definition ensure_app_server_at_endpoint ::
    "string \<Rightarrow> ensure_request \<Rightarrow> string \<Rightarrow> (world, query, answer, daemon_error + json) prog" where
  "ensure_app_server_at_endpoint endpoint r scoped =
     bind_prog (ask_daemon endpoint ''cli_app_server_ensure'' (plugin_app_server_ensure_payload r scoped)) (\<lambda>first.
     case first of
       Inr response \<Rightarrow> Finish (Inr response)
     | Inl e \<Rightarrow>
         if \<not> daemon_error_needs_app_server_reservation e then Finish (Inl e)
         else bind_prog (ask_daemon endpoint ''cli_app_server_reserve''
             (plugin_app_server_reserve_payload r scoped)) (\<lambda>reserved.
           case reserved of
             Inl e \<Rightarrow> Finish (Inl (with_context ''reserve plugin app-server lease'' e))
           | Inr _ \<Rightarrow>
               bind_prog (ask_daemon endpoint ''cli_app_server_ensure''
                 (plugin_app_server_ensure_payload r scoped)) (\<lambda>second.
               case second of
                 Inr response \<Rightarrow> Finish (Inr response)
               | Inl e \<Rightarrow>
                   bind_prog (ask_daemon endpoint ''cli_app_server_release''
                     (release_payload (er_bound_thread_id r) scoped)) (\<lambda>_. Finish (Inl e)))))"

definition dispatched :: "(world, query, answer, daemon_error + 'x) prog \<Rightarrow> 'x call" where
  "dispatched p = bind_prog p (\<lambda>r. Finish (map_sum daemon_dispatch_error (\<lambda>x. x) r))"

definition follow_app_server_handoff :: "string \<Rightarrow> string \<Rightarrow> json \<Rightarrow> json \<Rightarrow> (string \<times> json) call" where
  "follow_app_server_handoff endpoint command payload response =
     (case app_server_handoff_socket_path response of
        None \<Rightarrow> give (endpoint, response)
      | Some handoff \<Rightarrow> try_prog (dispatched (ask_daemon handoff command payload)) (\<lambda>r. give (handoff, r)))"

text \<open>
  A request to the endpoint of a lease; when the daemon behind it is gone or going, one is ensured, noted
  by \<open>noted\<close> and asked instead. The result carries the endpoint that answered and the ensured daemon.
\<close>

definition ask_with_refresh ::
    "(string \<Rightarrow> unit call) \<Rightarrow> (string \<Rightarrow> (world, query, answer, daemon_error + json) prog) \<Rightarrow> string \<Rightarrow> json \<Rightarrow>
      (string \<times> json \<times> json) call" where
  "ask_with_refresh noted ask endpoint daemon =
     bind_prog (ask endpoint) (\<lambda>r.
     case r of
       Inr response \<Rightarrow> give (endpoint, daemon, response)
     | Inl e \<Rightarrow>
         if daemon_error_needs_endpoint_refresh e
         then try_prog ensure_daemon_endpoint (\<lambda>(fresh, ensured).
           try_prog (noted fresh) (\<lambda>_.
           try_prog (dispatched (ask fresh)) (\<lambda>response. give (fresh, ensured, response))))
         else fail_with (daemon_dispatch_error e))"

definition refresh_app_server_at_endpoint ::
    "lease_record \<Rightarrow> int option \<Rightarrow> string \<Rightarrow> (world, query, answer, daemon_error + json) prog" where
  "refresh_app_server_at_endpoint r ttl endpoint = ask_daemon endpoint ''cli_app_server_refresh'' (refresh_payload r ttl)"

definition stop_plugin_app_server_record_best_effort :: "lease_record \<Rightarrow> (world, query, answer, unit) prog" where
  "stop_plugin_app_server_record_best_effort r =
     bind_prog (ask_daemon (lr_endpoint r) ''cli_app_server_stop'' (stop_payload r)) (\<lambda>response.
     case response of
       Inl _ \<Rightarrow> Finish ()
     | Inr response \<Rightarrow>
         case app_server_handoff_socket_path response of
           None \<Rightarrow> Finish ()
         | Some handoff \<Rightarrow> bind_prog (ask_daemon handoff ''cli_app_server_stop'' (stop_payload r)) (\<lambda>_. Finish ()))"

text \<open>When the store cannot be opened a delivery is taken to be active.\<close>

definition plugin_app_server_record_has_active_delivery :: "lease_record \<Rightarrow> (world, query, answer, bool) prog" where
  "plugin_app_server_record_has_active_delivery r =
     Ask OpenStore (\<lambda>a. case an_store a of
       Inl _ \<Rightarrow> Finish True
     | Inr _ \<Rightarrow> read_state (\<lambda>w. Finish (has_active_codex_app_server_delivery_for_target (w_store w)
         (lt_managed_session_id (lr_target r)) (lt_session_epoch (lr_target r)))))"

section \<open>Ensure\<close>

definition default_lease_record :: "service_config \<Rightarrow> lease_target \<Rightarrow> string \<Rightarrow> lease_record" where
  "default_lease_record cf target scoped =
     \<lparr>lr_target = target, lr_endpoint = cf_default_endpoint cf, lr_scoped_lease_id = scoped,
      lr_endpoint_confirmed = False\<rparr>"

text \<open>Once the daemon has accepted the lease: follow a handoff and register the endpoint.\<close>

definition finish_ensure :: "nat \<Rightarrow> lease_key \<Rightarrow> lease_target \<Rightarrow> string \<Rightarrow> ensure_request \<Rightarrow> string \<Rightarrow> json \<Rightarrow> json \<Rightarrow> json call" where
  "finish_ensure c key target scoped r endpoint daemon response =
     try_prog (follow_app_server_handoff endpoint ''cli_app_server_ensure''
       (plugin_app_server_ensure_payload r scoped) response) (\<lambda>(endpoint, response).
     try_prog (register_connection_lease c key \<lparr>lr_target = target, lr_endpoint = endpoint,
       lr_scoped_lease_id = scoped, lr_endpoint_confirmed = True\<rparr>) (\<lambda>_.
     give (plugin_app_server_response (er_lease_id r) endpoint daemon response)))"

definition initial_endpoint :: "nat \<Rightarrow> lease_key \<Rightarrow> lease_record option \<Rightarrow> (string \<times> json) call" where
  "initial_endpoint c key existing =
     (case existing of
        Some r \<Rightarrow> if lr_endpoint_confirmed r then give (lr_endpoint r, JNull)
          else try_prog ensure_daemon_endpoint (\<lambda>(endpoint, daemon).
            try_prog (update_connection_lease_endpoint c key endpoint) (\<lambda>_. give (endpoint, daemon)))
      | None \<Rightarrow> try_prog ensure_daemon_endpoint (\<lambda>(endpoint, daemon).
            try_prog (update_connection_lease_endpoint c key endpoint) (\<lambda>_. give (endpoint, daemon))))"

text \<open>The result and whether the daemon has accepted the lease.\<close>

definition attempt_ensure ::
    "nat \<Rightarrow> lease_key \<Rightarrow> lease_target \<Rightarrow> string \<Rightarrow> ensure_request \<Rightarrow> lease_record option \<Rightarrow>
      (world, query, answer, (rpc_error + json) \<times> bool) prog" where
  "attempt_ensure c key target scoped r existing =
     bind_prog (try_prog (initial_endpoint c key existing) (\<lambda>(endpoint, daemon).
       ask_with_refresh (update_connection_lease_endpoint c key)
         (\<lambda>endpoint. ensure_app_server_at_endpoint endpoint r scoped) endpoint daemon)) (\<lambda>asked.
     case asked of
       Inl e \<Rightarrow> Finish (Inl e, False)
     | Inr (endpoint, daemon, response) \<Rightarrow>
         bind_prog (finish_ensure c key target scoped r endpoint daemon response) (\<lambda>result. Finish (result, True)))"

definition release_lock :: "world \<Rightarrow> world" where
  "release_lock w = w\<lparr>w_registry_lock := None\<rparr>"

text \<open>
  Taking the lock to give up a lease: \<open>retained\<close> when another connection holds it too (the lock is
  released again), else the lock is kept. The state of the registry decides.
\<close>

definition held_by_others :: "nat \<Rightarrow> lease_key \<Rightarrow> world \<Rightarrow> bool" where
  "held_by_others c key w \<longleftrightarrow>
     (case w_leases w key of None \<Rightarrow> False | Some shared \<Rightarrow> holders shared - {c} \<noteq> {})"

definition leave_lease :: "nat \<Rightarrow> lease_key \<Rightarrow> world \<Rightarrow> world" where
  "leave_lease c key w =
     (case w_leases w key of
        None \<Rightarrow> w
      | Some shared \<Rightarrow> set_lease key (Some (shared\<lparr>holders := holders shared - {c}\<rparr>)) w)"

definition lock_to_leave :: "nat \<Rightarrow> lease_key \<Rightarrow> world \<Rightarrow> world option" where
  "lock_to_leave c key w =
     (if \<not> registry_free w then None
      else if held_by_others c key w then Some (leave_lease c key w)
      else Some (leave_lease c key w\<lparr>w_registry_lock := Some c\<rparr>))"

definition lease_to_stop :: "lease_key \<Rightarrow> lease_record \<Rightarrow> world \<Rightarrow> lease_record" where
  "lease_to_stop key fallback w =
     (case w_leases w key of Some shared \<Rightarrow> to_record shared | None \<Rightarrow> fallback)"

definition drop_lease_and_lock :: "lease_key \<Rightarrow> world \<Rightarrow> world" where
  "drop_lease_and_lock key w = release_lock (set_lease key None w)"

definition rollback_preregistered_lease_after_failed_ensure ::
    "nat \<Rightarrow> lease_key \<Rightarrow> lease_record \<Rightarrow> bool \<Rightarrow> (world, query, answer, unit) prog" where
  "rollback_preregistered_lease_after_failed_ensure c key fallback stop_last_holder =
     Atomic (\<lambda>w. lock_to_leave c key (update_connection c (set_local_lease key None) w)) (\<lambda>w.
     if held_by_others c key w then Finish ()
     else bind_prog (if stop_last_holder
         then stop_plugin_app_server_record_best_effort (lease_to_stop key fallback w) else Finish ()) (\<lambda>_.
       Atomic (\<lambda>w. Some (drop_lease_and_lock key w)) (\<lambda>_. Finish ())))"

definition is_err :: "'e + 'x \<Rightarrow> bool" where
  "is_err r \<longleftrightarrow> \<not> is_ok r"

definition ensure_lease :: "service_config \<Rightarrow> nat \<Rightarrow> connection_identity \<Rightarrow> ensure_request \<Rightarrow> json call" where
  "ensure_lease cf c ident r =
     try_prog (checked (validate_plugin_app_server_ensure_request cf r)) (\<lambda>_.
     let key = plugin_app_server_lease_key ident (er_lease_id r);
         target = plugin_app_server_lease_target r;
         scoped = scoped_plugin_app_server_lease_id cf ident (er_lease_id r) in
     try_prog (own_section (\<lambda>w. (w_connections w c, w))) (\<lambda>cn.
     if cn_seen_targets cn key \<notin> {None, Some target} \<or> map_option lr_target (cn_leases cn key) \<notin> {None, Some target}
     then fail_with replayed_plugin_app_server_lease_target_error
     else
       let had_local_holder = (cn_leases cn key \<noteq> None) in
       try_prog (shared_lease_record key target) (\<lambda>shared.
       let existing = or_else shared (cn_leases cn key) in
       try_prog (if had_local_holder then give ()
         else register_connection_lease c key (coalesce existing (default_lease_record cf target scoped))) (\<lambda>_.
       bind_prog (attempt_ensure c key target scoped r existing) (\<lambda>(result, accepted).
       read_state (\<lambda>w.
         case cn_leases (w_connections w c) key of
           Some own \<Rightarrow>
             if is_err result \<and> \<not> had_local_holder
             then bind_prog (rollback_preregistered_lease_after_failed_ensure c key own accepted) (\<lambda>_. Finish result)
             else Finish result
         | None \<Rightarrow> Finish result))))))"

section \<open>Refresh\<close>

text \<open>The connection's lease as the registry has it now.\<close>

definition current_lease :: "nat \<Rightarrow> connection_identity \<Rightarrow> string \<Rightarrow> lease_record call" where
  "current_lease c ident lease_id =
     (let key = plugin_app_server_lease_key ident lease_id in
      try_prog (own_section (\<lambda>w. (cn_leases (w_connections w c) key, w))) (\<lambda>own.
      case own of
        None \<Rightarrow> fail_with (stale_plugin_app_server_lease lease_id)
      | Some r \<Rightarrow> latest_connection_lease_record c key r))"

text \<open>Refresh at the daemon with a time to live, and note the endpoint that has the lease in the end.\<close>

definition refresh_at_daemon :: "nat \<Rightarrow> lease_key \<Rightarrow> lease_record \<Rightarrow> int option \<Rightarrow> (string \<times> json) call" where
  "refresh_at_daemon c key r ttl =
     try_prog (ask_with_refresh (update_connection_lease_endpoint c key) (refresh_app_server_at_endpoint r ttl)
       (lr_endpoint r) JNull) (\<lambda>(endpoint, _, response).
     try_prog (follow_app_server_handoff endpoint ''cli_app_server_refresh'' (refresh_payload r ttl) response)
       (\<lambda>(endpoint, response).
     try_prog (update_connection_lease_endpoint c key endpoint) (\<lambda>_. give (endpoint, response))))"

definition refresh_lease :: "service_config \<Rightarrow> nat \<Rightarrow> connection_identity \<Rightarrow> refresh_request \<Rightarrow> json call" where
  "refresh_lease cf c ident r =
     try_prog (checked (validate_plugin_app_server_refresh_request cf r)) (\<lambda>_.
     try_prog (current_lease c ident (rr_lease_id r)) (\<lambda>own.
     if lt_managed_session_id (lr_target own) \<noteq> rr_managed_session_id r
     then fail_with (rpc_failure PolicyBlocked ''app-server lease refresh targets a different managed session'')
     else try_prog (refresh_at_daemon c (plugin_app_server_lease_key ident (rr_lease_id r)) own
         (rr_lease_ttl_seconds r)) (\<lambda>(endpoint, response).
       give (plugin_app_server_response (rr_lease_id r) endpoint JNull response))))"

section \<open>Stop\<close>

definition release_and :: "rpc_error + 'x \<Rightarrow> 'x call" where
  "release_and r = Atomic (\<lambda>w. Some (release_lock w)) (\<lambda>_. Finish r)"

definition note_endpoint_under_lock :: "nat \<Rightarrow> lease_key \<Rightarrow> string \<Rightarrow> unit call" where
  "note_endpoint_under_lock c key endpoint = own_section (\<lambda>w.
     ((), set_lease key (map_option (confirm_endpoint endpoint) (w_leases w key)) (confirm_own c key endpoint w)))"

definition stop_under_lock :: "nat \<Rightarrow> lease_key \<Rightarrow> lease_record \<Rightarrow> (string \<times> json) call" where
  "stop_under_lock c key own =
     try_prog (ask_with_refresh (note_endpoint_under_lock c key)
       (\<lambda>endpoint. ask_daemon endpoint ''cli_app_server_stop'' (stop_payload own)) (lr_endpoint own) JNull)
       (\<lambda>(endpoint, _, response).
     follow_app_server_handoff endpoint ''cli_app_server_stop'' (stop_payload own) response)"

text \<open>
  With other holders the connection only leaves the lease (its own record goes with it). Otherwise the lock
  is held until the daemon has answered; on success the lease is dropped everywhere.
\<close>

definition lock_to_stop :: "nat \<Rightarrow> lease_key \<Rightarrow> world \<Rightarrow> world option" where
  "lock_to_stop c key w =
     (if \<not> registry_free w then None
      else if held_by_others c key w
      then Some (update_connection c (set_local_lease key None) (leave_lease c key w))
      else Some (w\<lparr>w_registry_lock := Some c\<rparr>))"

definition stop_lease :: "service_config \<Rightarrow> nat \<Rightarrow> connection_identity \<Rightarrow> stop_request \<Rightarrow> json call" where
  "stop_lease cf c ident r =
     try_prog (checked (validate_plugin_app_server_stop_request cf r)) (\<lambda>_.
     let key = plugin_app_server_lease_key ident (st_lease_id r) in
     try_prog (current_lease c ident (st_lease_id r)) (\<lambda>own.
     if lt_managed_session_id (lr_target own) \<noteq> st_managed_session_id r
     then fail_with (rpc_failure PolicyBlocked ''app-server lease stop targets a different managed session'')
     else bind_prog (plugin_app_server_record_has_active_delivery own) (\<lambda>active.
       if active then give (plugin_app_server_retained_stop_response (st_lease_id r) (lr_endpoint own))
       else Atomic (lock_to_stop c key) (\<lambda>w.
         if held_by_others c key w
         then give (plugin_app_server_retained_stop_response (st_lease_id r) (lr_endpoint (lease_to_stop key own w)))
         else bind_prog (stop_under_lock c key own) (\<lambda>stopped.
           case stopped of
             Inl e \<Rightarrow> release_and (Inl e)
           | Inr (endpoint, response) \<Rightarrow>
               Atomic (\<lambda>w. Some (update_connection c (set_local_lease key None) (drop_lease_and_lock key w)))
                 (\<lambda>_. give (plugin_app_server_stop_response (st_lease_id r) endpoint response)))))))"

section \<open>The lease of a delivery\<close>

definition app_server_url_from_daemon_response :: "json \<Rightarrow> rpc_error + string" where
  "app_server_url_from_daemon_response response =
     (case and_then (and_then (or_else (json_get response ''cli_app_server'') (json_get response ''app_server''))
         (\<lambda>server. json_get server ''url'')) json_as_str of
        Some url \<Rightarrow> if url \<noteq> [] then Inr url
          else Inl (rpc_failure TargetUnavailable ''app-server refresh response did not include a URL'')
      | None \<Rightarrow> Inl (rpc_failure TargetUnavailable ''app-server refresh response did not include a URL''))"

definition lease_delivery_target :: "service_config \<Rightarrow> nat \<Rightarrow> connection_identity \<Rightarrow> string \<Rightarrow> delivery_target call" where
  "lease_delivery_target cf c ident lease_id =
     try_prog (checked (validate_lease_id cf lease_id)) (\<lambda>_.
     try_prog (current_lease c ident lease_id) (\<lambda>own.
     try_prog (refresh_at_daemon c (plugin_app_server_lease_key ident lease_id) own
       (Some PLUGIN_DELIVERY_APP_SERVER_LEASE_TTL_SECONDS)) (\<lambda>(endpoint, response).
     checked (chain (app_server_url_from_daemon_response response) (\<lambda>url.
       Inr \<lparr>dt_plugin_lease_id = lease_id, dt_target = lr_target own, dt_url = url\<rparr>)))))"

section \<open>The end of a connection\<close>

text \<open>\<open>records\<close> are the connection's leases in the order in which the map yields them.\<close>

primrec give_up_leases :: "nat \<Rightarrow> (lease_key \<times> lease_record) list \<Rightarrow> (world, query, answer, unit) prog" where
  "give_up_leases c [] = Finish ()"
| "give_up_leases c (kr # records) =
     (case kr of (key, r) \<Rightarrow>
      Atomic (lock_to_leave c key) (\<lambda>w.
      if held_by_others c key w then give_up_leases c records
      else bind_prog (plugin_app_server_record_has_active_delivery (lease_to_stop key r w)) (\<lambda>active.
        bind_prog (if active then Finish ()
          else stop_plugin_app_server_record_best_effort (lease_to_stop key r w)) (\<lambda>_.
        Atomic (\<lambda>w. Some (drop_lease_and_lock key w)) (\<lambda>_. give_up_leases c records)))))"

definition cleanup_connection_leases :: "nat \<Rightarrow> (lease_key \<times> lease_record) list \<Rightarrow> (world, query, answer, unit) prog" where
  "cleanup_connection_leases c records =
     Atomic (\<lambda>w. Some (update_connection c (\<lambda>cn. cn\<lparr>cn_leases := \<lambda>_. None\<rparr>) w)) (\<lambda>_. give_up_leases c records)"

text \<open>The end of the service: the registry is emptied, then the leases without a delivery are stopped.\<close>

primrec stop_records :: "lease_record list \<Rightarrow> (world, query, answer, unit) prog" where
  "stop_records [] = Finish ()"
| "stop_records (r # rs) =
     bind_prog (plugin_app_server_record_has_active_delivery r) (\<lambda>active.
     bind_prog (if active then Finish () else stop_plugin_app_server_record_best_effort r) (\<lambda>_. stop_records rs))"

definition cleanup_all_plugin_app_server_leases :: "lease_key list \<Rightarrow> (world, query, answer, unit) prog" where
  "cleanup_all_plugin_app_server_leases keys =
     Atomic (\<lambda>w. if registry_free w then Some (w\<lparr>w_leases := \<lambda>_. None\<rparr>) else None)
       (\<lambda>w. stop_records (List.map_filter (\<lambda>key. map_option to_record (w_leases w key)) keys))"

end
