(* ===== verification/Cbth_PluginService.thy ===== *)
theory Cbth_PluginService
  imports Cbth_PluginDelivery
begin

text \<open>
  The frames of a plugin connection after its hello (\<open>src/service.rs\<close>): each is checked to come from the
  latest instance of the plugin's process and handed to its method. Deliveries are enqueued, started,
  replayed, inspected and manualized here, each transaction of the store one atomic step. serde's view of
  a request and the metadata of a stored job are parameters (\<open>service_codec\<close>).
\<close>

record service_codec =
  parse_ensure :: "json \<Rightarrow> string + ensure_request"
  parse_refresh :: "json \<Rightarrow> string + refresh_request"
  parse_stop :: "json \<Rightarrow> string + stop_request"
  parse_enqueue :: "json \<Rightarrow> string + enqueue_request"
  parse_inspect :: "json \<Rightarrow> string + inspect_request"
  parse_manualize :: "json \<Rightarrow> string + manualize_request"
  metadata_value :: "string \<Rightarrow> json"

section \<open>Responses\<close>

record delivery_response =
  dr_delivery :: plugin_enqueue_record
  dr_target :: json
  dr_driver_state :: string
  dr_attempt :: "attempt_row option"
  dr_driver_error_reason :: "string option"

record inspect_response =
  ir_delivery :: plugin_inspect_record
  ir_driver_state :: string
  ir_reconciled_event :: "string option"

datatype service_response =
    LeaseResponse json
  | EnqueueResponse delivery_response
  | InspectResponse inspect_response
  | ManualizeResponse batch_inspect

definition plugin_delivery_enqueue_response ::
    "plugin_enqueue_record \<Rightarrow> json \<Rightarrow> string \<Rightarrow> attempt_row option \<Rightarrow> string option \<Rightarrow> delivery_response" where
  "plugin_delivery_enqueue_response enqueue target driver_state attempt reason =
     \<lparr>dr_delivery = enqueue, dr_target = target, dr_driver_state = driver_state, dr_attempt = attempt,
      dr_driver_error_reason = reason\<rparr>"

section \<open>Transactions\<close>

definition store_call :: "service_config \<Rightarrow> (db \<Rightarrow> store_error + 'x \<times> db) \<Rightarrow> 'x call" where
  "store_call cf op = perform (\<lambda>_. True) (\<lambda>w.
     case op (w_store w) of
       Inl e \<Rightarrow> Inl (plugin_store_error cf e)
     | Inr (x, d) \<Rightarrow> Inr (x, w\<lparr>w_store := d\<rparr>))"

definition store_read :: "service_config \<Rightarrow> (db \<Rightarrow> store_error + 'x) \<Rightarrow> 'x call" where
  "store_read cf op = store_call cf (\<lambda>d. chain (op d) (\<lambda>x. Inr (x, d)))"

text \<open>A transaction that may create an attempt notes in the log that connection \<open>c\<close> did.\<close>

definition log_began :: "nat \<Rightarrow> string option \<Rightarrow> world \<Rightarrow> world" where
  "log_began c attempt w = (case attempt of None \<Rightarrow> w | Some a \<Rightarrow> w\<lparr>w_log := w_log w @ [Began c a]\<rparr>)"

definition begin_call :: "service_config \<Rightarrow> nat \<Rightarrow> ('x \<Rightarrow> string option) \<Rightarrow> (db \<Rightarrow> store_error + 'x \<times> db) \<Rightarrow> 'x call" where
  "begin_call cf c created op = perform (\<lambda>_. True) (\<lambda>w.
     case op (w_store w) of
       Inl e \<Rightarrow> Inl (plugin_store_error cf e)
     | Inr (x, d) \<Rightarrow> Inr (x, log_began c (created x) (w\<lparr>w_store := d\<rparr>)))"

definition open_store :: "unit call" where
  "open_store = Ask OpenStore (\<lambda>a. Finish (map_sum plugin_store_failure (\<lambda>_. ()) (an_store a)))"

definition clock :: "int call" where
  "clock = Ask Clock (\<lambda>a. Finish (case an_now a of Inl e \<Rightarrow> Inl (rpc_failure InternalFailure e) | Inr now \<Rightarrow> Inr now))"

definition ignoring :: "'x call \<Rightarrow> unit call" where
  "ignoring p = bind_prog p (\<lambda>_. give ())"

section \<open>Records and audit\<close>

definition inspect_by_key :: "connection_identity \<Rightarrow> string \<Rightarrow> db \<Rightarrow> store_error + plugin_inspect_record" where
  "inspect_by_key ident key d = inspect_plugin_delivery d (ci_plugin_name ident) (Some key) None None"

definition refresh_plugin_delivery_enqueue_record ::
    "service_config \<Rightarrow> connection_identity \<Rightarrow> plugin_enqueue_record \<Rightarrow> plugin_enqueue_record call" where
  "refresh_plugin_delivery_enqueue_record cf ident enqueue =
     try_prog (store_read cf (inspect_by_key ident (pe_idempotency_key enqueue))) (\<lambda>inspect.
     give \<lparr>pe_created = pe_created enqueue, pe_idempotency_key = pe_idempotency_key enqueue,
       pe_job = pi_job inspect, pe_batch = pi_batch inspect\<rparr>)"

record delivery_audit =
  da_attempt :: "attempt_row option"
  da_decision :: string
  da_reason :: string
  da_details :: json
  da_recorded_at :: int

definition plugin_delivery_audit_row ::
    "service_config \<Rightarrow> connection_identity \<Rightarrow> plugin_enqueue_record \<Rightarrow> delivery_audit \<Rightarrow> audit_row" where
  "plugin_delivery_audit_row cf ident enqueue ev =
     (let batch = bi_batch (pe_batch enqueue) in
      \<lparr>au_audit_id = scoped_plugin_delivery_id cf ''plugin-audit'' (stable_scoped_fields
         [ci_plugin_name ident, pe_idempotency_key enqueue, da_decision ev, da_reason ev,
          coalesce (map_option a_attempt_id (da_attempt ev)) ''no-attempt'']),
       au_recorded_at = da_recorded_at ev, au_source_thread_id = Some (b_source_thread_id batch),
       au_batch_id = Some (b_batch_id batch), au_attempt_id = map_option a_attempt_id (da_attempt ev),
       au_managed_session_id = and_then (da_attempt ev) a_managed_session_id,
       au_session_epoch = and_then (da_attempt ev) a_session_epoch, au_policy_kind = ''plugin_delivery'',
       au_decision = da_decision ev, au_reason = da_reason ev, au_adapter_kind = ''codex_app_server'',
       au_details_json = cf_json_text cf (da_details ev)\<rparr>)"

definition record_plugin_delivery_audit_best_effort ::
    "service_config \<Rightarrow> connection_identity \<Rightarrow> plugin_enqueue_record \<Rightarrow> delivery_audit \<Rightarrow> unit call" where
  "record_plugin_delivery_audit_best_effort cf ident enqueue ev =
     ignoring (store_call cf (record_audit_decision (plugin_delivery_audit_row cf ident enqueue ev)))"

definition turn_start_error_details :: "rpc_error \<Rightarrow> delivery_target \<Rightarrow> json" where
  "turn_start_error_details e target = JObject
     [(''error_kind'', JString (kind_text (re_kind e))), (''error'', JString (re_message e)),
      (''target'', plugin_delivery_target_json target)]"

section \<open>Starting the turn of an attempt\<close>

record start_context =
  sc_request :: enqueue_request
  sc_target :: delivery_target
  sc_enqueue :: plugin_enqueue_record
  sc_pending_attempt :: attempt_row
  sc_marker :: string

definition turn_accepted :: "service_config \<Rightarrow> nat \<Rightarrow> connection_identity \<Rightarrow> start_context \<Rightarrow> string \<Rightarrow> delivery_response call" where
  "turn_accepted cf c ident sc turn_id =
     try_prog clock (\<lambda>accepted_at.
     try_prog (checked (ok_or (rpc_failure InternalFailure ''delivery observation deadline overflow'')
       (checked_add accepted_at PLUGIN_DELIVERY_OBSERVATION_WINDOW_SECONDS))) (\<lambda>deadline.
     try_prog (store_call cf (accept_codex_app_server_attempt (a_attempt_id (sc_pending_attempt sc)) turn_id
       accepted_at deadline)) (\<lambda>accepted.
     bind_prog (refresh_lease cf c ident
       \<lparr>rr_managed_session_id = lt_managed_session_id (dt_target (sc_target sc)),
        rr_lease_id = dt_plugin_lease_id (sc_target sc),
        rr_lease_ttl_seconds = Some PLUGIN_DELIVERY_APP_SERVER_LEASE_TTL_SECONDS\<rparr>) (\<lambda>refreshed.
     try_prog (refresh_plugin_delivery_enqueue_record cf ident (sc_enqueue sc)) (\<lambda>enqueue.
     try_prog (record_plugin_delivery_audit_best_effort cf ident enqueue
       \<lparr>da_attempt = Some accepted, da_decision = ''accepted'', da_reason = ''turn_start_returned_turn_id'',
        da_details = JObject ([(''delivery_turn_id'', JString turn_id),
            (''target'', plugin_delivery_target_json (sc_target sc))] @
          (case refreshed of Inr _ \<Rightarrow> []
           | Inl e \<Rightarrow> [(''lease_refresh_error'', JObject [(''kind'', JString (kind_text (re_kind e))),
               (''message'', JString (re_message e))])])),
        da_recorded_at = accepted_at\<rparr>) (\<lambda>_.
     give (plugin_delivery_enqueue_response enqueue (plugin_delivery_target_json (sc_target sc))
       ''accepted_observation_pending'' (Some accepted) None)))))))"

text \<open>The attempt is rejected, and for good when \<open>manual\<close>.\<close>

definition turn_rejected ::
    "service_config \<Rightarrow> connection_identity \<Rightarrow> start_context \<Rightarrow> rpc_error \<Rightarrow> bool \<Rightarrow> string \<Rightarrow> string \<Rightarrow> delivery_response call" where
  "turn_rejected cf ident sc e manual decision reason =
     try_prog clock (\<lambda>rejected_at.
     try_prog (store_call cf (reject_codex_app_server_attempt_before_accept
       (a_attempt_id (sc_pending_attempt sc)) rejected_at manual)) (\<lambda>rejected.
     try_prog (refresh_plugin_delivery_enqueue_record cf ident (sc_enqueue sc)) (\<lambda>enqueue.
     try_prog (record_plugin_delivery_audit_best_effort cf ident enqueue
       \<lparr>da_attempt = Some rejected, da_decision = decision, da_reason = reason,
        da_details = turn_start_error_details e (sc_target sc), da_recorded_at = rejected_at\<rparr>) (\<lambda>_.
     give (plugin_delivery_enqueue_response enqueue (plugin_delivery_target_json (sc_target sc))
       (if manual \<or> b_replay_policy (bi_batch (pe_batch enqueue)) = ManualResolutionOnly
        then ''manual_resolution_only'' else ''queued'')
       (Some rejected) (Some reason))))))"

definition turn_outcome_unknown :: "service_config \<Rightarrow> connection_identity \<Rightarrow> start_context \<Rightarrow> rpc_error \<Rightarrow> delivery_response call" where
  "turn_outcome_unknown cf ident sc e =
     try_prog clock (\<lambda>observed_at.
     try_prog (refresh_plugin_delivery_enqueue_record cf ident (sc_enqueue sc)) (\<lambda>enqueue.
     try_prog (record_plugin_delivery_audit_best_effort cf ident enqueue
       \<lparr>da_attempt = Some (sc_pending_attempt sc), da_decision = ''acceptance_unknown'',
        da_reason = ''turn_start_outcome_unknown'', da_details = turn_start_error_details e (sc_target sc),
        da_recorded_at = observed_at\<rparr>) (\<lambda>_.
     fail_with e)))"

definition start_turn :: "service_config \<Rightarrow> start_context \<Rightarrow> string \<Rightarrow> string call" where
  "start_turn cf sc prompt =
     (let thread = eq_source_thread_id (sc_request sc) in
      try_prog (checked (validate_plugin_delivery_turn_start_frame_size cf thread prompt)) (\<lambda>_.
      Ask (StartTurn (a_attempt_id (sc_pending_attempt sc)) (sc_target sc) thread prompt) (\<lambda>a. Finish (an_turn a))))"

definition start_plugin_delivery_attempt ::
    "service_config \<Rightarrow> service_codec \<Rightarrow> nat \<Rightarrow> connection_identity \<Rightarrow> start_context \<Rightarrow> delivery_response call" where
  "start_plugin_delivery_attempt cf codec c ident sc =
     bind_prog (start_turn cf sc (build_plugin_delivery_prompt cf
         (metadata_value codec (j_metadata_json (pe_job (sc_enqueue sc)))) (sc_enqueue sc) (sc_request sc)
         (sc_target sc) (sc_marker sc))) (\<lambda>started.
     case started of
       Inr turn_id \<Rightarrow> turn_accepted cf c ident sc turn_id
     | Inl e \<Rightarrow>
         if plugin_delivery_start_error_is_retryable_pre_accept e
         then turn_rejected cf ident sc e False ''rejected'' ''turn_start_retryable_pre_accept_rejection''
         else if plugin_delivery_start_error_is_definite_pre_accept e
         then turn_rejected cf ident sc e True ''manualized'' ''turn_start_not_accepted''
         else turn_outcome_unknown cf ident sc e)"

section \<open>Enqueue\<close>

definition plugin_delivery_codex_app_server_target ::
    "service_config \<Rightarrow> nat \<Rightarrow> connection_identity \<Rightarrow> requested_target \<Rightarrow> string \<Rightarrow> delivery_target call" where
  "plugin_delivery_codex_app_server_target cf c ident target source_thread_id =
     try_prog (checked (validate_plugin_delivery_driver target)) (\<lambda>_.
     try_prog (checked (ok_or (rpc_failure InvalidRequest
         ''target.app_server_lease_id is required for codex_app_server delivery'')
       (rt_app_server_lease_id target))) (\<lambda>lease_id.
     try_prog (lease_delivery_target cf c ident lease_id) (\<lambda>resolved.
     checked (check_delivery_target target source_thread_id resolved))))"

definition pending_attempt_request ::
    "service_config \<Rightarrow> connection_identity \<Rightarrow> string \<Rightarrow> string \<Rightarrow> delivery_target \<Rightarrow> nat \<Rightarrow> int \<Rightarrow> new_codex_attempt" where
  "pending_attempt_request cf ident key batch_id target ordinal now =
     (let id_scope = plugin_delivery_id_scope ident key in
      \<lparr>nx_attempt_id = scoped_plugin_delivery_attempt_id cf id_scope ordinal, nx_batch_id = batch_id,
       nx_managed_session_id = lt_managed_session_id (dt_target target),
       nx_session_epoch = lt_session_epoch (dt_target target),
       nx_delivery_rpc_request_id = scoped_plugin_delivery_turn_start_id cf id_scope ordinal,
       nx_delivery_rpc_correlation_marker = scoped_plugin_delivery_marker cf ident key,
       nx_delivery_rpc_started_at = now\<rparr>)"

definition replay_stale_accept ::
    "service_config \<Rightarrow> connection_identity \<Rightarrow> enqueue_request \<Rightarrow> plugin_enqueue_record \<Rightarrow> string \<Rightarrow> int \<Rightarrow> delivery_response call" where
  "replay_stale_accept cf ident r enqueue attempt_id now =
     try_prog (store_call cf (abandon_codex_app_server_attempt_as_unknown attempt_id now True)) (\<lambda>abandoned.
     try_prog (refresh_plugin_delivery_enqueue_record cf ident enqueue) (\<lambda>refreshed.
     try_prog (record_plugin_delivery_audit_best_effort cf ident refreshed
       \<lparr>da_attempt = Some abandoned, da_decision = ''manualized'', da_reason = ''turn_start_recovery_timeout'',
        da_details = JObject [(''target'', plugin_delivery_requested_target_json (eq_target r))],
        da_recorded_at = now\<rparr>) (\<lambda>_.
     give (plugin_delivery_enqueue_response refreshed (plugin_delivery_requested_target_json (eq_target r))
       ''manual_resolution_only'' (Some abandoned) (Some ''turn_start_recovery_timeout'')))))"

definition replay_start ::
    "service_config \<Rightarrow> service_codec \<Rightarrow> nat \<Rightarrow> connection_identity \<Rightarrow> enqueue_request \<Rightarrow> plugin_enqueue_record \<Rightarrow> nat \<Rightarrow> int \<Rightarrow>
      delivery_response call" where
  "replay_start cf codec c ident r enqueue ordinal now =
     try_prog (plugin_delivery_codex_app_server_target cf c ident (eq_target r) (eq_source_thread_id r)) (\<lambda>target.
     let attempt = pending_attempt_request cf ident (eq_idempotency_key r) (b_batch_id (bi_batch (pe_batch enqueue)))
       target ordinal now in
     try_prog (begin_call cf c (\<lambda>(record, created). if created then Some (a_attempt_id record) else None)
       (begin_codex_app_server_accept_pending_attempt_with_created attempt)) (\<lambda>(pending, created).
     if \<not> created
     then try_prog (refresh_plugin_delivery_enqueue_record cf ident enqueue) (\<lambda>refreshed.
       give (plugin_delivery_enqueue_response refreshed (plugin_delivery_target_json target) ''idempotent_replay''
         (Some pending) None))
     else start_plugin_delivery_attempt cf codec c ident
       \<lparr>sc_request = r, sc_target = target, sc_enqueue = enqueue, sc_pending_attempt = pending,
        sc_marker = nx_delivery_rpc_correlation_marker attempt\<rparr>))"

definition replay_enqueue ::
    "service_config \<Rightarrow> service_codec \<Rightarrow> nat \<Rightarrow> connection_identity \<Rightarrow> enqueue_request \<Rightarrow> plugin_enqueue_record \<Rightarrow> delivery_response call" where
  "replay_enqueue cf codec c ident r enqueue =
     try_prog clock (\<lambda>now.
     try_prog (store_read cf (\<lambda>d. plugin_delivery_replay_action d ident enqueue now)) (\<lambda>action.
     case action of
       ReplayWait \<Rightarrow> give (plugin_delivery_enqueue_response enqueue (plugin_delivery_requested_target_json (eq_target r))
         ''idempotent_replay'' None None)
     | ManualizeStaleAccept attempt_id \<Rightarrow> replay_stale_accept cf ident r enqueue attempt_id now
     | ReplayStart ordinal \<Rightarrow> replay_start cf codec c ident r enqueue ordinal now))"

definition new_delivery ::
    "service_config \<Rightarrow> connection_identity \<Rightarrow> enqueue_request \<Rightarrow> delivery_target \<Rightarrow> plugin_artifact option \<Rightarrow> int \<Rightarrow> new_plugin_delivery" where
  "new_delivery cf ident r target artifact now =
     (let id_scope = plugin_delivery_id_scope ident (eq_idempotency_key r);
          payload = map_option (stable_json_string cf) (eq_inline_payload r) in
      \<lparr>np_plugin_name = ci_plugin_name ident, np_plugin_instance_id = ci_instance_id ident,
       np_idempotency_key = eq_idempotency_key r, np_request_fingerprint = plugin_delivery_request_fingerprint cf r,
       np_job_id = scoped_plugin_delivery_id cf ''plugin-job'' id_scope,
       np_batch_id = scoped_plugin_delivery_id cf ''plugin-batch'' id_scope,
       np_source_thread_id = eq_source_thread_id r, np_summary = eq_summary r,
       np_metadata_json = stable_json_string cf (plugin_delivery_metadata cf ident r target payload),
       np_policy = plugin_delivery_policy (eq_delivery_policy r),
       np_inline_payload_bytes = (case payload of None \<Rightarrow> 0 | Some p \<Rightarrow> min (int (length p)) i64_max),
       np_artifact = artifact,
       np_max_delivery_attempts = coalesce (eq_max_delivery_attempts r) DEFAULT_MAX_DELIVERY_ATTEMPTS,
       np_redelivery_window_seconds = coalesce (eq_redelivery_window_seconds r) DEFAULT_REDELIVERY_WINDOW_SECONDS,
       np_created_at = now\<rparr>)"

definition first_enqueue ::
    "service_config \<Rightarrow> service_codec \<Rightarrow> nat \<Rightarrow> connection_identity \<Rightarrow> enqueue_request \<Rightarrow> delivery_response call" where
  "first_enqueue cf codec c ident r =
     try_prog (plugin_delivery_codex_app_server_target cf c ident (eq_target r) (eq_source_thread_id r)) (\<lambda>target.
     try_prog clock (\<lambda>now.
     try_prog (checked (plugin_delivery_artifact_input (eq_artifact r) now)) (\<lambda>artifact.
     let delivery = new_delivery cf ident r target artifact now;
         attempt = pending_attempt_request cf ident (eq_idempotency_key r) (np_batch_id delivery) target 1 now in
     try_prog (begin_call cf c (\<lambda>(enqueue, pending). map_option a_attempt_id pending)
       (enqueue_plugin_delivery_with_codex_app_server_attempt_if_head delivery attempt)) (\<lambda>(enqueue, pending).
     if \<not> pe_created enqueue
     then give (plugin_delivery_enqueue_response enqueue (plugin_delivery_target_json target) ''idempotent_replay'' None None)
     else case pending of
       None \<Rightarrow> give (plugin_delivery_enqueue_response enqueue (plugin_delivery_target_json target) ''queued'' None None)
     | Some pending \<Rightarrow> start_plugin_delivery_attempt cf codec c ident
         \<lparr>sc_request = r, sc_target = target, sc_enqueue = enqueue, sc_pending_attempt = pending,
          sc_marker = nx_delivery_rpc_correlation_marker attempt\<rparr>))))"

definition enqueue_plugin_delivery ::
    "service_config \<Rightarrow> service_codec \<Rightarrow> nat \<Rightarrow> connection_identity \<Rightarrow> enqueue_request \<Rightarrow> delivery_response call" where
  "enqueue_plugin_delivery cf codec c ident r =
     try_prog (checked (validate_plugin_delivery_enqueue_request cf r)) (\<lambda>_.
     try_prog open_store (\<lambda>_.
     try_prog (store_read cf (\<lambda>d. replay_plugin_delivery_enqueue d (ci_plugin_name ident) (eq_idempotency_key r)
       (plugin_delivery_request_fingerprint cf r))) (\<lambda>existing.
     case existing of
       Some enqueue \<Rightarrow> replay_enqueue cf codec c ident r enqueue
     | None \<Rightarrow> first_enqueue cf codec c ident r)))"

section \<open>Inspect\<close>

definition inspect_selected :: "service_config \<Rightarrow> connection_identity \<Rightarrow> inspect_request \<Rightarrow> plugin_inspect_record call" where
  "inspect_selected cf ident r = store_read cf (\<lambda>d. inspect_plugin_delivery d (ci_plugin_name ident)
     (iq_idempotency_key r) (iq_job_id r) (iq_batch_id r))"

text \<open>An event of the tracked turn is stored; the delivery is then read again.\<close>

definition reconcile_tracked_turn ::
    "service_config \<Rightarrow> nat \<Rightarrow> connection_identity \<Rightarrow> inspect_request \<Rightarrow> plugin_inspect_record \<Rightarrow> string \<Rightarrow> attempt_row \<Rightarrow>
      (plugin_inspect_record \<times> string option) call" where
  "reconcile_tracked_turn cf c ident r inspect lease_id attempt =
     try_prog (lease_delivery_target cf c ident lease_id) (\<lambda>target.
     try_prog (checked (validate_plugin_delivery_tracking_target target attempt)) (\<lambda>_.
     case a_delivery_turn_id attempt of
       None \<Rightarrow> give (inspect, None)
     | Some turn_id \<Rightarrow>
         try_prog (Ask (ReconcileTurn target (a_source_thread_id attempt) turn_id) (\<lambda>a. Finish (an_event a))) (\<lambda>observed.
         case observed of
           None \<Rightarrow> give (inspect, None)
         | Some ev \<Rightarrow>
             try_prog clock (\<lambda>observed_at.
             try_prog (store_call cf (observe_codex_app_server_turn_event (cf_manifest_written cf)
               (a_attempt_id attempt) turn_id (as_store_event ev) observed_at)) (\<lambda>_.
             try_prog (inspect_selected cf ident r) (\<lambda>inspect. give (inspect, Some (as_store_event ev))))))))"

definition inspect_delivery :: "service_config \<Rightarrow> nat \<Rightarrow> connection_identity \<Rightarrow> inspect_request \<Rightarrow> inspect_response call" where
  "inspect_delivery cf c ident r =
     try_prog (checked (validate_plugin_delivery_inspect_request cf r)) (\<lambda>_.
     try_prog open_store (\<lambda>_.
     try_prog (inspect_selected cf ident r) (\<lambda>inspect.
     try_prog (case (iq_app_server_lease_id r, plugin_delivery_tracking_attempt (pi_attempts inspect)) of
         (Some lease_id, Some attempt) \<Rightarrow> reconcile_tracked_turn cf c ident r inspect lease_id attempt
       | _ \<Rightarrow> give (inspect, None)) (\<lambda>(inspect, event).
     give \<lparr>ir_delivery = inspect,
       ir_driver_state = plugin_delivery_driver_state (bi_batch (pi_batch inspect)) (pi_attempts inspect),
       ir_reconciled_event = event\<rparr>))))"

section \<open>Manualize\<close>

definition manualize_delivery :: "service_config \<Rightarrow> connection_identity \<Rightarrow> manualize_request \<Rightarrow> batch_inspect call" where
  "manualize_delivery cf ident r =
     try_prog (checked (validate_plugin_delivery_manualize_request cf r)) (\<lambda>_.
     try_prog clock (\<lambda>now.
     try_prog open_store (\<lambda>_.
     try_prog (store_read cf (\<lambda>d. inspect_plugin_delivery d (ci_plugin_name ident)
       (if mq_batch_id r = None then mq_idempotency_key r else None) None (mq_batch_id r))) (\<lambda>inspect.
     let batch_id = b_batch_id (bi_batch (pi_batch inspect)) in
     try_prog (store_call cf (manualize_plugin_delivery batch_id (mq_reason r) now)) (\<lambda>manualized.
     case bi_jobs manualized of
       [] \<Rightarrow> fail_with (rpc_failure InternalFailure ''manualized batch has no jobs'')
     | (job, _) # _ \<Rightarrow>
         try_prog (record_plugin_delivery_audit_best_effort cf ident
           \<lparr>pe_created = False, pe_idempotency_key = coalesce (mq_idempotency_key r) (mq_manualize_key r),
            pe_job = job, pe_batch = manualized\<rparr>
           \<lparr>da_attempt = None, da_decision = ''manualized'', da_reason = mq_reason r,
            da_details = JObject [(''manualize_key'', JString (mq_manualize_key r)), (''batch_id'', JString batch_id)],
            da_recorded_at = now\<rparr>) (\<lambda>_.
         give manualized))))))"

section \<open>Frames\<close>

definition service_section :: "(service_state \<Rightarrow> (plugin_error + 'x) \<times> service_state) \<Rightarrow> service_config \<Rightarrow> 'x call" where
  "service_section f cf = Atomic (\<lambda>w. Some (w\<lparr>w_service := snd (f (w_service w))\<rparr>))
     (\<lambda>w. Finish (map_sum (\<lambda>e. rpc_failure PolicyBlocked (cf_error_text cf e)) (\<lambda>x. x) (fst (f (w_service w)))))"

text \<open>The check of the sender; the answer of \<open>try_wait\<close> is the one of that moment.\<close>

definition sender_section ::
    "service_config \<Rightarrow> connection_identity \<Rightarrow> (waited \<Rightarrow> int \<Rightarrow> nat \<Rightarrow> service_state \<Rightarrow> (plugin_error + 'x) \<times> service_state) \<Rightarrow> 'x call" where
  "sender_section cf ident f =
     try_prog clock (\<lambda>now.
     Ask (TryWait (ci_plugin_name ident)) (\<lambda>a. service_section (f (an_waited a) now (an_instant a)) cf))"

definition answered :: "service_config \<Rightarrow> connection_identity \<Rightarrow> string \<Rightarrow> string + 'q \<Rightarrow> ('q \<Rightarrow> service_response call) \<Rightarrow>
    service_response call" where
  "answered cf ident method parsed f =
     try_prog (sender_section cf ident (validate_current_plugin_connection ident)) (\<lambda>_.
     case parsed of
       Inl e \<Rightarrow> fail_with (rpc_failure InvalidRequest (''invalid '' @ method @ '' request: '' @ e))
     | Inr r \<Rightarrow> f r)"

definition mapping :: "('x \<Rightarrow> 'y) \<Rightarrow> 'x call \<Rightarrow> 'y call" where
  "mapping f p = try_prog p (\<lambda>x. give (f x))"

definition handle_plugin_health_update_frame :: "service_config \<Rightarrow> connection_identity \<Rightarrow> service_response call" where
  "handle_plugin_health_update_frame cf ident = mapping LeaseResponse (sender_section cf ident (health_update ident))"

definition handle_plugin_app_server_ensure_frame ::
    "service_config \<Rightarrow> service_codec \<Rightarrow> nat \<Rightarrow> connection_identity \<Rightarrow> json \<Rightarrow> service_response call" where
  "handle_plugin_app_server_ensure_frame cf codec c ident params =
     answered cf ident ''app_server.ensure'' (parse_ensure codec params) (\<lambda>r. mapping LeaseResponse (ensure_lease cf c ident r))"

definition handle_plugin_app_server_refresh_frame ::
    "service_config \<Rightarrow> service_codec \<Rightarrow> nat \<Rightarrow> connection_identity \<Rightarrow> json \<Rightarrow> service_response call" where
  "handle_plugin_app_server_refresh_frame cf codec c ident params =
     answered cf ident ''app_server.refresh'' (parse_refresh codec params)
       (\<lambda>r. mapping LeaseResponse (refresh_lease cf c ident r))"

definition handle_plugin_app_server_stop_frame ::
    "service_config \<Rightarrow> service_codec \<Rightarrow> nat \<Rightarrow> connection_identity \<Rightarrow> json \<Rightarrow> service_response call" where
  "handle_plugin_app_server_stop_frame cf codec c ident params =
     answered cf ident ''app_server.stop'' (parse_stop codec params) (\<lambda>r. mapping LeaseResponse (stop_lease cf c ident r))"

definition handle_plugin_delivery_enqueue_frame ::
    "service_config \<Rightarrow> service_codec \<Rightarrow> nat \<Rightarrow> connection_identity \<Rightarrow> json \<Rightarrow> service_response call" where
  "handle_plugin_delivery_enqueue_frame cf codec c ident params =
     answered cf ident ''delivery.enqueue'' (parse_enqueue codec params)
       (\<lambda>r. mapping EnqueueResponse (enqueue_plugin_delivery cf codec c ident r))"

definition handle_plugin_delivery_inspect_frame ::
    "service_config \<Rightarrow> service_codec \<Rightarrow> nat \<Rightarrow> connection_identity \<Rightarrow> json \<Rightarrow> service_response call" where
  "handle_plugin_delivery_inspect_frame cf codec c ident params =
     answered cf ident ''delivery.inspect'' (parse_inspect codec params)
       (\<lambda>r. mapping InspectResponse (inspect_delivery cf c ident r))"

definition handle_plugin_delivery_manualize_frame ::
    "service_config \<Rightarrow> service_codec \<Rightarrow> connection_identity \<Rightarrow> json \<Rightarrow> service_response call" where
  "handle_plugin_delivery_manualize_frame cf codec ident params =
     answered cf ident ''delivery.manualize'' (parse_manualize codec params)
       (\<lambda>r. mapping ManualizeResponse (manualize_delivery cf ident r))"

definition handle_plugin_runtime_frame ::
    "service_config \<Rightarrow> service_codec \<Rightarrow> nat \<Rightarrow> connection_identity \<Rightarrow> request_frame \<Rightarrow> service_response call" where
  "handle_plugin_runtime_frame cf codec c ident frame =
     (let method = rf_method frame; params = rf_params frame in
      if method = ''plugin.health.update'' then handle_plugin_health_update_frame cf ident
      else if method = ''app_server.ensure'' then handle_plugin_app_server_ensure_frame cf codec c ident params
      else if method = ''app_server.refresh'' then handle_plugin_app_server_refresh_frame cf codec c ident params
      else if method = ''app_server.stop'' then handle_plugin_app_server_stop_frame cf codec c ident params
      else if method = ''delivery.enqueue'' then handle_plugin_delivery_enqueue_frame cf codec c ident params
      else if method = ''delivery.inspect'' then handle_plugin_delivery_inspect_frame cf codec c ident params
      else if method = ''delivery.manualize'' then handle_plugin_delivery_manualize_frame cf codec ident params
      else fail_with (rpc_failure MethodNotFound (''unsupported service method '' @ method)))"

text \<open>
  The loop of \<open>handle_plugin_connection\<close> after the hello: a connection that has finished a call gets
  another frame, or ends and gives up the leases it has. The frames arrive as the plugin likes.
\<close>

inductive connection_call ::
    "service_config \<Rightarrow> service_codec \<Rightarrow> nat \<Rightarrow> world \<Rightarrow>
      (world, query, answer, (rpc_error + service_response) option) prog \<Rightarrow> bool" for cf codec where
  next_frame: "connection_call cf codec c w
     (bind_prog (handle_plugin_runtime_frame cf codec c ident frame) (\<lambda>r. Finish (Some r)))"
| connection_ends: "\<forall>(key, r)\<in>set records. cn_leases (w_connections w c) key = Some r \<Longrightarrow>
     connection_call cf codec c w (bind_prog (cleanup_connection_leases c records) (\<lambda>_. Finish None))"

end
