(* ===== verification/Cbth_LeaseSafety.thy ===== *)
theory Cbth_LeaseSafety
  imports Cbth_PluginService Cbth_Safety
begin

text \<open>
  Plugin connections run concurrently on the registry of leases and the store. Here the locale
  \<open>interference\<close> is interpreted on the service: what one connection may rely on the others for, the
  invariants of the registry and of the log, and that every frame and every cleanup keeps them.
\<close>

section \<open>The invariant\<close>

definition scoped_of_key :: "service_config \<Rightarrow> lease_key \<Rightarrow> string" where
  "scoped_of_key cf key = ''plugin-'' @ lowercase_hex (take 16 (cf_sha256 cf (scoped_hash_field (lk_plugin_name key) @
     scoped_hash_field (lk_instance_id key) @ scoped_hash_field (lk_lease_id key))))"

lemma scoped_of_lease_key:
  "scoped_plugin_app_server_lease_id cf ident lease_id = scoped_of_key cf (plugin_app_server_lease_key ident lease_id)"
  by (simp add: scoped_plugin_app_server_lease_id_def scoped_of_key_def plugin_app_server_lease_key_def)

text \<open>
  What a connection believes to hold it does hold: the registry has the lease, with the connection among
  its holders and the same target. All records of a lease carry its scoped identifier.
\<close>

definition lease_ok ::
    "service_config \<Rightarrow> (lease_key \<Rightarrow> shared_lease option) \<Rightarrow> (nat \<Rightarrow> connection) \<Rightarrow> bool" where
  "lease_ok cf leases connections \<longleftrightarrow>
     (\<forall>c key r. cn_leases (connections c) key = Some r \<longrightarrow> lr_scoped_lease_id r = scoped_of_key cf key \<and>
        (\<exists>s. leases key = Some s \<and> c \<in> holders s \<and> lr_target s = lr_target r)) \<and>
     (\<forall>key s. leases key = Some s \<longrightarrow> lr_scoped_lease_id s = scoped_of_key cf key)"

definition attempt_ids :: "db \<Rightarrow> string set" where
  "attempt_ids d = a_attempt_id ` set (delivery_attempts d)"

fun began_attempt :: "log_entry \<Rightarrow> string option" where
  "began_attempt (Began c a) = Some a"
| "began_attempt _ = None"

fun started_attempt :: "log_entry \<Rightarrow> string option" where
  "started_attempt (Asked c (StartTurn a target thread prompt)) = Some a"
| "started_attempt _ = None"

fun entry_of :: "log_entry \<Rightarrow> nat" where
  "entry_of (Asked c q) = c"
| "entry_of (Began c a) = c"

definition began :: "log_entry list \<Rightarrow> string list" where
  "began log = List.map_filter began_attempt log"

definition started :: "log_entry list \<Rightarrow> string list" where
  "started log = List.map_filter started_attempt log"

definition own_log :: "nat \<Rightarrow> log_entry list \<Rightarrow> log_entry list" where
  "own_log c log = filter (\<lambda>e. entry_of e = c) log"

text \<open>Attempts are begun once, exist in the store from then on, and are started once, by who began them.\<close>

definition log_ok :: "db \<Rightarrow> log_entry list \<Rightarrow> bool" where
  "log_ok d log \<longleftrightarrow> reachable d \<and> distinct (began log) \<and> set (began log) \<subseteq> attempt_ids d \<and>
     distinct (started log) \<and> (\<forall>c. set (started (own_log c log)) \<subseteq> set (began (own_log c log)))"

definition service_inv :: "service_config \<Rightarrow> world \<Rightarrow> bool" where
  "service_inv cf w \<longleftrightarrow> lease_ok cf (w_leases w) (w_connections w) \<and> log_ok (w_store w) (w_log w)"

section \<open>Rely and guarantee\<close>

definition service_rely :: "nat \<Rightarrow> world \<Rightarrow> world \<Rightarrow> bool" where
  "service_rely c w w' \<longleftrightarrow> w_connections w' c = w_connections w c \<and>
     (w_registry_lock w' = Some c \<longleftrightarrow> w_registry_lock w = Some c) \<and>
     (w_registry_lock w = Some c \<longrightarrow> w_leases w' = w_leases w) \<and> own_log c (w_log w') = own_log c (w_log w)"

definition service_guar :: "service_config \<Rightarrow> nat \<Rightarrow> world \<Rightarrow> world \<Rightarrow> bool" where
  "service_guar cf c w w' \<longleftrightarrow> service_inv cf w' \<and> (\<forall>c'. c' \<noteq> c \<longrightarrow> service_rely c' w w')"

definition without_lock :: "nat \<Rightarrow> world \<Rightarrow> bool" where
  "without_lock c w \<longleftrightarrow> w_registry_lock w \<noteq> Some c"

definition nobody_else_holds :: "nat \<Rightarrow> lease_key \<Rightarrow> world \<Rightarrow> bool" where
  "nobody_else_holds c key w \<longleftrightarrow> (\<forall>c'. c' \<noteq> c \<longrightarrow> cn_leases (w_connections w c') key = None \<and>
     (\<forall>s. w_leases w key = Some s \<longrightarrow> c' \<notin> holders s))"

text \<open>
  The daemon is told to stop a lease only under the registry lock and while no other connection has it; a
  turn is started only for an attempt the connection began and has not started before.
\<close>

definition may_stop :: "service_config \<Rightarrow> nat \<Rightarrow> json \<Rightarrow> world \<Rightarrow> bool" where
  "may_stop cf c payload w \<longleftrightarrow> w_registry_lock w = Some c \<and>
     (\<exists>key r. payload = stop_payload r \<and> lr_scoped_lease_id r = scoped_of_key cf key \<and> nobody_else_holds c key w)"

definition may_start :: "nat \<Rightarrow> string \<Rightarrow> world \<Rightarrow> bool" where
  "may_start c a w \<longleftrightarrow> a \<in> set (began (own_log c (w_log w))) \<and> a \<notin> set (started (own_log c (w_log w)))"

fun service_may_ask :: "service_config \<Rightarrow> nat \<Rightarrow> query \<Rightarrow> world \<Rightarrow> bool" where
  "service_may_ask cf c (DaemonRequest endpoint command payload) w =
     (command = ''cli_app_server_stop'' \<longrightarrow> may_stop cf c payload w)"
| "service_may_ask cf c (StartTurn a target thread prompt) w = may_start c a w"
| "service_may_ask cf c _ w = True"

text \<open>What happens outside the connections: any operations of the store, and the supervision of plugins.\<close>

definition service_outside :: "world \<Rightarrow> world \<Rightarrow> bool" where
  "service_outside w w' \<longleftrightarrow> (\<exists>d st. store_step\<^sup>*\<^sup>* (w_store w) d \<and> w' = w\<lparr>w_store := d, w_service := st\<rparr>)"

lemma map_filter_append: "List.map_filter f (xs @ ys) = List.map_filter f xs @ List.map_filter f ys"
  by (simp add: List.map_filter_def)

lemma own_log_append: "own_log c (log @ log') = own_log c log @ own_log c log'"
  by (simp add: own_log_def)

lemma began_append: "began (log @ log') = began log @ began log'"
  by (simp add: began_def map_filter_append)

lemma started_append: "started (log @ log') = started log @ started log'"
  by (simp add: started_def map_filter_append)

lemma own_log_single: "own_log c [e] = (if entry_of e = c then [e] else [])"
  by (simp add: own_log_def)

lemma began_simps [simp]: "began [] = []" "began (Began c a # log) = a # began log" "began (Asked c q # log) = began log"
  by (simp_all add: began_def List.map_filter_simps)

lemma started_simps [simp]:
  "started [] = []" "started (Began c a # log) = started log"
  "started (Asked c (StartTurn a t th p) # log) = a # started log"
  by (simp_all add: started_def List.map_filter_simps)

lemma started_other [simp]: "started_attempt (Asked c q) = None \<Longrightarrow> started (Asked c q # log) = started log"
  by (simp add: started_def List.map_filter_simps)

lemma in_own_log: "a \<in> set (began (own_log c log)) \<longleftrightarrow> Began c a \<in> set log"
proof (induction log)
  case (Cons e log)
  then show ?case by (cases e) (auto simp: own_log_def)
qed (simp add: own_log_def)

lemma began_set: "a \<in> set (began log) \<longleftrightarrow> (\<exists>c. Began c a \<in> set log)"
proof (induction log)
  case (Cons e log)
  then show ?case by (cases e) auto
qed simp

lemma started_set: "a \<in> set (started log) \<longleftrightarrow> (\<exists>c. a \<in> set (started (own_log c log)))"
  by (auto simp: started_def own_log_def List.map_filter_def)

lemma distinct_began_owner:
  assumes "distinct (began log)" "Began c a \<in> set log" "Began c' a \<in> set log"
  shows "c = c'"
  using assms
proof (induction log)
  case (Cons e log)
  show ?case
  proof (cases e)
    case (Began c'' a')
    with Cons show ?thesis using began_set by fastforce
  qed (use Cons in auto)
qed simp

section \<open>The store under the service\<close>

lemma attempt_ids_grow:
  assumes "store_step\<^sup>*\<^sup>* d d'" "reachable d"
  shows "reachable d' \<and> attempt_ids d \<subseteq> attempt_ids d'"
proof -
  have *: "reachable d'" "rows_evolve attempt_le (delivery_attempts d) (delivery_attempts d')"
    using reachable_evolves [OF assms] by (simp_all add: dview_def)
  have "a_attempt_id a \<in> attempt_ids d'" if "a \<in> set (delivery_attempts d)" for a
    using rows_evolve_mem [OF *(2) that] by (auto simp: attempt_ids_def attempt_le_def attempt_identity_def intro: rev_image_eqI)
  with *(1) show ?thesis by (auto simp: attempt_ids_def)
qed

lemma log_ok_store: "log_ok d log \<Longrightarrow> store_step\<^sup>*\<^sup>* d d' \<Longrightarrow> log_ok d' log"
  unfolding log_ok_def using attempt_ids_grow by blast

text \<open>An attempt that a transaction reports as created was not there before.\<close>

lemma begin_codex_fresh:
  assumes "begin_codex_app_server_accept_pending_attempt_tx att d = Inr ((r, True), d')"
  shows "a_attempt_id r \<notin> attempt_ids d \<and> a_attempt_id r \<in> attempt_ids d'"
proof -
  obtain g b where ins: "insert_attempt (pending_codex_attempt_row att b g) d = Inr d'"
    and q: "query_delivery_attempt_tx d' (nx_attempt_id att) = Inr r"
    using assms unfolding begin_codex_app_server_accept_pending_attempt_tx_def by (auto split: option.splits)
  from query_attempt_ok [OF q] have "a_attempt_id r = nx_attempt_id att" "r \<in> set (delivery_attempts d')" by simp_all
  with ins show ?thesis by (auto simp: insert_attempt_def attempt_ids_def pending_codex_attempt_row_def)
qed

lemma insert_batch_tx_fresh:
  assumes "insert_batch_tx nb ids d = Inr d'"
  shows "delivery_attempts d' = delivery_attempts d \<and> nb_batch_id nb \<notin> b_batch_id ` set (batches d)"
proof -
  obtain d1 where jobs: "for_each (\<lambda>(position, job_id).
        insert_batch_job \<lparr>bj_batch_id = nb_batch_id nb, bj_job_id = job_id, bj_position = int position\<rparr>)
      (enumerate 0 ids) d1 = Inr d'"
    and d1: "delivery_attempts d1 = delivery_attempts d" "nb_batch_id nb \<notin> b_batch_id ` set (batches d)"
    using assms by (auto simp: insert_batch_tx_def insert_batch_row_def)
  have "dview d' = dview d1" by (rule for_each_invariant [OF jobs]) (auto dest: dview_inserts)
  with d1 show ?thesis by (simp add: dview_def)
qed

lemma enqueue_tx_created:
  assumes "enqueue_plugin_delivery_tx delivery d = Inr (e, d1)" "pe_created e"
  shows "delivery_attempts d1 = delivery_attempts d \<and> np_batch_id delivery \<notin> b_batch_id ` set (batches d)"
proof -
  have new: "query_plugin_delivery_request d (np_plugin_name delivery) (np_idempotency_key delivery) = None"
    using assms by (auto simp: enqueue_plugin_delivery_tx_def existing_enqueue_record_def split: option.splits)
  obtain j nb p d2 d3 d4 where steps: "insert_job j d = Inr d2" "insert_plugin_artifact delivery d2 = Inr d3"
    "insert_batch_tx nb [np_job_id delivery] d3 = Inr d4" "nb_batch_id nb = np_batch_id delivery"
    "insert_plugin_request p d4 = Inr d1"
    using assms(1) new unfolding enqueue_plugin_delivery_tx_def by fastforce
  have art: "dview d3 = dview d2"
    using steps(2) by (auto simp: insert_plugin_artifact_def split: option.splits dest!: dview_inserts(3))
  have before: "dview d3 = dview d" using art dview_inserts(1) [OF steps(1)] by simp
  have "dview d1 = dview d4" by (rule dview_inserts(6) [OF steps(5)])
  moreover have "delivery_attempts d4 = delivery_attempts d3 \<and> nb_batch_id nb \<notin> b_batch_id ` set (batches d3)"
    using insert_batch_tx_fresh [OF steps(3)] .
  ultimately show ?thesis using before steps(4) by (simp add: dview_def)
qed

lemma enqueue_codex_fresh:
  assumes "enqueue_plugin_delivery_with_codex_app_server_attempt_if_head delivery att d = Inr ((e, Some r), d')"
    and "reachable d"
  shows "a_attempt_id r \<notin> attempt_ids d \<and> a_attempt_id r \<in> attempt_ids d'"
proof -
  obtain d1 created where e: "enqueue_plugin_delivery_tx delivery d = Inr (e, d1)" "pe_created e"
    and b: "begin_codex_app_server_accept_pending_attempt_tx att d1 = Inr ((r, created), d')"
    and same: "nx_batch_id att = np_batch_id delivery"
    using assms(1) unfolding enqueue_plugin_delivery_with_codex_app_server_attempt_if_head_def
    by (auto split: if_splits)
  note new = enqueue_tx_created [OF e]
  have created
  proof (rule ccontr)
    assume "\<not> created"
    with b have r: "query_delivery_attempt_by_rpc_request_id_tx d1 (nx_delivery_rpc_request_id att) = Some r"
      "a_batch_id r = nx_batch_id att"
      by (auto simp: begin_codex_app_server_accept_pending_attempt_tx_def
          ensure_existing_codex_app_server_accept_matches_request_def Let_def split: option.splits if_splits)
    have "r \<in> set (delivery_attempts d)"
      using r(1) new by (auto simp: query_delivery_attempt_by_rpc_request_id_tx_def find_Some_iff in_set_conv_nth)
    from reachable_attempt [OF assms(2) this] obtain b where "b \<in> set (batches d)" "b_batch_id b = a_batch_id r"
      by metis
    with new same r(2) show False by force
  qed
  with begin_codex_fresh b new show ?thesis unfolding attempt_ids_def by metis
qed

section \<open>The rules for a connection\<close>

lemma rely_connection: "service_rely c w w' \<Longrightarrow> w_connections w' c = w_connections w c"
  by (simp add: service_rely_def)

lemma service_rely_refl: "service_rely c w w"
  by (simp add: service_rely_def)

lemma service_rely_trans: "service_rely c w w' \<Longrightarrow> service_rely c w' w'' \<Longrightarrow> service_rely c w w''"
  by (auto simp: service_rely_def)

interpretation service: interference remember_query "service_guar cf" service_rely "service_inv cf"
    without_lock "service_may_ask cf" service_outside for cf
proof
  fix w w' c
  assume *: "service_inv cf w" "service_outside w w'"
  then obtain d st where d: "store_step\<^sup>*\<^sup>* (w_store w) d" "w' = w\<lparr>w_store := d, w_service := st\<rparr>"
    by (auto simp: service_outside_def)
  then show "service_rely c w w'" by (simp add: service_rely_def)
  from * d show "service_inv cf w'" by (auto simp: service_inv_def intro: log_ok_store)
next
  fix c c' w w'
  show "c \<noteq> c' \<Longrightarrow> service_guar cf c w w' \<Longrightarrow> service_rely c' w w'" by (simp add: service_guar_def)
  show "without_lock c w \<Longrightarrow> service_rely c w w' \<Longrightarrow> without_lock c w'"
    by (simp add: service_rely_def without_lock_def)
qed (simp_all add: service_guar_def service_rely_refl service_rely_trans)

definition service_ok :: "service_config \<Rightarrow> nat \<Rightarrow> ('r \<Rightarrow> world \<Rightarrow> bool) \<Rightarrow> (world, query, 'a, 'r) prog \<Rightarrow> world \<Rightarrow> bool" where
  "service_ok cf = interference.ok remember_query (service_guar cf) service_rely (service_inv cf) (service_may_ask cf)"

text \<open>A call started where \<open>I\<close> holds is correct and ends where \<open>P\<close> does.\<close>

definition triple ::
    "service_config \<Rightarrow> nat \<Rightarrow> (world \<Rightarrow> bool) \<Rightarrow> (world, query, 'a, 'r) prog \<Rightarrow> ('r \<Rightarrow> world \<Rightarrow> bool) \<Rightarrow> bool" where
  "triple cf c I p P \<longleftrightarrow> (\<forall>w. service_inv cf w \<longrightarrow> I w \<longrightarrow> service_ok cf c P p w)"

definition stable :: "service_config \<Rightarrow> nat \<Rightarrow> (world \<Rightarrow> bool) \<Rightarrow> bool" where
  "stable cf c I \<longleftrightarrow> (\<forall>w w'. service_inv cf w \<longrightarrow> service_inv cf w' \<longrightarrow> I w \<longrightarrow> service_rely c w w' \<longrightarrow> I w')"

lemma triple_finish: "(\<And>w. service_inv cf w \<Longrightarrow> I w \<Longrightarrow> P r w) \<Longrightarrow> stable cf c I \<Longrightarrow> triple cf c I (Finish r) P"
  unfolding triple_def stable_def service_ok_def service.ok.simps by blast

lemma triple_bind:
  assumes "triple cf c I p Q" and "\<And>r. triple cf c (Q r) (g r) P"
  shows "triple cf c I (bind_prog p g) P"
  using assms service.ok_bind unfolding triple_def service_ok_def by metis

lemma triple_weaken:
  assumes "triple cf c I p Q" and "\<And>w. service_inv cf w \<Longrightarrow> J w \<Longrightarrow> I w"
    and "\<And>r w w'. service_inv cf w \<Longrightarrow> Q r w \<Longrightarrow> service_rely c w w' \<Longrightarrow> service_inv cf w' \<Longrightarrow> P r w'"
  shows "triple cf c J p P"
  unfolding triple_def service_ok_def
proof (intro allI impI)
  fix w assume w: "service_inv cf w" "J w"
  then have "service.ok cf c Q p w" using assms(1,2) by (simp add: triple_def service_ok_def)
  then show "service.ok cf c P p w" using w(1) assms(3) by (rule service.ok_weaken)
qed

lemma triple_try:
  assumes "triple cf c I p (case_sum E Q)" and "\<And>x. triple cf c (Q x) (g x) P"
    and "\<And>e w w'. service_inv cf w \<Longrightarrow> E e w \<Longrightarrow> service_rely c w w' \<Longrightarrow> service_inv cf w' \<Longrightarrow> P (Inl e) w'"
  shows "triple cf c I (try_prog p g) P"
  unfolding triple_def service_ok_def
proof (intro allI impI)
  fix w assume "service_inv cf w" "I w"
  with assms(1) have "service.ok cf c (case_sum E Q) p w" by (simp add: triple_def service_ok_def)
  from service.ok_try [OF this \<open>service_inv cf w\<close>] assms(2,3)
  show "service.ok cf c P (try_prog p g) w" unfolding triple_def service_ok_def by blast
qed

lemma triple_atomic:
  assumes "stable cf c I"
    and "\<And>w w'. service_inv cf w \<Longrightarrow> I w \<Longrightarrow> f w = Some w' \<Longrightarrow> service_guar cf c w w'"
    and "\<And>w. triple cf c (\<lambda>w'. service_inv cf w \<and> I w \<and> f w = Some w') (k w) P"
  shows "triple cf c I (Atomic f k) P"
  unfolding triple_def service_ok_def service.ok.simps
proof (intro allI impI)
  fix w w1 w2 assume "service_inv cf w" "I w" "service_rely c w w1" and w1: "service_inv cf w1" "f w1 = Some w2"
  then have "I w1" using assms(1) unfolding stable_def by blast
  then have guar: "service_guar cf c w1 w2" by (rule assms(2) [OF w1(1) _ w1(2)])
  then have "service_inv cf w2" by (simp add: service_guar_def)
  with assms(3) [of w1] w1 \<open>I w1\<close> have "service_ok cf c P (k w1) w2" by (simp add: triple_def)
  with guar show "service_guar cf c w1 w2 \<and> service.ok cf c P (k w1) w2" by (simp add: service_ok_def)
qed

lemma triple_ask:
  assumes "stable cf c I" and "stable cf c J"
    and "\<And>w. service_inv cf w \<Longrightarrow> I w \<Longrightarrow> service_may_ask cf c q w \<and> service_guar cf c w (remember_query c q w) \<and>
      J (remember_query c q w)"
    and "\<And>a. triple cf c J (k a) P"
  shows "triple cf c I (Ask q k) P"
  unfolding triple_def service_ok_def service.ok.simps
proof (intro allI impI)
  fix w w1 assume "service_inv cf w" "I w" "service_rely c w w1" and w1: "service_inv cf w1"
  then have "I w1" using assms(1) unfolding stable_def by blast
  note ask = assms(3) [OF w1 this]
  then have "service_inv cf (remember_query c q w1)" by (simp add: service_guar_def)
  with assms(4) ask show "service_may_ask cf c q w1 \<and> service_guar cf c w1 (remember_query c q w1) \<and>
      (\<forall>a. service.ok cf c P (k a) (remember_query c q w1))" by (simp add: triple_def service_ok_def)
qed

section \<open>Steps that keep the invariant\<close>

text \<open>A query is logged; only the start of a turn concerns the invariant.\<close>

lemma guar_ask:
  assumes "service_inv cf w" and "\<And>a target thread prompt. q = StartTurn a target thread prompt \<Longrightarrow> may_start c a w"
  shows "service_guar cf c w (remember_query c q w)"
proof -
  have old: "log_ok (w_store w) (w_log w)" using assms(1) by (simp add: service_inv_def)
  have "log_ok (w_store w) (w_log w @ [Asked c q])"
  proof (cases "started_attempt (Asked c q)")
    case None
    with old show ?thesis
      by (auto simp: log_ok_def own_log_append began_append started_append own_log_single)
  next
    case (Some a)
    then obtain target thread prompt where q: "q = StartTurn a target thread prompt" by (cases q) auto
    from assms(2) [OF this] have a: "Began c a \<in> set (w_log w)" "a \<notin> set (started (own_log c (w_log w)))"
      by (simp_all add: may_start_def in_own_log)
    have "a \<notin> set (started (w_log w))"
    proof
      assume "a \<in> set (started (w_log w))"
      then obtain c' where c': "a \<in> set (started (own_log c' (w_log w)))" using started_set by metis
      then have "Began c' a \<in> set (w_log w)" using old unfolding log_ok_def in_own_log [symmetric] by blast
      then have "c' = c" using a(1) old distinct_began_owner unfolding log_ok_def by metis
      with c' a(2) show False by simp
    qed
    with old a q show ?thesis
      by (auto simp: log_ok_def own_log_append began_append started_append own_log_single in_own_log)
  qed
  with assms(1) show ?thesis
    by (simp add: service_guar_def service_inv_def service_rely_def remember_query_def own_log_append own_log_single)
qed

lemma guar_refl: "service_inv cf w \<Longrightarrow> service_guar cf c w w"
  by (simp add: service_guar_def service_rely_refl)

lemma guar_store: "service_inv cf w \<Longrightarrow> store_step\<^sup>*\<^sup>* (w_store w) d \<Longrightarrow> service_guar cf c w (w\<lparr>w_store := d\<rparr>)"
  by (auto simp: service_guar_def service_inv_def service_rely_def intro: log_ok_store)

lemma guar_service: "service_inv cf w \<Longrightarrow> service_guar cf c w (w\<lparr>w_service := st\<rparr>)"
  by (simp add: service_guar_def service_inv_def service_rely_def)

text \<open>A connection creates an attempt, which it may then start.\<close>

lemma guar_begin:
  assumes inv: "service_inv cf w" and d: "store_step\<^sup>*\<^sup>* (w_store w) d" "a \<notin> attempt_ids (w_store w)" "a \<in> attempt_ids d"
  shows "service_guar cf c w (w\<lparr>w_store := d, w_log := w_log w @ [Began c a]\<rparr>) \<and>
    may_start c a (w\<lparr>w_store := d, w_log := w_log w @ [Began c a]\<rparr>)"
proof -
  have new: "log_ok d (w_log w)" and old: "log_ok (w_store w) (w_log w)"
    using inv d(1) by (auto simp: service_inv_def intro: log_ok_store)
  have fresh: "a \<notin> set (began (w_log w))" using old d(2) by (auto simp: log_ok_def)
  have "a \<notin> set (started (own_log c (w_log w)))"
    using fresh old began_set unfolding log_ok_def in_own_log [symmetric] by (metis in_own_log subsetD)
  then have "may_start c a (w\<lparr>w_store := d, w_log := w_log w @ [Began c a]\<rparr>)"
    by (simp add: may_start_def own_log_append own_log_single began_append started_append)
  moreover have "log_ok d (w_log w @ [Began c a])"
    using new fresh d(3) by (auto simp: log_ok_def own_log_append own_log_single began_append started_append)
  ultimately show ?thesis
    using inv by (simp add: service_guar_def service_inv_def service_rely_def own_log_append own_log_single)
qed

text \<open>Sections on the registry: the lock is free or the connection's own, as it is afterwards.\<close>

lemma guar_registry:
  assumes "service_inv cf w" and "w_registry_lock w \<in> {None, Some c}" "w_registry_lock w' \<in> {None, Some c}"
    and "w_store w' = w_store w" "w_log w' = w_log w" "\<And>c'. c' \<noteq> c \<Longrightarrow> w_connections w' c' = w_connections w c'"
    and "lease_ok cf (w_leases w') (w_connections w')"
  shows "service_guar cf c w w'"
proof -
  have "service_inv cf w'" using assms(1,4,5,7) by (simp add: service_inv_def)
  moreover have "service_rely c' w w'" if "c' \<noteq> c" for c'
    using assms(2,3,5) assms(6) [OF that] that unfolding service_rely_def by auto
  ultimately show ?thesis by (simp add: service_guar_def)
qed

lemma stable_lock [intro]: "stable cf c (without_lock c)"
  by (simp add: stable_def without_lock_def service_rely_def)

lemma stable_may_start [intro]: "stable cf c (may_start c a)"
  by (simp add: stable_def may_start_def service_rely_def)

lemma stable_conj [intro]: "stable cf c I \<Longrightarrow> stable cf c J \<Longrightarrow> stable cf c (\<lambda>w. I w \<and> J w)"
  unfolding stable_def by blast

lemma stable_pure [intro]: "stable cf c (\<lambda>_. b)"
  by (simp add: stable_def)

text \<open>A calm call starts and ends without the lock and starts no turn.\<close>

definition calm :: "service_config \<Rightarrow> nat \<Rightarrow> ('r \<Rightarrow> bool) \<Rightarrow> (world, query, 'a, 'r) prog \<Rightarrow> bool" where
  "calm cf c P p \<longleftrightarrow> triple cf c (without_lock c) p (\<lambda>r w. without_lock c w \<and> P r)"

lemma calm_finish: "P r \<Longrightarrow> calm cf c P (Finish r)"
  unfolding calm_def by (rule triple_finish) auto

lemma triple_pure: "(b \<Longrightarrow> triple cf c I p P) \<Longrightarrow> triple cf c (\<lambda>w. I w \<and> b) p P"
  by (auto simp: triple_def)

lemma calm_bind: "calm cf c Q p \<Longrightarrow> (\<And>r. Q r \<Longrightarrow> calm cf c P (g r)) \<Longrightarrow> calm cf c P (bind_prog p g)"
  unfolding calm_def by (erule triple_bind, rule triple_pure)

lemma lock_kept: "without_lock c w \<Longrightarrow> service_rely c w w' \<Longrightarrow> without_lock c w'"
  by (simp add: without_lock_def service_rely_def)

lemma calm_weaken: "calm cf c Q p \<Longrightarrow> (\<And>r. Q r \<Longrightarrow> P r) \<Longrightarrow> calm cf c P p"
  unfolding calm_def by (erule triple_weaken) (auto dest: lock_kept)

lemma calm_try: "calm cf c (case_sum (\<lambda>_. True) Q) p \<Longrightarrow> (\<And>x. Q x \<Longrightarrow> calm cf c P (g x)) \<Longrightarrow> (\<And>e. P (Inl e)) \<Longrightarrow>
    calm cf c P (try_prog p g)"
  unfolding try_prog_def by (erule calm_bind) (auto split: sum.splits intro: calm_finish)

end
