(* ===== verification/Cbth_LeaseOps.thy ===== *)
theory Cbth_LeaseOps
  imports Cbth_LeaseSafety
begin

text \<open>
  The lease operations of a connection keep the invariant of the registry whatever the other connections
  do meanwhile, and ask a daemon to stop a lease only under the registry lock.
\<close>

section \<open>Rules\<close>

lemma calm_atomic:
  assumes "\<And>w w'. service_inv cf w \<Longrightarrow> without_lock c w \<Longrightarrow> f w = Some w' \<Longrightarrow> service_guar cf c w w' \<and> without_lock c w'"
    and "\<And>w w'. service_inv cf w \<Longrightarrow> f w = Some w' \<Longrightarrow> calm cf c P (k w)"
  shows "calm cf c P (Atomic f k)"
  unfolding calm_def
proof (rule triple_atomic [OF stable_lock])
  fix w show "triple cf c (\<lambda>w'. service_inv cf w \<and> without_lock c w \<and> f w = Some w') (k w) (\<lambda>r w. without_lock c w \<and> P r)"
    using assms unfolding triple_def calm_def by blast
qed (use assms(1) in blast)

fun harmless :: "query \<Rightarrow> bool" where
  "harmless (DaemonRequest endpoint command payload) = (command \<noteq> ''cli_app_server_stop'')"
| "harmless (StartTurn a target thread prompt) = False"
| "harmless _ = True"

lemma harmless_may_ask: "harmless q \<Longrightarrow> service_may_ask cf c q w"
  by (cases q) auto

lemma remember_same [simp]:
  "w_store (remember_query c q w) = w_store w" "w_leases (remember_query c q w) = w_leases w"
  "w_connections (remember_query c q w) = w_connections w" "w_registry_lock (remember_query c q w) = w_registry_lock w"
  "w_log (remember_query c q w) = w_log w @ [Asked c q]"
  by (simp_all add: remember_query_def)

lemma lock_remembered [simp]: "without_lock c (remember_query c' q w) = without_lock c w"
  by (simp add: without_lock_def)

lemma calm_ask: "harmless q \<Longrightarrow> (\<And>a. calm cf c P (k a)) \<Longrightarrow> calm cf c P (Ask q k)"
  unfolding calm_def
  by (rule triple_ask [OF stable_lock stable_lock]) (auto simp: harmless_may_ask intro!: guar_ask)

text \<open>Asking and handing the answer on.\<close>

lemma calm_asked: "harmless q \<Longrightarrow> (\<And>a. P (f a)) \<Longrightarrow> calm cf c P (Ask q (\<lambda>a. Finish (f a)))"
  by (blast intro: calm_ask calm_finish)

lemma calm_perform:
  assumes "\<And>w x w'. service_inv cf w \<Longrightarrow> without_lock c w \<Longrightarrow> enabled w \<Longrightarrow> f w = Inr (x, w') \<Longrightarrow>
      service_guar cf c w w' \<and> without_lock c w' \<and> P (Inr x)"
    and "\<And>e. P (Inl e)"
  shows "calm cf c P (perform enabled f)"
  unfolding perform_def calm_def
proof (rule triple_atomic [OF stable_lock])
  fix w w' assume w: "service_inv cf w" "without_lock c w"
    "(if enabled w then Some (case f w of Inl _ \<Rightarrow> w | Inr (_, s') \<Rightarrow> s') else None) = Some w'"
  show "service_guar cf c w w'"
    using assms(1) [OF w(1,2)] w guar_refl by (auto split: sum.splits if_splits)
next
  fix w
  show "triple cf c (\<lambda>w'. service_inv cf w \<and> without_lock c w \<and>
      (if enabled w then Some (case f w of Inl _ \<Rightarrow> w | Inr (_, s') \<Rightarrow> s') else None) = Some w')
    (Finish (map_sum (\<lambda>e. e) fst (f w))) (\<lambda>r w. without_lock c w \<and> P r)"
    unfolding triple_def
  proof (intro allI impI)
    fix w' assume inv: "service_inv cf w'" and w': "service_inv cf w \<and> without_lock c w \<and>
      (if enabled w then Some (case f w of Inl _ \<Rightarrow> w | Inr (_, s') \<Rightarrow> s') else None) = Some w'"
    then have "without_lock c w' \<and> P (map_sum (\<lambda>e. e) fst (f w))"
      using assms(1) [of w] assms(2) by (cases "f w") (auto split: if_splits)
    with calm_finish [of P "map_sum (\<lambda>e. e) fst (f w)" cf c] inv
    show "service_ok cf c (\<lambda>r w. without_lock c w \<and> P r) (Finish (map_sum (\<lambda>e. e) fst (f w))) w'"
      unfolding calm_def triple_def by blast
  qed
qed

lemma calm_give [simp]: "P (Inr x) \<Longrightarrow> calm cf c P (give x)"
  unfolding give_def by (rule calm_finish)

lemma calm_fail [simp]: "P (Inl e) \<Longrightarrow> calm cf c P (fail_with e)"
  unfolding fail_with_def by (rule calm_finish)

lemma calm_checked [simp]: "P r \<Longrightarrow> calm cf c P (checked r)"
  unfolding checked_def by (rule calm_finish)

section \<open>The registry\<close>

lemma parts [simp]:
  "w_leases (update_connection c f w) = w_leases w" "w_leases (set_lease key v w) = (w_leases w)(key := v)"
  "w_connections (update_connection c f w) = (w_connections w)(c := f (w_connections w c))"
  "w_connections (set_lease key v w) = w_connections w"
  "w_registry_lock (update_connection c f w) = w_registry_lock w" "w_registry_lock (set_lease key v w) = w_registry_lock w"
  "w_store (update_connection c f w) = w_store w" "w_store (set_lease key v w) = w_store w"
  "w_log (update_connection c f w) = w_log w" "w_log (set_lease key v w) = w_log w"
  "cn_leases (set_local_lease key r cn) = (cn_leases cn)(key := r)"
  by (simp_all add: update_connection_def set_lease_def set_local_lease_def)

lemma lease_ok_change:
  assumes "lease_ok cf L K" and "\<And>k. k \<noteq> key \<Longrightarrow> L' k = L k" and "\<And>c'. c' \<noteq> c \<Longrightarrow> K' c' = K c'"
    and "\<And>k. k \<noteq> key \<Longrightarrow> cn_leases (K' c) k = cn_leases (K c) k"
    and "\<And>c' r. cn_leases (K' c') key = Some r \<Longrightarrow> lr_scoped_lease_id r = scoped_of_key cf key \<and>
        (\<exists>s. L' key = Some s \<and> c' \<in> holders s \<and> lr_target s = lr_target r)"
    and "\<And>s. L' key = Some s \<Longrightarrow> lr_scoped_lease_id s = scoped_of_key cf key"
  shows "lease_ok cf L' K'"
  unfolding lease_ok_def
proof (intro conjI allI impI)
  fix c' k r assume r: "cn_leases (K' c') k = Some r"
  have "lr_scoped_lease_id r = scoped_of_key cf k \<and> (\<exists>s. L' k = Some s \<and> c' \<in> holders s \<and> lr_target s = lr_target r)"
  proof (cases "k = key")
    case False
    have "cn_leases (K c') k = Some r" using r assms(3) assms(4) [OF False] by (cases "c' = c") auto
    then show ?thesis using assms(1) assms(2) [OF False] unfolding lease_ok_def by metis
  qed (use r assms(5) in simp)
  then show "lr_scoped_lease_id r = scoped_of_key cf k" "\<exists>s. L' k = Some s \<and> c' \<in> holders s \<and> lr_target s = lr_target r"
    by simp_all
next
  fix k s assume "L' k = Some s"
  then show "lr_scoped_lease_id s = scoped_of_key cf k"
    using assms(1) assms(2) [of k] assms(6) [of s] unfolding lease_ok_def by (cases "k = key") auto
qed

lemma inv_own: "service_inv cf w \<Longrightarrow> cn_leases (w_connections w c) key = Some r \<Longrightarrow>
    lr_scoped_lease_id r = scoped_of_key cf key \<and>
    (\<exists>s. w_leases w key = Some s \<and> c \<in> holders s \<and> lr_target s = lr_target r)"
  unfolding service_inv_def lease_ok_def by blast

lemma inv_shared: "service_inv cf w \<Longrightarrow> w_leases w key = Some s \<Longrightarrow> lr_scoped_lease_id s = scoped_of_key cf key"
  unfolding service_inv_def lease_ok_def by blast

text \<open>A section that changes one lease, in the registry and in the connection.\<close>

lemma guar_key:
  assumes "service_inv cf w" and "w_registry_lock w \<in> {None, Some c}" "w_registry_lock w' \<in> {None, Some c}"
    and "w_store w' = w_store w" "w_log w' = w_log w" "\<And>c'. c' \<noteq> c \<Longrightarrow> w_connections w' c' = w_connections w c'"
    and "\<And>k. k \<noteq> key \<Longrightarrow> w_leases w' k = w_leases w k \<and> cn_leases (w_connections w' c) k = cn_leases (w_connections w c) k"
    and "\<And>c' r. cn_leases (w_connections w' c') key = Some r \<Longrightarrow> lr_scoped_lease_id r = scoped_of_key cf key \<and>
        (\<exists>s. w_leases w' key = Some s \<and> c' \<in> holders s \<and> lr_target s = lr_target r)"
    and "\<And>s. w_leases w' key = Some s \<Longrightarrow> lr_scoped_lease_id s = scoped_of_key cf key"
  shows "service_guar cf c w w'"
proof (rule guar_registry [OF assms(1-6)])
  show "lease_ok cf (w_leases w') (w_connections w')"
    by (rule lease_ok_change [where key = key and c = c and L = "w_leases w" and K = "w_connections w"])
      (use assms(1,6,7,8,9) in \<open>auto simp: service_inv_def\<close>)
qed

text \<open>What a call says of the record it returns: it carries the scoped identifier of its lease.\<close>

definition scoped_for :: "service_config \<Rightarrow> lease_key \<Rightarrow> lease_record \<Rightarrow> bool" where
  "scoped_for cf key r \<longleftrightarrow> lr_scoped_lease_id r = scoped_of_key cf key"

lemma record_parts [simp]:
  "lr_target (to_record s) = lr_target s" "lr_scoped_lease_id (to_record s) = lr_scoped_lease_id s"
  "lr_target (from_record r c) = lr_target r" "lr_scoped_lease_id (from_record r c) = lr_scoped_lease_id r"
  "holders (from_record r c) = {c}" "lr_target (merge_lease c r s) = lr_target s"
  "holders (merge_lease c r s) = insert c (holders s)"
  "lr_target (confirm_endpoint e r') = lr_target r'" "lr_scoped_lease_id (confirm_endpoint e r') = lr_scoped_lease_id r'"
  "holders (confirm_endpoint e s) = holders s"
  by (simp_all add: to_record_def from_record_def lease_record.defs merge_lease_def confirm_endpoint_def Let_def)

lemma merge_scoped: "scoped_for cf key r \<Longrightarrow> lr_scoped_lease_id s = scoped_of_key cf key \<Longrightarrow>
    lr_scoped_lease_id (merge_lease c r s) = scoped_of_key cf key"
  by (simp add: merge_lease_def scoped_for_def)

lemma shared_lease_record_calm: "calm cf c (case_sum (\<lambda>_. True) (case_option True (scoped_for cf key))) (shared_lease_record key target)"
  unfolding shared_lease_record_def registry_section_def
  by (rule calm_perform) (auto split: option.splits if_splits simp: guar_refl scoped_for_def inv_shared)

lemma free_lock: "registry_free w \<Longrightarrow> w_registry_lock w \<in> {None, Some c}"
  by (simp add: registry_free_def)

lemma register_connection_lease_calm:
  assumes "scoped_for cf key r"
  shows "calm cf c (\<lambda>_. True) (register_connection_lease c key r)"
  unfolding register_connection_lease_def registry_section_def
proof (rule calm_perform)
  fix w x w' assume inv: "service_inv cf w" "without_lock c w" "registry_free w"
    and w': "(case w_leases w key of
       Some shared \<Rightarrow>
         if lr_target shared \<noteq> lr_target r then Inl replayed_plugin_app_server_lease_target_error
         else Inr ((), note_own_lease c key (to_record (merge_lease c r shared))
                (set_lease key (Some (merge_lease c r shared)) w))
     | None \<Rightarrow> Inr ((), note_own_lease c key r (set_lease key (Some (from_record r c)) w))) = Inr (x, w')"
  have "service_guar cf c w w'"
  proof (rule guar_key [OF inv(1) free_lock [OF inv(3)], where key = key])
    fix c' r' assume r': "cn_leases (w_connections w' c') key = Some r'"
    show "lr_scoped_lease_id r' = scoped_of_key cf key \<and>
        (\<exists>s. w_leases w' key = Some s \<and> c' \<in> holders s \<and> lr_target s = lr_target r')"
      using w' r' inv_own [OF inv(1), of c' key r'] inv_shared [OF inv(1), of key] assms
      by (auto split: option.splits if_splits simp: note_own_lease_def merge_scoped scoped_for_def)
  next
    fix s assume "w_leases w' key = Some s"
    then show "lr_scoped_lease_id s = scoped_of_key cf key"
      using w' inv_shared [OF inv(1), of key] assms
      by (auto split: option.splits if_splits simp: note_own_lease_def merge_scoped scoped_for_def)
  qed (use w' inv(3) in \<open>auto split: option.splits if_splits simp: note_own_lease_def registry_free_def\<close>)
  moreover have "without_lock c w'"
    using w' inv(2) by (auto split: option.splits if_splits simp: note_own_lease_def without_lock_def)
  ultimately show "service_guar cf c w w' \<and> without_lock c w' \<and> True" by simp
qed simp

lemma confirm_parts [simp]:
  "cn_leases (w_connections (confirm_own c key e w) c') =
     (if c' = c then (cn_leases (w_connections w c))(key := map_option (confirm_endpoint e) (cn_leases (w_connections w c) key))
      else cn_leases (w_connections w c'))"
  "w_leases (confirm_own c key e w) = w_leases w" "w_registry_lock (confirm_own c key e w) = w_registry_lock w"
  "w_store (confirm_own c key e w) = w_store w" "w_log (confirm_own c key e w) = w_log w"
  by (simp_all add: confirm_own_def)

lemma confirm_others: "c' \<noteq> c \<Longrightarrow> w_connections (confirm_own c key e w) c' = w_connections w c'"
  by (simp add: confirm_own_def)

text \<open>Confirming an endpoint, in the section of its own or under a lock that is held.\<close>

lemma guar_confirm:
  assumes inv: "service_inv cf w" and lock: "w_registry_lock w \<in> {None, Some c}"
    and w': "w' = confirm_own c key e w \<or>
      w' = set_lease key (map_option (confirm_endpoint e) (w_leases w key)) (confirm_own c key e w)"
  shows "service_guar cf c w w'"
proof (rule guar_key [OF inv lock, where key = key])
  show "w_registry_lock w' \<in> {None, Some c}" using lock w' by auto
next
  fix c' r assume "cn_leases (w_connections w' c') key = Some r"
  then show "lr_scoped_lease_id r = scoped_of_key cf key \<and>
      (\<exists>s. w_leases w' key = Some s \<and> c' \<in> holders s \<and> lr_target s = lr_target r)"
    using w' inv_own [OF inv, of c' key] by (auto split: if_splits)
next
  fix s assume "w_leases w' key = Some s"
  then show "lr_scoped_lease_id s = scoped_of_key cf key" using w' inv_shared [OF inv, of key] by auto
qed (use w' in \<open>auto simp: confirm_others\<close>)

lemma update_endpoint_calm: "calm cf c (\<lambda>_. True) (update_connection_lease_endpoint c key e)"
  unfolding update_connection_lease_endpoint_def registry_section_def
proof (rule calm_perform)
  fix w x w' assume inv: "service_inv cf w" "without_lock c w" "registry_free w"
    and w': "Inr ((), case w_leases (confirm_own c key e w) key of
         Some shared \<Rightarrow>
           if c \<in> holders shared then set_lease key (Some (confirm_endpoint e shared)) (confirm_own c key e w)
           else confirm_own c key e w
       | None \<Rightarrow> confirm_own c key e w) = (Inr (x, w') :: rpc_error + unit \<times> world)"
  then have "w' = confirm_own c key e w \<or>
      w' = set_lease key (map_option (confirm_endpoint e) (w_leases w key)) (confirm_own c key e w)"
    by (auto split: option.splits if_splits)
  then show "service_guar cf c w w' \<and> without_lock c w' \<and> True"
    using guar_confirm [OF inv(1) free_lock [OF inv(3)]] inv(2) by (auto simp: without_lock_def)
qed simp

lemma latest_record_calm:
  assumes "scoped_for cf key fallback"
  shows "calm cf c (case_sum (\<lambda>_. True) (scoped_for cf key)) (latest_connection_lease_record c key fallback)"
  unfolding latest_connection_lease_record_def registry_section_def
proof (rule calm_perform)
  fix w x w' assume inv: "service_inv cf w" "without_lock c w" "registry_free w"
    and w': "(case w_leases w key of
       Some shared \<Rightarrow>
         if c \<in> holders shared
         then Inr (to_record shared, update_connection c (set_local_lease key (Some (to_record shared))) w)
         else Inr (fallback, w)
     | None \<Rightarrow> Inr (fallback, w)) = (Inr (x, w') :: rpc_error + lease_record \<times> world)"
  show "service_guar cf c w w' \<and> without_lock c w' \<and> case_sum (\<lambda>_. True) (scoped_for cf key) (Inr x)"
  proof (cases "w' = w")
    case True
    with inv guar_refl assms w' show ?thesis
      by (auto split: option.splits if_splits simp: scoped_for_def inv_shared)
  next
    case False
    with w' obtain s where s: "w_leases w key = Some s" "c \<in> holders s" "x = to_record s"
      "w' = update_connection c (set_local_lease key (Some (to_record s))) w"
      by (auto split: option.splits if_splits)
    have "service_guar cf c w w'"
    proof (rule guar_key [OF inv(1) free_lock [OF inv(3)], where key = key])
      fix c' r assume "cn_leases (w_connections w' c') key = Some r"
      then show "lr_scoped_lease_id r = scoped_of_key cf key \<and>
          (\<exists>s. w_leases w' key = Some s \<and> c' \<in> holders s \<and> lr_target s = lr_target r)"
        using s inv_own [OF inv(1), of c' key] inv_shared [OF inv(1) s(1)] by (auto split: if_splits)
    qed (use s inv(3) inv_shared [OF inv(1)] in \<open>auto simp: registry_free_def\<close>)
    with s inv(2) inv_shared [OF inv(1) s(1)] show ?thesis by (simp add: scoped_for_def without_lock_def)
  qed
qed simp

lemma own_section_calm:
  assumes "\<And>w x w'. service_inv cf w \<Longrightarrow> without_lock c w \<Longrightarrow> f w = (x, w') \<Longrightarrow> w' = w \<and> P (Inr x)" "\<And>e. P (Inl e)"
  shows "calm cf c P (own_section f)"
  unfolding own_section_def
proof (rule calm_perform)
  fix w x w' assume w: "service_inv cf w" "without_lock c w" "(Inr (f w) :: rpc_error + _) = Inr (x, w')"
  then have "w' = w \<and> P (Inr x)" by (intro assms(1)) auto
  with guar_refl [OF w(1)] w(2) show "service_guar cf c w w' \<and> without_lock c w' \<and> P (Inr x)" by simp
qed (rule assms(2))

lemma current_lease_calm:
  "calm cf c (case_sum (\<lambda>_. True) (scoped_for cf (plugin_app_server_lease_key ident lease_id)))
     (current_lease c ident lease_id)"
  unfolding current_lease_def Let_def
proof (rule calm_try [where Q = "case_option True (scoped_for cf (plugin_app_server_lease_key ident lease_id))"])
  fix x assume "case_option True (scoped_for cf (plugin_app_server_lease_key ident lease_id)) x"
  then show "calm cf c (case_sum (\<lambda>_. True) (scoped_for cf (plugin_app_server_lease_key ident lease_id)))
     (case x of None \<Rightarrow> fail_with (stale_plugin_app_server_lease lease_id)
      | Some r \<Rightarrow> latest_connection_lease_record c (plugin_app_server_lease_key ident lease_id) r)"
    by (auto split: option.split intro: latest_record_calm)
qed (auto intro!: own_section_calm split: option.splits simp: scoped_for_def inv_own)

section \<open>Asking the daemon\<close>

text \<open>
  The requests are made without the lock or, to stop a lease, with it. \<open>keeps I\<close> says that a call is
  correct when started in \<open>I\<close>, and ends in \<open>I\<close>.
\<close>

definition keeps :: "service_config \<Rightarrow> nat \<Rightarrow> (world \<Rightarrow> bool) \<Rightarrow> (world, query, 'a, 'r) prog \<Rightarrow> bool" where
  "keeps cf c I p \<longleftrightarrow> triple cf c I p (\<lambda>_. I)"

definition settled :: "service_config \<Rightarrow> nat \<Rightarrow> (world \<Rightarrow> bool) \<Rightarrow> bool" where
  "settled cf c I \<longleftrightarrow> stable cf c I \<and> (\<forall>w q. I w \<longrightarrow> I (remember_query c q w))"

definition may_send :: "service_config \<Rightarrow> nat \<Rightarrow> (world \<Rightarrow> bool) \<Rightarrow> string \<Rightarrow> json \<Rightarrow> bool" where
  "may_send cf c I command payload \<longleftrightarrow>
     settled cf c I \<and> (command = ''cli_app_server_stop'' \<longrightarrow> (\<forall>w. service_inv cf w \<longrightarrow> I w \<longrightarrow> may_stop cf c payload w))"

lemma calm_keeps: "calm cf c (\<lambda>_. True) p = keeps cf c (without_lock c) p"
  by (simp add: calm_def keeps_def)

lemma may_send_calm: "command \<noteq> ''cli_app_server_stop'' \<Longrightarrow> may_send cf c (without_lock c) command payload"
  by (simp add: may_send_def settled_def stable_lock)

lemma may_send_settled: "may_send cf c I command payload \<Longrightarrow> settled cf c I"
  by (simp add: may_send_def)

lemma keeps_finish: "settled cf c I \<Longrightarrow> keeps cf c I (Finish r)"
  unfolding keeps_def settled_def by (rule triple_finish) auto

lemma keeps_bind: "keeps cf c I p \<Longrightarrow> (\<And>r. keeps cf c I (g r)) \<Longrightarrow> keeps cf c I (bind_prog p g)"
  unfolding keeps_def by (rule triple_bind)

lemma keeps_try: "settled cf c I \<Longrightarrow> keeps cf c I p \<Longrightarrow> (\<And>x. keeps cf c I (g x)) \<Longrightarrow> keeps cf c I (try_prog p g)"
  unfolding try_prog_def by (rule keeps_bind) (auto split: sum.split intro: keeps_finish)

lemma keeps_give: "settled cf c I \<Longrightarrow> keeps cf c I (give x)" "settled cf c I \<Longrightarrow> keeps cf c I (fail_with e)"
  "settled cf c I \<Longrightarrow> keeps cf c I (checked r)"
  unfolding give_def fail_with_def checked_def by (rule keeps_finish; assumption)+

lemma keeps_ask:
  assumes "settled cf c I" and "\<And>w. service_inv cf w \<Longrightarrow> I w \<Longrightarrow> service_may_ask cf c q w"
    and "\<And>a target thread prompt. q \<noteq> StartTurn a target thread prompt" and "\<And>a. keeps cf c I (k a)"
  shows "keeps cf c I (Ask q k)"
  unfolding keeps_def
proof (rule triple_ask)
  fix w assume "service_inv cf w" "I w"
  with assms(1-3) guar_ask [of cf w q c]
  show "service_may_ask cf c q w \<and> service_guar cf c w (remember_query c q w) \<and> I (remember_query c q w)"
    by (auto simp: settled_def)
qed (use assms(1,4) in \<open>auto simp: settled_def keeps_def\<close>)

lemma ask_daemon_keeps: "may_send cf c I command payload \<Longrightarrow> keeps cf c I (ask_daemon endpoint command payload)"
  unfolding ask_daemon_def
  by (rule keeps_ask) (auto simp: may_send_def intro: keeps_finish)

lemma ensure_endpoint_keeps: "settled cf c I \<Longrightarrow> keeps cf c I ensure_daemon_endpoint"
  unfolding ensure_daemon_endpoint_def by (rule keeps_ask) (auto intro: keeps_finish)

lemma dispatched_keeps: "settled cf c I \<Longrightarrow> keeps cf c I p \<Longrightarrow> keeps cf c I (dispatched p)"
  unfolding dispatched_def by (auto intro: keeps_bind keeps_finish)

lemma follow_handoff_keeps:
  "may_send cf c I command payload \<Longrightarrow> keeps cf c I (follow_app_server_handoff endpoint command payload response)"
  unfolding follow_app_server_handoff_def
  by (auto split: option.split intro!: keeps_give keeps_try dispatched_keeps ask_daemon_keeps dest: may_send_settled)

lemma ask_with_refresh_keeps:
  assumes "settled cf c I" "\<And>e. keeps cf c I (noted e)" "\<And>e. keeps cf c I (ask e)"
  shows "keeps cf c I (ask_with_refresh noted ask endpoint daemon)"
  unfolding ask_with_refresh_def
  by (rule keeps_bind) (auto split: sum.split prod.split
      intro!: keeps_try keeps_give dispatched_keeps ensure_endpoint_keeps assms)

lemma ensure_at_endpoint_keeps: "keeps cf c (without_lock c) (ensure_app_server_at_endpoint endpoint r scoped)"
  unfolding ensure_app_server_at_endpoint_def
  by (intro keeps_bind ask_daemon_keeps may_send_calm)
    (auto split: sum.split intro!: keeps_bind keeps_finish ask_daemon_keeps may_send_calm
      simp: settled_def stable_lock)

lemma stop_best_effort_keeps:
  "may_send cf c I ''cli_app_server_stop'' (stop_payload r) \<Longrightarrow> keeps cf c I (stop_plugin_app_server_record_best_effort r)"
  unfolding stop_plugin_app_server_record_best_effort_def
  by (rule keeps_bind)
    (auto split: sum.split option.split intro!: keeps_bind keeps_finish ask_daemon_keeps dest: may_send_settled)

lemma read_state_keeps: "settled cf c I \<Longrightarrow> (\<And>w. keeps cf c I (g w)) \<Longrightarrow> keeps cf c I (read_state g)"
  unfolding read_state_def keeps_def
  by (rule triple_atomic) (auto simp: settled_def guar_refl triple_def)

lemma active_delivery_keeps: "settled cf c I \<Longrightarrow> keeps cf c I (plugin_app_server_record_has_active_delivery r)"
  unfolding plugin_app_server_record_has_active_delivery_def
  by (rule keeps_ask) (auto split: sum.split intro!: keeps_finish read_state_keeps)

section \<open>Ensure and refresh at the daemon\<close>

lemma settled_lock [simp]: "settled cf c (without_lock c)"
  by (simp add: settled_def stable_lock)

lemmas update_endpoint_keeps = update_endpoint_calm [unfolded calm_keeps]
lemmas free_rules = keeps_give [OF settled_lock] keeps_try [OF settled_lock] keeps_finish [OF settled_lock] keeps_bind
  ensure_endpoint_keeps [OF settled_lock] update_endpoint_keeps

lemma initial_endpoint_keeps: "keeps cf c (without_lock c) (initial_endpoint c key existing)"
  unfolding initial_endpoint_def by (auto split: option.split intro!: free_rules)

lemma finish_ensure_keeps:
  assumes "scoped_for cf key \<lparr>lr_target = target, lr_endpoint = e, lr_scoped_lease_id = scoped, lr_endpoint_confirmed = b\<rparr>"
  shows "keeps cf c (without_lock c) (finish_ensure c key target scoped r endpoint daemon response)"
proof -
  have "keeps cf c (without_lock c) (register_connection_lease c key
      \<lparr>lr_target = target, lr_endpoint = e', lr_scoped_lease_id = scoped, lr_endpoint_confirmed = True\<rparr>)" for e'
    using register_connection_lease_calm [unfolded calm_keeps] assms by (simp add: scoped_for_def)
  then show ?thesis unfolding finish_ensure_def
    by (auto intro!: free_rules follow_handoff_keeps may_send_calm)
qed

lemma attempt_ensure_keeps:
  assumes "scoped_for cf key \<lparr>lr_target = target, lr_endpoint = e, lr_scoped_lease_id = scoped, lr_endpoint_confirmed = b\<rparr>"
  shows "keeps cf c (without_lock c) (attempt_ensure c key target scoped r existing)"
  unfolding attempt_ensure_def
  by (auto split: sum.split intro!: free_rules initial_endpoint_keeps ask_with_refresh_keeps ensure_at_endpoint_keeps
      finish_ensure_keeps [OF assms])

lemma refresh_at_daemon_keeps: "keeps cf c (without_lock c) (refresh_at_daemon c key r ttl)"
  unfolding refresh_at_daemon_def refresh_app_server_at_endpoint_def
  by (auto intro!: free_rules ask_with_refresh_keeps ask_daemon_keeps follow_handoff_keeps may_send_calm)

lemma current_lease_keeps: "keeps cf c (without_lock c) (current_lease c ident lease_id)"
  unfolding calm_keeps [symmetric] by (rule calm_weaken [OF current_lease_calm]) simp

lemma refresh_lease_keeps: "keeps cf c (without_lock c) (refresh_lease cf c ident r)"
  unfolding refresh_lease_def
  by (auto split: prod.split intro!: free_rules refresh_at_daemon_keeps current_lease_keeps)

lemma lease_delivery_target_keeps: "keeps cf c (without_lock c) (lease_delivery_target cf c ident lease_id)"
  unfolding lease_delivery_target_def
  by (auto intro!: free_rules refresh_at_daemon_keeps current_lease_keeps)

section \<open>Under the lock\<close>

text \<open>
  The connection has the lock and nobody else is among the holders of the lease; \<open>F\<close> says what is known of
  the connection's own fields.
\<close>

definition alone :: "nat \<Rightarrow> lease_key \<Rightarrow> (connection \<Rightarrow> bool) \<Rightarrow> world \<Rightarrow> bool" where
  "alone c key F w \<longleftrightarrow> w_registry_lock w = Some c \<and>
     (\<forall>s. w_leases w key = Some s \<longrightarrow> holders s \<subseteq> {c}) \<and> F (w_connections w c)"

definition free_with :: "nat \<Rightarrow> (connection \<Rightarrow> bool) \<Rightarrow> world \<Rightarrow> bool" where
  "free_with c F w \<longleftrightarrow> without_lock c w \<and> F (w_connections w c)"

lemma settled_alone [simp]: "settled cf c (alone c key F)"
  by (auto simp: settled_def stable_def alone_def service_rely_def)

lemma settled_free_with [simp]: "settled cf c (free_with c F)"
  by (auto simp: settled_def stable_def free_with_def service_rely_def without_lock_def)

lemma stable_settled: "settled cf c I \<Longrightarrow> stable cf c I"
  by (simp add: settled_def)

lemma alone_nobody: "service_inv cf w \<Longrightarrow> alone c key F w \<Longrightarrow> c' \<noteq> c \<Longrightarrow> cn_leases (w_connections w c') key = None"
  using inv_own [of cf w c' key] by (cases "cn_leases (w_connections w c') key") (auto simp: alone_def)

lemma may_send_stop:
  assumes "scoped_for cf key r"
  shows "may_send cf c (alone c key F) command (stop_payload r)"
  unfolding may_send_def
proof (intro conjI impI allI settled_alone)
  fix w assume w: "service_inv cf w" "alone c key F w"
  then have "nobody_else_holds c key w" unfolding nobody_else_holds_def
    using alone_nobody by (auto simp: alone_def)
  with w(2) assms show "may_stop cf c (stop_payload r) w" by (auto simp: may_stop_def alone_def scoped_for_def)
qed

lemma not_held: "\<not> held_by_others c key w \<Longrightarrow> w_leases w key = Some s \<Longrightarrow> holders s \<subseteq> {c}"
  by (auto simp: held_by_others_def)

lemma drop_parts [simp]:
  "w_leases (drop_lease_and_lock key w) = (w_leases w)(key := None)" "w_registry_lock (drop_lease_and_lock key w) = None"
  "w_connections (drop_lease_and_lock key w) = w_connections w" "w_store (drop_lease_and_lock key w) = w_store w"
  "w_log (drop_lease_and_lock key w) = w_log w"
  by (simp_all add: drop_lease_and_lock_def release_lock_def)

text \<open>Dropping the lease with the lock, when the connection's own record goes or has gone.\<close>

lemma guar_drop:
  assumes "service_inv cf w" "alone c key F w"
    and "w' = drop_lease_and_lock key (update_connection c (set_local_lease key None) w) \<or>
      w' = update_connection c (set_local_lease key None) (drop_lease_and_lock key w) \<or>
      w' = drop_lease_and_lock key w \<and> cn_leases (w_connections w c) key = None"
  shows "service_guar cf c w w'"
proof (rule guar_key [OF assms(1), where key = key])
  fix c' r assume "cn_leases (w_connections w' c') key = Some r"
  then have False using assms(3) alone_nobody [OF assms(1,2), of c'] by (cases "c' = c") auto
  then show "lr_scoped_lease_id r = scoped_of_key cf key \<and>
      (\<exists>s. w_leases w' key = Some s \<and> c' \<in> holders s \<and> lr_target s = lr_target r)" ..
qed (use assms(2,3) in \<open>auto simp: alone_def\<close>)

lemma drop_triple:
  assumes "\<And>cn. F cn \<Longrightarrow> cn_leases cn key = None" and "triple cf c (free_with c F) p P"
  shows "triple cf c (alone c key F) (Atomic (\<lambda>w. Some (drop_lease_and_lock key w)) (\<lambda>_. p)) P"
proof (rule triple_atomic [OF stable_settled [OF settled_alone]])
  fix w w' assume "service_inv cf w" "alone c key F w" "Some (drop_lease_and_lock key w) = Some w'"
  then show "service_guar cf c w w'" using guar_drop assms(1) by (auto simp: alone_def)
next
  fix w show "triple cf c (\<lambda>w'. service_inv cf w \<and> alone c key F w \<and> Some (drop_lease_and_lock key w) = Some w') p P"
    using assms(2) by (auto simp: triple_def free_with_def alone_def without_lock_def)
qed

section \<open>Leaving a lease\<close>

lemma leave_parts [simp]:
  "w_connections (leave_lease c key w) = w_connections w" "w_registry_lock (leave_lease c key w) = w_registry_lock w"
  "w_store (leave_lease c key w) = w_store w" "w_log (leave_lease c key w) = w_log w"
  "w_leases (leave_lease c key w) k = (if k = key then map_option (\<lambda>s. s\<lparr>holders := holders s - {c}\<rparr>) (w_leases w key)
     else w_leases w k)"
  by (auto simp: leave_lease_def split: option.split)

lemma guar_leave:
  assumes inv: "service_inv cf w" and lock: "w_registry_lock w = None" "w_registry_lock w' \<in> {None, Some c}"
    and w': "w_store w' = w_store w" "w_log w' = w_log w" "w_leases w' = w_leases (leave_lease c key w)"
      "\<And>c'. c' \<noteq> c \<Longrightarrow> w_connections w' c' = w_connections w c'"
      "\<And>k. cn_leases (w_connections w' c) k = (if k = key then None else cn_leases (w_connections w c) k)"
  shows "service_guar cf c w w'"
proof (rule guar_key [OF inv _ lock(2) w'(1,2,4), where key = key])
  fix c' r assume r: "cn_leases (w_connections w' c') key = Some r"
  then have "c' \<noteq> c" using w'(5) by auto
  with r w'(3,4) inv_own [OF inv, of c' key r]
  show "lr_scoped_lease_id r = scoped_of_key cf key \<and>
      (\<exists>s. w_leases w' key = Some s \<and> c' \<in> holders s \<and> lr_target s = lr_target r)" by auto
next
  fix s assume "w_leases w' key = Some s"
  with w'(3) inv_shared [OF inv, of key] show "lr_scoped_lease_id s = scoped_of_key cf key" by auto
qed (use lock(1) w'(3,5) in auto)

text \<open>The two outcomes of taking the lock to leave: another connection has the lease, or the lock is held.\<close>

lemma leave_triple:
  assumes "\<And>w. I w \<Longrightarrow> without_lock c w" "stable cf c I"
    and own: "\<And>w. w_store (g w) = w_store w \<and> w_log (g w) = w_log w \<and> w_leases (g w) = w_leases w \<and>
        w_registry_lock (g w) = w_registry_lock w \<and> (\<forall>c'. c' \<noteq> c \<longrightarrow> w_connections (g w) c' = w_connections w c')"
    and gone: "\<And>w k. I w \<Longrightarrow> cn_leases (w_connections (g w) c) k = (if k = key then None else cn_leases (w_connections w c) k)"
    and F: "\<And>w. I w \<Longrightarrow> F (w_connections (g w) c)"
    and retained: "\<And>w. service_inv cf w \<Longrightarrow> I w \<Longrightarrow> held_by_others c key w \<Longrightarrow> triple cf c (free_with c F) (k w) P"
    and last: "\<And>w. service_inv cf w \<Longrightarrow> I w \<Longrightarrow> \<not> held_by_others c key w \<Longrightarrow> triple cf c (alone c key F) (k w) P"
  shows "triple cf c I (Atomic (\<lambda>w. lock_to_leave c key (g w)) k) P"
proof (rule triple_atomic [OF assms(2)])
  have same: "held_by_others c key (g w) = held_by_others c key w" for w using own by (simp add: held_by_others_def)
  have others: "c' \<noteq> c \<Longrightarrow> w_connections (g w) c' = w_connections w c'" for c' w using own by blast
  fix w w' assume w: "service_inv cf w" "I w" "lock_to_leave c key (g w) = Some w'"
  show "service_guar cf c w w'"
    by (rule guar_leave [OF w(1), where key = key])
      (use w own [of w] gone [OF w(2)] in \<open>auto simp: lock_to_leave_def registry_free_def others fun_eq_iff split: if_splits\<close>)
next
  have same: "held_by_others c key (g w) = held_by_others c key w" for w using own by (simp add: held_by_others_def)
  fix w
  show "triple cf c (\<lambda>w'. service_inv cf w \<and> I w \<and> lock_to_leave c key (g w) = Some w') (k w) P"
    unfolding triple_def
  proof (intro allI impI)
    fix w' assume inv: "service_inv cf w'" and *: "service_inv cf w \<and> I w \<and> lock_to_leave c key (g w) = Some w'"
    show "service_ok cf c P (k w) w'"
    proof (cases "held_by_others c key w")
      case True
      with * own [of w] F have "free_with c F w'"
        by (auto simp: lock_to_leave_def same free_with_def without_lock_def registry_free_def split: if_splits)
      with retained * True inv show ?thesis by (auto simp: triple_def)
    next
      case False
      with * own [of w] F have "alone c key F w'"
        by (auto simp: lock_to_leave_def same alone_def held_by_others_def split: if_splits) blast
      with last * False inv show ?thesis by (auto simp: triple_def)
    qed
  qed
qed

lemma keeps_free_with: "keeps cf c (free_with c F) p \<Longrightarrow> triple cf c (free_with c F) p (\<lambda>_. without_lock c)"
  unfolding keeps_def by (erule triple_weaken) (auto simp: free_with_def dest: lock_kept)

lemma free_finish: "triple cf c (free_with c F) (Finish r) (\<lambda>_. without_lock c)"
  by (rule keeps_free_with [OF keeps_finish [OF settled_free_with]])

lemma rollback_keeps:
  assumes "scoped_for cf key fallback"
  shows "keeps cf c (without_lock c) (rollback_preregistered_lease_after_failed_ensure c key fallback stop)"
  unfolding keeps_def rollback_preregistered_lease_after_failed_ensure_def
proof (rule leave_triple [where F = "\<lambda>cn. cn_leases cn key = None"])
  fix w assume w: "service_inv cf w" "\<not> held_by_others c key w"
  let ?F = "\<lambda>cn. cn_leases cn key = None"
  have "scoped_for cf key (lease_to_stop key fallback w)"
    using assms inv_shared [OF w(1), of key] by (auto simp: lease_to_stop_def scoped_for_def split: option.split)
  then have "keeps cf c (alone c key ?F)
      (if stop then stop_plugin_app_server_record_best_effort (lease_to_stop key fallback w) else Finish ())"
    by (auto intro: stop_best_effort_keeps may_send_stop keeps_finish)
  moreover have "triple cf c (alone c key ?F) (Atomic (\<lambda>w. Some (drop_lease_and_lock key w)) (\<lambda>_. Finish ())) (\<lambda>_. without_lock c)"
    by (rule drop_triple) (simp_all add: free_finish)
  ultimately show "triple cf c (alone c key ?F) (if held_by_others c key w then Finish ()
     else bind_prog (if stop then stop_plugin_app_server_record_best_effort (lease_to_stop key fallback w) else Finish ())
       (\<lambda>_. Atomic (\<lambda>w. Some (drop_lease_and_lock key w)) (\<lambda>_. Finish ()))) (\<lambda>_. without_lock c)"
    using w(2) by (auto simp: keeps_def intro: triple_bind)
qed (auto simp: free_finish)

text \<open>The end of a connection: its own leases are gone, \<open>records\<close> is what it had.\<close>

lemma give_up_triple:
  assumes "\<And>key r. (key, r) \<in> set records \<Longrightarrow> scoped_for cf key r"
  shows "triple cf c (free_with c (\<lambda>cn. cn_leases cn = (\<lambda>_. None))) (give_up_leases c records) (\<lambda>_. without_lock c)"
  using assms
proof (induction records)
  case (Cons kr records)
  obtain key r where kr: "kr = (key, r)" by (cases kr)
  let ?F = "\<lambda>cn. cn_leases cn = (\<lambda>_. None)"
  have rest: "triple cf c (free_with c ?F) (give_up_leases c records) (\<lambda>_. without_lock c)" using Cons by simp
  show ?case unfolding kr give_up_leases.simps prod.case
  proof (rule leave_triple [where g = "\<lambda>w. w" and F = ?F])
    fix w assume w: "service_inv cf w" "\<not> held_by_others c key w"
    have "scoped_for cf key r" using Cons.prems kr by simp
    with inv_shared [OF w(1), of key] have s: "scoped_for cf key (lease_to_stop key r w)"
      by (auto simp: lease_to_stop_def scoped_for_def split: option.split)
    have "triple cf c (alone c key ?F) (if active then Finish ()
          else stop_plugin_app_server_record_best_effort (lease_to_stop key r w)) (\<lambda>_. alone c key ?F)" for active
      unfolding keeps_def [symmetric] using s by (auto intro: stop_best_effort_keeps may_send_stop keeps_finish)
    from triple_bind [OF this drop_triple [OF _ rest]]
    have "triple cf c (alone c key ?F)
       (bind_prog (if active then Finish () else stop_plugin_app_server_record_best_effort (lease_to_stop key r w)) (\<lambda>_.
        Atomic (\<lambda>w. Some (drop_lease_and_lock key w)) (\<lambda>_. give_up_leases c records))) (\<lambda>_. without_lock c)" for active
      by simp
    from triple_bind [OF active_delivery_keeps [OF settled_alone, unfolded keeps_def] this]
    have "triple cf c (alone c key ?F)
       (bind_prog (plugin_app_server_record_has_active_delivery (lease_to_stop key r w)) (\<lambda>active.
        bind_prog (if active then Finish () else stop_plugin_app_server_record_best_effort (lease_to_stop key r w)) (\<lambda>_.
        Atomic (\<lambda>w. Some (drop_lease_and_lock key w)) (\<lambda>_. give_up_leases c records)))) (\<lambda>_. without_lock c)" .
    with w(2) show "triple cf c (alone c key ?F) (if held_by_others c key w then give_up_leases c records
      else bind_prog (plugin_app_server_record_has_active_delivery (lease_to_stop key r w)) (\<lambda>active.
        bind_prog (if active then Finish () else stop_plugin_app_server_record_best_effort (lease_to_stop key r w)) (\<lambda>_.
        Atomic (\<lambda>w. Some (drop_lease_and_lock key w)) (\<lambda>_. give_up_leases c records)))) (\<lambda>_. without_lock c)" by simp
  next
    show "stable cf c (free_with c ?F)" by (simp add: stable_settled)
  qed (use rest in \<open>auto simp: free_with_def\<close>)
qed (simp add: free_finish)

lemma cleanup_keeps:
  assumes "\<And>key r. (key, r) \<in> set records \<Longrightarrow> scoped_for cf key r"
  shows "keeps cf c (without_lock c) (cleanup_connection_leases c records)"
  unfolding keeps_def cleanup_connection_leases_def
proof (rule triple_atomic [OF stable_lock])
  fix w w' assume w: "service_inv cf w" "without_lock c w"
    "Some (update_connection c (\<lambda>cn. cn\<lparr>cn_leases := \<lambda>_. None\<rparr>) w) = Some w'"
  then have "lease_ok cf (w_leases w') (w_connections w')"
    by (auto simp: service_inv_def lease_ok_def split: if_splits)
  moreover have "service_rely c' w w'" if "c' \<noteq> c" for c' using w(3) that by (auto simp: service_rely_def)
  ultimately show "service_guar cf c w w'" using w(1,3) by (auto simp: service_guar_def service_inv_def)
next
  fix w
  have "without_lock c w \<Longrightarrow> free_with c (\<lambda>cn. cn_leases cn = (\<lambda>_. None)) (update_connection c (\<lambda>cn. cn\<lparr>cn_leases := \<lambda>_. None\<rparr>) w)"
    by (simp add: free_with_def without_lock_def)
  with give_up_triple [of records cf c, OF assms]
  show "triple cf c (\<lambda>w'. service_inv cf w \<and> without_lock c w \<and>
        Some (update_connection c (\<lambda>cn. cn\<lparr>cn_leases := \<lambda>_. None\<rparr>) w) = Some w')
      (give_up_leases c records) (\<lambda>_. without_lock c)" unfolding triple_def by blast
qed

section \<open>Stop\<close>

lemma triple_before: "triple cf c I p P \<Longrightarrow> (\<And>w. service_inv cf w \<Longrightarrow> J w \<Longrightarrow> I w) \<Longrightarrow> triple cf c J p P"
  by (auto simp: triple_def)

lemma note_endpoint_keeps: "keeps cf c (alone c key (\<lambda>_. True)) (note_endpoint_under_lock c key endpoint)"
  unfolding keeps_def note_endpoint_under_lock_def own_section_def perform_def
proof (rule triple_atomic [OF stable_settled [OF settled_alone]])
  fix w w' assume w: "service_inv cf w" "alone c key (\<lambda>_. True) w"
    "(if True then Some (case Inr ((), set_lease key (map_option (confirm_endpoint endpoint) (w_leases w key))
        (confirm_own c key endpoint w)) of Inl (_ :: rpc_error) \<Rightarrow> w | Inr (_, s') \<Rightarrow> s') else None) = Some w'"
  then show "service_guar cf c w w'" by (auto intro!: guar_confirm [OF w(1)] simp: alone_def)
next
  fix w
  let ?w' = "set_lease key (map_option (confirm_endpoint endpoint) (w_leases w key)) (confirm_own c key endpoint w)"
  have "alone c key (\<lambda>_. True) w \<Longrightarrow> alone c key (\<lambda>_. True) ?w'" by (auto simp: alone_def)
  then show "triple cf c (\<lambda>w'. service_inv cf w \<and> alone c key (\<lambda>_. True) w \<and>
    (if True then Some (case Inr ((), ?w') of Inl (_ :: rpc_error) \<Rightarrow> w | Inr (_, s') \<Rightarrow> s') else None) = Some w')
    (Finish (map_sum (\<lambda>e. e) fst (Inr ((), ?w')))) (\<lambda>_. alone c key (\<lambda>_. True))"
    by (intro triple_before [OF keeps_finish [OF settled_alone, unfolded keeps_def]]) auto
qed

lemma stop_under_lock_keeps: "scoped_for cf key own \<Longrightarrow> keeps cf c (alone c key (\<lambda>_. True)) (stop_under_lock c key own)"
  unfolding stop_under_lock_def
  by (auto intro!: keeps_try ask_with_refresh_keeps note_endpoint_keeps ask_daemon_keeps follow_handoff_keeps may_send_stop
      split: prod.split)

lemma release_triple: "triple cf c (alone c key F) (release_and r) (\<lambda>_. without_lock c)"
  unfolding release_and_def
proof (rule triple_atomic [OF stable_settled [OF settled_alone]])
  fix w w' assume w: "service_inv cf w" "alone c key F w" "Some (release_lock w) = Some w'"
  then show "service_guar cf c w w'"
    by (intro guar_registry) (auto simp: alone_def release_lock_def service_inv_def)
next
  fix w
  have "alone c key F w \<Longrightarrow> free_with c (\<lambda>_. True) (release_lock w)"
    by (simp add: alone_def free_with_def without_lock_def release_lock_def)
  with free_finish [of cf c "\<lambda>_. True" r]
  show "triple cf c (\<lambda>w'. service_inv cf w \<and> alone c key F w \<and> Some (release_lock w) = Some w') (Finish r) (\<lambda>_. without_lock c)"
    unfolding triple_def by blast
qed

lemma stop_tail:
  assumes "scoped_for cf key own"
  shows "triple cf c (alone c key (\<lambda>_. True)) (bind_prog (stop_under_lock c key own) (\<lambda>stopped.
       case stopped of
         Inl e \<Rightarrow> release_and (Inl e)
       | Inr (endpoint, response) \<Rightarrow>
           Atomic (\<lambda>w. Some (update_connection c (set_local_lease key None) (drop_lease_and_lock key w)))
             (\<lambda>_. give (f endpoint response)))) (\<lambda>_. without_lock c)"
proof (rule triple_bind [OF stop_under_lock_keeps [OF assms, unfolded keeps_def]])
  fix stopped :: "rpc_error + string \<times> json"
  show "triple cf c (alone c key (\<lambda>_. True)) (case stopped of
         Inl e \<Rightarrow> release_and (Inl e)
       | Inr (endpoint, response) \<Rightarrow>
           Atomic (\<lambda>w. Some (update_connection c (set_local_lease key None) (drop_lease_and_lock key w)))
             (\<lambda>_. give (f endpoint response))) (\<lambda>_. without_lock c)"
  proof (cases stopped)
    case (Inl e)
    then show ?thesis by (simp add: release_triple)
  next
    case (Inr er)
    obtain endpoint response where er: "er = (endpoint, response)" by (cases er)
    have "triple cf c (alone c key (\<lambda>_. True))
        (Atomic (\<lambda>w. Some (update_connection c (set_local_lease key None) (drop_lease_and_lock key w)))
             (\<lambda>_. give (f endpoint response))) (\<lambda>_. without_lock c)"
    proof (rule triple_atomic [OF stable_settled [OF settled_alone]])
      fix w
      let ?w' = "update_connection c (set_local_lease key None) (drop_lease_and_lock key w)"
      have "alone c key (\<lambda>_. True) w \<Longrightarrow> free_with c (\<lambda>_. True) ?w'" by (simp add: free_with_def without_lock_def)
      then show "triple cf c (\<lambda>w'. service_inv cf w \<and> alone c key (\<lambda>_. True) w \<and> Some ?w' = Some w')
          (give (f endpoint response)) (\<lambda>_. without_lock c)"
        unfolding give_def by (intro triple_before [OF free_finish [where F = "\<lambda>_. True"]]) auto
    qed (use guar_drop in auto)
    with Inr er show ?thesis by simp
  qed
qed

lemma stop_lease_keeps: "keeps cf c (without_lock c) (stop_lease cf c ident r)"
proof -
  let ?key = "plugin_app_server_lease_key ident (st_lease_id r)"
  have lock: "keeps cf c (without_lock c) (Atomic (lock_to_stop c ?key) (\<lambda>w.
         if held_by_others c ?key w
         then give (plugin_app_server_retained_stop_response (st_lease_id r) (lr_endpoint (lease_to_stop ?key own w)))
         else bind_prog (stop_under_lock c ?key own) (\<lambda>stopped.
           case stopped of
             Inl e \<Rightarrow> release_and (Inl e)
           | Inr (endpoint, response) \<Rightarrow>
               Atomic (\<lambda>w. Some (update_connection c (set_local_lease ?key None) (drop_lease_and_lock ?key w)))
                 (\<lambda>_. give (plugin_app_server_stop_response (st_lease_id r) endpoint response)))))"
    (is "keeps _ _ _ (Atomic ?f ?k)") if own: "scoped_for cf ?key own" for own
    unfolding keeps_def
  proof (rule triple_atomic [OF stable_lock])
    fix w w' assume w: "service_inv cf w" "without_lock c w" "lock_to_stop c ?key w = Some w'"
    show "service_guar cf c w w'"
    proof (cases "held_by_others c ?key w")
      case True
      with w(3) show ?thesis
        by (intro guar_leave [OF w(1), where key = ?key]) (auto simp: lock_to_stop_def registry_free_def fun_eq_iff split: if_splits)
    next
      case False
      with w show ?thesis
        by (intro guar_registry) (auto simp: lock_to_stop_def registry_free_def service_inv_def split: if_splits)
    qed
  next
    fix w
    show "triple cf c (\<lambda>w'. service_inv cf w \<and> without_lock c w \<and> lock_to_stop c ?key w = Some w') (?k w) (\<lambda>_. without_lock c)"
    proof (cases "held_by_others c ?key w")
      case True
      then have "without_lock c w \<Longrightarrow> lock_to_stop c ?key w = Some w' \<Longrightarrow> free_with c (\<lambda>_. True) w'" for w'
        by (auto simp: lock_to_stop_def free_with_def without_lock_def registry_free_def split: if_splits)
      with True show ?thesis
        by (simp add: give_def) (rule triple_before [OF free_finish [where F = "\<lambda>_. True"]], blast)
    next
      case False
      then have "lock_to_stop c ?key w = Some w' \<Longrightarrow> alone c ?key (\<lambda>_. True) w'" for w'
        using not_held [OF False] by (auto simp: lock_to_stop_def alone_def split: if_splits)
      with False show ?thesis by (simp del: sum.case_distrib) (rule triple_before [OF stop_tail [OF own]], blast)
    qed
  qed
  show ?thesis
    unfolding stop_lease_def Let_def calm_keeps [symmetric]
    by (intro calm_try [where Q = "\<lambda>_. True"] calm_try [OF current_lease_calm])
      (auto simp: calm_keeps split: bool.split intro!: free_rules lock active_delivery_keeps)
qed

section \<open>Ensure\<close>

lemma read_state_calm: "(\<And>w. service_inv cf w \<Longrightarrow> calm cf c P (g w)) \<Longrightarrow> calm cf c P (read_state g)"
  unfolding read_state_def by (rule calm_atomic) (auto simp: guar_refl)

lemma ensure_end_calm:
  "calm cf c (\<lambda>_. True) (read_state (\<lambda>w.
     case cn_leases (w_connections w c) key of
       Some own \<Rightarrow>
         if is_err result \<and> \<not> had_local_holder
         then bind_prog (rollback_preregistered_lease_after_failed_ensure c key own accepted) (\<lambda>_. Finish result)
         else Finish result
     | None \<Rightarrow> Finish result))"
proof (rule read_state_calm)
  fix w assume inv: "service_inv cf w"
  show "calm cf c (\<lambda>_. True) (case cn_leases (w_connections w c) key of
       Some own \<Rightarrow>
         if is_err result \<and> \<not> had_local_holder
         then bind_prog (rollback_preregistered_lease_after_failed_ensure c key own accepted) (\<lambda>_. Finish result)
         else Finish result
     | None \<Rightarrow> Finish result)"
    using inv_own [OF inv, of c key]
    by (auto simp: calm_keeps scoped_for_def split: option.split intro!: free_rules rollback_keeps)
qed

lemma ensure_lease_keeps: "keeps cf c (without_lock c) (ensure_lease cf c ident r)"
proof -
  define key where "key = plugin_app_server_lease_key ident (er_lease_id r)"
  define target where "target = plugin_app_server_lease_target r"
  define scoped where "scoped = scoped_plugin_app_server_lease_id cf ident (er_lease_id r)"
  have scoped: "scoped = scoped_of_key cf key" by (simp add: scoped_def key_def scoped_of_lease_key)
  have attempt: "calm cf c (\<lambda>_. True) (bind_prog (attempt_ensure c key target scoped r existing) (\<lambda>(result, accepted).
      read_state (\<lambda>w. case cn_leases (w_connections w c) key of
          Some own \<Rightarrow>
            if is_err result \<and> \<not> had
            then bind_prog (rollback_preregistered_lease_after_failed_ensure c key own accepted) (\<lambda>_. Finish result)
            else Finish result
        | None \<Rightarrow> Finish result)))" for existing had
    by (rule calm_bind [where Q = "\<lambda>_. True"])
      (auto simp: calm_keeps scoped_for_def scoped split: prod.split intro: attempt_ensure_keeps ensure_end_calm [unfolded calm_keeps])
  have own: "calm cf c (case_sum (\<lambda>_. True) (\<lambda>cn. case_option True (scoped_for cf key) (cn_leases cn key)))
      (own_section (\<lambda>w. (w_connections w c, w)))"
    by (rule own_section_calm) (auto split: option.split simp: scoped_for_def inv_own)
  have register: "calm cf c (\<lambda>_. True) (if had then give ()
         else register_connection_lease c key (coalesce existing (default_lease_record cf target scoped)))"
    if "case_option True (scoped_for cf key) existing" for had existing
    using that by (auto intro!: register_connection_lease_calm split: option.splits
        simp: scoped_for_def default_lease_record_def scoped coalesce_def)
  have "calm cf c (\<lambda>_. True) (ensure_lease cf c ident r)"
    unfolding ensure_lease_def Let_def key_def [symmetric] target_def [symmetric] scoped_def [symmetric]
  proof (intro calm_try [OF calm_checked [where P = "case_sum (\<lambda>_. True) (\<lambda>_. True)"]] calm_try [OF own] TrueI)
    fix cn assume cn: "case_option True (scoped_for cf key) (cn_leases cn key)"
    have rest: "calm cf c (\<lambda>_. True)
        (try_prog (shared_lease_record key target) (\<lambda>shared.
         try_prog (if had then give () else register_connection_lease c key
             (coalesce (or_else shared (cn_leases cn key)) (default_lease_record cf target scoped))) (\<lambda>_.
         bind_prog (attempt_ensure c key target scoped r (or_else shared (cn_leases cn key))) (\<lambda>(result, accepted).
         read_state (\<lambda>w. case cn_leases (w_connections w c) key of
            Some own \<Rightarrow>
              if is_err result \<and> \<not> had
              then bind_prog (rollback_preregistered_lease_after_failed_ensure c key own accepted) (\<lambda>_. Finish result)
              else Finish result
          | None \<Rightarrow> Finish result)))))" for had
    proof (rule calm_try [OF shared_lease_record_calm])
      fix shared assume "case_option True (scoped_for cf key) shared"
      with cn have "case_option True (scoped_for cf key) (or_else shared (cn_leases cn key))"
        by (auto split: option.splits)
      note register = register [OF this, unfolded calm_keeps] and attempt = attempt [unfolded calm_keeps]
      show "calm cf c (\<lambda>_. True) (try_prog (if had then give () else register_connection_lease c key
             (coalesce (or_else shared (cn_leases cn key)) (default_lease_record cf target scoped))) (\<lambda>_.
         bind_prog (attempt_ensure c key target scoped r (or_else shared (cn_leases cn key))) (\<lambda>(result, accepted).
         read_state (\<lambda>w. case cn_leases (w_connections w c) key of
            Some own \<Rightarrow>
              if is_err result \<and> \<not> had
              then bind_prog (rollback_preregistered_lease_after_failed_ensure c key own accepted) (\<lambda>_. Finish result)
              else Finish result
          | None \<Rightarrow> Finish result))))"
        unfolding calm_keeps by (rule keeps_try [OF settled_lock register attempt])
    qed simp
    then show "calm cf c (\<lambda>_. True) (if cn_seen_targets cn key \<notin> {None, Some target} \<or>
          map_option lr_target (cn_leases cn key) \<notin> {None, Some target}
        then fail_with replayed_plugin_app_server_lease_target_error
        else try_prog (shared_lease_record key target) (\<lambda>shared.
         try_prog (if cn_leases cn key \<noteq> None then give () else register_connection_lease c key
             (coalesce (or_else shared (cn_leases cn key)) (default_lease_record cf target scoped))) (\<lambda>_.
         bind_prog (attempt_ensure c key target scoped r (or_else shared (cn_leases cn key))) (\<lambda>(result, accepted).
         read_state (\<lambda>w. case cn_leases (w_connections w c) key of
            Some own \<Rightarrow>
              if is_err result \<and> \<not> cn_leases cn key \<noteq> None
              then bind_prog (rollback_preregistered_lease_after_failed_ensure c key own accepted) (\<lambda>_. Finish result)
              else Finish result
          | None \<Rightarrow> Finish result)))))" by (simp del: not_None_eq)
  qed (simp split: sum.split)
  then show ?thesis by (simp add: calm_keeps)
qed

end
