(* ===== verification/Cbth_TurnOnce.thy ===== *)
theory Cbth_TurnOnce
  imports Cbth_LeaseOps
begin

text \<open>
  The service as a whole: any number of plugin connections, each handling frames one after the other and
  giving up its leases in the end, interleaved step by step with one another and with everything else
  that changes the store.
\<close>

section \<open>The store calls of a connection\<close>

lemma perform_keeps:
  assumes "\<And>w x w'. service_inv cf w \<Longrightarrow> without_lock c w \<Longrightarrow> enabled w \<Longrightarrow> f w = Inr (x, w') \<Longrightarrow>
      service_guar cf c w w' \<and> without_lock c w'"
  shows "keeps cf c (without_lock c) (perform enabled f)"
  unfolding calm_keeps [symmetric] by (rule calm_perform) (use assms in blast)+

lemma store_call_keeps:
  assumes "\<And>d x d'. op d = Inr (x, d') \<Longrightarrow> store_step\<^sup>*\<^sup>* d d'"
  shows "keeps cf c (without_lock c) (store_call cf op)"
  unfolding store_call_def
proof (rule perform_keeps)
  fix w x w' assume inv: "service_inv cf w" "without_lock c w"
    and "(case op (w_store w) of Inl e \<Rightarrow> Inl (plugin_store_error cf e)
      | Inr (x, d) \<Rightarrow> Inr (x, w\<lparr>w_store := d\<rparr>)) = Inr (x, w')"
  then obtain d where "op (w_store w) = Inr (x, d)" "w' = w\<lparr>w_store := d\<rparr>" by (auto split: sum.splits)
  with guar_store [OF inv(1) assms] inv(2) show "service_guar cf c w w' \<and> without_lock c w'"
    by (simp add: without_lock_def)
qed

lemma store_read_keeps: "keeps cf c (without_lock c) (store_read cf op)"
  unfolding store_read_def by (rule store_call_keeps) auto

lemma ask_keeps: "harmless q \<Longrightarrow> keeps cf c (without_lock c) (Ask q (\<lambda>a. Finish (f a)))"
  unfolding calm_keeps [symmetric] by (rule calm_asked) simp_all

lemma clock_keeps: "keeps cf c (without_lock c) clock"
  unfolding clock_def by (rule ask_keeps) simp

lemma open_store_keeps: "keeps cf c (without_lock c) open_store"
  unfolding open_store_def by (rule ask_keeps) simp

lemma service_section_keeps: "keeps cf c (without_lock c) (service_section f cf)"
  unfolding service_section_def calm_keeps [symmetric]
  by (rule calm_atomic) (auto simp: guar_service without_lock_def intro: calm_finish)

lemma sender_section_keeps: "keeps cf c (without_lock c) (sender_section cf ident f)"
  unfolding sender_section_def
  by (intro keeps_try [OF settled_lock] clock_keeps keeps_ask [OF settled_lock] service_section_keeps) auto

lemma ignoring_keeps: "keeps cf c (without_lock c) p \<Longrightarrow> keeps cf c (without_lock c) (ignoring p)"
  unfolding ignoring_def by (auto intro: free_rules)

lemma audit_keeps: "keeps cf c (without_lock c) (record_plugin_delivery_audit_best_effort cf ident enqueue ev)"
  unfolding record_plugin_delivery_audit_best_effort_def
  by (intro ignoring_keeps store_call_keeps) (auto dest: store_step.audit)

lemma refresh_record_keeps: "keeps cf c (without_lock c) (refresh_plugin_delivery_enqueue_record cf ident enqueue)"
  unfolding refresh_plugin_delivery_enqueue_record_def by (intro free_rules store_read_keeps)

lemmas call_rules = free_rules clock_keeps open_store_keeps store_read_keeps audit_keeps refresh_record_keeps
  refresh_lease_keeps lease_delivery_target_keeps sender_section_keeps

section \<open>A turn is started once\<close>

definition ready_to_start :: "nat \<Rightarrow> string \<Rightarrow> world \<Rightarrow> bool" where
  "ready_to_start c a w \<longleftrightarrow> without_lock c w \<and> may_start c a w"

lemma ready_stable: "stable cf c (ready_to_start c a)"
  unfolding ready_to_start_def by (rule stable_conj [OF stable_lock stable_may_start])

lemma start_turn_triple:
  "triple cf c (ready_to_start c (a_attempt_id (sc_pending_attempt sc))) (start_turn cf sc prompt) (\<lambda>_. without_lock c)"
  unfolding start_turn_def Let_def
proof (rule triple_try [where E = "\<lambda>_. ready_to_start c (a_attempt_id (sc_pending_attempt sc))"
      and Q = "\<lambda>_. ready_to_start c (a_attempt_id (sc_pending_attempt sc))"])
  fix x :: unit
  show "triple cf c (ready_to_start c (a_attempt_id (sc_pending_attempt sc)))
     (Ask (StartTurn (a_attempt_id (sc_pending_attempt sc)) (sc_target sc) (eq_source_thread_id (sc_request sc)) prompt)
       (\<lambda>a. Finish (an_turn a))) (\<lambda>_. without_lock c)"
    by (rule triple_ask [OF ready_stable stable_lock])
      (auto simp: ready_to_start_def intro!: guar_ask keeps_finish [OF settled_lock, unfolded keeps_def])
next
  show "triple cf c (ready_to_start c (a_attempt_id (sc_pending_attempt sc)))
      (checked (validate_plugin_delivery_turn_start_frame_size cf (eq_source_thread_id (sc_request sc)) prompt))
      (case_sum (\<lambda>_. ready_to_start c (a_attempt_id (sc_pending_attempt sc)))
        (\<lambda>_. ready_to_start c (a_attempt_id (sc_pending_attempt sc))))"
    unfolding checked_def by (rule triple_finish [OF _ ready_stable]) (simp split: sum.split)
qed (auto simp: ready_to_start_def dest: lock_kept)

lemma turn_accepted_keeps: "keeps cf c (without_lock c) (turn_accepted cf c ident sc turn_id)"
  unfolding turn_accepted_def
  by (intro call_rules store_call_keeps) (auto dest: store_step.accept_codex)

lemma turn_rejected_keeps: "keeps cf c (without_lock c) (turn_rejected cf ident sc e manual decision reason)"
  unfolding turn_rejected_def
  by (intro call_rules store_call_keeps) (auto dest: store_step.reject_codex)

lemma turn_unknown_keeps: "keeps cf c (without_lock c) (turn_outcome_unknown cf ident sc e)"
  unfolding turn_outcome_unknown_def by (intro call_rules)

lemma start_attempt_triple:
  "triple cf c (ready_to_start c (a_attempt_id (sc_pending_attempt sc)))
     (start_plugin_delivery_attempt cf codec c ident sc) (\<lambda>_. without_lock c)"
  unfolding start_plugin_delivery_attempt_def
proof (rule triple_bind [OF start_turn_triple])
  fix started :: "rpc_error + string"
  show "triple cf c (without_lock c) (case started of
       Inr turn_id \<Rightarrow> turn_accepted cf c ident sc turn_id
     | Inl e \<Rightarrow>
         if plugin_delivery_start_error_is_retryable_pre_accept e
         then turn_rejected cf ident sc e False ''rejected'' ''turn_start_retryable_pre_accept_rejection''
         else if plugin_delivery_start_error_is_definite_pre_accept e
         then turn_rejected cf ident sc e True ''manualized'' ''turn_start_not_accepted''
         else turn_outcome_unknown cf ident sc e) (\<lambda>_. without_lock c)"
    unfolding keeps_def [symmetric]
    by (simp add: turn_accepted_keeps turn_rejected_keeps turn_unknown_keeps split: sum.split)
qed

text \<open>The transaction that creates an attempt leaves the connection ready to start it.\<close>

lemma begin_call_triple:
  assumes "\<And>d x d'. op d = Inr (x, d') \<Longrightarrow> store_step\<^sup>*\<^sup>* d d'"
    and "\<And>d x d' a. op d = Inr (x, d') \<Longrightarrow> reachable d \<Longrightarrow> created x = Some a \<Longrightarrow> a \<notin> attempt_ids d \<and> a \<in> attempt_ids d'"
  shows "triple cf c (without_lock c) (begin_call cf c created op)
     (case_sum (\<lambda>_. without_lock c)
       (\<lambda>x. case created x of None \<Rightarrow> without_lock c | Some a \<Rightarrow> ready_to_start c a))"
proof -
  let ?f = "\<lambda>w. case op (w_store w) of Inl e \<Rightarrow> Inl (plugin_store_error cf e)
     | Inr (x, d) \<Rightarrow> Inr (x, log_began c (created x) (w\<lparr>w_store := d\<rparr>))"
  let ?Q = "case_sum (\<lambda>_. without_lock c)
       (\<lambda>x. case created x of None \<Rightarrow> without_lock c | Some a \<Rightarrow> ready_to_start c a)"
  have moved: "service_guar cf c w w' \<and> ?Q (Inr x) w'"
    if w: "service_inv cf w" "without_lock c w" "?f w = Inr (x, w')" for w x w'
  proof -
    obtain d where d: "op (w_store w) = Inr (x, d)" "w' = log_began c (created x) (w\<lparr>w_store := d\<rparr>)"
      using w(3) by (auto split: sum.splits)
    have "reachable (w_store w)" using w(1) by (simp add: service_inv_def log_ok_def)
    with assms(2) [OF d(1)] assms(1) [OF d(1)] guar_begin [OF w(1)] guar_store [OF w(1)] w(2) d(2)
    show ?thesis by (auto simp: log_began_def ready_to_start_def without_lock_def split: option.split)
  qed
  have stable: "stable cf c (?Q r)" for r
    by (auto split: sum.split option.split intro: ready_stable)
  show ?thesis unfolding begin_call_def perform_def
  proof (rule triple_atomic [OF stable_lock])
    fix w w' assume "service_inv cf w" "without_lock c w"
      "(if True then Some (case ?f w of Inl _ \<Rightarrow> w | Inr (_, s') \<Rightarrow> s') else None) = Some w'"
    with moved [of w] guar_refl show "service_guar cf c w w'" by (cases "?f w") auto
  next
    fix w
    show "triple cf c (\<lambda>w'. service_inv cf w \<and> without_lock c w \<and>
        (if True then Some (case ?f w of Inl _ \<Rightarrow> w | Inr (_, s') \<Rightarrow> s') else None) = Some w')
      (Finish (map_sum (\<lambda>e. e) fst (?f w))) ?Q"
    proof (rule triple_before [OF triple_finish [OF _ stable [of "map_sum (\<lambda>e. e) fst (?f w)"]]])
      fix w' assume "service_inv cf w \<and> without_lock c w \<and>
        (if True then Some (case ?f w of Inl _ \<Rightarrow> w | Inr (_, s') \<Rightarrow> s') else None) = Some w'"
      with moved [of w] show "?Q (map_sum (\<lambda>e. e) fst (?f w)) w'" by (cases "?f w") auto
    qed
  qed
qed

section \<open>Enqueue\<close>

lemma target_keeps: "keeps cf c (without_lock c) (plugin_delivery_codex_app_server_target cf c ident target thread)"
  unfolding plugin_delivery_codex_app_server_target_def by (intro call_rules)

lemma stale_accept_keeps: "keeps cf c (without_lock c) (replay_stale_accept cf ident r enqueue attempt_id now)"
  unfolding replay_stale_accept_def
  by (intro call_rules store_call_keeps) (auto dest: store_step.unknown_codex)

lemma try_triple:
  assumes "triple cf c (without_lock c) p (case_sum (\<lambda>_. without_lock c) Q)"
    and "\<And>x. triple cf c (Q x) (g x) (\<lambda>_. without_lock c)"
  shows "keeps cf c (without_lock c) (try_prog p g)"
  unfolding keeps_def by (rule triple_try [OF assms]) (auto dest: lock_kept)

lemma start_attempt_fields:
  "triple cf c (ready_to_start c (a_attempt_id pending)) (start_plugin_delivery_attempt cf codec c ident
     \<lparr>sc_request = r, sc_target = target, sc_enqueue = enqueue, sc_pending_attempt = pending, sc_marker = marker\<rparr>)
     (\<lambda>_. without_lock c)"
  using start_attempt_triple [where sc = "\<lparr>sc_request = r, sc_target = target, sc_enqueue = enqueue,
      sc_pending_attempt = pending, sc_marker = marker\<rparr>"] by simp

lemma give_triple: "triple cf c (without_lock c) (give x) (\<lambda>_. without_lock c)"
  using free_rules(1) [unfolded keeps_def] .

lemma ready_give: "triple cf c (ready_to_start c a) (give x) (\<lambda>_. without_lock c)"
  by (rule triple_before [OF give_triple]) (simp add: ready_to_start_def)

lemma start_again:
  "keeps cf c (without_lock c) (try_prog (refresh_plugin_delivery_enqueue_record cf ident enqueue) (\<lambda>e. give (f e)))"
  by (intro call_rules)

lemma replay_start_keeps: "keeps cf c (without_lock c) (replay_start cf codec c ident r enqueue ordinal now)"
  unfolding replay_start_def Let_def
  apply (rule keeps_try [OF settled_lock target_keeps], rule try_triple [OF begin_call_triple])
  subgoal by (auto dest: store_step.begin_codex)
  subgoal by (auto simp: begin_codex_app_server_accept_pending_attempt_with_created_def
        dest: begin_codex_fresh split: prod.splits if_splits)
  subgoal for target x by (cases x) (auto simp: start_again [unfolded keeps_def] start_attempt_fields)
  done

lemma replay_enqueue_keeps: "keeps cf c (without_lock c) (replay_enqueue cf codec c ident r enqueue)"
  unfolding replay_enqueue_def
  by (intro call_rules) (auto split: replay_action.split intro: call_rules stale_accept_keeps replay_start_keeps)

lemma first_enqueue_keeps: "keeps cf c (without_lock c) (first_enqueue cf codec c ident r)"
  unfolding first_enqueue_def Let_def
  apply (rule keeps_try [OF settled_lock target_keeps], rule keeps_try [OF settled_lock clock_keeps],
      rule keeps_try [OF settled_lock free_rules(3)], rule try_triple [OF begin_call_triple])
  subgoal by (auto dest: store_step.enqueue_plugin)
  subgoal by (auto dest: enqueue_codex_fresh split: prod.splits)
  subgoal for target now artifact x
    by (cases x) (auto simp: start_attempt_fields ready_give give_triple split: option.split)
  done

lemma enqueue_keeps: "keeps cf c (without_lock c) (enqueue_plugin_delivery cf codec c ident r)"
  unfolding enqueue_plugin_delivery_def
  by (intro call_rules) (auto split: option.split intro: replay_enqueue_keeps first_enqueue_keeps)

section \<open>The other methods\<close>

lemma inspect_selected_keeps: "keeps cf c (without_lock c) (inspect_selected cf ident r)"
  unfolding inspect_selected_def by (rule store_read_keeps)

lemma reconcile_keeps: "keeps cf c (without_lock c) (reconcile_tracked_turn cf c ident r inspect lease_id attempt)"
  unfolding reconcile_tracked_turn_def
  by (intro call_rules)
    (auto split: option.split intro!: call_rules store_call_keeps inspect_selected_keeps ask_keeps
      r_into_rtranclp store_step.observe_codex)

lemma inspect_keeps: "keeps cf c (without_lock c) (inspect_delivery cf c ident r)"
proof -
  have event: "keeps cf c (without_lock c) (case (iq_app_server_lease_id r, plugin_delivery_tracking_attempt (pi_attempts inspect)) of
         (Some lease_id, Some attempt) \<Rightarrow> reconcile_tracked_turn cf c ident r inspect lease_id attempt
       | _ \<Rightarrow> give (inspect, None))" for inspect
    by (auto split: option.split intro: reconcile_keeps call_rules)
  show ?thesis unfolding inspect_delivery_def
    by (intro call_rules inspect_selected_keeps event) (auto split: prod.split intro: call_rules)
qed

lemma manualize_keeps: "keeps cf c (without_lock c) (manualize_delivery cf ident r)"
  unfolding manualize_delivery_def Let_def
  by (intro call_rules store_call_keeps)
    (auto dest: store_step.manualize_plugin split: list.split prod.split intro!: call_rules)

lemma mapping_keeps: "keeps cf c (without_lock c) p \<Longrightarrow> keeps cf c (without_lock c) (mapping f p)"
  unfolding mapping_def by (intro call_rules)

lemma answered_keeps:
  "(\<And>r. keeps cf c (without_lock c) (f r)) \<Longrightarrow> keeps cf c (without_lock c) (answered cf ident method parsed f)"
  unfolding answered_def by (intro call_rules) (auto split: sum.split intro: call_rules)

lemmas frame_defs = handle_plugin_health_update_frame_def handle_plugin_app_server_ensure_frame_def
  handle_plugin_app_server_refresh_frame_def handle_plugin_app_server_stop_frame_def
  handle_plugin_delivery_enqueue_frame_def handle_plugin_delivery_inspect_frame_def
  handle_plugin_delivery_manualize_frame_def

lemma frame_keeps: "keeps cf c (without_lock c) (handle_plugin_runtime_frame cf codec c ident frame)"
  unfolding handle_plugin_runtime_frame_def Let_def frame_defs
  by (simp add: answered_keeps mapping_keeps sender_section_keeps ensure_lease_keeps refresh_lease_keeps
      stop_lease_keeps enqueue_keeps inspect_keeps manualize_keeps free_rules)

section \<open>The service\<close>

definition initial_world :: "db \<Rightarrow> service_state \<Rightarrow> world" where
  "initial_world d st = \<lparr>w_store = d, w_service = st, w_leases = \<lambda>_. None, w_registry_lock = None,
     w_connections = \<lambda>_. \<lparr>cn_leases = \<lambda>_. None, cn_seen_targets = \<lambda>_. None\<rparr>, w_log = []\<rparr>"

definition service_run ::
    "service_config \<Rightarrow> service_codec \<Rightarrow> db \<Rightarrow> service_state \<Rightarrow>
      (nat \<Rightarrow> (world, query, answer, (rpc_error + service_response) option) prog) \<Rightarrow> world \<Rightarrow> bool" where
  "service_run cf codec d st pool w \<longleftrightarrow>
     system_run remember_query service_outside (connection_call cf codec) (\<lambda>_. Finish None, initial_world d st) (pool, w)"

lemma connection_call_ok:
  assumes "connection_call cf codec c w p" "service_inv cf w" "without_lock c w"
  shows "service.ok cf c (\<lambda>_. without_lock c) p w"
proof -
  have "keeps cf c (without_lock c) p \<or> service_ok cf c (\<lambda>_. without_lock c) p w"
    using assms(1)
  proof (cases rule: connection_call.cases)
    case (next_frame ident frame)
    then show ?thesis using frame_keeps free_rules(4,5) by (metis keeps_bind keeps_finish settled_lock)
  next
    case (connection_ends records)
    have "scoped_for cf key r" if "(key, r) \<in> set records" for key r
      using connection_ends(2) that inv_own [OF assms(2)] by (auto simp: scoped_for_def)
    note cleanup = cleanup_keeps [of records cf c, OF this]
    show ?thesis unfolding connection_ends(1)
      by (rule disjI1 [OF keeps_bind [OF cleanup keeps_finish [OF settled_lock]]])
  qed
  then show ?thesis using assms(2,3) unfolding keeps_def triple_def service_ok_def by blast
qed

lemma service_always_ok:
  assumes "reachable d" "service_run cf codec d st pool w"
  shows "service.all_ok cf pool w"
proof (rule service.all_ok_run [OF assms(2) [unfolded service_run_def]])
  have "service_inv cf (initial_world d st)"
    using assms(1) by (simp add: service_inv_def lease_ok_def log_ok_def initial_world_def own_log_def)
  then show "service.all_ok cf (\<lambda>_. Finish None) (initial_world d st)"
    by (auto simp: service.all_ok_def service.ok.simps without_lock_def initial_world_def service_rely_def)
qed (rule connection_call_ok)

lemma service_reachable_inv: "reachable d \<Longrightarrow> service_run cf codec d st pool w \<Longrightarrow> service_inv cf w"
  using service_always_ok by (simp add: service.all_ok_def)

text \<open>
  C2: However the connections are interleaved, a turn is started at most once for a delivery attempt, only
  by the connection whose transaction created the attempt, and after that; the attempt is in the store.
\<close>

theorem turn_is_started_once:
  assumes "reachable d" and "service_run cf codec d st pool w"
  shows "distinct (started (w_log w)) \<and> set (started (w_log w)) \<subseteq> attempt_ids (w_store w) \<and>
    (\<forall>c. set (started (own_log c (w_log w))) \<subseteq> set (began (own_log c (w_log w)))) \<and> distinct (began (w_log w))"
proof -
  have log: "log_ok (w_store w) (w_log w)" using service_reachable_inv [OF assms] by (simp add: service_inv_def)
  have "a \<in> set (began (w_log w))" if "a \<in> set (started (w_log w))" for a
  proof -
    from iffD1 [OF started_set that] obtain c where "a \<in> set (started (own_log c (w_log w)))" ..
    with log have "Began c a \<in> set (w_log w)" unfolding log_ok_def in_own_log [symmetric] by blast
    then show ?thesis using began_set by metis
  qed
  with log show ?thesis unfolding log_ok_def by blast
qed

text \<open>
  C28: A connection asks a daemon to stop a lease only while it has the lock of the registry and no other
  connection has the lease.
\<close>

theorem stop_only_by_last_holder:
  assumes "reachable d" and "service_run cf codec d st pool w"
    and "pool c = Ask (DaemonRequest endpoint ''cli_app_server_stop'' payload) k"
  shows "w_registry_lock w = Some c \<and> (\<exists>key r. payload = stop_payload r \<and>
    lr_scoped_lease_id r = scoped_of_key cf key \<and>
    nobody_else_holds c key w)"
proof -
  have "service.all_ok cf pool w" by (rule service_always_ok [OF assms(1,2)])
  then have "service.ok cf c (\<lambda>_. without_lock c) (pool c) w" "service_inv cf w" by (simp_all add: service.all_ok_def)
  from service.ok_ask [OF this(1) [unfolded assms(3)] this(2)] show ?thesis by (simp add: may_stop_def)
qed

text \<open>
  C29: What a connection believes to hold the registry has, for the same session, thread and epoch, with
  the connection among its holders.
\<close>

theorem held_lease_is_registered:
  assumes "reachable d" and "service_run cf codec d st pool w"
    and "cn_leases (w_connections w c) key = Some r"
  shows "\<exists>s. w_leases w key = Some s \<and> c \<in> holders s \<and> lr_target s = lr_target r \<and>
    lr_scoped_lease_id s = lr_scoped_lease_id r"
  using inv_own [OF service_reachable_inv [OF assms(1,2)] assms(3)] inv_shared [OF service_reachable_inv [OF assms(1,2)]]
  by metis

end
