(* ===== verification/Cbth_ServiceScenario.thy ===== *)
theory Cbth_ServiceScenario
  imports Cbth_TurnOnce
begin

text \<open>
  A run of the service with one plugin connection: it ensures a lease, enqueues a delivery whose turn is
  started, and is about to have the lease stopped. The theorems of \<open>Cbth_TurnOnce\<close> are applied to it.
\<close>

section \<open>Running one connection\<close>

text \<open>The steps of a call that gets its answers from \<open>reply\<close> while the others wait.\<close>

fun drive ::
    "nat \<Rightarrow> nat \<Rightarrow> (query \<Rightarrow> answer) \<Rightarrow> (world, query, answer, 'r) prog \<Rightarrow> world \<Rightarrow> (world, query, answer, 'r) prog \<times> world" where
  "drive 0 c reply p w = (p, w)"
| "drive (Suc n) c reply (Finish r) w = (Finish r, w)"
| "drive (Suc n) c reply (Atomic f k) w =
     (case f w of None \<Rightarrow> (Atomic f k, w) | Some w' \<Rightarrow> drive n c reply (k w) w')"
| "drive (Suc n) c reply (Ask q k) w = drive n c reply (k (reply q)) (remember_query c q w)"

definition reaches ::
    "nat \<Rightarrow> (world, query, answer, 'r) prog \<Rightarrow> world \<Rightarrow> (world, query, answer, 'r) prog \<Rightarrow> world \<Rightarrow> bool" where
  "reaches c p w p' w' \<longleftrightarrow> (\<lambda>(p, w) (p', w'). prog_step (remember_query c) p w p' w')\<^sup>*\<^sup>* (p, w) (p', w')"

fun outcome :: "('s, 'q, 'a, 'r) prog \<Rightarrow> 'r option" where
  "outcome (Finish r) = Some r"
| "outcome _ = None"

lemma drive_reaches: "drive n c reply p w = (p', w') \<Longrightarrow> reaches c p w p' w'"
  unfolding reaches_def
proof (induction n c reply p w rule: drive.induct)
  case (3 n c reply f k w)
  then show ?case
    by (auto split: option.splits intro: converse_rtranclp_into_rtranclp step_atomic)
next
  case (4 n c reply q k w)
  then show ?case by (auto intro: converse_rtranclp_into_rtranclp step_ask)
qed auto

lemma reaches_end:
  assumes "outcome (fst (drive n c reply p w)) = Some r"
  shows "reaches c p w (Finish r) (snd (drive n c reply p w))"
proof -
  obtain q v where d: "drive n c reply p w = (q, v)" by (cases "drive n c reply p w")
  with assms have "q = Finish r" by (cases q) simp_all
  with drive_reaches [OF d] d show ?thesis by simp
qed

lemma reaches_refl: "reaches c p w p w"
  by (simp add: reaches_def)

lemma reaches_trans: "reaches c p w p' w' \<Longrightarrow> reaches c p' w' p'' w'' \<Longrightarrow> reaches c p w p'' w''"
  unfolding reaches_def by (rule rtranclp_trans)

lemma step_in_bind: "prog_step r p w p' w' \<Longrightarrow> prog_step r (bind_prog p g) w (bind_prog p' g) w'"
  by (cases rule: prog_step.cases) (auto intro: prog_step.intros)

lemma reaches_in_bind: "reaches c p w p' w' \<Longrightarrow> reaches c (bind_prog p g) w (bind_prog p' g) w'"
  unfolding reaches_def
proof (induction "(p', w')" arbitrary: p' w' rule: rtranclp_induct)
  case (step y)
  obtain q v where y: "y = (q, v)" by (cases y)
  with step have "prog_step (remember_query c) (bind_prog q g) v (bind_prog p' g) w'" by (simp add: step_in_bind)
  with step(3) [OF y] show ?case by (simp add: rtranclp.rtrancl_into_rtrancl)
qed simp

lemma reaches_bind:
  assumes "reaches c p w (Finish r) v" "reaches c (g r) v p' w'"
  shows "reaches c (bind_prog p g) w p' w'"
  using reaches_trans [OF reaches_in_bind [OF assms(1), of g]] assms(2) by simp

lemma reaches_try:
  assumes "reaches c p w (Finish (Inr x)) v" "reaches c (g x) v p' w'"
  shows "reaches c (try_prog p g) w p' w'"
  unfolding try_prog_def by (rule reaches_bind [OF assms(1)]) (use assms(2) in simp)

lemma reaches_checked: "r = Inr x \<Longrightarrow> reaches c (g x) w p' w' \<Longrightarrow> reaches c (try_prog (checked r) g) w p' w'"
  by (simp add: checked_def try_prog_def)

lemma run_call:
  assumes "service_run cf codec d st pool w" "pool c = Finish r" "connection_call cf codec c w p" "reaches c p w p' w'"
  shows "service_run cf codec d st (pool(c := p')) w'"
proof -
  let ?step = "system_step remember_query service_outside (connection_call cf codec)"
  have "?step\<^sup>*\<^sup>* (pool(c := p), w) (pool(c := p'), w')"
    using assms(4) [unfolded reaches_def]
  proof (induction "(p', w')" arbitrary: p' w' rule: rtranclp_induct)
    case (step y)
    obtain q v where y: "y = (q, v)" by (cases y)
    from thread_runs [of remember_query c "pool(c := q)" v p' w'] step(2) y
    have "?step (pool(c := q), v) (pool(c := p'), w')" by simp
    with step(3) [OF y] show ?case by (rule rtranclp.rtrancl_into_rtrancl)
  qed simp
  moreover have "?step (pool, w) (pool(c := p), w)" using assms(2,3) by (rule call_starts)
  ultimately show ?thesis
    using assms(1) unfolding service_run_def system_run_def
    by (meson rtranclp.rtrancl_into_rtrancl rtranclp_trans)
qed

section \<open>The scenario\<close>

definition demo_config :: service_config where
  "demo_config = \<lparr>cf_sha256 = (\<lambda>bytes. replicate 32 (word_of_nat (length bytes))), cf_default_endpoint = ''d0'',
     cf_home = ''h'', cf_json_text = (\<lambda>_. ''{}''), cf_json_pretty = (\<lambda>_. ''{}''), cf_store_text = (\<lambda>_. ''store''),
     cf_error_text = (\<lambda>_. ''plugin''), cf_manifest_written = (\<lambda>_. True)\<rparr>"

definition demo_ident :: connection_identity where
  "demo_ident = \<lparr>ci_plugin_name = ''p'', ci_pid = 7, ci_instance_id = ''i1''\<rparr>"

definition demo_ensure :: ensure_request where
  "demo_ensure = \<lparr>er_managed_session_id = ''s1'', er_bound_thread_id = ''t1'', er_session_epoch = 1,
     er_codex_binary = ''c'', er_lease_id = ''l1'', er_lease_ttl_seconds = None\<rparr>"

definition demo_enqueue :: enqueue_request where
  "demo_enqueue = \<lparr>eq_source_thread_id = ''t1'', eq_summary = ''s'', eq_idempotency_key = ''k1'',
     eq_inline_payload = Some JNull, eq_artifact = None, eq_delivery_policy = None, eq_max_delivery_attempts = None,
     eq_redelivery_window_seconds = None,
     eq_target = \<lparr>rt_driver = ''codex_app_server'', rt_app_server_lease_id = Some ''l1'', rt_managed_session_id = None,
       rt_session_epoch = None\<rparr>,
     eq_plugin_metadata = None\<rparr>"

definition demo_codec :: service_codec where
  "demo_codec = \<lparr>parse_ensure = (\<lambda>_. Inr demo_ensure), parse_refresh = (\<lambda>_. Inl ''''),
     parse_stop = (\<lambda>_. Inr \<lparr>st_managed_session_id = ''s1'', st_lease_id = ''l1''\<rparr>),
     parse_enqueue = (\<lambda>_. Inr demo_enqueue), parse_inspect = (\<lambda>_. Inl ''''), parse_manualize = (\<lambda>_. Inl ''''),
     metadata_value = (\<lambda>_. JNull)\<rparr>"

definition demo_reply :: "query \<Rightarrow> answer" where
  "demo_reply q = \<lparr>an_endpoint = Inr (''d1'', JNull),
     an_daemon = Inr (JObject [(''cli_app_server'', JObject [(''url'', JString ''u'')])]),
     an_store = Inr (), an_now = Inr 100, an_waited = StillRunning, an_instant = 0, an_turn = Inr ''turn1'',
     an_event = Inr None\<rparr>"

definition demo_plugin :: supervised_plugin where
  "demo_plugin =
     (let p = new_supervised_plugin ''h'' \<lparr>mf_name = ''p'', mf_executable_path = ''/p'', mf_args = [], mf_enabled = True,
        mf_release_id = None, mf_capabilities = [], mf_restart = \<lparr>initial_delay_ms = 1, max_delay_ms = 2, max_crashes = 1\<rparr>, mf_environment = []\<rparr> 0 0
      in p\<lparr>process := Some 7, plugin_status := (plugin_status p)\<lparr>ps_instance_id := Some ''i1''\<rparr>\<rparr>)"

definition demo_state :: service_state where
  "demo_state = \<lparr>service_home = ''h'', service_plugins = [(''p'', demo_plugin)], service_dirty = False\<rparr>"

definition demo_frame :: "string \<Rightarrow> request_frame" where
  "demo_frame method = \<lparr>rf_jsonrpc = ''2.0'', rf_id = ''r'', rf_method = method, rf_params = JNull\<rparr>"

definition demo_sender :: "unit call" where
  "demo_sender = sender_section demo_config demo_ident (validate_current_plugin_connection demo_ident)"

abbreviation demo_after :: "(world, query, answer, 'r) prog \<Rightarrow> world \<Rightarrow> world" where
  "demo_after p w \<equiv> snd (drive 60 0 demo_reply p w)"

abbreviation demo_outcome :: "(world, query, answer, 'r) prog \<Rightarrow> world \<Rightarrow> 'r option" where
  "demo_outcome p w \<equiv> outcome (fst (drive 60 0 demo_reply p w))"

definition leased0 :: world where "leased0 = demo_after demo_sender (initial_world empty_db demo_state)"
definition leased :: world where "leased = demo_after (ensure_lease demo_config 0 demo_ident demo_ensure) leased0"

lemma leased0_eval: "demo_outcome demo_sender (initial_world empty_db demo_state) = Some (Inr ())"
  by code_simp


lemma leased_eval: "map_option is_ok (demo_outcome (ensure_lease demo_config 0 demo_ident demo_ensure) leased0) = Some True"
  by code_simp

definition sent :: world where "sent = demo_after demo_sender leased"

lemma sent_eval: "demo_outcome demo_sender leased = Some (Inr ())"
  by code_simp

definition demo_target :: delivery_target where
  "demo_target = \<lparr>dt_plugin_lease_id = ''l1'', dt_target = plugin_app_server_lease_target demo_ensure, dt_url = ''u''\<rparr>"

abbreviation demo_target_call :: "delivery_target call" where
  "demo_target_call \<equiv> plugin_delivery_codex_app_server_target demo_config 0 demo_ident (eq_target demo_enqueue) ''t1''"

definition opened :: world where "opened = demo_after open_store sent"

abbreviation demo_lookup :: "plugin_enqueue_record option call" where
  "demo_lookup \<equiv> store_read demo_config (\<lambda>d. replay_plugin_delivery_enqueue d (ci_plugin_name demo_ident)
     (eq_idempotency_key demo_enqueue) (plugin_delivery_request_fingerprint demo_config demo_enqueue))"

definition looked :: world where "looked = demo_after demo_lookup opened"
definition targeted :: world where "targeted = demo_after demo_target_call looked"
definition timed :: world where "timed = demo_after clock targeted"

lemma enqueue_evals:
  "validate_plugin_delivery_enqueue_request demo_config demo_enqueue = Inr ()"
  "demo_outcome open_store sent = Some (Inr ())" "demo_outcome demo_lookup opened = Some (Inr None)"
  "demo_outcome demo_target_call looked = Some (Inr demo_target)" "demo_outcome clock targeted = Some (Inr 100)"
  "plugin_delivery_artifact_input (eq_artifact demo_enqueue) 100 = Inr None"
  by code_simp+

definition demo_attempt :: new_codex_attempt where
  "demo_attempt = pending_attempt_request demo_config demo_ident (eq_idempotency_key demo_enqueue)
     (np_batch_id (new_delivery demo_config demo_ident demo_enqueue demo_target None 100)) demo_target 1 100"

abbreviation demo_begin :: "(plugin_enqueue_record \<times> attempt_row option) call" where
  "demo_begin \<equiv> begin_call demo_config 0 (\<lambda>(enqueue, pending). map_option a_attempt_id pending)
     (enqueue_plugin_delivery_with_codex_app_server_attempt_if_head
       (new_delivery demo_config demo_ident demo_enqueue demo_target None 100) demo_attempt)"

definition begun :: world where "begun = demo_after demo_begin timed"

lemma begun_eval:
  "(case demo_outcome demo_begin timed of Some (Inr (enqueue, Some pending)) \<Rightarrow> pe_created enqueue | _ \<Rightarrow> False)"
  by code_simp

lemma begun_log: "started (w_log begun) = []"
  by code_simp

text \<open>The connection has the lock and is about to ask for the stop.\<close>

definition stopping :: "json call \<times> world" where
  "stopping = drive 5 0 demo_reply (stop_lease demo_config 0 demo_ident
     \<lparr>st_managed_session_id = ''s1'', st_lease_id = ''l1''\<rparr>) sent"

fun asks_stop :: "(world, query, answer, 'r) prog \<Rightarrow> bool" where
  "asks_stop (Ask (DaemonRequest endpoint command payload) k) = (command = ''cli_app_server_stop'')"
| "asks_stop _ = False"

lemma stopping_eval: "asks_stop (fst stopping)"
  by code_simp

lemma stopping_lock: "w_registry_lock (snd stopping) = Some 0"
  by code_simp

section \<open>Its runs\<close>

lemma demo_answered:
  assumes "reaches 0 demo_sender w (Finish (Inr ())) v" "reaches 0 (f r) v p' w'"
  shows "reaches 0 (answered demo_config demo_ident method (Inr r) f) w p' w'"
  unfolding answered_def by (rule reaches_try [OF assms(1) [unfolded demo_sender_def]]) (simp add: assms(2))

lemma demo_frames:
  "handle_plugin_runtime_frame demo_config demo_codec 0 demo_ident (demo_frame ''app_server.ensure'') =
     answered demo_config demo_ident ''app_server.ensure'' (Inr demo_ensure) (\<lambda>r. mapping LeaseResponse (ensure_lease demo_config 0 demo_ident r))"
  "handle_plugin_runtime_frame demo_config demo_codec 0 demo_ident (demo_frame ''app_server.stop'') =
     answered demo_config demo_ident ''app_server.stop'' (Inr \<lparr>st_managed_session_id = ''s1'', st_lease_id = ''l1''\<rparr>)
       (\<lambda>r. mapping LeaseResponse (stop_lease demo_config 0 demo_ident r))"
  "handle_plugin_runtime_frame demo_config demo_codec 0 demo_ident (demo_frame ''delivery.enqueue'') =
     answered demo_config demo_ident ''delivery.enqueue'' (Inr demo_enqueue)
       (\<lambda>r. mapping EnqueueResponse (enqueue_plugin_delivery demo_config demo_codec 0 demo_ident r))"
  by (simp_all add: handle_plugin_runtime_frame_def frame_defs demo_frame_def demo_codec_def)

definition demo_pool :: "nat \<Rightarrow> (world, query, answer, (rpc_error + service_response) option) prog" where
  "demo_pool = (\<lambda>_. Finish None)"

lemma demo_start: "service_run demo_config demo_codec empty_db demo_state demo_pool (initial_world empty_db demo_state)"
  by (simp add: service_run_def system_run_def demo_pool_def)

lemma leased_run:
  "\<exists>r. service_run demo_config demo_codec empty_db demo_state (demo_pool(0 := Finish r)) leased"
proof -
  obtain x where x: "demo_outcome (ensure_lease demo_config 0 demo_ident demo_ensure) leased0 = Some (Inr x)"
    using leased_eval by (auto simp: is_ok_iff)
  have "reaches 0 (mapping LeaseResponse (ensure_lease demo_config 0 demo_ident demo_ensure)) leased0
      (Finish (Inr (LeaseResponse x))) leased"
    unfolding mapping_def leased_def
    by (rule reaches_try [OF reaches_end [OF x]]) (simp add: give_def reaches_refl)
  from demo_answered [OF reaches_end [OF leased0_eval, folded leased0_def], of "\<lambda>r. mapping LeaseResponse (ensure_lease demo_config 0 demo_ident r)", OF this]
  have "reaches 0 (handle_plugin_runtime_frame demo_config demo_codec 0 demo_ident (demo_frame ''app_server.ensure''))
      (initial_world empty_db demo_state) (Finish (Inr (LeaseResponse x))) leased"
    unfolding demo_frames .
  from reaches_bind [OF this reaches_refl]
    run_call [OF demo_start _ next_frame, of 0 None demo_ident "demo_frame ''app_server.ensure''"]
  show ?thesis unfolding demo_pool_def by simp blast
qed

text \<open>A frame of a connection that waits for one.\<close>

lemma demo_next:
  assumes "reaches 0 (handle_plugin_runtime_frame demo_config demo_codec 0 demo_ident frame) leased p w"
  shows "service_run demo_config demo_codec empty_db demo_state
    (demo_pool(0 := bind_prog p (\<lambda>r. Finish (Some r)))) w"
proof -
  obtain r where run: "service_run demo_config demo_codec empty_db demo_state (demo_pool(0 := Finish r)) leased"
    using leased_run by blast
  from run_call [OF run _ next_frame reaches_in_bind [OF assms]] show ?thesis by simp
qed

definition begun_pending :: attempt_row where
  "begun_pending = (case demo_outcome demo_begin timed of Some (Inr (_, Some pending)) \<Rightarrow> pending)"

lemma started_run:
  "\<exists>pool prompt. service_run demo_config demo_codec empty_db demo_state pool
     (remember_query 0 (StartTurn (a_attempt_id begun_pending) demo_target ''t1'' prompt) begun)"
proof -
  obtain enqueue where b: "demo_outcome demo_begin timed = Some (Inr (enqueue, Some begun_pending))" "pe_created enqueue"
    using begun_eval unfolding begun_pending_def by (auto split: option.splits sum.splits prod.splits)
  define sc where "sc = \<lparr>sc_request = demo_enqueue, sc_target = demo_target, sc_enqueue = enqueue,
    sc_pending_attempt = begun_pending, sc_marker = nx_delivery_rpc_correlation_marker demo_attempt\<rparr>"
  define prompt where "prompt = build_plugin_delivery_prompt demo_config
    (metadata_value demo_codec (j_metadata_json (pe_job enqueue))) enqueue demo_enqueue demo_target (sc_marker sc)"
  let ?w = "remember_query 0 (StartTurn (a_attempt_id begun_pending) demo_target ''t1'' prompt) begun"
  have frame: "validate_plugin_delivery_turn_start_frame_size demo_config ''t1'' prompt = Inr ()"
    by (simp add: validate_plugin_delivery_turn_start_frame_size_def demo_config_def Let_def
        PLUGIN_DELIVERY_MAX_APP_SERVER_MESSAGE_BYTES_def require_def)
  have asked: "reaches 0 (Ask (StartTurn (a_attempt_id begun_pending) demo_target ''t1'' prompt) (\<lambda>a. Finish (an_turn a)))
      begun (Finish (an_turn (demo_reply Clock))) ?w"
    using drive_reaches [of 1 0 demo_reply "Ask (StartTurn (a_attempt_id begun_pending) demo_target ''t1'' prompt) (\<lambda>a. Finish (an_turn a))" begun]
    by (simp add: demo_reply_def)
  have "reaches 0 (start_turn demo_config sc prompt) begun (Finish (an_turn (demo_reply Clock))) ?w"
    unfolding start_turn_def Let_def
    by (rule reaches_checked) (use frame asked in \<open>simp_all add: sc_def demo_enqueue_def\<close>)
  from reaches_in_bind [OF this]
  have "\<exists>p. reaches 0 (start_plugin_delivery_attempt demo_config demo_codec 0 demo_ident sc) begun p ?w"
    unfolding start_plugin_delivery_attempt_def by (auto simp: sc_def prompt_def)
  then obtain p where p: "reaches 0 (start_plugin_delivery_attempt demo_config demo_codec 0 demo_ident sc) begun p ?w" by blast
  have thread: "eq_source_thread_id demo_enqueue = ''t1''" by (simp add: demo_enqueue_def)
  have first: "reaches 0 (first_enqueue demo_config demo_codec 0 demo_ident demo_enqueue) looked p ?w"
    unfolding first_enqueue_def Let_def thread
    by (rule reaches_try [OF reaches_end [OF enqueue_evals(4), folded targeted_def]],
        rule reaches_try [OF reaches_end [OF enqueue_evals(5), folded timed_def]],
        rule reaches_checked [OF enqueue_evals(6)],
        rule reaches_try [OF reaches_end [OF b(1), folded begun_def, unfolded demo_attempt_def]])
      (use b(2) p in \<open>simp add: sc_def demo_attempt_def\<close>)
  have "reaches 0 (enqueue_plugin_delivery demo_config demo_codec 0 demo_ident demo_enqueue) sent p ?w"
    unfolding enqueue_plugin_delivery_def
    by (rule reaches_checked [OF enqueue_evals(1)],
        rule reaches_try [OF reaches_end [OF enqueue_evals(2), folded opened_def]],
        rule reaches_try [OF reaches_end [OF enqueue_evals(3), folded looked_def]]) (simp add: first)
  from reaches_in_bind [OF this]
  have "\<exists>p. reaches 0 (mapping EnqueueResponse (enqueue_plugin_delivery demo_config demo_codec 0 demo_ident demo_enqueue)) sent p ?w"
    unfolding mapping_def try_prog_def by blast
  then obtain q where
    "reaches 0 (mapping EnqueueResponse (enqueue_plugin_delivery demo_config demo_codec 0 demo_ident demo_enqueue)) sent q ?w"
    by blast
  from demo_next [of "demo_frame ''delivery.enqueue''" q ?w] demo_answered [OF reaches_end [OF sent_eval, folded sent_def], of
      "\<lambda>r. mapping EnqueueResponse (enqueue_plugin_delivery demo_config demo_codec 0 demo_ident r)", OF this]
  show ?thesis unfolding demo_frames by blast
qed

theorem turn_is_started_once_witness:
  "\<exists>pool w a. service_run demo_config demo_codec empty_db demo_state pool w \<and> started (w_log w) = [a] \<and> a \<in> attempt_ids (w_store w) \<and> Began 0 a \<in> set (w_log w)"
proof -
  obtain pool prompt where run: "service_run demo_config demo_codec empty_db demo_state pool
     (remember_query 0 (StartTurn (a_attempt_id begun_pending) demo_target ''t1'' prompt) begun)" (is "service_run _ _ _ _ _ ?w")
    using started_run by blast
  have log: "w_log ?w = w_log begun @ [Asked 0 (StartTurn (a_attempt_id begun_pending) demo_target ''t1'' prompt)]"
    by (simp add: remember_query_def)
  have one: "started (w_log ?w) = [a_attempt_id begun_pending]"
    unfolding log started_append begun_log by simp
  have own: "a_attempt_id begun_pending \<in> set (started (own_log 0 (w_log ?w)))"
    unfolding log own_log_append started_append by (simp add: own_log_single)
  from turn_is_started_once [OF reachable.initial run] one own
  have "a_attempt_id begun_pending \<in> attempt_ids (w_store ?w)" "a_attempt_id begun_pending \<in> set (began (own_log 0 (w_log ?w)))"
    by auto
  with one run show ?thesis unfolding in_own_log by (intro exI conjI)
qed

theorem stop_only_by_last_holder_witness:
  "\<exists>pool w endpoint payload k key. service_run demo_config demo_codec empty_db demo_state pool w \<and>
     pool 0 = Ask (DaemonRequest endpoint ''cli_app_server_stop'' payload) k \<and> w_registry_lock w = Some 0 \<and>
     nobody_else_holds 0 key w"
proof -
  obtain endpoint payload k where ask: "fst stopping = Ask (DaemonRequest endpoint ''cli_app_server_stop'' payload) k"
    using stopping_eval by (cases "fst stopping" rule: asks_stop.cases) auto
  have "reaches 0 (stop_lease demo_config 0 demo_ident \<lparr>st_managed_session_id = ''s1'', st_lease_id = ''l1''\<rparr>) sent
      (fst stopping) (snd stopping)"
    unfolding stopping_def by (rule drive_reaches) simp
  from reaches_in_bind [OF this] obtain g where
    "reaches 0 (mapping LeaseResponse (stop_lease demo_config 0 demo_ident \<lparr>st_managed_session_id = ''s1'', st_lease_id = ''l1''\<rparr>))
      sent (bind_prog (fst stopping) g) (snd stopping)"
    unfolding mapping_def try_prog_def by blast
  from demo_next [of "demo_frame ''app_server.stop''" "bind_prog (fst stopping) g" "snd stopping"]
    demo_answered [OF reaches_end [OF sent_eval, folded sent_def], of
      "\<lambda>r. mapping LeaseResponse (stop_lease demo_config 0 demo_ident r)", OF this]
  have run: "service_run demo_config demo_codec empty_db demo_state
      (demo_pool(0 := bind_prog (bind_prog (fst stopping) g) (\<lambda>r. Finish (Some r)))) (snd stopping)" (is "service_run _ _ _ _ ?pool _")
    unfolding demo_frames by blast
  have pool: "?pool 0 = Ask (DaemonRequest endpoint ''cli_app_server_stop'' payload)
      (\<lambda>a. bind_prog (bind_prog (k a) g) (\<lambda>r. Finish (Some r)))" by (simp add: ask)
  from stop_only_by_last_holder [OF reachable.initial run pool] run pool show ?thesis by blast
qed

lemma leased_own: "cn_leases (w_connections leased 0) (plugin_app_server_lease_key demo_ident ''l1'') \<noteq> None"
proof -
  have "(case cn_leases (w_connections leased 0) (plugin_app_server_lease_key demo_ident ''l1'') of None \<Rightarrow> False | Some _ \<Rightarrow> True)"
    by code_simp
  then show ?thesis by (auto split: option.splits)
qed

theorem held_lease_is_registered_witness:
  "\<exists>s. w_leases leased (plugin_app_server_lease_key demo_ident ''l1'') = Some s \<and> 0 \<in> holders s"
proof -
  obtain r r' where "service_run demo_config demo_codec empty_db demo_state (demo_pool(0 := Finish r)) leased"
    "cn_leases (w_connections leased 0) (plugin_app_server_lease_key demo_ident ''l1'') = Some r'"
    using leased_run leased_own by blast
  from held_lease_is_registered [OF reachable.initial this] show ?thesis by blast
qed

end
