(* ===== verification/Cbth_Driver.thy ===== *)
theory Cbth_Driver
  imports Cbth_PluginService
begin

text \<open>
  The delivery driver of the service (\<open>CodexAppServerDeliveryDriver\<close> in \<open>src/service.rs\<close>): how it starts
  the turn of a plugin delivery at the app server and asks later what became of it, over the client of
  \<open>Cbth_AppClient\<close>. What its errors say about the turn decides whether the delivery may be given up.
\<close>

section \<open>Its environment\<close>

text \<open>
  The JSON codec, the network, the texts of errors and values that are printed, and the clock:
  \<open>dv_expired n i\<close> says whether the deadline of the request with number \<open>n\<close> has passed before its
  \<open>i\<close>-th message.
\<close>

record 'a driver_env =
  dv_to_vec :: "json \<Rightarrow> byte list"
  dv_parse_json :: "string \<Rightarrow> json option"
  dv_json_text :: "json \<Rightarrow> string"
  dv_ws_text :: "ws_error \<Rightarrow> string"
  dv_version :: string
  dv_resolve :: "string \<Rightarrow> nat \<Rightarrow> 'a list option"
  dv_ip_is_loopback :: "'a \<Rightarrow> bool"
  dv_try_connect :: "'a \<Rightarrow> client option"
  dv_expired :: "int \<Rightarrow> nat \<Rightarrow> bool"

section \<open>Errors\<close>

datatype request_error_kind = KindTimeout | KindRemote | KindClosed | KindProtocol

fun kind_of_request_error :: "request_error \<Rightarrow> request_error_kind" where
  "kind_of_request_error RequestTimeout = KindTimeout"
| "kind_of_request_error (RemoteError _) = KindRemote"
| "kind_of_request_error RequestClosed = KindClosed"
| "kind_of_request_error (RequestProtocol _) = KindProtocol"
| "kind_of_request_error RequestIdOverflow = KindProtocol"

fun request_error_message :: "'a driver_env \<Rightarrow> string \<Rightarrow> request_error \<Rightarrow> string" where
  "request_error_message dv meth RequestTimeout = ''timed out waiting for app-server response to '' @ meth"
| "request_error_message dv meth (RemoteError error) = ''app-server '' @ meth @ '' failed: '' @ dv_json_text dv error"
| "request_error_message dv meth RequestClosed = ''app-server closed while waiting for '' @ meth"
| "request_error_message dv meth (RequestProtocol e) = dv_ws_text dv e"
| "request_error_message dv meth RequestIdOverflow = ''app-server JSON-RPC request id overflow''"

fun request_error_kind_name :: "request_error_kind \<Rightarrow> string" where
  "request_error_kind_name KindTimeout = ''Timeout''"
| "request_error_kind_name KindRemote = ''Remote''"
| "request_error_kind_name KindClosed = ''Closed''"
| "request_error_kind_name KindProtocol = ''Protocol''"

definition request_error_text :: "'a driver_env \<Rightarrow> string \<Rightarrow> request_error \<Rightarrow> string" where
  "request_error_text dv meth e =
     request_error_kind_name (kind_of_request_error e) @ '': '' @ request_error_message dv meth e"

definition app_server_delivery_anyhow_error :: "string \<Rightarrow> rpc_error" where
  "app_server_delivery_anyhow_error message = rpc_failure TargetUnavailable message"

definition app_server_delivery_request_error :: "'a driver_env \<Rightarrow> string \<Rightarrow> request_error \<Rightarrow> rpc_error" where
  "app_server_delivery_request_error dv meth e =
     rpc_failure (case kind_of_request_error e of
         KindTimeout \<Rightarrow> TargetUnavailable
       | KindClosed \<Rightarrow> TargetUnavailable
       | KindRemote \<Rightarrow> PolicyBlocked
       | KindProtocol \<Rightarrow> TargetUnavailable)
       (request_error_text dv meth e)"

definition app_server_remote_error_message_is_unsupported_method :: "string \<Rightarrow> bool" where
  "app_server_remote_error_message_is_unsupported_method message \<longleftrightarrow>
     contains_any (map lower_char message) [''-32601'', ''method not found'', ''not supported'']"

definition app_server_error_is_unsupported_method :: "'a driver_env \<Rightarrow> string \<Rightarrow> request_error \<Rightarrow> bool" where
  "app_server_error_is_unsupported_method dv meth e \<longleftrightarrow>
     kind_of_request_error e = KindRemote \<and>
     app_server_remote_error_message_is_unsupported_method (request_error_message dv meth e)"

section \<open>Starting a turn\<close>

definition driver_request :: "'a driver_env \<Rightarrow> string \<Rightarrow> json \<Rightarrow> client \<Rightarrow> (request_error + json) \<times> client" where
  "driver_request dv meth params c =
     request (dv_to_vec dv) (dv_parse_json dv) (dv_expired dv (next_request_id c)) meth params c"

definition connect_plugin_delivery_app_server :: "'a driver_env \<Rightarrow> string \<Rightarrow> rpc_error + client" where
  "connect_plugin_delivery_app_server dv url =
     (case connect (dv_resolve dv) (dv_ip_is_loopback dv) (dv_try_connect dv) url of
        Inl e \<Rightarrow> Inl (app_server_delivery_anyhow_error (dv_ws_text dv e))
      | Inr (_, c) \<Rightarrow> Inr c)"

text \<open>Connect, \<open>initialize\<close> and \<open>initialized\<close>, before any request about a turn.\<close>

definition open_exchange :: "'a driver_env \<Rightarrow> string \<Rightarrow> rpc_error + client" where
  "open_exchange dv url =
     chain (connect_plugin_delivery_app_server dv url) (\<lambda>c.
     case initialize (dv_to_vec dv) (dv_parse_json dv) (dv_expired dv (next_request_id c)) (dv_version dv) c of
       (Inl e, _) \<Rightarrow> Inl (app_server_delivery_anyhow_error (request_error_text dv ''initialize'' e))
     | (Inr _, c) \<Rightarrow>
         case notify_initialized (dv_to_vec dv) c of
           (Inl e, _) \<Rightarrow> Inl (app_server_delivery_anyhow_error (dv_ws_text dv e))
         | (Inr _, c) \<Rightarrow> Inr c)"

definition parse_plugin_delivery_turn_start_id :: "json \<Rightarrow> string option" where
  "parse_plugin_delivery_turn_start_id result =
     or_else (or_else (and_then (json_get result ''turn'') (\<lambda>turn. and_then (json_get turn ''id'') json_as_str))
         (and_then (json_get result ''turnId'') json_as_str))
       (and_then (json_get result ''id'') json_as_str)"

definition start_codex_app_server_turn ::
    "'a driver_env \<Rightarrow> delivery_target \<Rightarrow> string \<Rightarrow> string \<Rightarrow> rpc_error + string" where
  "start_codex_app_server_turn dv target source_thread_id prompt =
     (case open_exchange dv (dt_url target) of
        Inl e \<Rightarrow> Inl (plugin_delivery_pre_turn_start_error e)
      | Inr c \<Rightarrow>
          case driver_request dv ''turn/start'' (plugin_delivery_turn_start_params source_thread_id prompt) c of
            (Inl e, _) \<Rightarrow> Inl (app_server_delivery_request_error dv ''turn/start'' e)
          | (Inr result, _) \<Rightarrow>
              ok_or (app_server_delivery_anyhow_error ''turn/start response did not include a turn id'')
                (parse_plugin_delivery_turn_start_id result))"

section \<open>What became of a turn\<close>

fun codex_app_server_event_for_turn_status :: "turn_status_snapshot \<Rightarrow> codex_turn_event" where
  "codex_app_server_event_for_turn_status TurnInProgress = EventStarted"
| "codex_app_server_event_for_turn_status TurnCompletedStatus = EventCompleted"
| "codex_app_server_event_for_turn_status TurnFailedStatus = EventFailed"
| "codex_app_server_event_for_turn_status TurnInterruptedStatus = EventInterrupted"
| "codex_app_server_event_for_turn_status TurnReplacedStatus = EventReplaced"

definition event_of_known_turn :: "turn_status_snapshot \<Rightarrow> codex_turn_event option" where
  "event_of_known_turn status =
     (if status = TurnInProgress then None else Some (codex_app_server_event_for_turn_status status))"

definition PLUGIN_DELIVERY_TURNS_LIST_RECONCILE_PAGE_SIZE :: int where
  "PLUGIN_DELIVERY_TURNS_LIST_RECONCILE_PAGE_SIZE = 64"

definition PLUGIN_DELIVERY_TURNS_LIST_RECONCILE_MAX_PAGES :: nat where
  "PLUGIN_DELIVERY_TURNS_LIST_RECONCILE_MAX_PAGES = 2"

definition turns_list_params :: "string \<Rightarrow> string option \<Rightarrow> json" where
  "turns_list_params source_thread_id cursor = JObject
     ([(''threadId'', JString source_thread_id), (''itemsView'', JString ''notLoaded''),
       (''limit'', json_int PLUGIN_DELIVERY_TURNS_LIST_RECONCILE_PAGE_SIZE), (''sortDirection'', JString ''desc'')] @
      (case cursor of None \<Rightarrow> [] | Some c \<Rightarrow> [(''cursor'', JString c)]))"

text \<open>
  The pages of the list of turns, newest first: \<open>Some r\<close> when a page decides, \<open>None\<close> when the loop is left
  without an answer.
\<close>

fun reconcile_turns_list ::
    "nat \<Rightarrow> 'a driver_env \<Rightarrow> string \<Rightarrow> string \<Rightarrow> string option \<Rightarrow> client \<Rightarrow>
      (rpc_error + codex_turn_event option) option \<times> client" where
  "reconcile_turns_list 0 dv source_thread_id delivery_turn_id cursor c = (None, c)"
| "reconcile_turns_list (Suc pages) dv source_thread_id delivery_turn_id cursor c =
     (case driver_request dv ''thread/turns/list'' (turns_list_params source_thread_id cursor) c of
        (Inr list, c) \<Rightarrow>
          (case thread_turns_list_turn_status list delivery_turn_id of
             TurnKnown status \<Rightarrow> (Some (Inr (event_of_known_turn status)), c)
           | TurnMissing \<Rightarrow>
               (case and_then (json_get list ''nextCursor'') json_as_str of
                  None \<Rightarrow> (None, c)
                | Some following \<Rightarrow>
                    reconcile_turns_list pages dv source_thread_id delivery_turn_id (Some following) c)
           | TurnUntrusted \<Rightarrow> (Some (Inl (rpc_failure TargetUnavailable
               ''thread/turns/list returned an untrusted turn snapshot'')), c))
      | (Inl e, c) \<Rightarrow>
          if app_server_error_is_unsupported_method dv ''thread/turns/list'' e then (None, c)
          else if kind_of_request_error e = KindTimeout then (Some (Inr None), c)
          else (Some (Inl (app_server_delivery_request_error dv ''thread/turns/list'' e)), c))"

definition thread_read_params :: "string \<Rightarrow> json" where
  "thread_read_params source_thread_id =
     JObject [(''threadId'', JString source_thread_id), (''includeTurns'', JBool True)]"

definition reconcile_thread_read ::
    "'a driver_env \<Rightarrow> string \<Rightarrow> string \<Rightarrow> client \<Rightarrow> rpc_error + codex_turn_event option" where
  "reconcile_thread_read dv source_thread_id delivery_turn_id c =
     (case fst (driver_request dv ''thread/read'' (thread_read_params source_thread_id) c) of
        Inr read \<Rightarrow>
          (case thread_result_turn_status read source_thread_id delivery_turn_id of
             TurnKnown status \<Rightarrow> Inr (event_of_known_turn status)
           | TurnMissing \<Rightarrow> Inr None
           | TurnUntrusted \<Rightarrow> Inl (rpc_failure TargetUnavailable ''thread/read returned an untrusted turn snapshot''))
      | Inl e \<Rightarrow>
          if kind_of_request_error e = KindTimeout then Inr None
          else Inl (app_server_delivery_request_error dv ''thread/read'' e))"

definition reconcile_codex_app_server_turn ::
    "'a driver_env \<Rightarrow> delivery_target \<Rightarrow> string \<Rightarrow> string \<Rightarrow> rpc_error + codex_turn_event option" where
  "reconcile_codex_app_server_turn dv target source_thread_id delivery_turn_id =
     chain (open_exchange dv (dt_url target)) (\<lambda>c.
     case reconcile_turns_list PLUGIN_DELIVERY_TURNS_LIST_RECONCILE_MAX_PAGES dv source_thread_id delivery_turn_id None c of
       (Some r, _) \<Rightarrow> r
     | (None, c) \<Rightarrow> reconcile_thread_read dv source_thread_id delivery_turn_id c)"

section \<open>Errors tell the truth\<close>

lemma request_error_never_pre_turn:
  "\<not> plugin_delivery_pre_turn_start (re_details (app_server_delivery_request_error dv meth e))"
  by (simp add: app_server_delivery_request_error_def rpc_failure_def plugin_delivery_pre_turn_start_def)

lemma request_error_blocked_iff:
  "re_kind (app_server_delivery_request_error dv meth e) = PolicyBlocked \<longleftrightarrow> (\<exists>error. e = RemoteError error)"
  by (cases e) (simp_all add: app_server_delivery_request_error_def rpc_failure_def)

lemma anyhow_error_not_definite:
  "\<not> plugin_delivery_start_error_is_definite_pre_accept (app_server_delivery_anyhow_error message)"
  by (simp add: plugin_delivery_start_error_is_definite_pre_accept_def app_server_delivery_anyhow_error_def
      rpc_failure_def plugin_delivery_pre_turn_start_def)

lemma request_error_definite_iff:
  "plugin_delivery_start_error_is_definite_pre_accept (app_server_delivery_request_error dv meth e) \<longleftrightarrow>
     (\<exists>error. e = RemoteError error)"
  by (simp add: plugin_delivery_start_error_is_definite_pre_accept_def request_error_never_pre_turn
      request_error_blocked_iff)

text \<open>
  When starting a turn fails in a way that lets the service give the delivery up (or queue it again),
  no turn was started: either the exchange failed before \<open>turn/start\<close> was asked for at all, or the server
  answered that very request with an error.
\<close>

theorem given_up_turn_was_not_started:
  assumes "start_codex_app_server_turn dv target thread prompt = Inl e"
    and "plugin_delivery_start_error_is_definite_pre_accept e \<or> plugin_delivery_start_error_is_retryable_pre_accept e"
  shows "(\<exists>failure. open_exchange dv (dt_url target) = Inl failure) \<or>
    (\<exists>c error c'. open_exchange dv (dt_url target) = Inr c \<and>
       driver_request dv ''turn/start'' (plugin_delivery_turn_start_params thread prompt) c = (Inl (RemoteError error), c'))"
proof (cases "open_exchange dv (dt_url target)")
  case (Inr c)
  have definite: "plugin_delivery_start_error_is_definite_pre_accept e"
    using assms(2) by (auto simp: plugin_delivery_start_error_is_retryable_pre_accept_def
        plugin_delivery_start_error_is_definite_pre_accept_def)
  obtain r c' where r: "driver_request dv ''turn/start'' (plugin_delivery_turn_start_params thread prompt) c = (r, c')"
    by (rule prod.exhaust)
  with assms(1) Inr definite have "\<exists>error. r = Inl (RemoteError error)"
    by (cases r) (auto simp: start_codex_app_server_turn_def request_error_definite_iff ok_or_def
        anyhow_error_not_definite split: option.splits)
  with Inr r show ?thesis by blast
qed simp

text \<open>An environment in which no host can be resolved, and a target whose URL is not accepted.\<close>

definition unreachable :: "unit driver_env" where
  "unreachable = \<lparr>dv_to_vec = \<lambda>_. [], dv_parse_json = \<lambda>_. None, dv_json_text = \<lambda>_. [], dv_ws_text = \<lambda>_. ''unreachable'',
     dv_version = ''1'', dv_resolve = \<lambda>_ _. None, dv_ip_is_loopback = \<lambda>_. True, dv_try_connect = \<lambda>_. None,
     dv_expired = \<lambda>_ _. False\<rparr>"

definition some_target :: delivery_target where
  "some_target = \<lparr>dt_plugin_lease_id = ''l'', dt_target = \<lparr>lt_managed_session_id = ''s'', lt_bound_thread_id = ''t'',
     lt_session_epoch = 1\<rparr>, dt_url = ''wss://localhost''\<rparr>"

theorem given_up_turn_was_not_started_witness:
  "start_codex_app_server_turn unreachable some_target ''t'' ''p'' \<noteq> Inr ''u'' \<and>
   ((\<exists>failure. open_exchange unreachable (dt_url some_target) = Inl failure) \<or>
    (\<exists>c error c'. open_exchange unreachable (dt_url some_target) = Inr c \<and>
       driver_request unreachable ''turn/start'' (plugin_delivery_turn_start_params ''t'' ''p'') c = (Inl (RemoteError error), c')))"
proof -
  have "open_exchange unreachable (dt_url some_target) = Inl (app_server_delivery_anyhow_error ''unreachable'')"
    by (simp add: open_exchange_def connect_plugin_delivery_app_server_def connect_def parse_ws_url_def
        strip_prefix_def unreachable_def some_target_def ok_or_def)
  then have failed: "start_codex_app_server_turn unreachable some_target ''t'' ''p'' =
      Inl (plugin_delivery_pre_turn_start_error (app_server_delivery_anyhow_error ''unreachable''))"
    by (simp add: start_codex_app_server_turn_def)
  moreover have "plugin_delivery_start_error_is_definite_pre_accept
      (plugin_delivery_pre_turn_start_error (app_server_delivery_anyhow_error ''unreachable''))"
    by (simp add: plugin_delivery_start_error_is_definite_pre_accept_def plugin_delivery_pre_turn_start_error_def
        with_details_def plugin_delivery_pre_turn_start_def stage_pre_turn_start_def)
  ultimately show ?thesis using given_up_turn_was_not_started [OF failed] by simp
qed

text \<open>The states of the client in an exchange: each request leads to the next.\<close>

inductive exchange_reaches :: "'a driver_env \<Rightarrow> client \<Rightarrow> client \<Rightarrow> bool" for dv c where
  opened: "exchange_reaches dv c c"
| asked: "exchange_reaches dv c d \<Longrightarrow> driver_request dv meth params d = (r, d') \<Longrightarrow> exchange_reaches dv c d'"

text \<open>What the request that decides was answered with.\<close>

definition reported_in :: "'a driver_env \<Rightarrow> client \<Rightarrow> string \<Rightarrow> string \<Rightarrow> turn_status_snapshot \<Rightarrow> bool" where
  "reported_in dv c thread turn status \<longleftrightarrow> (\<exists>d. exchange_reaches dv c d \<and>
     ((\<exists>cursor response d'. driver_request dv ''thread/turns/list'' (turns_list_params thread cursor) d = (Inr response, d') \<and>
         thread_turns_list_turn_status response turn = TurnKnown status) \<or>
      (\<exists>response d'. driver_request dv ''thread/read'' (thread_read_params thread) d = (Inr response, d') \<and>
         thread_result_turn_status response thread turn = TurnKnown status)))"

lemma turns_list_reaches:
  "exchange_reaches dv c d \<Longrightarrow> reconcile_turns_list pages dv thread turn cursor d = (r, d') \<Longrightarrow>
    exchange_reaches dv c d' \<and> (\<forall>ev. r = Some (Inr (Some ev)) \<longrightarrow>
      (\<exists>status. status \<noteq> TurnInProgress \<and> ev = codex_app_server_event_for_turn_status status \<and>
        reported_in dv c thread turn status))"
proof (induction pages dv thread turn cursor d arbitrary: r d' rule: reconcile_turns_list.induct)
  case (2 pages dv thread turn cursor d)
  obtain a d1 where a: "driver_request dv ''thread/turns/list'' (turns_list_params thread cursor) d = (a, d1)"
    by (rule prod.exhaust)
  have reach: "exchange_reaches dv c d1" using "2.prems"(1) a by (rule exchange_reaches.asked)
  show ?case
  proof (cases a)
    case (Inl e)
    with "2.prems"(2) a reach show ?thesis by (auto split: if_splits)
  next
    case (Inr response)
    show ?thesis
    proof (cases "thread_turns_list_turn_status response turn")
      case (TurnKnown status)
      have "reported_in dv c thread turn status"
        unfolding reported_in_def using "2.prems"(1) a Inr TurnKnown by blast
      with "2.prems"(2) a Inr TurnKnown reach show ?thesis by (auto simp: event_of_known_turn_def split: if_splits)
    next
      case TurnMissing
      with "2.prems"(2) a Inr reach "2.IH" [OF a [symmetric] Inr TurnMissing] show ?thesis
        by (auto split: option.splits)
    qed (use "2.prems"(2) a Inr reach in auto)
  qed
qed auto

text \<open>
  An event is reported for a turn only when, in this exchange, the server itself reported the turn with the
  status of the event, and not in progress.
\<close>

theorem reconciled_event_was_reported:
  assumes "reconcile_codex_app_server_turn dv target thread turn = Inr (Some ev)"
  shows "\<exists>c status. open_exchange dv (dt_url target) = Inr c \<and> reported_in dv c thread turn status \<and>
    status \<noteq> TurnInProgress \<and> ev = codex_app_server_event_for_turn_status status"
proof -
  from assms obtain c where c: "open_exchange dv (dt_url target) = Inr c"
    by (auto simp: reconcile_codex_app_server_turn_def)
  obtain r d where r: "reconcile_turns_list PLUGIN_DELIVERY_TURNS_LIST_RECONCILE_MAX_PAGES dv thread turn None c = (r, d)"
    by (rule prod.exhaust)
  note reach = turns_list_reaches [OF exchange_reaches.opened r]
  show ?thesis
  proof (cases r)
    case None
    with assms c r have read: "reconcile_thread_read dv thread turn d = Inr (Some ev)"
      by (simp add: reconcile_codex_app_server_turn_def)
    obtain a d' where a: "driver_request dv ''thread/read'' (thread_read_params thread) d = (a, d')" by (rule prod.exhaust)
    with read obtain response status where s: "a = Inr response" "status \<noteq> TurnInProgress"
        "thread_result_turn_status response thread turn = TurnKnown status"
        "ev = codex_app_server_event_for_turn_status status"
      by (auto simp: reconcile_thread_read_def event_of_known_turn_def
          split: sum.splits activity_or_turn.splits if_splits)
    then have "reported_in dv c thread turn status" unfolding reported_in_def using reach a by blast
    with c s show ?thesis by blast
  next
    case (Some result)
    with assms c r have "r = Some (Inr (Some ev))" by (simp add: reconcile_codex_app_server_turn_def)
    with reach c show ?thesis by blast
  qed
qed

end
