(* ===== verification/Spec2Isabelle.thy ===== *)
theory Spec2Isabelle
  imports Cbth_Outcomes Cbth_Lifecycle Cbth_Arming Cbth_Exchange Cbth_StartupCap Cbth_PluginWire Cbth_Supervision Cbth_ServiceScenario
    Cbth_Driver
begin

text \<open>
  A verification development for \<open>cbth\<close>, a daemon that runs background jobs for coding sessions and
  delivers their results to the thread that asked for them. The parts of the program and how they meet:
    \<^item> an SQLite store (\<open>src/store.rs\<close>, rows in \<open>src/models.rs\<close>) whose operations, each one transaction,
      everything else calls: jobs end and create batches, and delivery attempts carry the batches of a
      thread, one at a time and in order, back into the thread;
    \<^item> the desktop bridge and its transcript relay, a second way of delivery, also in the store;
    \<^item> the adapter of a managed CLI session (\<open>src/cli.rs\<close>), which starts the turns of deliveries with
      permissions pinned to those the user gave, over a websocket client of the app server
      (\<open>src/cli_app_server_client.rs\<close>);
    \<^item> the service (\<open>src/service.rs\<close>), which supervises plugin processes and serves, over framed RPC
      (\<open>src/plugin_rpc.rs\<close>) and one thread per connection, their leases on app servers and their deliveries.

  \<^bold>\<open>How the store is modelled.\<close> A table is the list of its rows in insertion order, a row is a record,
  a column with \<open>CHECK (c IN ..)\<close> is a datatype, and the store is the record \<open>db\<close> of its tables
  (\<open>Cbth_Model\<close>). An operation is a function from its parameters and a \<open>db\<close> to \<open>store_error + result \<times>
  db\<close>: \<open>Inl\<close> is an early return, after which SQLite rolls the transaction back, so the state is the
  one before; \<open>Inr\<close> is the committed state. \<open>Cbth_Prelude\<close> has the sequencing (\<open>chain\<close> is \<open>?\<close>), the
  SQL operations on row lists and \<open>i64\<close> arithmetic with its overflow errors.

  \<^bold>\<open>Definitions of the store\<close>, in the order of the calls:
    \<^item> \<open>Cbth_Tables\<close>: the checked inserts (PRIMARY KEY, UNIQUE, FOREIGN KEY), the lookups, the errors,
      the clamping of windows; the locale \<open>table\<close>, interpreted for each table.
    \<^item> \<open>Cbth_Queue\<close>: the queue of open batches of a thread and its head, exclusivity of active
      attempts, closing a batch, charging an attempt, artifact manifests.
    \<^item> \<open>Cbth_Jobs\<close>: jobs, supervised tasks and their artifacts; a job that ends creates its batch.
    \<^item> \<open>Cbth_Sessions\<close>: managed CLI sessions with their epochs, activity proof and permission snapshots.
    \<^item> \<open>Cbth_Delivery\<close>, \<open>Cbth_Cli\<close>, \<open>Cbth_AppServer\<close>: the life of a delivery attempt (begin, accept,
      reject, observe, expire), what the two adapters share and what is special to each.
    \<^item> \<open>Cbth_Plugin\<close>: idempotent plugin deliveries. \<open>Cbth_Sweep\<close>: expiry and garbage collection.
      \<open>Cbth_Lifecycle\<close>: the counters that let the daemon stop, and the audit log.
    \<^item> \<open>Cbth_Desktop\<close>: the desktop installation, bindings of threads to automations, arming in two steps.
      \<open>Cbth_Relay\<close>: the one-time markers of the transcript relay, their consumption and upkeep, the cursor
      of the scanner. \<open>Cbth_Ready\<close>: the snapshot of ready batches, which issues markers on the way.

  \<^bold>\<open>Proofs about the store.\<close>
    \<^item> \<open>Cbth_Protocol\<close> is the abstract specification: a step relation \<open>dstep\<close> on batches, attempts and
      sessions only, with its invariant \<open>dinv\<close>. \<open>Cbth_Refinement\<close>, \<open>Cbth_Operations\<close> and
      \<open>Cbth_DesktopSteps\<close> show that each operation of the store is a sequence of protocol steps, in which
      an attempt starts to wait for the desktop only in a thread that may be armed afresh (\<open>wsteps\<close>);
      \<open>Cbth_Store\<close> has \<open>store_step\<close>, one rule per operation that changes the store, and \<open>reachable\<close>.
    \<^item> \<open>Cbth_Frames\<close>: which tables an operation leaves alone. \<open>Cbth_Bridge\<close> and \<open>Cbth_BridgeSteps\<close>: the
      step relation \<open>bstep\<close> of the desktop tables, which every operation refines too.
    \<^item> \<open>Cbth_Scenario\<close>, \<open>Cbth_DesktopScenario\<close>: concrete reachable stores, on which witnesses evaluate.
    \<^item> \<open>Cbth_Safety\<close>, \<open>Cbth_DesktopSafety\<close>: what holds in every reachable store and along every run.
    \<^item> \<open>Cbth_Begin\<close>: exactly when a CLI attempt begins, and what it records. \<open>Cbth_Retry\<close>: repeating an
      operation (locale \<open>retryable\<close>). \<open>Cbth_Fifo\<close>: the queue of a thread as an abstract queue (locale
      \<open>fifo\<close>). \<open>Cbth_Outcomes\<close>: how an accepted turn ends. \<open>Cbth_Arming\<close>: arming desktop attempts.

  \<^bold>\<open>The client of the app server.\<close> \<open>Cbth_Json\<close> has JSON values, \<open>Cbth_WebSocket\<close> the handshake (with SHA-1
  and base64) and the frames, \<open>Cbth_AppClient\<close> URLs, connecting, requests and notifications. The socket is
  the bytes that can be read before the deadline and the number that can be written. \<open>Cbth_Wire\<close> and
  \<open>Cbth_Exchange\<close>: frames round-trip, reads are bounded, the digest is that of FIPS 180-4, connections are
  to the loopback device, and an answered request returns its answer, whatever messages and pings precede it.

  \<^bold>\<open>Permissions of delivered turns.\<close> \<open>Cbth_Paths\<close> has \<open>std::path\<close>, \<open>Cbth_Permissions\<close> the snapshot of a
  \<open>thread/resume\<close> response, \<open>Cbth_TurnStart\<close> the selection of a permission profile, \<open>Cbth_Pin\<close> the pinned
  policies and the memory of the adapter. \<open>Cbth_Pinning\<close>, \<open>Cbth_ProfileScope\<close> and \<open>Cbth_StartupCap\<close> show
  that the turn has no right that the first snapshot or the current one lacks: what a profile may grant is
  compared with what the profile or the sandbox of the snapshot grants, read off them independently of the
  cap the code computes. Two things are outside: flags with which the user declares what a session allows
  (\<open>--session-allows-network\<close>), and a readable root of the startup sandbox that is the empty path.

  \<^bold>\<open>The service.\<close>
    \<^item> \<open>Cbth_PluginRpc\<close>: frames and the hello; \<open>Cbth_PluginWire\<close>: they round-trip.
    \<^item> \<open>Cbth_Supervisor\<close>: the plugin registry, launches, exits, restart delays, identity of connections;
      \<open>Cbth_Supervision\<close>: launches end, and restarts back off.
    \<^item> \<open>Cbth_Calls\<close>: code of several threads as trees of atomic sections and questions to the environment,
      with a rely/guarantee proof rule (locale \<open>interference\<close>, interpreted on the service in
      \<open>Cbth_LeaseSafety\<close>). \<open>Cbth_Broker\<close> and \<open>Cbth_Leases\<close>: the app-server leases of plugin connections
      and their registry. \<open>Cbth_PluginDelivery\<close> and \<open>Cbth_PluginService\<close>: deliveries and the dispatch of
      the frames of a connection.
    \<^item> \<open>Cbth_LeaseSafety\<close>, \<open>Cbth_LeaseOps\<close>, \<open>Cbth_TurnOnce\<close>: any number of connections, interleaved at
      their atomic sections with one another and with all other operations of the store, keep the registry
      consistent, stop a lease only as its last holder, and start a turn at most once.
      \<open>Cbth_ServiceScenario\<close>: a concrete run.
    \<^item> \<open>Cbth_Driver\<close>: the driver that starts and reconciles the turns of deliveries over the client; a delivery
      is given up only when its turn was not started, and events are those the app server reported.
    \<open>cleanup_all_plugin_app_server_leases\<close> runs when the service ends and is not a step of a connection.

  \<^bold>\<open>Parameters.\<close> Writing a manifest file may fail: operations that rewrite manifests take \<open>rewrite\<close>,
  which says for which rows it succeeds. An event of the supervisor has one instant, and a replayed plugin
  delivery reads its rows at once, where the code reads the clock or the rows several times in a row. Fresh identifiers, random bytes and the clock are arguments. So
  are the JSON codec, SHA-256, name resolution and TCP connections, what spawning a process and waiting
  for it report, what the daemon answers (and the driver, to a
  connection), and whether the adapter's record of
  its permissions is written. Error texts that only people read are constructors or fixed strings.

  \<^bold>\<open>Not modelled.\<close> File, socket and process input and output, argument parsing and output formatting, the
  daemon's processes and its RPC dispatch (\<open>src/daemon.rs\<close>), self update (\<open>src/self_update.rs\<close>), the
  commands of \<open>src/cli.rs\<close> that only call the store, migration from older schemas, and panics: a lock
  poisoned by one is an error the code reports, and no lock is poisoned in the model.
\<close>

end
